(* ===== verification/Js_Prelude.thy ===== *)
theory Js_Prelude
  imports Complex_Main "HOL-Library.AList" "HOL-Library.Multiset"
begin

text \<open>
  What every component uses of the language: throwing computations, JSON values with the
  coercions and property reads of JavaScript, insertion-ordered \<open>Map\<close> and \<open>Set\<close>, the
  stable \<open>sort\<close>, the code-unit order of strings, and the character classes of the
  repository's patterns. The lemmas that the component theories share are here too.

  A string is a list of code units below 256. A \<open>Map\<close> is an association list in insertion
  order (\<open>AList.update\<close> is \<open>Map.set\<close>), a \<open>Set\<close> a list without repetition.
\<close>

section \<open>Hint collections\<close>

named_theorems throw_simps \<open>evaluation of throwing computations\<close>
named_theorems json_simps \<open>property reads and type tests on JSON values\<close>

section \<open>Computations that may throw\<close>

text \<open>\<open>Inl\<close> is the thrown error, \<open>Inr\<close> the returned value.\<close>

type_synonym ('e, 'a) result = "'e + 'a"

definition bind_result :: "('e, 'a) result \<Rightarrow> ('a \<Rightarrow> ('e, 'b) result) \<Rightarrow> ('e, 'b) result" where
  "bind_result r f = (case r of Inl e \<Rightarrow> Inl e | Inr a \<Rightarrow> f a)"

lemma bind_result_simps [simp, throw_simps]:
  "bind_result (Inl e) f = Inl e"
  "bind_result (Inr a) f = f a"
  by (simp_all add: bind_result_def)

lemma bind_result_eq_Inr:
  "bind_result r f = Inr b \<longleftrightarrow> (\<exists>a. r = Inr a \<and> f a = Inr b)"
  by (cases r) simp_all

lemma bind_result_eq_Inl:
  "bind_result r f = Inl e \<longleftrightarrow> r = Inl e \<or> (\<exists>a. r = Inr a \<and> f a = Inl e)"
  by (cases r) simp_all

lemma bind_result_assoc:
  "bind_result (bind_result r f) g = bind_result r (\<lambda>a. bind_result (f a) g)"
  by (cases r) simp_all

text \<open>A \<open>for ... of\<close> loop over a state, left at the first throw.\<close>

fun fold_result :: "('s \<Rightarrow> 'a \<Rightarrow> ('e, 's) result) \<Rightarrow> 's \<Rightarrow> 'a list \<Rightarrow> ('e, 's) result" where
  "fold_result f s [] = Inr s"
| "fold_result f s (x # xs) = bind_result (f s x) (\<lambda>s'. fold_result f s' xs)"

lemma fold_result_append:
  "fold_result f s (xs @ ys) = bind_result (fold_result f s xs) (\<lambda>s'. fold_result f s' ys)"
  by (induction xs arbitrary: s) (simp_all add: bind_result_assoc)

lemma bind_result_Inr [simp]: "bind_result r Inr = r"
  by (cases r) simp_all

lemma fold_result_snoc:
  "fold_result f s (xs @ [x]) = bind_result (fold_result f s xs) (\<lambda>s'. f s' x)"
  by (simp add: fold_result_append)

text \<open>An invariant that every step keeps holds after the loop.\<close>

lemma fold_result_invariant:
  assumes "fold_result f s xs = Inr s'" and "P s"
    and "\<And>t x t'. x \<in> set xs \<Longrightarrow> P t \<Longrightarrow> f t x = Inr t' \<Longrightarrow> P t'"
  shows "P s'"
  using assms
proof (induction xs arbitrary: s)
  case Nil
  then show ?case by simp
next
  case (Cons x xs)
  then obtain t where t: "f s x = Inr t" "fold_result f t xs = Inr s'"
    by (auto simp: bind_result_eq_Inr)
  have "P t" using Cons.prems(2) t(1) by (intro Cons.prems(3) [of x s t]) simp_all
  show ?case
    by (rule Cons.IH [OF t(2) \<open>P t\<close>]) (rule Cons.prems(3); simp)
qed

lemma fold_result_cong:
  assumes "\<And>t x. x \<in> set xs \<Longrightarrow> f t x = g t x"
  shows "fold_result f s xs = fold_result g s xs"
  using assms
proof (induction xs arbitrary: s)
  case (Cons x xs)
  then show ?case by (cases "g s x") simp_all
qed simp

section \<open>Strings\<close>

text \<open>The order of code units, which \<open>Array.prototype.sort\<close> uses without a comparator.\<close>

fun unit_cmp :: "string \<Rightarrow> string \<Rightarrow> int" where
  "unit_cmp [] [] = 0"
| "unit_cmp [] (_ # _) = -1"
| "unit_cmp (_ # _) [] = 1"
| "unit_cmp (a # as) (b # bs) =
     (if (of_char a :: nat) < of_char b then -1
      else if (of_char b :: nat) < of_char a then 1 else unit_cmp as bs)"

definition digit_char :: "char \<Rightarrow> bool" where
  "digit_char c \<longleftrightarrow> 48 \<le> (of_char c :: nat) \<and> (of_char c :: nat) \<le> 57"

definition alnum_char :: "char \<Rightarrow> bool" where
  "alnum_char c \<longleftrightarrow> digit_char c \<or> (65 \<le> (of_char c :: nat) \<and> (of_char c :: nat) \<le> 90)
     \<or> (97 \<le> (of_char c :: nat) \<and> (of_char c :: nat) \<le> 122)"

definition hex_char :: "char \<Rightarrow> bool" where
  "hex_char c \<longleftrightarrow> digit_char c \<or> (97 \<le> (of_char c :: nat) \<and> (of_char c :: nat) \<le> 102)"

text \<open>White space and line terminators of \<open>String.prototype.trim\<close> among the code units below 256.\<close>

definition space_char :: "char \<Rightarrow> bool" where
  "space_char c \<longleftrightarrow> (of_char c :: nat) \<in> {9, 10, 11, 12, 13, 32, 160}"

definition js_trim :: "string \<Rightarrow> string" where
  "js_trim s = rev (dropWhile space_char (rev (dropWhile space_char s)))"

lemma js_trim_Nil [simp]: "js_trim [] = []"
  by (simp add: js_trim_def)

definition lower_char :: "char \<Rightarrow> char" where
  "lower_char c = (if (65 \<le> (of_char c :: nat) \<and> (of_char c :: nat) \<le> 90) \<or>
       (192 \<le> (of_char c :: nat) \<and> (of_char c :: nat) \<le> 222 \<and> (of_char c :: nat) \<noteq> 215)
     then char_of ((of_char c :: nat) + 32) else c)"

definition to_lower :: "string \<Rightarrow> string" where
  "to_lower = map lower_char"

text \<open>\<open>s.includes(c)\<close> for a one-character needle.\<close>

definition includes_char :: "string \<Rightarrow> char \<Rightarrow> bool" where
  "includes_char s c \<longleftrightarrow> c \<in> set s"

definition nul :: char where "nul = CHR 0x00"

text \<open>Decimal text of a natural number, as template literals print it.\<close>

fun nat_text :: "nat \<Rightarrow> string" where
  "nat_text n = (if n < 10 then [char_of (48 + n)]
     else nat_text (n div 10) @ [char_of (48 + n mod 10)])"

declare nat_text.simps [simp del]

text \<open>\<open>xs.join(sep)\<close> on a list of strings.\<close>

fun join_text :: "string \<Rightarrow> string list \<Rightarrow> string" where
  "join_text sep [] = []"
| "join_text sep [s] = s"
| "join_text sep (s # t # ss) = s @ sep @ join_text sep (t # ss)"

section \<open>Sets and maps in insertion order\<close>

text \<open>\<open>[...new Set(xs)]\<close>: the first occurrence of each element.\<close>

definition js_unique :: "'a list \<Rightarrow> 'a list" where
  "js_unique xs = rev (remdups (rev xs))"

lemma set_js_unique [simp]: "set (js_unique xs) = set xs"
  and distinct_js_unique [simp]: "distinct (js_unique xs)"
  by (simp_all add: js_unique_def)

lemma js_unique_id: "distinct xs \<Longrightarrow> js_unique xs = xs"
  by (simp add: js_unique_def distinct_remdups_id)

text \<open>\<open>Map.set\<close> is \<open>AList.update\<close>; these are the laws the components use.\<close>

abbreviation map_set :: "'k \<Rightarrow> 'v \<Rightarrow> ('k \<times> 'v) list \<Rightarrow> ('k \<times> 'v) list" where
  "map_set \<equiv> AList.update"

lemma map_of_map_set [simp]: "map_of (map_set k v m) l = (if l = k then Some v else map_of m l)"
  by (simp add: update_conv')

lemma map_set_same: "map_of m k = Some v \<Longrightarrow> map_set k v m = m"
  by (induction m) (auto split: if_splits)

lemma keys_map_set: "fst ` set (map_set k v m) = insert k (fst ` set m)"
  by (induction m) auto

lemma distinct_keys_map_set [simp]:
  "distinct (map fst (map_set k v m)) = distinct (map fst m)"
  by (induction m) (auto simp: keys_map_set image_iff dest: sym)

lemma set_map_set: "x \<in> set (map_set k v m) \<Longrightarrow> x = (k, v) \<or> x \<in> set m"
  by (induction m) (auto split: if_splits)

lemma map_of_values: "map_of m k = Some v \<Longrightarrow> v \<in> set (map snd m)"
  by (force dest: map_of_SomeD)

section \<open>Comparators and the stable sort\<close>

text \<open>\<open>a.x.localeCompare(b.x) || b.y...\<close>: the second comparison decides ties of the first.\<close>

definition or_else :: "int \<Rightarrow> int \<Rightarrow> int" where
  "or_else a b = (if a \<noteq> 0 then a else b)"

text \<open>
  The contract of a comparator passed to \<open>sort\<close>: a total preorder given by the sign of an
  integer. The sort itself is \<open>js_sort\<close>; with a comparator that meets the contract its result
  is the one list ECMAScript allows (sorted, and stable).
\<close>

locale comparator =
  fixes cmp :: "'a \<Rightarrow> 'a \<Rightarrow> int"
  assumes cmp_refl: "cmp x x = 0"
    and cmp_antisym: "cmp x y \<le> 0 \<longleftrightarrow> 0 \<le> cmp y x"
    and cmp_trans: "cmp x y \<le> 0 \<Longrightarrow> cmp y z \<le> 0 \<Longrightarrow> cmp x z \<le> 0"

fun js_insert :: "('a \<Rightarrow> 'a \<Rightarrow> int) \<Rightarrow> 'a \<Rightarrow> 'a list \<Rightarrow> 'a list" where
  "js_insert cmp x [] = [x]"
| "js_insert cmp x (y # ys) = (if cmp x y \<le> 0 then x # y # ys else y # js_insert cmp x ys)"

definition js_sort :: "('a \<Rightarrow> 'a \<Rightarrow> int) \<Rightarrow> 'a list \<Rightarrow> 'a list" where
  "js_sort cmp xs = foldr (js_insert cmp) xs []"

lemma js_sort_simps [simp]:
  "js_sort cmp [] = []"
  "js_sort cmp (x # xs) = js_insert cmp x (js_sort cmp xs)"
  by (simp_all add: js_sort_def)

lemma mset_js_insert [simp]: "mset (js_insert cmp x xs) = add_mset x (mset xs)"
  by (induction xs) auto

lemma mset_js_sort [simp]: "mset (js_sort cmp xs) = mset xs"
  by (induction xs) auto

lemma set_js_sort [simp]: "set (js_sort cmp xs) = set xs"
  by (metis mset_js_sort set_mset_mset)

lemma length_js_sort [simp]: "length (js_sort cmp xs) = length xs"
  by (metis mset_js_sort size_mset)

lemma js_sort_eq_Nil_iff [simp]: "js_sort cmp xs = [] \<longleftrightarrow> xs = []"
  by (metis length_0_conv length_js_sort)

lemma distinct_js_sort [simp]: "distinct (js_sort cmp xs) = distinct xs"
  by (metis mset_eq_imp_distinct_iff mset_js_sort)

lemma js_insert_front:
  "(\<And>y. y \<in> set xs \<Longrightarrow> cmp x y \<le> 0) \<Longrightarrow> js_insert cmp x xs = x # xs"
  by (cases xs) auto

lemma js_sort_id:
  "sorted_wrt (\<lambda>x y. cmp x y \<le> 0) xs \<Longrightarrow> js_sort cmp xs = xs"
  by (induction xs) (auto simp: js_insert_front)

lemma js_insert_map: "js_insert cmp (f x) (map f xs) = map f (js_insert (\<lambda>a b. cmp (f a) (f b)) x xs)"
  by (induction xs) auto

lemma js_sort_map: "js_sort cmp (map f xs) = map f (js_sort (\<lambda>a b. cmp (f a) (f b)) xs)"
  by (induction xs) (auto simp: js_insert_map)

lemma js_insert_cong:
  assumes "\<And>y. y \<in> set xs \<Longrightarrow> cmp x y = cmp' x y"
  shows "js_insert cmp x xs = js_insert cmp' x xs"
  using assms by (induction xs) auto

lemma js_sort_cong:
  assumes "\<And>x y. x \<in> set xs \<Longrightarrow> y \<in> set xs \<Longrightarrow> cmp x y = cmp' x y"
  shows "js_sort cmp xs = js_sort cmp' xs"
  using assms
proof (induction xs)
  case (Cons x xs)
  then have "js_sort cmp xs = js_sort cmp' xs" by simp
  moreover have "js_insert cmp x ys = js_insert cmp' x ys" if "set ys = set xs" for ys
    using Cons.prems that by (intro js_insert_cong) auto
  ultimately show ?case by simp
qed simp

lemma js_sort_cong_distinct:
  assumes "distinct xs" and "\<And>x y. x \<in> set xs \<Longrightarrow> y \<in> set xs \<Longrightarrow> x \<noteq> y \<Longrightarrow> cmp x y = cmp' x y"
  shows "js_sort cmp xs = js_sort cmp' xs"
  using assms
proof (induction xs)
  case (Cons x xs)
  then have "js_sort cmp xs = js_sort cmp' xs" by simp
  moreover have "js_insert cmp x ys = js_insert cmp' x ys" if "set ys = set xs" for ys
    using Cons.prems that by (intro js_insert_cong) auto
  ultimately show ?case by simp
qed simp

context comparator begin

lemma cmp_total: "cmp x y \<le> 0 \<or> cmp y x \<le> 0"
  using cmp_antisym [of x y] by linarith

lemma cmp_not_le: "\<not> cmp x y \<le> 0 \<Longrightarrow> cmp y x \<le> 0"
  using cmp_total by blast

lemma insert_sorted:
  "sorted_wrt (\<lambda>x y. cmp x y \<le> 0) xs \<Longrightarrow> sorted_wrt (\<lambda>x y. cmp x y \<le> 0) (js_insert cmp x xs)"
proof (induction xs)
  case (Cons y ys)
  show ?case
  proof (cases "cmp x y \<le> 0")
    case True
    with Cons.prems show ?thesis by (auto intro: cmp_trans)
  next
    case False
    then have "cmp y x \<le> 0" by (rule cmp_not_le)
    moreover have "set (js_insert cmp x ys) = insert x (set ys)"
      by (metis mset_js_insert set_mset_mset set_mset_add_mset_insert)
    ultimately show ?thesis using False Cons by auto
  qed
qed simp

lemma sort_sorted: "sorted_wrt (\<lambda>x y. cmp x y \<le> 0) (js_sort cmp xs)"
  by (induction xs) (auto intro: insert_sorted)

lemma last_sort_max: "x \<in> set xs \<Longrightarrow> cmp x (last (js_sort cmp xs)) \<le> 0"
proof -
  assume x: "x \<in> set xs"
  then have ne: "js_sort cmp xs \<noteq> []" by auto
  then obtain ys z where yz: "js_sort cmp xs = ys @ [z]" by (metis append_butlast_last_id)
  have "sorted_wrt (\<lambda>x y. cmp x y \<le> 0) (ys @ [z])" using sort_sorted [of xs] yz by simp
  moreover have "x \<in> set (ys @ [z])" using x yz by (metis set_js_sort)
  ultimately show ?thesis using yz by (auto simp: sorted_wrt_append cmp_refl)
qed

text \<open>Two sorted arrangements of the same elements agree when equal rank means equal element.\<close>

lemma sorted_unique:
  assumes "mset xs = mset ys"
    and "sorted_wrt (\<lambda>x y. cmp x y \<le> 0) xs" and "sorted_wrt (\<lambda>x y. cmp x y \<le> 0) ys"
    and "\<And>x y. x \<in> set xs \<Longrightarrow> y \<in> set xs \<Longrightarrow> cmp x y = 0 \<Longrightarrow> x = y"
  shows "xs = ys"
  using assms
proof (induction xs arbitrary: ys)
  case (Cons x xs)
  then obtain y ys' where ys: "ys = y # ys'" by (cases ys) auto
  have "x \<in> set ys" "y \<in> set (x # xs)"
    using Cons.prems(1) ys by (metis list.set_intros(1) mset_eq_setD)+
  then have "cmp x y \<le> 0" "cmp y x \<le> 0"
    using Cons.prems(2,3) ys by (auto simp: cmp_refl)
  then have "cmp x y = 0" using cmp_antisym [of y x] by linarith
  then have xy: "x = y" using Cons.prems(4) \<open>y \<in> set (x # xs)\<close> by simp
  moreover have "xs = ys'"
    using Cons.prems xy ys by (intro Cons.IH) auto
  ultimately show ?case using ys by simp
qed simp

lemma sort_permutation:
  assumes "mset xs = mset ys"
    and "\<And>x y. x \<in> set xs \<Longrightarrow> y \<in> set xs \<Longrightarrow> cmp x y = 0 \<Longrightarrow> x = y"
  shows "js_sort cmp xs = js_sort cmp ys"
  by (rule sorted_unique) (use assms sort_sorted in auto)

end

lemma unit_cmp_refl [simp]: "unit_cmp x x = 0"
  by (induction x) simp_all

lemma unit_cmp_antisym: "unit_cmp x y \<le> 0 \<longleftrightarrow> 0 \<le> unit_cmp y x"
  by (induction x y rule: unit_cmp.induct) auto

lemma unit_cmp_0_iff: "unit_cmp x y = 0 \<longleftrightarrow> x = y"
  by (induction x y rule: unit_cmp.induct) (auto simp: not_less)

lemma unit_cmp_trans: "unit_cmp x y \<le> 0 \<Longrightarrow> unit_cmp y z \<le> 0 \<Longrightarrow> unit_cmp x z \<le> 0"
proof (induction x y arbitrary: z rule: unit_cmp.induct)
  case 1
  then show ?case by simp
next
  case (2 b bs)
  then show ?case by (cases z) simp_all
next
  case (3 a as)
  then show ?case by simp
next
  case (4 a as b bs)
  show ?case
  proof (cases z)
    case Nil
    with 4 show ?thesis by simp
  next
    case (Cons c cs)
    have step: "unit_cmp as bs \<le> 0 \<Longrightarrow> unit_cmp bs cs \<le> 0 \<Longrightarrow> unit_cmp as cs \<le> 0"
      if "(of_char a :: nat) = of_char b"
      using 4(1) that by simp
    have le: "unit_cmp (u # us) (v # vs) \<le> 0 \<longleftrightarrow> (of_char u :: nat) < of_char v \<or>
        (of_char u :: nat) = of_char v \<and> unit_cmp us vs \<le> 0" for u us v vs
      by auto
    show ?thesis
      using 4(2,3) step less_trans [of "of_char a :: nat" "of_char b" "of_char c"]
      unfolding Cons le by metis
  qed
qed

interpretation units: comparator unit_cmp
proof
  fix x y z :: string
  show "unit_cmp x x = 0" by simp
  show "unit_cmp x y \<le> 0 \<longleftrightarrow> 0 \<le> unit_cmp y x" by (rule unit_cmp_antisym)
  show "unit_cmp x y \<le> 0 \<Longrightarrow> unit_cmp y z \<le> 0 \<Longrightarrow> unit_cmp x z \<le> 0"
    by (rule unit_cmp_trans)
qed

end
