(* ===== verification/Js_Json.thy ===== *)
theory Js_Json
  imports Js_Prelude
begin

text \<open>
  Values of the language as the validators see them (before any type is known), with the
  coercions they apply, and the two text forms the code compares: \<open>JSON.stringify\<close> and
  the sorted form of \<open>sortJsonValue\<close>. The host's collation, digest and number printing are
  the fields of \<open>runtime\<close>; nothing is assumed of them unless a lemma says so.
\<close>

section \<open>The host runtime\<close>

record runtime =
  collate :: "string \<Rightarrow> string \<Rightarrow> int"   \<comment> \<open>\<open>a.localeCompare(b)\<close>\<close>
  sha256_hex :: "string \<Rightarrow> string"        \<comment> \<open>hexadecimal SHA-256 of the UTF-8 text\<close>
  num_text :: "rat \<Rightarrow> string"             \<comment> \<open>\<open>Number::toString\<close> of a finite number\<close>

section \<open>Values\<close>

datatype jsnum = Fin rat | NaN | PosInf | NegInf

datatype json =
    JUndefined
  | JNull
  | JBool bool
  | JNum jsnum
  | JStr string
  | JArr "json list"
  | JObj "(string \<times> json) list"

abbreviation JInt :: "int \<Rightarrow> json" where
  "JInt i \<equiv> JNum (Fin (of_int i))"

text \<open>\<open>typeof v === "object" && v && !Array.isArray(v)\<close>.\<close>

fun is_record :: "json \<Rightarrow> bool" where
  "is_record (JObj _) = True"
| "is_record _ = False"

fun is_array :: "json \<Rightarrow> bool" where
  "is_array (JArr _) = True"
| "is_array _ = False"

fun is_string :: "json \<Rightarrow> bool" where
  "is_string (JStr _) = True"
| "is_string _ = False"

fun is_boolean :: "json \<Rightarrow> bool" where
  "is_boolean (JBool _) = True"
| "is_boolean _ = False"

text \<open>\<open>Number.isInteger\<close>, which does not coerce.\<close>

fun is_integer :: "json \<Rightarrow> bool" where
  "is_integer (JNum (Fin r)) \<longleftrightarrow> r \<in> \<int>"
| "is_integer _ = False"

lemma is_integer_code [code]:
  "is_integer (JNum (Fin r)) \<longleftrightarrow> snd (quotient_of r) = 1"
  "is_integer (JNum NaN) = False"
  "is_integer (JNum PosInf) = False"
  "is_integer (JNum NegInf) = False"
  "is_integer JUndefined = False"
  "is_integer JNull = False"
  "is_integer (JBool b) = False"
  "is_integer (JStr s) = False"
  "is_integer (JArr xs) = False"
  "is_integer (JObj kvs) = False"
proof -
  have "r \<in> \<int> \<longleftrightarrow> snd (quotient_of r) = 1"
  proof
    assume "r \<in> \<int>"
    then obtain i where "r = of_int i" by (auto elim: Ints_cases)
    then show "snd (quotient_of r) = 1" by simp
  next
    assume d: "snd (quotient_of r) = 1"
    obtain p q where pq: "quotient_of r = (p, q)" by force
    then have "r = of_int p / of_int q" by (rule quotient_of_div)
    with d pq show "r \<in> \<int>" by simp
  qed
  then show "is_integer (JNum (Fin r)) \<longleftrightarrow> snd (quotient_of r) = 1" by simp
qed simp_all

text \<open>\<open>a < b\<close> between a number and a bound, false as soon as one side is not a number.\<close>

fun num_less :: "jsnum \<Rightarrow> jsnum \<Rightarrow> bool" where
  "num_less (Fin a) (Fin b) \<longleftrightarrow> a < b"
| "num_less NegInf (Fin _) = True"
| "num_less NegInf PosInf = True"
| "num_less (Fin _) PosInf = True"
| "num_less _ _ = False"

text \<open>Truthiness.\<close>

fun truthy :: "json \<Rightarrow> bool" where
  "truthy JUndefined = False"
| "truthy JNull = False"
| "truthy (JBool b) = b"
| "truthy (JNum (Fin r)) \<longleftrightarrow> r \<noteq> 0"
| "truthy (JNum NaN) = False"
| "truthy (JNum _) = True"
| "truthy (JStr s) \<longleftrightarrow> s \<noteq> []"
| "truthy _ = True"

text \<open>A property read on an object; the caller has ruled out \<open>null\<close> and \<open>undefined\<close>.\<close>

fun get_prop :: "json \<Rightarrow> string \<Rightarrow> json" where
  "get_prop (JObj kvs) k = (case map_of kvs k of None \<Rightarrow> JUndefined | Some v \<Rightarrow> v)"
| "get_prop _ _ = JUndefined"

fun prop_keys :: "json \<Rightarrow> string list" where
  "prop_keys (JObj kvs) = map fst kvs"
| "prop_keys _ = []"

text \<open>The text of a number.\<close>

fun jsnum_text :: "runtime \<Rightarrow> jsnum \<Rightarrow> string" where
  "jsnum_text rt (Fin r) = num_text rt r"
| "jsnum_text rt NaN = ''NaN''"
| "jsnum_text rt PosInf = ''Infinity''"
| "jsnum_text rt NegInf = ''-Infinity''"

text \<open>\<open>String(v)\<close>, the coercion that \<open>RegExp.test\<close> and template literals apply.\<close>

fun to_text :: "runtime \<Rightarrow> json \<Rightarrow> string" where
  "to_text rt JUndefined = ''undefined''"
| "to_text rt JNull = ''null''"
| "to_text rt (JBool b) = (if b then ''true'' else ''false'')"
| "to_text rt (JNum n) = jsnum_text rt n"
| "to_text rt (JStr s) = s"
| "to_text rt (JArr xs) = join_text '',''
     (map (\<lambda>x. if x = JUndefined \<or> x = JNull then [] else to_text rt x) xs)"
| "to_text rt (JObj _) = ''[object Object]''"

section \<open>Own-property order and \<open>Object.fromEntries\<close>\<close>

text \<open>Array-index keys come first in numeric order, the others in insertion order.\<close>

definition digits_value :: "string \<Rightarrow> nat" where
  "digits_value s = foldl (\<lambda>n c. 10 * n + (of_char c - 48)) 0 s"

definition index_key :: "string \<Rightarrow> bool" where
  "index_key s \<longleftrightarrow> s \<noteq> [] \<and> list_all digit_char s \<and> (s = ''0'' \<or> hd s \<noteq> CHR ''0'')
     \<and> length s \<le> 10 \<and> digits_value s < 4294967295"

definition index_cmp :: "string \<times> 'a \<Rightarrow> string \<times> 'a \<Rightarrow> int" where
  "index_cmp a b = int (digits_value (fst a)) - int (digits_value (fst b))"

definition own_order :: "(string \<times> 'a) list \<Rightarrow> (string \<times> 'a) list" where
  "own_order kvs = js_sort index_cmp (filter (\<lambda>(k, _). index_key k) kvs)
     @ filter (\<lambda>(k, _). \<not> index_key k) kvs"

lemma mset_own_order [simp]: "mset (own_order kvs) = mset kvs"
proof -
  have "{#x \<in># mset kvs. case x of (k, _) \<Rightarrow> \<not> index_key k#}
      = {#x \<in># mset kvs. \<not> (case x of (k, _) \<Rightarrow> index_key k)#}"
    by (intro filter_mset_cong) auto
  then show ?thesis
    by (simp add: own_order_def flip: multiset_partition)
qed

lemma set_own_order [simp]: "set (own_order kvs) = set kvs"
  by (metis mset_own_order set_mset_mset)

section \<open>Text forms\<close>

definition hex_digit :: "nat \<Rightarrow> char" where
  "hex_digit n = (if n < 10 then char_of (48 + n) else char_of (87 + n))"

definition escape_char :: "char \<Rightarrow> string" where
  "escape_char c =
     (if c = CHR 0x22 then [CHR 0x5C, CHR 0x22]
      else if c = CHR 0x5C then [CHR 0x5C, CHR 0x5C]
      else if c = CHR 0x08 then [CHR 0x5C, CHR ''b'']
      else if c = CHR 0x09 then [CHR 0x5C, CHR ''t'']
      else if c = CHR 0x0A then [CHR 0x5C, CHR ''n'']
      else if c = CHR 0x0C then [CHR 0x5C, CHR ''f'']
      else if c = CHR 0x0D then [CHR 0x5C, CHR ''r'']
      else if (of_char c :: nat) < 32
        then [CHR 0x5C, CHR ''u'', CHR ''0'', CHR ''0'',
              hex_digit (of_char c div 16), hex_digit (of_char c mod 16)]
      else [c])"

definition quote_text :: "string \<Rightarrow> string" where
  "quote_text s = CHR 0x22 # concat (map escape_char s) @ [CHR 0x22]"

fun finite_num_text :: "runtime \<Rightarrow> jsnum \<Rightarrow> string" where
  "finite_num_text rt (Fin r) = num_text rt r"
| "finite_num_text rt _ = ''null''"

text \<open>
  \<open>JSON.stringify\<close>: an undefined member is dropped, an undefined element is \<open>null\<close>, and a
  number that is not finite is \<open>null\<close>.
\<close>

fun stringify :: "runtime \<Rightarrow> json \<Rightarrow> string" where
  "stringify rt JUndefined = ''null''"
| "stringify rt JNull = ''null''"
| "stringify rt (JBool b) = (if b then ''true'' else ''false'')"
| "stringify rt (JNum n) = finite_num_text rt n"
| "stringify rt (JStr s) = quote_text s"
| "stringify rt (JArr xs) = ''['' @ join_text '','' (map (stringify rt) xs) @ '']''"
| "stringify rt (JObj kvs) = ''{'' @ join_text '',''
     (map (\<lambda>(k, v). quote_text k @ '':'' @ stringify rt v)
        (filter (\<lambda>(k, v). v \<noteq> JUndefined) kvs)) @ ''}''"

text \<open>\<open>sortJsonValue\<close> of the event modules: keys in collation order at every depth.\<close>

lemma size_json_member: "(k, v) \<in> set kvs \<Longrightarrow> size v < size (JObj kvs)"
  by (induction kvs) auto

definition sort_keys :: "runtime \<Rightarrow> (string \<times> 'a) list \<Rightarrow> (string \<times> 'a) list" where
  "sort_keys rt = js_sort (\<lambda>a b. collate rt (fst a) (fst b))"

lemma mset_sort_keys [simp]: "mset (sort_keys rt kvs) = mset kvs"
  and set_sort_keys [simp]: "set (sort_keys rt kvs) = set kvs"
  by (simp_all add: sort_keys_def)

function sort_json :: "runtime \<Rightarrow> json \<Rightarrow> json" where
  "sort_json rt (JArr xs) = JArr (map (sort_json rt) xs)"
| "sort_json rt (JObj kvs) = JObj (own_order (map (\<lambda>(k, v). (k, sort_json rt v)) (sort_keys rt kvs)))"
| "sort_json rt JUndefined = JUndefined"
| "sort_json rt JNull = JNull"
| "sort_json rt (JBool b) = JBool b"
| "sort_json rt (JNum n) = JNum n"
| "sort_json rt (JStr s) = JStr s"
  by pat_completeness auto
termination
proof (relation "measure (\<lambda>(rt, j). size j)")
  show "((rt, x), (rt, JArr xs)) \<in> measure (\<lambda>(rt, j). size j)" if "x \<in> set xs" for rt :: runtime and x xs
    using that by (induction xs) auto
next
  fix rt :: runtime and kvs :: "(string \<times> json) list" and z x y
  assume "z \<in> set (sort_keys rt kvs)" and "(x, y) = z"
  then show "((rt, y), (rt, JObj kvs)) \<in> measure (\<lambda>(rt, j). size j)"
    using size_json_member [of x y kvs] by auto
qed auto

text \<open>\<open>stableJson\<close>.\<close>

definition stable_json :: "runtime \<Rightarrow> json \<Rightarrow> string" where
  "stable_json rt j = stringify rt (sort_json rt j)"

section \<open>Objects up to the order of their keys\<close>

text \<open>
  Two values are the same record when they differ only in the order of object members.
  \<open>json_wf\<close> says that no object has two members of one name, as every object of the
  language has.
\<close>

fun json_wf :: "json \<Rightarrow> bool" where
  "json_wf (JArr xs) \<longleftrightarrow> (\<forall>x \<in> set xs. json_wf x)"
| "json_wf (JObj kvs) \<longleftrightarrow> distinct (map fst kvs) \<and> (\<forall>p \<in> set kvs. json_wf (snd p))"
| "json_wf _ = True"

lemma get_prop_simps [json_simps]:
  "get_prop (JObj kvs) k = (case map_of kvs k of None \<Rightarrow> JUndefined | Some v \<Rightarrow> v)"
  by simp

end
