(* ===== verification/Js_Number.thy ===== *)
theory Js_Number
  imports Js_Json
begin

text \<open>
  The arithmetic of the percentages. A quotient of two counts and its product with 100 are
  rounded to double precision after each operation, as the language does, and then by
  \<open>Math.round\<close>; on exact fractions the last step would differ (29/200 is 14.5 per cent, but
  the doubles give 14.499999999999998 and so 14). The rounding is to 53 significant bits, ties
  to even; the range of the exponent is not bounded, as the operands here are counts below
  \<open>2 ^ 53\<close>.
\<close>

section \<open>Double precision\<close>

definition round_half_even :: "rat \<Rightarrow> int" where
  "round_half_even x = (let n = \<lfloor>x\<rfloor>; d = x - of_int n
     in if d < 1 / 2 then n else if d > 1 / 2 then n + 1 else if even n then n else n + 1)"

text \<open>The number of binary digits.\<close>

function bit_count :: "int \<Rightarrow> nat" where
  "bit_count n = (if n \<le> 0 then 0 else Suc (bit_count (n div 2)))"
  by pat_completeness auto
termination
  by (relation "measure nat") auto

declare bit_count.simps [simp del]

definition exponent :: "rat \<Rightarrow> int" where
  "exponent r = (let (p, q) = quotient_of r;
       k = int (bit_count p) - int (bit_count q)
     in if 2 powi k \<le> r then k else k - 1)"

definition double_of :: "rat \<Rightarrow> rat" where
  "double_of r = (if r = 0 then 0
     else let u = 2 powi (exponent r - 52) in of_int (round_half_even (r / u)) * u)"

text \<open>\<open>Math.round\<close>: to the nearest integer, ties upwards.\<close>

definition math_round :: "rat \<Rightarrow> int" where
  "math_round x = \<lfloor>x + 1 / 2\<rfloor>"

text \<open>\<open>Math.round((a / b) * 100)\<close> for two counts.\<close>

definition js_percent :: "nat \<Rightarrow> nat \<Rightarrow> jsnum" where
  "js_percent a b =
     (if b = 0 then (if a = 0 then NaN else PosInf)
      else Fin (of_int (math_round (double_of (double_of (of_nat a / of_nat b) * 100)))))"

lemma floor_plus_half_mono: "(x::rat) \<le> y \<Longrightarrow> math_round x \<le> math_round y"
  by (simp add: math_round_def floor_mono)

lemma math_round_of_int [simp]: "math_round (of_int i) = i"
  unfolding math_round_def by (rule floor_unique) simp_all

lemma math_round_num: "math_round 0 = 0" "math_round 100 = 100"
  using math_round_of_int [of 0] math_round_of_int [of 100] by simp_all

lemma round_half_even_of_int [simp]: "round_half_even (of_int n) = n"
  by (simp add: round_half_even_def)

lemma round_half_even_mono:
  assumes "x \<le> y"
  shows "round_half_even x \<le> round_half_even y"
proof (cases "\<lfloor>x\<rfloor> = \<lfloor>y\<rfloor>")
  case True
  with assms show ?thesis by (auto simp: round_half_even_def Let_def)
next
  case False
  with assms have "\<lfloor>x\<rfloor> + 1 \<le> \<lfloor>y\<rfloor>" using floor_mono [of x y] by linarith
  moreover have "round_half_even x \<le> \<lfloor>x\<rfloor> + 1" "\<lfloor>y\<rfloor> \<le> round_half_even y"
    by (simp_all add: round_half_even_def Let_def)
  ultimately show ?thesis by linarith
qed

lemma bit_count_bounds:
  "0 < n \<Longrightarrow> 0 < bit_count n \<and> 2 ^ (bit_count n - 1) \<le> n \<and> n < 2 ^ bit_count n"
proof (induction n rule: bit_count.induct)
  case (1 n)
  show ?case
  proof (cases "n = 1")
    case True
    then show ?thesis by (simp add: bit_count.simps [of 1] bit_count.simps [of 0])
  next
    case False
    with "1.prems" have "0 < n div 2" by linarith
    with "1.IH" "1.prems" have IH: "0 < bit_count (n div 2)"
      "2 ^ (bit_count (n div 2) - 1) \<le> n div 2" "n div 2 < 2 ^ bit_count (n div 2)" by auto
    have c: "bit_count n = Suc (bit_count (n div 2))"
      using "1.prems" by (simp add: bit_count.simps [of n])
    obtain k where k: "bit_count (n div 2) = Suc k" using IH(1) by (cases "bit_count (n div 2)") auto
    have "2 * (n div 2) \<le> n" "n < 2 * (n div 2) + 2" by linarith+
    moreover have "n div 2 + 1 \<le> 2 ^ Suc k" using IH(3) unfolding k by simp
    ultimately show ?thesis using IH(2) by (simp add: c k)
  qed
qed

text \<open>The exponent is the binary order of magnitude.\<close>

lemma exponent_bounds:
  assumes "0 < r"
  shows "2 powi exponent r \<le> r" and "r < 2 powi (exponent r + 1)"
proof -
  obtain p q where pq: "quotient_of r = (p, q)" by force
  then have q: "0 < q" by (rule quotient_of_denom_pos)
  have r: "r = of_int p / of_int q" using pq by (rule quotient_of_div)
  with assms q have p: "0 < p" by (simp add: zero_less_divide_iff)
  define a where "a = bit_count p"
  define b where "b = bit_count q"
  have a0: "0 < a" "0 < b"
    and i: "2 ^ (a - 1) \<le> p" "p < 2 ^ a" "2 ^ (b - 1) \<le> q" "q < 2 ^ b"
    using bit_count_bounds p q by (simp_all add: a_def b_def)
  have ab: "2 ^ (a - 1) \<le> (of_int p :: rat)" "(of_int p :: rat) < 2 ^ a"
    "2 ^ (b - 1) \<le> (of_int q :: rat)" "(of_int q :: rat) < 2 ^ b"
    using i by (metis of_int_le_iff of_int_less_iff of_int_numeral of_int_power)+
  have pow: "(2::rat) powi (int m - int n) = 2 ^ m / 2 ^ n" for m n
    by (simp add: power_int_diff)
  have "2 powi (int (a - 1) - int b) \<le> r"
    unfolding pow r using ab p q by (intro frac_le) simp_all
  moreover have "r < 2 powi (int a - int (b - 1))"
    unfolding pow r using ab p q by (intro frac_less) simp_all
  ultimately have lo: "2 powi (int a - int b - 1) \<le> r" and hi: "r < 2 powi (int a - int b + 1)"
    using a0 by (simp_all add: of_nat_diff algebra_simps)
  have e: "exponent r = (if 2 powi (int a - int b) \<le> r then int a - int b else int a - int b - 1)"
    by (simp add: exponent_def pq a_def b_def)
  show "2 powi exponent r \<le> r" using lo by (simp add: e)
  show "r < 2 powi (exponent r + 1)" using hi by (simp add: e)
qed

lemma double_of_binade:
  assumes "0 < r"
  shows "2 powi exponent r \<le> double_of r" and "double_of r \<le> 2 powi (exponent r + 1)"
proof -
  define u :: rat where "u = 2 powi (exponent r - 52)"
  have u: "0 < u" by (simp add: u_def)
  have e: "2 powi exponent r = of_int (2 ^ 52) * u" "2 powi (exponent r + 1) = of_int (2 ^ 53) * u"
    by (simp_all add: u_def power_int_diff power_int_add)
  have "of_int (2 ^ 52) \<le> r / u" "r / u \<le> of_int (2 ^ 53)"
    using exponent_bounds [OF assms] u unfolding e by (simp_all add: field_simps)
  then have "2 ^ 52 \<le> round_half_even (r / u)" "round_half_even (r / u) \<le> 2 ^ 53"
    by (metis round_half_even_mono round_half_even_of_int)+
  then have "(of_int (2 ^ 52) :: rat) \<le> of_int (round_half_even (r / u))"
    "of_int (round_half_even (r / u)) \<le> (of_int (2 ^ 53) :: rat)"
    by (simp_all only: of_int_le_iff)
  moreover have "double_of r = of_int (round_half_even (r / u)) * u"
    using assms by (simp add: double_of_def u_def Let_def)
  ultimately show "2 powi exponent r \<le> double_of r" "double_of r \<le> 2 powi (exponent r + 1)"
    unfolding e using u by (simp_all only: mult_right_mono less_imp_le)
qed

lemma double_of_0 [simp]: "double_of 0 = 0"
  by (simp add: double_of_def)

lemma double_of_nonneg: "0 \<le> r \<Longrightarrow> 0 \<le> double_of r"
  using double_of_binade(1) [of r] by (cases "r = 0") (auto intro: order_trans [rotated])

lemma double_of_mono:
  assumes "0 \<le> x" and "x \<le> y"
  shows "double_of x \<le> double_of y"
proof (cases "x = 0")
  case True
  then show ?thesis using assms double_of_nonneg by simp
next
  case False
  then have pos: "0 < x" "0 < y" using assms by simp_all
  have le: "exponent x \<le> exponent y"
  proof (rule ccontr)
    assume "\<not> ?thesis"
    then have "(2::rat) powi (exponent y + 1) \<le> 2 powi exponent x"
      by (intro power_int_increasing) simp_all
    with exponent_bounds [OF pos(1)] exponent_bounds [OF pos(2)] assms(2) show False by linarith
  qed
  show ?thesis
  proof (cases "exponent x = exponent y")
    case True
    define u :: rat where "u = 2 powi (exponent y - 52)"
    have "0 < u" by (simp add: u_def)
    then have "round_half_even (x / u) \<le> round_half_even (y / u)"
      using assms by (intro round_half_even_mono divide_right_mono) simp_all
    with \<open>0 < u\<close> pos True show ?thesis
      by (simp add: double_of_def u_def [symmetric] Let_def)
  next
    case False
    then have "(2::rat) powi (exponent x + 1) \<le> 2 powi exponent y"
      using le by (intro power_int_increasing) simp_all
    then show ?thesis
      using double_of_binade(2) [OF pos(1)] double_of_binade(1) [OF pos(2)] by linarith
  qed
qed

lemma double_of_1: "double_of 1 = 1" and double_of_100: "double_of 100 = 100"
  by code_simp+

text \<open>The percentage of a part of a whole lies between 0 and 100, and grows with the part.\<close>

lemma js_percent_bounds:
  assumes "a \<le> b" and "0 < b"
  shows "\<exists>i. js_percent a b = Fin (of_int i) \<and> 0 \<le> i \<and> i \<le> 100"
proof -
  have "(of_nat a :: rat) / of_nat b \<le> 1" using assms by simp
  then have "double_of (of_nat a / of_nat b) \<le> 1"
    using double_of_mono [of "of_nat a / of_nat b" 1] double_of_1 by simp
  moreover have nn: "0 \<le> double_of (of_nat a / of_nat b)" by (simp add: double_of_nonneg)
  ultimately have "double_of (double_of (of_nat a / of_nat b) * 100) \<le> 100"
    using double_of_mono [of "double_of (of_nat a / of_nat b) * 100" 100] double_of_100 by simp
  then have "math_round (double_of (double_of (of_nat a / of_nat b) * 100)) \<le> math_round 100"
    by (rule floor_plus_half_mono)
  moreover have "math_round 0 \<le> math_round (double_of (double_of (of_nat a / of_nat b) * 100))"
    using nn by (intro floor_plus_half_mono double_of_nonneg) simp
  ultimately show ?thesis
    using assms by (auto simp: js_percent_def math_round_num)
qed

lemma js_percent_complete: "0 < b \<Longrightarrow> js_percent b b = Fin 100"
  by (simp add: js_percent_def double_of_1 double_of_100 math_round_num)

lemma js_percent_none: "0 < b \<Longrightarrow> js_percent 0 b = Fin 0"
  by (simp add: js_percent_def math_round_num)

end
