(* ===== verification/Js_Arith.thy ===== *)
theory Js_Arith
  imports Js_Number
begin

text \<open>
  The arithmetic and the comparisons of the language's numbers, as far as the scoring code uses
  them: sums, quotients, products, \<open>Math.round\<close>, \<open>Math.max\<close> and the four comparisons, with
  \<open>NaN\<close> and the infinities. A finite result is rounded to double precision (53 bits, ties to even);
  the exponent is not bounded and the sign of zero is not kept.
\<close>

text \<open>Rounding is symmetric.\<close>

definition signed_double :: "rat \<Rightarrow> rat" where
  "signed_double r = (if r < 0 then - double_of (- r) else double_of r)"

fun num_add :: "jsnum \<Rightarrow> jsnum \<Rightarrow> jsnum" where
  "num_add (Fin a) (Fin b) = Fin (signed_double (a + b))"
| "num_add NaN _ = NaN"
| "num_add _ NaN = NaN"
| "num_add PosInf NegInf = NaN"
| "num_add NegInf PosInf = NaN"
| "num_add PosInf _ = PosInf"
| "num_add NegInf _ = NegInf"
| "num_add (Fin _) PosInf = PosInf"
| "num_add (Fin _) NegInf = NegInf"

text \<open>\<open>a / b\<close>; a zero divisor is positive, as sums that start from 0 are.\<close>

fun num_div :: "jsnum \<Rightarrow> jsnum \<Rightarrow> jsnum" where
  "num_div (Fin a) (Fin b) = (if b = 0 then (if a = 0 then NaN else if 0 < a then PosInf else NegInf)
     else Fin (signed_double (a / b)))"
| "num_div (Fin _) PosInf = Fin 0"
| "num_div (Fin _) NegInf = Fin 0"
| "num_div PosInf (Fin b) = (if 0 \<le> b then PosInf else NegInf)"
| "num_div NegInf (Fin b) = (if 0 \<le> b then NegInf else PosInf)"
| "num_div _ _ = NaN"

text \<open>\<open>x * 100\<close>.\<close>

fun num_times_100 :: "jsnum \<Rightarrow> jsnum" where
  "num_times_100 (Fin a) = Fin (signed_double (a * 100))"
| "num_times_100 x = x"

fun num_round :: "jsnum \<Rightarrow> jsnum" where
  "num_round (Fin a) = Fin (of_int (math_round a))"
| "num_round x = x"

text \<open>\<open>a <= b\<close>; \<open>a >= b\<close> is \<open>num_le b a\<close> and \<open>a > b\<close> is \<open>num_less b a\<close>.\<close>

fun num_le :: "jsnum \<Rightarrow> jsnum \<Rightarrow> bool" where
  "num_le NaN _ = False"
| "num_le _ NaN = False"
| "num_le (Fin a) (Fin b) \<longleftrightarrow> a \<le> b"
| "num_le NegInf _ = True"
| "num_le _ PosInf = True"
| "num_le _ _ = False"

text \<open>\<open>a === b\<close>: \<open>NaN\<close> equals nothing.\<close>

definition num_same :: "jsnum \<Rightarrow> jsnum \<Rightarrow> bool" where
  "num_same a b \<longleftrightarrow> a = b \<and> a \<noteq> NaN"

definition num_max :: "jsnum \<Rightarrow> jsnum \<Rightarrow> jsnum" where
  "num_max a b = (if a = NaN \<or> b = NaN then NaN else if num_le a b then b else a)"

text \<open>\<open>Math.max(...xs)\<close>.\<close>

definition num_max_list :: "jsnum list \<Rightarrow> jsnum" where
  "num_max_list xs = foldl num_max NegInf xs"

text \<open>\<open>Number.isInteger\<close> on a number.\<close>

abbreviation num_integer :: "jsnum \<Rightarrow> bool" where
  "num_integer n \<equiv> is_integer (JNum n)"

definition num_sum :: "jsnum list \<Rightarrow> jsnum" where
  "num_sum xs = foldl num_add (Fin 0) xs"

lemma signed_double_nonneg [simp]: "0 \<le> r \<Longrightarrow> signed_double r = double_of r"
  by (simp add: signed_double_def)

lemma num_less_irrefl [simp]: "\<not> num_less a a"
  by (cases a) simp_all

lemma num_less_Fin [simp]: "num_less (Fin a) (Fin b) \<longleftrightarrow> a < b"
  by simp

lemma num_not_less: "a \<noteq> NaN \<Longrightarrow> b \<noteq> NaN \<Longrightarrow> \<not> num_less a b \<longleftrightarrow> num_le b a"
  by (cases a; cases b) auto

lemma num_le_trans: "num_le a b \<Longrightarrow> num_le b c \<Longrightarrow> num_le a c"
  by (cases a; cases b; cases c) auto

lemma num_le_refl: "a \<noteq> NaN \<Longrightarrow> num_le a a"
  by (cases a) auto

lemma num_le_total: "a \<noteq> NaN \<Longrightarrow> b \<noteq> NaN \<Longrightarrow> num_le a b \<or> num_le b a"
  by (cases a; cases b) auto

lemma num_max_list_snoc: "num_max_list (xs @ [x]) = num_max (num_max_list xs) x"
  by (simp add: num_max_list_def)

text \<open>The maximum of numbers is an upper bound, and one of them.\<close>

lemma num_max_list_upper:
  assumes "NaN \<notin> set xs"
  shows "num_max_list xs \<noteq> NaN \<and> (\<forall>x \<in> set xs. num_le x (num_max_list xs))"
  using assms
proof (induction xs rule: rev_induct)
  case (snoc x xs)
  then have IH: "num_max_list xs \<noteq> NaN" "\<forall>y \<in> set xs. num_le y (num_max_list xs)" and x: "x \<noteq> NaN" by auto
  show ?case
  proof (cases "num_le (num_max_list xs) x")
    case True
    then show ?thesis using IH x num_le_trans num_le_refl [OF x]
      by (auto simp: num_max_list_snoc num_max_def)
  next
    case False
    then have "num_le x (num_max_list xs)" using num_le_total [OF IH(1) x] by blast
    then show ?thesis using False IH x by (simp add: num_max_list_snoc num_max_def)
  qed
qed (simp add: num_max_list_def)

lemma num_max_list_member: "NaN \<notin> set xs \<Longrightarrow> num_max_list xs = NegInf \<or> num_max_list xs \<in> set xs"
proof (induction xs rule: rev_induct)
  case (snoc x xs)
  then show ?case by (auto simp: num_max_list_snoc num_max_def)
qed (simp add: num_max_list_def)

lemma num_max_list_NegInf: "num_max_list xs = NegInf \<Longrightarrow> set xs \<subseteq> {NegInf}"
proof (induction xs rule: rev_induct)
  case (snoc x xs)
  then have "num_max_list xs = NegInf" "x = NegInf"
    by (cases x; cases "num_max_list xs"; auto simp: num_max_list_snoc num_max_def split: if_splits)+
  then show ?case using snoc.IH by auto
qed simp

text \<open>Parts of a whole: a sum of awarded points never exceeds the sum of the available ones.\<close>

text \<open>What stays true of the two sums while each part is between 0 and its bound.\<close>

definition part_of :: "jsnum \<Rightarrow> jsnum \<Rightarrow> bool" where
  "part_of a m \<longleftrightarrow> (\<exists>x. a = Fin x \<and> 0 \<le> x \<and> (m = NaN \<or> m = PosInf \<or> (\<exists>y. m = Fin y \<and> x \<le> y)))"

lemma part_of_add:
  assumes "part_of a m" and "part_of b n"
  shows "part_of (num_add a b) (num_add m n)"
proof -
  obtain x y where xy: "a = Fin x" "0 \<le> x" "b = Fin y" "0 \<le> y" using assms by (auto simp: part_of_def)
  then have sum: "num_add a b = Fin (double_of (x + y))" "0 \<le> double_of (x + y)"
    by (simp_all add: double_of_nonneg)
  have fin: "double_of (x + y) \<le> signed_double (u + v)" if "x \<le> u" "y \<le> v" for u v
    using xy that by (simp add: double_of_mono)
  show ?thesis
    using assms xy sum fin by (auto simp: part_of_def)
qed

lemma part_of_percent:
  assumes "part_of a m"
  shows "num_round (num_times_100 (num_div a m)) = NaN
    \<or> (\<exists>i. num_round (num_times_100 (num_div a m)) = Fin (of_int i) \<and> 0 \<le> i \<and> i \<le> 100)"
proof -
  obtain x where x: "a = Fin x" "0 \<le> x" using assms by (auto simp: part_of_def)
  consider "m = NaN" | "m = PosInf" | y where "m = Fin y" "x \<le> y" using assms x by (auto simp: part_of_def)
  then show ?thesis
  proof cases
    case 2
    then show ?thesis using x by (auto simp: math_round_num intro!: exI [of _ 0])
  next
    case (3 y)
    show ?thesis
    proof (cases "y = 0")
      case True
      then show ?thesis using 3 x by simp
    next
      case False
      then have y: "0 < y" using 3 x by simp
      let ?q = "double_of (x / y)"
      have q: "0 \<le> ?q" "?q \<le> 1"
        using x y 3(2) double_of_mono [of "x / y" 1] by (simp_all add: double_of_nonneg double_of_1)
      then have p: "0 \<le> double_of (?q * 100)" "double_of (?q * 100) \<le> 100"
        using double_of_mono [of "?q * 100" 100] by (simp_all add: double_of_nonneg double_of_100)
      then have "0 \<le> math_round (double_of (?q * 100))" "math_round (double_of (?q * 100)) \<le> 100"
        using floor_plus_half_mono [OF p(1)] floor_plus_half_mono [OF p(2)] by (simp_all add: math_round_num)
      then show ?thesis using x y q 3(1) by auto
    qed
  qed (use x in simp)
qed

end
