(* ===== verification/Js_Time.thy ===== *)
theory Js_Time
  imports Js_Json
begin

text \<open>
  UTC timestamps: the pattern every module tests, \<open>Date.parse\<close> and \<open>Date.toISOString\<close> on
  the strings that match it, and the two validity tests of the code. The calendar functions
  are those of ECMA-262 (days from 1 January 1970, proleptic Gregorian); the accepted field
  ranges are those of the V8 engine both deployments run on, which takes days 1 to 31 in any
  month and rolls an excess over, and takes the hour 24:00:00.000.
\<close>

section \<open>The calendar\<close>

definition leap_year :: "int \<Rightarrow> bool" where
  "leap_year y \<longleftrightarrow> y mod 4 = 0 \<and> (y mod 100 \<noteq> 0 \<or> y mod 400 = 0)"

definition day_from_year :: "int \<Rightarrow> int" where
  "day_from_year y = 365 * (y - 1970) + (y - 1969) div 4 - (y - 1901) div 100 + (y - 1601) div 400"

definition days_in_month :: "int \<Rightarrow> nat \<Rightarrow> int" where
  "days_in_month y m = (if m = 2 then (if leap_year y then 29 else 28)
     else if m \<in> {4, 6, 9, 11} then 30 else 31)"

text \<open>Days of the year before month \<open>m\<close> (1 to 12).\<close>

fun days_before_month :: "int \<Rightarrow> nat \<Rightarrow> int" where
  "days_before_month y 0 = 0"
| "days_before_month y (Suc m) = (if m = 0 then 0 else days_before_month y m + days_in_month y m)"

definition make_day :: "int \<Rightarrow> nat \<Rightarrow> int \<Rightarrow> int" where
  "make_day y m d = day_from_year y + days_before_month y m + d - 1"

definition year_length :: "int \<Rightarrow> int" where
  "year_length y = (if leap_year y then 366 else 365)"

text \<open>The year of a day number: an estimate that is off by at most one, then corrected.\<close>

definition year_from_day :: "int \<Rightarrow> int" where
  "year_from_day n = (let y = 1970 + (400 * n) div 146097
     in if n < day_from_year y then y - 1
        else if day_from_year (y + 1) \<le> n then y + 1 else y)"

definition month_from_day :: "int \<Rightarrow> int \<Rightarrow> nat" where
  "month_from_day y k = (case find (\<lambda>m. k < days_before_month y (m + 1)) [1..<12] of
     Some m \<Rightarrow> m | None \<Rightarrow> 12)"

lemma div_succ_int:
  assumes "0 < (k::int)"
  shows "(x + 1) div k = x div k + (if (x + 1) mod k = 0 then 1 else 0)"
proof -
  have r: "0 \<le> x mod k" "x mod k < k" using assms by simp_all
  have x: "x = k * (x div k) + x mod k" by simp
  show ?thesis
  proof (cases "x mod k + 1 = k")
    case True
    have "x + 1 = k * (x div k) + k" using x True by linarith
    then have "x + 1 = (x div k + 1) * k" by (simp add: algebra_simps)
    with assms show ?thesis by simp
  next
    case False
    with r have lt: "x mod k + 1 < k" by simp
    have "(x + 1) mod k = (x mod k + 1) mod k" by (simp add: mod_add_left_eq)
    then have "(x + 1) mod k = x mod k + 1" using lt r by (simp add: mod_pos_pos_trivial)
    moreover have "(x + 1) div k = x div k"
    proof (rule int_div_pos_eq)
      show "x + 1 = k * (x div k) + (x mod k + 1)" using x by linarith
    qed (use lt r in auto)
    ultimately show ?thesis using r by simp
  qed
qed

lemma mod_shift:
  "(y - 1968) mod 4 = y mod (4::int)" "(y - 1900) mod 100 = y mod (100::int)"
  "(y - 1600) mod 400 = y mod (400::int)"
  using mod_mult_self2 [of y 4 "-492"] mod_mult_self2 [of y 100 "-19"] mod_mult_self2 [of y 400 "-4"]
  by simp_all

lemma day_from_year_Suc: "day_from_year (y + 1) = day_from_year y + year_length y"
proof -
  have a: "(y - 1968) div 4 = (y - 1969) div 4 + (if y mod 4 = 0 then 1 else 0)"
    using div_succ_int [of 4 "y - 1969"] by (simp add: mod_shift)
  have b: "(y - 1900) div 100 = (y - 1901) div 100 + (if y mod 100 = 0 then 1 else 0)"
    using div_succ_int [of 100 "y - 1901"] by (simp add: mod_shift)
  have c: "(y - 1600) div 400 = (y - 1601) div 400 + (if y mod 400 = 0 then 1 else 0)"
    using div_succ_int [of 400 "y - 1601"] by (simp add: mod_shift)
  have d: "y mod 400 = 0 \<Longrightarrow> y mod 100 = 0" "y mod 100 = 0 \<Longrightarrow> y mod 4 = 0"
    using mod_mod_cancel [of 100 400 y] mod_mod_cancel [of 4 100 y] by simp_all
  have n: "y + 1 - 1969 = y - 1968" "y + 1 - 1901 = y - 1900" "y + 1 - 1601 = y - 1600"
    "365 * (y + 1 - 1970) = 365 * (y - 1970) + 365"
    by simp_all
  have "(if leap_year y then 366 else 365) = 365 + (if y mod 4 = 0 then 1 else 0)
      - (if y mod 100 = 0 then 1 else 0) + (if y mod 400 = 0 then 1 else (0::int))"
    using d unfolding leap_year_def
    by (cases "y mod 4 = 0"; cases "y mod 100 = 0"; cases "y mod 400 = 0"; simp only:; simp)
  then show ?thesis
    unfolding day_from_year_def year_length_def n a b c by linarith
qed

lemma year_length_pos: "365 \<le> year_length y" "year_length y \<le> 366"
  by (simp_all add: year_length_def)

lemma day_from_year_mono: "a \<le> b \<Longrightarrow> day_from_year a + 365 * (b - a) \<le> day_from_year b"
proof (induction b rule: int_ge_induct [where k = a])
  case (step i)
  have "day_from_year a + 365 * (i + 1 - a) \<le> day_from_year i + year_length i"
    using step.IH year_length_pos(1) [of i] by (simp add: algebra_simps)
  then show ?case by (simp only: day_from_year_Suc)
qed simp

lemma day_from_year_less: "a < b \<Longrightarrow> day_from_year a + 365 \<le> day_from_year b"
  using day_from_year_mono [of a b] by simp

lemma div_bounds:
  fixes x k :: int
  assumes "0 < k"
  shows "x - k + 1 \<le> k * (x div k)" and "k * (x div k) \<le> x"
  using assms mult_div_mod_eq [of k x] pos_mod_bound [of k x] pos_mod_sign [of k x] by linarith+

lemma day_from_year_bounds:
  "146097 * (y - 1970) - 600 \<le> 400 * day_from_year y"
  "400 * day_from_year y \<le> 146097 * (y - 1970) + 600"
proof -
  define a where "a = (y - 1969) div 4"
  define b where "b = (y - 1901) div 100"
  define c where "c = (y - 1601) div 400"
  have a: "y - 1969 - 3 \<le> 4 * a" "4 * a \<le> y - 1969"
    unfolding a_def using div_bounds [of 4 "y - 1969"] by simp_all
  have b: "y - 1901 - 99 \<le> 100 * b" "100 * b \<le> y - 1901"
    unfolding b_def using div_bounds [of 100 "y - 1901"] by simp_all
  have c: "y - 1601 - 399 \<le> 400 * c" "400 * c \<le> y - 1601"
    unfolding c_def using div_bounds [of 400 "y - 1601"] by simp_all
  have e: "day_from_year y = 365 * (y - 1970) + a - b + c"
    by (simp add: day_from_year_def a_def b_def c_def)
  show "146097 * (y - 1970) - 600 \<le> 400 * day_from_year y"
    unfolding e using a(1) b(2) c(1) by (simp add: algebra_simps)
  show "400 * day_from_year y \<le> 146097 * (y - 1970) + 600"
    unfolding e using a(2) b(1) c(2) by (simp add: algebra_simps)
qed

lemma year_from_day_correct:
  "day_from_year (year_from_day n) \<le> n \<and> n < day_from_year (year_from_day n + 1)"
proof -
  define y where "y = 1970 + (400 * n) div 146097"
  have lo: "146097 * (y - 1970) \<le> 400 * n" and hi: "400 * n < 146097 * (y - 1970) + 146097"
    unfolding y_def using mult_div_mod_eq [of 146097 "400 * n"] pos_mod_bound [of 146097 "400 * n"]
      pos_mod_sign [of 146097 "400 * n"] by simp_all
  have "day_from_year (y - 1) \<le> n"
    using day_from_year_bounds(2) [of "y - 1"] lo by (simp add: algebra_simps)
  moreover have "n < day_from_year (y + 2)"
    using day_from_year_bounds(1) [of "y + 2"] hi by (simp add: algebra_simps)
  ultimately show ?thesis
    by (auto simp: year_from_day_def Let_def y_def [symmetric] add.commute add.left_commute)
qed

lemma year_from_day_unique:
  assumes "day_from_year y \<le> n" and "n < day_from_year (y + 1)"
  shows "year_from_day n = y"
proof (rule ccontr)
  let ?z = "year_from_day n"
  assume "?z \<noteq> y"
  then consider "?z + 1 \<le> y" | "y + 1 \<le> ?z" by linarith
  then show False
  proof cases
    case 1
    then show False
      using day_from_year_mono [of "?z + 1" y] year_from_day_correct [of n] assms by simp
  next
    case 2
    then show False
      using day_from_year_mono [of "y + 1" ?z] year_from_day_correct [of n] assms by simp
  qed
qed

lemma days_in_month_pos: "28 \<le> days_in_month y m" "days_in_month y m \<le> 31"
  by (auto simp: days_in_month_def)

lemma days_before_month_Suc:
  "1 \<le> m \<Longrightarrow> days_before_month y (m + 1) = days_before_month y m + days_in_month y m"
  by simp

lemma days_before_month_mono:
  assumes "1 \<le> m" and "m \<le> n"
  shows "days_before_month y m \<le> days_before_month y n"
  using assms(2,1)
proof (induction rule: dec_induct)
  case (step n)
  then show ?case using days_in_month_pos(1) [of y n] by simp
qed simp

lemma days_before_month_year: "days_before_month y 13 = year_length y"
  by (simp add: eval_nat_numeral days_in_month_def year_length_def)

declare days_before_month.simps [simp del]

lemma month_from_day_eq:
  assumes m: "1 \<le> m" "m \<le> 12"
    and k: "days_before_month y m \<le> k" "k < days_before_month y (m + 1)"
  shows "month_from_day y k = m"
proof -
  have none: "find (\<lambda>j. k < days_before_month y (j + 1)) [1..<m] = None"
    unfolding find_None_iff
  proof
    assume "\<exists>j. j \<in> set [1..<m] \<and> k < days_before_month y (j + 1)"
    then obtain j where "1 \<le> j" "j < m" "k < days_before_month y (j + 1)" by auto
    then show False using days_before_month_mono [of "j + 1" m y] k(1) by simp
  qed
  show ?thesis
  proof (cases "m = 12")
    case True
    with none show ?thesis by (simp add: month_from_day_def)
  next
    case False
    with m have "m < 12" by simp
    then have "[m..<12] = m # [Suc m..<12]" by (rule upt_conv_Cons)
    moreover have "[1..<12] = [1..<m] @ [m..<12]"
      using upt_add_eq_append [of 1 m "12 - m"] m by simp
    ultimately have "[1..<12] = [1..<m] @ m # [Suc m..<12]" by simp
    moreover have "find P (xs @ x # ys) = Some x" if "find P xs = None" "P x" for P xs ys and x :: nat
      using that by (induction xs) (auto split: if_splits)
    ultimately show ?thesis
      using none k(2) by (simp add: month_from_day_def)
  qed
qed

text \<open>A calendar day survives the trip through its day number.\<close>

lemma make_day_inverse:
  assumes "1 \<le> m" "m \<le> 12" and "1 \<le> d" "d \<le> days_in_month y m"
  shows "year_from_day (make_day y m d) = y"
    and "month_from_day y (make_day y m d - day_from_year y) = m"
    and "make_day y m d - day_from_year y - days_before_month y m + 1 = d"
proof -
  have up: "days_before_month y (m + 1) \<le> year_length y"
    using days_before_month_mono [of "m + 1" 13 y] assms(2) by (simp add: days_before_month_year)
  have lo: "0 \<le> days_before_month y m"
    using days_before_month_mono [of 1 m y] assms(1) by (simp add: days_before_month.simps)
  have nxt: "days_before_month y (m + 1) = days_before_month y m + days_in_month y m"
    using assms(1) by (rule days_before_month_Suc)
  show "year_from_day (make_day y m d) = y"
    using up lo nxt assms(3,4)
    by (intro year_from_day_unique) (simp_all add: make_day_def day_from_year_Suc)
  show "month_from_day y (make_day y m d - day_from_year y) = m"
    using nxt assms by (intro month_from_day_eq) (simp_all add: make_day_def)
  show "make_day y m d - day_from_year y - days_before_month y m + 1 = d"
    by (simp add: make_day_def)
qed

section \<open>Timestamps\<close>

text \<open>The fields of a timestamp; the day is an integer because \<open>Date.parse\<close> may roll it over.\<close>

record iso_fields =
  f_year :: int
  f_month :: nat
  f_day :: int
  f_hour :: int
  f_minute :: int
  f_second :: int
  f_milli :: int

definition digit_value :: "char \<Rightarrow> nat" where
  "digit_value c = of_char c - 48"

definition num_at :: "string \<Rightarrow> nat \<Rightarrow> nat \<Rightarrow> nat" where
  "num_at s i n = foldl (\<lambda>v c. 10 * v + digit_value c) 0 (take n (drop i s))"

text \<open>
  \<open>/^\d{4}-\d{2}-\d{2}T\d{2}:\d{2}:\d{2}(?:\.\d{3})?Z$/\<close>: twenty units, or twenty-four with the
  milliseconds.
\<close>

definition iso_head :: "string \<Rightarrow> bool" where
  "iso_head s \<longleftrightarrow> (\<forall>i \<in> {0, 1, 2, 3, 5, 6, 8, 9, 11, 12, 14, 15, 17, 18}. digit_char (s ! i))
     \<and> s ! 4 = CHR ''-'' \<and> s ! 7 = CHR ''-'' \<and> s ! 10 = CHR ''T''
     \<and> s ! 13 = CHR '':'' \<and> s ! 16 = CHR '':''"

definition timestamp_pattern :: "string \<Rightarrow> bool" where
  "timestamp_pattern s \<longleftrightarrow>
     (length s = 20 \<and> iso_head s \<and> s ! 19 = CHR ''Z'') \<or>
     (length s = 24 \<and> iso_head s \<and> s ! 19 = CHR ''.''
        \<and> (\<forall>i \<in> {20, 21, 22}. digit_char (s ! i)) \<and> s ! 23 = CHR ''Z'')"

definition iso_fields_of :: "string \<Rightarrow> iso_fields" where
  "iso_fields_of s = \<lparr>f_year = int (num_at s 0 4), f_month = num_at s 5 2, f_day = int (num_at s 8 2),
     f_hour = int (num_at s 11 2), f_minute = int (num_at s 14 2), f_second = int (num_at s 17 2),
     f_milli = (if length s = 24 then int (num_at s 20 3) else 0)\<rparr>"

definition make_time :: "iso_fields \<Rightarrow> int" where
  "make_time f = make_day (f_year f) (f_month f) (f_day f) * 86400000
     + f_hour f * 3600000 + f_minute f * 60000 + f_second f * 1000 + f_milli f"

text \<open>The ranges the engine accepts, whatever the month.\<close>

definition parse_ranges :: "iso_fields \<Rightarrow> bool" where
  "parse_ranges f \<longleftrightarrow> 1 \<le> f_month f \<and> f_month f \<le> 12 \<and> 1 \<le> f_day f \<and> f_day f \<le> 31
     \<and> ((f_hour f \<le> 23 \<and> f_minute f \<le> 59 \<and> f_second f \<le> 59)
        \<or> (f_hour f = 24 \<and> f_minute f = 0 \<and> f_second f = 0 \<and> f_milli f = 0))"

text \<open>
  \<open>Date.parse\<close> on a string of the pattern, in milliseconds; \<open>None\<close> is NaN. Every caller tests
  the pattern first, so the other formats of \<open>Date.parse\<close> are never reached.
\<close>

definition date_parse :: "string \<Rightarrow> int option" where
  "date_parse s = (if timestamp_pattern s \<and> parse_ranges (iso_fields_of s)
     then Some (make_time (iso_fields_of s)) else None)"

text \<open>The fields of a time value, as \<open>toISOString\<close> reads them.\<close>

definition time_fields :: "int \<Rightarrow> iso_fields" where
  "time_fields t =
     (let n = t div 86400000; r = t mod 86400000; y = year_from_day n; k = n - day_from_year y;
          m = month_from_day y k
      in \<lparr>f_year = y, f_month = m, f_day = k - days_before_month y m + 1,
          f_hour = r div 3600000, f_minute = r div 60000 mod 60, f_second = r div 1000 mod 60,
          f_milli = r mod 1000\<rparr>)"

text \<open>A field printed with a fixed number of digits.\<close>

fun pad_text :: "nat \<Rightarrow> nat \<Rightarrow> string" where
  "pad_text 0 n = []"
| "pad_text (Suc k) n = pad_text k (n div 10) @ [char_of (48 + n mod 10)]"

definition year_text :: "int \<Rightarrow> string" where
  "year_text y = (if 0 \<le> y \<and> y \<le> 9999 then pad_text 4 (nat y)
     else (if y < 0 then ''-'' else ''+'') @ pad_text 6 (nat \<bar>y\<bar>))"

definition iso_text :: "iso_fields \<Rightarrow> string" where
  "iso_text f = year_text (f_year f) @ ''-'' @ pad_text 2 (f_month f) @ ''-'' @ pad_text 2 (nat (f_day f))
     @ ''T'' @ pad_text 2 (nat (f_hour f)) @ '':'' @ pad_text 2 (nat (f_minute f))
     @ '':'' @ pad_text 2 (nat (f_second f)) @ ''.'' @ pad_text 3 (nat (f_milli f)) @ ''Z''"

definition to_iso_string :: "int \<Rightarrow> string" where
  "to_iso_string t = iso_text (time_fields t)"

text \<open>\<open>value.includes(".") ? value : value.replace("Z", ".000Z")\<close> on a string of the pattern.\<close>

definition with_millis :: "string \<Rightarrow> string" where
  "with_millis s = (if CHR ''.'' \<in> set s then s
     else takeWhile (\<lambda>c. c \<noteq> CHR ''Z'') s @ ''.000Z'' @ tl (dropWhile (\<lambda>c. c \<noteq> CHR ''Z'') s))"

text \<open>The strict test: the parsed time prints back as the same text.\<close>

definition valid_timestamp :: "string \<Rightarrow> bool" where
  "valid_timestamp s \<longleftrightarrow> timestamp_pattern s \<and>
     (case date_parse s of None \<Rightarrow> False | Some t \<Rightarrow> to_iso_string t = with_millis s)"

text \<open>The lenient test of the engine and of the provisioning clock: parsing gives a number.\<close>

definition parses_timestamp :: "string \<Rightarrow> bool" where
  "parses_timestamp s \<longleftrightarrow> timestamp_pattern s \<and> date_parse s \<noteq> None"

section \<open>What the two tests accept\<close>

text \<open>Fields that name a day of the calendar and a time of that day.\<close>

definition calendar_valid :: "iso_fields \<Rightarrow> bool" where
  "calendar_valid f \<longleftrightarrow> 1 \<le> f_month f \<and> f_month f \<le> 12
     \<and> 1 \<le> f_day f \<and> f_day f \<le> days_in_month (f_year f) (f_month f)
     \<and> 0 \<le> f_hour f \<and> f_hour f \<le> 23 \<and> 0 \<le> f_minute f \<and> f_minute f \<le> 59
     \<and> 0 \<le> f_second f \<and> f_second f \<le> 59"

abbreviation digits_num :: "string \<Rightarrow> nat" where
  "digits_num cs \<equiv> foldl (\<lambda>v c. 10 * v + digit_value c) 0 cs"

lemma digit_char_of: "digit_char c \<Longrightarrow> char_of (48 + digit_value c) = c"
  and digit_value_le: "digit_char c \<Longrightarrow> digit_value c \<le> 9"
  by (auto simp: digit_char_def digit_value_def)

lemma digit_char_of_nat: "k \<le> 9 \<Longrightarrow> digit_char (char_of (48 + k))"
  and digit_value_of_nat: "k \<le> 9 \<Longrightarrow> digit_value (char_of (48 + k)) = k"
  by (simp_all add: digit_char_def digit_value_def of_char_of)

text \<open>Printing and reading a fixed number of digits are inverse.\<close>

lemma pad_text_digits_num: "list_all digit_char cs \<Longrightarrow> pad_text (length cs) (digits_num cs) = cs"
proof (induction cs rule: rev_induct)
  case (snoc c cs)
  then show ?case using digit_value_le [of c] by (simp add: digit_char_of)
qed simp

lemma length_pad_text [simp]: "length (pad_text k n) = k"
  by (induction k arbitrary: n) simp_all

lemma list_all_pad_text: "list_all digit_char (pad_text k n)"
  by (induction k arbitrary: n) (simp_all add: digit_char_of_nat)

lemma digits_num_pad_text: "digits_num (pad_text k n) = n mod 10 ^ k"
proof (induction k arbitrary: n)
  case (Suc k)
  have "n mod (10 * 10 ^ k) = 10 * (n div 10 mod 10 ^ k) + n mod 10"
    by (simp add: mod_mult2_eq)
  then show ?case using Suc digit_value_of_nat [of "n mod 10"] by simp
qed simp

lemma digits_num_bound: "list_all digit_char cs \<Longrightarrow> digits_num cs < 10 ^ length cs"
proof (induction cs rule: rev_induct)
  case (snoc c cs)
  then show ?case using digit_value_le [of c] by simp
qed simp

text \<open>The two shapes of a timestamp, as explicit lists.\<close>

lemma timestamp_pattern_cases:
  assumes "timestamp_pattern s"
  obtains y m d h i e where
    "list_all digit_char (y @ m @ d @ h @ i @ e)"
    "length y = 4" "length m = 2" "length d = 2" "length h = 2" "length i = 2" "length e = 2"
    "s = y @ ''-'' @ m @ ''-'' @ d @ ''T'' @ h @ '':'' @ i @ '':'' @ e @ ''Z''"
  | y m d h i e l where
    "list_all digit_char (y @ m @ d @ h @ i @ e @ l)"
    "length y = 4" "length m = 2" "length d = 2" "length h = 2" "length i = 2" "length e = 2"
    "length l = 3"
    "s = y @ ''-'' @ m @ ''-'' @ d @ ''T'' @ h @ '':'' @ i @ '':'' @ e @ ''.'' @ l @ ''Z''"
proof -
  from assms consider
      (short) "length s = 20" "iso_head s" "s ! 19 = CHR ''Z''"
    | (long) "length s = 24" "iso_head s" "s ! 19 = CHR ''.''"
        "\<forall>i \<in> {20, 21, 22}. digit_char (s ! i)" "s ! 23 = CHR ''Z''"
    by (auto simp: timestamp_pattern_def)
  then show thesis
  proof cases
    case short
    obtain c0 c1 c2 c3 c4 c5 c6 c7 c8 c9 c10 c11 c12 c13 c14 c15 c16 c17 c18 c19 where
      s: "s = [c0,c1,c2,c3,c4,c5,c6,c7,c8,c9,c10,c11,c12,c13,c14,c15,c16,c17,c18,c19]"
      using short(1) by (auto simp: eval_nat_numeral length_Suc_conv)
    show thesis
      by (rule that(1) [of "[c0,c1,c2,c3]" "[c5,c6]" "[c8,c9]" "[c11,c12]" "[c14,c15]" "[c17,c18]"])
        (use short(2,3) s in \<open>simp_all add: iso_head_def\<close>)
  next
    case long
    obtain c0 c1 c2 c3 c4 c5 c6 c7 c8 c9 c10 c11 c12 c13 c14 c15 c16 c17 c18 c19 c20 c21 c22 c23
      where s: "s = [c0,c1,c2,c3,c4,c5,c6,c7,c8,c9,c10,c11,c12,c13,c14,c15,c16,c17,c18,c19,c20,c21,c22,c23]"
      using long(1) by (auto simp: eval_nat_numeral length_Suc_conv)
    show thesis
      by (rule that(2) [of "[c0,c1,c2,c3]" "[c5,c6]" "[c8,c9]" "[c11,c12]" "[c14,c15]" "[c17,c18]" "[c20,c21,c22]"])
        (use long(2-5) s in \<open>simp_all add: iso_head_def\<close>)
  qed
qed

lemma num_at_field: "length p = i \<Longrightarrow> length cs = n \<Longrightarrow> num_at (p @ cs @ r) i n = digits_num cs"
  by (simp add: num_at_def)

lemma iso_fields_of_layout:
  assumes "length y = 4" "length m = 2" "length d = 2" "length h = 2" "length i = 2" "length e = 2"
    and "length r = 1 \<or> length r = 5"
  shows "iso_fields_of (y @ CHR ''-'' # m @ CHR ''-'' # d @ CHR ''T'' # h @ CHR '':'' # i
      @ CHR '':'' # e @ r) =
    \<lparr>f_year = int (digits_num y), f_month = digits_num m, f_day = int (digits_num d),
     f_hour = int (digits_num h), f_minute = int (digits_num i), f_second = int (digits_num e),
     f_milli = (if length r = 5 then int (digits_num (take 3 (drop 1 r))) else 0)\<rparr>"
  using assms by (simp add: iso_fields_of_def num_at_def)

lemma digit_not_mark: "digit_char c \<Longrightarrow> c \<noteq> CHR ''.'' \<and> c \<noteq> CHR ''Z''"
  by (auto simp: digit_char_def)

lemma list_all_digit_not_mark:
  "list_all digit_char cs \<Longrightarrow> CHR ''.'' \<notin> set cs \<and> CHR ''Z'' \<notin> set cs"
  by (induction cs) (auto dest: digit_not_mark)

lemma year_text_digits:
  assumes "list_all digit_char y" and "length y = 4"
  shows "year_text (int (digits_num y)) = y"
proof -
  have "digits_num y < 10000" using digits_num_bound [OF assms(1)] assms(2) by simp
  moreover have "pad_text 4 (digits_num y) = y" using pad_text_digits_num [OF assms(1)] assms(2) by simp
  ultimately show ?thesis by (simp add: year_text_def)
qed

lemma pad_text_length: "list_all digit_char cs \<Longrightarrow> length cs = n \<Longrightarrow> pad_text n (digits_num cs) = cs"
  using pad_text_digits_num by blast

text \<open>Printing the fields of a timestamp gives it back, with its milliseconds.\<close>

lemma takeWhile_mark: "CHR ''Z'' \<notin> set xs \<Longrightarrow> takeWhile (\<lambda>c. c \<noteq> CHR ''Z'') (xs @ ''Z'') = xs"
  and dropWhile_mark: "CHR ''Z'' \<notin> set xs \<Longrightarrow> dropWhile (\<lambda>c. c \<noteq> CHR ''Z'') (xs @ ''Z'') = ''Z''"
  by (induction xs) auto

lemma with_millis_short: "CHR ''Z'' \<notin> set xs \<Longrightarrow> CHR ''.'' \<notin> set xs \<Longrightarrow> with_millis (xs @ ''Z'') = xs @ ''.000Z''"
  by (simp add: with_millis_def takeWhile_mark dropWhile_mark)

lemma iso_text_layout:
  assumes "list_all digit_char (y @ m @ d @ h @ i @ e)"
    and "length y = 4" "length m = 2" "length d = 2" "length h = 2" "length i = 2" "length e = 2"
  shows "iso_text \<lparr>f_year = int (digits_num y), f_month = digits_num m, f_day = int (digits_num d),
     f_hour = int (digits_num h), f_minute = int (digits_num i), f_second = int (digits_num e),
     f_milli = l\<rparr> = y @ ''-'' @ m @ ''-'' @ d @ ''T'' @ h @ '':'' @ i @ '':'' @ e @ ''.''
       @ pad_text 3 (nat l) @ ''Z''"
  using assms by (simp add: iso_text_def year_text_digits pad_text_length)

lemma iso_text_fields:
  assumes "timestamp_pattern s"
  shows "iso_text (iso_fields_of s) = with_millis s"
  using assms
proof (cases rule: timestamp_pattern_cases)
  case (1 y m d h i e)
  let ?b = "y @ ''-'' @ m @ ''-'' @ d @ ''T'' @ h @ '':'' @ i @ '':'' @ e"
  have "with_millis (?b @ ''Z'') = ?b @ ''.000Z''"
    using list_all_digit_not_mark [OF 1(1)] by (intro with_millis_short) auto
  moreover have "pad_text 3 0 = ''000''" by code_simp
  moreover have "iso_text (iso_fields_of s) = ?b @ ''.'' @ pad_text 3 0 @ ''Z''"
    using iso_text_layout [OF 1(1-7), of 0] 1(8) by (simp add: iso_fields_of_layout [OF 1(2-7)])
  ultimately show ?thesis using 1(8) by simp
next
  case (2 y m d h i e l)
  have "list_all digit_char (y @ m @ d @ h @ i @ e)" "list_all digit_char l" using 2(1) by simp_all
  note layout = iso_text_layout [OF this(1) 2(2-7)] and l = pad_text_length [OF this(2) 2(8)]
  have "with_millis s = s" using 2(9) by (simp add: with_millis_def)
  moreover have "iso_fields_of s = \<lparr>f_year = int (digits_num y), f_month = digits_num m,
     f_day = int (digits_num d), f_hour = int (digits_num h), f_minute = int (digits_num i),
     f_second = int (digits_num e), f_milli = int (digits_num l)\<rparr>"
    using 2(8,9) by (simp add: iso_fields_of_layout [OF 2(2-7)])
  ultimately show ?thesis using 2(9) layout l by simp
qed

text \<open>Fields that print with the fixed widths are read back from their text.\<close>

definition printable :: "iso_fields \<Rightarrow> bool" where
  "printable f \<longleftrightarrow> 0 \<le> f_year f \<and> f_year f \<le> 9999 \<and> f_month f < 100
     \<and> 0 \<le> f_day f \<and> f_day f < 100 \<and> 0 \<le> f_hour f \<and> f_hour f < 100
     \<and> 0 \<le> f_minute f \<and> f_minute f < 100 \<and> 0 \<le> f_second f \<and> f_second f < 100
     \<and> 0 \<le> f_milli f \<and> f_milli f < 1000"

lemma div_mod_split:
  fixes a b k :: int
  assumes "0 \<le> b" and "b < k"
  shows "(a * k + b) div k = a" and "(a * k + b) mod k = b"
  using assms by simp_all

lemma int_nat_mod: "0 \<le> x \<Longrightarrow> x < int n \<Longrightarrow> int (nat x mod n) = x"
  by (metis int_nat_eq mod_less nat_less_iff)

lemma iso_fields_of_iso_text:
  assumes "printable f"
  shows "iso_fields_of (iso_text f) = f"
proof -
  have "iso_text f = pad_text 4 (nat (f_year f)) @ ''-'' @ pad_text 2 (f_month f) @ ''-''
     @ pad_text 2 (nat (f_day f)) @ ''T'' @ pad_text 2 (nat (f_hour f)) @ '':''
     @ pad_text 2 (nat (f_minute f)) @ '':'' @ pad_text 2 (nat (f_second f)) @ ''.''
     @ pad_text 3 (nat (f_milli f)) @ ''Z''"
    using assms by (simp add: iso_text_def year_text_def printable_def)
  then have "iso_fields_of (iso_text f) = \<lparr>f_year = int (nat (f_year f) mod 10000),
     f_month = f_month f mod 100, f_day = int (nat (f_day f) mod 100),
     f_hour = int (nat (f_hour f) mod 100), f_minute = int (nat (f_minute f) mod 100),
     f_second = int (nat (f_second f) mod 100), f_milli = int (nat (f_milli f) mod 1000)\<rparr>"
    by (simp add: iso_fields_of_layout digits_num_pad_text)
  then show ?thesis
    using assms by (cases f) (simp add: printable_def int_nat_mod)
qed

lemma month_from_day_range: "1 \<le> month_from_day y k \<and> month_from_day y k \<le> 12"
proof (cases "find (\<lambda>m. k < days_before_month y (m + 1)) [1..<12]")
  case None
  then show ?thesis by (simp add: month_from_day_def)
next
  case (Some m)
  then have "m \<in> set [1..<12]" by (metis find_Some_iff nth_mem)
  with Some show ?thesis by (simp add: month_from_day_def)
qed

lemma month_from_day_bounds:
  assumes "0 \<le> k" and "k < year_length y"
  shows "days_before_month y (month_from_day y k) \<le> k"
    and "k < days_before_month y (month_from_day y k + 1)"
proof -
  have z: "days_before_month y 1 = 0" by (simp add: days_before_month.simps)
  have "\<exists>m. 1 \<le> m \<and> m \<le> 12 \<and> days_before_month y m \<le> k \<and> k < days_before_month y (m + 1)"
  proof -
    define P where "P = (\<lambda>m. k < days_before_month y (m + 1))"
    have "P 12" using assms(2) by (simp add: P_def days_before_month_year)
    then have least: "P (LEAST m. P m)" and le: "(LEAST m. P m) \<le> 12"
      by (rule LeastI, rule Least_le)
    let ?m = "LEAST m. P m"
    have "\<not> P 0" using assms(1) z by (simp add: P_def)
    then have pos: "1 \<le> ?m" using least by (metis One_nat_def Suc_leI neq0_conv)
    then have "\<not> P (?m - 1)" by (intro not_less_Least) simp
    then have "days_before_month y ?m \<le> k" using pos by (simp add: P_def)
    with pos le least show ?thesis by (auto simp: P_def)
  qed
  then obtain m where m: "1 \<le> m" "m \<le> 12" "days_before_month y m \<le> k"
    "k < days_before_month y (m + 1)" by blast
  then have "month_from_day y k = m" by (rule month_from_day_eq)
  with m show "days_before_month y (month_from_day y k) \<le> k"
    "k < days_before_month y (month_from_day y k + 1)" by simp_all
qed

text \<open>Whatever the time value, its fields name a day of the calendar.\<close>

lemma time_fields_calendar:
  "calendar_valid (time_fields t)" "0 \<le> f_milli (time_fields t)" "f_milli (time_fields t) < 1000"
proof -
  define n where "n = t div 86400000"
  define r where "r = t mod 86400000"
  define y where "y = year_from_day n"
  define k where "k = n - day_from_year y"
  have r: "0 \<le> r" "r < 86400000" by (simp_all add: r_def)
  have "0 \<le> k" "k < year_length y"
    using year_from_day_correct [of n] by (simp_all add: k_def y_def day_from_year_Suc)
  note m = month_from_day_bounds [OF this] month_from_day_range [of y k]
  have h: "0 \<le> r div 3600000" "r div 3600000 \<le> 23"
    using r div_bounds [of 3600000 r] by (simp_all add: pos_imp_zdiv_nonneg_iff)
  have f: "time_fields t = \<lparr>f_year = y, f_month = month_from_day y k,
      f_day = k - days_before_month y (month_from_day y k) + 1, f_hour = r div 3600000,
      f_minute = r div 60000 mod 60, f_second = r div 1000 mod 60, f_milli = r mod 1000\<rparr>"
    by (simp add: time_fields_def Let_def n_def r_def y_def k_def)
  have "(a::int) mod 60 \<le> 59" for a using pos_mod_bound [of 60 a] by simp
  then show "calendar_valid (time_fields t)"
    using m h days_before_month_Suc [of "month_from_day y k" y] by (simp add: f calendar_valid_def)
  show "0 \<le> f_milli (time_fields t)" "f_milli (time_fields t) < 1000"
    by (simp_all add: f)
qed

text \<open>Calendar fields survive the trip through the time value.\<close>

lemma time_fields_make_time:
  assumes "calendar_valid f" and "0 \<le> f_milli f" and "f_milli f < 1000"
  shows "time_fields (make_time f) = f"
proof -
  define n where "n = make_day (f_year f) (f_month f) (f_day f)"
  define r where "r = f_hour f * 3600000 + f_minute f * 60000 + f_second f * 1000 + f_milli f"
  have c: "0 \<le> f_hour f" "f_hour f \<le> 23" "0 \<le> f_minute f" "f_minute f \<le> 59"
    "0 \<le> f_second f" "f_second f \<le> 59"
    using assms(1) by (simp_all add: calendar_valid_def)
  have r: "0 \<le> r" "r < 86400000" using c assms(2,3) by (simp_all add: r_def)
  have t: "make_time f = r + n * 86400000" by (simp add: make_time_def n_def r_def)
  have nr: "make_time f div 86400000 = n" "make_time f mod 86400000 = r"
    unfolding t using r by simp_all
  define q where "q = f_hour f * 60 + f_minute f"
  define p where "p = q * 60 + f_second f"
  have rp: "r = p * 1000 + f_milli f" by (simp add: r_def p_def q_def algebra_simps)
  have ms: "r mod 1000 = f_milli f" "r div 1000 = p"
    unfolding rp using assms(2,3) by (simp_all only: div_mod_split)
  have s: "p mod 60 = f_second f" "p div 60 = q"
    unfolding p_def using c(5,6) by (simp_all add: div_mod_split)
  have m: "q mod 60 = f_minute f" "q div 60 = f_hour f"
    unfolding q_def using c(3,4) by (simp_all add: div_mod_split)
  have "r div 60000 = r div 1000 div 60" "r div 3600000 = r div 1000 div 60 div 60"
    by (simp_all add: zdiv_zmult2_eq [symmetric])
  then have h: "r div 60000 = q" "r div 3600000 = f_hour f" by (simp_all add: ms s m)
  have d: "1 \<le> f_month f" "f_month f \<le> 12" "1 \<le> f_day f" "f_day f \<le> days_in_month (f_year f) (f_month f)"
    using assms(1) by (simp_all add: calendar_valid_def)
  show ?thesis
    unfolding time_fields_def nr Let_def
    using make_day_inverse [OF d] by (simp add: n_def ms s(1) m(1) h)
qed

lemma iso_fields_printable:
  assumes "timestamp_pattern s"
  shows "printable (iso_fields_of s)"
proof -
  have two: "digits_num cs < 100" if "list_all digit_char cs" "length cs = 2" for cs
    using digits_num_bound [OF that(1)] that(2) by simp
  have three: "digits_num cs < 1000" if "list_all digit_char cs" "length cs = 3" for cs
    using digits_num_bound [OF that(1)] that(2) by simp
  have four: "digits_num cs < 10000" if "list_all digit_char cs" "length cs = 4" for cs
    using digits_num_bound [OF that(1)] that(2) by simp
  from assms show ?thesis
  proof (cases rule: timestamp_pattern_cases)
    case (1 y m d h i e)
    then show ?thesis
      using two [of m] two [of d] two [of h] two [of i] two [of e] four [of y]
      by (simp add: iso_fields_of_layout printable_def)
  next
    case (2 y m d h i e l)
    then show ?thesis
      using two [of m] two [of d] two [of h] two [of i] two [of e] four [of y] three [of l]
      by (simp add: iso_fields_of_layout printable_def)
  qed
qed

lemma calendar_valid_parse_ranges: "calendar_valid f \<Longrightarrow> parse_ranges f"
  using days_in_month_pos(2) [of "f_year f" "f_month f"]
  by (auto simp: calendar_valid_def parse_ranges_def)

text \<open>
  The strict test accepts exactly the timestamps whose fields are a calendar day and a time of
  day: the rolled-over days and the hour 24 that \<open>Date.parse\<close> takes are refused.
\<close>

lemma valid_timestamp_iff:
  "valid_timestamp s \<longleftrightarrow> timestamp_pattern s \<and> calendar_valid (iso_fields_of s)"
proof
  assume v: "valid_timestamp s"
  then have p: "timestamp_pattern s" by (simp add: valid_timestamp_def)
  from v obtain t where t: "to_iso_string t = with_millis s"
    by (auto simp: valid_timestamp_def split: option.splits)
  have eq: "iso_text (time_fields t) = iso_text (iso_fields_of s)"
    using t iso_text_fields [OF p] by (simp add: to_iso_string_def)
  have y: "0 \<le> f_year (time_fields t) \<and> f_year (time_fields t) \<le> 9999"
  proof (rule ccontr)
    assume n: "\<not> ?thesis"
    then have "hd (iso_text (time_fields t)) \<in> {CHR ''-'', CHR ''+''}"
      by (auto simp: iso_text_def year_text_def)
    moreover have "digit_char (hd (iso_text (iso_fields_of s)))"
    proof -
      have "digit_char (hd (pad_text 4 k @ xs))" for k xs
        using list_all_pad_text [of 4 k] length_pad_text [of 4 k]
        by (cases "pad_text 4 k") simp_all
      then show ?thesis
        using iso_fields_printable [OF p] by (simp add: iso_text_def year_text_def printable_def)
    qed
    ultimately show False unfolding eq by (auto simp: digit_char_def)
  qed
  have "printable (time_fields t)"
    using time_fields_calendar [of t] y days_in_month_pos(2) [of "f_year (time_fields t)" "f_month (time_fields t)"]
    by (auto simp: printable_def calendar_valid_def)
  then have "time_fields t = iso_fields_of s"
    using iso_fields_of_iso_text iso_fields_printable [OF p] eq by metis
  then show "timestamp_pattern s \<and> calendar_valid (iso_fields_of s)"
    using p time_fields_calendar(1) [of t] by simp
next
  assume a: "timestamp_pattern s \<and> calendar_valid (iso_fields_of s)"
  then have "printable (iso_fields_of s)" by (simp add: iso_fields_printable)
  then have "time_fields (make_time (iso_fields_of s)) = iso_fields_of s"
    using a by (intro time_fields_make_time) (simp_all add: printable_def)
  then show "valid_timestamp s"
    using a iso_text_fields calendar_valid_parse_ranges
    by (simp add: valid_timestamp_def date_parse_def to_iso_string_def)
qed

end
