(* ===== verification/Learner_Progress.thy ===== *)
theory Learner_Progress
  imports Js_Json
begin

text \<open>
  The learner record of \<open>src/progress.ts\<close>: its interfaces as records, and their values as
  JSON, which is what the event validators and the text comparisons work on. An optional
  property is an \<open>option\<close>; when it is absent the JSON object has no such member. The TypeScript
  type \<open>number\<close> is \<open>jsnum\<close> where the code admits any number.
\<close>

record assessment_attempt =
  at_id :: string
  at_path :: string
  at_module :: string
  at_content_version :: string
  at_score :: jsnum
  at_passed :: bool
  at_completed_at :: string

record criterion_score =
  cs_criterion :: string
  cs_points :: jsnum
  cs_evidence :: "string list option"

record capstone_submission =
  sub_id :: string
  sub_path :: string
  sub_module :: string
  sub_content_version :: string
  sub_submitted_at :: string
  sub_artifacts :: "string list"
  sub_criteria :: "criterion_score list"
  sub_score :: jsnum
  sub_passed :: bool
  sub_reflection :: string

record earned_badge =
  eb_id :: string
  eb_name :: string
  eb_description :: string
  eb_earned_at :: string
  eb_evidence :: "string list"

record recent_module =
  rm_path :: string
  rm_module :: string
  rm_visited_at :: string

text \<open>\<open>schemaVersion\<close> is the literal type 1 and has no field.\<close>

record learner_progress =
  lp_display_name :: string
  lp_started_paths :: "string list"
  lp_completed_modules :: "string list"
  lp_attempts :: "assessment_attempt list"
  lp_capstones :: "capstone_submission list option"
  lp_badges :: "earned_badge list"
  lp_recent :: "recent_module option"
  lp_updated_at :: string

section \<open>The records as JSON\<close>

abbreviation JStrs :: "string list \<Rightarrow> json" where
  "JStrs xs \<equiv> JArr (map JStr xs)"

text \<open>The member of an optional property.\<close>

definition opt_member :: "string \<Rightarrow> ('a \<Rightarrow> json) \<Rightarrow> 'a option \<Rightarrow> (string \<times> json) list" where
  "opt_member k f x = (case x of None \<Rightarrow> [] | Some v \<Rightarrow> [(k, f v)])"

lemma opt_member_simps [simp]:
  "opt_member k f None = []"
  "opt_member k f (Some v) = [(k, f v)]"
  by (simp_all add: opt_member_def)

definition attempt_json :: "assessment_attempt \<Rightarrow> json" where
  "attempt_json a = JObj [(''id'', JStr (at_id a)), (''pathId'', JStr (at_path a)),
     (''moduleId'', JStr (at_module a)), (''contentVersion'', JStr (at_content_version a)),
     (''scorePercent'', JNum (at_score a)), (''passed'', JBool (at_passed a)),
     (''completedAt'', JStr (at_completed_at a))]"

definition criterion_score_json :: "criterion_score \<Rightarrow> json" where
  "criterion_score_json c = JObj ([(''criterionId'', JStr (cs_criterion c)),
     (''pointsAwarded'', JNum (cs_points c))] @ opt_member ''evidenceRefs'' JStrs (cs_evidence c))"

definition submission_json :: "capstone_submission \<Rightarrow> json" where
  "submission_json s = JObj [(''id'', JStr (sub_id s)), (''pathId'', JStr (sub_path s)),
     (''moduleId'', JStr (sub_module s)), (''contentVersion'', JStr (sub_content_version s)),
     (''submittedAt'', JStr (sub_submitted_at s)), (''artifactRefs'', JStrs (sub_artifacts s)),
     (''criterionScores'', JArr (map criterion_score_json (sub_criteria s))),
     (''scorePercent'', JNum (sub_score s)), (''passed'', JBool (sub_passed s)),
     (''reflection'', JStr (sub_reflection s))]"

definition badge_json :: "earned_badge \<Rightarrow> json" where
  "badge_json b = JObj [(''id'', JStr (eb_id b)), (''name'', JStr (eb_name b)),
     (''description'', JStr (eb_description b)), (''earnedAt'', JStr (eb_earned_at b)),
     (''evidenceModuleIds'', JStrs (eb_evidence b))]"

definition recent_json :: "recent_module \<Rightarrow> json" where
  "recent_json r = JObj [(''pathId'', JStr (rm_path r)), (''moduleId'', JStr (rm_module r)),
     (''visitedAt'', JStr (rm_visited_at r))]"

definition progress_json :: "learner_progress \<Rightarrow> json" where
  "progress_json p = JObj ([(''schemaVersion'', JInt 1), (''displayName'', JStr (lp_display_name p)),
     (''startedPathIds'', JStrs (lp_started_paths p)),
     (''completedModuleIds'', JStrs (lp_completed_modules p)),
     (''attempts'', JArr (map attempt_json (lp_attempts p)))]
     @ opt_member ''capstoneSubmissions'' (\<lambda>ss. JArr (map submission_json ss)) (lp_capstones p)
     @ [(''badges'', JArr (map badge_json (lp_badges p)))]
     @ opt_member ''recentModule'' recent_json (lp_recent p)
     @ [(''updatedAt'', JStr (lp_updated_at p))])"

end
