(* ===== verification/Learning_Events.thy ===== *)
theory Learning_Events
  imports Js_Time Learner_Progress
begin

text \<open>
  The command and event contract of \<open>src/learning-events.ts\<close>: the typed commands and events,
  their JSON values, and the validators. The validators work on JSON, as the code's do on
  values whose static types nothing has checked yet: they list the errors in the code's order
  and may throw a \<open>TypeError\<close> where the code reads a property of \<open>undefined\<close>. The last part
  says which typed values they accept.
\<close>

section \<open>Commands and events\<close>

datatype contract_version = V1_0 | V1_1

datatype actor_kind = LearnerActor | OwnerActor | SystemActor

record learning_actor =
  actor_type :: actor_kind
  actor_user :: "string option"

record badge_definition =
  bd_id :: string
  bd_name :: string
  bd_description :: string

record path_payload =
  pp_path :: string
  pp_title :: string
  pp_modules :: "string list"
  pp_badge :: badge_definition

record module_payload =
  mp_path :: string
  mp_module :: string

record assessment_payload =
  ap_attempt :: string
  ap_path :: string
  ap_module :: string
  ap_version :: string
  ap_answers :: "(string \<times> int option) list"
  ap_score :: int
  ap_passed :: bool

record completion_payload =
  cp_path :: string
  cp_module :: string
  cp_evidence :: "string list"

record correction_payload =
  xp_correction :: string
  xp_attempt :: string
  xp_version :: string
  xp_score :: int
  xp_passed :: bool
  xp_reason :: string

datatype import_source = BrowserLocal | PortableJson | LegacyHosted | AccountMerge | AccountBacked

record import_payload =
  ip_source :: import_source
  ip_checksum :: string
  ip_synchronized_at :: string
  ip_progress :: learner_progress

text \<open>The tagged unions: the constructor is the \<open>type\<close> property.\<close>

datatype learning_payload =
    PathEnroll path_payload
  | ModuleVisit module_payload
  | AssessmentRecord assessment_payload
  | ModuleComplete completion_payload
  | AssessmentCorrect correction_payload
  | ProgressImport import_payload

record learning_command =
  c_schema :: contract_version
  c_installation :: string
  c_learner :: string
  c_key :: string
  c_content :: string
  c_occurred :: string
  c_actor :: learning_actor
  c_payload :: learning_payload

text \<open>An event without its sequence number is a candidate (\<open>LearningEventCandidate\<close>).\<close>

record learning_candidate =
  e_schema :: contract_version
  e_id :: string
  e_installation :: string
  e_learner :: string
  e_key :: string
  e_content :: string
  e_digest :: string
  e_occurred :: string
  e_recorded :: string
  e_actor :: learning_actor
  e_payload :: learning_payload

record learning_event = learning_candidate +
  e_sequence :: int

text \<open>\<open>{ ...candidate, sequence }\<close>.\<close>

definition with_sequence :: "learning_candidate \<Rightarrow> int \<Rightarrow> learning_event" where
  "with_sequence c n = learning_candidate.extend c \<lparr>e_sequence = n\<rparr>"

lemma with_sequence_sel [simp]:
  "e_schema (with_sequence c n) = e_schema c" "e_id (with_sequence c n) = e_id c"
  "e_installation (with_sequence c n) = e_installation c"
  "e_learner (with_sequence c n) = e_learner c" "e_key (with_sequence c n) = e_key c"
  "e_content (with_sequence c n) = e_content c" "e_digest (with_sequence c n) = e_digest c"
  "e_occurred (with_sequence c n) = e_occurred c" "e_recorded (with_sequence c n) = e_recorded c"
  "e_actor (with_sequence c n) = e_actor c" "e_payload (with_sequence c n) = e_payload c"
  "e_sequence (with_sequence c n) = n"
  by (simp_all add: with_sequence_def learning_candidate.defs)

section \<open>Their JSON values\<close>

fun version_text :: "contract_version \<Rightarrow> string" where
  "version_text V1_0 = ''1.0''"
| "version_text V1_1 = ''1.1''"

fun actor_kind_text :: "actor_kind \<Rightarrow> string" where
  "actor_kind_text LearnerActor = ''learner''"
| "actor_kind_text OwnerActor = ''owner''"
| "actor_kind_text SystemActor = ''system''"

fun source_text :: "import_source \<Rightarrow> string" where
  "source_text BrowserLocal = ''browser-local-v1''"
| "source_text PortableJson = ''project42-portable-json''"
| "source_text LegacyHosted = ''legacy-hosted-v1''"
| "source_text AccountMerge = ''account-merge-v1''"
| "source_text AccountBacked = ''account-backed-v1''"

fun command_type :: "learning_payload \<Rightarrow> string" where
  "command_type (PathEnroll _) = ''path.enroll''"
| "command_type (ModuleVisit _) = ''module.visit''"
| "command_type (AssessmentRecord _) = ''assessment.record''"
| "command_type (ModuleComplete _) = ''module.complete''"
| "command_type (AssessmentCorrect _) = ''assessment.correct''"
| "command_type (ProgressImport _) = ''progress.import''"

fun event_type :: "learning_payload \<Rightarrow> string" where
  "event_type (PathEnroll _) = ''path.enrolled''"
| "event_type (ModuleVisit _) = ''module.visited''"
| "event_type (AssessmentRecord _) = ''assessment.recorded''"
| "event_type (ModuleComplete _) = ''module.completed''"
| "event_type (AssessmentCorrect _) = ''assessment.corrected''"
| "event_type (ProgressImport _) = ''progress.imported''"

definition actor_json :: "learning_actor \<Rightarrow> json" where
  "actor_json a = JObj [(''type'', JStr (actor_kind_text (actor_type a))),
     (''userId'', case actor_user a of None \<Rightarrow> JNull | Some u \<Rightarrow> JStr u)]"

definition badge_definition_json :: "badge_definition \<Rightarrow> json" where
  "badge_definition_json b = JObj [(''id'', JStr (bd_id b)), (''name'', JStr (bd_name b)),
     (''description'', JStr (bd_description b))]"

fun answer_json :: "int option \<Rightarrow> json" where
  "answer_json None = JNull"
| "answer_json (Some i) = JInt i"

fun payload_json :: "learning_payload \<Rightarrow> json" where
  "payload_json (PathEnroll p) = JObj [(''pathId'', JStr (pp_path p)),
     (''pathTitle'', JStr (pp_title p)), (''moduleIds'', JStrs (pp_modules p)),
     (''badge'', badge_definition_json (pp_badge p))]"
| "payload_json (ModuleVisit p) = JObj [(''pathId'', JStr (mp_path p)),
     (''moduleId'', JStr (mp_module p))]"
| "payload_json (AssessmentRecord p) = JObj [(''attemptId'', JStr (ap_attempt p)),
     (''pathId'', JStr (ap_path p)), (''moduleId'', JStr (ap_module p)),
     (''assessmentVersion'', JStr (ap_version p)),
     (''answers'', JObj (map (\<lambda>(q, a). (q, answer_json a)) (ap_answers p))),
     (''scorePercent'', JInt (ap_score p)), (''passed'', JBool (ap_passed p))]"
| "payload_json (ModuleComplete p) = JObj [(''pathId'', JStr (cp_path p)),
     (''moduleId'', JStr (cp_module p)), (''evidenceRefs'', JStrs (cp_evidence p))]"
| "payload_json (AssessmentCorrect p) = JObj [(''correctionId'', JStr (xp_correction p)),
     (''attemptId'', JStr (xp_attempt p)), (''assessmentVersion'', JStr (xp_version p)),
     (''scorePercent'', JInt (xp_score p)), (''passed'', JBool (xp_passed p)),
     (''reason'', JStr (xp_reason p))]"
| "payload_json (ProgressImport p) = JObj [(''source'', JStr (source_text (ip_source p))),
     (''sourceChecksum'', JStr (ip_checksum p)), (''synchronizedAt'', JStr (ip_synchronized_at p)),
     (''progress'', progress_json (ip_progress p))]"

definition command_json :: "learning_command \<Rightarrow> json" where
  "command_json c = JObj [(''schemaVersion'', JStr (version_text (c_schema c))),
     (''type'', JStr (command_type (c_payload c))),
     (''installationId'', JStr (c_installation c)), (''learnerId'', JStr (c_learner c)),
     (''idempotencyKey'', JStr (c_key c)), (''contentVersion'', JStr (c_content c)),
     (''occurredAt'', JStr (c_occurred c)), (''actor'', actor_json (c_actor c)),
     (''payload'', payload_json (c_payload c))]"

definition event_json :: "learning_event \<Rightarrow> json" where
  "event_json e = JObj [(''schemaVersion'', JStr (version_text (e_schema e))),
     (''id'', JStr (e_id e)), (''installationId'', JStr (e_installation e)),
     (''learnerId'', JStr (e_learner e)), (''idempotencyKey'', JStr (e_key e)),
     (''contentVersion'', JStr (e_content e)), (''commandDigest'', JStr (e_digest e)),
     (''occurredAt'', JStr (e_occurred e)), (''recordedAt'', JStr (e_recorded e)),
     (''actor'', actor_json (e_actor e)), (''type'', JStr (event_type (e_payload e))),
     (''payload'', payload_json (e_payload e)), (''sequence'', JInt (e_sequence e))]"

section \<open>The validators\<close>

text \<open>What the validators throw, and what they return: the list of error messages.\<close>

datatype js_exn = TypeError

type_synonym check = "(js_exn, string list) result"

text \<open>
  One validator after another: the messages accumulate, a throw ends the whole validation.
\<close>

fun checks :: "check list \<Rightarrow> check" where
  "checks [] = Inr []"
| "checks (v # vs) = bind_result v (\<lambda>es. bind_result (checks vs) (\<lambda>fs. Inr (es @ fs)))"

definition report :: "bool \<Rightarrow> string \<Rightarrow> check" where
  "report bad message = Inr (if bad then [message] else [])"

text \<open>\<open>stableIdPattern\<close>, \<open>idempotencyPattern\<close>, \<open>digestPattern\<close> and the version pattern.\<close>

definition id_char :: "char \<Rightarrow> bool" where
  "id_char c \<longleftrightarrow> alnum_char c \<or> c \<in> {CHR ''.'', CHR ''_'', CHR '':'', CHR ''-''}"

definition stable_id :: "string \<Rightarrow> bool" where
  "stable_id s \<longleftrightarrow> (case s of [] \<Rightarrow> False
     | c # cs \<Rightarrow> alnum_char c \<and> list_all id_char cs \<and> 1 \<le> length cs \<and> length cs \<le> 127)"

definition idempotency_key :: "string \<Rightarrow> bool" where
  "idempotency_key s \<longleftrightarrow> (case s of [] \<Rightarrow> False
     | c # cs \<Rightarrow> alnum_char c \<and> list_all id_char cs \<and> 15 \<le> length cs \<and> length cs \<le> 127)"

definition digest_text :: "string \<Rightarrow> bool" where
  "digest_text s \<longleftrightarrow> length s = 64 \<and> list_all hex_char s"

definition version_char :: "char \<Rightarrow> bool" where
  "version_char c \<longleftrightarrow> alnum_char c \<or> c \<in> {CHR ''.'', CHR ''_'', CHR ''+'', CHR ''-''}"

definition version_id :: "string \<Rightarrow> bool" where
  "version_id s \<longleftrightarrow> 1 \<le> length s \<and> length s \<le> 128 \<and>
     (case s of [] \<Rightarrow> False | c # cs \<Rightarrow> alnum_char c \<and> list_all version_char cs)"

text \<open>\<open>rejectUnknownKeys\<close>.\<close>

definition reject_unknown_keys :: "json \<Rightarrow> string list \<Rightarrow> string \<Rightarrow> check" where
  "reject_unknown_keys v allowed label =
     (if \<not> is_record v then Inr [label @ '' must be an object'']
      else Inr (map (\<lambda>k. label @ '' contains unsupported field: '' @ k)
             (filter (\<lambda>k. k \<notin> set allowed) (prop_keys v))))"

text \<open>A pattern test coerces its argument to a string.\<close>

definition validate_stable_id :: "runtime \<Rightarrow> json \<Rightarrow> string \<Rightarrow> check" where
  "validate_stable_id rt v label = report (\<not> stable_id (to_text rt v)) (label @ '' is invalid'')"

fun validate_version :: "json \<Rightarrow> string \<Rightarrow> check" where
  "validate_version (JStr s) label = report (\<not> version_id s) (label @ '' is invalid'')"
| "validate_version _ label = Inr [label @ '' is invalid'']"

definition display_text :: "string \<Rightarrow> nat \<Rightarrow> bool" where
  "display_text s n \<longleftrightarrow> js_trim s = s \<and> 1 \<le> length s \<and> length s \<le> n"

definition display_message :: "string \<Rightarrow> nat \<Rightarrow> string" where
  "display_message label n = label @ '' must contain 1-'' @ nat_text n @ '' trimmed characters''"

fun validate_display_text :: "json \<Rightarrow> string \<Rightarrow> nat \<Rightarrow> check" where
  "validate_display_text (JStr s) label n = report (\<not> display_text s n) (display_message label n)"
| "validate_display_text _ label n = Inr [display_message label n]"

text \<open>
  \<open>validTimestamp\<close> on any value. The pattern and \<open>Date.parse\<close> coerce; \<open>value.includes\<close> and
  \<open>value.replace\<close> exist on strings only (on an array the second is missing), so another value
  whose text is a timestamp throws.
\<close>

definition valid_timestamp_value :: "runtime \<Rightarrow> json \<Rightarrow> (js_exn, bool) result" where
  "valid_timestamp_value rt v =
     (let s = to_text rt v in
      if \<not> timestamp_pattern s then Inr False
      else case date_parse s of None \<Rightarrow> Inr False
      | Some t \<Rightarrow> if is_string v then Inr (to_iso_string t = with_millis s) else Inl TypeError)"

definition validate_timestamp :: "runtime \<Rightarrow> json \<Rightarrow> string \<Rightarrow> check" where
  "validate_timestamp rt v label =
     bind_result (valid_timestamp_value rt v)
       (\<lambda>ok. report (\<not> ok) (label @ '' must be an ISO UTC timestamp''))"

definition validate_contract_version :: "json \<Rightarrow> check" where
  "validate_contract_version v =
     report (v \<notin> {JStr ''1.0'', JStr ''1.1''}) ''schemaVersion must be one of 1.0, 1.1''"

text \<open>\<open>Number.isInteger(v) && lo <= v && v <= hi\<close>.\<close>

fun num_of :: "json \<Rightarrow> jsnum" where
  "num_of (JNum n) = n"
| "num_of _ = NaN"

definition integer_between :: "json \<Rightarrow> int \<Rightarrow> int \<Rightarrow> bool" where
  "integer_between v lo hi \<longleftrightarrow> is_integer v \<and> \<not> num_less (num_of v) (Fin (of_int lo))
     \<and> \<not> num_less (Fin (of_int hi)) (num_of v)"

definition validate_score :: "json \<Rightarrow> check" where
  "validate_score v = report (\<not> integer_between v 0 100)
     ''assessment scorePercent must be an integer from 0-100''"

text \<open>\<open>validateActor\<close>.\<close>

definition validate_actor :: "runtime \<Rightarrow> json \<Rightarrow> check" where
  "validate_actor rt actor =
     (if \<not> is_record actor then reject_unknown_keys actor [''type'', ''userId''] ''actor''
      else checks
        [reject_unknown_keys actor [''type'', ''userId''] ''actor'',
         report (get_prop actor ''type'' \<notin> {JStr ''learner'', JStr ''owner'', JStr ''system''})
           ''actor type is unsupported'',
         if get_prop actor ''type'' = JStr ''system''
         then report (get_prop actor ''userId'' \<noteq> JNull) ''system actors cannot include a user ID''
         else report (\<not> truthy (get_prop actor ''userId'')
             \<or> \<not> stable_id (to_text rt (get_prop actor ''userId'')))
           ''human actors require a stable user ID''])"

text \<open>
  \<open>Set.has\<close> on values that are not strings: primitives compare by value, objects by identity,
  and two members of a parsed value are never the same object.
\<close>

definition same_value :: "json \<Rightarrow> json \<Rightarrow> bool" where
  "same_value a b \<longleftrightarrow> a = b \<and> \<not> is_record a \<and> \<not> is_array a"

fun unique_id_checks :: "runtime \<Rightarrow> string \<Rightarrow> json list \<Rightarrow> json list \<Rightarrow> check list" where
  "unique_id_checks rt label observed [] = []"
| "unique_id_checks rt label observed (v # vs) =
     validate_stable_id rt v label
     # report (list_ex (same_value v) observed) (''duplicate '' @ label @ '': '' @ to_text rt v)
     # unique_id_checks rt label (v # observed) vs"

fun validate_unique_ids :: "runtime \<Rightarrow> json \<Rightarrow> string \<Rightarrow> check" where
  "validate_unique_ids rt (JArr vs) label = checks (unique_id_checks rt label [] vs)"
| "validate_unique_ids rt _ label = Inr [label @ '' collection is required'']"

text \<open>\<open>v.length === 0\<close>, a read that throws on \<open>undefined\<close> and \<open>null\<close>.\<close>

fun length_is_zero :: "json \<Rightarrow> (js_exn, bool) result" where
  "length_is_zero JUndefined = Inl TypeError"
| "length_is_zero JNull = Inl TypeError"
| "length_is_zero (JArr vs) = Inr (vs = [])"
| "length_is_zero (JStr s) = Inr (s = [])"
| "length_is_zero (JObj kvs) = Inr (get_prop (JObj kvs) ''length'' = JInt 0)"
| "length_is_zero _ = Inr False"

definition report_empty :: "json \<Rightarrow> string \<Rightarrow> check" where
  "report_empty v message = bind_result (length_is_zero v) (\<lambda>z. report z message)"

section \<open>The validators of the six payloads\<close>

definition validate_path_payload :: "runtime \<Rightarrow> json \<Rightarrow> check" where
  "validate_path_payload rt p =
     (if \<not> is_record p then reject_unknown_keys p [] ''path enrollment payload''
      else checks
        [reject_unknown_keys p [''pathId'', ''pathTitle'', ''moduleIds'', ''badge'']
           ''path enrollment payload'',
         validate_stable_id rt (get_prop p ''pathId'') ''path ID'',
         validate_display_text (get_prop p ''pathTitle'') ''path title'' 200,
         validate_unique_ids rt (get_prop p ''moduleIds'') ''path module ID'',
         report_empty (get_prop p ''moduleIds'') ''path enrollment requires at least one module'',
         (let b = get_prop p ''badge'' in
          if \<not> is_record b then reject_unknown_keys b [] ''badge definition''
          else checks
            [reject_unknown_keys b [''id'', ''name'', ''description''] ''badge definition'',
             validate_stable_id rt (get_prop b ''id'') ''badge ID'',
             validate_display_text (get_prop b ''name'') ''badge name'' 120,
             validate_display_text (get_prop b ''description'') ''badge description'' 500])])"

definition validate_module_payload :: "runtime \<Rightarrow> json \<Rightarrow> check" where
  "validate_module_payload rt p =
     (if \<not> is_record p then reject_unknown_keys p [] ''module visit payload''
      else checks
        [reject_unknown_keys p [''pathId'', ''moduleId''] ''module visit payload'',
         validate_stable_id rt (get_prop p ''pathId'') ''path ID'',
         validate_stable_id rt (get_prop p ''moduleId'') ''module ID''])"

fun answer_checks :: "runtime \<Rightarrow> (string \<times> json) list \<Rightarrow> check list" where
  "answer_checks rt [] = []"
| "answer_checks rt ((q, a) # rest) =
     validate_stable_id rt (JStr q) ''question ID''
     # report (a \<noteq> JNull \<and> \<not> integer_between a 0 1000)
         (''assessment answer for '' @ q @ '' must be null or a nonnegative integer'')
     # answer_checks rt rest"

fun object_entries :: "json \<Rightarrow> (string \<times> json) list" where
  "object_entries (JObj kvs) = kvs"
| "object_entries _ = []"

definition validate_assessment_payload :: "runtime \<Rightarrow> json \<Rightarrow> check" where
  "validate_assessment_payload rt p =
     (if \<not> is_record p then reject_unknown_keys p [] ''assessment payload''
      else checks
        ([reject_unknown_keys p [''attemptId'', ''pathId'', ''moduleId'', ''assessmentVersion'',
            ''answers'', ''scorePercent'', ''passed''] ''assessment payload'',
          validate_stable_id rt (get_prop p ''attemptId'') ''attempt ID'',
          validate_stable_id rt (get_prop p ''pathId'') ''path ID'',
          validate_stable_id rt (get_prop p ''moduleId'') ''module ID'',
          validate_version (get_prop p ''assessmentVersion'') ''assessment version'']
         @ (let answers = get_prop p ''answers'' in
            if \<not> is_record answers then [Inr [''assessment answers must be an object'']]
            else report (object_entries answers = [] \<or> length (object_entries answers) > 500)
                ''assessment answers must contain 1-500 questions''
              # answer_checks rt (object_entries answers)
              @ [validate_score (get_prop p ''scorePercent''),
                 report (\<not> is_boolean (get_prop p ''passed''))
                   ''assessment passed must be a boolean''])))"

definition validate_completion_payload :: "runtime \<Rightarrow> json \<Rightarrow> check" where
  "validate_completion_payload rt p =
     (if \<not> is_record p then reject_unknown_keys p [] ''module completion payload''
      else checks
        [reject_unknown_keys p [''pathId'', ''moduleId'', ''evidenceRefs'']
           ''module completion payload'',
         validate_stable_id rt (get_prop p ''pathId'') ''path ID'',
         validate_stable_id rt (get_prop p ''moduleId'') ''module ID'',
         validate_unique_ids rt (get_prop p ''evidenceRefs'') ''evidence reference'',
         report_empty (get_prop p ''evidenceRefs'')
           ''module completion requires at least one evidence reference''])"

definition validate_correction_payload :: "runtime \<Rightarrow> json \<Rightarrow> check" where
  "validate_correction_payload rt p =
     (if \<not> is_record p then reject_unknown_keys p [] ''assessment correction payload''
      else checks
        [reject_unknown_keys p [''correctionId'', ''attemptId'', ''assessmentVersion'',
           ''scorePercent'', ''passed'', ''reason''] ''assessment correction payload'',
         validate_stable_id rt (get_prop p ''correctionId'') ''correction ID'',
         validate_stable_id rt (get_prop p ''attemptId'') ''attempt ID'',
         validate_version (get_prop p ''assessmentVersion'') ''assessment version'',
         validate_score (get_prop p ''scorePercent''),
         report (\<not> is_boolean (get_prop p ''passed''))
           ''assessment correction passed must be a boolean'',
         validate_display_text (get_prop p ''reason'') ''assessment correction reason'' 500])"

section \<open>The progress snapshot of an import\<close>

definition control_char :: "char \<Rightarrow> bool" where
  "control_char c \<longleftrightarrow> (of_char c :: nat) < 32 \<or> (of_char c :: nat) = 127"

definition progress_text :: "string \<Rightarrow> nat \<Rightarrow> bool" where
  "progress_text s n \<longleftrightarrow> js_trim s = s \<and> 1 \<le> length s \<and> length s \<le> n \<and> \<not> list_ex control_char s"

fun validate_progress_string :: "json \<Rightarrow> string \<Rightarrow> nat \<Rightarrow> check" where
  "validate_progress_string (JStr s) label n = report (\<not> progress_text s n) (label @ '' is invalid'')"
| "validate_progress_string _ label n = Inr [label @ '' is invalid'']"

text \<open>\<open>typeof v === "number" && Number.isFinite(v) && 0 <= v && v <= 100\<close>.\<close>

fun percent_number :: "json \<Rightarrow> bool" where
  "percent_number (JNum (Fin r)) \<longleftrightarrow> 0 \<le> r \<and> r \<le> 100"
| "percent_number _ = False"

definition validate_progress_score :: "json \<Rightarrow> string \<Rightarrow> check" where
  "validate_progress_score v label = report (\<not> percent_number v)
     (label @ '' must be a finite number from 0-100'')"

fun string_array_checks :: "runtime \<Rightarrow> string \<Rightarrow> string list \<Rightarrow> json list \<Rightarrow> check list" where
  "string_array_checks rt label observed [] = []"
| "string_array_checks rt label observed (v # vs) =
     validate_progress_string v label 2048
     # (case v of
         JStr s \<Rightarrow> report (s \<in> set observed) (''duplicate '' @ label @ '': '' @ s)
           # string_array_checks rt label (s # observed) vs
       | _ \<Rightarrow> string_array_checks rt label observed vs)"

fun validate_progress_string_array :: "runtime \<Rightarrow> json \<Rightarrow> string \<Rightarrow> nat \<Rightarrow> check" where
  "validate_progress_string_array rt (JArr vs) label n = checks
     (report (length vs > n) (label @ '' collection exceeds '' @ nat_text n @ '' items'')
      # string_array_checks rt label [] vs)"
| "validate_progress_string_array rt _ label n = Inr [label @ '' collection is required'']"

text \<open>\<open>validateUniqueProgressRecords\<close>: items are numbered from 1 in their labels.\<close>

fun unique_record_checks ::
    "(json \<Rightarrow> string \<Rightarrow> check) \<Rightarrow> string \<Rightarrow> string \<Rightarrow> nat \<Rightarrow> string list \<Rightarrow> json list \<Rightarrow> check list" where
  "unique_record_checks f label id_field i observed [] = []"
| "unique_record_checks f label id_field i observed (v # vs) =
     f v (label @ '' '' @ nat_text (i + 1))
     # (case get_prop v id_field of
         JStr s \<Rightarrow> report (s \<in> set observed) (''duplicate '' @ label @ '' ID: '' @ s)
           # unique_record_checks f label id_field (i + 1) (s # observed) vs
       | _ \<Rightarrow> unique_record_checks f label id_field (i + 1) observed vs)"

definition validate_unique_records ::
    "(json \<Rightarrow> string \<Rightarrow> check) \<Rightarrow> json list \<Rightarrow> string \<Rightarrow> string \<Rightarrow> check" where
  "validate_unique_records f vs label id_field = checks (unique_record_checks f label id_field 0 [] vs)"

definition validate_progress_attempt :: "runtime \<Rightarrow> json \<Rightarrow> string \<Rightarrow> check" where
  "validate_progress_attempt rt v label =
     (if \<not> is_record v then Inr [label @ '' must be an object'']
      else checks
        [reject_unknown_keys v [''id'', ''pathId'', ''moduleId'', ''contentVersion'',
           ''scorePercent'', ''passed'', ''completedAt''] label,
         validate_progress_string (get_prop v ''id'') (label @ '' ID'') 128,
         validate_progress_string (get_prop v ''pathId'') (label @ '' path ID'') 128,
         validate_progress_string (get_prop v ''moduleId'') (label @ '' module ID'') 128,
         validate_progress_string (get_prop v ''contentVersion'') (label @ '' content version'') 128,
         validate_progress_score (get_prop v ''scorePercent'') (label @ '' score''),
         report (\<not> is_boolean (get_prop v ''passed'')) (label @ '' passed must be boolean''),
         validate_timestamp rt (get_prop v ''completedAt'') (label @ '' completedAt'')])"

definition validate_progress_criterion_score :: "runtime \<Rightarrow> json \<Rightarrow> string \<Rightarrow> check" where
  "validate_progress_criterion_score rt v label =
     (if \<not> is_record v then Inr [label @ '' must be an object'']
      else checks
        [reject_unknown_keys v [''criterionId'', ''pointsAwarded'', ''evidenceRefs''] label,
         validate_progress_string (get_prop v ''criterionId'') (label @ '' criterion ID'') 128,
         report (\<not> is_integer (get_prop v ''pointsAwarded'')
             \<or> num_less (num_of (get_prop v ''pointsAwarded'')) (Fin 0))
           (label @ '' pointsAwarded must be a nonnegative integer''),
         if get_prop v ''evidenceRefs'' = JUndefined then Inr []
         else validate_progress_string_array rt (get_prop v ''evidenceRefs'')
                (label @ '' evidence reference'') 1000])"

fun array_items :: "json \<Rightarrow> json list" where
  "array_items (JArr vs) = vs"
| "array_items _ = []"

definition validate_progress_capstone :: "runtime \<Rightarrow> json \<Rightarrow> string \<Rightarrow> check" where
  "validate_progress_capstone rt v label =
     (if \<not> is_record v then Inr [label @ '' must be an object'']
      else checks
        [reject_unknown_keys v [''id'', ''pathId'', ''moduleId'', ''contentVersion'',
           ''submittedAt'', ''artifactRefs'', ''criterionScores'', ''scorePercent'', ''passed'',
           ''reflection''] label,
         validate_progress_string (get_prop v ''id'') (label @ '' ID'') 128,
         validate_progress_string (get_prop v ''pathId'') (label @ '' path ID'') 128,
         validate_progress_string (get_prop v ''moduleId'') (label @ '' module ID'') 128,
         validate_progress_string (get_prop v ''contentVersion'') (label @ '' content version'') 128,
         validate_timestamp rt (get_prop v ''submittedAt'') (label @ '' submittedAt''),
         validate_progress_string_array rt (get_prop v ''artifactRefs'')
           (label @ '' artifact reference'') 1000,
         if \<not> is_array (get_prop v ''criterionScores'')
             \<or> array_items (get_prop v ''criterionScores'') = []
         then Inr [label @ '' criterion scores are required'']
         else validate_unique_records (validate_progress_criterion_score rt)
                (array_items (get_prop v ''criterionScores'')) (label @ '' criterion score'')
                ''criterionId'',
         validate_progress_score (get_prop v ''scorePercent'') (label @ '' score''),
         report (\<not> is_boolean (get_prop v ''passed'')) (label @ '' passed must be boolean''),
         validate_display_text (get_prop v ''reflection'') (label @ '' reflection'') 10000])"

definition validate_progress_badge :: "runtime \<Rightarrow> json \<Rightarrow> string \<Rightarrow> check" where
  "validate_progress_badge rt v label =
     (if \<not> is_record v then Inr [label @ '' must be an object'']
      else checks
        [reject_unknown_keys v [''id'', ''name'', ''description'', ''earnedAt'',
           ''evidenceModuleIds''] label,
         validate_progress_string (get_prop v ''id'') (label @ '' ID'') 128,
         validate_display_text (get_prop v ''name'') (label @ '' name'') 120,
         validate_display_text (get_prop v ''description'') (label @ '' description'') 500,
         validate_timestamp rt (get_prop v ''earnedAt'') (label @ '' earnedAt''),
         validate_progress_string_array rt (get_prop v ''evidenceModuleIds'')
           (label @ '' evidence module ID'') 10000])"

definition validate_progress_recent_module :: "runtime \<Rightarrow> json \<Rightarrow> check" where
  "validate_progress_recent_module rt v =
     (let label = ''progress recent module'' in
      if \<not> is_record v then Inr [label @ '' must be an object'']
      else checks
        [reject_unknown_keys v [''pathId'', ''moduleId'', ''visitedAt''] label,
         validate_progress_string (get_prop v ''pathId'') (label @ '' path ID'') 128,
         validate_progress_string (get_prop v ''moduleId'') (label @ '' module ID'') 128,
         validate_timestamp rt (get_prop v ''visitedAt'') (label @ '' visitedAt'')])"

definition progress_shape :: "json \<Rightarrow> bool" where
  "progress_shape p \<longleftrightarrow> get_prop p ''schemaVersion'' = JInt 1
     \<and> is_string (get_prop p ''displayName'') \<and> is_array (get_prop p ''startedPathIds'')
     \<and> is_array (get_prop p ''completedModuleIds'') \<and> is_array (get_prop p ''attempts'')
     \<and> is_array (get_prop p ''badges'')
     \<and> (get_prop p ''capstoneSubmissions'' = JUndefined
        \<or> is_array (get_prop p ''capstoneSubmissions''))"

definition validate_progress_snapshot :: "runtime \<Rightarrow> json \<Rightarrow> check" where
  "validate_progress_snapshot rt p =
     (if \<not> is_record p then Inr [''progress import progress must be an object'']
      else checks
        (reject_unknown_keys p [''schemaVersion'', ''displayName'', ''startedPathIds'',
           ''completedModuleIds'', ''attempts'', ''capstoneSubmissions'', ''badges'',
           ''recentModule'', ''updatedAt''] ''progress import progress''
         # (if \<not> progress_shape p
            then [Inr [''progress import progress must use the Project 42 v1 schema'']]
            else
              [validate_display_text (get_prop p ''displayName'') ''progress display name'' 80,
               validate_progress_string_array rt (get_prop p ''startedPathIds'')
                 ''started path ID'' 1000,
               validate_progress_string_array rt (get_prop p ''completedModuleIds'')
                 ''completed module ID'' 10000,
               validate_timestamp rt (get_prop p ''updatedAt'') ''progress updatedAt'',
               report (length (array_items (get_prop p ''attempts'')) > 10000
                   \<or> length (array_items (get_prop p ''badges'')) > 1000
                   \<or> length (array_items (get_prop p ''completedModuleIds'')) > 10000
                   \<or> length (array_items (get_prop p ''capstoneSubmissions'')) > 10000)
                 ''progress import progress exceeds supported record limits'',
               validate_unique_records (validate_progress_attempt rt)
                 (array_items (get_prop p ''attempts'')) ''progress assessment attempt'' ''id'',
               validate_unique_records (validate_progress_capstone rt)
                 (array_items (get_prop p ''capstoneSubmissions''))
                 ''progress capstone submission'' ''id'',
               validate_unique_records (validate_progress_badge rt)
                 (array_items (get_prop p ''badges'')) ''progress badge'' ''id'',
               if get_prop p ''recentModule'' = JUndefined then Inr []
               else validate_progress_recent_module rt (get_prop p ''recentModule'')])))"

definition validate_progress_import_payload :: "runtime \<Rightarrow> json \<Rightarrow> check" where
  "validate_progress_import_payload rt p =
     (if \<not> is_record p then reject_unknown_keys p [] ''progress import payload''
      else checks
        [reject_unknown_keys p [''source'', ''sourceChecksum'', ''synchronizedAt'', ''progress'']
           ''progress import payload'',
         report (get_prop p ''source'' \<notin> {JStr ''browser-local-v1'', JStr ''project42-portable-json'',
             JStr ''legacy-hosted-v1'', JStr ''account-merge-v1'', JStr ''account-backed-v1''})
           ''progress import source is unsupported'',
         report (\<not> digest_text (to_text rt (get_prop p ''sourceChecksum'')))
           ''progress import sourceChecksum must be a lowercase SHA-256 digest'',
         validate_timestamp rt (get_prop p ''synchronizedAt'') ''progress import synchronizedAt'',
         validate_progress_snapshot rt (get_prop p ''progress'')])"

section \<open>Commands and events\<close>

definition command_types :: "string list" where
  "command_types = [''path.enroll'', ''module.visit'', ''assessment.record'', ''module.complete'',
     ''assessment.correct'', ''progress.import'']"

definition event_types :: "string list" where
  "event_types = [''path.enrolled'', ''module.visited'', ''assessment.recorded'',
     ''module.completed'', ''assessment.corrected'', ''progress.imported'']"

text \<open>The payload check of the position \<open>validateCommandPayload\<close> and \<open>validateEventPayload\<close> switch to.\<close>

definition validate_payload :: "runtime \<Rightarrow> string list \<Rightarrow> string \<Rightarrow> json \<Rightarrow> check" where
  "validate_payload rt types t p =
     (if t = types ! 0 then validate_path_payload rt p
      else if t = types ! 1 then validate_module_payload rt p
      else if t = types ! 2 then validate_assessment_payload rt p
      else if t = types ! 3 then validate_completion_payload rt p
      else if t = types ! 4 then validate_correction_payload rt p
      else if t = types ! 5 then validate_progress_import_payload rt p
      else Inr [])"

text \<open>
  \<open>validateLearningCommand\<close>. Reading \<open>value.schemaVersion\<close> throws on \<open>null\<close> and \<open>undefined\<close>; an
  unsupported type ends the validation early.
\<close>

definition validate_learning_command :: "runtime \<Rightarrow> json \<Rightarrow> check" where
  "validate_learning_command rt v =
     (if v = JNull \<or> v = JUndefined then Inl TypeError
      else
        let head = [reject_unknown_keys v [''schemaVersion'', ''type'', ''installationId'',
                      ''learnerId'', ''idempotencyKey'', ''contentVersion'', ''occurredAt'',
                      ''actor'', ''payload''] ''command'',
                    validate_contract_version (get_prop v ''schemaVersion'')]
        in case get_prop v ''type'' of
            JStr t \<Rightarrow>
              if t \<notin> set command_types then checks (head @ [Inr [''command type is unsupported'']])
              else checks (head @
                [report (t = ''progress.import'' \<and> get_prop v ''schemaVersion'' \<noteq> JStr ''1.1'')
                   ''progress import commands require schemaVersion 1.1'',
                 validate_stable_id rt (get_prop v ''installationId'') ''installation ID'',
                 validate_stable_id rt (get_prop v ''learnerId'') ''learner ID'',
                 report (\<not> idempotency_key (to_text rt (get_prop v ''idempotencyKey'')))
                   ''idempotency key must contain 16-128 safe characters'',
                 validate_version (get_prop v ''contentVersion'') ''content version'',
                 validate_timestamp rt (get_prop v ''occurredAt'') ''command occurredAt'',
                 validate_actor rt (get_prop v ''actor''),
                 validate_payload rt command_types t (get_prop v ''payload'')])
          | _ \<Rightarrow> checks (head @ [Inr [''command type is unsupported'']]))"

text \<open>\<open>validTimestamp(a) && validTimestamp(b) && Date.parse(b) < Date.parse(a)\<close>.\<close>

definition recorded_before_occurred :: "runtime \<Rightarrow> json \<Rightarrow> json \<Rightarrow> (js_exn, bool) result" where
  "recorded_before_occurred rt occurred recorded =
     bind_result (valid_timestamp_value rt occurred) (\<lambda>ok.
       if \<not> ok then Inr False
       else bind_result (valid_timestamp_value rt recorded) (\<lambda>ok'.
         if \<not> ok' then Inr False
         else Inr (case (date_parse (to_text rt recorded), date_parse (to_text rt occurred)) of
             (Some r, Some a) \<Rightarrow> r < a | _ \<Rightarrow> False)))"

definition validate_learning_event :: "runtime \<Rightarrow> json \<Rightarrow> check" where
  "validate_learning_event rt v =
     (if v = JNull \<or> v = JUndefined then Inl TypeError
      else
        let head = [reject_unknown_keys v [''schemaVersion'', ''id'', ''sequence'', ''type'',
                      ''installationId'', ''learnerId'', ''idempotencyKey'', ''contentVersion'',
                      ''commandDigest'', ''occurredAt'', ''recordedAt'', ''actor'', ''payload'']
                      ''event'',
                    validate_contract_version (get_prop v ''schemaVersion''),
                    validate_stable_id rt (get_prop v ''id'') ''event ID'',
                    report (\<not> is_integer (get_prop v ''sequence'')
                        \<or> num_less (num_of (get_prop v ''sequence'')) (Fin 1))
                      ''event sequence must be a positive integer'']
        in case get_prop v ''type'' of
            JStr t \<Rightarrow>
              if t \<notin> set event_types then checks (head @ [Inr [''event type is unsupported'']])
              else checks (head @
                [report (t = ''progress.imported'' \<and> get_prop v ''schemaVersion'' \<noteq> JStr ''1.1'')
                   ''progress imported events require schemaVersion 1.1'',
                 validate_stable_id rt (get_prop v ''installationId'') ''installation ID'',
                 validate_stable_id rt (get_prop v ''learnerId'') ''learner ID'',
                 report (\<not> idempotency_key (to_text rt (get_prop v ''idempotencyKey'')))
                   ''idempotency key must contain 16-128 safe characters'',
                 validate_version (get_prop v ''contentVersion'') ''content version'',
                 report (\<not> digest_text (to_text rt (get_prop v ''commandDigest'')))
                   ''command digest must be a lowercase SHA-256 digest'',
                 validate_timestamp rt (get_prop v ''occurredAt'') ''event occurredAt'',
                 validate_timestamp rt (get_prop v ''recordedAt'') ''event recordedAt'',
                 bind_result (recorded_before_occurred rt (get_prop v ''occurredAt'')
                     (get_prop v ''recordedAt''))
                   (\<lambda>early. report early ''event recordedAt cannot precede occurredAt''),
                 validate_actor rt (get_prop v ''actor''),
                 validate_payload rt event_types t (get_prop v ''payload'')])
          | _ \<Rightarrow> checks (head @ [Inr [''event type is unsupported'']]))"

text \<open>
  \<open>canonicalizeLearningCommand\<close> and \<open>digestLearningCommand\<close>: the digest is taken of the text of
  the command with its keys sorted, whatever order the caller built it in.
\<close>

definition canonicalize_learning_command ::
    "runtime \<Rightarrow> json \<Rightarrow> (js_exn + string list, string) result" where
  "canonicalize_learning_command rt v =
     (case validate_learning_command rt v of
        Inl x \<Rightarrow> Inl (Inl x)
      | Inr [] \<Rightarrow> Inr (stringify rt (sort_json rt v))
      | Inr es \<Rightarrow> Inl (Inr es))"

definition digest_learning_command ::
    "runtime \<Rightarrow> json \<Rightarrow> (js_exn + string list, string) result" where
  "digest_learning_command rt v =
     bind_result (canonicalize_learning_command rt v) (\<lambda>text. Inr (sha256_hex rt text))"

section \<open>What the validators accept of typed values\<close>

lemma checks_ok: "checks vs = Inr [] \<longleftrightarrow> (\<forall>v \<in> set vs. v = Inr [])"
proof (induction vs)
  case (Cons v vs)
  then show ?case by (cases v; cases "checks vs") auto
qed simp

lemma checks_total: "isl (checks vs) \<longleftrightarrow> (\<exists>v \<in> set vs. isl v)"
proof (induction vs)
  case (Cons v vs)
  then show ?case by (cases v; cases "checks vs") auto
qed simp

declare checks.simps [simp del]

lemma report_ok [simp]: "report b m = Inr [] \<longleftrightarrow> \<not> b"
  and report_total [simp]: "\<not> isl (report b m)"
  by (simp_all add: report_def)

lemma validate_stable_id_JStr [simp]: "validate_stable_id rt (JStr s) label = Inr [] \<longleftrightarrow> stable_id s"
  and validate_stable_id_total [simp]: "\<not> isl (validate_stable_id rt v label)"
  by (simp_all add: validate_stable_id_def)

lemma reject_unknown_keys_ok:
  "reject_unknown_keys v ks label = Inr [] \<longleftrightarrow> is_record v \<and> set (prop_keys v) \<subseteq> set ks"
  by (auto simp: reject_unknown_keys_def filter_empty_conv)

lemma reject_unknown_keys_total [simp]: "\<not> isl (reject_unknown_keys v ks label)"
  by (simp add: reject_unknown_keys_def)

lemma valid_timestamp_value_JStr [simp]: "valid_timestamp_value rt (JStr s) = Inr (valid_timestamp s)"
  by (auto simp: valid_timestamp_value_def valid_timestamp_def date_parse_def split: option.splits)

lemma validate_timestamp_JStr [simp]:
  "validate_timestamp rt (JStr s) label = Inr [] \<longleftrightarrow> valid_timestamp s"
  "\<not> isl (validate_timestamp rt (JStr s) label)"
  by (simp_all add: validate_timestamp_def)

lemma is_integer_JInt [simp]: "is_integer (JInt i)"
  by simp

lemma integer_between_JInt [simp]: "integer_between (JInt i) lo hi \<longleftrightarrow> lo \<le> i \<and> i \<le> hi"
  by (simp add: integer_between_def not_less)

lemma validate_score_ok [simp]: "validate_score (JInt i) = Inr [] \<longleftrightarrow> 0 \<le> i \<and> i \<le> 100"
  and validate_score_total [simp]: "\<not> isl (validate_score v)"
  by (simp_all add: validate_score_def)

lemma stable_id_nonempty: "stable_id s \<Longrightarrow> s \<noteq> []"
  by (auto simp: stable_id_def)

definition wf_actor :: "learning_actor \<Rightarrow> bool" where
  "wf_actor a \<longleftrightarrow> (case actor_type a of SystemActor \<Rightarrow> actor_user a = None
     | _ \<Rightarrow> (case actor_user a of None \<Rightarrow> False | Some u \<Rightarrow> stable_id u))"

lemma validate_actor_ok [simp]:
  "validate_actor rt (actor_json a) = Inr [] \<longleftrightarrow> wf_actor a"
  by (cases "actor_type a"; cases "actor_user a")
    (auto simp: validate_actor_def actor_json_def checks_ok reject_unknown_keys_ok wf_actor_def
      dest: stable_id_nonempty)

lemma validate_actor_total [simp]: "\<not> isl (validate_actor rt v)"
  by (auto simp: validate_actor_def simp: checks_total)

text \<open>Unique stable identifiers.\<close>

lemma same_value_JStr [simp]: "same_value (JStr a) (JStr b) \<longleftrightarrow> a = b"
  by (auto simp: same_value_def)

lemma unique_id_checks_ok:
  "(\<forall>v \<in> set (unique_id_checks rt label (map JStr seen) (map JStr xs)). v = Inr [])
   \<longleftrightarrow> list_all stable_id xs \<and> distinct xs \<and> set xs \<inter> set seen = {}"
proof (induction xs arbitrary: seen)
  case (Cons x xs)
  have "list_ex (same_value (JStr x)) (map JStr seen) \<longleftrightarrow> x \<in> set seen"
    by (auto simp: list_ex_iff)
  then show ?case using Cons [of "x # seen"] by auto
qed simp

lemma unique_id_checks_total: "v \<in> set (unique_id_checks rt label seen xs) \<Longrightarrow> \<not> isl v"
  by (induction xs arbitrary: seen) auto

lemma validate_unique_ids_ok [simp]:
  "validate_unique_ids rt (JStrs xs) label = Inr [] \<longleftrightarrow> list_all stable_id xs \<and> distinct xs"
  using unique_id_checks_ok [of rt label "[]" xs] by (simp add: checks_ok)

lemma validate_unique_ids_total [simp]: "\<not> isl (validate_unique_ids rt v label)"
  by (cases v) (auto simp: checks_total dest: unique_id_checks_total)

declare validate_unique_ids.simps [simp del]

lemma report_empty_JStrs [simp]:
  "report_empty (JStrs xs) m = Inr [] \<longleftrightarrow> xs \<noteq> []"
  "\<not> isl (report_empty (JStrs xs) m)"
  by (simp_all add: report_empty_def)

section \<open>Well-formed payloads\<close>

definition wf_badge_definition :: "badge_definition \<Rightarrow> bool" where
  "wf_badge_definition b \<longleftrightarrow> stable_id (bd_id b) \<and> display_text (bd_name b) 120
     \<and> display_text (bd_description b) 500"

fun wf_answer :: "string \<times> int option \<Rightarrow> bool" where
  "wf_answer (q, None) \<longleftrightarrow> stable_id q"
| "wf_answer (q, Some i) \<longleftrightarrow> stable_id q \<and> 0 \<le> i \<and> i \<le> 1000"

definition wf_answers :: "(string \<times> int option) list \<Rightarrow> bool" where
  "wf_answers as \<longleftrightarrow> as \<noteq> [] \<and> length as \<le> 500 \<and> list_all wf_answer as"

definition wf_attempt :: "assessment_attempt \<Rightarrow> bool" where
  "wf_attempt a \<longleftrightarrow> progress_text (at_id a) 128 \<and> progress_text (at_path a) 128
     \<and> progress_text (at_module a) 128 \<and> progress_text (at_content_version a) 128
     \<and> percent_number (JNum (at_score a)) \<and> valid_timestamp (at_completed_at a)"

definition wf_strings :: "string list \<Rightarrow> nat \<Rightarrow> bool" where
  "wf_strings xs n \<longleftrightarrow> length xs \<le> n \<and> distinct xs \<and> list_all (\<lambda>s. progress_text s 2048) xs"

definition wf_criterion_score :: "criterion_score \<Rightarrow> bool" where
  "wf_criterion_score c \<longleftrightarrow> progress_text (cs_criterion c) 128 \<and> is_integer (JNum (cs_points c))
     \<and> \<not> num_less (cs_points c) (Fin 0)
     \<and> (case cs_evidence c of None \<Rightarrow> True | Some es \<Rightarrow> wf_strings es 1000)"

definition wf_submission :: "capstone_submission \<Rightarrow> bool" where
  "wf_submission s \<longleftrightarrow> progress_text (sub_id s) 128 \<and> progress_text (sub_path s) 128
     \<and> progress_text (sub_module s) 128 \<and> progress_text (sub_content_version s) 128
     \<and> valid_timestamp (sub_submitted_at s) \<and> wf_strings (sub_artifacts s) 1000
     \<and> sub_criteria s \<noteq> [] \<and> list_all wf_criterion_score (sub_criteria s)
     \<and> distinct (map cs_criterion (sub_criteria s))
     \<and> percent_number (JNum (sub_score s)) \<and> display_text (sub_reflection s) 10000"

definition wf_earned_badge :: "earned_badge \<Rightarrow> bool" where
  "wf_earned_badge b \<longleftrightarrow> progress_text (eb_id b) 128 \<and> display_text (eb_name b) 120
     \<and> display_text (eb_description b) 500 \<and> valid_timestamp (eb_earned_at b)
     \<and> wf_strings (eb_evidence b) 10000"

definition wf_recent :: "recent_module \<Rightarrow> bool" where
  "wf_recent r \<longleftrightarrow> progress_text (rm_path r) 128 \<and> progress_text (rm_module r) 128
     \<and> valid_timestamp (rm_visited_at r)"

definition wf_progress :: "learner_progress \<Rightarrow> bool" where
  "wf_progress p \<longleftrightarrow> display_text (lp_display_name p) 80 \<and> wf_strings (lp_started_paths p) 1000
     \<and> wf_strings (lp_completed_modules p) 10000 \<and> valid_timestamp (lp_updated_at p)
     \<and> length (lp_attempts p) \<le> 10000 \<and> length (lp_badges p) \<le> 1000
     \<and> list_all wf_attempt (lp_attempts p) \<and> distinct (map at_id (lp_attempts p))
     \<and> (case lp_capstones p of None \<Rightarrow> True
        | Some ss \<Rightarrow> length ss \<le> 10000 \<and> list_all wf_submission ss \<and> distinct (map sub_id ss))
     \<and> list_all wf_earned_badge (lp_badges p) \<and> distinct (map eb_id (lp_badges p))
     \<and> (case lp_recent p of None \<Rightarrow> True | Some r \<Rightarrow> wf_recent r)"

fun wf_payload :: "learning_payload \<Rightarrow> bool" where
  "wf_payload (PathEnroll p) \<longleftrightarrow> stable_id (pp_path p) \<and> display_text (pp_title p) 200
     \<and> list_all stable_id (pp_modules p) \<and> distinct (pp_modules p) \<and> pp_modules p \<noteq> []
     \<and> wf_badge_definition (pp_badge p)"
| "wf_payload (ModuleVisit p) \<longleftrightarrow> stable_id (mp_path p) \<and> stable_id (mp_module p)"
| "wf_payload (AssessmentRecord p) \<longleftrightarrow> stable_id (ap_attempt p) \<and> stable_id (ap_path p)
     \<and> stable_id (ap_module p) \<and> version_id (ap_version p) \<and> wf_answers (ap_answers p)
     \<and> 0 \<le> ap_score p \<and> ap_score p \<le> 100"
| "wf_payload (ModuleComplete p) \<longleftrightarrow> stable_id (cp_path p) \<and> stable_id (cp_module p)
     \<and> list_all stable_id (cp_evidence p) \<and> distinct (cp_evidence p) \<and> cp_evidence p \<noteq> []"
| "wf_payload (AssessmentCorrect p) \<longleftrightarrow> stable_id (xp_correction p) \<and> stable_id (xp_attempt p)
     \<and> version_id (xp_version p) \<and> 0 \<le> xp_score p \<and> xp_score p \<le> 100
     \<and> display_text (xp_reason p) 500"
| "wf_payload (ProgressImport p) \<longleftrightarrow> digest_text (ip_checksum p)
     \<and> valid_timestamp (ip_synchronized_at p) \<and> wf_progress (ip_progress p)"

fun is_import :: "learning_payload \<Rightarrow> bool" where
  "is_import (ProgressImport _) = True"
| "is_import _ = False"

definition wf_command :: "learning_command \<Rightarrow> bool" where
  "wf_command c \<longleftrightarrow> (is_import (c_payload c) \<longrightarrow> c_schema c = V1_1)
     \<and> stable_id (c_installation c) \<and> stable_id (c_learner c) \<and> idempotency_key (c_key c)
     \<and> version_id (c_content c) \<and> valid_timestamp (c_occurred c) \<and> wf_actor (c_actor c)
     \<and> wf_payload (c_payload c)"

text \<open>The recorded time is read as a time, so the order of the two is the order of instants.\<close>

definition wf_event :: "learning_event \<Rightarrow> bool" where
  "wf_event e \<longleftrightarrow> stable_id (e_id e) \<and> 1 \<le> e_sequence e
     \<and> (is_import (e_payload e) \<longrightarrow> e_schema e = V1_1)
     \<and> stable_id (e_installation e) \<and> stable_id (e_learner e) \<and> idempotency_key (e_key e)
     \<and> version_id (e_content e) \<and> digest_text (e_digest e)
     \<and> valid_timestamp (e_occurred e) \<and> valid_timestamp (e_recorded e)
     \<and> the (date_parse (e_occurred e)) \<le> the (date_parse (e_recorded e))
     \<and> wf_actor (e_actor e) \<and> wf_payload (e_payload e)"

subsection \<open>One lemma per validator\<close>

lemma validate_path_payload_ok:
  "validate_path_payload rt (payload_json (PathEnroll p)) = Inr [] \<longleftrightarrow> wf_payload (PathEnroll p)"
  "\<not> isl (validate_path_payload rt (payload_json (PathEnroll p)))"
proof -
  show "validate_path_payload rt (payload_json (PathEnroll p)) = Inr [] \<longleftrightarrow> wf_payload (PathEnroll p)"
    by (auto simp: validate_path_payload_def badge_definition_json_def checks_ok Let_def
        reject_unknown_keys_ok wf_badge_definition_def)
  show "\<not> isl (validate_path_payload rt (payload_json (PathEnroll p)))"
    by (auto simp: validate_path_payload_def badge_definition_json_def Let_def simp: checks_total)
qed

lemma validate_module_payload_ok:
  "validate_module_payload rt (payload_json (ModuleVisit p)) = Inr [] \<longleftrightarrow> wf_payload (ModuleVisit p)"
  "\<not> isl (validate_module_payload rt v)"
  by (auto simp: validate_module_payload_def checks_ok reject_unknown_keys_ok simp: checks_total)

lemma answer_checks_ok:
  "(\<forall>v \<in> set (answer_checks rt (map (\<lambda>(q, a). (q, answer_json a)) as)). v = Inr [])
   \<longleftrightarrow> list_all wf_answer as"
proof (induction as)
  case (Cons qa as)
  obtain q a where qa: "qa = (q, a)" by (cases qa)
  then show ?case using Cons by (cases a) auto
qed simp

lemma answer_checks_total: "v \<in> set (answer_checks rt as) \<Longrightarrow> \<not> isl v"
  by (induction rt as rule: answer_checks.induct) auto

lemma validate_assessment_payload_ok:
  "validate_assessment_payload rt (payload_json (AssessmentRecord p)) = Inr []
   \<longleftrightarrow> wf_payload (AssessmentRecord p)"
  "\<not> isl (validate_assessment_payload rt (payload_json (AssessmentRecord p)))"
proof -
  let ?as = "map (\<lambda>(q, a). (q, answer_json a)) (ap_answers p)"
  have "(\<forall>v \<in> set (answer_checks rt ?as). v = Inr []) \<and> ?as \<noteq> [] \<and> length ?as \<le> 500
      \<longleftrightarrow> wf_answers (ap_answers p)"
    unfolding answer_checks_ok by (auto simp: wf_answers_def)
  then show "validate_assessment_payload rt (payload_json (AssessmentRecord p)) = Inr []
      \<longleftrightarrow> wf_payload (AssessmentRecord p)"
    by (auto simp: validate_assessment_payload_def checks_ok Let_def reject_unknown_keys_ok not_less)
  show "\<not> isl (validate_assessment_payload rt (payload_json (AssessmentRecord p)))"
    by (auto simp: validate_assessment_payload_def Let_def simp: checks_total
        dest: answer_checks_total)
qed

lemma validate_completion_payload_ok:
  "validate_completion_payload rt (payload_json (ModuleComplete p)) = Inr []
   \<longleftrightarrow> wf_payload (ModuleComplete p)"
  "\<not> isl (validate_completion_payload rt (payload_json (ModuleComplete p)))"
  by (auto simp: validate_completion_payload_def checks_ok reject_unknown_keys_ok
      simp: checks_total)

lemma validate_correction_payload_ok:
  "validate_correction_payload rt (payload_json (AssessmentCorrect p)) = Inr []
   \<longleftrightarrow> wf_payload (AssessmentCorrect p)"
  "\<not> isl (validate_correction_payload rt (payload_json (AssessmentCorrect p)))"
  by (auto simp: validate_correction_payload_def checks_ok reject_unknown_keys_ok
      simp: checks_total)

lemma progress_string_ok [simp]: "validate_progress_string (JStr s) label n = Inr [] \<longleftrightarrow> progress_text s n"
  and progress_string_total [simp]: "\<not> isl (validate_progress_string v label n)"
  and version_total [simp]: "\<not> isl (validate_version v label)"
  and display_total [simp]: "\<not> isl (validate_display_text v label n)"
proof -
  show "\<not> isl (validate_progress_string v label n)" by (cases v) simp_all
  show "\<not> isl (validate_version v label)" by (cases v) simp_all
  show "\<not> isl (validate_display_text v label n)" by (cases v) simp_all
qed simp

lemma progress_score_ok [simp]:
  "validate_progress_score (JNum n) label = Inr [] \<longleftrightarrow> percent_number (JNum n)"
  "\<not> isl (validate_progress_score v label)"
  by (simp_all add: validate_progress_score_def)

lemma string_array_checks_ok:
  "(\<forall>v \<in> set (string_array_checks rt label seen (map JStr xs)). v = Inr [])
   \<longleftrightarrow> list_all (\<lambda>s. progress_text s 2048) xs \<and> distinct xs \<and> set xs \<inter> set seen = {}"
proof (induction xs arbitrary: seen)
  case (Cons x xs)
  then show ?case using Cons [of "x # seen"] by auto
qed simp

lemma string_array_checks_total: "v \<in> set (string_array_checks rt label seen xs) \<Longrightarrow> \<not> isl v"
  by (induction xs arbitrary: seen) (auto split: json.splits)

lemma progress_string_array_ok [simp]:
  "validate_progress_string_array rt (JStrs xs) label n = Inr [] \<longleftrightarrow> wf_strings xs n"
  using string_array_checks_ok [of rt label "[]" xs] by (auto simp: checks_ok wf_strings_def not_less)

lemma progress_string_array_total [simp]: "\<not> isl (validate_progress_string_array rt v label n)"
  by (cases v) (auto simp: checks_total dest: string_array_checks_total)

declare validate_progress_string_array.simps [simp del] validate_progress_string.simps [simp del]

lemma unique_record_checks_ok:
  assumes "\<And>x. get_prop (enc x) field = JStr (key x)"
    and "\<And>x l. x \<in> set xs \<Longrightarrow> f (enc x) l = Inr [] \<longleftrightarrow> good x"
  shows "(\<forall>v \<in> set (unique_record_checks f label field i seen (map enc xs)). v = Inr [])
    \<longleftrightarrow> list_all good xs \<and> distinct (map key xs) \<and> set (map key xs) \<inter> set seen = {}"
  using assms(2)
proof (induction xs arbitrary: seen i)
  case (Cons x xs)
  then have IH: "(\<forall>v \<in> set (unique_record_checks f label field (i + 1) (key x # seen) (map enc xs)).
      v = Inr []) \<longleftrightarrow> list_all good xs \<and> distinct (map key xs)
        \<and> set (map key xs) \<inter> set (key x # seen) = {}"
    by (intro Cons.IH) simp
  show ?case using IH Cons.prems [of x] by (auto simp: assms(1))
qed simp

lemma unique_record_checks_total:
  assumes "\<And>x l. x \<in> set xs \<Longrightarrow> \<not> isl (f x l)"
  shows "v \<in> set (unique_record_checks f label field i seen xs) \<Longrightarrow> \<not> isl v"
  using assms
proof (induction xs arbitrary: seen i)
  case (Cons x xs)
  then show ?case by (cases "get_prop x field") auto
qed simp

lemma unique_records_ok:
  assumes "\<And>x. get_prop (enc x) field = JStr (key x)"
    and "\<And>x l. f (enc x) l = Inr [] \<longleftrightarrow> good x"
  shows "validate_unique_records f (map enc xs) label field = Inr []
    \<longleftrightarrow> list_all good xs \<and> distinct (map key xs)"
  using unique_record_checks_ok [of enc field key xs f good label 0 "[]"] assms
  by (simp add: validate_unique_records_def checks_ok)

lemma unique_records_total:
  assumes "\<And>x l. x \<in> set xs \<Longrightarrow> \<not> isl (f x l)"
  shows "\<not> isl (validate_unique_records f xs label field)"
  unfolding validate_unique_records_def
  using unique_record_checks_total [OF assms] by (auto simp: checks_total)

lemma progress_attempt_ok:
  "validate_progress_attempt rt (attempt_json a) label = Inr [] \<longleftrightarrow> wf_attempt a"
  "\<not> isl (validate_progress_attempt rt (attempt_json a) label)"
  by (auto simp: validate_progress_attempt_def attempt_json_def checks_ok reject_unknown_keys_ok
      wf_attempt_def simp: checks_total)

lemma criterion_score_ok:
  "validate_progress_criterion_score rt (criterion_score_json c) label = Inr [] \<longleftrightarrow> wf_criterion_score c"
  "\<not> isl (validate_progress_criterion_score rt (criterion_score_json c) label)"
  by (cases "cs_evidence c"; auto simp: validate_progress_criterion_score_def criterion_score_json_def
      checks_ok reject_unknown_keys_ok wf_criterion_score_def simp: checks_total)+

lemma criterion_score_key: "get_prop (criterion_score_json c) ''criterionId'' = JStr (cs_criterion c)"
  by (simp add: criterion_score_json_def)

lemma progress_capstone_ok:
  "validate_progress_capstone rt (submission_json s) label = Inr [] \<longleftrightarrow> wf_submission s"
  "\<not> isl (validate_progress_capstone rt (submission_json s) label)"
proof -
  have "validate_unique_records (validate_progress_criterion_score rt)
      (map criterion_score_json (sub_criteria s)) l ''criterionId'' = Inr []
    \<longleftrightarrow> list_all wf_criterion_score (sub_criteria s) \<and> distinct (map cs_criterion (sub_criteria s))" for l
    by (rule unique_records_ok) (simp_all add: criterion_score_key criterion_score_ok)
  then show "validate_progress_capstone rt (submission_json s) label = Inr [] \<longleftrightarrow> wf_submission s"
    by (auto simp: validate_progress_capstone_def submission_json_def checks_ok
        reject_unknown_keys_ok wf_submission_def)
  have "\<not> isl (validate_unique_records (validate_progress_criterion_score rt)
      (map criterion_score_json (sub_criteria s)) l ''criterionId'')" for l
    by (rule unique_records_total) (auto simp: criterion_score_ok)
  then show "\<not> isl (validate_progress_capstone rt (submission_json s) label)"
    by (auto simp: validate_progress_capstone_def submission_json_def simp: checks_total)
qed

lemma progress_badge_ok:
  "validate_progress_badge rt (badge_json b) label = Inr [] \<longleftrightarrow> wf_earned_badge b"
  "\<not> isl (validate_progress_badge rt (badge_json b) label)"
  by (auto simp: validate_progress_badge_def badge_json_def checks_ok reject_unknown_keys_ok
      wf_earned_badge_def simp: checks_total)

lemma progress_recent_ok:
  "validate_progress_recent_module rt (recent_json r) = Inr [] \<longleftrightarrow> wf_recent r"
  "\<not> isl (validate_progress_recent_module rt (recent_json r))"
  by (auto simp: validate_progress_recent_module_def recent_json_def checks_ok Let_def
      reject_unknown_keys_ok wf_recent_def simp: checks_total)

lemma record_keys:
  "get_prop (attempt_json a) ''id'' = JStr (at_id a)"
  "get_prop (submission_json s) ''id'' = JStr (sub_id s)"
  "get_prop (badge_json b) ''id'' = JStr (eb_id b)"
  by (simp_all add: attempt_json_def submission_json_def badge_json_def)

lemma map_of_opt_member:
  "map_of (opt_member k f x) l = (if l = k then map_option f x else None)"
  by (cases x) simp_all

lemma fst_opt_member: "set (map fst (opt_member k f x)) \<subseteq> {k}"
  by (cases x) simp_all

text \<open>The properties of a progress object.\<close>

lemma progress_json_props:
  "is_record (progress_json p)"
  "get_prop (progress_json p) ''schemaVersion'' = JInt 1"
  "get_prop (progress_json p) ''displayName'' = JStr (lp_display_name p)"
  "get_prop (progress_json p) ''startedPathIds'' = JStrs (lp_started_paths p)"
  "get_prop (progress_json p) ''completedModuleIds'' = JStrs (lp_completed_modules p)"
  "get_prop (progress_json p) ''attempts'' = JArr (map attempt_json (lp_attempts p))"
  "get_prop (progress_json p) ''badges'' = JArr (map badge_json (lp_badges p))"
  "get_prop (progress_json p) ''capstoneSubmissions'' =
     (case lp_capstones p of None \<Rightarrow> JUndefined | Some ss \<Rightarrow> JArr (map submission_json ss))"
  "get_prop (progress_json p) ''recentModule'' =
     (case lp_recent p of None \<Rightarrow> JUndefined | Some r \<Rightarrow> recent_json r)"
  "get_prop (progress_json p) ''updatedAt'' = JStr (lp_updated_at p)"
  by (simp_all add: progress_json_def map_add_def map_of_opt_member split: option.split)

lemma progress_json_keys:
  "set (prop_keys (progress_json p)) \<subseteq> {''schemaVersion'', ''displayName'', ''startedPathIds'',
     ''completedModuleIds'', ''attempts'', ''capstoneSubmissions'', ''badges'', ''recentModule'',
     ''updatedAt''}"
  by (cases "lp_capstones p"; cases "lp_recent p") (simp_all add: progress_json_def)

lemma progress_snapshot_parts:
  "validate_unique_records (validate_progress_attempt rt) (map attempt_json xs) l ''id'' = Inr []
   \<longleftrightarrow> list_all wf_attempt xs \<and> distinct (map at_id xs)"
  "validate_unique_records (validate_progress_capstone rt) (map submission_json ss) l ''id'' = Inr []
   \<longleftrightarrow> list_all wf_submission ss \<and> distinct (map sub_id ss)"
  "validate_unique_records (validate_progress_badge rt) (map badge_json bs) l ''id'' = Inr []
   \<longleftrightarrow> list_all wf_earned_badge bs \<and> distinct (map eb_id bs)"
  by (rule unique_records_ok; simp add: record_keys progress_attempt_ok progress_capstone_ok
      progress_badge_ok)+

lemma progress_snapshot_parts_total:
  "\<not> isl (validate_unique_records (validate_progress_attempt rt) (map attempt_json xs) l ''id'')"
  "\<not> isl (validate_unique_records (validate_progress_capstone rt) (map submission_json ss) l ''id'')"
  "\<not> isl (validate_unique_records (validate_progress_badge rt) (map badge_json bs) l ''id'')"
  by (rule unique_records_total; auto simp: progress_attempt_ok progress_capstone_ok
      progress_badge_ok)+

lemma validate_progress_snapshot_ok:
  "validate_progress_snapshot rt (progress_json p) = Inr [] \<longleftrightarrow> wf_progress p"
  "\<not> isl (validate_progress_snapshot rt (progress_json p))"
proof -
  have shape: "progress_shape (progress_json p)"
    by (auto simp: progress_shape_def progress_json_props split: option.splits)
  have caps: "array_items (get_prop (progress_json p) ''capstoneSubmissions'')
      = map submission_json (case lp_capstones p of None \<Rightarrow> [] | Some ss \<Rightarrow> ss)"
    by (simp add: progress_json_props split: option.split)
  have recent: "recent_json r \<noteq> JUndefined" for r by (simp add: recent_json_def)
  have len: "wf_strings xs n \<Longrightarrow> length xs \<le> n" for xs n by (simp add: wf_strings_def)
  show "validate_progress_snapshot rt (progress_json p) = Inr [] \<longleftrightarrow> wf_progress p"
    using progress_json_keys [of p]
    by (auto simp: validate_progress_snapshot_def checks_ok shape reject_unknown_keys_ok
        caps progress_snapshot_parts wf_progress_def progress_recent_ok recent
        progress_json_props(1-7,9,10) not_less dest: len split: option.splits)
  show "\<not> isl (validate_progress_snapshot rt (progress_json p))"
    by (auto simp: validate_progress_snapshot_def shape checks_total caps
        progress_snapshot_parts_total progress_recent_ok recent progress_json_props(1-7,9,10)
        split: option.splits)
qed

lemma validate_import_payload_ok:
  "validate_progress_import_payload rt (payload_json (ProgressImport p)) = Inr []
   \<longleftrightarrow> wf_payload (ProgressImport p)"
  "\<not> isl (validate_progress_import_payload rt (payload_json (ProgressImport p)))"
  by (cases "ip_source p"; auto simp: validate_progress_import_payload_def checks_ok checks_total
      reject_unknown_keys_ok validate_progress_snapshot_ok)+

text \<open>The payload check that a typed value's own type selects.\<close>

lemma validate_payload_typed:
  "validate_payload rt command_types (command_type p) (payload_json p) = Inr [] \<longleftrightarrow> wf_payload p"
  "validate_payload rt event_types (event_type p) (payload_json p) = Inr [] \<longleftrightarrow> wf_payload p"
  "\<not> isl (validate_payload rt command_types (command_type p) (payload_json p))"
  "\<not> isl (validate_payload rt event_types (event_type p) (payload_json p))"
proof -
  note parts = validate_path_payload_ok validate_module_payload_ok validate_assessment_payload_ok
    validate_completion_payload_ok validate_correction_payload_ok validate_import_payload_ok
  show "validate_payload rt command_types (command_type p) (payload_json p) = Inr [] \<longleftrightarrow> wf_payload p"
    by (cases p) (simp_all add: validate_payload_def command_types_def parts
        del: payload_json.simps wf_payload.simps)
  show "validate_payload rt event_types (event_type p) (payload_json p) = Inr [] \<longleftrightarrow> wf_payload p"
    by (cases p) (simp_all add: validate_payload_def event_types_def parts
        del: payload_json.simps wf_payload.simps)
  show "\<not> isl (validate_payload rt command_types (command_type p) (payload_json p))"
    by (cases p) (simp_all add: validate_payload_def command_types_def parts
        del: payload_json.simps wf_payload.simps)
  show "\<not> isl (validate_payload rt event_types (event_type p) (payload_json p))"
    by (cases p) (simp_all add: validate_payload_def event_types_def parts
        del: payload_json.simps wf_payload.simps)
qed

lemma version_text_ok: "JStr (version_text x) \<in> {JStr ''1.0'', JStr ''1.1''}"
  "version_text x = ''1.1'' \<longleftrightarrow> x = V1_1"
  by (cases x; simp)+

lemma type_facts:
  "command_type p \<in> set command_types" "event_type p \<in> set event_types"
  "command_type p = ''progress.import'' \<longleftrightarrow> is_import p"
  "event_type p = ''progress.imported'' \<longleftrightarrow> is_import p"
  by (cases p; simp add: command_types_def event_types_def)+

lemma command_json_props:
  "is_record (command_json c)"
  "prop_keys (command_json c) = [''schemaVersion'', ''type'', ''installationId'', ''learnerId'',
     ''idempotencyKey'', ''contentVersion'', ''occurredAt'', ''actor'', ''payload'']"
  "get_prop (command_json c) ''schemaVersion'' = JStr (version_text (c_schema c))"
  "get_prop (command_json c) ''type'' = JStr (command_type (c_payload c))"
  "get_prop (command_json c) ''installationId'' = JStr (c_installation c)"
  "get_prop (command_json c) ''learnerId'' = JStr (c_learner c)"
  "get_prop (command_json c) ''idempotencyKey'' = JStr (c_key c)"
  "get_prop (command_json c) ''contentVersion'' = JStr (c_content c)"
  "get_prop (command_json c) ''occurredAt'' = JStr (c_occurred c)"
  "get_prop (command_json c) ''actor'' = actor_json (c_actor c)"
  "get_prop (command_json c) ''payload'' = payload_json (c_payload c)"
  "command_json c \<noteq> JNull" "command_json c \<noteq> JUndefined"
  by (simp_all add: command_json_def)

lemma event_json_props:
  "is_record (event_json e)"
  "prop_keys (event_json e) = [''schemaVersion'', ''id'', ''installationId'', ''learnerId'',
     ''idempotencyKey'', ''contentVersion'', ''commandDigest'', ''occurredAt'', ''recordedAt'',
     ''actor'', ''type'', ''payload'', ''sequence'']"
  "get_prop (event_json e) ''schemaVersion'' = JStr (version_text (e_schema e))"
  "get_prop (event_json e) ''id'' = JStr (e_id e)"
  "get_prop (event_json e) ''type'' = JStr (event_type (e_payload e))"
  "get_prop (event_json e) ''installationId'' = JStr (e_installation e)"
  "get_prop (event_json e) ''learnerId'' = JStr (e_learner e)"
  "get_prop (event_json e) ''idempotencyKey'' = JStr (e_key e)"
  "get_prop (event_json e) ''contentVersion'' = JStr (e_content e)"
  "get_prop (event_json e) ''commandDigest'' = JStr (e_digest e)"
  "get_prop (event_json e) ''occurredAt'' = JStr (e_occurred e)"
  "get_prop (event_json e) ''recordedAt'' = JStr (e_recorded e)"
  "get_prop (event_json e) ''actor'' = actor_json (e_actor e)"
  "get_prop (event_json e) ''payload'' = payload_json (e_payload e)"
  "get_prop (event_json e) ''sequence'' = JInt (e_sequence e)"
  "event_json e \<noteq> JNull" "event_json e \<noteq> JUndefined"
  by (simp_all add: event_json_def)

lemma validate_contract_version_ok [simp]:
  "validate_contract_version (JStr (version_text x)) = Inr []"
  "\<not> isl (validate_contract_version v)"
  using version_text_ok(1) [of x] by (simp_all add: validate_contract_version_def)

lemma validate_version_JStr [simp]: "validate_version (JStr s) label = Inr [] \<longleftrightarrow> version_id s"
  by simp

declare validate_version.simps [simp del] validate_display_text.simps [simp del]

lemma recorded_before_occurred_JStr [simp]:
  "recorded_before_occurred rt (JStr a) (JStr b) = Inr (valid_timestamp a \<and> valid_timestamp b
     \<and> the (date_parse b) < the (date_parse a))"
proof -
  have "valid_timestamp s \<Longrightarrow> \<exists>t. date_parse s = Some t" for s
    by (auto simp: valid_timestamp_def split: option.splits)
  then show ?thesis
    by (fastforce simp: recorded_before_occurred_def split: option.splits)
qed

lemma validate_learning_command_ok:
  "validate_learning_command rt (command_json c) = Inr [] \<longleftrightarrow> wf_command c"
  "\<not> isl (validate_learning_command rt (command_json c))"
  by (auto simp: validate_learning_command_def command_json_props checks_ok checks_total Let_def
      reject_unknown_keys_ok type_facts validate_payload_typed wf_command_def version_text_ok(2))

lemma validate_learning_event_ok:
  "validate_learning_event rt (event_json e) = Inr [] \<longleftrightarrow> wf_event e"
  "\<not> isl (validate_learning_event rt (event_json e))"
  by (auto simp: validate_learning_event_def event_json_props checks_ok checks_total Let_def
      reject_unknown_keys_ok type_facts validate_payload_typed wf_event_def version_text_ok(2)
      not_less)

end
