(* ===== verification/Js_Guards.thy ===== *)
theory Js_Guards
  imports Js_Arith Learning_Events
begin

text \<open>
  The tests that the hand-written validators of untrusted values share: messages, texts of a form, percentages, safe integers,
  undeclared fields; and the readers of members whose type a validation has established.
\<close>

section \<open>Messages\<close>

definition complain :: "bool \<Rightarrow> string \<Rightarrow> string list" where
  "complain b message = (if b then [message] else [])"

definition complain_unless :: "bool \<Rightarrow> string \<Rightarrow> string list" where
  "complain_unless b message = (if b then [] else [message])"

lemma complain_Nil [simp]: "complain b message = [] \<longleftrightarrow> \<not> b" "complain_unless b message = [] \<longleftrightarrow> b"
  by (simp_all add: complain_def complain_unless_def)

section \<open>Tests\<close>

fun is_non_empty_string :: "json \<Rightarrow> bool" where
  "is_non_empty_string (JStr s) \<longleftrightarrow> js_trim s \<noteq> []"
| "is_non_empty_string _ = False"

text \<open>\<open>typeof v === "string" && ...\<close>.\<close>

fun string_where :: "(string \<Rightarrow> bool) \<Rightarrow> json \<Rightarrow> bool" where
  "string_where f (JStr s) \<longleftrightarrow> f s"
| "string_where f _ = False"

text \<open>\<open>Array.isArray(v) && v.every(f) && ...\<close>.\<close>

fun array_where :: "(json list \<Rightarrow> bool) \<Rightarrow> json \<Rightarrow> bool" where
  "array_where f (JArr xs) \<longleftrightarrow> f xs"
| "array_where f _ = False"

text \<open>A finite number from 0 to 100.\<close>

fun is_percent :: "json \<Rightarrow> bool" where
  "is_percent (JNum (Fin r)) \<longleftrightarrow> 0 \<le> r \<and> r \<le> 100"
| "is_percent _ = False"

text \<open>\<open>Number.isSafeInteger\<close>.\<close>

fun safe_integer :: "jsnum \<Rightarrow> bool" where
  "safe_integer (Fin r) \<longleftrightarrow> is_integer (JNum (Fin r)) \<and> \<bar>r\<bar> \<le> 9007199254740991"
| "safe_integer _ \<longleftrightarrow> False"

definition unsupported_fields :: "json \<Rightarrow> string list \<Rightarrow> string \<Rightarrow> string list" where
  "unsupported_fields v allowed label = map (\<lambda>k. label @ '' contains unsupported field: '' @ k)
     (filter (\<lambda>k. k \<notin> set allowed) (prop_keys v))"

text \<open>\<open>s.split(c)\<close> for a one-character separator.\<close>

fun split_at_char :: "char \<Rightarrow> string \<Rightarrow> string list" where
  "split_at_char d [] = [[]]"
| "split_at_char d (c # cs) = (case split_at_char d cs of
     [] \<Rightarrow> [[c]]
   | part # parts \<Rightarrow> if c = d then [] # part # parts else (c # part) # parts)"

section \<open>Readers\<close>

fun str_of :: "json \<Rightarrow> string" where
  "str_of (JStr s) = s"
| "str_of _ = []"

fun amount_of :: "json \<Rightarrow> jsnum" where
  "amount_of (JNum n) = n"
| "amount_of _ = NaN"

fun elems :: "json \<Rightarrow> json list" where
  "elems (JArr xs) = xs"
| "elems _ = []"

lemma string_where_str: "string_where f v \<Longrightarrow> v = JStr (str_of v) \<and> f (str_of v)"
  by (cases v) simp_all

lemma array_where_elems: "array_where f v \<Longrightarrow> v = JArr (elems v) \<and> f (elems v)"
  by (cases v) simp_all

section \<open>Decimal texts\<close>

lemma nat_text_digits: "list_all digit_char (nat_text n) \<and> nat_text n \<noteq> []"
proof (induction n rule: less_induct)
  case (less n)
  show ?case
  proof (cases "n < 10")
    case True
    then show ?thesis by (simp add: nat_text.simps [of n] digit_char_of_nat)
  next
    case False
    then show ?thesis using less [of "n div 10"] by (simp add: nat_text.simps [of n] digit_char_of_nat)
  qed
qed

lemma digits_nat_text: "digits_num (nat_text n) = n"
proof (induction n rule: less_induct)
  case (less n)
  show ?case
  proof (cases "n < 10")
    case True
    then show ?thesis by (simp add: nat_text.simps [of n] digit_value_of_nat)
  next
    case False
    then show ?thesis using less [of "n div 10"] by (simp add: nat_text.simps [of n] digit_value_of_nat)
  qed
qed

lemma nat_text_inj: "nat_text m = nat_text n \<Longrightarrow> m = n"
  by (metis digits_nat_text)

section \<open>Comparators\<close>

lemma comparator_on: "comparator c \<Longrightarrow> comparator (\<lambda>a b. c (f a) (f b))"
  unfolding comparator_def by blast

lemma comparator_on_flip: "comparator c \<Longrightarrow> comparator (\<lambda>a b. c (f b) (f a))"
  unfolding comparator_def by (metis order_refl)

lemma comparator_or_else: "comparator c \<Longrightarrow> comparator d \<Longrightarrow> comparator (\<lambda>a b. or_else (c a b) (d a b))"
  unfolding comparator_def or_else_def by (smt (verit, best))

lemma comparator_by_int: "comparator (\<lambda>a b. f a - (f b :: int))"
  by unfold_locales auto

text \<open>Two arrangements of the same elements, both sorted by distinct keys, are the same.\<close>

lemma sorted_by_key_unique:
  assumes "mset xs = mset ys" and "sorted (map k xs)" and "sorted (map k ys)" and "distinct (map k xs)"
  shows "xs = ys"
proof -
  have keys: "map k xs = map k ys"
    using assms by (metis mset_map properties_for_sort)
  have inj: "inj_on k (set xs \<union> set ys)" using assms(1,4) by (metis distinct_map mset_eq_setD sup.idem)
  show ?thesis by (rule map_inj_on [OF keys inj])
qed

end
