(* ===== verification/Learner_Data_Policy.thy ===== *)
theory Learner_Data_Policy
  imports Js_Guards
begin

text \<open>
  The learner-data policy (\<open>src/learner-data-policy.ts\<close>): the policy document, the default one, who may change an account and read
  what, and the validator; and the consents an account merge needs (\<open>src/account-merge-policy.ts\<close>). States, roles and permissions are
  texts, because the validator tests which of them occur.
\<close>

section \<open>Vocabulary\<close>

definition learner_account_states :: "string list" where
  "learner_account_states = [''created'', ''active'', ''suspended'', ''recovery-pending'', ''deletion-requested'', ''deleted'']"

definition learner_data_roles :: "string list" where
  "learner_data_roles = [''learner'', ''support'', ''content-editor'', ''administrator'', ''system'']"

definition learner_data_permissions :: "string list" where
  "learner_data_permissions = [''profile:read:self'', ''profile:update:self'', ''consent:manage:self'', ''transcript:read:self'',
     ''transcript:export:self'', ''deletion:request:self'', ''learner-summary:read:tenant'', ''account:suspend:tenant'',
     ''account:recover:tenant'', ''deletion:process:tenant'', ''badge:correct:tenant'', ''content:manage'',
     ''projection:rebuild:tenant'', ''deletion:replay:tenant'']"

section \<open>The policy\<close>

record lifecycle_transition =
  lt_from :: string
  lt_to :: string
  lt_actor :: string
  lt_condition :: string

record consent_purpose =
  cs_id :: string
  cs_required :: bool
  cs_description :: string
  cs_withdrawal :: string

record retention_class =
  rc_id :: string
  rc_records :: "string list"
  rc_trigger :: string
  rc_days :: "jsnum option"
  rc_disposition :: string

record role_grant =
  rg_role :: string
  rg_permissions :: "string list"
  rg_boundary :: string

record policy_identity =
  pi_protocol :: string
  pi_key :: string
  pi_email_authoritative :: bool
  pi_email_merge :: bool
  pi_stable_subject :: bool

record policy_adapters =
  pa_hosted :: string
  pa_reference :: string
  pa_identity :: string
  pa_requirement :: string

record policy_tenancy =
  pt_required :: bool
  pt_deny_cross :: bool
  pt_scope_every :: bool

record policy_profile =
  pf_required :: "string list"
  pf_optional :: "string list"
  pf_prohibited :: "string list"

record policy_export =
  pex_formats :: "string list"
  pex_minutes :: jsnum
  pex_delivery :: string
  pex_public_url :: bool
  pex_audited :: bool

record policy_deletion =
  pd_cancellation :: jsnum
  pd_completion :: jsnum
  pd_backup_expiry :: jsnum
  pd_replay :: bool
  pd_receipt_days :: jsnum
  pd_audited :: bool

record policy_recovery =
  pr_point_hours :: jsnum
  pr_time_hours :: jsnum
  pr_cadence :: jsnum
  pr_replay :: bool

record policy_authorization =
  pz_deny :: bool
  pz_audited :: bool
  pz_grants :: "role_grant list"

record learner_data_policy =
  lp_schema :: jsnum
  lp_id :: string
  lp_version :: string
  lp_effective :: string
  lp_records :: string
  lp_notice :: string
  lp_identity :: policy_identity
  lp_adapters :: policy_adapters
  lp_tenancy :: policy_tenancy
  lp_profile :: policy_profile
  lp_states :: "string list"
  lp_transitions :: "lifecycle_transition list"
  lp_consent_fields :: "string list"
  lp_purposes :: "consent_purpose list"
  lp_retention :: "retention_class list"
  lp_export :: policy_export
  lp_deletion :: policy_deletion
  lp_recovery :: policy_recovery
  lp_authorization :: policy_authorization

section \<open>Questions\<close>

definition can_transition :: "learner_data_policy \<Rightarrow> string \<Rightarrow> string \<Rightarrow> bool" where
  "can_transition p from to \<longleftrightarrow> list_ex (\<lambda>t. lt_from t = from \<and> lt_to t = to) (lp_transitions p)"

definition role_can :: "learner_data_policy \<Rightarrow> string \<Rightarrow> string \<Rightarrow> bool" where
  "role_can p role permission = (case find (\<lambda>g. rg_role g = role) (pz_grants (lp_authorization p)) of
     None \<Rightarrow> False | Some g \<Rightarrow> permission \<in> set (rg_permissions g))"

section \<open>The validator\<close>

text \<open>\<open>/^\d{4}-\d{2}-\d{2}$/\<close>.\<close>

definition iso_day :: "string \<Rightarrow> bool" where
  "iso_day s \<longleftrightarrow> length s = 10 \<and> list_all (\<lambda>i. if i = 4 \<or> i = 7 then s ! i = CHR ''-'' else digit_char (s ! i)) [0 ..< 10]"

definition setting_errors :: "learner_data_policy \<Rightarrow> string list" where
  "setting_errors p = (let i = lp_identity p; a = lp_adapters p; t = lp_tenancy p in
     complain (lp_schema p \<noteq> Fin 1) ''schemaVersion must be 1''
     @ complain_unless (iso_day (lp_version p)) ''policyVersion must be an ISO date''
     @ complain_unless (iso_day (lp_effective p)) ''effectiveDate must be an ISO date''
     @ complain (pi_protocol i \<noteq> ''openid-connect-authorization-code-pkce'') ''identity must use OpenID Connect Authorization Code with PKCE''
     @ complain (pi_key i \<noteq> ''issuer-subject'') ''identity must be keyed by issuer and subject''
     @ complain (pi_email_authoritative i \<or> pi_email_merge i) ''email cannot be authoritative or used for automatic account merging''
     @ complain_unless (pi_stable_subject i) ''identity must require a stable subject''
     @ complain (pa_hosted a \<noteq> ''cloudflare-d1'') ''the default hosted record store must be Cloudflare D1''
     @ complain (pa_reference a \<noteq> ''postgresql'') ''the reference self-host record store must be PostgreSQL''
     @ complain_unless (pt_required t \<and> pt_deny_cross t \<and> pt_scope_every t)
         ''every command and query must deny cross-tenant access by default'')"

definition transition_errors :: "string list \<Rightarrow> lifecycle_transition \<Rightarrow> string list" where
  "transition_errors states t =
     complain (lt_from t \<notin> set states \<or> lt_to t \<notin> set states)
       (''transition references an unknown state: '' @ lt_from t @ '' -> '' @ lt_to t)
     @ complain (lt_from t = ''deleted'') ''deleted is terminal and cannot have outbound transitions''"

definition lifecycle_errors :: "learner_data_policy \<Rightarrow> string list" where
  "lifecycle_errors p =
     concat (map (\<lambda>s. complain (s \<notin> set (lp_states p)) (''missing lifecycle state: '' @ s)) learner_account_states)
     @ concat (map (transition_errors (lp_states p)) (lp_transitions p))
     @ complain_unless (can_transition p ''deletion-requested'' ''deleted'') ''deletion-requested must transition to deleted''
     @ complain_unless (can_transition p ''deletion-requested'' ''active'') ''deletion-requested must be cancellable during the policy window''"

definition policy_record_errors :: "learner_data_policy \<Rightarrow> string list" where
  "policy_record_errors p =
     complain_unless (distinct (map cs_id (lp_purposes p))) ''consent purpose IDs must be unique''
     @ complain_unless (list_ex (\<lambda>c. cs_id c = ''learning-record'' \<and> cs_required c) (lp_purposes p))
         ''learning-record consent must be explicit and required''
     @ complain_unless (distinct (map rc_id (lp_retention p))) ''retention class IDs must be unique''
     @ concat (map (\<lambda>c. complain (case rc_days c of None \<Rightarrow> False | Some n \<Rightarrow> num_le n (Fin 0))
         (''retention class '' @ rc_id c @ '' must have a positive retention window'')) (lp_retention p))"

definition safeguard_errors :: "learner_data_policy \<Rightarrow> string list" where
  "safeguard_errors p = (let d = lp_deletion p; r = lp_recovery p; e = lp_export p; z = lp_authorization p in
     complain (\<not> pd_replay d \<or> \<not> pr_replay r \<or> num_le (pd_backup_expiry d) (Fin 0))
       ''deletion must expire from backups and replay after restore''
     @ complain (num_le (pr_point_hours r) (Fin 0) \<or> num_le (pr_time_hours r) (Fin 0) \<or> num_le (pr_cadence r) (Fin 0))
         ''recovery objectives and restore cadence must be positive''
     @ complain (pex_public_url e \<or> \<not> pex_audited e) ''exports must be audited and cannot use public object URLs''
     @ complain (\<not> pz_deny z \<or> \<not> pz_audited z) ''authorization must deny by default and audit privileged actions'')"

definition begins_with :: "string \<Rightarrow> string \<Rightarrow> bool" where
  "begins_with w s \<longleftrightarrow> take (length w) s = w"

definition learner_record_permission :: "string \<Rightarrow> bool" where
  "learner_record_permission s \<longleftrightarrow> begins_with ''profile:'' s \<or> begins_with ''transcript:'' s \<or> begins_with ''deletion:'' s"

definition grant_errors :: "learner_data_policy \<Rightarrow> string list" where
  "grant_errors p = (let grants = pz_grants (lp_authorization p) in
     concat (map (\<lambda>r. complain (r \<notin> rg_role ` set grants) (''missing authorization role: '' @ r)) learner_data_roles)
     @ complain (case find (\<lambda>g. rg_role g = ''content-editor'') grants of
           None \<Rightarrow> False | Some g \<Rightarrow> list_ex learner_record_permission (rg_permissions g))
         ''content editors cannot access learner records'')"

definition validate_learner_data_policy :: "learner_data_policy \<Rightarrow> string list" where
  "validate_learner_data_policy p =
     setting_errors p @ lifecycle_errors p @ policy_record_errors p @ safeguard_errors p @ grant_errors p"

section \<open>The default policy\<close>

definition move :: "string \<Rightarrow> string \<Rightarrow> string \<Rightarrow> string \<Rightarrow> lifecycle_transition" where
  "move from to actor condition = \<lparr>lt_from = from, lt_to = to, lt_actor = actor, lt_condition = condition\<rparr>"

definition default_transitions :: "lifecycle_transition list" where
  "default_transitions =
    [move ''created'' ''active'' ''learner'' ''Required service consent is recorded and identity binding succeeds.'',
     move ''created'' ''deletion-requested'' ''learner'' ''The learner abandons account creation and requests removal.'',
     move ''active'' ''suspended'' ''administrator'' ''A documented safety or account-integrity reason is recorded.'',
     move ''active'' ''recovery-pending'' ''learner'' ''The learner begins an identity recovery flow.'',
     move ''active'' ''deletion-requested'' ''learner'' ''The learner confirms the deletion scope and consequences.'',
     move ''suspended'' ''active'' ''administrator'' ''The documented suspension reason is resolved.'',
     move ''suspended'' ''recovery-pending'' ''learner'' ''The learner begins an identity recovery flow.'',
     move ''suspended'' ''deletion-requested'' ''learner'' ''Deletion remains available while the account is suspended.'',
     move ''recovery-pending'' ''active'' ''system'' ''The configured identity provider completes recovery.'',
     move ''recovery-pending'' ''suspended'' ''administrator'' ''Recovery cannot be verified without unsafe disclosure.'',
     move ''recovery-pending'' ''deletion-requested'' ''learner'' ''The learner requests deletion instead of continuing recovery.'',
     move ''deletion-requested'' ''active'' ''learner'' ''The request is cancelled inside the cancellation window.'',
     move ''deletion-requested'' ''deleted'' ''system'' ''Active stores are erased and adapter receipts are verified.'']"

definition default_purposes :: "consent_purpose list" where
  "default_purposes =
    [\<lparr>cs_id = ''learning-record'', cs_required = True,
       cs_description = ''Store and maintain a durable learning record tied to your account.'',
       cs_withdrawal = ''The learning record is required for account-backed progress. Withdrawing this consent will delete your account and learning data.''\<rparr>,
     \<lparr>cs_id = ''product-improvement'', cs_required = False,
       cs_description = ''Use minimized, non-transcript events to improve the learning experience.'',
       cs_withdrawal = ''Stops future optional product-improvement events.''\<rparr>,
     \<lparr>cs_id = ''learning-reminders'', cs_required = False,
       cs_description = ''Send learner-requested progress and review reminders.'',
       cs_withdrawal = ''Stops future reminders without deleting the learning record.''\<rparr>]"

definition account_records :: "string list" where
  "account_records = [''profile'', ''consent'', ''enrollment'', ''learning-events'', ''attempts'', ''badges'']"

definition default_retention :: "retention_class list" where
  "default_retention =
    [\<lparr>rc_id = ''active-account'', rc_records = account_records, rc_trigger = ''account-active'', rc_days = None,
       rc_disposition = ''Retain while the learner keeps the account active.''\<rparr>,
     \<lparr>rc_id = ''inactive-account'', rc_records = account_records, rc_trigger = ''account-inactive'', rc_days = Some (Fin 730),
       rc_disposition = ''Notify before expiry, then run the verified deletion workflow.''\<rparr>,
     \<lparr>rc_id = ''privileged-audit'', rc_records = [''privileged-access-events'', ''export-events'', ''deletion-events''],
       rc_trigger = ''record-created'', rc_days = Some (Fin 365), rc_disposition = ''Delete event detail after the audit window.''\<rparr>,
     \<lparr>rc_id = ''support-diagnostics'', rc_records = [''support-case-diagnostics''], rc_trigger = ''record-created'', rc_days = Some (Fin 30),
       rc_disposition = ''Delete diagnostic detail and retain only a non-sensitive case outcome.''\<rparr>,
     \<lparr>rc_id = ''deletion-receipt'', rc_records = [''deletion-receipt''], rc_trigger = ''request-completed'', rc_days = Some (Fin 90),
       rc_disposition = ''Delete the receipt after the dispute window.''\<rparr>]"

definition default_grants :: "role_grant list" where
  "default_grants =
    [\<lparr>rg_role = ''learner'', rg_permissions = [''profile:read:self'', ''profile:update:self'', ''consent:manage:self'',
        ''transcript:read:self'', ''transcript:export:self'', ''deletion:request:self''],
       rg_boundary = ''Only the authenticated learner's own record in the current tenant.''\<rparr>,
     \<lparr>rg_role = ''support'', rg_permissions = [''learner-summary:read:tenant''],
       rg_boundary = ''Read-only minimized summary for an active support case in the assigned tenant.''\<rparr>,
     \<lparr>rg_role = ''content-editor'', rg_permissions = [''content:manage''],
       rg_boundary = ''Curriculum content only; no learner-data access.''\<rparr>,
     \<lparr>rg_role = ''administrator'', rg_permissions = [''learner-summary:read:tenant'', ''account:suspend:tenant'',
        ''account:recover:tenant'', ''deletion:process:tenant'', ''badge:correct:tenant''],
       rg_boundary = ''Explicit privileged role, current tenant only, with immutable audit events.''\<rparr>,
     \<lparr>rg_role = ''system'', rg_permissions = [''projection:rebuild:tenant'', ''deletion:replay:tenant''],
       rg_boundary = ''Named service operation in one tenant with auditable execution context.''\<rparr>]"

definition default_learner_data_policy :: learner_data_policy where
  "default_learner_data_policy = \<lparr>
     lp_schema = Fin 1, lp_id = ''project42-learner-data'', lp_version = ''2026-07-27'', lp_effective = ''2026-07-27'',
     lp_records = ''available'',
     lp_notice = ''Project 42 keeps learner progress in this browser. A deployment that configures an account service also stores approved learner records durably across devices; without that configuration only browser-local progress is kept.'',
     lp_identity = \<lparr>pi_protocol = ''openid-connect-authorization-code-pkce'', pi_key = ''issuer-subject'',
       pi_email_authoritative = False, pi_email_merge = False, pi_stable_subject = True\<rparr>,
     lp_adapters = \<lparr>pa_hosted = ''cloudflare-d1'', pa_reference = ''postgresql'', pa_identity = ''openid-connect'',
       pa_requirement = ''The configured provider must expose a stable issuer and subject; email is display/contact data only.''\<rparr>,
     lp_tenancy = \<lparr>pt_required = True, pt_deny_cross = True, pt_scope_every = True\<rparr>,
     lp_profile = \<lparr>pf_required = [''learnerId'', ''tenantId'', ''lifecycleState'', ''createdAt'', ''updatedAt''],
       pf_optional = [''displayName'', ''locale'', ''timeZone'', ''reducedMotion'', ''highContrast''],
       pf_prohibited = [''password'', ''governmentIdentifier'', ''dateOfBirth'', ''advertisingProfile'']\<rparr>,
     lp_states = learner_account_states, lp_transitions = default_transitions,
     lp_consent_fields = [''purpose'', ''policyVersion'', ''decision'', ''decidedAt''],
     lp_purposes = default_purposes, lp_retention = default_retention,
     lp_export = \<lparr>pex_formats = [''project42-portable-json'', ''transcript-csv''], pex_minutes = Fin 15,
       pex_delivery = ''single-response-download'', pex_public_url = False, pex_audited = True\<rparr>,
     lp_deletion = \<lparr>pd_cancellation = Fin 7, pd_completion = Fin 7, pd_backup_expiry = Fin 35, pd_replay = True,
       pd_receipt_days = Fin 90, pd_audited = True\<rparr>,
     lp_recovery = \<lparr>pr_point_hours = Fin 24, pr_time_hours = Fin 8, pr_cadence = Fin 90, pr_replay = True\<rparr>,
     lp_authorization = \<lparr>pz_deny = True, pz_audited = True, pz_grants = default_grants\<rparr>\<rparr>"

section \<open>Consents of an account merge\<close>

record consent_requirement =
  cq_purpose :: string
  cq_version :: string

definition safe_policy_value :: "string \<Rightarrow> bool" where
  "safe_policy_value s \<longleftrightarrow> (case s of [] \<Rightarrow> False | c # cs \<Rightarrow> alnum_char c \<and> list_all id_char cs \<and> length cs \<le> 127)"

definition default_merge_requirements :: "consent_requirement list" where
  "default_merge_requirements = map (\<lambda>c. \<lparr>cq_purpose = cs_id c, cq_version = lp_version default_learner_data_policy\<rparr>)
     (filter cs_required (lp_purposes default_learner_data_policy))"

definition requirement_key :: "consent_requirement \<Rightarrow> string" where
  "requirement_key r = cq_purpose r @ nul # cq_version r"

definition parse_requirement :: "json \<Rightarrow> (string, consent_requirement) result" where
  "parse_requirement v =
     (if \<not> is_record v then Inl ''Each account-merge consent requirement must be an object.''
      else if list_ex (\<lambda>k. k \<notin> {''purpose'', ''policyVersion''}) (prop_keys v)
        \<or> \<not> string_where safe_policy_value (get_prop v ''purpose'') \<or> \<not> string_where safe_policy_value (get_prop v ''policyVersion'')
      then Inl ''Each account-merge consent requirement needs safe purpose and policyVersion values.''
      else Inr \<lparr>cq_purpose = str_of (get_prop v ''purpose''), cq_version = str_of (get_prop v ''policyVersion'')\<rparr>)"

fun parse_requirements :: "json list \<Rightarrow> (string, consent_requirement list) result" where
  "parse_requirements [] = Inr []"
| "parse_requirements (v # vs) = bind_result (parse_requirement v) (\<lambda>r. bind_result (parse_requirements vs) (\<lambda>rs. Inr (r # rs)))"

definition read_merge_requirements ::
    "runtime \<Rightarrow> (string \<Rightarrow> json option) \<Rightarrow> string option \<Rightarrow> (string, consent_requirement list) result" where
  "read_merge_requirements rt parse configuration =
     (case configuration of None \<Rightarrow> Inr default_merge_requirements
      | Some text \<Rightarrow>
        if js_trim text = [] then Inr default_merge_requirements
        else (case parse text of
            None \<Rightarrow> Inl ''ACCOUNT_MERGE_REQUIRED_CONSENTS must be a JSON array.''
          | Some v \<Rightarrow>
            if \<not> array_where (\<lambda>xs. 1 \<le> length xs \<and> length xs \<le> 20) v
            then Inl ''ACCOUNT_MERGE_REQUIRED_CONSENTS must contain 1 through 20 requirements.''
            else bind_result (parse_requirements (elems v)) (\<lambda>rs.
              if \<not> distinct (map requirement_key rs) then Inl ''ACCOUNT_MERGE_REQUIRED_CONSENTS cannot contain duplicates.''
              else Inr (js_sort (\<lambda>a b. collate rt (requirement_key a) (requirement_key b)) rs))))"

end
