(* ===== verification/Account_Merge.thy ===== *)
theory Account_Merge
  imports Learner_Data_Policy
begin

text \<open>
  The account merge of the API worker (\<open>src/worker.ts\<close>): the snapshot of the rows of two accounts, the conflicts and the policy
  blocks a preview shows, the decision whether a merge completes and with which values, and the snapshot's chunks, which a
  rollback reads back. A row is a \<open>json\<close> object; what the database and its clocks answer are arguments.
\<close>

section \<open>Failures\<close>

record api_failure =
  af_status :: int
  af_code :: string
  af_message :: string

definition failure :: "int \<Rightarrow> string \<Rightarrow> string \<Rightarrow> api_failure" where
  "failure status code message = \<lparr>af_status = status, af_code = code, af_message = message\<rparr>"

text \<open>A recognised failure, or another thrown \<open>Error\<close>.\<close>

datatype worker_error = Api api_failure | Thrown string

section \<open>Canonical texts\<close>

text \<open>\<open>canonicalJson\<close> of stored values, which have no dates.\<close>

fun canonical_json :: "runtime \<Rightarrow> json \<Rightarrow> string" where
  "canonical_json rt (JArr xs) = ''['' @ join_text '','' (map (canonical_json rt) xs) @ '']''"
| "canonical_json rt (JObj kvs) = ''{'' @ join_text '','' (map (\<lambda>(k, t). quote_text k @ '':'' @ t)
     (js_sort (\<lambda>a b. unit_cmp (fst a) (fst b)) (map (\<lambda>(k, v). (k, canonical_json rt v)) kvs))) @ ''}''"
| "canonical_json rt v = stringify rt v"

section \<open>The snapshot\<close>

definition merge_tables :: "string list" where
  "merge_tables = [''users'', ''role_assignments'', ''user_profiles'', ''user_identities'', ''learning_progress'', ''module_progress'',
     ''assessment_attempts'', ''transcript_entries'', ''user_badges'', ''progress_imports'', ''consent_records'', ''deletion_requests'',
     ''account_merge_governance_constraints'']"

record merge_entry =
  me_table :: string
  me_key :: string
  me_row :: json
  me_digest :: string

record merge_snapshot =
  ms_entries :: "merge_entry list"
  ms_digest :: string
  ms_counts :: "(string \<times> nat \<times> nat) list"

definition row_user :: "runtime \<Rightarrow> string \<Rightarrow> json \<Rightarrow> string" where
  "row_user rt table row = to_text rt (get_prop row (if table = ''users'' then ''id'' else ''user_id''))"

definition row_texts :: "runtime \<Rightarrow> json \<Rightarrow> string list \<Rightarrow> string" where
  "row_texts rt row columns = join_text '':'' (map (\<lambda>c. to_text rt (get_prop row c)) columns)"

definition snapshot_row_key :: "runtime \<Rightarrow> string \<Rightarrow> json \<Rightarrow> (worker_error, string) result" where
  "snapshot_row_key rt table row =
     (if table \<in> {''users'', ''user_profiles'', ''learning_progress''} then Inr (row_user rt table row)
      else if table = ''role_assignments'' then Inr (row_texts rt row [''user_id'', ''role''])
      else if table \<in> {''user_identities'', ''consent_records'', ''deletion_requests'', ''account_merge_governance_constraints''}
      then Inr (to_text rt (get_prop row ''id''))
      else if table = ''module_progress'' then Inr (row_texts rt row [''user_id'', ''path_id'', ''module_id'', ''content_version''])
      else if table \<in> {''assessment_attempts'', ''progress_imports''} then Inr (row_texts rt row [''user_id'', ''id''])
      else if table = ''transcript_entries'' then Inr (row_texts rt row [''user_id'', ''path_id'', ''content_version''])
      else if table = ''user_badges'' then Inr (row_texts rt row [''user_id'', ''badge_id''])
      else Inl (Thrown (''Unsupported account merge snapshot table: '' @ table)))"

definition snapshot_entry :: "runtime \<Rightarrow> string \<Rightarrow> json \<Rightarrow> (worker_error, merge_entry) result" where
  "snapshot_entry rt table row = bind_result (snapshot_row_key rt table row) (\<lambda>key.
     Inr \<lparr>me_table = table, me_key = key, me_row = row, me_digest = sha256_hex rt (canonical_json rt row)\<rparr>)"

definition entry_order :: "runtime \<Rightarrow> merge_entry \<Rightarrow> merge_entry \<Rightarrow> int" where
  "entry_order rt a b = collate rt (me_table a @ nul # me_key a) (me_table b @ nul # me_key b)"

definition snapshot_digest :: "runtime \<Rightarrow> merge_entry list \<Rightarrow> string" where
  "snapshot_digest rt es = sha256_hex rt (canonical_json rt (JArr (map (\<lambda>e. JObj [(''tableName'', JStr (me_table e)),
     (''rowKey'', JStr (me_key e)), (''rowDigest'', JStr (me_digest e))]) es)))"

text \<open>One more row of an owner in the counts of a table.\<close>

definition count_row :: "string \<Rightarrow> string \<Rightarrow> string \<Rightarrow> nat \<times> nat \<Rightarrow> nat \<times> nat" where
  "count_row source survivor owner c = (case c of (a, b) \<Rightarrow>
     (if owner = source then a + 1 else a, if owner = survivor then b + 1 else b))"

fun snapshot_entries :: "runtime \<Rightarrow> string \<Rightarrow> json list \<Rightarrow> (worker_error, merge_entry list) result" where
  "snapshot_entries rt table [] = Inr []"
| "snapshot_entries rt table (row # rows) = bind_result (snapshot_entry rt table row) (\<lambda>e.
     bind_result (snapshot_entries rt table rows) (\<lambda>es. Inr (e # es)))"

fun capture_tables ::
    "runtime \<Rightarrow> (string \<Rightarrow> json list) \<Rightarrow> string \<Rightarrow> string \<Rightarrow> string list \<Rightarrow> (worker_error, merge_entry list \<times> (string \<times> nat \<times> nat) list) result" where
  "capture_tables rt db source survivor [] = Inr ([], [])"
| "capture_tables rt db source survivor (t # ts) = bind_result (snapshot_entries rt t (db t)) (\<lambda>es.
     bind_result (capture_tables rt db source survivor ts) (\<lambda>(rest, counts).
       Inr (es @ rest, (t, foldl (\<lambda>c row. count_row source survivor (row_user rt t row) c) (0, 0) (db t)) # counts)))"

text \<open>\<open>db t\<close> are the rows of the two accounts in table \<open>t\<close>.\<close>

definition capture_snapshot :: "runtime \<Rightarrow> (string \<Rightarrow> json list) \<Rightarrow> string \<Rightarrow> string \<Rightarrow> (worker_error, merge_snapshot) result" where
  "capture_snapshot rt db source survivor = bind_result (capture_tables rt db source survivor merge_tables) (\<lambda>(es, counts).
     let sorted = js_sort (entry_order rt) es in
     Inr \<lparr>ms_entries = sorted, ms_digest = snapshot_digest rt sorted, ms_counts = counts\<rparr>)"

definition rows_of :: "runtime \<Rightarrow> merge_snapshot \<Rightarrow> string \<Rightarrow> string \<Rightarrow> json list" where
  "rows_of rt s table user = map me_row (filter (\<lambda>e. me_table e = table \<and> row_user rt (me_table e) (me_row e) = user) (ms_entries s))"

section \<open>Conflicts\<close>

record merge_conflict =
  mf_key :: string
  mf_field :: string
  mf_source_present :: bool
  mf_survivor_present :: bool
  mf_source_value :: json
  mf_survivor_value :: json
  mf_required :: bool
  mf_description :: string

definition value_present :: "json \<Rightarrow> bool" where
  "value_present v \<longleftrightarrow> v \<noteq> JNull \<and> v \<noteq> JUndefined \<and> v \<noteq> JStr []"

definition display_value :: "runtime \<Rightarrow> string \<Rightarrow> json \<Rightarrow> json" where
  "display_value rt field v =
     (if \<not> value_present v then JNull
      else if field = ''photo'' then JBool True
      else if field = ''reducedMotion'' \<or> field = ''highContrast'' then JBool (v \<in> {JBool True, JInt 1, JStr ''1''})
      else (case v of JBool b \<Rightarrow> JBool b | _ \<Rightarrow> JStr (to_text rt v)))"

definition value_conflict :: "runtime \<Rightarrow> string \<Rightarrow> string \<Rightarrow> json \<Rightarrow> json \<Rightarrow> string \<Rightarrow> merge_conflict list" where
  "value_conflict rt key field source survivor description =
     (if value_present source \<and> value_present survivor \<and> canonical_json rt source \<noteq> canonical_json rt survivor
      then [\<lparr>mf_key = key, mf_field = field, mf_source_present = True, mf_survivor_present = True,
        mf_source_value = display_value rt field source, mf_survivor_value = display_value rt field survivor,
        mf_required = True, mf_description = description\<rparr>]
      else [])"

definition profile_columns :: "(string \<times> string \<times> string \<times> string) list" where
  "profile_columns =
    [(''profile.bio'', ''bio'', ''bio'', ''Choose the learner biography retained after merge.''),
     (''profile.organization'', ''organization'', ''organization'', ''Choose the organization retained after merge.''),
     (''profile.location'', ''location'', ''location'', ''Choose the profile location retained after merge.''),
     (''profile.websiteUrl'', ''websiteUrl'', ''website_url'', ''Choose the profile website retained after merge.''),
     (''profile.locale'', ''locale'', ''locale'', ''Choose the locale retained after merge.''),
     (''profile.timeZone'', ''timeZone'', ''time_zone'', ''Choose the time zone retained after merge.''),
     (''profile.reducedMotion'', ''reducedMotion'', ''reduced_motion'', ''Choose the reduced-motion preference retained after merge.''),
     (''profile.highContrast'', ''highContrast'', ''high_contrast'', ''Choose the high-contrast preference retained after merge.'')]"

text \<open>\<open>row?.[column]\<close>.\<close>

definition column_of :: "json option \<Rightarrow> string \<Rightarrow> json" where
  "column_of row column = (case row of None \<Rightarrow> JUndefined | Some r \<Rightarrow> get_prop r column)"

definition has_role :: "runtime \<Rightarrow> merge_snapshot \<Rightarrow> string \<Rightarrow> string \<Rightarrow> bool" where
  "has_role rt s user role \<longleftrightarrow> list_ex (\<lambda>e. me_table e = ''role_assignments'' \<and> row_user rt (me_table e) (me_row e) = user
     \<and> get_prop (me_row e) ''role'' = JStr role) (ms_entries s)"

definition row_for :: "runtime \<Rightarrow> merge_snapshot \<Rightarrow> string \<Rightarrow> string \<Rightarrow> json option" where
  "row_for rt s table user = map_option me_row
     (find (\<lambda>e. me_table e = table \<and> row_user rt (me_table e) (me_row e) = user) (ms_entries s))"

definition user_row :: "merge_snapshot \<Rightarrow> string \<Rightarrow> json option" where
  "user_row s user = map_option me_row (find (\<lambda>e. me_table e = ''users'' \<and> get_prop (me_row e) ''id'' = JStr user) (ms_entries s))"

definition found_conflicts :: "runtime \<Rightarrow> merge_snapshot \<Rightarrow> string \<Rightarrow> string \<Rightarrow> json \<Rightarrow> json \<Rightarrow> merge_conflict list" where
  "found_conflicts rt s a b source survivor =
     (let source_profile = row_for rt s ''user_profiles'' a; survivor_profile = row_for rt s ''user_profiles'' b in
      value_conflict rt ''account.displayName'' ''displayName'' (get_prop source ''display_name'') (get_prop survivor ''display_name'')
        ''Choose the display name retained by the survivor account.''
      @ value_conflict rt ''account.primaryEmail'' ''primaryEmail'' (get_prop source ''primary_email'') (get_prop survivor ''primary_email'')
        ''Choose the verified primary email retained by the survivor account.''
      @ concat (map (\<lambda>(key, field, column, description).
          value_conflict rt key field (column_of source_profile column) (column_of survivor_profile column) description) profile_columns)
      @ value_conflict rt ''profile.photo'' ''photo'' (column_of source_profile ''photo_object_key'')
          (column_of survivor_profile ''photo_object_key'') ''Choose the private profile photo retained after merge.''
      @ (if has_role rt s a ''owner'' \<noteq> has_role rt s b ''owner''
         then [\<lparr>mf_key = ''roles.owner'', mf_field = ''ownerRole'', mf_source_present = has_role rt s a ''owner'',
           mf_survivor_present = has_role rt s b ''owner'', mf_source_value = JBool (has_role rt s a ''owner''),
           mf_survivor_value = JBool (has_role rt s b ''owner''), mf_required = True,
           mf_description = ''Choose which account's owner-role state survives; the last owner cannot be removed.''\<rparr>]
         else []))"

definition build_merge_conflicts :: "runtime \<Rightarrow> merge_snapshot \<Rightarrow> string \<Rightarrow> string \<Rightarrow> merge_conflict list" where
  "build_merge_conflicts rt s a b = (case (user_row s a, user_row s b) of
     (Some source, Some survivor) \<Rightarrow> js_sort (\<lambda>x y. collate rt (mf_key x) (mf_key y)) (found_conflicts rt s a b source survivor)
   | _ \<Rightarrow> [])"

section \<open>Policy blocks\<close>

datatype block_kind = RequiredConsent | RetentionPolicy | LegalHold
datatype merge_side = SourceSide | SurvivorSide

fun block_kind_text :: "block_kind \<Rightarrow> string" where
  "block_kind_text RequiredConsent = ''required-consent''"
| "block_kind_text RetentionPolicy = ''retention-policy''"
| "block_kind_text LegalHold = ''legal-hold''"

fun merge_side_text :: "merge_side \<Rightarrow> string" where
  "merge_side_text SourceSide = ''source''"
| "merge_side_text SurvivorSide = ''survivor''"

record policy_block =
  pb_kind :: block_kind
  pb_account :: merge_side
  pb_key :: string
  pb_version :: string
  pb_reason :: string

definition latest_decision :: "runtime \<Rightarrow> json list \<Rightarrow> string" where
  "latest_decision rt consents = foldl (\<lambda>latest c. if 0 < collate rt (to_text rt (get_prop c ''decided_at'')) latest
     then to_text rt (get_prop c ''decided_at'') else latest) [] consents"

definition consent_reason :: "runtime \<Rightarrow> json list \<Rightarrow> consent_requirement \<Rightarrow> string option" where
  "consent_reason rt consents q =
     (let purpose = filter (\<lambda>c. get_prop c ''purpose'' = JStr (cq_purpose q)) consents;
          current = filter (\<lambda>c. to_text rt (get_prop c ''decided_at'') = latest_decision rt purpose) purpose in
      if current = [] then Some ''required-consent-missing''
      else if list_ex (\<lambda>c. get_prop c ''policy_version'' = JStr (cq_version q) \<and> get_prop c ''decision'' = JStr ''withdrawn'') current
      then Some ''required-consent-withdrawn''
      else if list_ex (\<lambda>c. get_prop c ''policy_version'' \<noteq> JStr (cq_version q)) current then Some ''required-consent-version-mismatch''
      else if \<not> list_all (\<lambda>c. get_prop c ''decision'' = JStr ''granted'') current then Some ''required-consent-withdrawn''
      else None)"

definition consent_blocks :: "runtime \<Rightarrow> merge_side \<Rightarrow> json list \<Rightarrow> consent_requirement list \<Rightarrow> policy_block list" where
  "consent_blocks rt side consents required = concat (map (\<lambda>q. case consent_reason rt consents q of
     None \<Rightarrow> []
   | Some reason \<Rightarrow> [\<lparr>pb_kind = RequiredConsent, pb_account = side, pb_key = cq_purpose q, pb_version = cq_version q, pb_reason = reason\<rparr>])
     required)"

definition constraint_blocks :: "runtime \<Rightarrow> merge_side \<Rightarrow> json list \<Rightarrow> policy_block list" where
  "constraint_blocks rt side constraints = concat (map (\<lambda>c.
     if get_prop c ''state'' \<noteq> JStr ''active'' then []
     else let kind = (if get_prop c ''constraint_kind'' = JStr ''legal-hold'' then LegalHold else RetentionPolicy) in
       [\<lparr>pb_kind = kind, pb_account = side, pb_key = to_text rt (get_prop c ''policy_key''),
         pb_version = to_text rt (get_prop c ''policy_version''),
         pb_reason = (if kind = LegalHold then ''legal-hold-active'' else ''retention-policy-active'')\<rparr>]) constraints)"

definition block_text :: "policy_block \<Rightarrow> string" where
  "block_text b = block_kind_text (pb_kind b) @ nul # merge_side_text (pb_account b) @ nul # pb_key b @ nul # pb_version b"

definition side_blocks :: "runtime \<Rightarrow> merge_snapshot \<Rightarrow> consent_requirement list \<Rightarrow> merge_side \<Rightarrow> string \<Rightarrow> policy_block list" where
  "side_blocks rt s required side user =
     consent_blocks rt side (rows_of rt s ''consent_records'' user) required
     @ constraint_blocks rt side (rows_of rt s ''account_merge_governance_constraints'' user)"

definition build_policy_blocks :: "runtime \<Rightarrow> merge_snapshot \<Rightarrow> string \<Rightarrow> string \<Rightarrow> consent_requirement list \<Rightarrow> policy_block list" where
  "build_policy_blocks rt s source survivor required = js_sort (\<lambda>a b. collate rt (block_text a) (block_text b))
     (side_blocks rt s required SourceSide source @ side_blocks rt s required SurvivorSide survivor)"

section \<open>Resolutions and selected values\<close>

definition nullish :: "json \<Rightarrow> json \<Rightarrow> json" where
  "nullish v d = (if v = JUndefined \<or> v = JNull then d else v)"

text \<open>The loop over the conflicts: the first one without a choice decides the failure.\<close>

definition validate_resolutions :: "merge_conflict list \<Rightarrow> json \<Rightarrow> (worker_error, unit) result" where
  "validate_resolutions conflicts resolutions =
     (if \<not> is_record resolutions
      then Inl (Api (failure 400 ''invalid_merge_resolutions'' ''Merge resolutions must be a JSON object.''))
      else (case find (\<lambda>c. get_prop resolutions (mf_key c) \<notin> {JStr ''source'', JStr ''survivor''}) conflicts of
          Some c \<Rightarrow> Inl (Api (failure 400 ''merge_resolution_required'' (''Choose source or survivor for '' @ mf_key c @ ''.'')))
        | None \<Rightarrow>
          (case find (\<lambda>k. k \<notin> mf_key ` set conflicts) (prop_keys resolutions) of
             Some k \<Rightarrow> if k = [] then Inr ()
               else Inl (Api (failure 400 ''invalid_merge_resolution'' (''Unknown merge conflict resolution: '' @ k @ ''.'')))
           | None \<Rightarrow> Inr ())))"

definition select_value :: "runtime \<Rightarrow> string \<Rightarrow> json \<Rightarrow> json \<Rightarrow> json \<Rightarrow> json" where
  "select_value rt key source survivor resolutions =
     (if \<not> value_present source then nullish survivor JNull
      else if \<not> value_present survivor then source
      else if canonical_json rt source = canonical_json rt survivor then survivor
      else if get_prop resolutions key = JStr ''source'' then source else survivor)"

text \<open>\<open>reduced_motion\<close> and \<open>high_contrast\<close> are columns that are never null.\<close>

definition column_default :: "string \<Rightarrow> json" where
  "column_default column = (if column = ''reduced_motion'' \<or> column = ''high_contrast'' then JInt 0 else JNull)"

definition photo_columns :: "string list" where
  "photo_columns = [''photo_object_key'', ''photo_content_type'', ''photo_byte_length'', ''photo_etag'', ''photo_updated_at'']"

definition selected_profile :: "runtime \<Rightarrow> json option \<Rightarrow> json option \<Rightarrow> json \<Rightarrow> (string \<times> json) list" where
  "selected_profile rt source survivor resolutions =
     map (\<lambda>(key, field, column, description). (column, select_value rt key
       (nullish (column_of source column) (column_default column)) (nullish (column_of survivor column) (column_default column))
       resolutions)) profile_columns
     @ (let choice = nullish (get_prop resolutions ''profile.photo'')
          (if truthy (column_of survivor ''photo_object_key'') then JStr ''survivor'' else JStr ''source'') in
        map (\<lambda>column. (column, nullish (column_of (if choice = JStr ''source'' then source else survivor) column) JNull)) photo_columns)"

definition selected_owner :: "runtime \<Rightarrow> merge_snapshot \<Rightarrow> string \<Rightarrow> string \<Rightarrow> json \<Rightarrow> bool" where
  "selected_owner rt s source survivor resolutions =
     (let roles = (\<lambda>user. map (\<lambda>row. to_text rt (get_prop row ''role'')) (rows_of rt s ''role_assignments'' user));
          a = (''owner'' \<in> set (roles source)); b = (''owner'' \<in> set (roles survivor)) in
      if a = b then a else if get_prop resolutions ''roles.owner'' = JStr ''source'' then a else b)"

record merge_selection =
  sl_name :: json
  sl_email :: json
  sl_profile :: "(string \<times> json) list"
  sl_roles :: "string list"
  sl_snapshot :: merge_snapshot

section \<open>Completing a merge\<close>

record merge_case =
  mk_id :: string
  mk_source :: "string option"
  mk_survivor :: "string option"
  mk_source_proof :: "string option"
  mk_survivor_proof :: "string option"
  mk_status :: string
  mk_conflicts :: "merge_conflict list"
  mk_preview_digest :: string
  mk_snapshot_digest :: "string option"
  mk_key :: string
  mk_expires :: string

record merge_proof =
  mp_user :: "string option"
  mp_status :: string
  mp_expires :: string

record merge_request =
  mr_confirmation :: string
  mr_key :: string
  mr_resolutions :: json

text \<open>What the database answers: account states, proofs by ID, the rows of the two accounts, another owner.\<close>

record merge_world =
  mw_state :: "string \<Rightarrow> string option"
  mw_proof :: "string \<Rightarrow> merge_proof option"
  mw_rows :: "string \<Rightarrow> json list"
  mw_other_owner :: bool

datatype merge_outcome = Replayed | Selected merge_selection

definition conflict_409 :: "string \<Rightarrow> string \<Rightarrow> (worker_error, 'a) result" where
  "conflict_409 code message = Inl (Api (failure 409 code message))"

text \<open>\<open>now >= expiry\<close> as times; false when either is not a date.\<close>

definition time_reached :: "(string \<Rightarrow> int option) \<Rightarrow> string \<Rightarrow> string \<Rightarrow> bool" where
  "time_reached date_of now expiry = (case (date_of now, date_of expiry) of (Some a, Some b) \<Rightarrow> b \<le> a | _ \<Rightarrow> False)"

definition proof_usable :: "(string \<Rightarrow> int option) \<Rightarrow> string \<Rightarrow> string \<Rightarrow> merge_proof option \<Rightarrow> bool" where
  "proof_usable date_of now user p = (case p of None \<Rightarrow> False
     | Some q \<Rightarrow> mp_user q = Some user \<and> mp_status q = ''available'' \<and> \<not> time_reached date_of now (mp_expires q))"

text \<open>The values of a merge whose guards have passed.\<close>

definition select_merge ::
    "runtime \<Rightarrow> bool \<Rightarrow> merge_snapshot \<Rightarrow> string \<Rightarrow> string \<Rightarrow> json \<Rightarrow> (worker_error, merge_selection) result" where
  "select_merge rt other_owner s source survivor resolutions =
     (case (rows_of rt s ''users'' source, rows_of rt s ''users'' survivor) of
        (a # _, b # _) \<Rightarrow>
          (let first = (\<lambda>rows. case rows of [] \<Rightarrow> None | r # _ \<Rightarrow> Some r);
               owner = selected_owner rt s source survivor resolutions;
               owners = list_ex (\<lambda>row. to_text rt (get_prop row ''role'') = ''owner'')
                 (rows_of rt s ''role_assignments'' source @ rows_of rt s ''role_assignments'' survivor) in
           if \<not> owner \<and> owners \<and> \<not> other_owner
           then conflict_409 ''last_owner_required'' ''The merge cannot remove the installation's last owner.''
           else Inr \<lparr>sl_name = select_value rt ''account.displayName'' (get_prop a ''display_name'') (get_prop b ''display_name'') resolutions,
             sl_email = select_value rt ''account.primaryEmail'' (get_prop a ''primary_email'') (get_prop b ''primary_email'') resolutions,
             sl_profile = selected_profile rt (first (rows_of rt s ''user_profiles'' source))
               (first (rows_of rt s ''user_profiles'' survivor)) resolutions,
             sl_roles = ''learner'' # (if owner then [''owner''] else []), sl_snapshot = s\<rparr>)
      | _ \<Rightarrow> conflict_409 ''account_merge_preview_stale'' ''Both accounts must still exist at completion time.'')"

definition complete_guarded ::
    "runtime \<Rightarrow> (string \<Rightarrow> int option) \<Rightarrow> consent_requirement list \<Rightarrow> string \<Rightarrow> merge_request \<Rightarrow> merge_world \<Rightarrow> merge_case
     \<Rightarrow> string \<Rightarrow> string \<Rightarrow> string \<Rightarrow> string \<Rightarrow> (worker_error, merge_selection) result" where
  "complete_guarded rt date_of required now q w c source survivor source_proof survivor_proof =
     (if time_reached date_of now (mk_expires c)
      then conflict_409 ''account_merge_expired'' ''Create a new merge preview with fresh account proofs.''
      else (case (mw_state w source, mw_state w survivor) of
        (Some a, Some b) \<Rightarrow>
          if a = ''revoked'' \<or> b = ''revoked''
          then conflict_409 ''revoked_account_cannot_merge'' ''Revoked accounts cannot be merged or restored.''
          else if a = ''suspended'' \<or> b = ''suspended''
          then conflict_409 ''suspended_account_cannot_merge'' ''Suspended accounts require an explicit state resolution before merge.''
          else if mr_confirmation q \<noteq> ''MERGE '' @ source @ '' INTO '' @ survivor
          then Inl (Api (failure 400 ''account_merge_confirmation_required'' ''Enter the exact source-to-survivor merge confirmation.''))
          else bind_result (validate_resolutions (mk_conflicts c) (mr_resolutions q)) (\<lambda>_.
            if \<not> proof_usable date_of now source (mw_proof w source_proof) \<or> \<not> proof_usable date_of now survivor (mw_proof w survivor_proof)
            then conflict_409 ''account_merge_proof_unavailable'' ''Both account proofs must be unused and unexpired.''
            else bind_result (capture_snapshot rt (mw_rows w) source survivor) (\<lambda>s.
              if build_policy_blocks rt s source survivor required \<noteq> []
              then conflict_409 ''account_merge_policy_blocked''
                ''Resolve all required-consent, retention-policy, and legal-hold blocks before completing this merge.''
              else if ms_digest s \<noteq> mk_preview_digest c
              then conflict_409 ''account_merge_preview_stale'' ''Account data changed after preview. Create and review a new merge.''
              else select_merge rt (mw_other_owner w) s source survivor (mr_resolutions q)))
      | _ \<Rightarrow> conflict_409 ''account_merge_preview_stale'' ''Both accounts must still exist at completion time.''))"

text \<open>\<open>completeAccountMerge\<close> up to its statements; an empty ID counts as missing.\<close>

definition given :: "string option \<Rightarrow> string option" where
  "given s = (case s of Some [] \<Rightarrow> None | _ \<Rightarrow> s)"

definition complete_merge ::
    "runtime \<Rightarrow> (string \<Rightarrow> int option) \<Rightarrow> consent_requirement list \<Rightarrow> string \<Rightarrow> merge_request \<Rightarrow> merge_world \<Rightarrow> merge_case option
     \<Rightarrow> (worker_error, merge_outcome) result" where
  "complete_merge rt date_of required now q w found =
     (case found of
        None \<Rightarrow> Inl (Api (failure 404 ''account_merge_not_found'' ''The account merge was not found.''))
      | Some c \<Rightarrow>
        if mk_key c \<noteq> mr_key q
        then conflict_409 ''merge_idempotency_conflict'' ''The completion key does not match this merge preview.''
        else if mk_status c = ''completed'' then Inr Replayed
        else if mk_status c \<noteq> ''preview''
        then conflict_409 ''account_merge_not_completable'' ''This account merge cannot be completed in its current state.''
        else (case (given (mk_source c), given (mk_survivor c), given (mk_source_proof c), given (mk_survivor_proof c)) of
            (Some source, Some survivor, Some source_proof, Some survivor_proof) \<Rightarrow>
              bind_result (complete_guarded rt date_of required now q w c source survivor source_proof survivor_proof) (\<lambda>sel. Inr (Selected sel))
          | _ \<Rightarrow> conflict_409 ''account_merge_evidence_unavailable'' ''The merge evidence is no longer available.''))"

section \<open>Chunks of a snapshot\<close>

record merge_chunk =
  mc_table :: string
  mc_key :: string
  mc_rows :: "json list"
  mc_digest :: string

definition pad_start :: "nat \<Rightarrow> string \<Rightarrow> string" where
  "pad_start n s = replicate (n - length s) CHR ''0'' @ s"

definition digests_text :: "runtime \<Rightarrow> string list \<Rightarrow> string" where
  "digests_text rt ds = sha256_hex rt (canonical_json rt (JArr (map JStr ds)))"

function table_chunks :: "runtime \<Rightarrow> string \<Rightarrow> nat \<Rightarrow> merge_entry list \<Rightarrow> merge_chunk list" where
  "table_chunks rt table n es = (if es = [] then []
     else \<lparr>mc_table = table, mc_key = pad_start 6 (nat_text n), mc_rows = map me_row (take 100 es),
       mc_digest = digests_text rt (map me_digest (take 100 es))\<rparr> # table_chunks rt table (n + 1) (drop 100 es))"
  by pat_completeness auto
termination by (relation "measure (\<lambda>(rt, table, n, es). length es)") auto

declare table_chunks.simps [simp del]

definition chunk_snapshot :: "runtime \<Rightarrow> merge_entry list \<Rightarrow> merge_chunk list" where
  "chunk_snapshot rt es = concat (map (\<lambda>t. table_chunks rt t 0 (filter (\<lambda>e. me_table e = t) es)) (js_unique (map me_table es)))"

record stored_chunk =
  sk_table :: string
  sk_text :: string
  sk_digest :: string

definition store_chunk :: "runtime \<Rightarrow> merge_chunk \<Rightarrow> stored_chunk" where
  "store_chunk rt c = \<lparr>sk_table = mc_table c, sk_text = stringify rt (JArr (mc_rows c)), sk_digest = mc_digest c\<rparr>"

definition snapshot_invalid :: "string \<Rightarrow> (worker_error, 'a) result" where
  "snapshot_invalid message = Inl (Api (failure 500 ''account_merge_snapshot_invalid'' message))"

fun load_rows :: "runtime \<Rightarrow> string \<Rightarrow> json list \<Rightarrow> (worker_error, merge_entry list) result" where
  "load_rows rt table [] = Inr []"
| "load_rows rt table (v # vs) =
     (if \<not> is_record v then snapshot_invalid ''The account merge recovery snapshot is invalid.''
      else bind_result (snapshot_entry rt table v) (\<lambda>e. bind_result (load_rows rt table vs) (\<lambda>es. Inr (e # es))))"

definition load_chunk :: "runtime \<Rightarrow> (string \<Rightarrow> json option) \<Rightarrow> stored_chunk \<Rightarrow> (worker_error, merge_entry list) result" where
  "load_chunk rt parse k =
     (if sk_table k \<notin> set merge_tables then snapshot_invalid ''The account merge recovery snapshot contains an unsupported table.''
      else (case parse (sk_text k) of
          None \<Rightarrow> Inl (Thrown ''SyntaxError'')
        | Some v \<Rightarrow>
          if \<not> is_array v then snapshot_invalid ''The account merge recovery snapshot is invalid.''
          else bind_result (load_rows rt (sk_table k) (elems v)) (\<lambda>es.
            if digests_text rt (map me_digest es) \<noteq> sk_digest k
            then snapshot_invalid ''The account merge recovery snapshot failed integrity validation.''
            else Inr es)))"

fun load_chunks :: "runtime \<Rightarrow> (string \<Rightarrow> json option) \<Rightarrow> stored_chunk list \<Rightarrow> (worker_error, merge_entry list) result" where
  "load_chunks rt parse [] = Inr []"
| "load_chunks rt parse (k # ks) = bind_result (load_chunk rt parse k) (\<lambda>es.
     bind_result (load_chunks rt parse ks) (\<lambda>rest. Inr (es @ rest)))"

text \<open>The counts start at zero for every table and are raised entry by entry.\<close>

definition count_entries :: "runtime \<Rightarrow> string \<Rightarrow> string \<Rightarrow> merge_entry list \<Rightarrow> (string \<times> nat \<times> nat) list" where
  "count_entries rt source survivor es = foldl (\<lambda>counts e. map (\<lambda>(t, c). (t, if t = me_table e
       then count_row source survivor (row_user rt (me_table e) (me_row e)) c else c)) counts)
     (map (\<lambda>t. (t, 0, 0)) merge_tables) es"

definition load_snapshot ::
    "runtime \<Rightarrow> (string \<Rightarrow> json option) \<Rightarrow> merge_case \<Rightarrow> stored_chunk list \<Rightarrow> (worker_error, merge_snapshot) result" where
  "load_snapshot rt parse c chunks = bind_result (load_chunks rt parse chunks) (\<lambda>es.
     let sorted = js_sort (entry_order rt) es in
     case (given (mk_source c), given (mk_survivor c)) of
       (Some source, Some survivor) \<Rightarrow>
         if Some (snapshot_digest rt sorted) \<noteq> mk_snapshot_digest c
         then snapshot_invalid ''The account merge recovery snapshot failed integrity validation.''
         else Inr \<lparr>ms_entries = sorted, ms_digest = snapshot_digest rt sorted, ms_counts = count_entries rt source survivor sorted\<rparr>
     | _ \<Rightarrow> Inl (Api (failure 410 ''account_merge_personal_data_deleted'' ''The merge recovery data has been deleted.'')))"

end
