(* ===== verification/Merge_Theorems.thy ===== *)
theory Merge_Theorems
  imports Account_Merge
begin

text \<open>
  What the account merge of \<open>src/worker.ts\<close> guarantees: when it completes, which values survive, and that the stored snapshot
  reads back.
\<close>

section \<open>Selected values\<close>

text \<open>
  The value \<open>v\<close> settles the two values of a field: nothing present is lost, and two different values are settled by an explicit
  choice.
\<close>

definition settled :: "runtime \<Rightarrow> json \<Rightarrow> string \<Rightarrow> json \<Rightarrow> json \<Rightarrow> json \<Rightarrow> bool" where
  "settled rt resolutions key source survivor v \<longleftrightarrow>
     (if value_present source \<and> value_present survivor
      then (if canonical_json rt source = canonical_json rt survivor then v = survivor
            else get_prop resolutions key = JStr ''source'' \<and> v = source \<or> get_prop resolutions key = JStr ''survivor'' \<and> v = survivor)
      else if value_present source then v = source
      else if value_present survivor then v = survivor
      else \<not> value_present v)"

lemma nullish_present [simp]: "value_present (nullish v JNull) \<longleftrightarrow> value_present v"
  by (simp add: nullish_def value_present_def)

lemma nullish_same: "value_present v \<Longrightarrow> nullish v d = v"
  by (simp add: nullish_def value_present_def)

lemma select_settles:
  assumes "value_present a \<Longrightarrow> value_present b \<Longrightarrow> canonical_json rt a \<noteq> canonical_json rt b
      \<Longrightarrow> get_prop resolutions key \<in> {JStr ''source'', JStr ''survivor''}"
  shows "settled rt resolutions key a b (select_value rt key a b resolutions)"
  using assms by (auto simp: settled_def select_value_def nullish_same)

lemma settled_nullish:
  "settled rt resolutions key (nullish a JNull) (nullish b JNull) v \<longleftrightarrow> settled rt resolutions key a b v"
  by (cases "value_present a"; cases "value_present b") (simp_all add: settled_def nullish_same)

lemma validated_choice:
  assumes "validate_resolutions conflicts resolutions = Inr ()" and "c \<in> set conflicts"
  shows "get_prop resolutions (mf_key c) \<in> {JStr ''source'', JStr ''survivor''}"
  using assms by (auto simp: validate_resolutions_def find_None_iff split: if_splits option.splits)

lemma conflict_found:
  assumes "value_present a" "value_present b" "canonical_json rt a \<noteq> canonical_json rt b"
  shows "\<exists>c \<in> set (value_conflict rt key field a b description). mf_key c = key"
  using assms by (simp add: value_conflict_def)

lemma set_conflicts:
  assumes "user_row s i = Some a" and "user_row s j = Some b"
  shows "set (build_merge_conflicts rt s i j) = set (found_conflicts rt s i j a b)"
  using assms by (simp add: build_merge_conflicts_def)

text \<open>An accepted set of resolutions settles every field that the conflicts cover.\<close>

lemma settles:
  assumes "validate_resolutions (build_merge_conflicts rt s i j) resolutions = Inr ()"
    and "user_row s i = Some a" and "user_row s j = Some b"
    and "set (value_conflict rt key field u v description) \<subseteq> set (found_conflicts rt s i j a b)"
  shows "settled rt resolutions key u v (select_value rt key u v resolutions)"
proof (rule select_settles)
  assume p: "value_present u" "value_present v" "canonical_json rt u \<noteq> canonical_json rt v"
  obtain c where "c \<in> set (value_conflict rt key field u v description)" "mf_key c = key" using conflict_found [OF p] by blast
  then show "get_prop resolutions key \<in> {JStr ''source'', JStr ''survivor''}"
    using validated_choice [OF assms(1)] assms(4) set_conflicts [OF assms(2,3)] by blast
qed

lemma covered:
  "set (value_conflict rt ''account.displayName'' ''displayName'' (get_prop a ''display_name'') (get_prop b ''display_name'')
      ''Choose the display name retained by the survivor account.'') \<subseteq> set (found_conflicts rt s i j a b)"
  "set (value_conflict rt ''account.primaryEmail'' ''primaryEmail'' (get_prop a ''primary_email'') (get_prop b ''primary_email'')
      ''Choose the verified primary email retained by the survivor account.'') \<subseteq> set (found_conflicts rt s i j a b)"
  "(key, field, column, description) \<in> set profile_columns \<Longrightarrow>
    set (value_conflict rt key field (column_of (row_for rt s ''user_profiles'' i) column) (column_of (row_for rt s ''user_profiles'' j) column)
      description) \<subseteq> set (found_conflicts rt s i j a b)"
  "set (value_conflict rt ''profile.photo'' ''photo'' (column_of (row_for rt s ''user_profiles'' i) ''photo_object_key'')
      (column_of (row_for rt s ''user_profiles'' j) ''photo_object_key'') ''Choose the private profile photo retained after merge.'')
    \<subseteq> set (found_conflicts rt s i j a b)"
  by (auto simp: found_conflicts_def Let_def)

lemma find_filter: "find P xs = (case filter P xs of [] \<Rightarrow> None | y # ys \<Rightarrow> Some y)"
  by (induction xs) simp_all

lemma first_row: "row_for rt s table user = (case rows_of rt s table user of [] \<Rightarrow> None | r # rs \<Rightarrow> Some r)"
  by (simp add: row_for_def rows_of_def find_filter split: list.splits)

lemma row_text [simp]: "row_user rt ''users'' row = to_text rt (get_prop row ''id'')"
  by (simp add: row_user_def)

text \<open>The one row of an account is the one found by its ID.\<close>

lemma the_user_row:
  assumes "rows_of rt s ''users'' i = [a]" and "get_prop a ''id'' = JStr i"
  shows "user_row s i = Some a"
proof -
  let ?P = "\<lambda>e. me_table e = ''users'' \<and> row_user rt (me_table e) (me_row e) = i"
    and ?Q = "\<lambda>e. me_table e = ''users'' \<and> get_prop (me_row e) ''id'' = JStr i"
  obtain e where e: "filter ?P (ms_entries s) = [e]" "me_row e = a" using assms(1) by (auto simp: rows_of_def map_eq_Cons_conv)
  have "filter ?Q (ms_entries s) = filter ?Q (filter ?P (ms_entries s))" by (auto simp: filter_filter intro!: filter_cong)
  also have "\<dots> = [e]"
  proof -
    have "e \<in> set (filter ?P (ms_entries s))" by (simp only: e(1) list.set_intros)
    then have "me_table e = ''users''" by simp
    then show ?thesis unfolding e(1) using e(2) assms(2) by simp
  qed
  finally show ?thesis using e(2) by (simp add: user_row_def find_filter)
qed

section \<open>When a merge completes\<close>

definition owner_rows :: "runtime \<Rightarrow> merge_snapshot \<Rightarrow> string \<Rightarrow> string \<Rightarrow> bool" where
  "owner_rows rt s source survivor \<longleftrightarrow> list_ex (\<lambda>row. to_text rt (get_prop row ''role'') = ''owner'')
     (rows_of rt s ''role_assignments'' source @ rows_of rt s ''role_assignments'' survivor)"

lemma select_merge_Inr:
  assumes "select_merge rt other s source survivor r = Inr sel"
  obtains a xs b ys where "rows_of rt s ''users'' source = a # xs" "rows_of rt s ''users'' survivor = b # ys"
    "selected_owner rt s source survivor r \<or> \<not> owner_rows rt s source survivor \<or> other"
    "sel = \<lparr>sl_name = select_value rt ''account.displayName'' (get_prop a ''display_name'') (get_prop b ''display_name'') r,
       sl_email = select_value rt ''account.primaryEmail'' (get_prop a ''primary_email'') (get_prop b ''primary_email'') r,
       sl_profile = selected_profile rt (row_for rt s ''user_profiles'' source) (row_for rt s ''user_profiles'' survivor) r,
       sl_roles = ''learner'' # (if selected_owner rt s source survivor r then [''owner''] else []), sl_snapshot = s\<rparr>"
proof -
  obtain a xs b ys where ab: "rows_of rt s ''users'' source = a # xs" "rows_of rt s ''users'' survivor = b # ys"
    using assms unfolding select_merge_def conflict_409_def by (fastforce split: list.splits)
  note d = assms [unfolded select_merge_def conflict_409_def Let_def ab prod.case list.case, folded owner_rows_def first_row]
  show thesis
  proof (rule that [OF ab])
    show "selected_owner rt s source survivor r \<or> \<not> owner_rows rt s source survivor \<or> other" using d by (simp split: if_split_asm)
  next
    have n: "\<not> (\<not> selected_owner rt s source survivor r \<and> owner_rows rt s source survivor \<and> \<not> other)"
      using d by (simp split: if_split_asm)
    show "sel = \<lparr>sl_name = select_value rt ''account.displayName'' (get_prop a ''display_name'') (get_prop b ''display_name'') r,
       sl_email = select_value rt ''account.primaryEmail'' (get_prop a ''primary_email'') (get_prop b ''primary_email'') r,
       sl_profile = selected_profile rt (row_for rt s ''user_profiles'' source) (row_for rt s ''user_profiles'' survivor) r,
       sl_roles = ''learner'' # (if selected_owner rt s source survivor r then [''owner''] else []), sl_snapshot = s\<rparr>"
      using d [unfolded if_not_P [OF n] sum.inject] by (rule sym)
  qed
qed

lemma select_merge_facts:
  assumes "select_merge rt other s source survivor r = Inr sel"
  shows "sl_snapshot sel = s" and "''owner'' \<in> set (sl_roles sel) \<or> other \<or> \<not> owner_rows rt s source survivor"
    and "sl_profile sel = selected_profile rt (row_for rt s ''user_profiles'' source) (row_for rt s ''user_profiles'' survivor) r"
    and "rows_of rt s ''users'' source = [a] \<Longrightarrow> rows_of rt s ''users'' survivor = [b] \<Longrightarrow>
      sl_name sel = select_value rt ''account.displayName'' (get_prop a ''display_name'') (get_prop b ''display_name'') r
      \<and> sl_email sel = select_value rt ''account.primaryEmail'' (get_prop a ''primary_email'') (get_prop b ''primary_email'') r"
  by (rule select_merge_Inr [OF assms]; force)+

lemma completed_guards:
  assumes "complete_merge rt date_of required now q w (Some c) = Inr (Selected sel)"
  obtains source survivor p1 p2 where "mk_source c = Some source" "mk_survivor c = Some survivor" "source \<noteq> []" "survivor \<noteq> []"
    "mk_key c = mr_key q" "mk_status c = ''preview''" "mk_source_proof c = Some p1" "mk_survivor_proof c = Some p2"
    "complete_guarded rt date_of required now q w c source survivor p1 p2 = Inr sel"
proof -
  have g: "given x = Some y \<longleftrightarrow> x = Some y \<and> y \<noteq> []" for x y by (auto simp: given_def split: option.splits list.splits)
  note d = assms [unfolded complete_merge_def conflict_409_def option.case]
  have k: "\<not> mk_key c \<noteq> mr_key q" "mk_status c \<noteq> ''completed''" "\<not> mk_status c \<noteq> ''preview''" using d by (auto split: if_split_asm)
  note d = d [unfolded if_not_P [OF k(1)] if_not_P [OF k(2)] if_not_P [OF k(3)]]
  obtain source survivor p1 p2 where e: "given (mk_source c) = Some source" "given (mk_survivor c) = Some survivor"
    "given (mk_source_proof c) = Some p1" "given (mk_survivor_proof c) = Some p2" using d by (auto split: option.split_asm)
  have "complete_guarded rt date_of required now q w c source survivor p1 p2 = Inr sel"
    using d unfolding e option.case prod.case by (simp add: bind_result_eq_Inr)
  then show ?thesis using that k e unfolding g by simp
qed

lemma guarded_facts:
  assumes "complete_guarded rt date_of required now q w c source survivor p1 p2 = Inr sel"
  shows "\<not> time_reached date_of now (mk_expires c)"
    "\<exists>a b. mw_state w source = Some a \<and> mw_state w survivor = Some b \<and> a \<notin> {''revoked'', ''suspended''} \<and> b \<notin> {''revoked'', ''suspended''}"
    "mr_confirmation q = ''MERGE '' @ source @ '' INTO '' @ survivor"
    "validate_resolutions (mk_conflicts c) (mr_resolutions q) = Inr ()"
    "proof_usable date_of now source (mw_proof w p1)" "proof_usable date_of now survivor (mw_proof w p2)"
    "capture_snapshot rt (mw_rows w) source survivor = Inr (sl_snapshot sel)"
    "build_policy_blocks rt (sl_snapshot sel) source survivor required = []" "ms_digest (sl_snapshot sel) = mk_preview_digest c"
    "select_merge rt (mw_other_owner w) (sl_snapshot sel) source survivor (mr_resolutions q) = Inr sel"
proof -
  note d = assms [unfolded complete_guarded_def conflict_409_def]
  show e: "\<not> time_reached date_of now (mk_expires c)" using d by (auto split: if_split_asm)
  note d = d [unfolded if_not_P [OF e]]
  obtain a b where ab: "mw_state w source = Some a" "mw_state w survivor = Some b" using d by (auto split: option.split_asm)
  note d = d [unfolded ab option.case prod.case]
  have r: "\<not> (a = ''revoked'' \<or> b = ''revoked'')" using d by (auto split: if_split_asm)
  note d = d [unfolded if_not_P [OF r]]
  have u: "\<not> (a = ''suspended'' \<or> b = ''suspended'')" using d by (auto split: if_split_asm)
  note d = d [unfolded if_not_P [OF u]]
  show "\<exists>a b. mw_state w source = Some a \<and> mw_state w survivor = Some b \<and> a \<notin> {''revoked'', ''suspended''} \<and> b \<notin> {''revoked'', ''suspended''}"
    using ab r u by simp
  have "\<not> mr_confirmation q \<noteq> ''MERGE '' @ source @ '' INTO '' @ survivor" using d by (auto split: if_split_asm)
  note d = d [unfolded if_not_P [OF this]] and this
  then show "mr_confirmation q = ''MERGE '' @ source @ '' INTO '' @ survivor" by simp
  have v: "validate_resolutions (mk_conflicts c) (mr_resolutions q) = Inr ()" using d by (cases "validate_resolutions (mk_conflicts c) (mr_resolutions q)") simp_all
  then show "validate_resolutions (mk_conflicts c) (mr_resolutions q) = Inr ()" .
  note d = d [unfolded v bind_result_simps]
  have p: "\<not> (\<not> proof_usable date_of now source (mw_proof w p1) \<or> \<not> proof_usable date_of now survivor (mw_proof w p2))"
    using d by (auto split: if_split_asm)
  then show "proof_usable date_of now source (mw_proof w p1)" "proof_usable date_of now survivor (mw_proof w p2)" by simp_all
  note d = d [unfolded if_not_P [OF p]]
  obtain s where s: "capture_snapshot rt (mw_rows w) source survivor = Inr s"
    using d by (cases "capture_snapshot rt (mw_rows w) source survivor") simp_all
  note d = d [unfolded s bind_result_simps]
  have n: "\<not> build_policy_blocks rt s source survivor required \<noteq> []" using d by (auto split: if_split_asm)
  note d = d [unfolded if_not_P [OF n]]
  have g: "\<not> ms_digest s \<noteq> mk_preview_digest c" using d by (auto split: if_split_asm)
  note d = d [unfolded if_not_P [OF g]]
  then have "sl_snapshot sel = s" by (rule select_merge_facts)
  then show "capture_snapshot rt (mw_rows w) source survivor = Inr (sl_snapshot sel)"
    "build_policy_blocks rt (sl_snapshot sel) source survivor required = []" "ms_digest (sl_snapshot sel) = mk_preview_digest c"
    "select_merge rt (mw_other_owner w) (sl_snapshot sel) source survivor (mr_resolutions q) = Inr sel"
    using s n g d by simp_all
qed

section \<open>Policy blocks\<close>

text \<open>The latest decisions on a required consent are there, and all grant the required version.\<close>

definition consent_current :: "runtime \<Rightarrow> json list \<Rightarrow> consent_requirement \<Rightarrow> bool" where
  "consent_current rt consents q \<longleftrightarrow>
     (let purpose = filter (\<lambda>c. get_prop c ''purpose'' = JStr (cq_purpose q)) consents;
          current = filter (\<lambda>c. to_text rt (get_prop c ''decided_at'') = latest_decision rt purpose) purpose in
      current \<noteq> [] \<and> (\<forall>c \<in> set current. get_prop c ''policy_version'' = JStr (cq_version q) \<and> get_prop c ''decision'' = JStr ''granted''))"

lemma consent_reason_None: "consent_reason rt consents q = None \<longleftrightarrow> consent_current rt consents q"
proof -
  define current where "current = filter (\<lambda>c. to_text rt (get_prop c ''decided_at'') = latest_decision rt
    (filter (\<lambda>c. get_prop c ''purpose'' = JStr (cq_purpose q)) consents)) (filter (\<lambda>c. get_prop c ''purpose'' = JStr (cq_purpose q)) consents)"
  have chain: "(if A then Some x else if B then Some y else if C then Some z else if D then Some y else None) = None \<longleftrightarrow> \<not> A \<and> \<not> B \<and> \<not> C \<and> \<not> D"
    for A B C D and x y z :: string by simp
  have "(\<forall>c \<in> set current. V c \<and> G c) \<longleftrightarrow> \<not> list_ex (\<lambda>c. V c \<and> W c) current \<and> \<not> list_ex (\<lambda>c. \<not> V c) current \<and> list_all G current"
    if "\<And>c. W c \<Longrightarrow> \<not> G c" for V W G
    using that by (auto simp: list_ex_iff list_all_iff)
  from this [of "\<lambda>c. get_prop c ''decision'' = JStr ''withdrawn''" "\<lambda>c. get_prop c ''decision'' = JStr ''granted''"
      "\<lambda>c. get_prop c ''policy_version'' = JStr (cq_version q)"]
  have all: "(\<forall>c \<in> set current. get_prop c ''policy_version'' = JStr (cq_version q) \<and> get_prop c ''decision'' = JStr ''granted'')
      \<longleftrightarrow> \<not> list_ex (\<lambda>c. get_prop c ''policy_version'' = JStr (cq_version q) \<and> get_prop c ''decision'' = JStr ''withdrawn'') current
        \<and> \<not> list_ex (\<lambda>c. get_prop c ''policy_version'' \<noteq> JStr (cq_version q)) current
        \<and> list_all (\<lambda>c. get_prop c ''decision'' = JStr ''granted'') current" by simp
  show ?thesis
    unfolding consent_reason_def consent_current_def Let_def current_def [symmetric] chain all by simp
qed

definition account_mergeable :: "runtime \<Rightarrow> merge_snapshot \<Rightarrow> consent_requirement list \<Rightarrow> string \<Rightarrow> bool" where
  "account_mergeable rt s required user \<longleftrightarrow> (\<forall>q \<in> set required. consent_current rt (rows_of rt s ''consent_records'' user) q)
     \<and> (\<forall>c \<in> set (rows_of rt s ''account_merge_governance_constraints'' user). get_prop c ''state'' \<noteq> JStr ''active'')"

lemma side_blocks_Nil: "side_blocks rt s required side user = [] \<longleftrightarrow> account_mergeable rt s required user"
proof -
  have "(case consent_reason rt cs q of None \<Rightarrow> [] | Some r \<Rightarrow> [f r]) = [] \<longleftrightarrow> consent_current rt cs q" for cs q and f :: "string \<Rightarrow> policy_block"
    using consent_reason_None [of rt cs q] by (cases "consent_reason rt cs q") auto
  then show ?thesis
    by (auto simp: side_blocks_def consent_blocks_def constraint_blocks_def account_mergeable_def Let_def)
qed

lemma policy_blocks_Nil: "build_policy_blocks rt s source survivor required = []
    \<longleftrightarrow> account_mergeable rt s required source \<and> account_mergeable rt s required survivor"
  by (simp add: build_policy_blocks_def side_blocks_Nil)

text \<open>Not expired, in terms of the times; a text that is not a date never expires, as in the code.\<close>

definition unexpired :: "(string \<Rightarrow> int option) \<Rightarrow> string \<Rightarrow> string \<Rightarrow> bool" where
  "unexpired date_of now expiry \<longleftrightarrow> (\<forall>a b. date_of now = Some a \<and> date_of expiry = Some b \<longrightarrow> a < b)"

lemma unexpired_iff: "\<not> time_reached date_of now expiry \<longleftrightarrow> unexpired date_of now expiry"
  by (auto simp: time_reached_def unexpired_def split: option.splits)

lemma usable_proof:
  assumes "proof_usable date_of now user p"
  shows "\<exists>r. p = Some r \<and> mp_user r = Some user \<and> mp_status r = ''available'' \<and> unexpired date_of now (mp_expires r)"
  using assms by (auto simp: proof_usable_def unexpired_iff split: option.splits)

text \<open>
  C18. A merge completes only when it may. A completed preview was confirmed with the exact text and the key of the preview before
  it expired; neither account is revoked or suspended; each account has its own unused and unexpired proof; for both accounts
  every required consent is currently granted in its version and no retention policy or legal hold is active; the data is the
  data of the preview; every conflict has a choice; and the merge does not remove the last owner.
\<close>

theorem merge_completes_safely:
  assumes "complete_merge rt date_of required now q w (Some c) = Inr (Selected sel)"
  shows "\<exists>source survivor p1 p2 a b. mk_source c = Some source \<and> mk_survivor c = Some survivor
      \<and> mk_source_proof c = Some p1 \<and> mk_survivor_proof c = Some p2
      \<and> mr_confirmation q = ''MERGE '' @ source @ '' INTO '' @ survivor \<and> mr_key q = mk_key c
      \<and> mk_status c = ''preview'' \<and> unexpired date_of now (mk_expires c)
      \<and> mw_state w source = Some a \<and> mw_state w survivor = Some b \<and> {a, b} \<inter> {''revoked'', ''suspended''} = {}
      \<and> (\<exists>r. mw_proof w p1 = Some r \<and> mp_user r = Some source \<and> mp_status r = ''available'' \<and> unexpired date_of now (mp_expires r))
      \<and> (\<exists>r. mw_proof w p2 = Some r \<and> mp_user r = Some survivor \<and> mp_status r = ''available'' \<and> unexpired date_of now (mp_expires r))
      \<and> capture_snapshot rt (mw_rows w) source survivor = Inr (sl_snapshot sel) \<and> ms_digest (sl_snapshot sel) = mk_preview_digest c
      \<and> account_mergeable rt (sl_snapshot sel) required source \<and> account_mergeable rt (sl_snapshot sel) required survivor
      \<and> (\<forall>f \<in> set (mk_conflicts c). get_prop (mr_resolutions q) (mf_key f) \<in> {JStr ''source'', JStr ''survivor''})
      \<and> (''owner'' \<in> set (sl_roles sel) \<or> mw_other_owner w
         \<or> (\<forall>row \<in> set (rows_of rt (sl_snapshot sel) ''role_assignments'' source @ rows_of rt (sl_snapshot sel) ''role_assignments'' survivor).
              to_text rt (get_prop row ''role'') \<noteq> ''owner''))"
proof -
  obtain source survivor p1 p2 where c: "mk_source c = Some source" "mk_survivor c = Some survivor" "mk_key c = mr_key q"
    "mk_source_proof c = Some p1" "mk_survivor_proof c = Some p2" "complete_guarded rt date_of required now q w c source survivor p1 p2 = Inr sel"
    and status: "mk_status c = ''preview''"
    using completed_guards [OF assms] by metis
  note f = guarded_facts [OF c(6)]
  obtain a b where ab: "mw_state w source = Some a" "mw_state w survivor = Some b" "{a, b} \<inter> {''revoked'', ''suspended''} = {}"
    using f(2) by auto
  have owner: "''owner'' \<in> set (sl_roles sel) \<or> mw_other_owner w
      \<or> (\<forall>row \<in> set (rows_of rt (sl_snapshot sel) ''role_assignments'' source @ rows_of rt (sl_snapshot sel) ''role_assignments'' survivor).
           to_text rt (get_prop row ''role'') \<noteq> ''owner'')"
    using select_merge_facts(2) [OF f(10)] by (simp add: owner_rows_def list_ex_iff)
  have mergeable: "account_mergeable rt (sl_snapshot sel) required source" "account_mergeable rt (sl_snapshot sel) required survivor"
    using f(8) by (simp_all add: policy_blocks_Nil)
  have choices: "\<forall>f \<in> set (mk_conflicts c). get_prop (mr_resolutions q) (mf_key f) \<in> {JStr ''source'', JStr ''survivor''}"
    using validated_choice [OF f(4)] by blast
  show ?thesis
    by (rule exI [of _ source], rule exI [of _ survivor], rule exI [of _ p1], rule exI [of _ p2], rule exI [of _ a], rule exI [of _ b])
      (intro conjI, fact c(1), fact c(2), fact c(4), fact c(5), fact f(3), fact c(3) [symmetric], fact status, fact f(1) [unfolded unexpired_iff], fact ab(1), fact ab(2),
        fact ab(3), fact usable_proof [OF f(5)], fact usable_proof [OF f(6)], fact f(7), fact f(9), fact mergeable(1), fact mergeable(2), fact choices, fact owner)
qed

text \<open>
  The boundary of the next property: \<open>reduced_motion\<close> and \<open>high_contrast\<close> of a merged account that has no profile row become
  the column's default \<open>0\<close>, so the preference of the source is lost, and neither a conflict shows it nor may a choice name it.
\<close>

lemma preference_lost:
  assumes "column_of source ''reduced_motion'' = JInt 1" and "get_prop resolutions ''profile.reducedMotion'' \<noteq> JStr ''source''"
    and "canonical_json rt (JInt 1) \<noteq> canonical_json rt (JInt 0)"
  shows "(''reduced_motion'', JInt 0) \<in> set (selected_profile rt source None resolutions)"
    and "value_conflict rt key field (column_of source ''reduced_motion'') (column_of None ''reduced_motion'') description = []"
  using assms by (simp_all add: selected_profile_def profile_columns_def column_default_def column_of_def nullish_def select_value_def
      value_present_def value_conflict_def del: canonical_json.simps)

text \<open>
  C19. Nothing is lost in a merge without a choice. When the conflicts shown in the preview are those of the data, the display name,
  the e-mail address and every profile text of the merged account are settled: the one value that is present, or the common
  value, or, of two different values, the one that the resolutions choose explicitly.
\<close>

theorem merge_values_settled:
  assumes "complete_merge rt date_of required now q w (Some c) = Inr (Selected sel)"
    and "mk_source c = Some source" and "mk_survivor c = Some survivor"
    and "mk_conflicts c = build_merge_conflicts rt (sl_snapshot sel) source survivor"
    and "rows_of rt (sl_snapshot sel) ''users'' source = [a]" and "rows_of rt (sl_snapshot sel) ''users'' survivor = [b]"
    and "get_prop a ''id'' = JStr source" and "get_prop b ''id'' = JStr survivor"
  shows "settled rt (mr_resolutions q) ''account.displayName'' (get_prop a ''display_name'') (get_prop b ''display_name'') (sl_name sel)
    \<and> settled rt (mr_resolutions q) ''account.primaryEmail'' (get_prop a ''primary_email'') (get_prop b ''primary_email'') (sl_email sel)
    \<and> (\<forall>(key, field, column, description) \<in> set (take 6 profile_columns). \<exists>v. (column, v) \<in> set (sl_profile sel)
        \<and> settled rt (mr_resolutions q) key (column_of (row_for rt (sl_snapshot sel) ''user_profiles'' source) column)
            (column_of (row_for rt (sl_snapshot sel) ''user_profiles'' survivor) column) v)"
proof -
  let ?s = "sl_snapshot sel"
  obtain p1 p2 where g: "complete_guarded rt date_of required now q w c source survivor p1 p2 = Inr sel"
    using completed_guards [OF assms(1)] assms(2,3) by (metis option.inject)
  have valid: "validate_resolutions (build_merge_conflicts rt ?s source survivor) (mr_resolutions q) = Inr ()"
    using guarded_facts(4) [OF g] assms(4) by simp
  note rows = the_user_row [OF assms(5,7)] the_user_row [OF assms(6,8)]
  note settle = settles [OF valid rows]
  have sel: "sl_name sel = select_value rt ''account.displayName'' (get_prop a ''display_name'') (get_prop b ''display_name'') (mr_resolutions q)"
    "sl_email sel = select_value rt ''account.primaryEmail'' (get_prop a ''primary_email'') (get_prop b ''primary_email'') (mr_resolutions q)"
    "sl_profile sel = selected_profile rt (row_for rt ?s ''user_profiles'' source) (row_for rt ?s ''user_profiles'' survivor) (mr_resolutions q)"
    using select_merge_facts(3,4) [OF guarded_facts(10) [OF g]] assms(5,6) by blast+
  have "\<exists>v. (column, v) \<in> set (sl_profile sel) \<and> settled rt (mr_resolutions q) key (column_of (row_for rt ?s ''user_profiles'' source) column)
      (column_of (row_for rt ?s ''user_profiles'' survivor) column) v"
    if p: "(key, field, column, description) \<in> set (take 6 profile_columns)" for key field column description
  proof -
    let ?u = "column_of (row_for rt ?s ''user_profiles'' source) column" and ?v = "column_of (row_for rt ?s ''user_profiles'' survivor) column"
    have "column_default column = JNull" using p by (auto simp: profile_columns_def column_default_def)
    moreover have m: "(key, field, column, description) \<in> set profile_columns" using p by (rule in_set_takeD)
    ultimately have "(column, select_value rt key (nullish ?u JNull) (nullish ?v JNull) (mr_resolutions q)) \<in> set (sl_profile sel)"
      unfolding sel(3) selected_profile_def by (force simp: image_iff)
    moreover have "get_prop (mr_resolutions q) key \<in> {JStr ''source'', JStr ''survivor''}"
      if "value_present ?u" "value_present ?v" "canonical_json rt ?u \<noteq> canonical_json rt ?v"
    proof -
      note c = conflict_found [OF that]
      obtain f where f: "f \<in> set (value_conflict rt key field ?u ?v description)" "mf_key f = key" using c by blast
      then have "f \<in> set (build_merge_conflicts rt ?s source survivor)"
        using covered(3) [OF m, of rt ?s source survivor a b] set_conflicts [OF rows] by blast
      then show ?thesis using validated_choice [OF valid] f(2) by blast
    qed
    then have "settled rt (mr_resolutions q) key (nullish ?u JNull) (nullish ?v JNull)
        (select_value rt key (nullish ?u JNull) (nullish ?v JNull) (mr_resolutions q))"
      by (intro select_settles) (auto simp: nullish_same)
    ultimately show ?thesis unfolding settled_nullish by blast
  qed
  then show ?thesis using settle [OF covered(1)] settle [OF covered(2)] sel(1,2) by auto
qed

section \<open>The stored snapshot\<close>

text \<open>An entry as the capture and the load build it.\<close>

definition entry_ok :: "runtime \<Rightarrow> merge_entry \<Rightarrow> bool" where
  "entry_ok rt e \<longleftrightarrow> me_table e \<in> set merge_tables \<and> snapshot_entry rt (me_table e) (me_row e) = Inr e"

lemma snapshot_entry_sel: "snapshot_entry rt t row = Inr e \<Longrightarrow> me_table e = t \<and> me_row e = row"
  by (auto simp: snapshot_entry_def bind_result_eq_Inr)

lemma snapshot_entries_facts:
  "snapshot_entries rt t rows = Inr es \<Longrightarrow> map me_row es = rows \<and> (\<forall>e \<in> set es. me_table e = t \<and> snapshot_entry rt t (me_row e) = Inr e)"
proof (induction rows arbitrary: es)
  case (Cons row rows)
  then obtain e fs where e: "snapshot_entry rt t row = Inr e" "snapshot_entries rt t rows = Inr fs" "es = e # fs"
    by (auto simp: bind_result_eq_Inr)
  then show ?case using Cons.IH [OF e(2)] snapshot_entry_sel [OF e(1)] by auto
qed simp

text \<open>How many of the rows belong to each of the two accounts.\<close>

definition owner_counts :: "runtime \<Rightarrow> string \<Rightarrow> string \<Rightarrow> string \<Rightarrow> json list \<Rightarrow> nat \<times> nat" where
  "owner_counts rt source survivor t rows =
     (length (filter (\<lambda>row. row_user rt t row = source) rows), length (filter (\<lambda>row. row_user rt t row = survivor) rows))"

lemma foldl_counts:
  "foldl (\<lambda>c row. count_row source survivor (row_user rt t row) c) (m, n) rows
   = (m + fst (owner_counts rt source survivor t rows), n + snd (owner_counts rt source survivor t rows))"
  by (induction rows arbitrary: m n) (simp_all add: owner_counts_def count_row_def)

definition table_rows :: "string \<Rightarrow> merge_entry list \<Rightarrow> json list" where
  "table_rows t es = map me_row (filter (\<lambda>e. me_table e = t) es)"

lemma table_rows_append [simp]: "table_rows t (es @ fs) = table_rows t es @ table_rows t fs"
  by (simp add: table_rows_def)

lemma table_rows_same: "(\<And>e. e \<in> set es \<Longrightarrow> me_table e = u) \<Longrightarrow> table_rows t es = (if t = u then map me_row es else [])"
  by (auto simp: table_rows_def filter_empty_conv filter_id_conv)

lemma capture_tables_facts:
  assumes "capture_tables rt db source survivor ts = Inr (es, counts)" and "distinct ts"
  shows "(\<forall>e \<in> set es. me_table e \<in> set ts \<and> snapshot_entry rt (me_table e) (me_row e) = Inr e)
    \<and> (\<forall>t \<in> set ts. table_rows t es = db t) \<and> (\<forall>e \<in> set es. me_row e \<in> set (db (me_table e)))
    \<and> counts = map (\<lambda>t. (t, owner_counts rt source survivor t (db t))) ts"
  using assms
proof (induction ts arbitrary: es counts)
  case (Cons t ts)
  obtain fs rest more_counts where r: "snapshot_entries rt t (db t) = Inr fs" "capture_tables rt db source survivor ts = Inr (rest, more_counts)"
    "es = fs @ rest" "counts = (t, owner_counts rt source survivor t (db t)) # more_counts"
    using Cons.prems(1) by (auto simp: bind_result_eq_Inr foldl_counts split: prod.splits)
  note f = snapshot_entries_facts [OF r(1)] and ih = Cons.IH [OF r(2)]
  have u: "table_rows u fs = (if u = t then db t else [])" for u using table_rows_same [of fs t u] f by auto
  have "table_rows t rest = []" using ih Cons.prems(2) by (auto simp: table_rows_def filter_empty_conv)
  moreover have "me_row e \<in> set (db t)" if "e \<in> set fs" for e using f that by (metis imageI list.set_map)
  ultimately show ?case using ih f u r(3,4) Cons.prems(2) by (auto simp: table_rows_def)
qed simp

text \<open>The chunks of a table hold its entries in order.\<close>

definition chunk_entries :: "runtime \<Rightarrow> (string \<Rightarrow> json option) \<Rightarrow> stored_chunk \<Rightarrow> merge_entry list" where
  "chunk_entries rt parse k = (case load_chunk rt parse k of Inr es \<Rightarrow> es | Inl _ \<Rightarrow> [])"

definition chunk_loads :: "runtime \<Rightarrow> (string \<Rightarrow> json option) \<Rightarrow> stored_chunk \<Rightarrow> bool" where
  "chunk_loads rt parse k \<longleftrightarrow> load_chunk rt parse k = Inr (chunk_entries rt parse k)"

lemma chunk_loads_iff: "chunk_loads rt parse k \<longleftrightarrow> (\<exists>es. load_chunk rt parse k = Inr es)"
  by (auto simp: chunk_loads_def chunk_entries_def split: sum.splits)

lemma load_rows_inverse:
  "(\<And>e. e \<in> set es \<Longrightarrow> snapshot_entry rt t (me_row e) = Inr e \<and> is_record (me_row e)) \<Longrightarrow> load_rows rt t (map me_row es) = Inr es"
  by (induction es) auto

lemma load_chunk_inverse:
  assumes "\<And>e. e \<in> set es \<Longrightarrow> entry_ok rt e \<and> me_table e = t \<and> is_record (me_row e)" and "t \<in> set merge_tables"
    and "parse (stringify rt (JArr (map me_row es))) = Some (JArr (map me_row es))"
  shows "load_chunk rt parse (store_chunk rt
    \<lparr>mc_table = t, mc_key = key, mc_rows = map me_row es, mc_digest = digests_text rt (map me_digest es)\<rparr>) = Inr es"
proof -
  have "load_rows rt t (map me_row es) = Inr es" using assms(1) by (intro load_rows_inverse) (auto simp: entry_ok_def)
  then show ?thesis using assms(2,3) by (simp add: load_chunk_def store_chunk_def)
qed

lemma table_chunks_load:
  assumes "\<And>e. e \<in> set es \<Longrightarrow> entry_ok rt e \<and> me_table e = t \<and> is_record (me_row e)"
    and "\<And>k. k \<in> set (table_chunks rt t n es) \<Longrightarrow> parse (stringify rt (JArr (mc_rows k))) = Some (JArr (mc_rows k))"
  shows "(\<forall>k \<in> set (table_chunks rt t n es). chunk_loads rt parse (store_chunk rt k))
    \<and> concat (map (\<lambda>k. chunk_entries rt parse (store_chunk rt k)) (table_chunks rt t n es)) = es"
  using assms
proof (induction rt t n es rule: table_chunks.induct)
  case (1 rt t n es)
  show ?case
  proof (cases "es = []")
    case False
    let ?k = "\<lparr>mc_table = t, mc_key = pad_start 6 (nat_text n), mc_rows = map me_row (take 100 es),
       mc_digest = digests_text rt (map me_digest (take 100 es))\<rparr>"
    have split: "table_chunks rt t n es = ?k # table_chunks rt t (n + 1) (drop 100 es)" using False by (simp add: table_chunks.simps [of rt t n es])
    have t: "t \<in> set merge_tables" using False 1(2) by (metis entry_ok_def list.set_sel(1))
    have "load_chunk rt parse (store_chunk rt ?k) = Inr (take 100 es)"
      using 1(3) [of ?k] unfolding split by (intro load_chunk_inverse) (use 1(2) t in \<open>auto dest: in_set_takeD simp del: stringify.simps\<close>)
    then have head: "chunk_loads rt parse (store_chunk rt ?k)" "chunk_entries rt parse (store_chunk rt ?k) = take 100 es"
      by (simp_all add: chunk_loads_def chunk_entries_def)
    have "(\<forall>k \<in> set (table_chunks rt t (n + 1) (drop 100 es)). chunk_loads rt parse (store_chunk rt k))
      \<and> concat (map (\<lambda>k. chunk_entries rt parse (store_chunk rt k)) (table_chunks rt t (n + 1) (drop 100 es))) = drop 100 es"
      by (rule 1(1) [OF False]) (use 1(2,3) split in \<open>auto dest: in_set_dropD\<close>)
    then show ?thesis using head unfolding split by simp
  next
    case True
    then show ?thesis by (simp add: table_chunks.simps [of rt t n "[]"])
  qed
qed

lemma mset_groups: "distinct ts \<Longrightarrow> mset (concat (map (\<lambda>t. filter (\<lambda>e. g e = t) es) ts)) = filter_mset (\<lambda>e. g e \<in> set ts) (mset es)"
proof (induction ts)
  case (Cons t ts)
  then have "mset (concat (map (\<lambda>t. filter (\<lambda>e. g e = t) es) (t # ts)))
    = filter_mset (\<lambda>e. g e = t) (mset es) + filter_mset (\<lambda>e. g e \<in> set ts) (mset es)" by simp
  also have "\<dots> = filter_mset (\<lambda>e. g e \<in> set (t # ts)) (mset es)"
    using Cons.prems by (intro multiset_eqI) auto
  finally show ?case .
qed simp

lemma mset_concat_cong: "mset xss = mset yss \<Longrightarrow> mset (concat xss) = mset (concat yss)"
proof -
  have e: "mset (concat zss) = \<Sum>\<^sub># (image_mset mset (mset zss))" for zss :: "'a list list" by (induction zss) simp_all
  assume "mset xss = mset yss"
  then show ?thesis unfolding e by simp
qed

lemma chunk_snapshot_load:
  assumes "\<And>e. e \<in> set es \<Longrightarrow> entry_ok rt e \<and> is_record (me_row e)"
    and "\<And>k. k \<in> set (chunk_snapshot rt es) \<Longrightarrow> parse (stringify rt (JArr (mc_rows k))) = Some (JArr (mc_rows k))"
  shows "(\<forall>k \<in> set (map (store_chunk rt) (chunk_snapshot rt es)). chunk_loads rt parse k)
    \<and> mset (concat (map (chunk_entries rt parse) (map (store_chunk rt) (chunk_snapshot rt es)))) = mset es"
proof -
  let ?ts = "js_unique (map me_table es)"
  let ?c = "\<lambda>t. table_chunks rt t 0 (filter (\<lambda>e. me_table e = t) es)"
  have t: "(\<forall>k \<in> set (?c t). chunk_loads rt parse (store_chunk rt k))
      \<and> concat (map (\<lambda>k. chunk_entries rt parse (store_chunk rt k)) (?c t)) = filter (\<lambda>e. me_table e = t) es" if "t \<in> set ?ts" for t
    by (rule table_chunks_load) (use assms that in \<open>auto simp: chunk_snapshot_def\<close>)
  have "concat (map (chunk_entries rt parse) (map (store_chunk rt) (chunk_snapshot rt es)))
      = concat (map (\<lambda>t. concat (map (\<lambda>k. chunk_entries rt parse (store_chunk rt k)) (?c t))) ?ts)"
  proof -
    have "concat (map f (map g (concat (map h ts)))) = concat (map (\<lambda>t. concat (map (\<lambda>k. f (g k)) (h t))) ts)"
      for f :: "stored_chunk \<Rightarrow> merge_entry list" and g :: "merge_chunk \<Rightarrow> stored_chunk" and h :: "string \<Rightarrow> merge_chunk list" and ts
      by (induction ts) (simp_all add: comp_def)
    then show ?thesis unfolding chunk_snapshot_def .
  qed
  also have "\<dots> = concat (map (\<lambda>t. filter (\<lambda>e. me_table e = t) es) ?ts)" using t by (intro arg_cong [where f = concat] map_cong) auto
  finally have "mset (concat (map (chunk_entries rt parse) (map (store_chunk rt) (chunk_snapshot rt es)))) = mset es"
    by (simp add: mset_groups del: mset_concat) (simp add: filter_mset_eq_conv)
  then show ?thesis using t by (auto simp: chunk_snapshot_def)
qed

lemma load_chunks_all:
  "(\<And>k. k \<in> set ks \<Longrightarrow> chunk_loads rt parse k) \<Longrightarrow> load_chunks rt parse ks = Inr (concat (map (chunk_entries rt parse) ks))"
  by (induction ks) (simp_all add: chunk_loads_def)

text \<open>The counts of the loaded entries.\<close>

lemma count_entries_tables:
  "count_entries rt source survivor es = map (\<lambda>t. (t, owner_counts rt source survivor t (table_rows t es))) merge_tables"
proof -
  have "foldl (\<lambda>counts e. map (\<lambda>(t, c). (t, if t = me_table e then count_row source survivor (row_user rt (me_table e) (me_row e)) c else c)) counts)
      (map (\<lambda>t. (t, f t)) ts) es
    = map (\<lambda>t. (t, foldl (\<lambda>c row. count_row source survivor (row_user rt t row) c) (f t) (table_rows t es))) ts" for f ts
    by (induction es arbitrary: f) (simp_all add: table_rows_def comp_def)
  from this [of "\<lambda>_. (0, 0)" merge_tables] show ?thesis by (simp add: count_entries_def foldl_counts)
qed

lemma owner_counts_mset: "mset rows = mset rows' \<Longrightarrow> owner_counts rt source survivor t rows = owner_counts rt source survivor t rows'"
  unfolding owner_counts_def by (metis mset_filter size_mset)

lemma table_rows_mset: "mset es = mset fs \<Longrightarrow> mset (table_rows t es) = mset (table_rows t fs)"
  by (simp add: table_rows_def)

text \<open>
  C20. The stored snapshot reads back. The chunks of a captured snapshot, read back in whatever order the database returns them,
  pass both integrity checks and give the very snapshot again: its entries, its digest and its counts.
\<close>

theorem stored_snapshot_reads_back:
  assumes "comparator (collate rt)" and "capture_snapshot rt db source survivor = Inr s"
    and "\<And>t row. row \<in> set (db t) \<Longrightarrow> is_record row"
    and "\<And>x y. x \<in> set (ms_entries s) \<Longrightarrow> y \<in> set (ms_entries s) \<Longrightarrow> entry_order rt x y = 0 \<Longrightarrow> x = y"
    and "\<And>k. k \<in> set (chunk_snapshot rt (ms_entries s)) \<Longrightarrow> parse (stringify rt (JArr (mc_rows k))) = Some (JArr (mc_rows k))"
    and "mset ks = mset (map (store_chunk rt) (chunk_snapshot rt (ms_entries s)))"
    and "mk_source c = Some source" and "source \<noteq> []" and "mk_survivor c = Some survivor" and "survivor \<noteq> []"
    and "mk_snapshot_digest c = Some (ms_digest s)"
  shows "load_snapshot rt parse c ks = Inr s"
proof -
  obtain es counts where t: "capture_tables rt db source survivor merge_tables = Inr (es, counts)"
    and s: "s = \<lparr>ms_entries = js_sort (entry_order rt) es, ms_digest = snapshot_digest rt (js_sort (entry_order rt) es), ms_counts = counts\<rparr>"
    using assms(2) by (auto simp: capture_snapshot_def bind_result_eq_Inr Let_def split: prod.splits)
  have f: "e \<in> set es \<Longrightarrow> entry_ok rt e \<and> is_record (me_row e)" "t \<in> set merge_tables \<Longrightarrow> table_rows t es = db t"
    "counts = map (\<lambda>t. (t, owner_counts rt source survivor t (db t))) merge_tables" for e t
    using capture_tables_facts [OF t] assms(3) by (auto simp: merge_tables_def entry_ok_def)
  have set: "set (ms_entries s) = set es" "mset (ms_entries s) = mset es" using s by simp_all
  note loads = chunk_snapshot_load [of "ms_entries s" rt parse, OF _ assms(5)]
  let ?fs = "concat (map (chunk_entries rt parse) ks)"
  have ks: "set ks = set (map (store_chunk rt) (chunk_snapshot rt (ms_entries s)))" using assms(6) by (metis set_mset_mset)
  have "load_chunks rt parse ks = Inr ?fs" by (rule load_chunks_all) (use loads f(1) set ks in auto)
  moreover have m: "mset ?fs = mset es"
  proof -
    have "image_mset (chunk_entries rt parse) (mset ks)
        = mset (map (chunk_entries rt parse) (map (store_chunk rt) (chunk_snapshot rt (ms_entries s))))"
      unfolding assms(6) by (rule mset_map [symmetric])
    then have "mset ?fs = mset (concat (map (chunk_entries rt parse) (map (store_chunk rt) (chunk_snapshot rt (ms_entries s)))))"
      by (intro mset_concat_cong) (simp only: mset_map)
    also have "\<dots> = mset es" using loads f(1) set by simp
    finally show ?thesis .
  qed
  moreover have sorted: "js_sort (entry_order rt) ?fs = js_sort (entry_order rt) es"
  proof (rule comparator.sort_permutation [OF _ m])
    show "comparator (entry_order rt)" unfolding entry_order_def by (rule comparator_on [OF assms(1)])
    show "x = y" if "x \<in> set ?fs" "y \<in> set ?fs" "entry_order rt x y = 0" for x y
      using assms(4) that set(1) m by (metis set_mset_mset)
  qed
  moreover have "count_entries rt source survivor (js_sort (entry_order rt) es) = counts"
    unfolding count_entries_tables f(3) using f(2) by (auto intro!: owner_counts_mset simp: table_rows_mset [of "js_sort (entry_order rt) es" es])
  moreover have "given (mk_source c) = Some source" "given (mk_survivor c) = Some survivor"
    using assms(7-10) by (simp_all add: given_def split: list.splits)
  ultimately show ?thesis using assms(11) s by (simp add: load_snapshot_def Let_def)
qed

end
