(* ===== verification/Learning_Projection.thy ===== *)
theory Learning_Projection
  imports Learning_Events Js_Number
begin

text \<open>
  \<open>projectLearningEvents\<close> of \<open>src/learning-event-engine.ts\<close>: the events of one learner are put in
  sequence order, checked and folded into enrolments, module states and assessment attempts;
  the transcript and the badges are derived from these. A throw is a value of
  \<open>engine_error\<close>; the messages are the code's.
\<close>

section \<open>Errors of the engine\<close>

datatype engine_code =
    InvalidCommand | InvalidEvent | AccessDenied | IdempotencyConflict | DuplicateAttemptId
  | DuplicateCorrectionId | ProjectionConflict | ConcurrencyConflict | ClockInvalid
  | AdapterUnsupported

datatype engine_error = EngineError engine_code string | Crash js_exn

section \<open>The projections\<close>

record enrollment =
  en_path :: string
  en_title :: string
  en_content :: string
  en_modules :: "string list"
  en_badge :: badge_definition
  en_at :: string

datatype module_status = Visited | Completed

record module_state =
  mo_path :: string
  mo_module :: string
  mo_content :: string
  mo_status :: module_status
  mo_first :: "string option"
  mo_completed :: "string option"
  mo_evidence :: "string list"

record correction =
  co_id :: string
  co_version :: string
  co_score :: int
  co_passed :: bool
  co_reason :: string
  co_at :: string
  co_actor_type :: actor_kind
  co_actor_user :: "string option"

record attempt_state =
  aj_id :: string
  aj_path :: string
  aj_module :: string
  aj_content :: string
  aj_version :: string
  aj_answers :: "(string \<times> int option) list"
  aj_original_score :: int
  aj_original_passed :: bool
  aj_effective_score :: int
  aj_effective_passed :: bool
  aj_completed :: string
  aj_corrections :: "correction list"

record transcript_entry =
  tr_path :: string
  tr_title :: string
  tr_content :: string
  tr_completed :: nat
  tr_total :: nat
  tr_percent :: jsnum
  tr_best :: "int option"

record projected_badge = badge_definition +
  bp_path :: string
  bp_content :: string
  bp_earned :: string
  bp_evidence :: "string list"

record learning_projection =
  pj_installation :: string
  pj_learner :: string
  pj_revision :: nat
  pj_last_sequence :: int
  pj_enrollments :: "enrollment list"
  pj_modules :: "module_state list"
  pj_attempts :: "attempt_state list"
  pj_transcript :: "transcript_entry list"
  pj_badges :: "projected_badge list"
  pj_snapshot :: "learner_progress option"
  pj_snapshot_sequence :: int
  pj_synchronized :: "string option"

text \<open>The local variables of the loop.\<close>

record fold_state =
  fs_enrollments :: "(string \<times> enrollment) list"
  fs_modules :: "(string \<times> module_state) list"
  fs_attempts :: "(string \<times> attempt_state) list"
  fs_corrections :: "string list"
  fs_snapshot :: "learner_progress option"
  fs_snapshot_sequence :: int
  fs_synchronized :: "string option"
  fs_last :: int

definition empty_fold :: fold_state where
  "empty_fold = \<lparr>fs_enrollments = [], fs_modules = [], fs_attempts = [], fs_corrections = [],
     fs_snapshot = None, fs_snapshot_sequence = 0, fs_synchronized = None, fs_last = 0\<rparr>"

section \<open>Keys\<close>

definition versioned_path_key :: "string \<Rightarrow> string \<Rightarrow> string" where
  "versioned_path_key p v = p @ nul # v"

definition versioned_module_key :: "string \<Rightarrow> string \<Rightarrow> string \<Rightarrow> string" where
  "versioned_module_key p m v = p @ nul # m @ nul # v"

section \<open>One event\<close>

definition enrollment_json :: "enrollment \<Rightarrow> json" where
  "enrollment_json e = JObj [(''pathId'', JStr (en_path e)), (''pathTitle'', JStr (en_title e)),
     (''contentVersion'', JStr (en_content e)), (''moduleIds'', JStrs (en_modules e)),
     (''badge'', badge_definition_json (en_badge e)), (''enrolledAt'', JStr (en_at e))]"

definition event_enrollment :: "learning_event \<Rightarrow> path_payload \<Rightarrow> enrollment" where
  "event_enrollment e p = \<lparr>en_path = pp_path p, en_title = pp_title p, en_content = e_content e,
     en_modules = pp_modules p, en_badge = pp_badge p, en_at = e_occurred e\<rparr>"

definition apply_enrollment ::
    "runtime \<Rightarrow> learning_event \<Rightarrow> path_payload \<Rightarrow> fold_state \<Rightarrow> (engine_error, fold_state) result" where
  "apply_enrollment rt e p s =
     (let key = versioned_path_key (pp_path p) (e_content e);
          projection = event_enrollment e p
      in case map_of (fs_enrollments s) key of
           Some existing \<Rightarrow>
             if stable_json rt (enrollment_json existing) \<noteq> stable_json rt (enrollment_json projection)
             then Inl (EngineError ProjectionConflict (''Path '' @ pp_path p
               @ '' was redefined within content version '' @ e_content e @ ''.''))
             else Inr s
         | None \<Rightarrow> Inr (s\<lparr>fs_enrollments := map_set key projection (fs_enrollments s)\<rparr>))"

definition require_enrolled_module ::
    "learning_event \<Rightarrow> string \<Rightarrow> string \<Rightarrow> fold_state \<Rightarrow> (engine_error, unit) result" where
  "require_enrolled_module e path mod_id s =
     (case map_of (fs_enrollments s) (versioned_path_key path (e_content e)) of
        Some en \<Rightarrow> if mod_id \<in> set (en_modules en) then Inr ()
          else Inl (EngineError ProjectionConflict (''Module '' @ mod_id @ '' is not enrolled in path ''
            @ path @ '' for content version '' @ e_content e @ ''.''))
      | None \<Rightarrow> Inl (EngineError ProjectionConflict (''Module '' @ mod_id
            @ '' is not enrolled in path '' @ path @ '' for content version '' @ e_content e @ ''.'')))"

text \<open>\<open>existing === null || at.localeCompare(existing) < 0\<close>: the earlier of two texts is kept.\<close>

definition earlier :: "runtime \<Rightarrow> string \<Rightarrow> string option \<Rightarrow> bool" where
  "earlier rt t existing = (case existing of None \<Rightarrow> True | Some x \<Rightarrow> collate rt t x < 0)"

definition apply_module_visit ::
    "runtime \<Rightarrow> learning_event \<Rightarrow> module_payload \<Rightarrow> fold_state \<Rightarrow> fold_state" where
  "apply_module_visit rt e p s =
     (let key = versioned_module_key (mp_path p) (mp_module p) (e_content e)
      in case map_of (fs_modules s) key of
           None \<Rightarrow> s\<lparr>fs_modules := map_set key
             \<lparr>mo_path = mp_path p, mo_module = mp_module p, mo_content = e_content e,
              mo_status = Visited, mo_first = Some (e_occurred e), mo_completed = None,
              mo_evidence = []\<rparr> (fs_modules s)\<rparr>
         | Some existing \<Rightarrow>
             if earlier rt (e_occurred e) (mo_first existing)
             then s\<lparr>fs_modules := map_set key (existing\<lparr>mo_first := Some (e_occurred e)\<rparr>)
               (fs_modules s)\<rparr>
             else s)"

definition event_attempt :: "learning_event \<Rightarrow> assessment_payload \<Rightarrow> attempt_state" where
  "event_attempt e p = \<lparr>aj_id = ap_attempt p, aj_path = ap_path p, aj_module = ap_module p,
     aj_content = e_content e, aj_version = ap_version p, aj_answers = ap_answers p,
     aj_original_score = ap_score p, aj_original_passed = ap_passed p,
     aj_effective_score = ap_score p, aj_effective_passed = ap_passed p,
     aj_completed = e_occurred e, aj_corrections = []\<rparr>"

definition apply_assessment ::
    "learning_event \<Rightarrow> assessment_payload \<Rightarrow> fold_state \<Rightarrow> (engine_error, fold_state) result" where
  "apply_assessment e p s =
     (if map_of (fs_attempts s) (ap_attempt p) \<noteq> None
      then Inl (EngineError DuplicateAttemptId (''Duplicate assessment attempt ID: '' @ ap_attempt p))
      else Inr (s\<lparr>fs_attempts := map_set (ap_attempt p) (event_attempt e p) (fs_attempts s)\<rparr>))"

definition new_module :: "learning_event \<Rightarrow> completion_payload \<Rightarrow> module_state" where
  "new_module e p = \<lparr>mo_path = cp_path p, mo_module = cp_module p, mo_content = e_content e,
     mo_status = Visited, mo_first = None, mo_completed = None, mo_evidence = []\<rparr>"

definition complete_module ::
    "runtime \<Rightarrow> learning_event \<Rightarrow> completion_payload \<Rightarrow> module_state \<Rightarrow> module_state" where
  "complete_module rt e p m = m\<lparr>mo_status := Completed,
     mo_completed := (if earlier rt (e_occurred e) (mo_completed m) then Some (e_occurred e)
       else mo_completed m),
     mo_evidence := js_sort unit_cmp (js_unique (mo_evidence m @ cp_evidence p))\<rparr>"

definition apply_completion ::
    "runtime \<Rightarrow> learning_event \<Rightarrow> completion_payload \<Rightarrow> fold_state \<Rightarrow> fold_state" where
  "apply_completion rt e p s =
     (let key = versioned_module_key (cp_path p) (cp_module p) (e_content e);
          existing = (case map_of (fs_modules s) key of Some m \<Rightarrow> m | None \<Rightarrow> new_module e p)
      in s\<lparr>fs_modules := map_set key (complete_module rt e p existing) (fs_modules s)\<rparr>)"

definition event_correction :: "learning_event \<Rightarrow> correction_payload \<Rightarrow> correction" where
  "event_correction e p = \<lparr>co_id = xp_correction p, co_version = xp_version p, co_score = xp_score p,
     co_passed = xp_passed p, co_reason = xp_reason p, co_at = e_occurred e,
     co_actor_type = actor_type (e_actor e), co_actor_user = actor_user (e_actor e)\<rparr>"

definition correct_attempt :: "correction \<Rightarrow> attempt_state \<Rightarrow> attempt_state" where
  "correct_attempt c a = a\<lparr>aj_corrections := aj_corrections a @ [c],
     aj_effective_score := co_score c, aj_effective_passed := co_passed c\<rparr>"

definition apply_correction ::
    "learning_event \<Rightarrow> correction_payload \<Rightarrow> fold_state \<Rightarrow> (engine_error, fold_state) result" where
  "apply_correction e p s =
     (case map_of (fs_attempts s) (xp_attempt p) of
        None \<Rightarrow> Inl (EngineError ProjectionConflict
          (''Correction references missing attempt: '' @ xp_attempt p))
      | Some a \<Rightarrow>
          if xp_correction p \<in> set (fs_corrections s)
          then Inl (EngineError DuplicateCorrectionId
            (''Duplicate assessment correction ID: '' @ xp_correction p))
          else if e_content e \<noteq> aj_content a \<or> xp_version p \<noteq> aj_version a
          then Inl (EngineError ProjectionConflict
            ''A correction must use the original content and assessment versions.'')
          else Inr (s\<lparr>fs_corrections := fs_corrections s @ [xp_correction p],
            fs_attempts := map_set (xp_attempt p) (correct_attempt (event_correction e p) a)
              (fs_attempts s)\<rparr>))"

fun apply_event :: "runtime \<Rightarrow> learning_event \<Rightarrow> learning_payload \<Rightarrow> fold_state
    \<Rightarrow> (engine_error, fold_state) result" where
  "apply_event rt e (PathEnroll p) s = apply_enrollment rt e p s"
| "apply_event rt e (ModuleVisit p) s =
     bind_result (require_enrolled_module e (mp_path p) (mp_module p) s)
       (\<lambda>_. Inr (apply_module_visit rt e p s))"
| "apply_event rt e (AssessmentRecord p) s =
     bind_result (require_enrolled_module e (ap_path p) (ap_module p) s)
       (\<lambda>_. apply_assessment e p s)"
| "apply_event rt e (ModuleComplete p) s =
     bind_result (require_enrolled_module e (cp_path p) (cp_module p) s)
       (\<lambda>_. Inr (apply_completion rt e p s))"
| "apply_event rt e (AssessmentCorrect p) s = apply_correction e p s"
| "apply_event rt e (ProgressImport p) s = Inr s"

text \<open>The message of a failed validation: \<open>errors.join("; ")\<close>.\<close>

definition reject_invalid :: "engine_code \<Rightarrow> check \<Rightarrow> (engine_error, unit) result" where
  "reject_invalid code v = (case v of
     Inl x \<Rightarrow> Inl (Crash x)
   | Inr [] \<Rightarrow> Inr ()
   | Inr es \<Rightarrow> Inl (EngineError code (join_text ''; '' es)))"

text \<open>An import discards what was folded so far and becomes the snapshot.\<close>

definition apply_import :: "learning_event \<Rightarrow> import_payload \<Rightarrow> fold_state \<Rightarrow> fold_state" where
  "apply_import e p s = s\<lparr>fs_enrollments := [], fs_modules := [], fs_attempts := [],
     fs_corrections := [], fs_snapshot := Some (ip_progress p),
     fs_snapshot_sequence := e_sequence e, fs_synchronized := Some (ip_synchronized_at p)\<rparr>"

text \<open>The body of the loop.\<close>

definition project_event :: "runtime \<Rightarrow> string \<Rightarrow> string \<Rightarrow> fold_state \<Rightarrow> learning_event
    \<Rightarrow> (engine_error, fold_state) result" where
  "project_event rt installation learner s e =
     bind_result (reject_invalid InvalidEvent (validate_learning_event rt (event_json e))) (\<lambda>_.
     if e_installation e \<noteq> installation \<or> e_learner e \<noteq> learner
     then Inl (EngineError ProjectionConflict
       ''An event crossed the requested installation or learner boundary.'')
     else if e_sequence e \<le> fs_last s
     then Inl (EngineError ProjectionConflict ''Learning event sequence must increase monotonically.'')
     else let s = s\<lparr>fs_last := e_sequence e\<rparr> in
       (case e_payload e of
          ProgressImport p \<Rightarrow> Inr (apply_import e p s)
        | p \<Rightarrow> apply_event rt e p s))"

section \<open>Transcript and badges\<close>

definition completed_in :: "enrollment \<Rightarrow> module_state \<Rightarrow> bool" where
  "completed_in en m \<longleftrightarrow> mo_path m = en_path en \<and> mo_content m = en_content en
     \<and> mo_status m = Completed \<and> mo_module m \<in> set (en_modules en)"

definition build_transcript_entry ::
    "enrollment \<Rightarrow> module_state list \<Rightarrow> attempt_state list \<Rightarrow> transcript_entry" where
  "build_transcript_entry en ms as =
     (let completed = length (filter (completed_in en) ms);
          path_attempts = filter (\<lambda>a. aj_path a = en_path en \<and> aj_content a = en_content en) as
      in \<lparr>tr_path = en_path en, tr_title = en_title en, tr_content = en_content en,
          tr_completed = completed, tr_total = length (en_modules en),
          tr_percent = js_percent completed (length (en_modules en)),
          tr_best = (case map aj_effective_score path_attempts of [] \<Rightarrow> None
            | x # xs \<Rightarrow> Some (foldl max x xs))\<rparr>)"

definition find_completed :: "enrollment \<Rightarrow> module_state list \<Rightarrow> string \<Rightarrow> module_state option" where
  "find_completed en ms m = find (\<lambda>x. mo_path x = en_path en \<and> mo_module x = m
     \<and> mo_content x = en_content en \<and> mo_status x = Completed) ms"

text \<open>\<open>xs.sort().at(-1)\<close>, and the truthiness test that follows it.\<close>

definition latest_text :: "string list \<Rightarrow> string option" where
  "latest_text xs = (case js_sort unit_cmp xs of [] \<Rightarrow> None
     | ys \<Rightarrow> if last ys = [] then None else Some (last ys))"

definition derive_badge :: "enrollment \<Rightarrow> module_state list \<Rightarrow> projected_badge option" where
  "derive_badge en ms =
     (let completed = List.map_filter (find_completed en ms) (en_modules en)
      in if length completed \<noteq> length (en_modules en) then None
         else map_option (\<lambda>earned. badge_definition.extend (en_badge en)
             \<lparr>bp_path = en_path en, bp_content = en_content en, bp_earned = earned,
              bp_evidence = en_modules en\<rparr>)
           (latest_text (List.map_filter mo_completed completed)))"

section \<open>The projection\<close>

definition compare_events :: "runtime \<Rightarrow> learning_event \<Rightarrow> learning_event \<Rightarrow> int" where
  "compare_events rt a b = or_else (e_sequence a - e_sequence b) (collate rt (e_id a) (e_id b))"

definition compare_enrollment :: "runtime \<Rightarrow> enrollment \<Rightarrow> enrollment \<Rightarrow> int" where
  "compare_enrollment rt a b = or_else (collate rt (en_path a) (en_path b))
     (collate rt (en_content a) (en_content b))"

definition compare_module :: "runtime \<Rightarrow> module_state \<Rightarrow> module_state \<Rightarrow> int" where
  "compare_module rt a b = or_else (collate rt (mo_path a) (mo_path b))
     (or_else (collate rt (mo_module a) (mo_module b)) (collate rt (mo_content a) (mo_content b)))"

definition compare_attempt :: "runtime \<Rightarrow> attempt_state \<Rightarrow> attempt_state \<Rightarrow> int" where
  "compare_attempt rt a b = or_else (collate rt (aj_completed a) (aj_completed b))
     (collate rt (aj_id a) (aj_id b))"

definition finish_projection :: "runtime \<Rightarrow> string \<Rightarrow> string \<Rightarrow> nat \<Rightarrow> fold_state \<Rightarrow> learning_projection" where
  "finish_projection rt installation learner revision s =
     (let ens = js_sort (compare_enrollment rt) (map snd (fs_enrollments s));
          ms = js_sort (compare_module rt) (map snd (fs_modules s));
          as = js_sort (compare_attempt rt) (map snd (fs_attempts s))
      in \<lparr>pj_installation = installation, pj_learner = learner, pj_revision = revision,
          pj_last_sequence = fs_last s, pj_enrollments = ens, pj_modules = ms, pj_attempts = as,
          pj_transcript = map (\<lambda>en. build_transcript_entry en ms as) ens,
          pj_badges = js_sort (\<lambda>a b. collate rt (bp_earned a) (bp_earned b))
            (List.map_filter (\<lambda>en. derive_badge en ms) ens),
          pj_snapshot = fs_snapshot s, pj_snapshot_sequence = fs_snapshot_sequence s,
          pj_synchronized = fs_synchronized s\<rparr>)"

definition project_learning_events :: "runtime \<Rightarrow> learning_event list \<Rightarrow> string \<Rightarrow> string
    \<Rightarrow> (engine_error, learning_projection) result" where
  "project_learning_events rt events installation learner =
     bind_result (fold_result (project_event rt installation learner) empty_fold
         (js_sort (compare_events rt) events))
       (\<lambda>s. Inr (finish_projection rt installation learner (length events) s))"

end
