(* ===== verification/Projection_Laws.thy ===== *)
theory Projection_Laws
  imports Learning_Projection
begin

text \<open>
  What the loop of \<open>projectLearningEvents\<close> computes, stated on the stream alone: the events since
  the last import, which of them enrol, visit, complete, record and correct, and the invariant
  that relates the loop's variables to them. The theorems about the projection follow from it.
\<close>

section \<open>Errors of a validation\<close>

lemma reject_invalid_ok: "reject_invalid code v = Inr () \<longleftrightarrow> v = Inr []"
  by (auto simp: reject_invalid_def split: sum.splits list.splits)

lemma reject_event_ok [simp]:
  "reject_invalid code (validate_learning_event rt (event_json e)) = Inr () \<longleftrightarrow> wf_event e"
  by (simp add: reject_invalid_ok validate_learning_event_ok)

section \<open>Keys are injective\<close>

lemma append_nul_inj:
  "nul \<notin> set a \<Longrightarrow> nul \<notin> set b \<Longrightarrow> a @ nul # x = b @ nul # y \<longleftrightarrow> a = b \<and> x = y"
proof (induction a arbitrary: b)
  case Nil
  then show ?case by (cases b) auto
next
  case (Cons c a)
  then show ?case by (cases b) auto
qed

lemma stable_id_not_nul: "stable_id s \<Longrightarrow> nul \<notin> set s"
  by (auto simp: stable_id_def list_all_iff id_char_def alnum_char_def digit_char_def nul_def
      split: list.splits)

lemma version_id_not_nul: "version_id s \<Longrightarrow> nul \<notin> set s"
  by (auto simp: version_id_def version_char_def list_all_iff alnum_char_def digit_char_def nul_def
      split: list.splits)

lemma path_key_inj:
  "nul \<notin> set p \<Longrightarrow> nul \<notin> set p' \<Longrightarrow>
   versioned_path_key p v = versioned_path_key p' v' \<longleftrightarrow> p = p' \<and> v = v'"
  by (simp add: versioned_path_key_def append_nul_inj)

lemma module_key_inj:
  "nul \<notin> set p \<Longrightarrow> nul \<notin> set p' \<Longrightarrow> nul \<notin> set m \<Longrightarrow> nul \<notin> set m' \<Longrightarrow>
   versioned_module_key p m v = versioned_module_key p' m' v' \<longleftrightarrow> p = p' \<and> m = m' \<and> v = v'"
  by (simp add: versioned_module_key_def append_nul_inj)

section \<open>What the projection means\<close>

text \<open>
  An abstract reading of the loop, on the list of events folded so far: only the events since
  the last import count for enrolments, modules and attempts.
\<close>

definition since_import :: "learning_event list \<Rightarrow> learning_event list" where
  "since_import es = rev (takeWhile (\<lambda>e. \<not> is_import (e_payload e)) (rev es))"

lemma since_import_simps [simp]:
  "since_import [] = []"
  "since_import (es @ [e]) = (if is_import (e_payload e) then [] else since_import es @ [e])"
  by (simp_all add: since_import_def)

lemma since_import_subset: "e \<in> set (since_import es) \<Longrightarrow> e \<in> set es \<and> \<not> is_import (e_payload e)"
  by (auto simp: since_import_def dest: set_takeWhileD)

definition enrolls :: "learning_event \<Rightarrow> string \<Rightarrow> string \<Rightarrow> bool" where
  "enrolls e path content \<longleftrightarrow> e_content e = content \<and>
     (case e_payload e of PathEnroll p \<Rightarrow> pp_path p = path | _ \<Rightarrow> False)"

definition completes :: "learning_event \<Rightarrow> string \<Rightarrow> string \<Rightarrow> string \<Rightarrow> bool" where
  "completes e path mod_id content \<longleftrightarrow> e_content e = content \<and>
     (case e_payload e of ModuleComplete p \<Rightarrow> cp_path p = path \<and> cp_module p = mod_id | _ \<Rightarrow> False)"

definition visits :: "learning_event \<Rightarrow> string \<Rightarrow> string \<Rightarrow> string \<Rightarrow> bool" where
  "visits e path mod_id content \<longleftrightarrow> e_content e = content \<and>
     (case e_payload e of ModuleVisit p \<Rightarrow> mp_path p = path \<and> mp_module p = mod_id | _ \<Rightarrow> False)"

fun evidence_of :: "learning_payload \<Rightarrow> string list" where
  "evidence_of (ModuleComplete p) = cp_evidence p"
| "evidence_of _ = []"

text \<open>The corrections of one attempt, in the order of the stream.\<close>

fun correction_of :: "string \<Rightarrow> learning_event \<Rightarrow> correction list" where
  "correction_of k e = (case e_payload e of
     AssessmentCorrect q \<Rightarrow> if xp_attempt q = k then [event_correction e q] else [] | _ \<Rightarrow> [])"

definition corrections_of :: "learning_event list \<Rightarrow> string \<Rightarrow> correction list" where
  "corrections_of es k = concat (map (correction_of k) es)"

declare correction_of.simps [simp del]

lemma corrections_of_simps [simp]:
  "corrections_of [] k = []"
  "corrections_of (es @ [e]) k = corrections_of es k @ correction_of k e"
  by (simp_all add: corrections_of_def)

fun correction_ids :: "learning_event \<Rightarrow> string list" where
  "correction_ids e = (case e_payload e of AssessmentCorrect q \<Rightarrow> [xp_correction q] | _ \<Rightarrow> [])"

declare correction_ids.simps [simp del]

definition records_attempt :: "learning_event \<Rightarrow> string \<Rightarrow> bool" where
  "records_attempt e k \<longleftrightarrow> (case e_payload e of AssessmentRecord p \<Rightarrow> ap_attempt p = k | _ \<Rightarrow> False)"

definition attempt_view :: "learning_event list \<Rightarrow> string \<Rightarrow> attempt_state \<Rightarrow> bool" where
  "attempt_view es k a \<longleftrightarrow> (\<exists>e p. find (\<lambda>e. records_attempt e k) es = Some e
     \<and> e_payload e = AssessmentRecord p
     \<and> a = foldl (\<lambda>a c. correct_attempt c a) (event_attempt e p) (corrections_of es k))"

abbreviation completions :: "learning_event list \<Rightarrow> module_state \<Rightarrow> learning_event list" where
  "completions es m \<equiv> filter (\<lambda>e. completes e (mo_path m) (mo_module m) (mo_content m)) es"

abbreviation module_visits :: "learning_event list \<Rightarrow> module_state \<Rightarrow> learning_event list" where
  "module_visits es m \<equiv> filter (\<lambda>e. visits e (mo_path m) (mo_module m) (mo_content m)) es"

definition module_view :: "learning_event list \<Rightarrow> string \<Rightarrow> module_state \<Rightarrow> bool" where
  "module_view es k m \<longleftrightarrow> k = versioned_module_key (mo_path m) (mo_module m) (mo_content m)
     \<and> stable_id (mo_path m) \<and> stable_id (mo_module m)
     \<and> (completions es m \<noteq> [] \<or> module_visits es m \<noteq> [])
     \<and> (mo_status m = Completed \<longleftrightarrow> completions es m \<noteq> [])
     \<and> (case mo_completed m of None \<Rightarrow> completions es m = []
        | Some t \<Rightarrow> t \<in> e_occurred ` set (completions es m))
     \<and> (case mo_first m of None \<Rightarrow> module_visits es m = []
        | Some t \<Rightarrow> t \<in> e_occurred ` set (module_visits es m))
     \<and> set (mo_evidence m) = set (concat (map (evidence_of \<circ> e_payload) (completions es m)))
     \<and> distinct (mo_evidence m)"

text \<open>The first enrolment in a path and content version decides the modules.\<close>

definition enrollment_view :: "learning_event list \<Rightarrow> string \<Rightarrow> enrollment \<Rightarrow> bool" where
  "enrollment_view es k en \<longleftrightarrow> k = versioned_path_key (en_path en) (en_content en)
     \<and> stable_id (en_path en)
     \<and> (\<exists>e p. find (\<lambda>e. enrolls e (en_path en) (en_content en)) es = Some e
          \<and> e_payload e = PathEnroll p \<and> en = event_enrollment e p)"

lemma find_snoc: "find P (xs @ [x]) = (case find P xs of None \<Rightarrow> if P x then Some x else None
     | Some y \<Rightarrow> Some y)"
  by (induction xs) auto

section \<open>The invariant of the loop\<close>

definition has_key :: "('k \<times> 'v) list \<Rightarrow> 'k \<Rightarrow> bool" where
  "has_key m k \<longleftrightarrow> map_of m k \<noteq> None"

lemma has_key_map_set [simp]: "has_key (map_set k v m) k' \<longleftrightarrow> k' = k \<or> has_key m k'"
  by (simp add: has_key_def)

lemma has_key_Nil [simp]: "\<not> has_key [] k"
  by (simp add: has_key_def)

lemma not_has_key: "\<not> has_key m k \<longleftrightarrow> map_of m k = None"
  by (simp add: has_key_def)

definition enrolled_in :: "fold_state \<Rightarrow> string \<Rightarrow> string \<Rightarrow> string \<Rightarrow> bool" where
  "enrolled_in s path content mod_id \<longleftrightarrow> (\<exists>en. map_of (fs_enrollments s)
     (versioned_path_key path content) = Some en \<and> mod_id \<in> set (en_modules en))"

definition enrollment_inv :: "learning_event list \<Rightarrow> fold_state \<Rightarrow> bool" where
  "enrollment_inv es s \<longleftrightarrow> distinct (map fst (fs_enrollments s))
     \<and> (\<forall>k en. map_of (fs_enrollments s) k = Some en \<longrightarrow> enrollment_view es k en)
     \<and> (\<forall>e \<in> set es. \<forall>p. e_payload e = PathEnroll p \<longrightarrow>
          has_key (fs_enrollments s) (versioned_path_key (pp_path p) (e_content e)))"

definition module_inv :: "learning_event list \<Rightarrow> fold_state \<Rightarrow> bool" where
  "module_inv es s \<longleftrightarrow> distinct (map fst (fs_modules s))
     \<and> (\<forall>k m. map_of (fs_modules s) k = Some m \<longrightarrow> module_view es k m
          \<and> enrolled_in s (mo_path m) (mo_content m) (mo_module m))
     \<and> (\<forall>e \<in> set es. \<forall>p m c. visits e p m c \<or> completes e p m c \<longrightarrow>
          has_key (fs_modules s) (versioned_module_key p m c))"

definition attempt_inv :: "learning_event list \<Rightarrow> fold_state \<Rightarrow> bool" where
  "attempt_inv es s \<longleftrightarrow> distinct (map fst (fs_attempts s))
     \<and> (\<forall>k a. map_of (fs_attempts s) k = Some a \<longrightarrow> attempt_view es k a
          \<and> enrolled_in s (aj_path a) (aj_content a) (aj_module a))
     \<and> (\<forall>e \<in> set es. \<forall>k. records_attempt e k \<or> correction_of k e \<noteq> [] \<longrightarrow>
          has_key (fs_attempts s) k)
     \<and> fs_corrections s = concat (map correction_ids es) \<and> distinct (concat (map correction_ids es))"

definition fold_inv :: "learning_event list \<Rightarrow> fold_state \<Rightarrow> bool" where
  "fold_inv es s \<longleftrightarrow> (\<forall>e \<in> set es. wf_event e) \<and> enrollment_inv es s \<and> module_inv es s
     \<and> attempt_inv es s"

lemmas inv_defs = fold_inv_def enrollment_inv_def module_inv_def attempt_inv_def

lemma fold_inv_start: "fs_enrollments s = [] \<Longrightarrow> fs_modules s = [] \<Longrightarrow> fs_attempts s = []
   \<Longrightarrow> fs_corrections s = [] \<Longrightarrow> fold_inv [] s"
  by (simp add: inv_defs)

lemma enrollment_view_snoc: "enrollment_view es k en \<Longrightarrow> enrollment_view (es @ [e]) k en"
  by (auto simp: enrollment_view_def find_snoc)

lemma enrollment_inv_other:
  assumes "enrollment_inv es s" and "fs_enrollments s' = fs_enrollments s"
    and "\<And>p. e_payload e \<noteq> PathEnroll p"
  shows "enrollment_inv (es @ [e]) s'"
  using assms by (fastforce simp: enrollment_inv_def intro: enrollment_view_snoc)

lemma enrollment_inv_step:
  assumes ok: "apply_enrollment rt e p s = Inr s'" and pay: "e_payload e = PathEnroll p"
    and wf: "wf_event e" and inv: "enrollment_inv es s"
  shows "enrollment_inv (es @ [e]) s'"
proof -
  let ?k = "versioned_path_key (pp_path p) (e_content e)"
  show ?thesis
  proof (cases "map_of (fs_enrollments s) ?k")
    case (Some en)
    then have "s' = s" using ok by (auto simp: apply_enrollment_def Let_def split: if_splits)
    moreover have "has_key (fs_enrollments s) ?k" using Some by (simp add: has_key_def)
    ultimately show ?thesis
      using inv pay enrollment_view_snoc by (auto simp: enrollment_inv_def)
  next
    case None
    then have s': "s' = s\<lparr>fs_enrollments := map_set ?k (event_enrollment e p) (fs_enrollments s)\<rparr>"
      using ok by (simp add: apply_enrollment_def Let_def)
    have "\<not> enrolls e' (pp_path p) (e_content e)" if "e' \<in> set es" for e'
      using inv that None
      by (auto simp: enrollment_inv_def enrolls_def not_has_key [symmetric] split: learning_payload.splits)
    then have "find (\<lambda>e'. enrolls e' (pp_path p) (e_content e)) es = None" by (simp add: find_None_iff)
    then have "enrollment_view (es @ [e]) ?k (event_enrollment e p)"
      using pay wf by (simp add: enrollment_view_def event_enrollment_def find_snoc enrolls_def wf_event_def)
    then show ?thesis using pay inv enrollment_view_snoc by (auto simp: enrollment_inv_def s')
  qed
qed

lemma enrolled_after_enrollment:
  assumes "apply_enrollment rt e p s = Inr s'" and "enrolled_in s a b c"
  shows "enrolled_in s' a b c"
  using assms by (auto simp: apply_enrollment_def Let_def enrolled_in_def split: option.splits if_splits)

lemma require_enrolled_module_ok:
  "require_enrolled_module e path mod_id s = Inr u \<longleftrightarrow> enrolled_in s path (e_content e) mod_id"
  by (auto simp: require_enrolled_module_def enrolled_in_def split: option.splits)

lemma module_inv_other:
  assumes "module_inv es s" and "fs_modules s' = fs_modules s"
    and "\<And>a b c. \<not> visits e a b c" and "\<And>a b c. \<not> completes e a b c"
    and "\<And>a b c. enrolled_in s a b c \<Longrightarrow> enrolled_in s' a b c"
  shows "module_inv (es @ [e]) s'"
proof -
  have "completions (es @ [e]) m = completions es m" "module_visits (es @ [e]) m = module_visits es m"
    for m using assms(3,4) by simp_all
  then have ext: "module_view (es @ [e]) k m = module_view es k m" for k m
    unfolding module_view_def by (simp only:)
  show ?thesis using assms by (simp add: module_inv_def ext ball_Un)
qed

lemma attempt_inv_other:
  assumes "attempt_inv es s" and "fs_attempts s' = fs_attempts s"
    and "fs_corrections s' = fs_corrections s"
    and "\<And>k. \<not> records_attempt e k" and "\<And>k. correction_of k e = []" and "correction_ids e = []"
    and "\<And>a b c. enrolled_in s a b c \<Longrightarrow> enrolled_in s' a b c"
  shows "attempt_inv (es @ [e]) s'"
proof -
  have ext: "attempt_view (es @ [e]) k a" if "attempt_view es k a" for k a
    using that assms(5) by (auto simp: attempt_view_def find_snoc)
  show ?thesis using assms ext by (simp add: attempt_inv_def ball_Un)
qed

text \<open>Storing a new state for one module: the others keep their view.\<close>

lemma module_inv_update:
  assumes inv: "module_inv es s"
    and k: "k = versioned_module_key a b (e_content e)" and ids: "stable_id a" "stable_id b"
    and only: "\<And>a' b' c'. visits e a' b' c' \<or> completes e a' b' c' \<Longrightarrow>
      a' = a \<and> b' = b \<and> c' = e_content e"
    and m: "mo_path m = a" "mo_module m = b" "mo_content m = e_content e"
    and view: "module_view (es @ [e]) k m"
    and enr: "enrolled_in s a (e_content e) b"
    and s': "fs_modules s' = map_set k m (fs_modules s)" "fs_enrollments s' = fs_enrollments s"
  shows "module_inv (es @ [e]) s'"
proof -
  have other: "module_view (es @ [e]) k' m'" if "module_view es k' m'" "k' \<noteq> k" for k' m'
  proof -
    have "\<not> visits e (mo_path m') (mo_module m') (mo_content m')"
      "\<not> completes e (mo_path m') (mo_module m') (mo_content m')"
      using that only [of "mo_path m'" "mo_module m'" "mo_content m'"] k
      by (auto simp: module_view_def)
    then have "completions (es @ [e]) m' = completions es m'"
      "module_visits (es @ [e]) m' = module_visits es m'" by simp_all
    then show ?thesis using that(1) unfolding module_view_def by (simp only:)
  qed
  have enr': "enrolled_in s' a' b' c' = enrolled_in s a' b' c'" for a' b' c'
    by (simp add: enrolled_in_def s')
  have dom: "has_key (fs_modules s') (versioned_module_key a' b' c')"
    if "visits e a' b' c' \<or> completes e a' b' c'" for a' b' c'
    using only [OF that] by (simp add: s' k)
  show ?thesis
    unfolding module_inv_def
  proof (intro conjI allI impI ballI)
    show "distinct (map fst (fs_modules s'))" using inv by (simp add: s' module_inv_def)
  next
    fix k' m' assume "map_of (fs_modules s') k' = Some m'"
    then have "k' = k \<and> m' = m \<or> k' \<noteq> k \<and> map_of (fs_modules s) k' = Some m'"
      by (auto simp: s' split: if_splits)
    then show "module_view (es @ [e]) k' m'"
      "enrolled_in s' (mo_path m') (mo_content m') (mo_module m')"
      using view other inv enr m by (auto simp: module_inv_def enr')
  next
    fix e' p q c assume "e' \<in> set (es @ [e])" "visits e' p q c \<or> completes e' p q c"
    then show "has_key (fs_modules s') (versioned_module_key p q c)"
      using inv dom by (auto simp: module_inv_def s')
  qed
qed

text \<open>The state of a module that the stream has touched, and of one it has not.\<close>

lemma module_view_same:
  assumes "module_view es (versioned_module_key a b c) m" "stable_id a" "stable_id b"
  shows "mo_path m = a" "mo_module m = b" "mo_content m = c"
proof -
  have "versioned_module_key a b c = versioned_module_key (mo_path m) (mo_module m) (mo_content m)"
    "stable_id (mo_path m)" "stable_id (mo_module m)"
    using assms(1) by (simp_all add: module_view_def)
  with assms(2,3) show "mo_path m = a" "mo_module m = b" "mo_content m = c"
    by (simp_all add: module_key_inj stable_id_not_nul)
qed

lemma untouched_module:
  assumes "module_inv es s" "map_of (fs_modules s) (versioned_module_key a b c) = None"
  shows "filter (\<lambda>e. completes e a b c) es = []" "filter (\<lambda>e. visits e a b c) es = []"
  using assms by (auto simp: module_inv_def filter_empty_conv not_has_key [symmetric])

lemma module_inv_visit:
  assumes pay: "e_payload e = ModuleVisit p" and wf: "wf_event e" and inv: "module_inv es s"
    and enr: "enrolled_in s (mp_path p) (e_content e) (mp_module p)"
  shows "module_inv (es @ [e]) (apply_module_visit rt e p s)"
proof -
  let ?a = "mp_path p" and ?b = "mp_module p" and ?c = "e_content e"
  let ?k = "versioned_module_key ?a ?b ?c"
  have ids: "stable_id ?a" "stable_id ?b" using wf pay by (simp_all add: wf_event_def)
  have ev: "visits e x y z \<longleftrightarrow> x = ?a \<and> y = ?b \<and> z = ?c" "\<not> completes e x y z" for x y z
    using pay by (auto simp: visits_def completes_def)
  note upd = module_inv_update [OF inv refl ids _ _ _ _ _ enr]
  show ?thesis
  proof (cases "map_of (fs_modules s) ?k")
    case None
    note un = untouched_module [OF inv None]
    show ?thesis
      by (rule upd) (use None un ids ev pay in \<open>auto simp: apply_module_visit_def module_view_def ev\<close>)
  next
    case (Some m)
    then have v: "module_view es ?k m" using inv by (simp add: module_inv_def)
    note same = module_view_same [OF v ids]
    define m' where "m' = (if earlier rt (e_occurred e) (mo_first m)
      then m\<lparr>mo_first := Some (e_occurred e)\<rparr> else m)"
    have "fs_modules (apply_module_visit rt e p s) = map_set ?k m' (fs_modules s)"
      "fs_enrollments (apply_module_visit rt e p s) = fs_enrollments s"
      using Some by (simp_all add: apply_module_visit_def Let_def m'_def map_set_same)
    moreover have "module_view (es @ [e]) ?k m'"
      using v same pay ids by (auto simp: m'_def module_view_def ev earlier_def split: option.splits)
    moreover have "mo_path m' = ?a" "mo_module m' = ?b" "mo_content m' = ?c"
      using same by (simp_all add: m'_def)
    ultimately show ?thesis by (intro upd) (use ids ev in auto)
  qed
qed

lemma module_inv_complete:
  assumes pay: "e_payload e = ModuleComplete p" and wf: "wf_event e" and inv: "module_inv es s"
    and enr: "enrolled_in s (cp_path p) (e_content e) (cp_module p)"
  shows "module_inv (es @ [e]) (apply_completion rt e p s)"
proof -
  let ?a = "cp_path p" and ?b = "cp_module p" and ?c = "e_content e"
  let ?k = "versioned_module_key ?a ?b ?c"
  have ids: "stable_id ?a" "stable_id ?b" using wf pay by (simp_all add: wf_event_def)
  have ev: "completes e x y z \<longleftrightarrow> x = ?a \<and> y = ?b \<and> z = ?c" "\<not> visits e x y z" for x y z
    using pay by (auto simp: visits_def completes_def)
  define m where "m = (case map_of (fs_modules s) ?k of Some m \<Rightarrow> m | None \<Rightarrow> new_module e p)"
  have m: "(mo_path m = ?a \<and> mo_module m = ?b \<and> mo_content m = ?c)
      \<and> (case mo_first m of None \<Rightarrow> module_visits es m = []
        | Some t \<Rightarrow> t \<in> e_occurred ` set (module_visits es m))
      \<and> (\<forall>t. mo_completed m = Some t \<longrightarrow> t \<in> e_occurred ` set (completions es m))
      \<and> set (mo_evidence m) = set (concat (map (evidence_of \<circ> e_payload) (completions es m)))"
  proof (cases "map_of (fs_modules s) ?k")
    case None
    then show ?thesis using untouched_module [OF inv None] by (simp add: m_def new_module_def)
  next
    case (Some m')
    then have v: "module_view es ?k m" using inv by (simp add: m_def module_inv_def)
    show ?thesis
      using v module_view_same [OF v ids] by (auto simp: module_view_def split: option.splits)
  qed
  then have same: "mo_path m = ?a" "mo_module m = ?b" "mo_content m = ?c" by blast+
  note view = m [THEN conjunct2]
  have "module_view (es @ [e]) ?k (complete_module rt e p m)"
    using view same ids pay
    by (auto simp: module_view_def complete_module_def ev earlier_def split: option.splits)
  moreover have "fs_modules (apply_completion rt e p s)
      = map_set ?k (complete_module rt e p m) (fs_modules s)"
    "fs_enrollments (apply_completion rt e p s) = fs_enrollments s"
    by (simp_all add: apply_completion_def Let_def m_def)
  ultimately show ?thesis
    by (intro module_inv_update [OF inv refl ids _ _ _ _ _ enr])
      (use ids ev same in \<open>auto simp: complete_module_def\<close>)
qed

lemma attempt_inv_record:
  assumes ok: "apply_assessment e p s = Inr s'" and pay: "e_payload e = AssessmentRecord p"
    and inv: "attempt_inv es s"
    and enr: "enrolled_in s (ap_path p) (e_content e) (ap_module p)"
  shows "attempt_inv (es @ [e]) s'"
proof -
  let ?k = "ap_attempt p"
  have new: "\<not> has_key (fs_attempts s) ?k"
    and s': "s' = s\<lparr>fs_attempts := map_set ?k (event_attempt e p) (fs_attempts s)\<rparr>"
    using ok by (auto simp: apply_assessment_def has_key_def split: if_splits)
  have e: "records_attempt e k \<longleftrightarrow> k = ?k" "correction_of k e = []" "correction_ids e = []" for k
    using pay by (auto simp: records_attempt_def correction_of.simps correction_ids.simps)
  have none: "corrections_of es ?k = []"
    using inv new by (auto simp: attempt_inv_def corrections_of_def)
  have keep: "attempt_view (es @ [e]) k a" if "attempt_view es k a" for k a
    using that e by (auto simp: attempt_view_def find_snoc)
  have "find (\<lambda>e. records_attempt e ?k) es = None"
    using inv new by (auto simp: attempt_inv_def find_None_iff)
  then have "attempt_view (es @ [e]) ?k (event_attempt e p)"
    using pay none e by (simp add: attempt_view_def find_snoc)
  then show ?thesis
    using inv keep enr e
    by (auto simp: attempt_inv_def s' event_attempt_def enrolled_in_def split: if_splits)
qed

lemma attempt_inv_correct:
  assumes ok: "apply_correction e q s = Inr s'" and pay: "e_payload e = AssessmentCorrect q"
    and inv: "attempt_inv es s"
  shows "attempt_inv (es @ [e]) s'"
proof -
  let ?k = "xp_attempt q" and ?c = "event_correction e q"
  obtain a where a: "map_of (fs_attempts s) ?k = Some a"
    and fresh: "xp_correction q \<notin> set (fs_corrections s)"
    and s': "s' = s\<lparr>fs_corrections := fs_corrections s @ [xp_correction q],
            fs_attempts := map_set ?k (correct_attempt ?c a) (fs_attempts s)\<rparr>"
    using ok by (auto simp: apply_correction_def split: option.splits if_splits)
  have e: "\<not> records_attempt e k" "correction_of k e = (if k = ?k then [?c] else [])"
    "correction_ids e = [xp_correction q]" for k
    using pay by (auto simp: records_attempt_def correction_of.simps correction_ids.simps)
  have view: "attempt_view es ?k a" using inv a by (simp add: attempt_inv_def)
  have "attempt_view (es @ [e]) ?k (correct_attempt ?c a)"
    using view e by (auto simp: attempt_view_def find_snoc)
  moreover have "attempt_view (es @ [e]) k b" if "attempt_view es k b" "k \<noteq> ?k" for k b
    using that e by (auto simp: attempt_view_def find_snoc)
  moreover have "has_key (fs_attempts s) ?k" using a by (simp add: has_key_def)
  moreover have "aj_path (correct_attempt ?c a) = aj_path a" "aj_content (correct_attempt ?c a) = aj_content a"
    "aj_module (correct_attempt ?c a) = aj_module a"
    by (simp_all add: correct_attempt_def)
  moreover have "enrolled_in s (aj_path a) (aj_content a) (aj_module a)"
    using inv a by (simp add: attempt_inv_def)
  ultimately show ?thesis
    using inv e fresh
    by (auto simp: attempt_inv_def s' enrolled_in_def split: if_splits)
qed

text \<open>One event of another type than an import.\<close>

lemma fold_inv_apply:
  assumes ok: "apply_event rt e (e_payload e) s = Inr s'" and wf: "wf_event e"
    and imp: "\<not> is_import (e_payload e)" and inv: "fold_inv es s"
  shows "fold_inv (es @ [e]) s'"
proof -
  have parts: "enrollment_inv es s" "module_inv es s" "attempt_inv es s" "\<forall>e \<in> set es. wf_event e"
    using inv by (simp_all add: fold_inv_def)
  note frames = enrollment_inv_other [OF parts(1)] module_inv_other [OF parts(2)]
    attempt_inv_other [OF parts(3)]
  have "enrollment_inv (es @ [e]) s' \<and> module_inv (es @ [e]) s' \<and> attempt_inv (es @ [e]) s'"
  proof (cases "e_payload e")
    case (PathEnroll p)
    then have ap: "apply_enrollment rt e p s = Inr s'" using ok by simp
    then have "fs_modules s' = fs_modules s" "fs_attempts s' = fs_attempts s"
      "fs_corrections s' = fs_corrections s"
      by (auto simp: apply_enrollment_def Let_def split: option.splits if_splits)
    then show ?thesis
      using PathEnroll enrollment_inv_step [OF ap PathEnroll wf parts(1)] enrolled_after_enrollment [OF ap]
      by (auto intro!: frames simp: visits_def completes_def records_attempt_def correction_of.simps
          correction_ids.simps)
  next
    case (ModuleVisit p)
    then have en: "enrolled_in s (mp_path p) (e_content e) (mp_module p)"
      and s': "s' = apply_module_visit rt e p s"
      using ok by (auto simp: bind_result_eq_Inr require_enrolled_module_ok)
    have frame: "fs_enrollments s' = fs_enrollments s" "fs_attempts s' = fs_attempts s"
      "fs_corrections s' = fs_corrections s"
      by (auto simp: s' apply_module_visit_def Let_def split: option.split)
    have "module_inv (es @ [e]) s'" unfolding s' by (rule module_inv_visit [OF ModuleVisit wf parts(2) en])
    moreover have "enrollment_inv (es @ [e]) s'" by (rule frames(1)) (use frame ModuleVisit in auto)
    moreover have "attempt_inv (es @ [e]) s'"
      by (rule frames(3)) (use frame ModuleVisit in \<open>auto simp: records_attempt_def correction_of.simps
        correction_ids.simps enrolled_in_def\<close>)
    ultimately show ?thesis by blast
  next
    case (AssessmentRecord p)
    then have en: "enrolled_in s (ap_path p) (e_content e) (ap_module p)"
      and ap: "apply_assessment e p s = Inr s'"
      using ok by (auto simp: bind_result_eq_Inr require_enrolled_module_ok)
    have frame: "fs_enrollments s' = fs_enrollments s" "fs_modules s' = fs_modules s"
      using ap by (auto simp: apply_assessment_def split: option.splits if_splits)
    have "attempt_inv (es @ [e]) s'" by (rule attempt_inv_record [OF ap AssessmentRecord parts(3) en])
    moreover have "enrollment_inv (es @ [e]) s'" by (rule frames(1)) (use frame AssessmentRecord in auto)
    moreover have "module_inv (es @ [e]) s'"
      by (rule frames(2)) (use frame AssessmentRecord in \<open>auto simp: visits_def completes_def enrolled_in_def\<close>)
    ultimately show ?thesis by blast
  next
    case (ModuleComplete p)
    then have en: "enrolled_in s (cp_path p) (e_content e) (cp_module p)"
      and s': "s' = apply_completion rt e p s"
      using ok by (auto simp: bind_result_eq_Inr require_enrolled_module_ok)
    have frame: "fs_enrollments s' = fs_enrollments s" "fs_attempts s' = fs_attempts s"
      "fs_corrections s' = fs_corrections s"
      by (auto simp: s' apply_completion_def Let_def split: option.split)
    have "module_inv (es @ [e]) s'" unfolding s' by (rule module_inv_complete [OF ModuleComplete wf parts(2) en])
    moreover have "enrollment_inv (es @ [e]) s'" by (rule frames(1)) (use frame ModuleComplete in auto)
    moreover have "attempt_inv (es @ [e]) s'"
      by (rule frames(3)) (use frame ModuleComplete in \<open>auto simp: records_attempt_def correction_of.simps
        correction_ids.simps enrolled_in_def\<close>)
    ultimately show ?thesis by blast
  next
    case (AssessmentCorrect p)
    then have ap: "apply_correction e p s = Inr s'" using ok by simp
    have frame: "fs_enrollments s' = fs_enrollments s" "fs_modules s' = fs_modules s"
      using ap by (auto simp: apply_correction_def split: option.splits if_splits)
    have "attempt_inv (es @ [e]) s'" by (rule attempt_inv_correct [OF ap AssessmentCorrect parts(3)])
    moreover have "enrollment_inv (es @ [e]) s'" by (rule frames(1)) (use frame AssessmentCorrect in auto)
    moreover have "module_inv (es @ [e]) s'"
      by (rule frames(2)) (use frame AssessmentCorrect in \<open>auto simp: visits_def completes_def enrolled_in_def\<close>)
    ultimately show ?thesis by blast
  qed (use imp in auto)
  then show ?thesis using parts wf by (simp add: fold_inv_def)
qed


section \<open>Which streams are accepted\<close>

definition enrollable :: "learning_event list \<Rightarrow> string \<Rightarrow> string \<Rightarrow> string \<Rightarrow> bool" where
  "enrollable es path content mod_id \<longleftrightarrow>
     (case find (\<lambda>e. enrolls e path content) es of None \<Rightarrow> False
      | Some e \<Rightarrow> (case e_payload e of PathEnroll p \<Rightarrow> mod_id \<in> set (pp_modules p) | _ \<Rightarrow> False))"

definition same_enrollment :: "runtime \<Rightarrow> learning_event list \<Rightarrow> learning_event \<Rightarrow> path_payload \<Rightarrow> bool" where
  "same_enrollment rt es e p \<longleftrightarrow>
     (case find (\<lambda>e'. enrolls e' (pp_path p) (e_content e)) es of None \<Rightarrow> True
      | Some e1 \<Rightarrow> (case e_payload e1 of
           PathEnroll p1 \<Rightarrow> stable_json rt (enrollment_json (event_enrollment e1 p1))
             = stable_json rt (enrollment_json (event_enrollment e p))
         | _ \<Rightarrow> True))"

definition correctable :: "learning_event list \<Rightarrow> learning_event \<Rightarrow> correction_payload \<Rightarrow> bool" where
  "correctable es e q \<longleftrightarrow> xp_correction q \<notin> set (concat (map correction_ids es)) \<and>
     (case find (\<lambda>e. records_attempt e (xp_attempt q)) es of None \<Rightarrow> False
      | Some e1 \<Rightarrow> e_content e = e_content e1 \<and> (case e_payload e1 of
           AssessmentRecord p \<Rightarrow> xp_version q = ap_version p | _ \<Rightarrow> False))"

text \<open>The event \<open>e\<close> may follow the events \<open>es\<close> recorded since the last import.\<close>

definition admissible :: "runtime \<Rightarrow> learning_event list \<Rightarrow> learning_event \<Rightarrow> bool" where
  "admissible rt es e \<longleftrightarrow> (case e_payload e of
     PathEnroll p \<Rightarrow> same_enrollment rt es e p
   | ModuleVisit p \<Rightarrow> enrollable es (mp_path p) (e_content e) (mp_module p)
   | AssessmentRecord p \<Rightarrow> enrollable es (ap_path p) (e_content e) (ap_module p)
       \<and> \<not> (\<exists>e' \<in> set es. records_attempt e' (ap_attempt p))
   | ModuleComplete p \<Rightarrow> enrollable es (cp_path p) (e_content e) (cp_module p)
   | AssessmentCorrect q \<Rightarrow> correctable es e q
   | ProgressImport p \<Rightarrow> True)"

text \<open>A whole stream: in scope, well formed, in strict order, each event admissible.\<close>

definition stream_ok :: "runtime \<Rightarrow> string \<Rightarrow> string \<Rightarrow> learning_event list \<Rightarrow> bool" where
  "stream_ok rt installation learner es \<longleftrightarrow> sorted_wrt (<) (map e_sequence es)
     \<and> (\<forall>e \<in> set es. wf_event e \<and> e_installation e = installation \<and> e_learner e = learner)
     \<and> (\<forall>i < length es. admissible rt (since_import (take i es)) (es ! i))"

lemma enrolls_payload: "enrolls e path content \<Longrightarrow> \<exists>p. e_payload e = PathEnroll p \<and> pp_path p = path
    \<and> e_content e = content"
  by (auto simp: enrolls_def split: learning_payload.splits)

lemma records_payload: "records_attempt e k \<Longrightarrow> \<exists>p. e_payload e = AssessmentRecord p \<and> ap_attempt p = k"
  by (auto simp: records_attempt_def split: learning_payload.splits)

text \<open>The map of enrolments holds the first enrolment of each path and content version.\<close>

lemma enrollment_lookup:
  assumes "enrollment_inv es s" and "stable_id path"
  shows "map_of (fs_enrollments s) (versioned_path_key path content) =
    (case find (\<lambda>e. enrolls e path content) es of
       Some e \<Rightarrow> (case e_payload e of PathEnroll p \<Rightarrow> Some (event_enrollment e p) | _ \<Rightarrow> None)
     | None \<Rightarrow> None)"
proof (cases "map_of (fs_enrollments s) (versioned_path_key path content)")
  case (Some en)
  then have v: "enrollment_view es (versioned_path_key path content) en"
    using assms(1) by (simp add: enrollment_inv_def)
  then have "en_path en = path" "en_content en = content"
    using assms(2) by (auto simp: enrollment_view_def path_key_inj stable_id_not_nul)
  then show ?thesis using v Some by (auto simp: enrollment_view_def)
next
  case None
  have "\<not> enrolls e path content" if "e \<in> set es" for e
  proof
    assume "enrolls e path content"
    then obtain p where "e_payload e = PathEnroll p" "pp_path p = path" "e_content e = content"
      by (metis enrolls_payload)
    then have "has_key (fs_enrollments s) (versioned_path_key path content)"
      using assms(1) that by (auto simp: enrollment_inv_def)
    then show False using None by (simp add: has_key_def)
  qed
  then have "find (\<lambda>e. enrolls e path content) es = None" by (simp add: find_None_iff)
  with None show ?thesis by simp
qed

lemma enrolled_in_iff:
  assumes "enrollment_inv es s" and "stable_id path"
  shows "enrolled_in s path content mod_id \<longleftrightarrow> enrollable es path content mod_id"
  by (auto simp: enrolled_in_def enrollable_def enrollment_lookup [OF assms] event_enrollment_def
      split: option.splits learning_payload.splits)

lemma attempt_lookup:
  assumes "attempt_inv es s"
  shows "map_of (fs_attempts s) k = (case find (\<lambda>e. records_attempt e k) es of
       Some e \<Rightarrow> (case e_payload e of AssessmentRecord p \<Rightarrow>
           Some (foldl (\<lambda>a c. correct_attempt c a) (event_attempt e p) (corrections_of es k))
         | _ \<Rightarrow> None)
     | None \<Rightarrow> None)"
proof (cases "map_of (fs_attempts s) k")
  case (Some a)
  then have "attempt_view es k a" using assms by (simp add: attempt_inv_def)
  with Some show ?thesis by (auto simp: attempt_view_def)
next
  case None
  then have "find (\<lambda>e. records_attempt e k) es = None"
    using assms by (auto simp: attempt_inv_def find_None_iff not_has_key [symmetric])
  with None show ?thesis by simp
qed

lemma foldl_correct_attempt [simp]:
  "aj_content (foldl (\<lambda>a c. correct_attempt c a) a cs) = aj_content a"
  "aj_version (foldl (\<lambda>a c. correct_attempt c a) a cs) = aj_version a"
  "aj_path (foldl (\<lambda>a c. correct_attempt c a) a cs) = aj_path a"
  "aj_module (foldl (\<lambda>a c. correct_attempt c a) a cs) = aj_module a"
  "aj_id (foldl (\<lambda>a c. correct_attempt c a) a cs) = aj_id a"
  "aj_answers (foldl (\<lambda>a c. correct_attempt c a) a cs) = aj_answers a"
  "aj_original_score (foldl (\<lambda>a c. correct_attempt c a) a cs) = aj_original_score a"
  "aj_original_passed (foldl (\<lambda>a c. correct_attempt c a) a cs) = aj_original_passed a"
  "aj_completed (foldl (\<lambda>a c. correct_attempt c a) a cs) = aj_completed a"
  "aj_corrections (foldl (\<lambda>a c. correct_attempt c a) a cs) = aj_corrections a @ cs"
  by (induction cs arbitrary: a) (simp_all add: correct_attempt_def)

lemma find_enrolls:
  "find (\<lambda>e. enrolls e path content) es = Some e \<Longrightarrow> \<exists>p. e_payload e = PathEnroll p"
  by (metis enrolls_payload find_Some_iff)

lemma find_records:
  "find (\<lambda>e. records_attempt e k) es = Some e \<Longrightarrow> \<exists>p. e_payload e = AssessmentRecord p"
  by (metis records_payload find_Some_iff)

lemma apply_event_accepts:
  assumes inv: "fold_inv es s" and wf: "wf_event e" and imp: "\<not> is_import (e_payload e)"
  shows "(\<exists>s'. apply_event rt e (e_payload e) s = Inr s') \<longleftrightarrow> admissible rt es e"
proof -
  have parts: "enrollment_inv es s" "module_inv es s" "attempt_inv es s"
    using inv by (simp_all add: fold_inv_def)
  show ?thesis
  proof (cases "e_payload e")
    case (PathEnroll p)
    then have "stable_id (pp_path p)" using wf by (simp add: wf_event_def)
    note lookup = enrollment_lookup [OF parts(1) this, of "e_content e"]
    show ?thesis
    proof (cases "find (\<lambda>e'. enrolls e' (pp_path p) (e_content e)) es")
      case None
      then show ?thesis using PathEnroll lookup
        by (simp add: admissible_def same_enrollment_def apply_enrollment_def)
    next
      case (Some e1)
      obtain p1 where "e_payload e1 = PathEnroll p1" using find_enrolls [OF Some] by blast
      then show ?thesis using PathEnroll lookup Some
        by (simp add: admissible_def same_enrollment_def apply_enrollment_def)
    qed
  next
    case (ModuleVisit p)
    then have "stable_id (mp_path p)" using wf by (simp add: wf_event_def)
    then show ?thesis using ModuleVisit enrolled_in_iff [OF parts(1)]
      by (auto simp: admissible_def bind_result_eq_Inr require_enrolled_module_ok)
  next
    case (AssessmentRecord p)
    then have "stable_id (ap_path p)" using wf by (simp add: wf_event_def)
    moreover have "map_of (fs_attempts s) (ap_attempt p) = None
        \<longleftrightarrow> \<not> (\<exists>e' \<in> set es. records_attempt e' (ap_attempt p))"
    proof (cases "find (\<lambda>e. records_attempt e (ap_attempt p)) es")
      case None
      then have "map_of (fs_attempts s) (ap_attempt p) = None"
        using attempt_lookup [OF parts(3), of "ap_attempt p"] by simp
      with None show ?thesis by (simp add: find_None_iff)
    next
      case (Some e1)
      then have "\<exists>e' \<in> set es. records_attempt e' (ap_attempt p)"
        using find_None_iff [of "\<lambda>e. records_attempt e (ap_attempt p)" es] by auto
      with Some show ?thesis
        using attempt_lookup [OF parts(3), of "ap_attempt p"] find_records [OF Some] by auto
    qed
    ultimately show ?thesis using AssessmentRecord enrolled_in_iff [OF parts(1)]
      by (auto simp: admissible_def bind_result_eq_Inr require_enrolled_module_ok
          apply_assessment_def simp del: map_of_eq_None_iff)
  next
    case (ModuleComplete p)
    then have "stable_id (cp_path p)" using wf by (simp add: wf_event_def)
    then show ?thesis using ModuleComplete enrolled_in_iff [OF parts(1)]
      by (auto simp: admissible_def bind_result_eq_Inr require_enrolled_module_ok)
  next
    case (AssessmentCorrect q)
    have "fs_corrections s = concat (map correction_ids es)"
      using parts(3) by (simp add: attempt_inv_def)
    note corr = this and lookup = attempt_lookup [OF parts(3), of "xp_attempt q"]
    show ?thesis
    proof (cases "find (\<lambda>e. records_attempt e (xp_attempt q)) es")
      case None
      then show ?thesis using AssessmentCorrect lookup
        by (simp add: admissible_def correctable_def apply_correction_def)
    next
      case (Some e1)
      obtain p1 where "e_payload e1 = AssessmentRecord p1" using find_records [OF Some] by blast
      then show ?thesis using AssessmentCorrect lookup Some corr
        by (simp add: admissible_def correctable_def apply_correction_def event_attempt_def)
    qed
  qed (use imp in auto)
qed


section \<open>The whole loop\<close>

definition imports_of :: "learning_event \<Rightarrow> (learning_event \<times> import_payload) list" where
  "imports_of e = (case e_payload e of ProgressImport p \<Rightarrow> [(e, p)] | _ \<Rightarrow> [])"

definition last_import :: "learning_event list \<Rightarrow> (learning_event \<times> import_payload) option" where
  "last_import es = (case rev (concat (map imports_of es)) of [] \<Rightarrow> None | x # _ \<Rightarrow> Some x)"

lemma last_import_simps [simp]:
  "last_import [] = None"
  "last_import (es @ [e]) = (case e_payload e of ProgressImport p \<Rightarrow> Some (e, p)
     | _ \<Rightarrow> last_import es)"
  by (auto simp: last_import_def imports_of_def split: learning_payload.split)

definition loop_view :: "learning_event list \<Rightarrow> fold_state \<Rightarrow> bool" where
  "loop_view es s \<longleftrightarrow> fold_inv (since_import es) s
     \<and> fs_last s = (if es = [] then 0 else e_sequence (last es))
     \<and> fs_snapshot s = map_option (ip_progress \<circ> snd) (last_import es)
     \<and> fs_synchronized s = map_option (ip_synchronized_at \<circ> snd) (last_import es)
     \<and> fs_snapshot_sequence s = (case last_import es of None \<Rightarrow> 0 | Some (e, _) \<Rightarrow> e_sequence e)"

abbreviation run_loop :: "runtime \<Rightarrow> string \<Rightarrow> string \<Rightarrow> learning_event list
    \<Rightarrow> (engine_error, fold_state) result" where
  "run_loop rt installation learner es \<equiv>
     fold_result (project_event rt installation learner) empty_fold es"

lemma stream_ok_Nil [simp]: "stream_ok rt installation learner []"
  by (simp add: stream_ok_def)

lemma stream_ok_snoc: "stream_ok rt installation learner (es @ [e]) \<longleftrightarrow>
   stream_ok rt installation learner es \<and> (\<forall>x \<in> set es. e_sequence x < e_sequence e)
   \<and> wf_event e \<and> e_installation e = installation \<and> e_learner e = learner
   \<and> admissible rt (since_import es) e"
  by (auto simp: stream_ok_def sorted_wrt_append All_less_Suc nth_append)

text \<open>The parts of the state that an event other than an import leaves alone.\<close>

lemma apply_event_frame:
  assumes "apply_event rt e q s = Inr s'"
  shows "fs_last s' = fs_last s" "fs_snapshot s' = fs_snapshot s"
    "fs_synchronized s' = fs_synchronized s" "fs_snapshot_sequence s' = fs_snapshot_sequence s"
proof -
  have "fs_last s' = fs_last s \<and> fs_snapshot s' = fs_snapshot s
    \<and> fs_synchronized s' = fs_synchronized s \<and> fs_snapshot_sequence s' = fs_snapshot_sequence s"
    using assms
    by (cases q) (auto simp: apply_enrollment_def apply_module_visit_def apply_assessment_def
        apply_completion_def apply_correction_def Let_def bind_result_eq_Inr
        split: option.splits if_splits)
  then show "fs_last s' = fs_last s" "fs_snapshot s' = fs_snapshot s"
    "fs_synchronized s' = fs_synchronized s" "fs_snapshot_sequence s' = fs_snapshot_sequence s"
    by blast+
qed

lemma fold_inv_last [simp]: "fold_inv es (s\<lparr>fs_last := n\<rparr>) = fold_inv es s"
  by (simp add: inv_defs enrolled_in_def)

lemma project_event_ok: "project_event rt installation learner s e = Inr s' \<longleftrightarrow>
   wf_event e \<and> e_installation e = installation \<and> e_learner e = learner \<and> fs_last s < e_sequence e
   \<and> (case e_payload e of
        ProgressImport p \<Rightarrow> s' = apply_import e p (s\<lparr>fs_last := e_sequence e\<rparr>)
      | p \<Rightarrow> apply_event rt e p (s\<lparr>fs_last := e_sequence e\<rparr>) = Inr s')"
  by (auto simp: project_event_def bind_result_eq_Inr Let_def split: learning_payload.split)

lemma project_event_step:
  assumes view: "loop_view es s" and ok: "project_event rt installation learner s e = Inr s'"
  shows "loop_view (es @ [e]) s'"
proof (cases "is_import (e_payload e)")
  case True
  then obtain p where "e_payload e = ProgressImport p" by (cases "e_payload e") auto
  then show ?thesis
    using ok by (auto simp: project_event_ok loop_view_def apply_import_def intro: fold_inv_start)
next
  case False
  then have "wf_event e" and ap: "apply_event rt e (e_payload e) (s\<lparr>fs_last := e_sequence e\<rparr>) = Inr s'"
    using ok by (auto simp: project_event_ok split: learning_payload.splits)
  then have "fold_inv (since_import es @ [e]) s'"
    using fold_inv_apply [OF ap _ False] view by (simp add: loop_view_def)
  moreover have "last_import (es @ [e]) = last_import es"
    using False by (cases "e_payload e") auto
  ultimately show ?thesis
    using view apply_event_frame [OF ap] False by (simp add: loop_view_def)
qed

lemma project_event_accepts:
  assumes view: "loop_view es s"
  shows "(\<exists>s'. project_event rt installation learner s e = Inr s') \<longleftrightarrow>
    wf_event e \<and> e_installation e = installation \<and> e_learner e = learner \<and> fs_last s < e_sequence e
    \<and> admissible rt (since_import es) e"
proof (cases "is_import (e_payload e)")
  case True
  then obtain p where "e_payload e = ProgressImport p" by (cases "e_payload e") auto
  then show ?thesis by (simp add: project_event_ok admissible_def)
next
  case False
  let ?s = "s\<lparr>fs_last := e_sequence e\<rparr>"
  have inv: "fold_inv (since_import es) ?s" using view by (simp add: loop_view_def)
  have "project_event rt installation learner s e = Inr s' \<longleftrightarrow> wf_event e
    \<and> e_installation e = installation \<and> e_learner e = learner \<and> fs_last s < e_sequence e
    \<and> apply_event rt e (e_payload e) ?s = Inr s'" for s'
    using False by (auto simp: project_event_ok split: learning_payload.splits)
  then show ?thesis using apply_event_accepts [OF inv _ False] by auto
qed

lemma run_loop_accepts:
  "(\<exists>s. run_loop rt installation learner es = Inr s) \<longleftrightarrow> stream_ok rt installation learner es"
  and run_loop_view: "run_loop rt installation learner es = Inr s \<Longrightarrow> loop_view es s"
proof (induction es arbitrary: s rule: rev_induct)
  case Nil
  {
    case 1 show ?case by simp
  next
    case 2 then show ?case
      by (auto simp: loop_view_def empty_fold_def intro: fold_inv_start)
  }
next
  case (snoc e es)
  {
    case 2
    then obtain t where "run_loop rt installation learner es = Inr t"
      "project_event rt installation learner t e = Inr s"
      by (auto simp: fold_result_snoc bind_result_eq_Inr)
    then show ?case using snoc.IH(2) project_event_step by blast
  next
    case 1
    show ?case
    proof (cases "run_loop rt installation learner es")
      case (Inl x)
      then show ?thesis using snoc.IH(1) by (simp add: fold_result_snoc stream_ok_snoc)
    next
      case (Inr t)
      then have ok: "stream_ok rt installation learner es" using snoc.IH(1) by blast
      have view: "loop_view es t" by (rule snoc.IH(2) [OF Inr])
      have last: "fs_last t < e_sequence e \<longleftrightarrow> (\<forall>x \<in> set es. e_sequence x < e_sequence e)"
        if "wf_event e"
      proof (cases es rule: rev_cases)
        case Nil
        then show ?thesis using view that by (simp add: loop_view_def wf_event_def)
      next
        case (snoc ys y)
        then show ?thesis using view ok by (fastforce simp: loop_view_def stream_ok_snoc)
      qed
      show ?thesis
        using Inr ok last project_event_accepts [OF view]
        by (simp add: fold_result_snoc stream_ok_snoc) blast
    qed
  }
qed


section \<open>The projection of a stream\<close>

abbreviation in_order :: "runtime \<Rightarrow> learning_event list \<Rightarrow> learning_event list" where
  "in_order rt es \<equiv> js_sort (compare_events rt) es"

text \<open>The events that the projection is about.\<close>

definition current_events :: "runtime \<Rightarrow> learning_event list \<Rightarrow> learning_event list" where
  "current_events rt es = since_import (in_order rt es)"

definition module_completed :: "learning_event list \<Rightarrow> enrollment \<Rightarrow> string \<Rightarrow> bool" where
  "module_completed es en m \<longleftrightarrow> (\<exists>e \<in> set es. completes e (en_path en) m (en_content en))"

lemma projection_view:
  assumes "project_learning_events rt es i l = Inr P"
  obtains s where "loop_view (in_order rt es) s" "stream_ok rt i l (in_order rt es)"
    "P = finish_projection rt i l (length es) s"
  using assms run_loop_accepts [of rt i l "in_order rt es"] run_loop_view [of rt i l "in_order rt es"]
  by (auto simp: project_learning_events_def bind_result_eq_Inr)

lemma values_of_keys:
  assumes "distinct (map fst kvs)"
  shows "v \<in> set (map snd kvs) \<longleftrightarrow> (\<exists>k. map_of kvs k = Some v)"
  using assms by (force simp: map_of_eq_Some_iff)

text \<open>The lists of the projection hold the values of the maps.\<close>

lemma projection_lists:
  assumes "loop_view es s" and "P = finish_projection rt i l n s"
  shows "en \<in> set (pj_enrollments P) \<longleftrightarrow> (\<exists>k. map_of (fs_enrollments s) k = Some en)"
    "m \<in> set (pj_modules P) \<longleftrightarrow> (\<exists>k. map_of (fs_modules s) k = Some m)"
    "a \<in> set (pj_attempts P) \<longleftrightarrow> (\<exists>k. map_of (fs_attempts s) k = Some a)"
proof -
  have "distinct (map fst (fs_enrollments s))" "distinct (map fst (fs_modules s))"
    "distinct (map fst (fs_attempts s))"
    using assms(1) by (simp_all add: loop_view_def inv_defs)
  note v = this [THEN values_of_keys]
  show "en \<in> set (pj_enrollments P) \<longleftrightarrow> (\<exists>k. map_of (fs_enrollments s) k = Some en)"
    "m \<in> set (pj_modules P) \<longleftrightarrow> (\<exists>k. map_of (fs_modules s) k = Some m)"
    "a \<in> set (pj_attempts P) \<longleftrightarrow> (\<exists>k. map_of (fs_attempts s) k = Some a)"
    using v by (simp_all add: assms(2) finish_projection_def Let_def)
qed

text \<open>The enrolments, and what their events said.\<close>

lemma enrollment_facts:
  assumes "loop_view es s" and "map_of (fs_enrollments s) k = Some en"
  shows "k = versioned_path_key (en_path en) (en_content en)" "stable_id (en_path en)"
    "en_modules en \<noteq> []" "distinct (en_modules en)" "list_all stable_id (en_modules en)"
proof -
  have "enrollment_view (since_import es) k en" and wf: "\<forall>e \<in> set (since_import es). wf_event e"
    using assms by (simp_all add: loop_view_def inv_defs)
  then obtain e p where e: "k = versioned_path_key (en_path en) (en_content en)"
    "stable_id (en_path en)" "find (\<lambda>e. enrolls e (en_path en) (en_content en)) (since_import es) = Some e"
    "e_payload e = PathEnroll p" "en = event_enrollment e p"
    by (auto simp: enrollment_view_def)
  then have "wf_event e" using wf by (metis find_Some_iff nth_mem)
  then show "k = versioned_path_key (en_path en) (en_content en)" "stable_id (en_path en)"
    "en_modules en \<noteq> []" "distinct (en_modules en)" "list_all stable_id (en_modules en)"
    using e by (simp_all add: wf_event_def event_enrollment_def)
qed

lemma module_facts:
  assumes "loop_view es s" and "map_of (fs_modules s) k = Some m"
  shows "k = versioned_module_key (mo_path m) (mo_module m) (mo_content m)"
    "mo_status m = Completed \<longleftrightarrow> completions (since_import es) m \<noteq> []"
    "mo_status m = Completed \<Longrightarrow> \<exists>t. mo_completed m = Some t \<and> valid_timestamp t"
proof -
  have v: "module_view (since_import es) k m" and wf: "\<forall>e \<in> set (since_import es). wf_event e"
    using assms by (simp_all add: loop_view_def inv_defs)
  show "k = versioned_module_key (mo_path m) (mo_module m) (mo_content m)"
    "mo_status m = Completed \<longleftrightarrow> completions (since_import es) m \<noteq> []"
    using v by (simp_all add: module_view_def)
  assume "mo_status m = Completed"
  then obtain t e where "mo_completed m = Some t" "e \<in> set (since_import es)" "e_occurred e = t"
    using v by (auto simp: module_view_def split: option.splits)
  then show "\<exists>t. mo_completed m = Some t \<and> valid_timestamp t"
    using wf by (auto simp: wf_event_def)
qed

text \<open>A completed state for a module of an enrolment exists exactly when an event completed it.\<close>

lemma completed_state_iff:
  assumes view: "loop_view es s" and ids: "stable_id (en_path en)" "stable_id x"
  shows "(\<exists>k m. map_of (fs_modules s) k = Some m \<and> mo_path m = en_path en \<and> mo_module m = x
      \<and> mo_content m = en_content en \<and> mo_status m = Completed)
    \<longleftrightarrow> module_completed (since_import es) en x"
proof
  assume "\<exists>k m. map_of (fs_modules s) k = Some m \<and> mo_path m = en_path en \<and> mo_module m = x
      \<and> mo_content m = en_content en \<and> mo_status m = Completed"
  then show "module_completed (since_import es) en x"
    using module_facts(2) [OF view] by (auto simp: module_completed_def filter_empty_conv)
next
  assume c: "module_completed (since_import es) en x"
  let ?k = "versioned_module_key (en_path en) x (en_content en)"
  have inv: "module_inv (since_import es) s" using view by (simp add: loop_view_def fold_inv_def)
  then obtain m where m: "map_of (fs_modules s) ?k = Some m"
    using c by (fastforce simp: module_inv_def module_completed_def has_key_def)
  then have "module_view (since_import es) ?k m" using inv by (simp add: module_inv_def)
  note same = module_view_same [OF this ids]
  then have "mo_status m = Completed"
    using module_facts(2) [OF view m] c by (auto simp: module_completed_def filter_empty_conv)
  with m same show "\<exists>k m. map_of (fs_modules s) k = Some m \<and> mo_path m = en_path en
      \<and> mo_module m = x \<and> mo_content m = en_content en \<and> mo_status m = Completed"
    by blast
qed

text \<open>Two states of the projection for the same module are the same state.\<close>

lemma module_state_unique:
  assumes "loop_view es s" "map_of (fs_modules s) k = Some m" "map_of (fs_modules s) k' = Some m'"
    and "mo_path m = mo_path m'" "mo_module m = mo_module m'" "mo_content m = mo_content m'"
  shows "m = m'"
  using assms module_facts(1) [OF assms(1)] by (metis option.inject)

lemma filter_map_length:
  "length (List.map_filter f xs) = length xs \<longleftrightarrow> (\<forall>x \<in> set xs. f x \<noteq> None)"
proof (induction xs)
  case (Cons x xs)
  moreover have "length (List.map_filter f xs) \<le> length xs"
    by (simp add: List.map_filter_def le_trans [OF length_filter_le])
  ultimately show ?case by (auto simp: map_filter_simps split: option.splits)
qed (simp add: map_filter_simps)

lemma set_map_filter: "y \<in> set (List.map_filter f xs) \<longleftrightarrow> (\<exists>x \<in> set xs. f x = Some y)"
  by (force simp: List.map_filter_def)

lemma valid_timestamp_nonempty: "valid_timestamp t \<Longrightarrow> t \<noteq> []"
  by (auto simp: valid_timestamp_def timestamp_pattern_def iso_head_def)

text \<open>A badge is derived exactly when every module of the enrolment is completed.\<close>

lemma derive_badge_iff:
  assumes view: "loop_view es s" and P: "P = finish_projection rt i l n s"
    and en: "en \<in> set (pj_enrollments P)"
  shows "derive_badge en (pj_modules P) \<noteq> None
    \<longleftrightarrow> (\<forall>x \<in> set (en_modules en). module_completed (since_import es) en x)"
proof -
  obtain k where k: "map_of (fs_enrollments s) k = Some en"
    using en projection_lists(1) [OF view P] by blast
  note enf = enrollment_facts [OF view k]
  have found: "find_completed en (pj_modules P) x \<noteq> None \<longleftrightarrow> module_completed (since_import es) en x"
    if "x \<in> set (en_modules en)" for x
  proof -
    have "stable_id x" using enf(5) that by (simp add: list_all_iff)
    from completed_state_iff [OF view enf(2) this] show ?thesis
      unfolding find_completed_def find_None_iff projection_lists(2) [OF view P] by blast
  qed
  show ?thesis
  proof (cases "\<forall>x \<in> set (en_modules en). find_completed en (pj_modules P) x \<noteq> None")
    case False
    then have "length (List.map_filter (find_completed en (pj_modules P)) (en_modules en))
        \<noteq> length (en_modules en)"
      using filter_map_length [of "find_completed en (pj_modules P)" "en_modules en"] by blast
    then have "derive_badge en (pj_modules P) = None" by (simp add: derive_badge_def)
    then show ?thesis using False found by blast
  next
    case True
    let ?c = "List.map_filter (find_completed en (pj_modules P)) (en_modules en)"
    let ?ts = "List.map_filter mo_completed ?c"
    have timed: "\<exists>t. mo_completed m = Some t \<and> valid_timestamp t" if "m \<in> set ?c" for m
    proof -
      from that obtain x where "find_completed en (pj_modules P) x = Some m"
        by (auto simp: set_map_filter)
      then have "m \<in> set (pj_modules P)" "mo_status m = Completed"
        unfolding find_completed_def find_Some_iff by auto
      then show ?thesis using module_facts(3) [OF view] projection_lists(2) [OF view P] by blast
    qed
    obtain x where "x \<in> set (en_modules en)" using enf(3) by (cases "en_modules en") auto
    then obtain m where "m \<in> set ?c" using True by (force simp: set_map_filter)
    then have ne: "?ts \<noteq> []" using timed [of m] by (metis set_map_filter empty_iff empty_set)
    then have "last (js_sort unit_cmp ?ts) \<in> set ?ts"
      by (metis last_in_set set_js_sort js_sort_eq_Nil_iff)
    then have "last (js_sort unit_cmp ?ts) \<noteq> []"
      using timed by (force simp: set_map_filter dest: valid_timestamp_nonempty)
    then have "latest_text ?ts \<noteq> None" using ne by (auto simp: latest_text_def split: list.splits)
    moreover have "length ?c = length (en_modules en)"
      using True filter_map_length [of "find_completed en (pj_modules P)" "en_modules en"] by blast
    ultimately have "derive_badge en (pj_modules P) \<noteq> None" by (simp add: derive_badge_def)
    then show ?thesis using True found by blast
  qed
qed


section \<open>The transcript\<close>

text \<open>The completed states of an enrolment are one per completed module.\<close>

lemma completed_count:
  assumes view: "loop_view es s" and P: "P = finish_projection rt i l n s"
    and en: "en \<in> set (pj_enrollments P)"
  shows "length (filter (completed_in en) (pj_modules P))
    = length (filter (module_completed (since_import es) en) (en_modules en))"
proof -
  obtain k where k: "map_of (fs_enrollments s) k = Some en"
    using en projection_lists(1) [OF view P] by blast
  note enf = enrollment_facts [OF view k]
  let ?ms = "filter (completed_in en) (pj_modules P)"
  have "distinct (map fst (fs_modules s))" using view by (simp add: loop_view_def inv_defs)
  have inj_states: "inj_on snd (set (fs_modules s))"
    using \<open>distinct (map fst (fs_modules s))\<close> module_facts(1) [OF view]
    by (intro inj_onI) (metis map_of_eq_Some_iff prod.collapse)
  have "distinct (map snd (fs_modules s))"
    using \<open>distinct (map fst (fs_modules s))\<close> inj_states by (simp add: distinct_map)
  then have "distinct (pj_modules P)" by (simp add: P finish_projection_def Let_def)
  moreover have "inj_on mo_module (set ?ms)"
    using projection_lists(2) [OF view P] module_state_unique [OF view]
    by (intro inj_onI) (auto simp: completed_in_def)
  ultimately have d: "distinct (map mo_module ?ms)" by (simp add: distinct_map)
  have "set (map mo_module ?ms) = set (filter (module_completed (since_import es) en) (en_modules en))"
  proof (intro set_eqI iffI)
    fix x assume "x \<in> set (map mo_module ?ms)"
    then obtain k m where m: "map_of (fs_modules s) k = Some m" "completed_in en m" "mo_module m = x"
      using projection_lists(2) [OF view P] by auto
    then have "stable_id x" using enf(5) by (auto simp: completed_in_def list_all_iff)
    then show "x \<in> set (filter (module_completed (since_import es) en) (en_modules en))"
      using m completed_state_iff [OF view enf(2), of x] by (auto simp: completed_in_def)
  next
    fix x assume x: "x \<in> set (filter (module_completed (since_import es) en) (en_modules en))"
    then have "stable_id x" using enf(5) by (auto simp: list_all_iff)
    then obtain k m where "map_of (fs_modules s) k = Some m" "mo_path m = en_path en"
      "mo_module m = x" "mo_content m = en_content en" "mo_status m = Completed"
      using x completed_state_iff [OF view enf(2), of x] by auto
    then have "m \<in> set (pj_modules P)" "completed_in en m" "mo_module m = x"
      using x projection_lists(2) [OF view P] by (auto simp: completed_in_def)
    then show "x \<in> set (map mo_module ?ms)" by force
  qed
  then have "card (set (map mo_module ?ms))
      = card (set (filter (module_completed (since_import es) en) (en_modules en)))" by simp
  then show ?thesis using distinct_card [OF d] distinct_card [of "filter
      (module_completed (since_import es) en) (en_modules en)"] enf(4) by simp
qed

section \<open>Order and imports\<close>

text \<open>With distinct sequence numbers the identifiers are never compared.\<close>

lemma in_order_by_sequence:
  assumes "distinct (map e_sequence es)"
  shows "in_order rt es = js_sort (\<lambda>a b. e_sequence a - e_sequence b) es"
proof (rule js_sort_cong_distinct)
  show "distinct es" using assms by (simp add: distinct_map)
  fix a b assume "a \<in> set es" "b \<in> set es" "a \<noteq> b"
  then have "e_sequence a \<noteq> e_sequence b" using assms by (auto simp: distinct_map inj_on_def)
  then show "compare_events rt a b = e_sequence a - e_sequence b"
    by (simp add: compare_events_def or_else_def)
qed

interpretation by_sequence: comparator "\<lambda>a b. e_sequence a - e_sequence (b :: learning_event)"
  by unfold_locales auto

lemma in_order_sorted:
  assumes "sorted_wrt (<) (map e_sequence es)"
  shows "in_order rt es = es"
proof (rule js_sort_id)
  have "sorted_wrt (\<lambda>a b. e_sequence a < e_sequence b) es"
    using assms by (simp add: sorted_wrt_map)
  then show "sorted_wrt (\<lambda>a b. compare_events rt a b \<le> 0) es"
    by (rule sorted_wrt_mono_rel [rotated]) (simp add: compare_events_def or_else_def)
qed

lemma in_order_perm:
  assumes "mset es = mset fs" and "distinct (map e_sequence es)"
  shows "in_order rt es = in_order rt fs"
proof -
  have "distinct (map e_sequence fs)"
    using assms by (metis mset_eq_imp_distinct_iff mset_map)
  moreover have "js_sort (\<lambda>a b. e_sequence a - e_sequence b) es
      = js_sort (\<lambda>a b. e_sequence a - e_sequence b) fs"
    using assms by (intro by_sequence.sort_permutation) (auto simp: distinct_map inj_on_def)
  ultimately show ?thesis using assms(2) by (simp add: in_order_by_sequence)
qed

text \<open>The state after an import depends on the import alone.\<close>

lemma run_loop_import:
  assumes "run_loop rt i l (xs @ e # ys) = Inr s" and "is_import (e_payload e)"
  shows "run_loop rt i l (e # ys) = Inr s"
proof -
  obtain p where p: "e_payload e = ProgressImport p" using assms(2) by (cases "e_payload e") auto
  obtain t u where t: "run_loop rt i l xs = Inr t" "project_event rt i l t e = Inr u"
    "fold_result (project_event rt i l) u ys = Inr s"
    using assms(1) by (auto simp: fold_result_append bind_result_eq_Inr)
  have ok: "wf_event e" "e_installation e = i" "e_learner e = l"
    and u: "u = apply_import e p (t\<lparr>fs_last := e_sequence e\<rparr>)"
    using t(2) p by (simp_all add: project_event_ok)
  have "project_event rt i l empty_fold e = Inr u"
    using ok p by (simp add: project_event_ok u wf_event_def empty_fold_def apply_import_def)
  with t(3) show ?thesis by simp
qed


section \<open>Attempts\<close>

lemma foldl_correct_effective:
  "aj_effective_score (foldl (\<lambda>a c. correct_attempt c a) a cs)
     = (if cs = [] then aj_effective_score a else co_score (last cs))"
  "aj_effective_passed (foldl (\<lambda>a c. correct_attempt c a) a cs)
     = (if cs = [] then aj_effective_passed a else co_passed (last cs))"
  by (induction cs rule: rev_induct) (simp_all add: correct_attempt_def)

lemma attempt_facts:
  assumes "loop_view es s" and "map_of (fs_attempts s) k = Some a"
  shows "attempt_view (since_import es) k a" "aj_id a = k"
    "enrolled_in s (aj_path a) (aj_content a) (aj_module a)"
proof -
  show v: "attempt_view (since_import es) k a"
    and "enrolled_in s (aj_path a) (aj_content a) (aj_module a)"
    using assms by (simp_all add: loop_view_def inv_defs)
  then obtain e p where e: "find (\<lambda>e. records_attempt e k) (since_import es) = Some e"
    "e_payload e = AssessmentRecord p"
    "a = foldl (\<lambda>a c. correct_attempt c a) (event_attempt e p) (corrections_of (since_import es) k)"
    by (auto simp: attempt_view_def)
  then have "ap_attempt p = k" by (auto simp: find_Some_iff records_attempt_def)
  then show "aj_id a = k" by (simp add: e(3) event_attempt_def)
qed

lemma attempt_recorded_iff:
  assumes "loop_view es s"
  shows "(\<exists>a. map_of (fs_attempts s) k = Some a) \<longleftrightarrow> (\<exists>e \<in> set (since_import es). records_attempt e k)"
proof -
  have inv: "attempt_inv (since_import es) s" using assms by (simp add: loop_view_def fold_inv_def)
  show ?thesis
  proof
    assume "\<exists>a. map_of (fs_attempts s) k = Some a"
    then show "\<exists>e \<in> set (since_import es). records_attempt e k"
      using inv by (force simp: attempt_inv_def attempt_view_def find_Some_iff)
  next
    assume "\<exists>e \<in> set (since_import es). records_attempt e k"
    then show "\<exists>a. map_of (fs_attempts s) k = Some a"
      using inv unfolding attempt_inv_def has_key_def by blast
  qed
qed

lemma attempts_distinct:
  assumes view: "loop_view es s" and P: "P = finish_projection rt i l n s"
  shows "distinct (map aj_id (pj_attempts P))"
proof -
  have d: "distinct (map fst (fs_attempts s))" using view by (simp add: loop_view_def inv_defs)
  have "map aj_id (map snd (fs_attempts s)) = map fst (fs_attempts s)"
    using d attempt_facts(2) [OF view] by (auto simp: map_of_eq_Some_iff)
  then have "distinct (map aj_id (map snd (fs_attempts s)))" using d by (simp only:)
  moreover have "mset (map aj_id (pj_attempts P)) = mset (map aj_id (map snd (fs_attempts s)))"
    by (simp only: P finish_projection_def Let_def learning_projection.simps mset_map mset_js_sort)
  ultimately show ?thesis by (metis mset_eq_imp_distinct_iff)
qed

section \<open>Badges and modules of the projection\<close>

lemma enrollment_unique:
  assumes "loop_view es s" "map_of (fs_enrollments s) k = Some en" "map_of (fs_enrollments s) k' = Some en'"
    and "en_path en = en_path en'" "en_content en = en_content en'"
  shows "en = en'"
  using assms enrollment_facts(1) [OF assms(1)] by (metis option.inject)

lemma derive_badge_facts:
  assumes "derive_badge en ms = Some b"
  shows "bp_path b = en_path en" "bp_content b = en_content en" "bp_evidence b = en_modules en"
    "\<exists>m \<in> set ms. completed_in en m \<and> mo_completed m = Some (bp_earned b)"
proof -
  let ?c = "List.map_filter (find_completed en ms) (en_modules en)"
  let ?ts = "List.map_filter mo_completed ?c"
  obtain t where t: "latest_text ?ts = Some t" and b: "b = badge_definition.extend (en_badge en)
      \<lparr>bp_path = en_path en, bp_content = en_content en, bp_earned = t, bp_evidence = en_modules en\<rparr>"
    using assms by (auto simp: derive_badge_def Let_def split: if_splits)
  show "bp_path b = en_path en" "bp_content b = en_content en" "bp_evidence b = en_modules en"
    by (simp_all add: b badge_definition.extend_def)
  have "js_sort unit_cmp ?ts \<noteq> []" "t = last (js_sort unit_cmp ?ts)"
    using t by (auto simp: latest_text_def split: list.splits if_splits)
  then have "t \<in> set ?ts" by (metis last_in_set set_js_sort)
  then obtain x m where "x \<in> set (en_modules en)" "find_completed en ms x = Some m" "mo_completed m = Some t"
    by (auto simp: set_map_filter)
  then have "m \<in> set ms \<and> completed_in en m \<and> mo_completed m = Some t"
    by (auto simp: find_completed_def find_Some_iff completed_in_def)
  then show "\<exists>m \<in> set ms. completed_in en m \<and> mo_completed m = Some (bp_earned b)"
    by (auto simp: b badge_definition.extend_def)
qed

lemma projection_badge_members:
  assumes "P = finish_projection rt i l n s"
  shows "b \<in> set (pj_badges P) \<longleftrightarrow> (\<exists>en \<in> set (pj_enrollments P). derive_badge en (pj_modules P) = Some b)"
  by (simp add: assms finish_projection_def Let_def set_map_filter)

lemma module_known_iff:
  assumes view: "loop_view es s" and ids: "stable_id a" "stable_id b"
  shows "(\<exists>k m. map_of (fs_modules s) k = Some m \<and> mo_path m = a \<and> mo_module m = b \<and> mo_content m = c)
    \<longleftrightarrow> (\<exists>e \<in> set (since_import es). visits e a b c \<or> completes e a b c)"
proof -
  have inv: "module_inv (since_import es) s" using view by (simp add: loop_view_def fold_inv_def)
  show ?thesis
  proof
    assume "\<exists>e \<in> set (since_import es). visits e a b c \<or> completes e a b c"
    then obtain m where m: "map_of (fs_modules s) (versioned_module_key a b c) = Some m"
      using inv unfolding module_inv_def has_key_def by blast
    then have "module_view (since_import es) (versioned_module_key a b c) m"
      using inv by (simp add: module_inv_def)
    from m module_view_same [OF this ids] show "\<exists>k m. map_of (fs_modules s) k = Some m
        \<and> mo_path m = a \<and> mo_module m = b \<and> mo_content m = c" by blast
  next
    assume "\<exists>k m. map_of (fs_modules s) k = Some m \<and> mo_path m = a \<and> mo_module m = b \<and> mo_content m = c"
    then obtain k m where m: "map_of (fs_modules s) k = Some m" "mo_path m = a" "mo_module m = b"
      "mo_content m = c" by blast
    then have v: "module_view (since_import es) k m" using inv by (simp add: module_inv_def)
    then show "\<exists>e \<in> set (since_import es). visits e a b c \<or> completes e a b c"
      using m by (auto simp: module_view_def filter_empty_conv)
  qed
qed

end
