(* ===== verification/Sample_Records.thy ===== *)
theory Sample_Records
  imports Projection_Laws
begin

text \<open>
  Concrete values for the witnesses: a runtime whose parameters are ordinary functions (the
  code-unit order for \<open>localeCompare\<close>, a padded length for the digest), and the stream of a
  learner who enrols, is assessed, corrected, and completes a path of two modules.
\<close>

definition sample_runtime :: runtime where
  "sample_runtime = \<lparr>collate = unit_cmp, sha256_hex = (\<lambda>s. pad_text 64 (length s)),
     num_text = (\<lambda>_. ''0'')\<rparr>"

definition sample_digest :: string where
  "sample_digest = replicate 64 CHR ''a''"

definition sample_actor :: learning_actor where
  "sample_actor = \<lparr>actor_type = LearnerActor, actor_user = Some ''learner-1''\<rparr>"

definition sample_event :: "nat \<Rightarrow> learning_payload \<Rightarrow> learning_event" where
  "sample_event n p = with_sequence
     \<lparr>e_schema = V1_1, e_id = ''learning-event-'' @ nat_text n, e_installation = ''school-1'',
      e_learner = ''learner-1'', e_key = ''idempotency-key-'' @ nat_text n, e_content = ''1.0.0'',
      e_digest = sample_digest, e_occurred = ''2026-03-01T10:00:00Z'',
      e_recorded = ''2026-03-01T10:00:01Z'', e_actor = sample_actor, e_payload = p\<rparr> (int n)"

lemma sample_event_sel [simp]:
  "e_payload (sample_event n p) = p" "e_content (sample_event n p) = ''1.0.0''"
  "e_occurred (sample_event n p) = ''2026-03-01T10:00:00Z''" "e_sequence (sample_event n p) = int n"
  "e_installation (sample_event n p) = ''school-1''" "e_learner (sample_event n p) = ''learner-1''"
  "e_key (sample_event n p) = ''idempotency-key-'' @ nat_text n" "e_digest (sample_event n p) = sample_digest"
  by (simp_all add: sample_event_def)

definition sample_badge :: badge_definition where
  "sample_badge = \<lparr>bd_id = ''badge-a'', bd_name = ''Badge A'', bd_description = ''Path A done''\<rparr>"

definition enroll_payload :: learning_payload where
  "enroll_payload = PathEnroll \<lparr>pp_path = ''path-a'', pp_title = ''Path A'',
     pp_modules = [''module-a'', ''module-b''], pp_badge = sample_badge\<rparr>"

definition visit_payload :: learning_payload where
  "visit_payload = ModuleVisit \<lparr>mp_path = ''path-a'', mp_module = ''module-a''\<rparr>"

definition record_payload :: learning_payload where
  "record_payload = AssessmentRecord \<lparr>ap_attempt = ''attempt-1'', ap_path = ''path-a'',
     ap_module = ''module-a'', ap_version = ''v1'', ap_answers = [(''question-1'', Some 2)],
     ap_score = 60, ap_passed = False\<rparr>"

definition correct_payload :: learning_payload where
  "correct_payload = AssessmentCorrect \<lparr>xp_correction = ''correction-1'', xp_attempt = ''attempt-1'',
     xp_version = ''v1'', xp_score = 90, xp_passed = True, xp_reason = ''Wrong key''\<rparr>"

definition complete_payload :: "string \<Rightarrow> learning_payload" where
  "complete_payload m = ModuleComplete \<lparr>cp_path = ''path-a'', cp_module = m,
     cp_evidence = [''attempt-1'']\<rparr>"

definition sample_progress :: learner_progress where
  "sample_progress = \<lparr>lp_display_name = ''Ada'', lp_started_paths = [''path-a''],
     lp_completed_modules = [], lp_attempts = [], lp_capstones = None, lp_badges = [],
     lp_recent = None, lp_updated_at = ''2026-02-01T00:00:00Z''\<rparr>"

definition import_payload_1 :: learning_payload where
  "import_payload_1 = ProgressImport \<lparr>ip_source = PortableJson, ip_checksum = sample_digest,
     ip_synchronized_at = ''2026-03-01T09:00:00Z'', ip_progress = sample_progress\<rparr>"

definition sample_stream :: "learning_event list" where
  "sample_stream = [sample_event 1 import_payload_1, sample_event 2 enroll_payload,
     sample_event 3 visit_payload, sample_event 4 record_payload, sample_event 5 correct_payload,
     sample_event 6 (complete_payload ''module-a''), sample_event 7 (complete_payload ''module-b'')]"

lemmas sample_payloads = enroll_payload_def visit_payload_def record_payload_def correct_payload_def
  complete_payload_def import_payload_1_def

text \<open>A concrete timestamp is checked on its fields.\<close>

lemma sample_stamps [simp]:
  "valid_timestamp ''2026-03-01T10:00:00Z''"
  "valid_timestamp ''2026-03-01T10:00:01Z''"
  "valid_timestamp ''2026-03-01T09:00:00Z''"
  "valid_timestamp ''2026-02-01T00:00:00Z''"
  unfolding valid_timestamp_iff by code_simp+

lemma sample_times [simp]:
  "date_parse ''2026-03-01T10:00:00Z'' = Some 1772359200000"
  "date_parse ''2026-03-01T10:00:01Z'' = Some 1772359201000"
  by code_simp+

definition sample_ids :: "nat \<Rightarrow> bool" where
  "sample_ids n \<longleftrightarrow> stable_id (''learning-event-'' @ nat_text n)
     \<and> idempotency_key (''idempotency-key-'' @ nat_text n)"

lemma sample_ids_ok [simp]: "sample_ids 1" "sample_ids 2" "sample_ids 3" "sample_ids 4"
  "sample_ids 5" "sample_ids 6" "sample_ids 7"
  by code_simp+

lemma sample_parts [simp]: "stable_id ''school-1''" "stable_id ''learner-1''" "version_id ''1.0.0''"
  "digest_text sample_digest" "wf_actor sample_actor"
  by code_simp+

lemma sample_event_wf: "sample_ids n \<Longrightarrow> 1 \<le> n \<Longrightarrow> wf_event (sample_event n p) \<longleftrightarrow> wf_payload p"
  by (simp add: wf_event_def sample_event_def sample_ids_def)

lemma sample_payloads_wf [simp]:
  "wf_payload enroll_payload" "wf_payload visit_payload" "wf_payload record_payload"
  "wf_payload correct_payload" "wf_payload (complete_payload ''module-a'')"
  "wf_payload (complete_payload ''module-b'')"
  by code_simp+

lemma sample_import_wf [simp]: "wf_payload import_payload_1"
proof -
  have "display_text ''Ada'' 80 \<and> wf_strings [''path-a''] 1000 \<and> wf_strings [] 10000" by code_simp
  then show ?thesis by (simp add: import_payload_1_def wf_progress_def sample_progress_def)
qed

lemma sample_stream_wf: "e \<in> set sample_stream \<Longrightarrow> wf_event e"
  by (auto simp: sample_stream_def sample_event_wf simp del: One_nat_def)

end
