(* ===== verification/Merge_Samples.thy ===== *)
theory Merge_Samples
  imports Merge_Theorems Sample_Records
begin

text \<open>
  A concrete account merge for the witnesses: account \<open>b\<close> survives account \<open>a\<close>, which has a profile; both have granted the one
  required consent, and the two display names differ.
\<close>

definition merge_user :: "string \<Rightarrow> string \<Rightarrow> json" where
  "merge_user i name = JObj [(''id'', JStr i), (''display_name'', JStr name), (''primary_email'', JStr ''m'')]"

definition merge_profile :: json where
  "merge_profile = JObj [(''user_id'', JStr ''a''), (''bio'', JStr ''B'')]"

definition merge_consent :: "string \<Rightarrow> string \<Rightarrow> json" where
  "merge_consent i user = JObj [(''id'', JStr i), (''user_id'', JStr user), (''purpose'', JStr ''terms''), (''policy_version'', JStr ''1''),
     (''decision'', JStr ''granted''), (''decided_at'', JStr ''t'')]"

definition merge_rows :: "string \<Rightarrow> json list" where
  "merge_rows t = (if t = ''users'' then [merge_user ''a'' ''A'', merge_user ''b'' ''Z'']
     else if t = ''user_profiles'' then [merge_profile]
     else if t = ''consent_records'' then [merge_consent ''1'' ''a'', merge_consent ''2'' ''b''] else [])"

definition merge_sample_entry :: "string \<Rightarrow> string \<Rightarrow> json \<Rightarrow> merge_entry" where
  "merge_sample_entry t key row = \<lparr>me_table = t, me_key = key, me_row = row,
     me_digest = sha256_hex sample_runtime (canonical_json sample_runtime row)\<rparr>"

definition merge_sample_entries :: "merge_entry list" where
  "merge_sample_entries = [merge_sample_entry ''consent_records'' ''1'' (merge_consent ''1'' ''a''),
     merge_sample_entry ''consent_records'' ''2'' (merge_consent ''2'' ''b''), merge_sample_entry ''user_profiles'' ''a'' merge_profile,
     merge_sample_entry ''users'' ''a'' (merge_user ''a'' ''A''), merge_sample_entry ''users'' ''b'' (merge_user ''b'' ''Z'')]"

definition merge_sample_snapshot :: merge_snapshot where
  "merge_sample_snapshot = \<lparr>ms_entries = merge_sample_entries, ms_digest = snapshot_digest sample_runtime merge_sample_entries,
     ms_counts = map (\<lambda>t. (t, owner_counts sample_runtime ''a'' ''b'' t (merge_rows t))) merge_tables\<rparr>"

definition merge_sample_conflicts :: "merge_conflict list" where
  "merge_sample_conflicts = [\<lparr>mf_key = ''account.displayName'', mf_field = ''displayName'', mf_source_present = True, mf_survivor_present = True,
     mf_source_value = JStr ''A'', mf_survivor_value = JStr ''Z'', mf_required = True,
     mf_description = ''Choose the display name retained by the survivor account.''\<rparr>]"

definition merge_sample_case :: merge_case where
  "merge_sample_case = \<lparr>mk_id = ''case'', mk_source = Some ''a'', mk_survivor = Some ''b'', mk_source_proof = Some ''p'',
     mk_survivor_proof = Some ''q'', mk_status = ''preview'', mk_conflicts = merge_sample_conflicts,
     mk_preview_digest = ms_digest merge_sample_snapshot, mk_snapshot_digest = Some (ms_digest merge_sample_snapshot),
     mk_key = ''key'', mk_expires = ''later''\<rparr>"

definition merge_sample_request :: merge_request where
  "merge_sample_request = \<lparr>mr_confirmation = ''MERGE a INTO b'', mr_key = ''key'',
     mr_resolutions = JObj [(''account.displayName'', JStr ''source'')]\<rparr>"

definition merge_sample_proof :: "string \<Rightarrow> merge_proof" where
  "merge_sample_proof user = \<lparr>mp_user = Some user, mp_status = ''available'', mp_expires = ''later''\<rparr>"

definition merge_sample_world :: merge_world where
  "merge_sample_world = \<lparr>mw_state = (\<lambda>_. Some ''active''),
     mw_proof = (\<lambda>p. if p = ''p'' then Some (merge_sample_proof ''a'') else Some (merge_sample_proof ''b'')),
     mw_rows = merge_rows, mw_other_owner = True\<rparr>"

definition merge_sample_dates :: "string \<Rightarrow> int option" where
  "merge_sample_dates t = (if t = ''now'' then Some 1 else if t = ''later'' then Some 2 else None)"

definition merge_sample_consents :: "consent_requirement list" where
  "merge_sample_consents = [\<lparr>cq_purpose = ''terms'', cq_version = ''1''\<rparr>]"

lemma merge_row_user [simp]:
  "row_user rt ''users'' (merge_user i name) = i" "row_user rt ''user_profiles'' merge_profile = ''a''"
  "row_user rt ''consent_records'' (merge_consent i user) = user"
  by (simp_all add: row_user_def merge_user_def merge_profile_def merge_consent_def)

lemma merge_user_id [simp]: "get_prop (merge_user i name) ''id'' = JStr i"
  by (simp add: merge_user_def)

lemma merge_entry_sel [simp]:
  "me_table (merge_sample_entry t key row) = t" "me_key (merge_sample_entry t key row) = key" "me_row (merge_sample_entry t key row) = row"
  by (simp_all add: merge_sample_entry_def)

lemma merge_sample_entry_built:
  "snapshot_entry sample_runtime ''users'' (merge_user i name) = Inr (merge_sample_entry ''users'' i (merge_user i name))"
  "snapshot_entry sample_runtime ''user_profiles'' merge_profile = Inr (merge_sample_entry ''user_profiles'' ''a'' merge_profile)"
  "snapshot_entry sample_runtime ''consent_records'' (merge_consent i user) = Inr (merge_sample_entry ''consent_records'' i (merge_consent i user))"
  by (simp_all add: snapshot_entry_def snapshot_row_key_def merge_sample_entry_def row_texts_def)
    (simp_all add: merge_consent_def merge_user_def)

lemma merge_sample_rows:
  "snapshot_entries sample_runtime t (merge_rows t) = Inr (filter (\<lambda>e. me_table e = t) merge_sample_entries)"
proof -
  consider "t = ''users''" | "t = ''user_profiles''" | "t = ''consent_records''" | "t \<notin> {''users'', ''user_profiles'', ''consent_records''}" by blast
  then show ?thesis by cases (auto simp: merge_rows_def merge_sample_entry_built merge_sample_entries_def)
qed

lemma merge_sample_captured: "capture_snapshot sample_runtime merge_rows ''a'' ''b'' = Inr merge_sample_snapshot"
proof -
  have "capture_tables sample_runtime merge_rows ''a'' ''b'' ts = Inr (concat (map (\<lambda>t. filter (\<lambda>e. me_table e = t) merge_sample_entries) ts),
      map (\<lambda>t. (t, owner_counts sample_runtime ''a'' ''b'' t (merge_rows t))) ts)" for ts
    by (induction ts) (simp_all add: merge_sample_rows foldl_counts)
  moreover have "js_sort (entry_order sample_runtime)
      (concat (map (\<lambda>t. filter (\<lambda>e. me_table e = t) merge_sample_entries) merge_tables)) = merge_sample_entries"
    by (simp add: merge_tables_def merge_sample_entries_def entry_order_def sample_runtime_def nul_def)
  ultimately show ?thesis by (simp add: capture_snapshot_def merge_sample_snapshot_def)
qed

lemma merge_sample_rows_of:
  "rows_of sample_runtime merge_sample_snapshot t user = map me_row (filter (\<lambda>e. me_table e = t \<and> row_user sample_runtime t (me_row e) = user)
     merge_sample_entries)"
  unfolding rows_of_def merge_sample_snapshot_def merge_snapshot.simps by (intro arg_cong [where f = "map me_row"] filter_cong) auto

lemma merge_sample_lists [simp]:
  "rows_of sample_runtime merge_sample_snapshot ''users'' ''a'' = [merge_user ''a'' ''A'']"
  "rows_of sample_runtime merge_sample_snapshot ''users'' ''b'' = [merge_user ''b'' ''Z'']"
  "rows_of sample_runtime merge_sample_snapshot ''user_profiles'' ''a'' = [merge_profile]"
  "rows_of sample_runtime merge_sample_snapshot ''user_profiles'' ''b'' = []"
  "rows_of sample_runtime merge_sample_snapshot ''role_assignments'' user = []"
  "rows_of sample_runtime merge_sample_snapshot ''account_merge_governance_constraints'' user = []"
  "rows_of sample_runtime merge_sample_snapshot ''consent_records'' ''a'' = [merge_consent ''1'' ''a'']"
  "rows_of sample_runtime merge_sample_snapshot ''consent_records'' ''b'' = [merge_consent ''2'' ''b'']"
  by (simp_all add: merge_sample_rows_of merge_sample_entries_def)

lemma merge_sample_consent: "consent_reason sample_runtime [merge_consent i user] \<lparr>cq_purpose = ''terms'', cq_version = ''1''\<rparr> = None"
  by (simp add: consent_reason_def latest_decision_def merge_consent_def sample_runtime_def)

lemma merge_sample_unblocked: "build_policy_blocks sample_runtime merge_sample_snapshot ''a'' ''b'' merge_sample_consents = []"
  by (simp add: build_policy_blocks_def side_blocks_def consent_blocks_def constraint_blocks_def merge_sample_consents_def merge_sample_consent)

lemma merge_sample_selected:
  "\<exists>sel. select_merge sample_runtime other merge_sample_snapshot ''a'' ''b'' r = Inr sel \<and> sl_snapshot sel = merge_sample_snapshot"
  by (simp add: select_merge_def selected_owner_def)

lemma merge_sample_completes:
  "\<exists>sel. complete_merge sample_runtime merge_sample_dates merge_sample_consents ''now'' merge_sample_request merge_sample_world (Some merge_sample_case)
     = Inr (Selected sel) \<and> sl_snapshot sel = merge_sample_snapshot"
proof -
  have valid: "validate_resolutions merge_sample_conflicts (JObj [(''account.displayName'', JStr ''source'')]) = Inr ()"
    by (simp add: validate_resolutions_def merge_sample_conflicts_def)
  have usable: "proof_usable merge_sample_dates ''now'' user (Some (merge_sample_proof user))" for user
    by (simp add: proof_usable_def merge_sample_proof_def time_reached_def merge_sample_dates_def)
  have fresh: "\<not> time_reached merge_sample_dates ''now'' ''later''" by (simp add: time_reached_def merge_sample_dates_def)
  obtain sel where sel: "select_merge sample_runtime True merge_sample_snapshot ''a'' ''b'' (JObj [(''account.displayName'', JStr ''source'')]) = Inr sel"
    "sl_snapshot sel = merge_sample_snapshot" using merge_sample_selected by blast
  then show ?thesis
    by (simp add: complete_merge_def complete_guarded_def given_def merge_sample_case_def merge_sample_request_def merge_sample_world_def
        valid usable fresh merge_sample_captured merge_sample_unblocked)
qed

theorem merge_completes_safely_witness:
  "\<exists>sel. complete_merge sample_runtime merge_sample_dates merge_sample_consents ''now'' merge_sample_request merge_sample_world (Some merge_sample_case)
       = Inr (Selected sel)
     \<and> account_mergeable sample_runtime (sl_snapshot sel) merge_sample_consents ''a''
     \<and> account_mergeable sample_runtime (sl_snapshot sel) merge_sample_consents ''b''
     \<and> get_prop (mr_resolutions merge_sample_request) ''account.displayName'' \<in> {JStr ''source'', JStr ''survivor''}"
proof -
  obtain sel where sel: "complete_merge sample_runtime merge_sample_dates merge_sample_consents ''now'' merge_sample_request merge_sample_world
      (Some merge_sample_case) = Inr (Selected sel)" using merge_sample_completes by blast
  have case_ids: "mk_source merge_sample_case = Some ''a''" "mk_survivor merge_sample_case = Some ''b''"
    "mk_conflicts merge_sample_case = merge_sample_conflicts" by (simp_all add: merge_sample_case_def)
  show ?thesis using merge_completes_safely [OF sel] sel unfolding case_ids by (auto simp: merge_sample_conflicts_def)
qed

lemma merge_sample_found: "build_merge_conflicts sample_runtime merge_sample_snapshot ''a'' ''b'' = merge_sample_conflicts"
proof -
  have users: "user_row merge_sample_snapshot ''a'' = Some (merge_user ''a'' ''A'')" "user_row merge_sample_snapshot ''b'' = Some (merge_user ''b'' ''Z'')"
    by (rule the_user_row [of sample_runtime]; simp add: merge_user_def)+
  have roles: "\<not> has_role sample_runtime merge_sample_snapshot user ''owner''" for user
    by (simp add: has_role_def merge_sample_snapshot_def merge_sample_entries_def)
  have texts: "quote_text ''A'' \<noteq> quote_text ''Z''" by code_simp
  have "found_conflicts sample_runtime merge_sample_snapshot ''a'' ''b'' (merge_user ''a'' ''A'') (merge_user ''b'' ''Z'') = merge_sample_conflicts"
    by (simp add: found_conflicts_def first_row roles profile_columns_def column_of_def)
      (simp add: value_conflict_def value_present_def merge_user_def display_value_def merge_sample_conflicts_def sample_runtime_def texts)
  then show ?thesis by (simp add: build_merge_conflicts_def users merge_sample_conflicts_def)
qed

theorem merge_values_settled_witness:
  "\<exists>sel. complete_merge sample_runtime merge_sample_dates merge_sample_consents ''now'' merge_sample_request merge_sample_world (Some merge_sample_case)
       = Inr (Selected sel)
     \<and> settled sample_runtime (mr_resolutions merge_sample_request) ''account.displayName'' (JStr ''A'') (JStr ''Z'') (sl_name sel)"
proof -
  obtain sel where sel: "complete_merge sample_runtime merge_sample_dates merge_sample_consents ''now'' merge_sample_request merge_sample_world
      (Some merge_sample_case) = Inr (Selected sel)" and s: "sl_snapshot sel = merge_sample_snapshot" using merge_sample_completes by blast
  have "settled sample_runtime (mr_resolutions merge_sample_request) ''account.displayName'' (get_prop (merge_user ''a'' ''A'') ''display_name'')
      (get_prop (merge_user ''b'' ''Z'') ''display_name'') (sl_name sel)"
    by (rule merge_values_settled [OF sel, where source = "''a''" and survivor = "''b''" and a = "merge_user ''a'' ''A''"
        and b = "merge_user ''b'' ''Z''", THEN conjunct1])
      (simp_all add: s merge_sample_found, simp_all add: merge_sample_case_def merge_user_def)
  then show ?thesis using sel by (auto simp: merge_user_def)
qed

definition merge_sample_parse :: "string \<Rightarrow> json option" where
  "merge_sample_parse = map_of (map (\<lambda>k. (stringify sample_runtime (JArr (mc_rows k)), JArr (mc_rows k)))
     (chunk_snapshot sample_runtime merge_sample_entries))"

lemma merge_sample_chunks:
  "map mc_rows (chunk_snapshot sample_runtime merge_sample_entries)
   = [[merge_consent ''1'' ''a'', merge_consent ''2'' ''b''], [merge_profile], [merge_user ''a'' ''A'', merge_user ''b'' ''Z'']]"
  by (simp add: chunk_snapshot_def merge_sample_entries_def js_unique_def table_chunks.simps)

lemma merge_sample_order:
  assumes "x \<in> set merge_sample_entries" and "y \<in> set merge_sample_entries" and "entry_order sample_runtime x y = 0"
  shows "x = y"
proof -
  have "me_table x @ nul # me_key x = me_table y @ nul # me_key y" using assms(3) by (simp add: entry_order_def sample_runtime_def unit_cmp_0_iff)
  then show ?thesis using assms(1,2) by (auto simp: merge_sample_entries_def nul_def)
qed

lemma merge_sample_parses:
  assumes "k \<in> set (chunk_snapshot sample_runtime merge_sample_entries)"
  shows "merge_sample_parse (stringify sample_runtime (JArr (mc_rows k))) = Some (JArr (mc_rows k))"
proof -
  let ?text = "\<lambda>rows. stringify sample_runtime (JArr rows)"
  let ?rows = "[[merge_consent ''1'' ''a'', merge_consent ''2'' ''b''], [merge_profile], [merge_user ''a'' ''A'', merge_user ''b'' ''Z'']]"
  have parse: "merge_sample_parse = map_of (map (\<lambda>rows. (?text rows, JArr rows)) ?rows)"
    unfolding merge_sample_parse_def merge_sample_chunks [symmetric] by (simp add: comp_def)
  have quoted: "quote_text ''id'' = [CHR 0x22, CHR ''i'', CHR ''d'', CHR 0x22]" "quote_text ''1'' = [CHR 0x22, CHR ''1'', CHR 0x22]"
    "quote_text ''a'' = [CHR 0x22, CHR ''a'', CHR 0x22]"
    "quote_text ''user_id'' = [CHR 0x22, CHR ''u'', CHR ''s'', CHR ''e'', CHR ''r'', CHR ''_'', CHR ''i'', CHR ''d'', CHR 0x22]"
    by code_simp+
  have texts: "distinct (map ?text ?rows)"
    by (simp add: merge_consent_def merge_user_def merge_profile_def quoted)
  have "mc_rows k \<in> set ?rows" using assms unfolding merge_sample_chunks [symmetric] by simp
  then show ?thesis unfolding parse using texts by (intro map_of_is_SomeI) (auto simp: comp_def)
qed

theorem stored_snapshot_reads_back_witness:
  "capture_snapshot sample_runtime merge_rows ''a'' ''b'' = Inr merge_sample_snapshot
   \<and> load_snapshot sample_runtime merge_sample_parse merge_sample_case
       (rev (map (store_chunk sample_runtime) (chunk_snapshot sample_runtime merge_sample_entries))) = Inr merge_sample_snapshot"
proof (intro conjI)
  have entries: "ms_entries merge_sample_snapshot = merge_sample_entries" by (simp add: merge_sample_snapshot_def)
  have sorted: "comparator (collate sample_runtime)" using units.comparator_axioms by (simp add: sample_runtime_def)
  show "load_snapshot sample_runtime merge_sample_parse merge_sample_case
      (rev (map (store_chunk sample_runtime) (chunk_snapshot sample_runtime merge_sample_entries))) = Inr merge_sample_snapshot"
    by (rule stored_snapshot_reads_back [OF sorted merge_sample_captured])
      (auto simp: entries merge_sample_parses merge_rows_def merge_user_def merge_profile_def merge_consent_def merge_sample_case_def
        simp del: stringify.simps intro: merge_sample_order split: if_splits)
qed (rule merge_sample_captured)

end
