(* ===== verification/Policy_Theorems.thy ===== *)
theory Policy_Theorems
  imports Learner_Data_Policy Sample_Records
begin

text \<open>
  What a valid learner-data policy guarantees, what the default one allows, and which consents an account merge asks for
  (\<open>src/learner-data-policy.ts\<close>, \<open>src/account-merge-policy.ts\<close>).
\<close>

section \<open>The life of an account\<close>

inductive account_path :: "learner_data_policy \<Rightarrow> string \<Rightarrow> string \<Rightarrow> bool" for p s where
  stay: "account_path p s s"
| move_on: "account_path p s t \<Longrightarrow> can_transition p t u \<Longrightarrow> account_path p s u"

lemma account_path_step: "can_transition p s t \<Longrightarrow> account_path p s t"
  using account_path.intros by blast

lemma account_path_trans: "account_path p t u \<Longrightarrow> account_path p s t \<Longrightarrow> account_path p s u"
  by (induction rule: account_path.induct) (auto intro: account_path.intros)

lemma can_transition_iff: "can_transition p s t \<longleftrightarrow> (\<exists>m \<in> set (lp_transitions p). lt_from m = s \<and> lt_to m = t)"
  by (auto simp: can_transition_def list_ex_iff)

section \<open>What the validator accepts\<close>

lemma lifecycle_errors_Nil: "lifecycle_errors p = [] \<longleftrightarrow> set learner_account_states \<subseteq> set (lp_states p)
    \<and> (\<forall>m \<in> set (lp_transitions p). lt_from m \<in> set (lp_states p) \<and> lt_to m \<in> set (lp_states p) \<and> lt_from m \<noteq> ''deleted'')
    \<and> can_transition p ''deletion-requested'' ''deleted'' \<and> can_transition p ''deletion-requested'' ''active''"
  by (auto simp: lifecycle_errors_def transition_errors_def)

lemma policy_record_errors_Nil: "policy_record_errors p = [] \<longleftrightarrow> distinct (map cs_id (lp_purposes p))
    \<and> (\<exists>c \<in> set (lp_purposes p). cs_id c = ''learning-record'' \<and> cs_required c) \<and> distinct (map rc_id (lp_retention p))
    \<and> (\<forall>c \<in> set (lp_retention p). \<forall>n. rc_days c = Some n \<longrightarrow> \<not> num_le n (Fin 0))"
  by (auto simp: policy_record_errors_def list_ex_iff split: option.splits)

lemma grant_errors_Nil: "grant_errors p = [] \<longleftrightarrow> set learner_data_roles \<subseteq> rg_role ` set (pz_grants (lp_authorization p))
    \<and> (\<forall>q. role_can p ''content-editor'' q \<longrightarrow> \<not> learner_record_permission q)"
  by (auto simp: grant_errors_def role_can_def list_ex_iff Let_def split: option.splits)

lemma validate_Nil: "validate_learner_data_policy p = [] \<longleftrightarrow> setting_errors p = [] \<and> lifecycle_errors p = [] \<and> policy_record_errors p = []
    \<and> safeguard_errors p = [] \<and> grant_errors p = []"
  by (simp add: validate_learner_data_policy_def)

section \<open>The default policy\<close>

definition self_permission :: "string \<Rightarrow> bool" where
  "self_permission q \<longleftrightarrow> begins_with (rev '':self'') (rev q)"

lemma default_policy_valid: "validate_learner_data_policy default_learner_data_policy = []"
proof -
  have "setting_errors default_learner_data_policy = []" by code_simp
  moreover have "safeguard_errors default_learner_data_policy = []" by code_simp
  moreover have "policy_record_errors default_learner_data_policy = []"
    by (simp add: policy_record_errors_Nil default_learner_data_policy_def default_purposes_def default_retention_def)
  moreover have "lifecycle_errors default_learner_data_policy = []"
    by (simp add: lifecycle_errors_Nil can_transition_iff default_learner_data_policy_def default_transitions_def move_def learner_account_states_def)
  moreover have "grant_errors default_learner_data_policy = []"
    by (simp add: grant_errors_Nil role_can_def default_learner_data_policy_def default_grants_def learner_data_roles_def
        learner_record_permission_def begins_with_def)
  ultimately show ?thesis by (simp add: validate_Nil)
qed

lemma default_moves: "list_all (\<lambda>s. can_transition default_learner_data_policy s ''deletion-requested'')
    [''created'', ''active'', ''suspended'', ''recovery-pending''] \<and> can_transition default_learner_data_policy ''deletion-requested'' ''deleted''"
  by code_simp

text \<open>
  The default policy is valid, lets every account be deleted, and grants the permissions on one's own record to learners and
  to nobody else; every permission is granted to some role.
\<close>

theorem default_policy_protects:
  "validate_learner_data_policy default_learner_data_policy = []
   \<and> list_all (\<lambda>s. account_path default_learner_data_policy s ''deleted'') learner_account_states
   \<and> list_all (\<lambda>r. filter (role_can default_learner_data_policy r) (filter self_permission learner_data_permissions)
        = (if r = ''learner'' then filter self_permission learner_data_permissions else [])) learner_data_roles
   \<and> list_all (\<lambda>q. list_ex (\<lambda>r. role_can default_learner_data_policy r q) learner_data_roles) learner_data_permissions"
proof (intro conjI)
  have can: "role_can default_learner_data_policy = (\<lambda>r q. case find (\<lambda>g. rg_role g = r) default_grants of
      None \<Rightarrow> False | Some g \<Rightarrow> q \<in> set (rg_permissions g))"
    by (simp add: role_can_def default_learner_data_policy_def fun_eq_iff)
  show "validate_learner_data_policy default_learner_data_policy = []" by (rule default_policy_valid)
  show "list_all (\<lambda>s. account_path default_learner_data_policy s ''deleted'') learner_account_states"
    using default_moves by (auto simp: learner_account_states_def intro: account_path.stay account_path_step account_path_trans)
  show "list_all (\<lambda>r. filter (role_can default_learner_data_policy r) (filter self_permission learner_data_permissions)
        = (if r = ''learner'' then filter self_permission learner_data_permissions else [])) learner_data_roles"
    unfolding can by code_simp
  show "list_all (\<lambda>q. list_ex (\<lambda>r. role_can default_learner_data_policy r q) learner_data_roles) learner_data_permissions"
    unfolding can by code_simp
qed

section \<open>Permissions of content editors\<close>

text \<open>
  The listed permissions that the validator lets a policy give to content editors. Its test knows learner records by three prefixes, so
  reading learner summaries and managing consent are among them, although the documentation keeps editors from learner records.
\<close>

definition editor_permissions :: "string list" where
  "editor_permissions = [''consent:manage:self'', ''learner-summary:read:tenant'', ''account:suspend:tenant'', ''account:recover:tenant'',
     ''badge:correct:tenant'', ''content:manage'', ''projection:rebuild:tenant'']"

lemma editor_permissions_listed: "set editor_permissions = {q \<in> set learner_data_permissions. \<not> learner_record_permission q}"
proof -
  have "filter (\<lambda>q. \<not> learner_record_permission q) learner_data_permissions = editor_permissions" by code_simp
  then show ?thesis by (metis set_filter)
qed

definition lenient_policy :: learner_data_policy where
  "lenient_policy = default_learner_data_policy\<lparr>lp_authorization := (lp_authorization default_learner_data_policy)
     \<lparr>pz_grants := map (\<lambda>g. if rg_role g = ''content-editor'' then g\<lparr>rg_permissions := editor_permissions\<rparr> else g) default_grants\<rparr>\<rparr>"

lemma lenient_policy_valid:
  "validate_learner_data_policy lenient_policy = []" "role_can lenient_policy ''content-editor'' q \<longleftrightarrow> q \<in> set editor_permissions"
proof -
  have same: "setting_errors lenient_policy = []" "safeguard_errors lenient_policy = []" "policy_record_errors lenient_policy = []" "lifecycle_errors lenient_policy = []"
    using default_policy_valid
    by (simp_all add: validate_Nil lenient_policy_def setting_errors_def safeguard_errors_def policy_record_errors_def lifecycle_errors_def
        can_transition_def default_learner_data_policy_def del: complain_Nil append_is_Nil_conv)
  show can: "role_can lenient_policy ''content-editor'' q \<longleftrightarrow> q \<in> set editor_permissions" for q
    by (simp add: role_can_def lenient_policy_def default_grants_def)
  have roles: "set learner_data_roles \<subseteq> rg_role ` set (pz_grants (lp_authorization lenient_policy))"
    by (simp add: lenient_policy_def default_grants_def learner_data_roles_def)
  have "grant_errors lenient_policy = []"
    unfolding grant_errors_Nil can editor_permissions_listed using roles by blast
  then show "validate_learner_data_policy lenient_policy = []" using same by (simp add: validate_Nil)
qed

lemma editor_reads_summaries:
  "validate_learner_data_policy lenient_policy = [] \<and> role_can lenient_policy ''content-editor'' ''learner-summary:read:tenant''"
  by (simp add: lenient_policy_valid editor_permissions_def)

text \<open>
  C39. What a valid policy guarantees. A deleted account stays deleted; an account in a listed state only reaches listed states; a
  requested deletion can be completed and can be cancelled; a content editor has no permission on profiles, transcripts or
  deletions, and the listed permissions that some valid policy gives to content editors are exactly \<open>editor_permissions\<close>, which
  include reading learner summaries; a retention window that is a number is positive; no consent or retention ID is listed twice; and e-mail addresses
  neither identify nor merge accounts.
\<close>

theorem valid_policy_guarantees:
  assumes "validate_learner_data_policy p = []"
  shows "(account_path p ''deleted'' s \<longleftrightarrow> s = ''deleted'')
    \<and> (s \<in> set (lp_states p) \<longrightarrow> account_path p s t \<longrightarrow> t \<in> set (lp_states p))
    \<and> account_path p ''deletion-requested'' ''deleted'' \<and> account_path p ''deletion-requested'' ''active''
    \<and> (role_can p ''content-editor'' q \<longrightarrow> \<not> learner_record_permission q)
    \<and> (\<forall>r \<in> set learner_data_permissions. r \<in> set editor_permissions
         \<longleftrightarrow> (\<exists>p'. validate_learner_data_policy p' = [] \<and> role_can p' ''content-editor'' r))
    \<and> (\<forall>c \<in> set (lp_retention p). \<forall>r. rc_days c = Some (Fin r) \<longrightarrow> 0 < r)
    \<and> distinct (map cs_id (lp_purposes p)) \<and> distinct (map rc_id (lp_retention p))
    \<and> \<not> pi_email_authoritative (lp_identity p) \<and> \<not> pi_email_merge (lp_identity p)"
proof -
  have valid: "setting_errors p = []" "lifecycle_errors p = []" "policy_record_errors p = []" "grant_errors p = []"
    using assms by (simp_all add: validate_Nil)
  note life = valid(2) [unfolded lifecycle_errors_Nil] and records = valid(3) [unfolded policy_record_errors_Nil]
  have "u = ''deleted''" if "account_path p ''deleted'' u" for u
    using that by (induction rule: account_path.induct) (use life in \<open>auto simp: can_transition_iff\<close>)
  then have "account_path p ''deleted'' s \<longleftrightarrow> s = ''deleted''" using account_path.stay by blast
  moreover have "t \<in> set (lp_states p)" if "account_path p s t" "s \<in> set (lp_states p)"
    using that by (induction rule: account_path.induct) (use life in \<open>auto simp: can_transition_iff\<close>)
  moreover have "\<forall>c \<in> set (lp_retention p). \<forall>r. rc_days c = Some (Fin r) \<longrightarrow> 0 < r" using records by fastforce
  moreover have "\<not> pi_email_authoritative (lp_identity p) \<and> \<not> pi_email_merge (lp_identity p)"
    using valid(1) by (simp add: setting_errors_def Let_def)
  moreover have "role_can p ''content-editor'' q \<longrightarrow> \<not> learner_record_permission q" using valid(4) grant_errors_Nil by blast
  moreover have "\<forall>r \<in> set learner_data_permissions. r \<in> set editor_permissions
      \<longleftrightarrow> (\<exists>p'. validate_learner_data_policy p' = [] \<and> role_can p' ''content-editor'' r)"
  proof
    fix r assume r: "r \<in> set learner_data_permissions"
    have "\<not> learner_record_permission r" if "validate_learner_data_policy p' = []" "role_can p' ''content-editor'' r" for p'
      using that by (simp add: validate_Nil grant_errors_Nil)
    then show "r \<in> set editor_permissions \<longleftrightarrow> (\<exists>p'. validate_learner_data_policy p' = [] \<and> role_can p' ''content-editor'' r)"
      using r lenient_policy_valid(1) lenient_policy_valid(2) [of r] by (auto simp: editor_permissions_listed)
  qed
  moreover have "account_path p ''deletion-requested'' ''deleted''" "account_path p ''deletion-requested'' ''active''"
    using account_path_step life by blast+
  ultimately show ?thesis using records by blast
qed

lemma valid_policy_guarantees_witness:
  "account_path default_learner_data_policy ''deleted'' ''active'' = False
   \<and> (\<exists>p'. validate_learner_data_policy p' = [] \<and> role_can p' ''content-editor'' ''learner-summary:read:tenant'')
   \<and> account_path default_learner_data_policy ''deletion-requested'' ''deleted''"
  using valid_policy_guarantees [OF default_policy_valid, where s = "''active''" and t = "''active''" and q = "''content:manage''"]
  by (simp add: learner_data_permissions_def editor_permissions_def)

section \<open>Merge requirements\<close>

lemma safe_value_no_nul: "safe_policy_value s \<Longrightarrow> nul \<notin> set s"
proof -
  assume s: "safe_policy_value s"
  have "\<not> alnum_char nul" "\<not> id_char nul" by code_simp+
  then show ?thesis using s by (auto simp: safe_policy_value_def list_all_iff split: list.splits)
qed

definition requirement_of :: "json \<Rightarrow> consent_requirement \<Rightarrow> bool" where
  "requirement_of v r \<longleftrightarrow> is_record v \<and> set (prop_keys v) \<subseteq> {''purpose'', ''policyVersion''}
     \<and> get_prop v ''purpose'' = JStr (cq_purpose r) \<and> get_prop v ''policyVersion'' = JStr (cq_version r)
     \<and> safe_policy_value (cq_purpose r) \<and> safe_policy_value (cq_version r)"

lemma parse_requirement_iff: "parse_requirement v = Inr r \<longleftrightarrow> requirement_of v r"
  by (cases r; cases "get_prop v ''purpose''"; cases "get_prop v ''policyVersion''")
    (auto simp: parse_requirement_def requirement_of_def list_ex_iff)

lemma parse_requirements_iff: "parse_requirements vs = Inr rs \<longleftrightarrow> list_all2 requirement_of vs rs"
  by (induction vs arbitrary: rs) (auto simp: bind_result_eq_Inr parse_requirement_iff list_all2_Cons1)

lemma requirement_key_inj:
  assumes "safe_policy_value (cq_purpose a)" "safe_policy_value (cq_purpose b)"
  shows "requirement_key a = requirement_key b \<longleftrightarrow> a = b"
proof -
  have "takeWhile (\<lambda>c. c \<noteq> nul) (requirement_key r) = cq_purpose r \<and> dropWhile (\<lambda>c. c \<noteq> nul) (requirement_key r) = nul # cq_version r"
    if "safe_policy_value (cq_purpose r)" for r
    using safe_value_no_nul [OF that] by (auto simp: requirement_key_def takeWhile_append dropWhile_append)
  then show ?thesis using assms by (metis consent_requirement.equality list.inject old.unit.exhaust)
qed

text \<open>
  Which consents an account merge asks for. Without a configuration it is the required consent of the default policy. A
  configured text is accepted exactly when it is an array of one to twenty objects of a safe purpose and version and nothing
  else, all different, and then these are the requirements, in collation order.
\<close>

theorem merge_requirements_decide:
  assumes "comparator (collate rt)" and "js_trim text \<noteq> []"
  shows "(read_merge_requirements rt parse (Some text) = Inr rs \<longleftrightarrow>
      (\<exists>vs qs. parse text = Some (JArr vs) \<and> 1 \<le> length vs \<and> length vs \<le> 20 \<and> list_all2 requirement_of vs qs \<and> distinct qs
        \<and> rs = js_sort (\<lambda>a b. collate rt (requirement_key a) (requirement_key b)) qs))
    \<and> sorted_wrt (\<lambda>a b. collate rt (requirement_key a) (requirement_key b) \<le> 0)
        (js_sort (\<lambda>a b. collate rt (requirement_key a) (requirement_key b)) qs)
    \<and> read_merge_requirements rt parse None = Inr [\<lparr>cq_purpose = ''learning-record'', cq_version = ''2026-07-27''\<rparr>]"
proof (intro conjI)
  have keys: "distinct (map requirement_key qs) \<longleftrightarrow> distinct qs" if "list_all2 requirement_of vs qs" for vs qs
  proof -
    have "safe_policy_value (cq_purpose q)" if "q \<in> set qs" for q
      using \<open>list_all2 requirement_of vs qs\<close> that by (auto simp: list_all2_conv_all_nth in_set_conv_nth requirement_of_def)
    then have "inj_on requirement_key (set qs)" using requirement_key_inj by (auto simp: inj_on_def)
    then show ?thesis by (simp add: distinct_map)
  qed
  show "read_merge_requirements rt parse (Some text) = Inr rs \<longleftrightarrow>
      (\<exists>vs qs. parse text = Some (JArr vs) \<and> 1 \<le> length vs \<and> length vs \<le> 20 \<and> list_all2 requirement_of vs qs \<and> distinct qs
        \<and> rs = js_sort (\<lambda>a b. collate rt (requirement_key a) (requirement_key b)) qs)"
  proof (cases "parse text")
    case (Some v)
    then show ?thesis using assms(2) keys
      by (cases v) (auto simp: read_merge_requirements_def bind_result_eq_Inr parse_requirements_iff)
  qed (use assms(2) in \<open>simp add: read_merge_requirements_def\<close>)
  show "sorted_wrt (\<lambda>a b. collate rt (requirement_key a) (requirement_key b) \<le> 0)
      (js_sort (\<lambda>a b. collate rt (requirement_key a) (requirement_key b)) qs)"
    by (rule comparator.sort_sorted [OF comparator_on [OF assms(1)]])
  show "read_merge_requirements rt parse None = Inr [\<lparr>cq_purpose = ''learning-record'', cq_version = ''2026-07-27''\<rparr>]"
    by (simp add: read_merge_requirements_def default_merge_requirements_def default_learner_data_policy_def default_purposes_def)
qed

definition sample_requirements :: json where
  "sample_requirements = JArr [JObj [(''purpose'', JStr ''reminders''), (''policyVersion'', JStr ''2'')],
     JObj [(''purpose'', JStr ''learning-record''), (''policyVersion'', JStr ''2'')]]"

lemma merge_requirements_decide_witness:
  "\<exists>rs. read_merge_requirements sample_runtime (\<lambda>s. Some sample_requirements) (Some ''[...]'') = Inr rs \<and> length rs = 2"
proof -
  let ?qs = "[\<lparr>cq_purpose = ''reminders'', cq_version = ''2''\<rparr>, \<lparr>cq_purpose = ''learning-record'', cq_version = ''2''\<rparr>]"
  have laws: "comparator (collate sample_runtime)" using units.comparator_axioms by (simp add: sample_runtime_def)
  have plain: "js_trim ''[...]'' \<noteq> []" "safe_policy_value ''reminders''" "safe_policy_value ''2''" "safe_policy_value ''learning-record''"
    by code_simp+
  have vs: "sample_requirements = JArr (elems sample_requirements)" "list_all2 requirement_of (elems sample_requirements) ?qs"
    "length (elems sample_requirements) = 2"
    using plain by (simp_all add: sample_requirements_def requirement_of_def)
  note decide = merge_requirements_decide [OF laws plain(1), of "\<lambda>s. Some sample_requirements", THEN conjunct1]
  have "read_merge_requirements sample_runtime (\<lambda>s. Some sample_requirements) (Some ''[...]'')
      = Inr (js_sort (\<lambda>a b. collate sample_runtime (requirement_key a) (requirement_key b)) ?qs)"
    unfolding decide using vs by (intro exI [of _ "elems sample_requirements"] exI [of _ ?qs]) simp
  then show ?thesis by simp
qed

end
