(* ===== verification/Account_Services.thy ===== *)
theory Account_Services
  imports Js_Guards
begin

text \<open>
  The services around accounts: the notifications (\<open>src/account-notifications.ts\<close>), the limiter of sign-in requests
  (\<open>src/auth-abuse-limiter.ts\<close>) and the choice of the learning-record adapter (\<open>src/learning-record-adapter.ts\<close>). A delivery service, a
  rate-limit binding and a database are parameters; \<open>None\<close> is a rejected promise.
\<close>

section \<open>Notifications\<close>

datatype notification_kind = RegistrationReceipt | OwnerRegistrationAlert | LearnerApproved | LearnerRejected
  | LearnerSuspended | LearnerRevoked

definition notification_kinds :: "notification_kind list" where
  "notification_kinds = [RegistrationReceipt, OwnerRegistrationAlert, LearnerApproved, LearnerRejected, LearnerSuspended, LearnerRevoked]"

definition owner_kinds :: "notification_kind list" where
  "owner_kinds = [OwnerRegistrationAlert]"

record notification_message =
  nm_id :: string
  nm_kind :: notification_kind
  nm_recipient :: string
  nm_subject :: string
  nm_text :: string
  nm_html :: string

datatype delivery_code = DeliveryNotConfigured | RecipientUnavailable | DeliveryRejected | DeliveryTemporaryFailure

record delivery_error =
  de_code :: delivery_code
  de_message :: string
  de_retryable :: bool

subsection \<open>Adapters\<close>

text \<open>A delivery returns the time of acceptance.\<close>

definition disabled_deliver :: "notification_message \<Rightarrow> (delivery_error, string) result" where
  "disabled_deliver m = Inl \<lparr>de_code = DeliveryNotConfigured, de_message = ''Account notification delivery is not configured.'',
     de_retryable = True\<rparr>"

record deterministic_adapter =
  da_deliveries :: "notification_message list"
  da_accepted :: string
  da_failure :: "delivery_error option"

definition deterministic_deliver ::
    "notification_message \<Rightarrow> bool \<Rightarrow> deterministic_adapter \<Rightarrow> (delivery_error, string) result \<times> deterministic_adapter" where
  "deterministic_deliver m aborted a =
     (if aborted then (Inl \<lparr>de_code = DeliveryTemporaryFailure, de_message = ''The account notification delivery deadline expired.'',
        de_retryable = True\<rparr>, a)
      else (case da_failure a of
          Some e \<Rightarrow> (Inl e, a)
        | None \<Rightarrow> (Inr (da_accepted a), a\<lparr>da_deliveries := da_deliveries a @ [m]\<rparr>)))"

record service_response =
  sr_status :: int
  sr_accepted :: "string option"

definition service_deliver ::
    "(notification_message \<Rightarrow> service_response option) \<Rightarrow> string \<Rightarrow> notification_message \<Rightarrow> (delivery_error, string) result" where
  "service_deliver fetch now m = (case fetch m of
     None \<Rightarrow> Inl \<lparr>de_code = DeliveryTemporaryFailure, de_message = ''The account notification delivery service is unavailable.'',
       de_retryable = True\<rparr>
   | Some r \<Rightarrow>
       if sr_status r \<noteq> 200 \<and> sr_status r \<noteq> 202
       then Inl \<lparr>de_code = (if 500 \<le> sr_status r \<or> sr_status r = 429 then DeliveryTemporaryFailure else DeliveryRejected),
         de_message = ''The account notification delivery service rejected the message.'',
         de_retryable = (500 \<le> sr_status r \<or> sr_status r = 429)\<rparr>
       else Inr (case sr_accepted r of None \<Rightarrow> now | Some t \<Rightarrow> t))"

text \<open>An error is a delivery error or something else that was thrown.\<close>

definition normalize_delivery_error :: "delivery_error option \<Rightarrow> delivery_error" where
  "normalize_delivery_error e = (case e of Some d \<Rightarrow> d
     | None \<Rightarrow> \<lparr>de_code = DeliveryTemporaryFailure,
         de_message = ''The notification adapter reported a temporary delivery failure.'', de_retryable = True\<rparr>)"

subsection \<open>Messages\<close>

definition replace_all :: "char \<Rightarrow> string \<Rightarrow> string \<Rightarrow> string" where
  "replace_all c r s = concat (map (\<lambda>d. if d = c then r else [d]) s)"

definition escape_html :: "string \<Rightarrow> string" where
  "escape_html s = replace_all CHR 0x27 ''&#39;'' (replace_all CHR 0x22 ''&quot;'' (replace_all CHR ''>'' ''&gt;''
     (replace_all CHR ''<'' ''&lt;'' (replace_all CHR ''&'' ''&amp;'' s))))"

record notification_content =
  nc_subject :: string
  nc_heading :: string
  nc_paragraphs :: "string list"

fun notification_content_of :: "notification_kind \<Rightarrow> notification_content" where
  "notification_content_of RegistrationReceipt = \<lparr>nc_subject = ''Your Project 42 account request was received'',
     nc_heading = ''Account request received'',
     nc_paragraphs = [''Your verified sign-in was received and your account is awaiting review.'',
       ''You can return to Project 42 and sign in again to check the current status.'']\<rparr>"
| "notification_content_of OwnerRegistrationAlert = \<lparr>nc_subject = ''A Project 42 account request needs review'',
     nc_heading = ''Account request needs review'',
     nc_paragraphs = [''A verified learner account request is waiting for an owner decision.'',
       ''Open the Project 42 administration console to review the request.'']\<rparr>"
| "notification_content_of LearnerApproved = \<lparr>nc_subject = ''Your Project 42 account was approved'',
     nc_heading = ''Account approved'',
     nc_paragraphs = [''Your Project 42 learner account is approved.'',
       ''Sign in to continue learning and access your saved progress.'']\<rparr>"
| "notification_content_of LearnerRejected = \<lparr>nc_subject = ''Your Project 42 account request was not approved'',
     nc_heading = ''Account request not approved'',
     nc_paragraphs = [''Your Project 42 learner account request was not approved.'',
       ''Contact the site owner if you believe this decision needs review.'']\<rparr>"
| "notification_content_of LearnerSuspended = \<lparr>nc_subject = ''Your Project 42 account was suspended'',
     nc_heading = ''Account suspended'',
     nc_paragraphs = [''Access to your Project 42 learner account is temporarily suspended.'',
       ''Contact the site owner if you need help or believe this decision needs review.'']\<rparr>"
| "notification_content_of LearnerRevoked = \<lparr>nc_subject = ''Your Project 42 account access was revoked'',
     nc_heading = ''Account access revoked'',
     nc_paragraphs = [''Access to your Project 42 learner account was revoked.'',
       ''Contact the site owner if you need help or believe this decision needs review.'']\<rparr>"

definition no_link_notice :: string where
  "no_link_notice = ''This message contains no sign-in link. Open Project 42 using your usual trusted address.''"

record rendered_notification =
  rn_subject :: string
  rn_text :: string
  rn_html :: string

definition render_notification :: "notification_kind \<Rightarrow> rendered_notification" where
  \<open>render_notification kind = (let c = notification_content_of kind in
     \<lparr>rn_subject = nc_subject c,
      rn_text = join_text [CHR 0x0A] ([nc_heading c, []] @ concat (map (\<lambda>p. [p, []]) (nc_paragraphs c)) @ [no_link_notice]),
      rn_html = ''<!doctype html><html lang="en"><head><meta charset="utf-8">''
        @ ''<title>'' @ escape_html (nc_subject c) @ ''</title></head><body>''
        @ ''<main><h1>'' @ escape_html (nc_heading c) @ ''</h1>''
        @ concat (map (\<lambda>p. ''<p>'' @ escape_html p @ ''</p>'') (nc_paragraphs c @ [no_link_notice])) @ ''</main>''
        @ ''</body></html>''\<rparr>)\<close>

subsection \<open>Retries and deadlines\<close>

definition integer_value :: "jsnum \<Rightarrow> int option" where
  "integer_value n = (case n of Fin r \<Rightarrow> if is_integer (JNum n) then Some \<lfloor>r\<rfloor> else None | _ \<Rightarrow> None)"

text \<open>Doubling beyond the largest double gives infinity, and so the same minimum.\<close>

definition retry_delay :: "jsnum \<Rightarrow> (string, rat) result" where
  "retry_delay n = (case integer_value n of
     None \<Rightarrow> Inl ''attemptCount must be a positive integer.''
   | Some k \<Rightarrow> if k < 1 then Inl ''attemptCount must be a positive integer.''
       else Inr (min (60 * 2 ^ nat (k - 1)) (60 * 60)))"

definition math_trunc :: "rat \<Rightarrow> rat" where
  "math_trunc r = (if 0 \<le> r then of_int \<lfloor>r\<rfloor> else of_int \<lceil>r\<rceil>)"

definition normalize_deadline :: "jsnum option \<Rightarrow> rat" where
  "normalize_deadline requested = max 100 (min 5000 (case requested of Some (Fin r) \<Rightarrow> math_trunc r | _ \<Rightarrow> 5000))"

section \<open>The limiter\<close>

datatype auth_route = RouteStart | RouteCallback

fun auth_route_text :: "auth_route \<Rightarrow> string" where
  "auth_route_text RouteStart = ''start''"
| "auth_route_text RouteCallback = ''callback''"

record limit_request =
  lq_installation :: string
  lq_route :: auth_route
  lq_client :: string

record limit_decision =
  ld_allowed :: bool
  ld_retry :: jsnum

datatype limiter_error = LimiterUnavailable

definition create_limiter :: "jsnum \<Rightarrow> (string, jsnum) result" where
  "create_limiter retry = (if \<not> safe_integer retry \<or> num_less retry (Fin 1) \<or> num_less (Fin 60) retry
     then Inl ''Authentication rate-limit recovery must be 1-60 seconds.'' else Inr retry)"

definition address_char :: "char \<Rightarrow> bool" where
  "address_char c \<longleftrightarrow> hex_char c \<or> c = CHR '':'' \<or> c = CHR ''.''"

definition normalize_client :: "string \<Rightarrow> (limiter_error, string) result" where
  "normalize_client v = (let normalized = to_lower (js_trim v) in
     if length normalized < 3 \<or> 64 < length normalized \<or> CHR '','' \<in> set normalized \<or> \<not> list_all address_char normalized
     then Inl LimiterUnavailable else Inr normalized)"

definition normalize_installation :: "string \<Rightarrow> (limiter_error, string) result" where
  "normalize_installation v = (let normalized = js_trim v in
     if normalized = [] \<or> 200 < length normalized then Inl LimiterUnavailable else Inr normalized)"

definition client_key :: "runtime \<Rightarrow> auth_route \<Rightarrow> string \<Rightarrow> string \<Rightarrow> string" where
  "client_key rt route installation client =
     ''auth:'' @ auth_route_text route @ '':client:'' @ sha256_hex rt (installation @ nul # client)"

definition installation_key :: "runtime \<Rightarrow> auth_route \<Rightarrow> string \<Rightarrow> string" where
  "installation_key rt route installation = ''auth:'' @ auth_route_text route @ '':installation:'' @ sha256_hex rt installation"

text \<open>Both limits are asked, whatever the first one says.\<close>

definition check_limit ::
    "runtime \<Rightarrow> (string \<Rightarrow> bool option) option \<Rightarrow> (string \<Rightarrow> bool option) option \<Rightarrow> jsnum \<Rightarrow> limit_request
     \<Rightarrow> (limiter_error, limit_decision) result" where
  "check_limit rt per_client per_installation retry q =
     (case (per_client, per_installation) of
        (Some ask_client, Some ask_installation) \<Rightarrow>
          bind_result (normalize_installation (lq_installation q)) (\<lambda>installation.
          bind_result (normalize_client (lq_client q)) (\<lambda>client.
          case (ask_client (client_key rt (lq_route q) installation client), ask_installation (installation_key rt (lq_route q) installation)) of
            (Some a, Some b) \<Rightarrow> Inr \<lparr>ld_allowed = (a \<and> b), ld_retry = retry\<rparr>
          | _ \<Rightarrow> Inl LimiterUnavailable))
      | _ \<Rightarrow> Inl LimiterUnavailable)"

definition read_client_address :: "string option \<Rightarrow> (limiter_error, string) result" where
  "read_client_address header = (case header of None \<Rightarrow> Inl LimiterUnavailable | Some [] \<Rightarrow> Inl LimiterUnavailable
     | Some v \<Rightarrow> normalize_client v)"

section \<open>The learning-record adapter\<close>

datatype adapter_runtime = CloudflareWorker | NodeRuntime

fun adapter_runtime_text :: "adapter_runtime \<Rightarrow> string" where
  "adapter_runtime_text CloudflareWorker = ''cloudflare-worker''"
| "adapter_runtime_text NodeRuntime = ''node''"

definition adapter_kinds :: "string list" where
  "adapter_kinds = [''cloudflare-d1'', ''postgresql'']"

record adapter_configuration =
  acf_adapter :: string
  acf_runtime :: adapter_runtime
  acf_contract :: string
  acf_events :: string
  acf_receipts :: string
  acf_fingerprint :: string
  acf_migration :: string
  acf_mode :: string

definition describe_adapter :: "string \<Rightarrow> adapter_runtime \<Rightarrow> adapter_configuration" where
  "describe_adapter adapter rt = \<lparr>acf_adapter = adapter, acf_runtime = rt, acf_contract = ''1.1'', acf_events = ''1.1'', acf_receipts = ''1.0'',
     acf_fingerprint = ''learning-records/1.1;events/1.1;receipts/1.0;append-only;atomic-batch;optimistic-revision;authoritative-progress-import;verified-deletion-replay'',
     acf_migration = (if adapter = ''cloudflare-d1'' then ''0011_authoritative_progress_imports.sql''
       else ''008_authoritative_progress_imports.sql''),
     acf_mode = ''atomic-sequential-batch''\<rparr>"

definition read_adapter_configuration :: "string option \<Rightarrow> adapter_runtime \<Rightarrow> (string, adapter_configuration) result" where
  "read_adapter_configuration setting rt = (let adapter = (case setting of None \<Rightarrow> [] | Some s \<Rightarrow> js_trim s);
       expected = (case rt of CloudflareWorker \<Rightarrow> ''cloudflare-d1'' | NodeRuntime \<Rightarrow> ''postgresql'') in
     if adapter = [] then Inl ''LEARNING_RECORD_ADAPTER is required''
     else if adapter \<notin> set adapter_kinds then Inl ''LEARNING_RECORD_ADAPTER must be cloudflare-d1 or postgresql''
     else if adapter \<noteq> expected
     then Inl (''LEARNING_RECORD_ADAPTER '' @ adapter @ '' is incompatible with '' @ adapter_runtime_text rt @ ''; expected '' @ expected)
     else Inr (describe_adapter adapter rt))"

text \<open>\<open>enforceLearningRecordTransactionLimit\<close> around the \<open>batch\<close> of a database.\<close>

definition limited_batch :: "('s list \<Rightarrow> (string, 'r) result) \<Rightarrow> 's list \<Rightarrow> (string, 'r) result" where
  "limited_batch batch statements = (if statements = [] \<or> 4 < length statements
     then Inl ''Learning-record transactions require 1-4 statements'' else batch statements)"

text \<open>The configured store is built over the limited batch; a database without the two operations is \<open>None\<close>.\<close>

definition configure_adapter ::
    "('s list \<Rightarrow> (string, 'r) result) option \<Rightarrow> adapter_configuration
     \<Rightarrow> (string, adapter_configuration \<times> ('s list \<Rightarrow> (string, 'r) result)) result" where
  "configure_adapter batch c = (case batch of
     None \<Rightarrow> Inl ''The selected learning-record adapter requires prepare and batch database operations''
   | Some b \<Rightarrow>
       if acf_runtime c \<noteq> (if acf_adapter c = ''cloudflare-d1'' then CloudflareWorker else NodeRuntime)
       then Inl ''Learning-record adapter configuration is internally inconsistent''
       else Inr (c, limited_batch b))"

end
