(* ===== verification/Service_Theorems.thy ===== *)
theory Service_Theorems
  imports Account_Services Sample_Records
begin

text \<open>
  What the services around accounts guarantee: escaped texts, the schedule of retries, the separation of the limiter's keys,
  and the consistency of an adapter configuration.
\<close>

section \<open>Escaping\<close>

fun entity :: "char \<Rightarrow> string" where
  "entity c = (if c = CHR ''&'' then ''&amp;'' else if c = CHR ''<'' then ''&lt;'' else if c = CHR ''>'' then ''&gt;''
     else if c = CHR 0x22 then ''&quot;'' else if c = CHR 0x27 then ''&#39;'' else [c])"

lemma replace_all_append [simp]: "replace_all c r (s @ t) = replace_all c r s @ replace_all c r t"
  by (simp add: replace_all_def)

lemma escape_html_chars: "escape_html s = concat (map entity s)"
proof (induction s)
  case (Cons c s)
  have "escape_html (c # s) = escape_html [c] @ escape_html s"
    using replace_all_append [of _ _ "[c]" s] by (simp add: escape_html_def)
  moreover have "escape_html [c] = entity c" by (simp add: escape_html_def replace_all_def)
  ultimately show ?case using Cons by simp
qed (simp add: escape_html_def replace_all_def)

text \<open>An escaped text has no character of the markup, and tells what was escaped.\<close>

lemma entity_prefix_free: "entity c @ s = entity d @ t \<Longrightarrow> c = d \<and> s = t"
  by (simp split: if_splits)

lemma escape_html_safe:
  "set (escape_html s) \<inter> {CHR ''<'', CHR ''>'', CHR 0x22, CHR 0x27} = {}" "escape_html s = escape_html t \<longleftrightarrow> s = t"
proof -
  show "set (escape_html s) \<inter> {CHR ''<'', CHR ''>'', CHR 0x22, CHR 0x27} = {}"
    by (auto simp: escape_html_chars split: if_splits)
  have "concat (map entity s) = concat (map entity t) \<Longrightarrow> s = t"
  proof (induction s arbitrary: t)
    case Nil
    then show ?case by (cases t) (auto split: if_splits)
  next
    case (Cons c s)
    then obtain d u where "t = d # u" by (cases t) (auto split: if_splits)
    then show ?case using Cons entity_prefix_free [of c _ d] by (auto simp del: entity.simps)
  qed
  then show "escape_html s = escape_html t \<longleftrightarrow> s = t" by (auto simp: escape_html_chars)
qed

section \<open>Retries and deadlines\<close>

lemma integer_value_of_nat: "integer_value (Fin (of_nat k)) = Some (int k)"
  by (simp add: integer_value_def)

lemma retry_delay_schedule:
  assumes "1 \<le> k"
  shows "retry_delay (Fin (of_nat k)) = Inr (if k \<le> 6 then 60 * 2 ^ (k - 1) else 3600)"
proof -
  have exponent: "nat (int k - 1) = k - 1" using assms by simp
  show ?thesis
  proof (cases "k \<le> 6")
    case True
    then consider "k = 1" | "k = 2" | "k = 3" | "k = 4" | "k = 5" | "k = 6" using assms by linarith
    then show ?thesis by cases (simp_all add: retry_delay_def integer_value_def)
  next
    case False
    then have "(2 :: rat) ^ 6 \<le> 2 ^ (k - 1)" by (intro power_increasing) simp_all
    then show ?thesis using False assms exponent by (simp add: retry_delay_def integer_value_of_nat min_def)
  qed
qed

lemma deadline_bounds: "100 \<le> normalize_deadline requested" "normalize_deadline requested \<le> 5000"
  by (simp_all add: normalize_deadline_def)

section \<open>Keys of the limiter\<close>

lemma normalized_client: "normalize_client v = Inr a \<Longrightarrow> nul \<notin> set a"
proof -
  assume "normalize_client v = Inr a"
  then have "list_all address_char a" by (auto simp: normalize_client_def Let_def split: if_splits)
  moreover have "\<not> address_char nul" by code_simp
  ultimately show "nul \<notin> set a" by (auto simp: list_all_iff)
qed

lemma joined_at_last_nul:
  assumes "nul \<notin> set b" "nul \<notin> set d" "a @ nul # b = c @ nul # d"
  shows "a = c \<and> b = d"
proof -
  have "takeWhile (\<lambda>x. x \<noteq> nul) (rev (a @ nul # b)) = rev b" "takeWhile (\<lambda>x. x \<noteq> nul) (rev (c @ nul # d)) = rev d"
    using assms(1,2) by (simp_all add: takeWhile_append)
  then have "b = d" using assms(3) by simp
  then show ?thesis using assms(3) by simp
qed

text \<open>
  C40. The limiter counts every client of every installation by itself. Two requests that pass the normalisation are counted under
  the same client key exactly when the route, the installation and the client address are the same, under the same
  installation key exactly when the route and the installation are, and no client key is an installation key, as long as
  the digest tells the texts apart; and a request is allowed only when both limits allow it.
\<close>

theorem limiter_keys_separate:
  assumes "normalize_installation (lq_installation q) = Inr i" and "normalize_client (lq_client q) = Inr a"
    and "normalize_installation (lq_installation r) = Inr j" and "normalize_client (lq_client r) = Inr b"
    and "inj_on (sha256_hex rt) {i, j, i @ nul # a, j @ nul # b}"
  shows "(client_key rt (lq_route q) i a = client_key rt (lq_route r) j b \<longleftrightarrow> lq_route q = lq_route r \<and> i = j \<and> a = b)
    \<and> (installation_key rt (lq_route q) i = installation_key rt (lq_route r) j \<longleftrightarrow> lq_route q = lq_route r \<and> i = j)
    \<and> client_key rt (lq_route q) i a \<noteq> installation_key rt (lq_route r) j
    \<and> (check_limit rt (Some f) (Some g) retry q = Inr d \<longrightarrow>
        (ld_allowed d \<longleftrightarrow> f (client_key rt (lq_route q) i a) = Some True \<and> g (installation_key rt (lq_route q) i) = Some True))"
proof (intro conjI)
  have client: "sha256_hex rt (i @ nul # a) = sha256_hex rt (j @ nul # b) \<longleftrightarrow> i = j \<and> a = b"
    using inj_on_eq_iff [OF assms(5), of "i @ nul # a" "j @ nul # b"] joined_at_last_nul [of a b i j]
      normalized_client [OF assms(2)] normalized_client [OF assms(4)] by blast
  have installation: "sha256_hex rt i = sha256_hex rt j \<longleftrightarrow> i = j" using inj_on_eq_iff [OF assms(5), of i j] by blast
  show "client_key rt (lq_route q) i a = client_key rt (lq_route r) j b \<longleftrightarrow> lq_route q = lq_route r \<and> i = j \<and> a = b"
    using client by (cases "lq_route q"; cases "lq_route r") (simp_all add: client_key_def)
  show "installation_key rt (lq_route q) i = installation_key rt (lq_route r) j \<longleftrightarrow> lq_route q = lq_route r \<and> i = j"
    using installation by (cases "lq_route q"; cases "lq_route r") (simp_all add: installation_key_def)
  show "client_key rt (lq_route q) i a \<noteq> installation_key rt (lq_route r) j"
    by (cases "lq_route q"; cases "lq_route r") (simp_all add: client_key_def installation_key_def)
  show "check_limit rt (Some f) (Some g) retry q = Inr d \<longrightarrow>
      (ld_allowed d \<longleftrightarrow> f (client_key rt (lq_route q) i a) = Some True \<and> g (installation_key rt (lq_route q) i) = Some True)"
    using assms(1,2) by (auto simp: check_limit_def split: option.splits)
qed

definition sample_limit_request :: "auth_route \<Rightarrow> string \<Rightarrow> limit_request" where
  "sample_limit_request route client = \<lparr>lq_installation = '' school-1 '', lq_route = route, lq_client = client\<rparr>"

lemma limiter_keys_separate_witness:
  "client_key sample_runtime RouteStart ''school-1'' ''10.0.0.1'' \<noteq> client_key sample_runtime RouteCallback ''school-1'' ''10.0.0.1''
   \<and> client_key sample_runtime RouteStart ''school-1'' ''10.0.0.1'' \<noteq> client_key sample_runtime RouteStart ''school-1'' ''10.0.0.12''
   \<and> client_key sample_runtime RouteStart ''school-1'' ''10.0.0.1'' \<noteq> installation_key sample_runtime RouteCallback ''school-1''"
proof -
  have i: "normalize_installation (lq_installation (sample_limit_request t c)) = Inr ''school-1''" for t c
    by (simp add: sample_limit_request_def) code_simp
  have a: "normalize_client (lq_client (sample_limit_request t '' 10.0.0.1'')) = Inr ''10.0.0.1''"
    "normalize_client (lq_client (sample_limit_request t ''10.0.0.12'')) = Inr ''10.0.0.12''" for t
    by (simp add: sample_limit_request_def, code_simp)+
  have digest: "sha256_hex sample_runtime s = pad_text 64 (length s)" for s by (simp add: sample_runtime_def)
  have lengths: "length ''school-1'' = 8" "length (''school-1'' @ nul # ''10.0.0.1'') = 17" "length (''school-1'' @ nul # ''10.0.0.12'') = 18"
    by code_simp+
  have digests: "sha256_hex sample_runtime ''school-1'' = pad_text 64 8" "sha256_hex sample_runtime (''school-1'' @ nul # ''10.0.0.1'') = pad_text 64 17"
    "sha256_hex sample_runtime (''school-1'' @ nul # ''10.0.0.12'') = pad_text 64 18"
    unfolding digest lengths by (rule refl)+
  have different: "pad_text 64 8 \<noteq> pad_text 64 17" "pad_text 64 8 \<noteq> pad_text 64 18" "pad_text 64 17 \<noteq> pad_text 64 18"
    by code_simp+
  have inj: "inj_on (sha256_hex sample_runtime) {''school-1'', ''school-1'', ''school-1'' @ nul # ''10.0.0.1'', ''school-1'' @ nul # ''10.0.0.1''}"
    "inj_on (sha256_hex sample_runtime) {''school-1'', ''school-1'', ''school-1'' @ nul # ''10.0.0.1'', ''school-1'' @ nul # ''10.0.0.12''}"
    using different digests by (simp_all add: inj_on_def)
  show ?thesis
    using limiter_keys_separate [OF i a(1) i a(1) inj(1), of RouteStart RouteCallback]
      limiter_keys_separate [OF i a(1) i a(2) inj(2), of RouteStart RouteStart]
    by (auto simp: sample_limit_request_def)
qed

section \<open>Adapter configurations\<close>

text \<open>A configuration that was read is consistent, and its store runs only batches of one to four statements.\<close>

lemma read_configuration_configures:
  assumes "read_adapter_configuration setting rt = Inr c"
  shows "acf_runtime c = rt \<and> acf_adapter c \<in> set adapter_kinds \<and> configure_adapter (Some batch) c = Inr (c, limited_batch batch)"
  using assms by (cases rt) (auto simp: read_adapter_configuration_def describe_adapter_def configure_adapter_def Let_def split: if_splits)

lemma limited_batch_size: "limited_batch batch xs = Inr r \<Longrightarrow> 1 \<le> length xs \<and> length xs \<le> 4 \<and> batch xs = Inr r"
  by (auto simp: limited_batch_def Suc_le_eq split: if_splits)

end
