(* ===== verification/Contributor_Credit.thy ===== *)
theory Contributor_Credit
  imports Js_Guards
begin

text \<open>
  Contributor-credit packages (\<open>src/contributor-credit.ts\<close>): the validator, the public export and the view built from it.
  Members that the code tests against a list of texts are texts, the two flags it tests are untyped, and \<open>..._extra\<close> holds the
  properties that an interface does not declare, in the order of \<open>Object.keys\<close>. The URL parser and \<open>Date.parse\<close> outside the timestamps of the
  contract are parameters.
\<close>

section \<open>Data\<close>

definition contribution_roles :: "string list" where
  "contribution_roles = [''author'', ''reviewer'', ''subject-matter-expert'', ''accessibility-reviewer'']"

definition content_kinds :: "string list" where
  "content_kinds = [''learn-module'', ''field-guide-resource'', ''training-package'']"

type_synonym extras = "(string \<times> json) list"

record content_reference =
  cr_id :: string
  cr_kind :: string
  cr_version :: string
  cr_extra :: extras

record repository_evidence =
  re_provider :: string
  re_id :: string
  re_url :: string
  re_extra :: extras

record accepted_change =
  ac_request :: string
  ac_url :: string
  ac_merged :: string
  ac_merge_commit :: string
  ac_accepted_commit :: string
  ac_extra :: extras

record contributor_identity =
  ci_ref :: string
  ci_provider :: string
  ci_account :: "string option"
  ci_proof :: string
  ci_state :: string
  ci_extra :: extras

record attribution_consent =
  co_status :: string
  co_recorded :: string
  co_revoked :: "string option"
  co_extra :: extras

record public_profile =
  pp_name :: string
  pp_url :: "string option"
  pp_extra :: extras

record ai_assistance =
  ai_used :: json
  ai_disclosure :: "string option"
  ai_accountable :: json
  ai_extra :: extras

record contribution_credit =
  cc_id :: string
  cc_role :: string
  cc_contributor :: contributor_identity
  cc_consent :: attribution_consent
  cc_profile :: "public_profile option"
  cc_summary :: string
  cc_ai :: ai_assistance
  cc_extra :: extras

record credit_package =
  cp_schema :: string
  cp_id :: string
  cp_created :: string
  cp_content :: content_reference
  cp_repository :: repository_evidence
  cp_change :: accepted_change
  cp_credits :: "contribution_credit list"
  cp_extra :: extras

record public_credit =
  pc_role :: string
  pc_label :: "string option"
  pc_name :: string
  pc_url :: "string option"
  pc_summary :: string
  pc_disclosure :: "string option"

record public_change =
  pe_repository :: string
  pe_request :: string
  pe_request_url :: string
  pe_merged :: string
  pe_merge_commit :: string
  pe_accepted_commit :: string

record credit_export =
  ce_schema :: string
  ce_package :: string
  ce_content :: content_reference
  ce_change :: public_change
  ce_contributors :: "public_credit list"

datatype credit_surface = Learn | FieldGuide

record view_entry =
  ve_credit :: public_credit
  ve_evidence_url :: string
  ve_evidence_label :: string
  ve_summary :: string

record credit_view =
  cv_surface :: credit_surface
  cv_heading :: string
  cv_semantics :: "(string \<times> string) list"
  cv_version :: string
  cv_entries :: "view_entry list"

section \<open>Texts\<close>

text \<open>\<open>/^[a-z0-9][a-z0-9._:-]{2,255}$/i\<close>, and with a slash.\<close>

definition credit_stable_id :: "string \<Rightarrow> bool" where
  "credit_stable_id s \<longleftrightarrow> (case s of [] \<Rightarrow> False
     | c # cs \<Rightarrow> alnum_char c \<and> list_all id_char cs \<and> 2 \<le> length cs \<and> length cs \<le> 255)"

definition repository_ident :: "string \<Rightarrow> bool" where
  "repository_ident s \<longleftrightarrow> (case s of [] \<Rightarrow> False
     | c # cs \<Rightarrow> alnum_char c \<and> list_all (\<lambda>d. id_char d \<or> d = CHR ''/'') cs \<and> 2 \<le> length cs \<and> length cs \<le> 255)"

definition commit_hash :: "string \<Rightarrow> bool" where
  "commit_hash s \<longleftrightarrow> list_all hex_char s \<and> (length s = 40 \<or> length s = 64)"

definition content_version :: "string \<Rightarrow> bool" where
  "content_version s \<longleftrightarrow> (case s of [] \<Rightarrow> False
     | c # cs \<Rightarrow> alnum_char c \<and> list_all version_char cs \<and> length cs \<le> 127)"

text \<open>
  The unanchored test of \<open>emailAddressPattern\<close>: somewhere a mailbox character, an at sign, and a domain of at least two labels, of
  which the first is complete and the second has begun.
\<close>

definition mailbox_char :: "char \<Rightarrow> bool" where
  "mailbox_char c \<longleftrightarrow> alnum_char c \<or> c \<in> set ''.!#$%&*+/=?^_`{|}~-'' \<or> c = CHR 0x27"

definition credit_label :: "string \<Rightarrow> bool" where
  "credit_label l \<longleftrightarrow> l \<noteq> [] \<and> length l \<le> 63 \<and> alnum_char (hd l) \<and> alnum_char (last l)"

definition domain_follows :: "string \<Rightarrow> bool" where
  "domain_follows s = (let l = takeWhile (\<lambda>c. alnum_char c \<or> c = CHR ''-'') s in
     credit_label l \<and> (case drop (length l) s of d # c # _ \<Rightarrow> d = CHR ''.'' \<and> alnum_char c | _ \<Rightarrow> False))"

definition contains_email_address :: "string \<Rightarrow> bool" where
  "contains_email_address s \<longleftrightarrow> list_ex (\<lambda>i. s ! i = CHR ''@'' \<and> mailbox_char (s ! (i - 1)) \<and> domain_follows (drop (i + 1) s)) [1 ..< length s]"

fun mentions :: "string \<Rightarrow> string \<Rightarrow> bool" where
  "mentions w [] \<longleftrightarrow> w = []"
| "mentions w (c # cs) \<longleftrightarrow> take (length w) (c # cs) = w \<or> mentions w cs"

fun contains_private_email_field :: "json \<Rightarrow> bool" where
  "contains_private_email_field (JArr xs) \<longleftrightarrow> list_ex contains_private_email_field xs"
| "contains_private_email_field (JObj kvs) \<longleftrightarrow>
     list_ex (\<lambda>(k, v). mentions ''email'' (to_lower k) \<or> contains_private_email_field v) kvs"
| "contains_private_email_field _ \<longleftrightarrow> False"

section \<open>Addresses and times\<close>

record credit_url =
  cu_protocol :: string
  cu_origin :: string
  cu_username :: string
  cu_password :: string
  cu_path :: string

record credit_host =
  credit_url_of :: "string \<Rightarrow> credit_url option"
  other_date :: "string \<Rightarrow> int option"

definition https_errors :: "credit_host \<Rightarrow> string \<Rightarrow> string \<Rightarrow> string list" where
  "https_errors h v label = (case credit_url_of h v of
     None \<Rightarrow> [label @ '' must be a valid URL'']
   | Some u \<Rightarrow> complain (cu_protocol u \<noteq> ''https:'') (label @ '' must use HTTPS'')
       @ complain (cu_username u \<noteq> [] \<or> cu_password u \<noteq> []) (label @ '' cannot contain URL credentials''))"

definition strip_slashes :: "string \<Rightarrow> string" where
  "strip_slashes s = rev (dropWhile (\<lambda>c. c = CHR ''/'') (rev s))"

definition url_within_repository :: "credit_host \<Rightarrow> string \<Rightarrow> string \<Rightarrow> bool" where
  "url_within_repository h request repository = (case (credit_url_of h request, credit_url_of h repository) of
     (Some u, Some v) \<Rightarrow> cu_protocol u = ''https:'' \<and> cu_protocol v = ''https:'' \<and> cu_origin u = cu_origin v
       \<and> take (length (strip_slashes (cu_path v)) + 1) (cu_path u) = strip_slashes (cu_path v) @ ''/''
   | _ \<Rightarrow> False)"

definition credit_date :: "credit_host \<Rightarrow> string \<Rightarrow> int option" where
  "credit_date h s = (if timestamp_pattern s then date_parse s else other_date h s)"

definition date_before :: "credit_host \<Rightarrow> string \<Rightarrow> string \<Rightarrow> bool" where
  "date_before h s t = (case (credit_date h s, credit_date h t) of (Some a, Some b) \<Rightarrow> a < b | _ \<Rightarrow> False)"

definition time_errors :: "string \<Rightarrow> string \<Rightarrow> string list" where
  "time_errors v label = complain_unless (parses_timestamp v) (label @ '' must be an ISO 8601 UTC timestamp'')"

definition credit_id_errors :: "string \<Rightarrow> string \<Rightarrow> string list" where
  "credit_id_errors v label = complain_unless (credit_stable_id v) (label @ '' is invalid'')"

definition email_errors :: "string \<Rightarrow> string \<Rightarrow> string list" where
  "email_errors v label = complain (contains_email_address v) (label @ '' cannot contain an email address'')"

definition unknown_keys :: "extras \<Rightarrow> string \<Rightarrow> string list" where
  "unknown_keys extra label = map (\<lambda>(k, v). label @ '' contains unsupported field: '' @ k) extra"

section \<open>The validator\<close>

text \<open>What precedes the loop over the credits.\<close>

definition package_errors :: "credit_host \<Rightarrow> credit_package \<Rightarrow> string list" where
  "package_errors h p = (let c = cp_content p; r = cp_repository p; a = cp_change p in
     unknown_keys (cp_extra p) ''package''
     @ complain (cp_schema p \<noteq> ''1.0'') ''unsupported contributor-credit schema version''
     @ credit_id_errors (cp_id p) ''package ID''
     @ time_errors (cp_created p) ''package createdAt''
     @ unknown_keys (cr_extra c) ''content reference''
     @ credit_id_errors (cr_id c) ''content ID''
     @ complain (cr_kind c \<notin> set content_kinds) ''content kind is unsupported''
     @ complain_unless (content_version (cr_version c)) ''accepted content version is invalid''
     @ unknown_keys (re_extra r) ''repository evidence''
     @ credit_id_errors (re_provider r) ''repository provider''
     @ complain_unless (repository_ident (re_id r)) ''repository ID is invalid''
     @ https_errors h (re_url r) ''repository URL''
     @ unknown_keys (ac_extra a) ''accepted-change evidence''
     @ complain (js_trim (ac_request a) = []) ''merged pull-request ID is required''
     @ https_errors h (ac_url a) ''merged pull-request URL''
     @ time_errors (ac_merged a) ''pull-request mergedAt''
     @ complain (parses_timestamp (cp_created p) \<and> parses_timestamp (ac_merged a) \<and> date_before h (cp_created p) (ac_merged a))
         ''package cannot be created before the accepted change was merged''
     @ complain_unless (url_within_repository h (ac_url a) (re_url r)) ''merged pull-request URL must belong to the evidence repository''
     @ complain_unless (commit_hash (ac_merge_commit a)) ''merge commit must be a lowercase 40- or 64-character hash''
     @ complain_unless (commit_hash (ac_accepted_commit a)) ''accepted commit must be a lowercase 40- or 64-character hash''
     @ complain (cp_credits p = []) ''at least one contribution credit is required''
     @ complain_unless (list_ex (\<lambda>k. cc_role k = ''author'') (cp_credits p)) ''at least one author credit is required'')"

definition contributor_errors :: "string \<Rightarrow> contributor_identity \<Rightarrow> string list" where
  "contributor_errors i c =
     unknown_keys (ci_extra c) (i @ '' contributor'')
     @ credit_id_errors (ci_ref c) (i @ '' contributor reference'')
     @ credit_id_errors (ci_provider c) (i @ '' identity provider'')
     @ complain_unless (digest_text (ci_proof c)) (i @ '' identity proof must be a lowercase SHA-256 digest'')
     @ (if ci_state c \<noteq> ''active'' \<and> ci_state c \<noteq> ''deleted'' then [i @ '' has an unsupported account state'']
        else if ci_state c = ''active''
        then complain (case ci_account c of None \<Rightarrow> True | Some s \<Rightarrow> js_trim s = [])
          (i @ '' active accounts require a stable provider account reference'')
        else complain (ci_account c \<noteq> None) (i @ '' deleted accounts must tombstone the provider account reference''))"

definition consent_errors :: "credit_host \<Rightarrow> string \<Rightarrow> attribution_consent \<Rightarrow> string list" where
  "consent_errors h i c =
     unknown_keys (co_extra c) (i @ '' consent'')
     @ time_errors (co_recorded c) (i @ '' consent recordedAt'')
     @ (if co_status c \<notin> {''granted'', ''not-granted'', ''revoked''} then [i @ '' has an unsupported consent status'']
        else if co_status c = ''revoked''
        then (case co_revoked c of
            None \<Rightarrow> [i @ '' revoked consent requires revokedAt'']
          | Some [] \<Rightarrow> [i @ '' revoked consent requires revokedAt'']
          | Some t \<Rightarrow> time_errors t (i @ '' consent revokedAt'')
              @ complain (date_before h t (co_recorded c)) (i @ '' consent cannot be revoked before it was recorded''))
        else complain (co_revoked c \<noteq> None) (i @ '' non-revoked consent cannot include revokedAt''))"

definition publicly_attributable :: "contribution_credit \<Rightarrow> bool" where
  "publicly_attributable k \<longleftrightarrow> ci_state (cc_contributor k) = ''active'' \<and> co_status (cc_consent k) = ''granted''"

definition profile_errors :: "credit_host \<Rightarrow> string \<Rightarrow> public_profile \<Rightarrow> string list" where
  "profile_errors h i p =
     unknown_keys (pp_extra p) (i @ '' public profile'')
     @ complain (js_trim (pp_name p) = []) (i @ '' public display name is required'')
     @ complain (120 < length (pp_name p)) (i @ '' public display name is too long'')
     @ email_errors (pp_name p) (i @ '' public display name'')
     @ (case pp_url p of None \<Rightarrow> []
        | Some u \<Rightarrow> https_errors h u (i @ '' public profile URL'') @ email_errors u (i @ '' public profile URL''))"

text \<open>JavaScript truth of the untyped flag.\<close>

definition ai_errors :: "string \<Rightarrow> ai_assistance \<Rightarrow> string list" where
  "ai_errors i a =
     unknown_keys (ai_extra a) (i @ '' AI assistance'')
     @ complain_unless (case ai_used a of JBool b \<Rightarrow> True | _ \<Rightarrow> False) (i @ '' AI assistance used must be boolean'')
     @ complain (truthy (ai_used a) \<and> (case ai_disclosure a of None \<Rightarrow> True | Some s \<Rightarrow> js_trim s = []))
         (i @ '' AI-assisted work requires a disclosure'')
     @ complain (\<not> truthy (ai_used a) \<and> ai_disclosure a \<noteq> None) (i @ '' non-AI-assisted work cannot include an AI disclosure'')
     @ complain (ai_accountable a \<noteq> JBool True) (i @ '' requires a human accountability decision'')
     @ (case ai_disclosure a of None \<Rightarrow> [] | Some [] \<Rightarrow> []
        | Some s \<Rightarrow> email_errors s (i @ '' AI assistance disclosure''))"

definition role_key :: "contribution_credit \<Rightarrow> string" where
  "role_key k = ci_ref (cc_contributor k) @ '':'' @ cc_role k"

text \<open>The body of the loop, with the credit IDs and role keys seen so far.\<close>

definition credit_errors :: "credit_host \<Rightarrow> string list \<Rightarrow> string list \<Rightarrow> contribution_credit \<Rightarrow> string list" where
  "credit_errors h ids keys k = (let i = cc_id k in
     unknown_keys (cc_extra k) ''credit''
     @ credit_id_errors i ''credit ID''
     @ complain (i \<in> set ids) (''duplicate credit ID: '' @ i)
     @ complain (cc_role k \<notin> set contribution_roles) (i @ '' has an unsupported contribution role'')
     @ complain (role_key k \<in> set keys) (i @ '' duplicates a contributor role'')
     @ contributor_errors i (cc_contributor k)
     @ consent_errors h i (cc_consent k)
     @ complain (publicly_attributable k \<and> cc_profile k = None) (i @ '' granted public attribution requires a public profile'')
     @ complain (\<not> publicly_attributable k \<and> cc_profile k \<noteq> None) (i @ '' cannot retain a public profile without active consent'')
     @ (case cc_profile k of None \<Rightarrow> [] | Some p \<Rightarrow> profile_errors h i p)
     @ complain (js_trim (cc_summary k) = [] \<or> 500 < length (cc_summary k)) (i @ '' contribution summary must contain 1-500 characters'')
     @ email_errors (cc_summary k) (i @ '' contribution summary'')
     @ ai_errors i (cc_ai k))"

fun credits_loop :: "credit_host \<Rightarrow> string list \<Rightarrow> string list \<Rightarrow> contribution_credit list \<Rightarrow> string list" where
  "credits_loop h ids keys [] = []"
| "credits_loop h ids keys (k # ks) = credit_errors h ids keys k @ credits_loop h (cc_id k # ids) (role_key k # keys) ks"

text \<open>
  \<open>containsPrivateEmailField(value)\<close> of a package: no declared member has such a name or an object with one, so the
  undeclared members decide.
\<close>

definition credit_extras :: "contribution_credit \<Rightarrow> extras" where
  "credit_extras k = cc_extra k @ ci_extra (cc_contributor k) @ co_extra (cc_consent k)
     @ (case cc_profile k of None \<Rightarrow> [] | Some p \<Rightarrow> pp_extra p) @ ai_extra (cc_ai k)"

definition package_extras :: "credit_package \<Rightarrow> extras" where
  "package_extras p = cp_extra p @ cr_extra (cp_content p) @ re_extra (cp_repository p) @ ac_extra (cp_change p)
     @ concat (map credit_extras (cp_credits p))
     @ concat (map (\<lambda>k. [(''used'', ai_used (cc_ai k)), (''humanAccountabilityAccepted'', ai_accountable (cc_ai k))]) (cp_credits p))"

definition validate_credit_package :: "credit_host \<Rightarrow> credit_package \<Rightarrow> string list" where
  "validate_credit_package h p = package_errors h p @ credits_loop h [] [] (cp_credits p)
     @ complain (contains_private_email_field (JObj (package_extras p))) ''contributor-credit packages cannot contain email fields''"

section \<open>The public export and the view\<close>

definition role_label :: "string \<Rightarrow> string option" where
  "role_label = map_of [(''author'', ''Author''), (''reviewer'', ''Reviewer''), (''subject-matter-expert'', ''Subject-matter expert''),
     (''accessibility-reviewer'', ''Accessibility reviewer'')]"

definition to_public_credit :: "contribution_credit \<Rightarrow> public_credit" where
  "to_public_credit k = (let shown = (if publicly_attributable k then cc_profile k else None) in
     \<lparr>pc_role = cc_role k, pc_label = role_label (cc_role k),
      pc_name = (case shown of None \<Rightarrow> ''Anonymous contributor'' | Some p \<Rightarrow> pp_name p),
      pc_url = (case shown of None \<Rightarrow> None | Some p \<Rightarrow> pp_url p),
      pc_summary = cc_summary k,
      pc_disclosure = (if truthy (ai_used (cc_ai k)) then ai_disclosure (cc_ai k) else None)\<rparr>)"

definition assert_credit_package :: "credit_host \<Rightarrow> credit_package \<Rightarrow> (string, unit) result" where
  "assert_credit_package h p = (if validate_credit_package h p = [] then Inr ()
     else Inl (''Invalid contributor-credit package: '' @ join_text ''; '' (validate_credit_package h p)))"

definition build_public_export :: "credit_host \<Rightarrow> credit_package \<Rightarrow> (string, credit_export) result" where
  "build_public_export h p = bind_result (assert_credit_package h p) (\<lambda>_. Inr
     \<lparr>ce_schema = ''1.0'', ce_package = cp_id p, ce_content = cp_content p,
      ce_change = \<lparr>pe_repository = re_url (cp_repository p), pe_request = ac_request (cp_change p), pe_request_url = ac_url (cp_change p),
        pe_merged = ac_merged (cp_change p), pe_merge_commit = ac_merge_commit (cp_change p),
        pe_accepted_commit = ac_accepted_commit (cp_change p)\<rparr>,
      ce_contributors = map to_public_credit (cp_credits p)\<rparr>)"

definition view_entry_of :: "credit_export \<Rightarrow> public_credit \<Rightarrow> view_entry" where
  "view_entry_of e c = \<lparr>ve_credit = c, ve_evidence_url = pe_request_url (ce_change e),
     ve_evidence_label = ''View accepted change '' @ pe_request (ce_change e),
     ve_summary = (case pc_label c of None \<Rightarrow> ''undefined'' | Some l \<Rightarrow> l) @ '': '' @ pc_name c @ ''. '' @ pc_summary c\<rparr>"

definition build_credit_view :: "credit_host \<Rightarrow> credit_package \<Rightarrow> credit_surface \<Rightarrow> (string, credit_view) result" where
  "build_credit_view h p surface = bind_result (build_public_export h p) (\<lambda>e. Inr
     \<lparr>cv_surface = surface, cv_heading = ''Contributors'',
      cv_semantics = [(''containerElement'', ''section''), (''containerAriaLabel'', ''Content contributors''), (''listElement'', ''ul''),
        (''itemElement'', ''li'')],
      cv_version = ''Accepted content version '' @ cr_version (ce_content e),
      cv_entries = map (view_entry_of e) (ce_contributors e)\<rparr>)"

end
