(* ===== verification/Credit_Theorems.thy ===== *)
theory Credit_Theorems
  imports Contributor_Credit
begin

text \<open>
  Which contributor-credit packages are accepted, and what their public export shows of a contributor
  (\<open>src/contributor-credit.ts\<close>).
\<close>

section \<open>Well-formed packages\<close>

definition https_address :: "credit_host \<Rightarrow> string \<Rightarrow> bool" where
  "https_address h s \<longleftrightarrow> (\<exists>u. credit_url_of h s = Some u \<and> cu_protocol u = ''https:'' \<and> cu_username u = [] \<and> cu_password u = [])"

definition not_before :: "string \<Rightarrow> string \<Rightarrow> bool" where
  "not_before t s \<longleftrightarrow> (\<exists>a b. date_parse s = Some a \<and> date_parse t = Some b \<and> a \<le> b)"

definition sound_package :: "credit_host \<Rightarrow> credit_package \<Rightarrow> bool" where
  "sound_package h p \<longleftrightarrow> (let c = cp_content p; r = cp_repository p; a = cp_change p in
     cp_extra p = [] \<and> cr_extra c = [] \<and> re_extra r = [] \<and> ac_extra a = []
     \<and> cp_schema p = ''1.0'' \<and> credit_stable_id (cp_id p) \<and> not_before (cp_created p) (ac_merged a)
     \<and> credit_stable_id (cr_id c) \<and> cr_kind c \<in> set content_kinds \<and> content_version (cr_version c)
     \<and> credit_stable_id (re_provider r) \<and> repository_ident (re_id r) \<and> https_address h (re_url r)
     \<and> js_trim (ac_request a) \<noteq> [] \<and> https_address h (ac_url a) \<and> url_within_repository h (ac_url a) (re_url r)
     \<and> commit_hash (ac_merge_commit a) \<and> commit_hash (ac_accepted_commit a)
     \<and> (\<exists>k \<in> set (cp_credits p). cc_role k = ''author''))"

definition sound_identity :: "contributor_identity \<Rightarrow> bool" where
  "sound_identity c \<longleftrightarrow> ci_extra c = [] \<and> credit_stable_id (ci_ref c) \<and> credit_stable_id (ci_provider c) \<and> digest_text (ci_proof c)
     \<and> (ci_state c = ''active'' \<and> (\<exists>s. ci_account c = Some s \<and> js_trim s \<noteq> []) \<or> ci_state c = ''deleted'' \<and> ci_account c = None)"

definition sound_consent :: "attribution_consent \<Rightarrow> bool" where
  "sound_consent c \<longleftrightarrow> co_extra c = [] \<and> parses_timestamp (co_recorded c)
     \<and> (co_status c \<in> {''granted'', ''not-granted''} \<and> co_revoked c = None
        \<or> co_status c = ''revoked'' \<and> (\<exists>t. co_revoked c = Some t \<and> not_before t (co_recorded c)))"

definition sound_profile :: "credit_host \<Rightarrow> public_profile \<Rightarrow> bool" where
  "sound_profile h p \<longleftrightarrow> pp_extra p = [] \<and> js_trim (pp_name p) \<noteq> [] \<and> length (pp_name p) \<le> 120 \<and> \<not> contains_email_address (pp_name p)
     \<and> (\<forall>u. pp_url p = Some u \<longrightarrow> https_address h u \<and> \<not> contains_email_address u)"

definition sound_ai :: "ai_assistance \<Rightarrow> bool" where
  "sound_ai a \<longleftrightarrow> ai_extra a = [] \<and> ai_accountable a = JBool True
     \<and> (ai_used a = JBool False \<and> ai_disclosure a = None
        \<or> ai_used a = JBool True \<and> (\<exists>s. ai_disclosure a = Some s \<and> js_trim s \<noteq> [] \<and> \<not> contains_email_address s))"

definition sound_credit :: "credit_host \<Rightarrow> contribution_credit \<Rightarrow> bool" where
  "sound_credit h k \<longleftrightarrow> cc_extra k = [] \<and> credit_stable_id (cc_id k) \<and> cc_role k \<in> set contribution_roles
     \<and> sound_identity (cc_contributor k) \<and> sound_consent (cc_consent k)
     \<and> (if publicly_attributable k then \<exists>p. cc_profile k = Some p \<and> sound_profile h p else cc_profile k = None)
     \<and> js_trim (cc_summary k) \<noteq> [] \<and> length (cc_summary k) \<le> 500 \<and> \<not> contains_email_address (cc_summary k) \<and> sound_ai (cc_ai k)"

section \<open>The validators decide them\<close>

lemma unknown_keys_Nil [simp]: "unknown_keys extra label = [] \<longleftrightarrow> extra = []"
  by (simp add: unknown_keys_def)

lemma checks_Nil [simp]:
  "https_errors h v label = [] \<longleftrightarrow> https_address h v" "time_errors v label = [] \<longleftrightarrow> parses_timestamp v"
  "credit_id_errors v label = [] \<longleftrightarrow> credit_stable_id v" "email_errors v label = [] \<longleftrightarrow> \<not> contains_email_address v"
  by (auto simp: https_errors_def https_address_def time_errors_def credit_id_errors_def email_errors_def split: option.splits)

lemma trim_Nil [simp]: "js_trim [] = []"
  by (simp add: js_trim_def)

lemma parsed_date: "parses_timestamp s \<Longrightarrow> credit_date h s = date_parse s \<and> date_parse s \<noteq> None"
  by (simp add: credit_date_def parses_timestamp_def)

lemma date_order: "parses_timestamp s \<Longrightarrow> parses_timestamp t \<Longrightarrow> \<not> date_before h t s \<longleftrightarrow> not_before t s"
  using parsed_date [of s h] parsed_date [of t h] by (auto simp: date_before_def not_before_def)

lemma not_before_parses: "not_before t s \<Longrightarrow> parses_timestamp s \<and> parses_timestamp t"
  by (auto simp: not_before_def parses_timestamp_def date_parse_def split: if_splits)

lemma package_errors_Nil: "package_errors h p = [] \<longleftrightarrow> sound_package h p"
proof -
  let ?c = "cp_created p" and ?m = "ac_merged (cp_change p)"
  have "parses_timestamp ?c \<and> parses_timestamp ?m \<and> \<not> (parses_timestamp ?c \<and> parses_timestamp ?m \<and> date_before h ?c ?m)
      \<longleftrightarrow> not_before ?c ?m"
    using date_order [of ?m ?c h] not_before_parses [of ?c ?m] by blast
  then show ?thesis
    by (auto simp: package_errors_def sound_package_def Let_def list_ex_iff)
qed

lemma contributor_errors_Nil: "contributor_errors i c = [] \<longleftrightarrow> sound_identity c"
  by (auto simp: contributor_errors_def sound_identity_def split: option.splits)

lemma consent_errors_Nil: "consent_errors h i c = [] \<longleftrightarrow> sound_consent c"
proof (cases "co_status c = ''revoked''")
  case True
  show ?thesis
  proof (cases "co_revoked c")
    case (Some t)
    have "\<not> not_before [] s" for s by (simp add: not_before_def date_parse_def timestamp_pattern_def)
    then show ?thesis using True Some date_order [of "co_recorded c" t h] not_before_parses [of t "co_recorded c"]
      by (cases t) (auto simp: consent_errors_def sound_consent_def)
  qed (use True in \<open>simp add: consent_errors_def sound_consent_def\<close>)
qed (auto simp: consent_errors_def sound_consent_def)

lemma profile_errors_Nil: "profile_errors h i p = [] \<longleftrightarrow> sound_profile h p"
  by (auto simp: profile_errors_def sound_profile_def split: option.splits)

lemma ai_errors_Nil: "ai_errors i a = [] \<longleftrightarrow> sound_ai a"
  by (cases "ai_used a") (auto simp: ai_errors_def sound_ai_def split: option.splits list.splits)

lemma credit_errors_Nil: "credit_errors h ids keys k = [] \<longleftrightarrow> sound_credit h k \<and> cc_id k \<notin> set ids \<and> role_key k \<notin> set keys"
  by (cases "cc_profile k")
    (auto simp: credit_errors_def sound_credit_def Let_def contributor_errors_Nil consent_errors_Nil profile_errors_Nil ai_errors_Nil)

lemma credits_loop_Nil: "credits_loop h ids keys ks = [] \<longleftrightarrow> (\<forall>k \<in> set ks. sound_credit h k)
    \<and> distinct (map cc_id ks) \<and> set (map cc_id ks) \<inter> set ids = {} \<and> distinct (map role_key ks) \<and> set (map role_key ks) \<inter> set keys = {}"
  by (induction ks arbitrary: ids keys) (auto simp: credit_errors_Nil)


lemma no_extras: "sound_package h p \<Longrightarrow> \<forall>k \<in> set (cp_credits p). sound_credit h k
    \<Longrightarrow> \<not> contains_private_email_field (JObj (package_extras p))"
proof -
  assume s: "sound_package h p" and c: "\<forall>k \<in> set (cp_credits p). sound_credit h k"
  have "credit_extras k = []" if "k \<in> set (cp_credits p)" for k
    using c that by (cases "cc_profile k") (auto simp: credit_extras_def sound_credit_def sound_identity_def sound_consent_def sound_ai_def
        sound_profile_def split: if_splits)
  then have e: "concat (map credit_extras (cp_credits p)) = []" by simp
  have flags: "\<not> contains_private_email_field (ai_used (cc_ai k))" "\<not> contains_private_email_field (ai_accountable (cc_ai k))"
    if "k \<in> set (cp_credits p)" for k
    using c that by (auto simp: sound_credit_def sound_ai_def)
  have keys: "\<not> mentions ''email'' (to_lower ''used'')" "\<not> mentions ''email'' (to_lower ''humanAccountabilityAccepted'')" by code_simp+
  show ?thesis using s flags keys by (auto simp: package_extras_def sound_package_def Let_def e list_ex_iff)
qed

lemma credit_package_accepted:
  assumes "sound_package h p" and "\<forall>k \<in> set (cp_credits p). sound_credit h k" and "distinct (map cc_id (cp_credits p))"
    and "distinct (map role_key (cp_credits p))"
  shows "validate_credit_package h p = []"
  using assms no_extras [of h p] by (simp add: validate_credit_package_def package_errors_Nil credits_loop_Nil)


section \<open>The public export\<close>

text \<open>A public credit that shows no more of a contributor than the account and the consent allow, and no e-mail address.\<close>

definition discreet :: "contribution_credit \<Rightarrow> public_credit \<Rightarrow> bool" where
  "discreet k c \<longleftrightarrow> pc_role c = cc_role k \<and> pc_summary c = cc_summary k \<and> pc_label c \<noteq> None
     \<and> (if ci_state (cc_contributor k) = ''active'' \<and> co_status (cc_consent k) = ''granted''
        then \<exists>p. cc_profile k = Some p \<and> pc_name c = pp_name p \<and> pc_url c = pp_url p
        else pc_name c = ''Anonymous contributor'' \<and> pc_url c = None)
     \<and> (\<forall>s \<in> {pc_name c, pc_summary c} \<union> set_option (pc_url c) \<union> set_option (pc_disclosure c). \<not> contains_email_address s)"

text \<open>What an accepted credit contributes to the export.\<close>

definition public_part :: "contribution_credit \<Rightarrow> string \<times> public_profile option \<times> string \<times> ai_assistance" where
  "public_part k = (cc_role k, cc_profile k, cc_summary k, cc_ai k)"

lemma public_credit_discreet:
  assumes "sound_credit h k"
  shows "discreet k (to_public_credit k)"
proof -
  have "\<not> contains_email_address ''Anonymous contributor''" by code_simp
  moreover have "role_label (cc_role k) \<noteq> None"
    using assms by (auto simp: sound_credit_def role_label_def contribution_roles_def)
  moreover have "\<not> contains_email_address s" if "ai_disclosure (cc_ai k) = Some s" for s
    using assms that by (auto simp: sound_credit_def sound_ai_def)
  ultimately show ?thesis using assms
    by (cases "cc_profile k")
      (auto simp: discreet_def to_public_credit_def Let_def sound_credit_def sound_profile_def publicly_attributable_def split: if_splits)
qed

lemma public_credit_of_part:
  assumes "sound_credit h k" "sound_credit h' l" "public_part k = public_part l"
  shows "to_public_credit k = to_public_credit l"
proof -
  have "(if publicly_attributable k then cc_profile k else None) = cc_profile k" if "sound_credit h k" for h k
    using that by (auto simp: sound_credit_def split: if_splits)
  then show ?thesis using assms by (auto simp: to_public_credit_def public_part_def Let_def)
qed

text \<open>All texts of an export: those of the entries of the contributors, and the others.\<close>

definition entry_texts :: "public_credit \<Rightarrow> string set" where
  "entry_texts c = {pc_role c, pc_name c, pc_summary c} \<union> set_option (pc_label c) \<union> set_option (pc_url c) \<union> set_option (pc_disclosure c)"

definition export_texts :: "credit_export \<Rightarrow> string set" where
  "export_texts e = {ce_schema e, ce_package e, cr_id (ce_content e), cr_kind (ce_content e), cr_version (ce_content e),
       pe_repository (ce_change e), pe_request (ce_change e), pe_request_url (ce_change e), pe_merged (ce_change e),
       pe_merge_commit (ce_change e), pe_accepted_commit (ce_change e)}
     \<union> fst ` set (cr_extra (ce_content e)) \<union> \<Union> (entry_texts ` set (ce_contributors e))"

lemma address_has_at: "contains_email_address s \<Longrightarrow> CHR ''@'' \<in> set s"
  by (auto simp: contains_email_address_def list_ex_iff) (metis nth_mem)

lemma no_at_char:
  "\<not> alnum_char CHR ''@''" "\<not> id_char CHR ''@''" "\<not> version_char CHR ''@''" "\<not> hex_char CHR ''@''" "\<not> digit_char CHR ''@''"
  by code_simp+

lemma no_at_texts:
  "credit_stable_id s \<Longrightarrow> CHR ''@'' \<notin> set s" "content_version s \<Longrightarrow> CHR ''@'' \<notin> set s" "commit_hash s \<Longrightarrow> CHR ''@'' \<notin> set s"
  using no_at_char by (auto simp: credit_stable_id_def content_version_def commit_hash_def list_all_iff split: list.splits)

lemma no_at_time:
  assumes "timestamp_pattern s"
  shows "CHR ''@'' \<notin> set s"
proof
  assume "CHR ''@'' \<in> set s"
  then obtain i where i: "i < length s" "s ! i = CHR ''@''" by (auto simp: in_set_conv_nth)
  have long: "length s = 20 \<or> length s = 24" and head: "iso_head s" using assms by (auto simp: timestamp_pattern_def)
  have "j < 24 \<Longrightarrow> j \<in> {0, 1, 2, 3, 5, 6, 8, 9, 11, 12, 14, 15, 17, 18} \<or> j \<in> {4, 7, 10, 13, 16} \<or> j = 19 \<or> j \<in> {20, 21, 22} \<or> j = 23" for j :: nat
    by (simp, presburger)
  moreover have "i < 24" using i(1) long by auto
  moreover have "i \<notin> {0, 1, 2, 3, 5, 6, 8, 9, 11, 12, 14, 15, 17, 18}" using head i(2) no_at_char(5) unfolding iso_head_def by metis
  moreover have "i \<notin> {4, 7, 10, 13, 16}" using head i(2) unfolding iso_head_def by auto
  moreover have "i \<noteq> 19" using assms i(2) by (auto simp: timestamp_pattern_def)
  moreover have "i \<notin> {20, 21, 22}" using assms i no_at_char(5) unfolding timestamp_pattern_def by (auto simp del: One_nat_def)
  moreover have "i \<noteq> 23" using assms i by (auto simp: timestamp_pattern_def)
  ultimately show False by blast
qed

lemma no_at_labels:
  "r \<in> set contribution_roles \<Longrightarrow> CHR ''@'' \<notin> set r" "role_label r = Some l \<Longrightarrow> CHR ''@'' \<notin> set l" "k \<in> set content_kinds \<Longrightarrow> CHR ''@'' \<notin> set k"
  by (auto simp: contribution_roles_def role_label_def content_kinds_def split: if_splits)

lemma discreet_entry:
  assumes "discreet k c" and "sound_credit h k" and "c = to_public_credit k" and "s \<in> entry_texts c"
  shows "\<not> contains_email_address s"
proof -
  have "s \<in> {pc_name c, pc_summary c} \<union> set_option (pc_url c) \<union> set_option (pc_disclosure c) \<or> s = pc_role c \<or> pc_label c = Some s"
    using assms(4) by (auto simp: entry_texts_def)
  moreover have "CHR ''@'' \<notin> set (pc_role c)" using assms(2,3) no_at_labels(1) by (simp add: to_public_credit_def sound_credit_def Let_def)
  moreover have "CHR ''@'' \<notin> set s" if "pc_label c = Some s" using assms(3) that no_at_labels(2) by (simp add: to_public_credit_def Let_def)
  ultimately show ?thesis using assms(1) address_has_at unfolding discreet_def by blast
qed

text \<open>
  C22. The entries of the public export withhold what is not public. The export of an accepted package lists its credits in their
  order: a contributor whose account is active and who has consented appears under the chosen name and address, every other one
  as anonymous without an address, each with the label of the role, and no text of an entry contains an e-mail address. In the
  rest of the export only the ID and the address of the pull request and the address of the repository may contain one (the
  package's own checks do not cover them). Two accepted packages whose credits have the same public parts have the same export,
  whoever their contributors are and whatever their accounts, proofs, account states and consents.
\<close>

theorem public_credits_private:
  assumes "build_public_export h p = Inr e"
  shows "list_all2 discreet (cp_credits p) (ce_contributors e)
    \<and> (\<forall>s \<in> export_texts e. contains_email_address s
        \<longrightarrow> s \<in> {pe_request (ce_change e), pe_request_url (ce_change e), pe_repository (ce_change e)} - \<Union> (entry_texts ` set (ce_contributors e)))
    \<and> (\<forall>q. validate_credit_package h q = [] \<longrightarrow> cp_id q = cp_id p \<longrightarrow> cp_content q = cp_content p
        \<longrightarrow> re_url (cp_repository q) = re_url (cp_repository p) \<longrightarrow> cp_change q = cp_change p
        \<longrightarrow> map public_part (cp_credits q) = map public_part (cp_credits p) \<longrightarrow> build_public_export h q = Inr e)"
proof (intro conjI)
  have valid: "validate_credit_package h p = []"
    using assms by (auto simp: build_public_export_def assert_credit_package_def split: if_splits)
  have sound: "\<forall>k \<in> set (cp_credits q). sound_credit h k" if "validate_credit_package h q = []" for q
    using that by (simp add: validate_credit_package_def credits_loop_Nil)
  have e: "e = \<lparr>ce_schema = ''1.0'', ce_package = cp_id p, ce_content = cp_content p,
      ce_change = \<lparr>pe_repository = re_url (cp_repository p), pe_request = ac_request (cp_change p), pe_request_url = ac_url (cp_change p),
        pe_merged = ac_merged (cp_change p), pe_merge_commit = ac_merge_commit (cp_change p),
        pe_accepted_commit = ac_accepted_commit (cp_change p)\<rparr>,
      ce_contributors = map to_public_credit (cp_credits p)\<rparr>"
    using assms valid by (simp add: build_public_export_def assert_credit_package_def)
  then have entries: "ce_contributors e = map to_public_credit (cp_credits p)" by simp
  show "\<forall>s \<in> export_texts e. contains_email_address s
      \<longrightarrow> s \<in> {pe_request (ce_change e), pe_request_url (ce_change e), pe_repository (ce_change e)} - \<Union> (entry_texts ` set (ce_contributors e))"
  proof (intro ballI impI)
    fix s assume s: "s \<in> export_texts e" and address: "contains_email_address s"
    have entry: "s \<notin> entry_texts c" if "c \<in> set (ce_contributors e)" for c
      using that sound [OF valid] address discreet_entry public_credit_discreet unfolding entries by fastforce
    have pkg: "sound_package h p" using valid by (simp add: validate_credit_package_def package_errors_Nil)
    have at: "CHR ''@'' \<in> set s" using address by (rule address_has_at)
    have merged: "timestamp_pattern (ac_merged (cp_change p))"
      using pkg by (auto simp: sound_package_def Let_def not_before_def date_parse_def split: if_splits)
    have extra: "cr_extra (cp_content p) = []" using pkg by (simp add: sound_package_def Let_def)
    have "CHR ''@'' \<notin> set x" if "x \<in> {''1.0'', cp_id p, cr_id (cp_content p), cr_kind (cp_content p), cr_version (cp_content p),
        ac_merged (cp_change p), ac_merge_commit (cp_change p), ac_accepted_commit (cp_change p)}" for x
      using that pkg no_at_texts no_at_labels(3) no_at_time [OF merged] by (auto simp: sound_package_def Let_def)
    then show "s \<in> {pe_request (ce_change e), pe_request_url (ce_change e), pe_repository (ce_change e)} - \<Union> (entry_texts ` set (ce_contributors e))"
      using s at entry extra unfolding export_texts_def e by auto
  qed
  show "list_all2 discreet (cp_credits p) (ce_contributors e)"
    using sound [OF valid] unfolding entries by (auto simp: list_all2_map2 intro!: list.rel_refl_strong public_credit_discreet)
  show "\<forall>q. validate_credit_package h q = [] \<longrightarrow> cp_id q = cp_id p \<longrightarrow> cp_content q = cp_content p
      \<longrightarrow> re_url (cp_repository q) = re_url (cp_repository p) \<longrightarrow> cp_change q = cp_change p
      \<longrightarrow> map public_part (cp_credits q) = map public_part (cp_credits p) \<longrightarrow> build_public_export h q = Inr e"
  proof (intro allI impI)
    fix q assume q: "validate_credit_package h q = []" and parts: "map public_part (cp_credits q) = map public_part (cp_credits p)"
      and same: "cp_id q = cp_id p" "cp_content q = cp_content p" "re_url (cp_repository q) = re_url (cp_repository p)" "cp_change q = cp_change p"
    have "map to_public_credit (cp_credits q) = map to_public_credit (cp_credits p)"
    proof (rule nth_equalityI)
      have len: "length (cp_credits q) = length (cp_credits p)" using parts map_eq_imp_length_eq by blast
      then show "length (map to_public_credit (cp_credits q)) = length (map to_public_credit (cp_credits p))" by simp
      fix i assume i: "i < length (map to_public_credit (cp_credits q))"
      have "public_part (cp_credits q ! i) = public_part (cp_credits p ! i)" using parts i len by (metis length_map nth_map)
      then show "map to_public_credit (cp_credits q) ! i = map to_public_credit (cp_credits p) ! i"
        using public_credit_of_part [of h "cp_credits q ! i" h "cp_credits p ! i"] sound [OF q] sound [OF valid] i len by simp
    qed
    then show "build_public_export h q = Inr e" using assms q valid same
      by (simp add: build_public_export_def assert_credit_package_def)
  qed
qed

end
