(* ===== verification/Credit_Samples.thy ===== *)
theory Credit_Samples
  imports Credit_Theorems
begin

text \<open>A package with a public author and a deleted reviewer, and the theorem on the export applied to it.\<close>

definition sample_credit_host :: credit_host where
  "sample_credit_host = \<lparr>credit_url_of = (\<lambda>s. if take 25 s = ''https://code.example/repo''
     then Some \<lparr>cu_protocol = ''https:'', cu_origin = ''https://code.example'', cu_username = [], cu_password = [], cu_path = drop 20 s\<rparr> else None),
     other_date = (\<lambda>s. None)\<rparr>"

definition sample_credit :: "string \<Rightarrow> string \<Rightarrow> bool \<Rightarrow> contribution_credit" where
  "sample_credit i role active = \<lparr>cc_id = i, cc_role = role,
     cc_contributor = \<lparr>ci_ref = ''person-1'', ci_provider = ''forge'', ci_account = (if active then Some ''account-1'' else None),
       ci_proof = replicate 64 CHR ''a'', ci_state = (if active then ''active'' else ''deleted''), ci_extra = []\<rparr>,
     cc_consent = \<lparr>co_status = ''granted'', co_recorded = ''2026-03-01T10:00:00Z'', co_revoked = None, co_extra = []\<rparr>,
     cc_profile = (if active then Some \<lparr>pp_name = ''Ada'', pp_url = None, pp_extra = []\<rparr> else None), cc_summary = ''Wrote it'',
     cc_ai = \<lparr>ai_used = JBool False, ai_disclosure = None, ai_accountable = JBool True, ai_extra = []\<rparr>, cc_extra = []\<rparr>"

definition sample_credit_package :: credit_package where
  "sample_credit_package = \<lparr>cp_schema = ''1.0'', cp_id = ''package-1'', cp_created = ''2026-03-02T10:00:00Z'',
     cp_content = \<lparr>cr_id = ''module-1'', cr_kind = ''learn-module'', cr_version = ''1.0.0'', cr_extra = []\<rparr>,
     cp_repository = \<lparr>re_provider = ''forge'', re_id = ''school/repo'', re_url = ''https://code.example/repo/'', re_extra = []\<rparr>,
     cp_change = \<lparr>ac_request = ''7'', ac_url = ''https://code.example/repo/pull/7'', ac_merged = ''2026-03-01T10:00:00.000Z'',
       ac_merge_commit = replicate 40 CHR ''b'', ac_accepted_commit = replicate 40 CHR ''c'', ac_extra = []\<rparr>,
     cp_credits = [sample_credit ''credit-1'' ''author'' True, sample_credit ''credit-2'' ''reviewer'' False], cp_extra = []\<rparr>"

lemma sample_credits_sound:
  "sound_credit sample_credit_host (sample_credit ''credit-1'' ''author'' True)"
  "sound_credit sample_credit_host (sample_credit ''credit-2'' ''reviewer'' False)"
proof -
  have texts: "credit_stable_id ''credit-1''" "credit_stable_id ''credit-2''" "credit_stable_id ''person-1''" "credit_stable_id ''forge''"
    "digest_text (replicate 64 CHR ''a'')" "js_trim ''account-1'' \<noteq> []" "parses_timestamp ''2026-03-01T10:00:00Z''"
    "js_trim ''Wrote it'' \<noteq> []" "\<not> contains_email_address ''Wrote it''" "js_trim ''Ada'' \<noteq> []" "\<not> contains_email_address ''Ada''"
    by code_simp+
  then show "sound_credit sample_credit_host (sample_credit ''credit-1'' ''author'' True)"
    "sound_credit sample_credit_host (sample_credit ''credit-2'' ''reviewer'' False)"
    by (simp_all add: sound_credit_def sample_credit_def sound_identity_def sound_consent_def publicly_attributable_def sound_profile_def
        sound_ai_def contribution_roles_def del: replicate.simps)
qed

lemma sample_package_sound: "js_trim r \<noteq> [] \<Longrightarrow> sound_package sample_credit_host
    (sample_credit_package\<lparr>cp_change := cp_change sample_credit_package\<lparr>ac_request := r\<rparr>\<rparr>)"
proof -
  assume r: "js_trim r \<noteq> []"
  have dates: "date_parse ''2026-03-02T10:00:00Z'' = Some 1772445600000" "date_parse ''2026-03-01T10:00:00.000Z'' = Some 1772359200000"
    by code_simp+
  have texts: "credit_stable_id ''package-1''" "credit_stable_id ''module-1''" "credit_stable_id ''forge''" "repository_ident ''school/repo''"
    "content_version ''1.0.0''" "commit_hash (replicate 40 CHR ''b'')" "commit_hash (replicate 40 CHR ''c'')"
    "url_within_repository sample_credit_host ''https://code.example/repo/pull/7'' ''https://code.example/repo/''"
    by code_simp+
  have urls: "https_address sample_credit_host ''https://code.example/repo/''" "https_address sample_credit_host ''https://code.example/repo/pull/7''"
    by (simp_all add: https_address_def sample_credit_host_def)
  show ?thesis using r texts urls
    by (simp add: sound_package_def sample_credit_package_def not_before_def dates content_kinds_def sample_credit_def Let_def
        del: replicate.simps)
qed

lemma sample_package_valid: "js_trim r \<noteq> [] \<Longrightarrow> validate_credit_package sample_credit_host
    (sample_credit_package\<lparr>cp_change := cp_change sample_credit_package\<lparr>ac_request := r\<rparr>\<rparr>) = []"
  by (rule credit_package_accepted [OF sample_package_sound])
    (use sample_credits_sound in \<open>simp_all add: sample_credit_package_def sample_credit_def role_key_def\<close>)

lemma public_credits_private_witness:
  "\<exists>e. build_public_export sample_credit_host sample_credit_package = Inr e
     \<and> list_all2 discreet (cp_credits sample_credit_package) (ce_contributors e)
     \<and> \<not> contains_email_address (ce_package e)
     \<and> map pc_name (ce_contributors e) = [''Ada'', ''Anonymous contributor'']"
proof -
  have "js_trim ''7'' \<noteq> []" "sample_credit_package\<lparr>cp_change := cp_change sample_credit_package\<lparr>ac_request := ''7''\<rparr>\<rparr> = sample_credit_package"
    by (code_simp, simp add: sample_credit_package_def)
  then have valid: "validate_credit_package sample_credit_host sample_credit_package = []" using sample_package_valid [of "''7''"] by simp
  then obtain e where e: "build_public_export sample_credit_host sample_credit_package = Inr e"
    by (simp add: build_public_export_def assert_credit_package_def)
  have "ce_contributors e = map to_public_credit (cp_credits sample_credit_package)"
    using e valid by (auto simp: build_public_export_def assert_credit_package_def)
  then have "map pc_name (ce_contributors e) = [''Ada'', ''Anonymous contributor'']"
    by (simp add: sample_credit_package_def sample_credit_def to_public_credit_def publicly_attributable_def)
  moreover have "ce_package e \<notin> {pe_request (ce_change e), pe_request_url (ce_change e), pe_repository (ce_change e)}"
    using e valid by (auto simp: build_public_export_def assert_credit_package_def sample_credit_package_def)
  moreover have "ce_package e \<in> export_texts e" by (simp add: export_texts_def)
  ultimately show ?thesis using e public_credits_private [OF e] by (intro exI [of _ e]) blast
qed


text \<open>The pull-request ID, which the export and the view show, may be an e-mail address.\<close>

lemma request_may_be_address:
  "validate_credit_package sample_credit_host (sample_credit_package
      \<lparr>cp_change := cp_change sample_credit_package\<lparr>ac_request := ''ada@code.example''\<rparr>\<rparr>) = []
   \<and> contains_email_address ''ada@code.example''"
proof
  show "contains_email_address ''ada@code.example''" by code_simp
  show "validate_credit_package sample_credit_host (sample_credit_package
      \<lparr>cp_change := cp_change sample_credit_package\<lparr>ac_request := ''ada@code.example''\<rparr>\<rparr>) = []"
    by (rule sample_package_valid) code_simp
qed


end
