(* ===== verification/Bytes_Text.thy ===== *)
theory Bytes_Text
  imports Js_Prelude "HOL-Library.Word"
begin

text \<open>
  Bytes of the \<open>Uint8Array\<close>s, the UTF-8 of a text, and base64 with its URL-safe alphabet, as \<open>src/admin-pagination.ts\<close> and
  \<open>src/browser-session.ts\<close> use them. A byte is an \<open>8 word\<close>; \<open>None\<close> is a thrown error. A text has code units below 256, so
  its UTF-8 has one or two bytes a character, and the decoder rejects other sequences.
\<close>

unbundle bit_operations_syntax

type_synonym byte = "8 word"

section \<open>UTF-8\<close>

definition utf8_char :: "char \<Rightarrow> byte list" where
  "utf8_char c = (let w = of_char c :: byte in
     if w < 128 then [w] else [192 OR drop_bit 6 w, 128 OR (w AND 63)])"

definition utf8_encode :: "string \<Rightarrow> byte list" where
  "utf8_encode s = concat (map utf8_char s)"

definition byte_char :: "byte \<Rightarrow> char" where
  "byte_char b = char_of (unat b)"

fun utf8_decode :: "byte list \<Rightarrow> string option" where
  "utf8_decode [] = Some []"
| "utf8_decode (b # bs) =
     (if b < 128 then map_option (Cons (byte_char b)) (utf8_decode bs)
      else case bs of [] \<Rightarrow> None
      | c # cs \<Rightarrow> if b \<in> {194, 195} \<and> c AND 192 = 128
          then map_option (Cons (byte_char (push_bit 6 (b AND 3) OR (c AND 63)))) (utf8_decode cs) else None)"

section \<open>Base64\<close>

text \<open>Three bytes are four groups of six bits; a group is a byte below 64.\<close>

fun sextets :: "byte list \<Rightarrow> byte list" where
  "sextets [] = []"
| "sextets [a] = [drop_bit 2 a, push_bit 4 (a AND 3)]"
| "sextets [a, b] = [drop_bit 2 a, push_bit 4 (a AND 3) OR drop_bit 4 b, push_bit 2 (b AND 15)]"
| "sextets (a # b # c # bs) = drop_bit 2 a # (push_bit 4 (a AND 3) OR drop_bit 4 b)
     # (push_bit 2 (b AND 15) OR drop_bit 6 c) # (c AND 63) # sextets bs"

fun unsextets :: "byte list \<Rightarrow> byte list option" where
  "unsextets [] = Some []"
| "unsextets [x] = None"
| "unsextets [x, y] = Some [push_bit 2 x OR drop_bit 4 y]"
| "unsextets [x, y, z] = Some [push_bit 2 x OR drop_bit 4 y, push_bit 4 (y AND 15) OR drop_bit 2 z]"
| "unsextets (x # y # z # w # xs) = map_option (\<lambda>bs. (push_bit 2 x OR drop_bit 4 y)
     # (push_bit 4 (y AND 15) OR drop_bit 2 z) # (push_bit 6 (z AND 3) OR w) # bs) (unsextets xs)"

definition base64_alphabet :: string where
  "base64_alphabet = ''ABCDEFGHIJKLMNOPQRSTUVWXYZabcdefghijklmnopqrstuvwxyz0123456789+/''"

definition sextet_char :: "byte \<Rightarrow> char" where
  "sextet_char w = base64_alphabet ! unat w"

definition char_sextet :: "char \<Rightarrow> byte option" where
  "char_sextet c = map_option word_of_nat (find (\<lambda>i. base64_alphabet ! i = c) [0 ..< 64])"

definition padding :: "nat \<Rightarrow> string" where
  "padding n = replicate n CHR ''=''"

definition btoa :: "byte list \<Rightarrow> string" where
  "btoa bs = map sextet_char (sextets bs) @ padding ((3 - length bs mod 3) mod 3)"

text \<open>\<open>atob\<close> of a text without white space.\<close>

definition strip_padding :: "string \<Rightarrow> string" where
  "strip_padding s = (if length s mod 4 \<noteq> 0 then s
     else if 2 \<le> length s \<and> drop (length s - 2) s = padding 2 then take (length s - 2) s
     else if 1 \<le> length s \<and> drop (length s - 1) s = padding 1 then take (length s - 1) s else s)"

definition atob :: "string \<Rightarrow> byte list option" where
  "atob s = (let t = strip_padding s in
     if length t mod 4 = 1 then None else Option.bind (those (map char_sextet t)) unsextets)"

section \<open>The URL-safe form\<close>

definition url_safe :: "char \<Rightarrow> char" where
  "url_safe c = (if c = CHR ''+'' then CHR ''-'' else if c = CHR ''/'' then CHR ''_'' else c)"

definition url_unsafe :: "char \<Rightarrow> char" where
  "url_unsafe c = (if c = CHR ''-'' then CHR ''+'' else if c = CHR ''_'' then CHR ''/'' else c)"

definition base64_url_char :: "char \<Rightarrow> bool" where
  "base64_url_char c \<longleftrightarrow> alnum_char c \<or> c = CHR ''_'' \<or> c = CHR ''-''"

definition to_base64_url :: "byte list \<Rightarrow> string" where
  "to_base64_url bs = rev (dropWhile (\<lambda>c. c = CHR ''='') (rev (map url_safe (btoa bs))))"

definition from_base64_url :: "string \<Rightarrow> byte list option" where
  "from_base64_url s = (if s = [] \<or> \<not> list_all base64_url_char s \<or> length s mod 4 = 1 then None
     else atob (map url_unsafe s @ padding ((4 - length s mod 4) mod 4)))"

text \<open>The two functions of \<open>src/browser-session.ts\<close> differ in the order of their replacements and in one test.\<close>

definition encode_base64_url :: "byte list \<Rightarrow> string" where
  "encode_base64_url bs = map url_safe (filter (\<lambda>c. c \<noteq> CHR ''='') (btoa bs))"

definition decode_base64_url :: "string \<Rightarrow> byte list option" where
  "decode_base64_url s = (if s = [] \<or> \<not> list_all base64_url_char s then None
     else atob (map url_unsafe s @ padding ((4 - length s mod 4) mod 4)))"

section \<open>Round trips\<close>

lemma byte_eqI:
  fixes v w :: byte
  assumes "bit v 0 = bit w 0" "bit v 1 = bit w 1" "bit v 2 = bit w 2" "bit v 3 = bit w 3"
    "bit v 4 = bit w 4" "bit v 5 = bit w 5" "bit v 6 = bit w 6" "bit v 7 = bit w 7"
  shows "v = w"
proof (rule bit_word_eqI)
  fix n assume "n < LENGTH(8)"
  then have "n = 0 \<or> n = 1 \<or> n = 2 \<or> n = 3 \<or> n = 4 \<or> n = 5 \<or> n = 6 \<or> n = 7" by auto
  then show "bit v n = bit w n" using assms by blast
qed

lemma sextet_bytes:
  fixes a b c :: byte
  shows "push_bit 2 (drop_bit 2 a) OR drop_bit 4 (push_bit 4 (a AND 3) OR drop_bit 4 b) = a"
    "push_bit 4 ((push_bit 4 (a AND 3) OR drop_bit 4 b) AND 15) OR drop_bit 2 (push_bit 2 (b AND 15) OR drop_bit 6 c) = b"
    "push_bit 6 ((push_bit 2 (b AND 15) OR drop_bit 6 c) AND 3) OR (c AND 63) = c"
  by (rule byte_eqI; simp add: bit_simps)+

lemma high_byte:
  fixes w :: byte
  assumes "bit w 7"
  shows "push_bit 6 ((192 OR drop_bit 6 w) AND 3) OR ((128 OR (w AND 63)) AND 63) = w"
    "(128 OR (w AND 63)) AND 192 = (128 :: byte)"
    "192 OR drop_bit 6 w = 194 + (if bit w 6 then 1 else 0)"
proof -
  have "\<not> bit w 8" "\<not> bit w 9" "\<not> bit w 10" "\<not> bit w 11" by (auto dest: bit_imp_le_length)
  then show "push_bit 6 ((192 OR drop_bit 6 w) AND 3) OR ((128 OR (w AND 63)) AND 63) = w"
    "(128 OR (w AND 63)) AND 192 = (128 :: byte)"
    "192 OR drop_bit 6 w = 194 + (if bit w 6 then 1 else 0)"
    using assms by (auto intro!: byte_eqI simp: bit_simps)
qed

lemma small_byte: "(w :: byte) < 128 \<longleftrightarrow> \<not> bit w 7"
proof -
  have "bit w 7 = bit (unat w) 7" by (simp add: bit_unsigned_iff)
  also have "\<dots> = odd (unat w div 128)" by (simp add: bit_iff_odd)
  finally have "bit w 7 = odd (unat w div 128)" .
  moreover have "unat w < 256" using unsigned_less [of w, where ?'a = nat] by simp
  then have "unat w div 128 = 0 \<or> unat w div 128 = 1" by linarith
  moreover have "unat w < 128 \<longleftrightarrow> unat w div 128 = 0" by linarith
  ultimately show ?thesis by (auto simp: word_less_nat_alt)
qed

lemma byte_char_of: "byte_char (of_char c) = c"
proof -
  have "(of_char c :: byte) = of_nat (of_char c)" by (rule of_nat_of_char [symmetric])
  then have "unat (of_char c :: byte) = (of_char c :: nat) mod 2 ^ LENGTH(8)" by (simp only: unat_of_nat)
  then show ?thesis by (simp add: byte_char_def)
qed

lemma two_bytes: "x \<in> {194, 195} \<Longrightarrow> \<not> x < 128 \<Longrightarrow> y AND 192 = 128 \<Longrightarrow> push_bit 6 (x AND 3) OR (y AND 63) = w
    \<Longrightarrow> utf8_decode (x # y # bs) = map_option (Cons (byte_char w)) (utf8_decode bs)"
  by simp

lemma utf8_char_decodes: "utf8_decode (utf8_char c @ bs) = map_option (Cons c) (utf8_decode bs)"
proof -
  let ?w = "of_char c :: byte"
  show ?thesis
  proof (cases "?w < 128")
    case True
    then show ?thesis by (simp add: utf8_char_def byte_char_of)
  next
    case False
    then have "bit ?w 7" by (simp add: small_byte)
    note h = high_byte [OF this]
    have "192 OR drop_bit 6 ?w \<in> {194, 195}" "\<not> (192 OR drop_bit 6 ?w) < 128" unfolding h(3) by auto
    from two_bytes [OF this h(2,1)] show ?thesis using False by (simp only: utf8_char_def Let_def byte_char_of if_False append_Cons append_Nil)
  qed
qed

lemma utf8_roundtrip [simp]: "utf8_decode (utf8_encode s) = Some s"
proof (induction s)
  case (Cons c s)
  then show ?case using utf8_char_decodes [of c "utf8_encode s"] by (simp add: utf8_encode_def)
qed (simp add: utf8_encode_def)

lemma unsextets_sextets [simp]: "unsextets (sextets bs) = Some bs"
proof (induction bs rule: sextets.induct)
  case (2 a)
  then show ?case using sextet_bytes(1) [of a 0] by simp
next
  case (3 a b)
  then show ?case using sextet_bytes(1) [of a b] sextet_bytes(2) [of a b 0] by simp
next
  case (4 a b c bs)
  then show ?case by (simp only: sextets.simps unsextets.simps sextet_bytes option.map)
qed simp

lemma sextet_range: "unat (w :: byte) < 64 \<longleftrightarrow> \<not> bit w 6 \<and> \<not> bit w 7"
proof -
  have bit_w: "bit w n = bit (unat w) n" if "n < 8" for n using that by (simp add: bit_unsigned_iff)
  have "bit w 6 = odd (unat w div 64)" "bit w 7 = odd (unat w div 128)"
    using bit_w [of 6] bit_w [of 7] by (simp_all add: bit_iff_odd)
  moreover have "unat w < 256" using unsigned_less [of w, where ?'a = nat] by simp
  then have "unat w div 64 = 0 \<or> unat w div 64 = 1 \<or> unat w div 64 = 2 \<or> unat w div 64 = 3" by linarith
  moreover have "unat w div 128 = unat w div 64 div 2" by (simp add: div_mult2_eq [symmetric])
  moreover have "unat w < 64 \<longleftrightarrow> unat w div 64 = 0" by linarith
  ultimately show ?thesis by auto
qed

lemma sextets_range: "\<forall>w \<in> set (sextets bs). unat w < 64"
proof (induction bs rule: sextets.induct)
  case (4 a b c bs)
  have "\<not> bit a 8" "\<not> bit a 9" "\<not> bit b 10" "\<not> bit b 11" "\<not> bit c 12" "\<not> bit c 13" by (auto dest: bit_imp_le_length)
  then show ?case using 4 by (simp add: sextet_range bit_simps)
next
  case (3 a b)
  have "\<not> bit a 8" "\<not> bit a 9" "\<not> bit b 10" "\<not> bit b 11" by (auto dest: bit_imp_le_length)
  then show ?case by (simp add: sextet_range bit_simps)
next
  case (2 a)
  have "\<not> bit a 8" "\<not> bit a 9" by (auto dest: bit_imp_le_length)
  then show ?case by (simp add: sextet_range bit_simps)
qed simp

lemma alphabet_table: "\<forall>i \<in> set [0 ..< 64]. char_sextet (base64_alphabet ! i) = Some (word_of_nat i)
    \<and> base64_url_char (url_safe (base64_alphabet ! i)) \<and> url_unsafe (url_safe (base64_alphabet ! i)) = base64_alphabet ! i
    \<and> base64_alphabet ! i \<noteq> CHR ''='' \<and> url_safe (base64_alphabet ! i) \<noteq> CHR ''=''"
  by code_simp

lemma sextet_char_laws:
  assumes "unat w < 64"
  shows "char_sextet (sextet_char w) = Some w" "base64_url_char (url_safe (sextet_char w))"
    "url_unsafe (url_safe (sextet_char w)) = sextet_char w" "sextet_char w \<noteq> CHR ''=''" "url_safe (sextet_char w) \<noteq> CHR ''=''"
  using bspec [OF alphabet_table, of "unat w"] assms by (simp_all add: sextet_char_def)

lemma length_sextets: "length (sextets bs) + (3 - length bs mod 3) mod 3 = 4 * ((length bs + 2) div 3)"
proof (induction bs rule: sextets.induct)
  case (4 a b c bs)
  have "(length (a # b # c # bs)) mod 3 = length bs mod 3" using mod_add_self2 [of "length bs" 3] by simp
  moreover have "(length bs + 2 + 3) div 3 = (length bs + 2) div 3 + 1" by simp
  ultimately show ?case using 4 by (simp add: add.commute)
qed simp_all

lemma sextets_chars: "those (map char_sextet (map sextet_char (sextets bs))) = Some (sextets bs)"
proof -
  have "\<forall>w \<in> set ws. unat w < 64 \<Longrightarrow> those (map char_sextet (map sextet_char ws)) = Some ws" for ws
    by (induction ws) (simp_all add: sextet_char_laws)
  then show ?thesis using sextets_range by blast
qed

text \<open>Both encoders give the characters of the groups, without padding.\<close>

lemma encode_chars:
  "encode_base64_url bs = map (url_safe \<circ> sextet_char) (sextets bs)" "to_base64_url bs = map (url_safe \<circ> sextet_char) (sextets bs)"
proof -
  have keep: "filter (\<lambda>c. c \<noteq> CHR ''='') (map sextet_char (sextets bs)) = map sextet_char (sextets bs)"
    using sextets_range [of bs] by (auto simp: filter_id_conv sextet_char_laws)
  have "filter (\<lambda>c. c \<noteq> CHR ''='') (padding n) = []" for n by (simp add: padding_def)
  then show "encode_base64_url bs = map (url_safe \<circ> sextet_char) (sextets bs)"
    by (simp add: encode_base64_url_def btoa_def keep)
  have pad: "dropWhile (\<lambda>c. c = CHR ''='') (padding n @ xs) = dropWhile (\<lambda>c. c = CHR ''='') xs" for n xs
    by (induction n) (simp_all add: padding_def)
  have "map url_safe (padding n) = padding n" "rev (padding n) = padding n" for n by (simp_all add: padding_def url_safe_def)
  moreover have "dropWhile (\<lambda>c. c = CHR ''='') (rev (map (url_safe \<circ> sextet_char) (sextets bs)))
      = rev (map (url_safe \<circ> sextet_char) (sextets bs))"
    using sextets_range [of bs] by (cases "sextets bs" rule: rev_cases) (simp_all add: sextet_char_laws)
  ultimately show "to_base64_url bs = map (url_safe \<circ> sextet_char) (sextets bs)"
    by (simp add: to_base64_url_def btoa_def pad)
qed

lemma strip_pad:
  assumes "list_all (\<lambda>c. c \<noteq> CHR ''='') s" and "(length s + n) mod 4 = 0" and "n \<le> 2"
  shows "strip_padding (s @ padding n) = s"
proof -
  have last: "drop (length s - k) s \<noteq> padding k" if "0 < k" "k \<le> length s" for k
  proof
    assume "drop (length s - k) s = padding k"
    then have "CHR ''='' \<in> set (drop (length s - k) s)" using that(1) by (simp add: padding_def)
    then show False using assms(1) by (auto simp: list_all_iff dest: in_set_dropD)
  qed
  consider "n = 0" | "n = 1" | "n = 2" using assms(3) by linarith
  then show ?thesis
  proof cases
    case 1
    then show ?thesis using last [of 1] last [of 2] by (auto simp: strip_padding_def padding_def)
  next
    case 2
    then have "s \<noteq> []" using assms(2) by auto
    moreover have "drop (length s - 1) (s @ padding 1) \<noteq> padding 2"
      using \<open>s \<noteq> []\<close> assms(1) by (cases s rule: rev_cases) (auto simp: padding_def numeral_2_eq_2)
    ultimately show ?thesis using 2 assms(2) by (auto simp: strip_padding_def padding_def)
  next
    case 3
    then show ?thesis using assms(2) by (auto simp: strip_padding_def padding_def)
  qed
qed

lemma atob_chars: "atob (map sextet_char (sextets bs) @ padding ((4 - length (sextets bs) mod 4) mod 4)) = Some bs"
  and length_sextets_mod: "length (sextets bs) mod 4 \<noteq> 1"
proof -
  define p where "p = (3 - length bs mod 3) mod 3"
  have "p \<le> 2" unfolding p_def by linarith
  have sum: "(length (sextets bs) + p) mod 4 = 0" using length_sextets [of bs] by (simp add: p_def)
  have rest: "(l + 0) mod 4 = 0 \<Longrightarrow> l mod 4 = 0" "(l + 1) mod 4 = 0 \<Longrightarrow> l mod 4 = 3" "(l + 2) mod 4 = 0 \<Longrightarrow> l mod 4 = 2"
    for l :: nat by presburger+
  have "p = 0 \<or> p = 1 \<or> p = 2" using \<open>p \<le> 2\<close> by linarith
  then have p: "(4 - length (sextets bs) mod 4) mod 4 = p" and m: "length (sextets bs) mod 4 \<noteq> 1"
    using rest [of "length (sextets bs)"] sum by auto
  show "length (sextets bs) mod 4 \<noteq> 1" by (rule m)
  have "strip_padding (map sextet_char (sextets bs) @ padding p) = map sextet_char (sextets bs)"
    using sextets_range [of bs] sum \<open>p \<le> 2\<close> by (intro strip_pad) (auto simp: list_all_iff sextet_char_laws)
  then show "atob (map sextet_char (sextets bs) @ padding ((4 - length (sextets bs) mod 4) mod 4)) = Some bs"
    using m by (simp add: p atob_def Let_def sextets_chars del: map_map)
qed

lemma base64_url_roundtrip:
  assumes "bs \<noteq> []"
  shows "from_base64_url (to_base64_url bs) = Some bs" "decode_base64_url (encode_base64_url bs) = Some bs"
proof -
  have ne: "sextets bs \<noteq> []" using assms by (cases bs rule: sextets.cases) simp_all
  have chars: "list_all base64_url_char (map (url_safe \<circ> sextet_char) (sextets bs))"
    and restored: "map url_unsafe (map (url_safe \<circ> sextet_char) (sextets bs)) = map sextet_char (sextets bs)"
    using sextets_range [of bs] by (auto simp: list_all_iff sextet_char_laws)
  show "from_base64_url (to_base64_url bs) = Some bs" "decode_base64_url (encode_base64_url bs) = Some bs"
    unfolding encode_chars from_base64_url_def decode_base64_url_def restored
    using ne chars length_sextets_mod [of bs] by (simp_all add: atob_chars)
qed

text \<open>An encoding is a text of the URL alphabet.\<close>

lemma base64_url_text:
  "list_all base64_url_char (to_base64_url bs)" "bs \<noteq> [] \<Longrightarrow> to_base64_url bs \<noteq> []" "encode_base64_url bs = to_base64_url bs"
proof -
  show "list_all base64_url_char (to_base64_url bs)"
    using sextets_range [of bs] by (auto simp: encode_chars list_all_iff sextet_char_laws)
  show "bs \<noteq> [] \<Longrightarrow> to_base64_url bs \<noteq> []" by (cases bs rule: sextets.cases) (simp_all add: encode_chars)
  show "encode_base64_url bs = to_base64_url bs" by (simp add: encode_chars)
qed

end
