(* ===== verification/Account_Access.thy ===== *)
theory Account_Access
  imports Js_Json
begin

text \<open>
  Account states and e-mail domains (\<open>src/identity.ts\<close>) and the authorisation of an operation
  (\<open>src/authorization.ts\<close>). A value that the code receives as \<open>unknown\<close> is a JSON value. The hostname that
  \<open>new URL("https://" + s)\<close> reads is the parameter \<open>url_hostname\<close>, \<open>None\<close> when the constructor throws.
\<close>

section \<open>Account states\<close>

datatype account_state = Pending | Approved | Rejected | Suspended | Revoked

definition account_states :: "string list" where
  "account_states = [''pending'', ''approved'', ''rejected'', ''suspended'', ''revoked'']"

fun allowed_transitions :: "account_state \<Rightarrow> account_state list" where
  "allowed_transitions Pending = [Approved, Rejected, Revoked]"
| "allowed_transitions Approved = [Suspended, Revoked]"
| "allowed_transitions Rejected = [Approved, Revoked]"
| "allowed_transitions Suspended = [Approved, Revoked]"
| "allowed_transitions Revoked = []"

definition can_transition_account :: "account_state \<Rightarrow> account_state \<Rightarrow> bool" where
  "can_transition_account s t \<longleftrightarrow> t \<in> set (allowed_transitions s)"

section \<open>E-mail domains\<close>

definition without_final_dot :: "string \<Rightarrow> string" where
  "without_final_dot s = (if s \<noteq> [] \<and> last s = CHR ''.'' then butlast s else s)"

text \<open>\<open>s.split(".")\<close>.\<close>

fun split_dots :: "string \<Rightarrow> string list" where
  "split_dots [] = [[]]"
| "split_dots (c # s) = (case split_dots s of
     [] \<Rightarrow> [[c]]
   | label # labels \<Rightarrow> if c = CHR ''.'' then [] # label # labels else (c # label) # labels)"

definition normalize_exact_domain :: "(string \<Rightarrow> string option) \<Rightarrow> string \<Rightarrow> (string, string) result" where
  "normalize_exact_domain url_hostname value_text =
     (let candidate = without_final_dot (to_lower (js_trim value_text)) in
      if candidate = [] \<or> includes_char candidate CHR ''@'' \<or> includes_char candidate CHR ''*''
        \<or> includes_char candidate CHR ''/'' \<or> includes_char candidate CHR '':''
      then Inl ''Domain must be an exact DNS name without an email, wildcard, path, or port.''
      else (case url_hostname candidate of
          None \<Rightarrow> Inl ''Domain is not a valid DNS name.''
        | Some raw \<Rightarrow> let hostname = to_lower raw in
            if hostname \<noteq> candidate \<or> 253 < length hostname
              \<or> list_ex (\<lambda>label. label = [] \<or> 63 < length label) (split_dots hostname)
            then Inl ''Domain is not a valid normalized DNS name.''
            else Inr hostname))"

text \<open>\<open>email\<close> and \<open>emailVerified\<close> of an identity, as they arrive.\<close>

definition index_of :: "char \<Rightarrow> string \<Rightarrow> nat option" where
  "index_of c s = (if c \<in> set s then Some (length (takeWhile (\<lambda>d. d \<noteq> c) s)) else None)"

definition last_index_of :: "char \<Rightarrow> string \<Rightarrow> nat option" where
  "last_index_of c s = (if c \<in> set s then Some (length s - 1 - length (takeWhile (\<lambda>d. d \<noteq> c) (rev s))) else None)"

definition get_verified_email_domain :: "(string \<Rightarrow> string option) \<Rightarrow> json \<Rightarrow> json \<Rightarrow> string option" where
  "get_verified_email_domain url_hostname email email_verified =
     (if email_verified \<noteq> JBool True then None
      else case email of
        JStr address \<Rightarrow>
          if address = [] then None
          else (case index_of CHR ''@'' address of
              None \<Rightarrow> None
            | Some i \<Rightarrow>
                if i = 0 \<or> last_index_of CHR ''@'' address \<noteq> Some i \<or> i = length address - 1 then None
                else (case normalize_exact_domain url_hostname (drop (i + 1) address) of
                    Inl _ \<Rightarrow> None | Inr domain \<Rightarrow> Some domain))
      | _ \<Rightarrow> None)"

definition exact_domain_matches :: "(string \<Rightarrow> string option) \<Rightarrow> string \<Rightarrow> string \<Rightarrow> (string, bool) result" where
  "exact_domain_matches url_hostname email_domain rule_domain =
     bind_result (normalize_exact_domain url_hostname email_domain) (\<lambda>a.
     bind_result (normalize_exact_domain url_hostname rule_domain) (\<lambda>b. Inr (a = b)))"

section \<open>Authorisation\<close>

datatype auth_role = LearnerRole | OwnerRole

datatype auth_permission = SessionEstablish | SelfAccountState | SelfDataRights | SelfLearnerRecords
  | OwnerAdministration

datatype denial_code = AuthenticationRequired | AccountStateInvalid | AccountNotApproved
  | InstallationScopeInvalid | InstallationScopeMismatch | RoleAssignmentInvalid | LearnerRoleRequired
  | OwnerRoleRequired | SelfScopeMismatch

record auth_actor =
  aa_authenticated :: bool
  aa_account :: json
  aa_installation :: json
  aa_state :: json
  aa_roles :: json

record auth_request =
  rq_permission :: auth_permission
  rq_installation :: json
  rq_target :: json

datatype auth_decision = Allowed auth_permission "auth_role list" | Denied auth_permission denial_code

definition self_permissions :: "auth_permission list" where
  "self_permissions = [SelfAccountState, SelfDataRights, SelfLearnerRecords]"

fun non_empty_scope :: "json \<Rightarrow> bool" where
  "non_empty_scope (JStr s) \<longleftrightarrow> js_trim s \<noteq> []"
| "non_empty_scope _ = False"

text \<open>The loop over the assigned roles: \<open>None\<close> for an unknown or repeated one.\<close>

fun role_of :: "json \<Rightarrow> auth_role option" where
  "role_of (JStr s) = (if s = ''learner'' then Some LearnerRole else if s = ''owner'' then Some OwnerRole else None)"
| "role_of _ = None"

fun known_roles :: "json list \<Rightarrow> auth_role list \<Rightarrow> auth_role list option" where
  "known_roles [] known = Some known"
| "known_roles (r # rs) known = (case role_of r of
     None \<Rightarrow> None
   | Some role \<Rightarrow> if role \<in> set known then None else known_roles rs (role # known))"

fun normalized_roles :: "json \<Rightarrow> auth_role list option" where
  "normalized_roles (JArr roles) = (if roles = [] then None
     else map_option (\<lambda>known. filter (\<lambda>role. role \<in> set known) [LearnerRole, OwnerRole]) (known_roles roles []))"
| "normalized_roles _ = None"

fun known_state :: "json \<Rightarrow> bool" where
  "known_state (JStr s) \<longleftrightarrow> s \<in> set account_states"
| "known_state _ = False"

definition authorize_operation :: "auth_actor \<Rightarrow> auth_request \<Rightarrow> auth_decision" where
  "authorize_operation a r =
     (let p = rq_permission r in
      if \<not> aa_authenticated a then Denied p AuthenticationRequired
      else if \<not> non_empty_scope (aa_account a) \<or> \<not> non_empty_scope (aa_installation a)
        \<or> \<not> non_empty_scope (rq_installation r) then Denied p InstallationScopeInvalid
      else if aa_installation a \<noteq> rq_installation r then Denied p InstallationScopeMismatch
      else if \<not> known_state (aa_state a) then Denied p AccountStateInvalid
      else (case normalized_roles (aa_roles a) of
          None \<Rightarrow> Denied p RoleAssignmentInvalid
        | Some roles \<Rightarrow>
          if p \<in> set self_permissions \<and> (\<not> non_empty_scope (rq_target r) \<or> rq_target r \<noteq> aa_account a)
          then Denied p SelfScopeMismatch
          else if p = SelfAccountState \<or> p = SelfDataRights then Allowed p roles
          else if aa_state a \<noteq> JStr ''approved'' then Denied p AccountNotApproved
          else if p = OwnerAdministration
          then (if OwnerRole \<notin> set roles then Denied p OwnerRoleRequired else Allowed p roles)
          else if \<not> list_ex (\<lambda>role. role = LearnerRole \<or> role = OwnerRole) roles then Denied p LearnerRoleRequired
          else Allowed p roles))"

section \<open>Facts\<close>

lemma known_roles_Some:
  "known_roles rs known = Some known' \<Longrightarrow> set known' = set known \<union> {r. \<exists>j \<in> set rs. role_of j = Some r}"
  by (induction rs arbitrary: known) (auto split: option.splits if_splits)

lemma known_roles_iff:
  "(\<exists>known'. known_roles rs known = Some known')
    \<longleftrightarrow> (\<forall>j \<in> set rs. role_of j \<noteq> None) \<and> distinct (map role_of rs) \<and> (\<forall>j \<in> set rs. role_of j \<notin> Some ` set known)"
proof (induction rs arbitrary: known)
  case (Cons r rs)
  show ?case
  proof (cases "role_of r")
    case (Some role)
    have "role_of j \<noteq> Some role" if "Some role \<notin> role_of ` set rs" "j \<in> set rs" for j
      using that by (metis image_eqI)
    then show ?thesis using Cons.IH [of "role # known"] Some by auto
  qed simp
qed simp

text \<open>What a role assignment must be.\<close>

definition roles_assigned :: "json \<Rightarrow> auth_role set \<Rightarrow> bool" where
  "roles_assigned j R \<longleftrightarrow> (\<exists>rs. j = JArr rs \<and> rs \<noteq> [] \<and> (\<forall>r \<in> set rs. role_of r \<noteq> None)
     \<and> distinct (map role_of rs) \<and> R = {r. Some r \<in> role_of ` set rs})"

definition in_order_of_roles :: "auth_role set \<Rightarrow> auth_role list" where
  "in_order_of_roles R = filter (\<lambda>r. r \<in> R) [LearnerRole, OwnerRole]"

lemma set_in_order_of_roles [simp]: "set (in_order_of_roles R) = R"
proof -
  have "r = LearnerRole \<or> r = OwnerRole" for r by (cases r) simp_all
  then have "{LearnerRole, OwnerRole} \<inter> R = R" by blast
  then show ?thesis unfolding in_order_of_roles_def set_filter by auto
qed

lemma normalized_roles_iff:
  "normalized_roles j = Some roles \<longleftrightarrow> roles_assigned j (set roles) \<and> roles = in_order_of_roles (set roles)"
proof (cases j)
  case (JArr rs)
  let ?R = "{r. Some r \<in> role_of ` set rs}"
  have "normalized_roles j = Some roles \<longleftrightarrow> rs \<noteq> [] \<and> (\<forall>j \<in> set rs. role_of j \<noteq> None) \<and> distinct (map role_of rs)
      \<and> roles = in_order_of_roles ?R"
  proof (cases "known_roles rs []")
    case None
    then show ?thesis using known_roles_iff [of rs "[]"] by (auto simp: JArr)
  next
    case (Some known)
    have ok: "(\<forall>j \<in> set rs. role_of j \<noteq> None) \<and> distinct (map role_of rs)" using known_roles_iff [of rs "[]"] Some by auto
    have "set known = ?R" using known_roles_Some [OF Some] by (auto simp: image_iff eq_commute)
    then show ?thesis using ok by (auto simp: JArr Some in_order_of_roles_def)
  qed
  also have "\<dots> \<longleftrightarrow> roles_assigned j (set roles) \<and> roles = in_order_of_roles (set roles)"
  proof -
    have "roles = in_order_of_roles ?R \<longleftrightarrow> set roles = ?R \<and> roles = in_order_of_roles (set roles)"
      using set_in_order_of_roles by metis
    then show ?thesis by (auto simp only: roles_assigned_def JArr json.inject simp_thms ex_simps)
  qed
  finally show ?thesis .
qed (auto simp: roles_assigned_def)

lemma roles_assigned_nonempty: "roles_assigned j R \<Longrightarrow> R \<noteq> {}"
proof -
  assume "roles_assigned j R"
  then obtain r rs where "R = {q. Some q \<in> role_of ` set (r # rs)}" "role_of r \<noteq> None"
    unfolding roles_assigned_def by (metis list.exhaust list.set_intros(1))
  then show ?thesis by auto
qed

end
