(* ===== verification/Admin_Cursor.thy ===== *)
theory Admin_Cursor
  imports Bytes_Text Js_Guards Account_Access
begin

text \<open>
  The encrypted cursors of the administration pages (\<open>src/admin-pagination.ts\<close>). The AES-GCM functions and the key derivation
  of WebCrypto, \<open>JSON.parse\<close> and \<open>Date.parse\<close> (whether a text is a date) are parameters; the random initialization vector
  is an argument of the encoders.
\<close>

section \<open>The platform\<close>

record web_crypto =
  aes_encrypt :: "byte list \<Rightarrow> byte list \<Rightarrow> byte list \<Rightarrow> byte list \<Rightarrow> byte list"
  aes_decrypt :: "byte list \<Rightarrow> byte list \<Rightarrow> byte list \<Rightarrow> byte list \<Rightarrow> byte list option"
  hkdf_derive :: "byte list \<Rightarrow> byte list \<Rightarrow> byte list \<Rightarrow> byte list"
  json_parse :: "string \<Rightarrow> json option"

text \<open>What is documented of AES-GCM: decryption with the same key, vector and data inverts encryption, which adds a tag of 16 bytes.\<close>

definition aead_laws :: "web_crypto \<Rightarrow> bool" where
  "aead_laws wc \<longleftrightarrow> (\<forall>key iv ad p. aes_decrypt wc key iv ad (aes_encrypt wc key iv ad p) = Some p
     \<and> length (aes_encrypt wc key iv ad p) = length p + 16)"

datatype admin_error = InvalidAdminCursor | InvalidAdminPageSize | InvalidAdminCursorKey

section \<open>Page sizes\<close>

definition validate_admin_page_size :: "jsnum \<Rightarrow> (admin_error, jsnum) result" where
  "validate_admin_page_size n = (if \<not> safe_integer n \<or> num_less n (Fin 1) \<or> num_less (Fin 100) n
     then Inl InvalidAdminPageSize else Inr n)"

section \<open>Positions and payloads\<close>

record account_position =
  ap_created_at :: string
  ap_user_id :: string

record deletion_position =
  dp_requested_at :: string
  dp_request_id :: string

fun account_state_text :: "account_state \<Rightarrow> string" where
  "account_state_text Pending = ''pending''"
| "account_state_text Approved = ''approved''"
| "account_state_text Rejected = ''rejected''"
| "account_state_text Suspended = ''suspended''"
| "account_state_text Revoked = ''revoked''"

definition state_filter :: "account_state option \<Rightarrow> string" where
  "state_filter s = (case s of None \<Rightarrow> ''*'' | Some t \<Rightarrow> account_state_text t)"

definition account_cursor_payload :: "string \<Rightarrow> account_state option \<Rightarrow> account_position \<Rightarrow> json" where
  "account_cursor_payload installation st pos = JObj [(''v'', JInt 2), (''k'', JStr ''accounts''), (''i'', JStr installation),
     (''f'', JStr (state_filter st)), (''c'', JStr (ap_created_at pos)), (''u'', JStr (ap_user_id pos))]"

definition audit_cursor_payload :: "string \<Rightarrow> string \<Rightarrow> json" where
  "audit_cursor_payload installation seq = JObj [(''v'', JInt 2), (''k'', JStr ''audit''), (''i'', JStr installation),
     (''f'', JStr ''*''), (''s'', JStr seq)]"

definition deletion_cursor_payload :: "string \<Rightarrow> deletion_position \<Rightarrow> json" where
  "deletion_cursor_payload installation pos = JObj [(''v'', JInt 2), (''k'', JStr ''deletions''), (''i'', JStr installation),
     (''f'', JStr ''*''), (''r'', JStr (dp_requested_at pos)), (''d'', JStr (dp_request_id pos))]"

section \<open>Sealing and opening\<close>

definition cursor_data :: "byte list" where
  "cursor_data = utf8_encode ''project42-admin-cursor-v2''"

definition encode_cursor :: "runtime \<Rightarrow> web_crypto \<Rightarrow> byte list \<Rightarrow> json \<Rightarrow> byte list \<Rightarrow> string" where
  "encode_cursor rt wc iv payload key = to_base64_url iv @ ''.''
     @ to_base64_url (aes_encrypt wc key iv cursor_data (utf8_encode (stringify rt payload)))"

text \<open>\<open>/^[A-Za-z0-9_-]+\.[A-Za-z0-9_-]+$/\<close> and the two parts of \<open>cursor.split(".")\<close>.\<close>

definition cursor_parts :: "string \<Rightarrow> (string \<times> string) option" where
  "cursor_parts s = (let a = takeWhile (\<lambda>c. c \<noteq> CHR ''.'') s; b = tl (dropWhile (\<lambda>c. c \<noteq> CHR ''.'') s) in
     if CHR ''.'' \<in> set s \<and> a \<noteq> [] \<and> b \<noteq> [] \<and> list_all base64_url_char a \<and> list_all base64_url_char b then Some (a, b) else None)"

definition decode_cursor :: "web_crypto \<Rightarrow> string \<Rightarrow> byte list \<Rightarrow> (admin_error, json) result" where
  "decode_cursor wc cursor key =
     (case (if cursor = [] \<or> 2048 < length cursor then None else cursor_parts cursor) of
        None \<Rightarrow> Inl InvalidAdminCursor
      | Some (a, b) \<Rightarrow>
        (case (from_base64_url a, from_base64_url b) of
           (Some iv, Some ciphertext) \<Rightarrow>
             if length iv \<noteq> 12 \<or> length ciphertext \<le> 16 then Inl InvalidAdminCursor
             else (case Option.bind (Option.bind (aes_decrypt wc key iv cursor_data ciphertext) utf8_decode) (json_parse wc) of
                None \<Rightarrow> Inl InvalidAdminCursor
              | Some decoded \<Rightarrow> if is_record decoded then Inr decoded else Inl InvalidAdminCursor)
         | _ \<Rightarrow> Inl InvalidAdminCursor))"

section \<open>Guards\<close>

definition has_exact_keys :: "json \<Rightarrow> string list \<Rightarrow> bool" where
  "has_exact_keys v expected \<longleftrightarrow> js_sort unit_cmp (prop_keys v) = js_sort unit_cmp expected"

definition is_bounded_string :: "json \<Rightarrow> nat \<Rightarrow> nat \<Rightarrow> bool" where
  "is_bounded_string v low high \<longleftrightarrow> string_where (\<lambda>s. low \<le> length s \<and> length s \<le> high) v"

definition is_account_payload :: "(string \<Rightarrow> bool) \<Rightarrow> json \<Rightarrow> bool" where
  "is_account_payload dp v \<longleftrightarrow> has_exact_keys v [''v'', ''k'', ''i'', ''f'', ''c'', ''u''] \<and> get_prop v ''v'' = JInt 2
     \<and> get_prop v ''k'' = JStr ''accounts'' \<and> is_bounded_string (get_prop v ''i'') 1 256
     \<and> get_prop v ''f'' \<in> JStr ` {''*'', ''pending'', ''approved'', ''rejected'', ''suspended'', ''revoked''}
     \<and> is_bounded_string (get_prop v ''c'') 1 64 \<and> dp (str_of (get_prop v ''c'')) \<and> is_bounded_string (get_prop v ''u'') 1 256"

definition audit_sequence :: "string \<Rightarrow> bool" where
  "audit_sequence s \<longleftrightarrow> (case s of [] \<Rightarrow> False
     | c # cs \<Rightarrow> digit_char c \<and> c \<noteq> CHR ''0'' \<and> list_all digit_char cs \<and> length cs \<le> 18)"

definition is_audit_payload :: "json \<Rightarrow> bool" where
  "is_audit_payload v \<longleftrightarrow> has_exact_keys v [''v'', ''k'', ''i'', ''f'', ''s''] \<and> get_prop v ''v'' = JInt 2
     \<and> get_prop v ''k'' = JStr ''audit'' \<and> is_bounded_string (get_prop v ''i'') 1 256 \<and> get_prop v ''f'' = JStr ''*''
     \<and> string_where audit_sequence (get_prop v ''s'')"

definition is_deletion_payload :: "(string \<Rightarrow> bool) \<Rightarrow> json \<Rightarrow> bool" where
  "is_deletion_payload dp v \<longleftrightarrow> has_exact_keys v [''v'', ''k'', ''i'', ''f'', ''r'', ''d''] \<and> get_prop v ''v'' = JInt 2
     \<and> get_prop v ''k'' = JStr ''deletions'' \<and> is_bounded_string (get_prop v ''i'') 1 256 \<and> get_prop v ''f'' = JStr ''*''
     \<and> is_bounded_string (get_prop v ''r'') 1 64 \<and> dp (str_of (get_prop v ''r'')) \<and> is_bounded_string (get_prop v ''d'') 1 256"

section \<open>The cursors of the three pages\<close>

definition encode_account_cursor ::
    "runtime \<Rightarrow> web_crypto \<Rightarrow> byte list \<Rightarrow> string \<Rightarrow> account_state option \<Rightarrow> account_position \<Rightarrow> byte list \<Rightarrow> string" where
  "encode_account_cursor rt wc iv installation st pos key = encode_cursor rt wc iv (account_cursor_payload installation st pos) key"

definition decode_account_cursor ::
    "web_crypto \<Rightarrow> (string \<Rightarrow> bool) \<Rightarrow> string \<Rightarrow> string \<Rightarrow> account_state option \<Rightarrow> byte list \<Rightarrow> (admin_error, account_position) result" where
  "decode_account_cursor wc dp cursor installation st key = bind_result (decode_cursor wc cursor key) (\<lambda>p.
     if \<not> is_account_payload dp p \<or> get_prop p ''i'' \<noteq> JStr installation \<or> get_prop p ''f'' \<noteq> JStr (state_filter st)
     then Inl InvalidAdminCursor
     else Inr \<lparr>ap_created_at = str_of (get_prop p ''c''), ap_user_id = str_of (get_prop p ''u'')\<rparr>)"

definition encode_audit_cursor :: "runtime \<Rightarrow> web_crypto \<Rightarrow> byte list \<Rightarrow> string \<Rightarrow> string \<Rightarrow> byte list \<Rightarrow> string" where
  "encode_audit_cursor rt wc iv installation seq key = encode_cursor rt wc iv (audit_cursor_payload installation seq) key"

definition decode_audit_cursor :: "web_crypto \<Rightarrow> string \<Rightarrow> string \<Rightarrow> byte list \<Rightarrow> (admin_error, string) result" where
  "decode_audit_cursor wc cursor installation key = bind_result (decode_cursor wc cursor key) (\<lambda>p.
     if \<not> is_audit_payload p \<or> get_prop p ''i'' \<noteq> JStr installation then Inl InvalidAdminCursor
     else Inr (str_of (get_prop p ''s'')))"

definition encode_deletion_cursor :: "runtime \<Rightarrow> web_crypto \<Rightarrow> byte list \<Rightarrow> string \<Rightarrow> deletion_position \<Rightarrow> byte list \<Rightarrow> string" where
  "encode_deletion_cursor rt wc iv installation pos key = encode_cursor rt wc iv (deletion_cursor_payload installation pos) key"

definition decode_deletion_cursor ::
    "web_crypto \<Rightarrow> (string \<Rightarrow> bool) \<Rightarrow> string \<Rightarrow> string \<Rightarrow> byte list \<Rightarrow> (admin_error, deletion_position) result" where
  "decode_deletion_cursor wc dp cursor installation key = bind_result (decode_cursor wc cursor key) (\<lambda>p.
     if \<not> is_deletion_payload dp p \<or> get_prop p ''i'' \<noteq> JStr installation then Inl InvalidAdminCursor
     else Inr \<lparr>dp_requested_at = str_of (get_prop p ''r''), dp_request_id = str_of (get_prop p ''d'')\<rparr>)"

section \<open>The key\<close>

definition derive_cursor_key :: "web_crypto \<Rightarrow> byte list \<Rightarrow> byte list" where
  "derive_cursor_key wc root_key = hkdf_derive wc (utf8_encode ''project42-admin-cursor-key-v2'') cursor_data root_key"

text \<open>
  \<open>readAdminCursorEncryptionKey\<close>: without a configured key, the key of the process, derived once from a random root, which
  the second result keeps.
\<close>

definition read_cursor_key ::
    "web_crypto \<Rightarrow> string option \<Rightarrow> byte list option \<Rightarrow> byte list \<Rightarrow> (admin_error, byte list) result \<times> byte list option" where
  "read_cursor_key wc encoded process_key random_root =
     (let normalized = (case encoded of None \<Rightarrow> [] | Some s \<Rightarrow> js_trim s) in
      if normalized = [] then (case process_key of
          Some key \<Rightarrow> (Inr key, process_key)
        | None \<Rightarrow> let key = derive_cursor_key wc random_root in (Inr key, Some key))
      else (case from_base64_url normalized of
          None \<Rightarrow> (Inl InvalidAdminCursorKey, process_key)
        | Some root_key \<Rightarrow> if length root_key \<noteq> 32 then (Inl InvalidAdminCursorKey, process_key)
            else (Inr (derive_cursor_key wc root_key), process_key)))"

section \<open>Round trips\<close>

lemma base64_url_no_dot: "base64_url_char c \<Longrightarrow> c \<noteq> CHR ''.''"
  by (auto simp: base64_url_char_def alnum_char_def digit_char_def)

lemma cursor_parts_join:
  assumes "list_all base64_url_char a" "list_all base64_url_char b" "a \<noteq> []" "b \<noteq> []"
  shows "cursor_parts (a @ ''.'' @ b) = Some (a, b)"
proof -
  have "takeWhile (\<lambda>c. c \<noteq> CHR ''.'') (a @ ''.'' @ b) = a" "dropWhile (\<lambda>c. c \<noteq> CHR ''.'') (a @ ''.'' @ b) = ''.'' @ b"
    using assms(1) by (auto simp: list_all_iff takeWhile_append dropWhile_append dest: base64_url_no_dot)
  then show ?thesis using assms by (simp add: cursor_parts_def)
qed

lemma stringify_object: "stringify rt (JObj kvs) \<noteq> []"
  by simp

lemma utf8_nonempty: "s \<noteq> [] \<Longrightarrow> utf8_encode s \<noteq> []"
  by (cases s) (simp_all add: utf8_encode_def utf8_char_def Let_def)

lemma cursor_opens:
  assumes "aead_laws wc" and "length iv = 12" and "json_parse wc (stringify rt p) = Some p" and "is_record p"
    and "length (encode_cursor rt wc iv p key) \<le> 2048"
  shows "decode_cursor wc (encode_cursor rt wc iv p key) key = Inr p"
proof -
  let ?c = "aes_encrypt wc key iv cursor_data (utf8_encode (stringify rt p))"
  obtain kvs where "p = JObj kvs" using assms(4) by (cases p) simp_all
  then have "utf8_encode (stringify rt p) \<noteq> []" using utf8_nonempty stringify_object by metis
  then have long: "16 < length ?c" using assms(1) by (simp add: aead_laws_def)
  then have ne: "iv \<noteq> []" "?c \<noteq> []" using assms(2) by auto
  have parts: "cursor_parts (encode_cursor rt wc iv p key) = Some (to_base64_url iv, to_base64_url ?c)"
    unfolding encode_cursor_def using base64_url_text(1,2) ne by (intro cursor_parts_join) auto
  moreover have "encode_cursor rt wc iv p key \<noteq> []" by (simp add: encode_cursor_def)
  moreover have "aes_decrypt wc key iv cursor_data ?c = Some (utf8_encode (stringify rt p))"
    using assms(1) by (simp add: aead_laws_def)
  ultimately show ?thesis
    using assms(2-5) long base64_url_roundtrip(1) [OF ne(1)] base64_url_roundtrip(1) [OF ne(2)]
    by (simp add: decode_cursor_def)
qed

text \<open>The payloads pass the guard of their own page and no other.\<close>

lemma account_state_texts:
  "account_state_text s \<in> {''pending'', ''approved'', ''rejected'', ''suspended'', ''revoked''}" "account_state_text s \<noteq> ''*''"
  by (cases s; simp)+

lemma account_state_text_inj: "account_state_text s = account_state_text t \<longleftrightarrow> s = t"
  by (cases s; cases t) simp_all

lemma account_payload_guard:
  "is_account_payload dp (account_cursor_payload i st pos) \<longleftrightarrow> 1 \<le> length i \<and> length i \<le> 256 \<and> 1 \<le> length (ap_created_at pos)
     \<and> length (ap_created_at pos) \<le> 64 \<and> dp (ap_created_at pos) \<and> 1 \<le> length (ap_user_id pos) \<and> length (ap_user_id pos) \<le> 256"
  using account_state_texts [of "the st"]
  by (cases st) (auto simp: is_account_payload_def account_cursor_payload_def has_exact_keys_def is_bounded_string_def state_filter_def)

lemma audit_payload_guard:
  "is_audit_payload (audit_cursor_payload i s) \<longleftrightarrow> 1 \<le> length i \<and> length i \<le> 256 \<and> audit_sequence s"
  by (auto simp: is_audit_payload_def audit_cursor_payload_def has_exact_keys_def is_bounded_string_def)

lemma deletion_payload_guard:
  "is_deletion_payload dp (deletion_cursor_payload i pos) \<longleftrightarrow> 1 \<le> length i \<and> length i \<le> 256 \<and> 1 \<le> length (dp_requested_at pos)
     \<and> length (dp_requested_at pos) \<le> 64 \<and> dp (dp_requested_at pos) \<and> 1 \<le> length (dp_request_id pos) \<and> length (dp_request_id pos) \<le> 256"
  by (auto simp: is_deletion_payload_def deletion_cursor_payload_def has_exact_keys_def is_bounded_string_def)

lemma foreign_payloads:
  "\<not> is_audit_payload (account_cursor_payload i st pos)" "\<not> is_deletion_payload dp (account_cursor_payload i st pos)"
  "\<not> is_account_payload dp (audit_cursor_payload i s)" "\<not> is_deletion_payload dp (audit_cursor_payload i s)"
  "\<not> is_account_payload dp (deletion_cursor_payload i dpos)" "\<not> is_audit_payload (deletion_cursor_payload i dpos)"
  by (simp_all add: is_audit_payload_def is_account_payload_def is_deletion_payload_def account_cursor_payload_def audit_cursor_payload_def
      deletion_cursor_payload_def)

lemma state_filter_inj: "state_filter s = state_filter t \<longleftrightarrow> s = t"
  using account_state_texts(2) [of "the s"] account_state_texts(2) [of "the t"]
  by (cases s; cases t) (auto simp: state_filter_def account_state_text_inj)

lemma payload_props [simp]:
  "get_prop (account_cursor_payload i st pos) ''i'' = JStr i" "get_prop (account_cursor_payload i st pos) ''f'' = JStr (state_filter st)"
  "get_prop (account_cursor_payload i st pos) ''c'' = JStr (ap_created_at pos)" "get_prop (account_cursor_payload i st pos) ''u'' = JStr (ap_user_id pos)"
  "get_prop (audit_cursor_payload i s) ''i'' = JStr i" "get_prop (audit_cursor_payload i s) ''s'' = JStr s"
  "get_prop (deletion_cursor_payload i dpos) ''i'' = JStr i" "get_prop (deletion_cursor_payload i dpos) ''r'' = JStr (dp_requested_at dpos)"
  "get_prop (deletion_cursor_payload i dpos) ''d'' = JStr (dp_request_id dpos)"
  "is_record (account_cursor_payload i st pos)" "is_record (audit_cursor_payload i s)" "is_record (deletion_cursor_payload i dpos)"
  by (simp_all add: account_cursor_payload_def audit_cursor_payload_def deletion_cursor_payload_def)

text \<open>
  Cursors round-trip and are bound to their query. A cursor of the account page, of a bounded installation, date and user and
  short enough to be accepted, opens with the same key to the position it was made from when the installation and the state
  filter are the ones it was made for, and is refused for every other installation or filter and by the other two pages.
\<close>

theorem account_cursor_roundtrip:
  assumes "aead_laws wc" and "length iv = 12"
    and "json_parse wc (stringify rt (account_cursor_payload i st pos)) = Some (account_cursor_payload i st pos)"
    and "length (encode_account_cursor rt wc iv i st pos key) \<le> 2048"
    and "1 \<le> length i" and "length i \<le> 256" and "dp (ap_created_at pos)"
    and "1 \<le> length (ap_created_at pos)" and "length (ap_created_at pos) \<le> 64"
    and "1 \<le> length (ap_user_id pos)" and "length (ap_user_id pos) \<le> 256"
  shows "decode_account_cursor wc dp (encode_account_cursor rt wc iv i st pos key) j st' key
      = (if j = i \<and> st' = st then Inr pos else Inl InvalidAdminCursor)
    \<and> decode_audit_cursor wc (encode_account_cursor rt wc iv i st pos key) j key = Inl InvalidAdminCursor
    \<and> decode_deletion_cursor wc dp (encode_account_cursor rt wc iv i st pos key) j key = Inl InvalidAdminCursor"
proof -
  have "decode_cursor wc (encode_account_cursor rt wc iv i st pos key) key = Inr (account_cursor_payload i st pos)"
    using cursor_opens [OF assms(1-3)] assms(4) by (simp add: encode_account_cursor_def)
  moreover have "is_account_payload dp (account_cursor_payload i st pos)" using assms(5-11) by (simp add: account_payload_guard)
  ultimately show ?thesis
    by (auto simp: decode_account_cursor_def decode_audit_cursor_def decode_deletion_cursor_def foreign_payloads state_filter_inj)
qed

lemma other_cursors:
  assumes "aead_laws wc" and "length iv = 12" and "1 \<le> length i" and "length i \<le> 256"
  shows "json_parse wc (stringify rt (audit_cursor_payload i s)) = Some (audit_cursor_payload i s) \<Longrightarrow> audit_sequence s
      \<Longrightarrow> length (encode_audit_cursor rt wc iv i s key) \<le> 2048
      \<Longrightarrow> decode_audit_cursor wc (encode_audit_cursor rt wc iv i s key) j key = (if j = i then Inr s else Inl InvalidAdminCursor)"
    and "json_parse wc (stringify rt (deletion_cursor_payload i pos)) = Some (deletion_cursor_payload i pos)
      \<Longrightarrow> is_deletion_payload dp (deletion_cursor_payload i pos) \<Longrightarrow> length (encode_deletion_cursor rt wc iv i pos key) \<le> 2048
      \<Longrightarrow> decode_deletion_cursor wc dp (encode_deletion_cursor rt wc iv i pos key) j key = (if j = i then Inr pos else Inl InvalidAdminCursor)"
  using assms(3,4) cursor_opens [OF assms(1,2)]
  by (auto simp: encode_audit_cursor_def encode_deletion_cursor_def decode_audit_cursor_def decode_deletion_cursor_def
      audit_payload_guard)

end
