(* ===== verification/Browser_Session.thy ===== *)
theory Browser_Session
  imports Admin_Cursor
begin

text \<open>
  The sign-in transaction of a browser (\<open>src/browser-session.ts\<close>): its configuration, the sealed transaction cookie, cookie
  texts and their parsing, and the return target. \<open>Inl\<close> is the message of the thrown error. WebCrypto, \<open>JSON.parse\<close>,
  \<open>new URL\<close>, \<open>Date.parse\<close>, the clock and the lenient \<open>TextDecoder\<close> of this file are parameters.
\<close>

section \<open>Texts\<close>

text \<open>\<open>/^<.+>$/\<close>; the dot matches no line terminator.\<close>

definition placeholder_text :: "string \<Rightarrow> bool" where
  "placeholder_text s \<longleftrightarrow> 3 \<le> length s \<and> hd s = CHR ''<'' \<and> last s = CHR ''>''
     \<and> list_all (\<lambda>c. c \<noteq> CHR 0x0A \<and> c \<noteq> CHR 0x0D) s"

definition required_value :: "string option \<Rightarrow> string \<Rightarrow> (string, string) result" where
  "required_value v label = (let normalized = (case v of None \<Rightarrow> [] | Some s \<Rightarrow> js_trim s) in
     if normalized = [] \<or> placeholder_text normalized then Inl (label @ '' is required.'') else Inr normalized)"

section \<open>Addresses\<close>

record browser_url =
  bu_text :: string
  bu_protocol :: string
  bu_origin :: string
  bu_username :: string
  bu_password :: string
  bu_hash :: string

text \<open>\<open>new URL(s)\<close> and \<open>new URL(path, base)\<close>; \<open>None\<close> is a throw.\<close>

record url_ops =
  new_url :: "string \<Rightarrow> browser_url option"
  resolve_url :: "string \<Rightarrow> string \<Rightarrow> browser_url option"

definition strict_https_url :: "url_ops \<Rightarrow> string option \<Rightarrow> string \<Rightarrow> (string, string) result" where
  "strict_https_url ops v label = bind_result (required_value v label) (\<lambda>normalized.
     case new_url ops normalized of
       None \<Rightarrow> Inl (label @ '' must be an absolute HTTPS URL.'')
     | Some u \<Rightarrow> if bu_protocol u \<noteq> ''https:'' \<or> bu_username u \<noteq> [] \<or> bu_password u \<noteq> [] \<or> bu_hash u \<noteq> []
         then Inl (label @ '' must be an absolute HTTPS URL without credentials or a fragment.'') else Inr (bu_text u))"

definition allowed_origins_of :: "url_ops \<Rightarrow> string \<Rightarrow> string list option" where
  "allowed_origins_of ops allowed = those (map (\<lambda>s. map_option bu_origin (new_url ops s))
     (filter (\<lambda>s. s \<noteq> []) (map js_trim (split_at_char CHR '','' allowed))))"

definition normalize_return_target :: "url_ops \<Rightarrow> string option \<Rightarrow> string \<Rightarrow> (string, string) result" where
  "normalize_return_target ops candidate allowed =
     (case allowed_origins_of ops allowed of
        None \<Rightarrow> Inl ''Invalid URL''
      | Some [] \<Rightarrow> Inl ''At least one allowed browser origin is required.''
      | Some (origin # origins) \<Rightarrow>
        (case resolve_url ops ''/account/'' (origin @ ''/'') of
           None \<Rightarrow> Inl ''Invalid URL''
         | Some fallback \<Rightarrow>
           (case candidate of
              None \<Rightarrow> Inr (bu_text fallback)
            | Some [] \<Rightarrow> Inr (bu_text fallback)
            | Some c \<Rightarrow>
              (case new_url ops c of
                 None \<Rightarrow> Inr (bu_text fallback)
               | Some target \<Rightarrow>
                 if bu_origin target \<notin> set (origin # origins) \<or> bu_username target \<noteq> [] \<or> bu_password target \<noteq> []
                   \<or> bu_hash target \<noteq> []
                 then Inr (bu_text fallback) else Inr (bu_text target)))))"

section \<open>Configuration\<close>

record browser_environment =
  be_authorization :: "string option"
  be_token :: "string option"
  be_client :: "string option"
  be_secret :: "string option"
  be_redirect :: "string option"
  be_logout :: "string option"
  be_key :: "string option"

record oidc_configuration =
  oc_authorization :: string
  oc_token :: string
  oc_client :: string
  oc_secret :: "string option"
  oc_redirect :: string
  oc_logout :: "string option"
  oc_key :: "byte list"

definition read_oidc_configuration :: "url_ops \<Rightarrow> browser_environment \<Rightarrow> (string, oidc_configuration) result" where
  "read_oidc_configuration ops env =
     bind_result (strict_https_url ops (be_authorization env) ''OIDC_AUTHORIZATION_ENDPOINT'') (\<lambda>authorization.
     bind_result (strict_https_url ops (be_token env) ''OIDC_TOKEN_ENDPOINT'') (\<lambda>token.
     bind_result (strict_https_url ops (be_redirect env) ''OIDC_REDIRECT_URI'') (\<lambda>redirect.
     bind_result (required_value (be_client env) ''OIDC_CLIENT_ID'') (\<lambda>client.
     bind_result (required_value (be_key env) ''SESSION_ENCRYPTION_KEY'') (\<lambda>encoded.
     case decode_base64_url encoded of
       None \<Rightarrow> Inl ''Base64url value is invalid.''
     | Some key \<Rightarrow>
       if length key \<noteq> 32 then Inl ''SESSION_ENCRYPTION_KEY must be a base64url-encoded 32-byte key.''
       else bind_result (case be_logout env of None \<Rightarrow> Inr None | Some [] \<Rightarrow> Inr None
           | Some s \<Rightarrow> bind_result (strict_https_url ops (Some s) ''OIDC_LOGOUT_ENDPOINT'') (\<lambda>u. Inr (Some u)))
         (\<lambda>logout. Inr \<lparr>oc_authorization = authorization, oc_token = token, oc_client = client,
           oc_secret = (case be_secret env of None \<Rightarrow> None | Some s \<Rightarrow> if js_trim s = [] then None else Some (js_trim s)),
           oc_redirect = redirect, oc_logout = logout, oc_key = key\<rparr>))))))"

section \<open>Random values and challenges\<close>

text \<open>The bytes that \<open>getRandomValues\<close> filled in are an argument.\<close>

definition random_base64_url :: "jsnum \<Rightarrow> byte list \<Rightarrow> (string, string) result" where
  "random_base64_url n filled = (if \<not> safe_integer n \<or> num_less n (Fin 16) \<or> num_less (Fin 128) n
     then Inl ''Random value length must be between 16 and 128 bytes.'' else Inr (encode_base64_url filled))"

definition sha256_base64_url :: "(byte list \<Rightarrow> byte list) \<Rightarrow> string \<Rightarrow> string" where
  "sha256_base64_url sha256 v = encode_base64_url (sha256 (utf8_encode v))"

definition create_pkce_challenge :: "(byte list \<Rightarrow> byte list) \<Rightarrow> string \<Rightarrow> (string, string) result" where
  "create_pkce_challenge sha256 verifier = (if length verifier < 43 \<or> 128 < length verifier
     then Inl ''PKCE verifier length is invalid.'' else Inr (sha256_base64_url sha256 verifier))"

section \<open>The transaction\<close>

record oidc_transaction =
  ot_id :: string
  ot_state :: string
  ot_nonce :: string
  ot_verifier :: string
  ot_return :: string
  ot_expires :: string

definition transaction_json :: "oidc_transaction \<Rightarrow> json" where
  "transaction_json t = JObj [(''id'', JStr (ot_id t)), (''state'', JStr (ot_state t)), (''nonce'', JStr (ot_nonce t)),
     (''codeVerifier'', JStr (ot_verifier t)), (''returnTo'', JStr (ot_return t)), (''expiresAt'', JStr (ot_expires t))]"

definition transaction_data :: "byte list" where
  "transaction_data = utf8_encode ''project42-oidc-v1''"

definition seal_transaction :: "runtime \<Rightarrow> web_crypto \<Rightarrow> byte list \<Rightarrow> oidc_transaction \<Rightarrow> byte list \<Rightarrow> string" where
  "seal_transaction rt wc iv t key = encode_base64_url iv @ ''.''
     @ encode_base64_url (aes_encrypt wc key iv transaction_data (utf8_encode (stringify rt (transaction_json t))))"

fun required_parsed_string :: "json \<Rightarrow> string option" where
  "required_parsed_string (JStr s) = (if s = [] then None else Some s)"
| "required_parsed_string _ = None"

definition parsed_transaction :: "json \<Rightarrow> oidc_transaction option" where
  "parsed_transaction v =
     (case map (\<lambda>k. required_parsed_string (get_prop v k)) [''id'', ''state'', ''nonce'', ''codeVerifier'', ''returnTo'', ''expiresAt''] of
        [Some i, Some state, Some nonce, Some verifier, Some return_to, Some expires] \<Rightarrow>
          Some \<lparr>ot_id = i, ot_state = state, ot_nonce = nonce, ot_verifier = verifier, ot_return = return_to, ot_expires = expires\<rparr>
      | _ \<Rightarrow> None)"

text \<open>Complete, and its expiry a date after now.\<close>

definition transaction_usable :: "(string \<Rightarrow> jsnum) \<Rightarrow> rat \<Rightarrow> oidc_transaction \<Rightarrow> bool" where
  "transaction_usable date_of now t \<longleftrightarrow> 32 \<le> length (ot_state t) \<and> 32 \<le> length (ot_nonce t) \<and> 43 \<le> length (ot_verifier t)
     \<and> (case date_of (ot_expires t) of Fin r \<Rightarrow> now < r | _ \<Rightarrow> False)"

definition open_transaction ::
    "web_crypto \<Rightarrow> (byte list \<Rightarrow> string) \<Rightarrow> (string \<Rightarrow> jsnum) \<Rightarrow> rat \<Rightarrow> string \<Rightarrow> byte list \<Rightarrow> (string, oidc_transaction) result" where
  "open_transaction wc td date_of now cookie key =
     (case split_at_char CHR ''.'' cookie of
        [a, b] \<Rightarrow>
          (case (decode_base64_url a, decode_base64_url b) of
             (Some iv, Some ciphertext) \<Rightarrow>
               (case Option.bind (Option.bind (map_option td (aes_decrypt wc key iv transaction_data ciphertext)) (json_parse wc))
                   parsed_transaction of
                  Some t \<Rightarrow> if transaction_usable date_of now t then Inr t
                    else Inl ''OIDC transaction cookie is invalid or expired.''
                | None \<Rightarrow> Inl ''OIDC transaction cookie is invalid or expired.'')
           | _ \<Rightarrow> Inl ''OIDC transaction cookie is invalid or expired.'')
      | _ \<Rightarrow> Inl ''OIDC transaction cookie is invalid.'')"

section \<open>Cookies\<close>

definition oidc_transaction_cookie :: string where
  "oidc_transaction_cookie = ''__Host-project42_oidc''"

definition browser_session_cookie :: string where
  "browser_session_cookie = ''__Secure-project42_session''"

definition registration_receipt_cookie :: string where
  "registration_receipt_cookie = ''__Host-project42_registration''"

text \<open>\<open>readCookie\<close> on the \<open>cookie\<close> header, if any: the first pair with the name decides.\<close>

fun find_cookie :: "string \<Rightarrow> string list \<Rightarrow> string option" where
  "find_cookie label [] = None"
| "find_cookie label (pair # pairs) = (case index_of CHR ''='' pair of
     None \<Rightarrow> find_cookie label pairs
   | Some i \<Rightarrow> if i < 1 \<or> js_trim (take i pair) \<noteq> label then find_cookie label pairs
       else let v = js_trim (drop (i + 1) pair) in if v = [] then None else Some v)"

definition read_cookie :: "string option \<Rightarrow> string \<Rightarrow> string option" where
  "read_cookie header label = (case header of None \<Rightarrow> None | Some [] \<Rightarrow> None
     | Some h \<Rightarrow> find_cookie label (split_at_char CHR '';'' h))"

definition starts_with :: "string \<Rightarrow> string \<Rightarrow> bool" where
  "starts_with p s \<longleftrightarrow> take (length p) s = p"

definition domain_label :: "string \<Rightarrow> bool" where
  "domain_label l \<longleftrightarrow> l \<noteq> [] \<and> length l \<le> 63 \<and> alnum_char (hd l) \<and> alnum_char (last l)
     \<and> list_all (\<lambda>c. alnum_char c \<or> c = CHR ''-'') l"

definition subdomain_cookie_domain :: "string \<Rightarrow> bool" where
  "subdomain_cookie_domain s \<longleftrightarrow> (case s of [] \<Rightarrow> False
     | c # cs \<Rightarrow> c = CHR ''.'' \<and> 2 \<le> length (split_at_char CHR ''.'' cs) \<and> list_all domain_label (split_at_char CHR ''.'' cs))"

definition create_host_cookie :: "runtime \<Rightarrow> string \<Rightarrow> string \<Rightarrow> jsnum \<Rightarrow> string option \<Rightarrow> (string, string) result" where
  "create_host_cookie rt label v max_age domain = (let d = (case domain of None \<Rightarrow> [] | Some s \<Rightarrow> s) in
     if \<not> starts_with ''__Host-'' label \<and> \<not> starts_with ''__Secure-'' label
     then Inl ''Browser security cookies must use the __Host- or __Secure- prefix.''
     else if starts_with ''__Host-'' label \<and> d \<noteq> [] then Inl ''A __Host- prefixed cookie cannot carry a Domain attribute.''
     else if \<not> safe_integer max_age \<or> num_less max_age (Fin 0) \<or> num_less (Fin 2592000) max_age then Inl ''Cookie lifetime is invalid.''
     else if d \<noteq> [] \<and> \<not> subdomain_cookie_domain d
     then Inl ''cookieDomain must be a leading-dot registrable domain, such as .example.com.''
     else Inr (label @ ''='' @ v @ ''; Path=/; Max-Age='' @ jsnum_text rt max_age
       @ (if d \<noteq> [] then ''; Domain='' @ d else []) @ ''; Secure; HttpOnly; SameSite=Lax''))"

definition clear_host_cookie :: "runtime \<Rightarrow> string \<Rightarrow> string option \<Rightarrow> (string, string) result" where
  "clear_host_cookie rt label domain = create_host_cookie rt label [] (Fin 0) domain"

end
