(* ===== verification/Account_Theorems.thy ===== *)
theory Account_Theorems
  imports Account_Access
begin

text \<open>Properties of account states, e-mail domains and the authorisation of operations.\<close>

section \<open>The account lifecycle\<close>

definition account_step :: "(account_state \<times> account_state) set" where
  "account_step = {(s, t). can_transition_account s t}"

lemma account_step_simps [simp]:
  "(s, t) \<in> account_step \<longleftrightarrow> t \<in> set (allowed_transitions s)"
  by (simp add: account_step_def can_transition_account_def)





section \<open>Authorisation\<close>

text \<open>What must hold for a permission, besides a session, a matching installation and valid roles.\<close>

definition permission_grounds :: "auth_actor \<Rightarrow> auth_request \<Rightarrow> bool" where
  "permission_grounds a r = (case rq_permission r of
     SelfAccountState \<Rightarrow> rq_target r = aa_account a
   | SelfDataRights \<Rightarrow> rq_target r = aa_account a
   | SelfLearnerRecords \<Rightarrow> rq_target r = aa_account a \<and> aa_state a = JStr ''approved''
   | SessionEstablish \<Rightarrow> aa_state a = JStr ''approved''
   | OwnerAdministration \<Rightarrow> aa_state a = JStr ''approved''
       \<and> (\<exists>rs. aa_roles a = JArr rs \<and> JStr ''owner'' \<in> set rs))"

lemma role_of_owner: "role_of j = Some OwnerRole \<longleftrightarrow> j = JStr ''owner''"
  by (cases j) auto

lemma normalized_roles_assigned: "normalized_roles j = Some roles \<Longrightarrow> roles_assigned j (set roles)"
  using normalized_roles_iff by blast

lemma normalized_some_role:
  assumes "normalized_roles j = Some roles"
  shows "list_ex (\<lambda>role. role = LearnerRole \<or> role = OwnerRole) roles"
proof -
  have "roles \<noteq> []" using roles_assigned_nonempty [OF normalized_roles_assigned [OF assms]] by auto
  then obtain r rs where "roles = r # rs" by (cases roles) auto
  then show ?thesis by (cases r) simp_all
qed

lemma normalized_owner:
  assumes "normalized_roles j = Some roles"
  shows "OwnerRole \<in> set roles \<longleftrightarrow> (\<exists>rs. j = JArr rs \<and> JStr ''owner'' \<in> set rs)"
proof -
  obtain rs where rs: "j = JArr rs" "set roles = {r. Some r \<in> role_of ` set rs}"
    using normalized_roles_assigned [OF assms] unfolding roles_assigned_def by blast
  have "OwnerRole \<in> set roles \<longleftrightarrow> (\<exists>j \<in> set rs. role_of j = Some OwnerRole)"
    unfolding rs(2) by (auto simp: image_iff) metis
  then show ?thesis by (simp add: rs(1) role_of_owner)
qed

lemma authorize_with_roles:
  assumes "normalized_roles (aa_roles a) = Some roles"
  shows "authorize_operation a r = Allowed p roles' \<longleftrightarrow> p = rq_permission r \<and> roles' = roles \<and> aa_authenticated a
     \<and> non_empty_scope (aa_account a) \<and> non_empty_scope (aa_installation a)
     \<and> aa_installation a = rq_installation r \<and> known_state (aa_state a) \<and> permission_grounds a r"
  using normalized_some_role [OF assms] normalized_owner [OF assms] assms
  by (cases "rq_permission r") (auto simp: authorize_operation_def permission_grounds_def self_permissions_def Let_def)

lemma authorize_without_roles: "normalized_roles (aa_roles a) = None \<Longrightarrow> authorize_operation a r \<noteq> Allowed p roles"
  by (simp add: authorize_operation_def Let_def)

text \<open>
  C34. An operation is allowed exactly when the actor is authenticated, account and installation are named, the
  installation is that of the request, the account state is known, the roles are known, not repeated and at least one,
  and the grounds of the permission hold: one's own account for the \<open>self\<close> permissions, an approved account for all
  but account state and data rights, the owner role for administration. The decision repeats the permission and the
  assigned roles in their fixed order, and nothing else; the denial \<open>learner_role_required\<close> never occurs.
\<close>

theorem authorization_decides:
  "(authorize_operation a r = Allowed p roles \<longleftrightarrow> p = rq_permission r
     \<and> roles_assigned (aa_roles a) (set roles) \<and> roles = in_order_of_roles (set roles)
     \<and> aa_authenticated a \<and> non_empty_scope (aa_account a) \<and> non_empty_scope (aa_installation a)
     \<and> aa_installation a = rq_installation r \<and> known_state (aa_state a) \<and> permission_grounds a r)
   \<and> authorize_operation a r \<noteq> Denied p LearnerRoleRequired"
proof
  have "authorize_operation a r = Allowed p roles \<longleftrightarrow> normalized_roles (aa_roles a) = Some roles \<and> p = rq_permission r
     \<and> aa_authenticated a \<and> non_empty_scope (aa_account a) \<and> non_empty_scope (aa_installation a)
     \<and> aa_installation a = rq_installation r \<and> known_state (aa_state a) \<and> permission_grounds a r"
    using authorize_with_roles [of a] authorize_without_roles [of a] by (cases "normalized_roles (aa_roles a)") auto
  then show "authorize_operation a r = Allowed p roles \<longleftrightarrow> p = rq_permission r
     \<and> roles_assigned (aa_roles a) (set roles) \<and> roles = in_order_of_roles (set roles)
     \<and> aa_authenticated a \<and> non_empty_scope (aa_account a) \<and> non_empty_scope (aa_installation a)
     \<and> aa_installation a = rq_installation r \<and> known_state (aa_state a) \<and> permission_grounds a r"
    unfolding normalized_roles_iff by blast
  show "authorize_operation a r \<noteq> Denied p LearnerRoleRequired"
    using normalized_some_role [of "aa_roles a"] by (simp add: authorize_operation_def Let_def split: option.split)
qed

section \<open>Domains\<close>

text \<open>
  What the URL parser documents of a host: ASCII without upper-case letters and without spaces, and a
  host given as input is returned as it is.
\<close>

definition url_host_ok :: "(string \<Rightarrow> string option) \<Rightarrow> bool" where
  "url_host_ok f \<longleftrightarrow> (\<forall>s h. f s = Some h \<longrightarrow> (\<forall>c \<in> set h. \<not> space_char c \<and> lower_char c = c) \<and> f h = Some h)"

lemma to_lower_id: "\<forall>c \<in> set s. lower_char c = c \<Longrightarrow> to_lower s = s"
  by (simp add: to_lower_def map_idI)

lemma js_trim_id: "\<forall>c \<in> set s. \<not> space_char c \<Longrightarrow> js_trim s = s"
  by (induction s rule: rev_induct) (auto simp: js_trim_def dropWhile_append3 dropWhile_eq_self_iff intro: hd_in_set)

lemma split_dots_nonempty: "split_dots s \<noteq> []"
  by (cases s) (auto split: list.split)

lemma split_dots_snoc: "\<exists>label labels. split_dots (s @ ''.'') = label # labels \<and> [] \<in> set labels"
proof (induction s)
  case (Cons c s)
  then show ?case by auto
qed simp

lemma split_dots_final: "[] \<in> set (split_dots (s @ ''.''))"
  using split_dots_snoc [of s] by auto

lemma split_dots_join: "length s = sum_list (map length (split_dots s)) + (length (split_dots s) - 1)"
proof (induction s)
  case (Cons c s)
  then show ?case using split_dots_nonempty [of s] by (cases "split_dots s") auto
qed simp

lemma normalized_domain:
  assumes "normalize_exact_domain f v = Inr d"
  shows "d = without_final_dot (to_lower (js_trim v))" "d \<noteq> []" "length d \<le> 253" "set d \<inter> set ''@*/:'' = {}"
    "\<forall>label \<in> set (split_dots d). label \<noteq> [] \<and> length label \<le> 63" "\<exists>h. f d = Some h \<and> to_lower h = d"
  using assms by (auto simp: normalize_exact_domain_def Let_def includes_char_def list_ex_iff split: if_splits option.splits)

lemma normalize_again:
  assumes f: "url_host_ok f" and "normalize_exact_domain f v = Inr d"
  shows "normalize_exact_domain f d = Inr d"
proof -
  note n = normalized_domain [OF assms(2)]
  obtain h where h: "f d = Some h" "to_lower h = d" using n(6) by blast
  then have "\<forall>c \<in> set h. \<not> space_char c \<and> lower_char c = c" using f by (auto simp: url_host_ok_def)
  then have d: "h = d" "js_trim d = d" "to_lower d = d" using h(2) by (simp_all add: to_lower_id js_trim_id)
  have "last d \<noteq> CHR ''.''"
  proof
    assume "last d = CHR ''.''"
    then have "d = butlast d @ ''.''" using n(2) by (metis append_butlast_last_id)
    then show False using n(5) split_dots_final [of "butlast d"] by metis
  qed
  then have "without_final_dot d = d" by (simp add: without_final_dot_def)
  then show ?thesis
    using n d h(1) by (auto simp: normalize_exact_domain_def Let_def includes_char_def list_ex_iff)
qed

lemma index_of_Some: "index_of c s = Some n \<longleftrightarrow> (\<exists>a b. s = a @ c # b \<and> c \<notin> set a \<and> length a = n)"
proof
  assume n: "index_of c s = Some n"
  then have "c \<in> set s" by (simp add: index_of_def split: if_splits)
  then obtain a b where ab: "s = a @ c # b" "c \<notin> set a" by (metis split_list_first)
  then have "takeWhile (\<lambda>d. d \<noteq> c) s = a" by (auto simp: takeWhile_append)
  then have "length a = n" using n ab by (auto simp: index_of_def)
  then show "\<exists>a b. s = a @ c # b \<and> c \<notin> set a \<and> length a = n" using ab by blast
qed (auto simp: index_of_def takeWhile_append)

lemma last_index_of_Some: "last_index_of c s = Some n \<longleftrightarrow> (\<exists>a b. s = a @ c # b \<and> c \<notin> set b \<and> length a = n)"
proof
  assume n: "last_index_of c s = Some n"
  then have "c \<in> set s" by (simp add: last_index_of_def split: if_splits)
  then obtain a b where ab: "s = a @ c # b" "c \<notin> set b" by (metis split_list_last)
  then have "takeWhile (\<lambda>d. d \<noteq> c) (rev s) = rev b" by (auto simp: takeWhile_append)
  then have "length a = n" using n ab by (auto simp: last_index_of_def)
  then show "\<exists>a b. s = a @ c # b \<and> c \<notin> set b \<and> length a = n" using ab by blast
qed (auto simp: last_index_of_def takeWhile_append)

text \<open>
  The domain of a verified address: it exists exactly when the verification flag is the boolean \<open>true\<close>, the
  address has one \<open>@\<close> with something before and after it, and what follows normalises; the domain is what follows,
  normalised. A normalised domain is non-empty, has at most 253 characters in labels of 1 to 63, none of
  \<open>@ * / :\<close>, and normalises to itself; so a domain always matches itself.
\<close>

theorem verified_email_domain:
  assumes "url_host_ok f"
  shows "(get_verified_email_domain f email flag = Some d \<longleftrightarrow> flag = JBool True
      \<and> (\<exists>a b. email = JStr (a @ ''@'' @ b) \<and> a \<noteq> [] \<and> b \<noteq> [] \<and> CHR ''@'' \<notin> set (a @ b)
          \<and> normalize_exact_domain f b = Inr d))
    \<and> (get_verified_email_domain f email flag = Some d \<longrightarrow> d \<noteq> [] \<and> length d \<le> 253 \<and> set d \<inter> set ''@*/:'' = {}
      \<and> (\<forall>label \<in> set (split_dots d). label \<noteq> [] \<and> length label \<le> 63)
      \<and> normalize_exact_domain f d = Inr d \<and> exact_domain_matches f d d = Inr True)"
proof -
  have one_at: "get_verified_email_domain f email flag = Some d \<longleftrightarrow> flag = JBool True
      \<and> (\<exists>a b. email = JStr (a @ ''@'' @ b) \<and> a \<noteq> [] \<and> b \<noteq> [] \<and> CHR ''@'' \<notin> set (a @ b)
          \<and> normalize_exact_domain f b = Inr d)" (is "?l \<longleftrightarrow> ?r")
  proof
    assume l: ?l
    then obtain s i where s: "flag = JBool True" "email = JStr s" "index_of CHR ''@'' s = Some i"
      "i \<noteq> 0" "last_index_of CHR ''@'' s = Some i" "i \<noteq> length s - 1" "normalize_exact_domain f (drop (i + 1) s) = Inr d"
      by (auto simp: get_verified_email_domain_def split: if_splits json.splits option.splits sum.splits)
    obtain a b where a: "s = a @ CHR ''@'' # b" "CHR ''@'' \<notin> set a" "length a = i" using s(3) index_of_Some by blast
    obtain a' b' where b: "s = a' @ CHR ''@'' # b'" "CHR ''@'' \<notin> set b'" "length a' = i" using s(5) last_index_of_Some by blast
    have "b = b'" using a(1,3) b(1,3) by simp
    then show ?r using s a b by auto
  next
    assume ?r
    then obtain a b where ab: "flag = JBool True" "email = JStr (a @ ''@'' @ b)" "a \<noteq> []" "b \<noteq> []"
      "CHR ''@'' \<notin> set (a @ b)" "normalize_exact_domain f b = Inr d" by blast
    have "index_of CHR ''@'' (a @ ''@'' @ b) = Some (length a)" "last_index_of CHR ''@'' (a @ ''@'' @ b) = Some (length a)"
      using ab(5) by (auto simp: index_of_Some last_index_of_Some)
    then show ?l using ab by (simp add: get_verified_email_domain_def)
  qed
  have "d \<noteq> [] \<and> length d \<le> 253 \<and> set d \<inter> set ''@*/:'' = {}
      \<and> (\<forall>label \<in> set (split_dots d). label \<noteq> [] \<and> length label \<le> 63)
      \<and> normalize_exact_domain f d = Inr d \<and> exact_domain_matches f d d = Inr True"
    if n: "normalize_exact_domain f b = Inr d" for b
    using normalized_domain [OF n] normalize_again [OF assms n] by (simp add: exact_domain_matches_def)
  then show ?thesis using one_at by blast
qed

theorem verified_email_domain_witness:
  "get_verified_email_domain (\<lambda>s. if s = ''school.test'' then Some s else None) (JStr ''ada@School.test'') (JBool True)
     = Some ''school.test''"
proof -
  let ?f = "\<lambda>s. if s = ''school.test'' then Some s else None"
  have "\<forall>c \<in> set ''school.test''. \<not> space_char c \<and> lower_char c = c" by code_simp
  then have ok: "url_host_ok ?f" unfolding url_host_ok_def by (metis option.discI option.inject)
  have n: "normalize_exact_domain ?f ''School.test'' = Inr ''school.test''" by code_simp
  have "''ada@School.test'' = ''ada'' @ ''@'' @ ''School.test''" by simp
  then show ?thesis
    using verified_email_domain [OF ok, of "JStr ''ada@School.test''" "JBool True" "''school.test''"] n by fastforce
qed

end
