(* ===== verification/Session_Theorems.thy ===== *)
theory Session_Theorems
  imports Browser_Session Account_Theorems
begin

text \<open>
  What the sign-in transaction cookie and the return target guarantee (\<open>src/browser-session.ts\<close>).
\<close>

section \<open>Splitting\<close>

lemma split_at_char_none [simp]: "d \<notin> set s \<Longrightarrow> split_at_char d s = [s]"
  by (induction s) auto

lemma split_at_char_nonempty [simp]: "split_at_char d s \<noteq> []"
  by (induction s) (auto split: list.splits)

lemma split_at_char_append [simp]: "d \<notin> set a \<Longrightarrow> split_at_char d (a @ d # b) = a # split_at_char d b"
proof (induction a)
  case Nil
  then show ?case by (cases "split_at_char d b") simp_all
qed auto

section \<open>Cookies\<close>

lemma js_trim_space [simp]: "js_trim (CHR '' '' # s) = js_trim s"
  by (simp add: js_trim_def space_char_def)

lemma find_cookie_skip:
  assumes "CHR ''='' \<notin> set n" and "js_trim n \<noteq> label"
  shows "find_cookie label ((n @ ''='' @ v) # pairs) = find_cookie label pairs"
    "find_cookie label ((CHR '' '' # n @ ''='' @ v) # pairs) = find_cookie label pairs"
  using assms by (auto simp: index_of_def takeWhile_append)

lemma find_cookie_here:
  assumes "CHR ''='' \<notin> set label" and "label \<noteq> []" and "js_trim label = label" and "v \<noteq> []" and "js_trim v = v"
  shows "find_cookie label ((label @ ''='' @ v) # pairs) = Some v"
    "find_cookie label ((CHR '' '' # label @ ''='' @ v) # pairs) = Some v"
  using assms by (auto simp: index_of_def takeWhile_append)

text \<open>The \<open>cookie\<close> header a browser sends for other cookies.\<close>

abbreviation cookie_pairs :: "(string \<times> string) list \<Rightarrow> string" where
  "cookie_pairs ps \<equiv> concat (map (\<lambda>(n, v). n @ ''='' @ v @ ''; '') ps)"

lemma find_cookie_after:
  assumes "\<forall>(n, v) \<in> set ps. CHR '';'' \<notin> set (n @ v) \<and> CHR ''='' \<notin> set n \<and> js_trim n \<noteq> label"
    and "label \<noteq> []" and "CHR ''='' \<notin> set label" and "CHR '';'' \<notin> set label" and "js_trim label = label"
    and "v \<noteq> []" and "js_trim v = v" and "CHR '';'' \<notin> set v" and "rest = [] \<or> hd rest = CHR '';''"
  shows "find_cookie label (split_at_char CHR '';'' (cookie_pairs ps @ label @ ''='' @ v @ rest)) = Some v
    \<and> find_cookie label (split_at_char CHR '';'' (CHR '' '' # cookie_pairs ps @ label @ ''='' @ v @ rest)) = Some v"
  using assms(1)
proof (induction ps)
  case Nil
  obtain pairs where "split_at_char CHR '';'' ((label @ ''='' @ v) @ rest) = (label @ ''='' @ v) # pairs"
    and "split_at_char CHR '';'' ((CHR '' '' # label @ ''='' @ v) @ rest) = (CHR '' '' # label @ ''='' @ v) # pairs"
  proof (cases rest)
    case (Cons c cs)
    then have c: "rest = CHR '';'' # cs" using assms(9) by simp
    show thesis
      by (rule that [of "split_at_char CHR '';'' cs"]; unfold c; rule split_at_char_append) (use assms(4,8) in auto)
  qed (use assms(4,8) that [of "[]"] in auto)
  then show ?case using find_cookie_here [OF assms(3,2,5,6,7)] by simp
next
  case (Cons p ps)
  obtain n w where p: "p = (n, w)" by (cases p)
  let ?t = "CHR '' '' # cookie_pairs ps @ label @ ''='' @ v @ rest"
  have n: "CHR '';'' \<notin> set (n @ ''='' @ w)" "CHR ''='' \<notin> set n" "js_trim n \<noteq> label" using Cons.prems p by auto
  have e: "cookie_pairs (p # ps) @ label @ ''='' @ v @ rest = (n @ ''='' @ w) @ CHR '';'' # ?t" by (simp add: p)
  have e': "CHR '' '' # cookie_pairs (p # ps) @ label @ ''='' @ v @ rest = (CHR '' '' # n @ ''='' @ w) @ CHR '';'' # ?t" by (simp add: p)
  have n': "CHR '';'' \<notin> set (CHR '' '' # n @ ''='' @ w)" using n(1) by simp
  have "\<forall>(n, v) \<in> set ps. CHR '';'' \<notin> set (n @ v) \<and> CHR ''='' \<notin> set n \<and> js_trim n \<noteq> label" using Cons.prems by simp
  note ih = Cons.IH [OF this]
  show ?case
  proof
    show "find_cookie label (split_at_char CHR '';'' (cookie_pairs (p # ps) @ label @ ''='' @ v @ rest)) = Some v"
      unfolding e split_at_char_append [OF n(1)] find_cookie_skip [OF n(2,3)] using ih by blast
    show "find_cookie label (split_at_char CHR '';'' (CHR '' '' # cookie_pairs (p # ps) @ label @ ''='' @ v @ rest)) = Some v"
      unfolding e' split_at_char_append [OF n'] find_cookie_skip [OF n(2,3)] using ih by blast
  qed
qed

section \<open>The transaction cookie\<close>

lemma base64_url_plain: "base64_url_char c \<Longrightarrow> c \<noteq> CHR ''.'' \<and> c \<noteq> CHR '';'' \<and> \<not> space_char c"
  by (auto simp: base64_url_char_def alnum_char_def digit_char_def space_char_def)

lemma encoded_plain: "c \<in> set (encode_base64_url bs) \<Longrightarrow> c \<noteq> CHR ''.'' \<and> c \<noteq> CHR '';'' \<and> \<not> space_char c"
  using base64_url_text(1) [of bs] base64_url_plain by (auto simp: base64_url_text(3) list_all_iff)

lemma transaction_parses:
  assumes "\<forall>s \<in> {ot_id t, ot_state t, ot_nonce t, ot_verifier t, ot_return t, ot_expires t}. s \<noteq> []"
  shows "parsed_transaction (transaction_json t) = Some t"
  using assms by (simp add: parsed_transaction_def transaction_json_def)

lemma seal_text:
  "seal_transaction rt wc iv t key \<noteq> []" "js_trim (seal_transaction rt wc iv t key) = seal_transaction rt wc iv t key"
  "CHR '';'' \<notin> set (seal_transaction rt wc iv t key)"
proof -
  have "\<forall>c \<in> set (seal_transaction rt wc iv t key). c \<noteq> CHR '';'' \<and> \<not> space_char c"
    using encoded_plain by (auto simp: seal_transaction_def space_char_def)
  then show "js_trim (seal_transaction rt wc iv t key) = seal_transaction rt wc iv t key"
    and "CHR '';'' \<notin> set (seal_transaction rt wc iv t key)" using js_trim_id by blast+
qed (simp add: seal_transaction_def)

text \<open>
  C37. The sealed transaction of a sign-in survives the browser. Whatever other cookies come before and after it in the header,
  \<open>readCookie\<close> finds the sealed value under its name, and \<open>openOidcTransaction\<close> with the same key gives back exactly the
  transaction that was sealed when its secrets are long enough and its expiry is a date after now, and the one error of the
  function otherwise.
\<close>

theorem session_cookie_roundtrip:
  assumes "aead_laws wc" and "iv \<noteq> []" and "td (utf8_encode (stringify rt (transaction_json t))) = stringify rt (transaction_json t)"
    and "json_parse wc (stringify rt (transaction_json t)) = Some (transaction_json t)"
    and "\<forall>s \<in> {ot_id t, ot_state t, ot_nonce t, ot_verifier t, ot_return t, ot_expires t}. s \<noteq> []"
    and "\<forall>(n, v) \<in> set before. CHR '';'' \<notin> set (n @ v) \<and> CHR ''='' \<notin> set n \<and> js_trim n \<noteq> oidc_transaction_cookie"
    and "rest = [] \<or> hd rest = CHR '';''"
  shows "read_cookie (Some (concat (map (\<lambda>(n, v). n @ ''='' @ v @ ''; '') before) @ oidc_transaction_cookie @ ''=''
        @ seal_transaction rt wc iv t key @ rest)) oidc_transaction_cookie = Some (seal_transaction rt wc iv t key)
    \<and> open_transaction wc td date_of now (seal_transaction rt wc iv t key) key
      = (if 32 \<le> length (ot_state t) \<and> 32 \<le> length (ot_nonce t) \<and> 43 \<le> length (ot_verifier t)
            \<and> (\<exists>r. date_of (ot_expires t) = Fin r \<and> now < r)
         then Inr t else Inl ''OIDC transaction cookie is invalid or expired.'')"
proof
  have label: "oidc_transaction_cookie \<noteq> []" "CHR ''='' \<notin> set oidc_transaction_cookie" "CHR '';'' \<notin> set oidc_transaction_cookie"
    "js_trim oidc_transaction_cookie = oidc_transaction_cookie" by code_simp+
  have some: "read_cookie (Some h) l = find_cookie l (split_at_char CHR '';'' h)" if "h \<noteq> []" for h l
    using that by (cases h) (simp_all add: read_cookie_def)
  show "read_cookie (Some (concat (map (\<lambda>(n, v). n @ ''='' @ v @ ''; '') before) @ oidc_transaction_cookie @ ''=''
        @ seal_transaction rt wc iv t key @ rest)) oidc_transaction_cookie = Some (seal_transaction rt wc iv t key)"
    using find_cookie_after [OF assms(6) label seal_text assms(7)] by (subst some) simp_all
  let ?c = "aes_encrypt wc key iv transaction_data (utf8_encode (stringify rt (transaction_json t)))"
  have c: "?c \<noteq> []" using assms(1) unfolding aead_laws_def by (metis add_is_0 list.size(3) zero_neq_numeral)
  have "split_at_char CHR ''.'' (seal_transaction rt wc iv t key) = [encode_base64_url iv, encode_base64_url ?c]"
  proof -
    have "CHR ''.'' \<notin> set (encode_base64_url bs)" for bs using encoded_plain by blast
    then show ?thesis by (simp add: seal_transaction_def)
  qed
  moreover have "transaction_usable date_of now t \<longleftrightarrow> 32 \<le> length (ot_state t) \<and> 32 \<le> length (ot_nonce t) \<and> 43 \<le> length (ot_verifier t)
      \<and> (\<exists>r. date_of (ot_expires t) = Fin r \<and> now < r)"
    by (cases "date_of (ot_expires t)") (simp_all add: transaction_usable_def)
  ultimately show "open_transaction wc td date_of now (seal_transaction rt wc iv t key) key
      = (if 32 \<le> length (ot_state t) \<and> 32 \<le> length (ot_nonce t) \<and> 43 \<le> length (ot_verifier t)
            \<and> (\<exists>r. date_of (ot_expires t) = Fin r \<and> now < r)
         then Inr t else Inl ''OIDC transaction cookie is invalid or expired.'')"
    using assms(1,3,4) base64_url_roundtrip(2) [OF assms(2)] base64_url_roundtrip(2) [OF c] transaction_parses [OF assms(5)]
    by (simp add: open_transaction_def aead_laws_def)
qed

section \<open>The return target\<close>

lemma those_member: "those xs = Some ys \<Longrightarrow> y \<in> set ys \<Longrightarrow> Some y \<in> set xs"
proof (induction xs arbitrary: ys)
  case (Cons x xs)
  then show ?case by (cases x; cases "those xs") auto
qed simp

lemma allowed_origin_source:
  assumes "allowed_origins_of ops allowed = Some origins" and "y \<in> set origins"
  obtains s v where "s \<in> set (split_at_char CHR '','' allowed)" and "new_url ops (js_trim s) = Some v" and "bu_origin v = y"
proof -
  have "Some y \<in> set (map (\<lambda>s. map_option bu_origin (new_url ops s)) (filter (\<lambda>s. s \<noteq> []) (map js_trim (split_at_char CHR '','' allowed))))"
    by (rule those_member) (use assms in \<open>auto simp: allowed_origins_of_def\<close>)
  then obtain s where "s \<in> set (split_at_char CHR '','' allowed)" and "Some y = map_option bu_origin (new_url ops (js_trim s))"
    by auto
  then show thesis using that by (cases "new_url ops (js_trim s)") auto
qed

text \<open>
  What is documented of URLs: the text of a parsed address parses to the same address, and a path resolved against an origin
  stays at it.
\<close>

definition url_laws :: "url_ops \<Rightarrow> bool" where
  "url_laws ops \<longleftrightarrow> (\<forall>s u. new_url ops s = Some u \<longrightarrow> new_url ops (bu_text u) = Some u)
     \<and> (\<forall>s u v. new_url ops s = Some u \<longrightarrow> resolve_url ops ''/account/'' (bu_origin u @ ''/'') = Some v
          \<longrightarrow> new_url ops (bu_text v) = Some v \<and> bu_origin v = bu_origin u \<and> bu_username v = [] \<and> bu_password v = [] \<and> bu_hash v = [])"

text \<open>
  C38. No open redirect. Whatever return target a sign-in request asks for, the address that \<open>normalizeReturnTarget\<close> returns is a
  URL at the origin of one of the configured ones, without credentials or a fragment; and a requested URL of that kind is kept.
\<close>

theorem return_target_allowed:
  assumes "url_laws ops" and "normalize_return_target ops candidate allowed = Inr target"
  shows "(\<exists>u s v. new_url ops target = Some u \<and> s \<in> set (split_at_char CHR '','' allowed) \<and> new_url ops (js_trim s) = Some v
      \<and> bu_origin u = bu_origin v \<and> bu_username u = [] \<and> bu_password u = [] \<and> bu_hash u = [])
    \<and> (\<forall>c u origins. candidate = Some c \<longrightarrow> c \<noteq> [] \<longrightarrow> new_url ops c = Some u \<longrightarrow> allowed_origins_of ops allowed = Some origins
      \<longrightarrow> bu_origin u \<in> set origins \<longrightarrow> bu_username u = [] \<and> bu_password u = [] \<and> bu_hash u = [] \<longrightarrow> target = bu_text u)"
proof -
  obtain y ys where ys: "allowed_origins_of ops allowed = Some (y # ys)"
    using assms(2) by (auto simp: normalize_return_target_def split: option.splits list.splits)
  obtain f where f: "resolve_url ops ''/account/'' (y @ ''/'') = Some f"
    using assms(2) ys by (auto simp: normalize_return_target_def split: option.splits)
  let ?kept = "\<lambda>c u. candidate = Some c \<and> c \<noteq> [] \<and> new_url ops c = Some u \<and> bu_origin u \<in> set (y # ys)
      \<and> bu_username u = [] \<and> bu_password u = [] \<and> bu_hash u = []"
  have cases: "(\<exists>c u. ?kept c u \<and> target = bu_text u) \<or> ((\<nexists>c u. ?kept c u) \<and> target = bu_text f)"
    using assms(2) ys f by (auto simp: normalize_return_target_def split: option.splits list.splits if_splits)
  then have kept: "target = bu_text u" if "?kept c u" for c u using that by auto
  have "\<exists>u. new_url ops target = Some u \<and> bu_origin u \<in> set (y # ys) \<and> bu_username u = [] \<and> bu_password u = [] \<and> bu_hash u = []"
    using cases
  proof (elim disjE exE conjE)
    fix c u assume "new_url ops c = Some u" "target = bu_text u" "bu_origin u \<in> set (y # ys)"
      "bu_username u = []" "bu_password u = []" "bu_hash u = []"
    then show ?thesis using assms(1) by (auto simp: url_laws_def)
  next
    assume t: "target = bu_text f"
    obtain s v where "new_url ops (js_trim s) = Some v" "bu_origin v = y" by (rule allowed_origin_source [OF ys, of y]) auto
    then show ?thesis using assms(1) f t by (auto simp: url_laws_def)
  qed
  then obtain u where u: "new_url ops target = Some u" "bu_origin u \<in> set (y # ys)" "bu_username u = []" "bu_password u = []" "bu_hash u = []"
    by blast
  obtain s v where "s \<in> set (split_at_char CHR '','' allowed)" "new_url ops (js_trim s) = Some v" "bu_origin v = bu_origin u"
    using allowed_origin_source [OF ys u(2)] by blast
  then show ?thesis using u kept ys by auto
qed


end
