(* ===== verification/Session_Samples.thy ===== *)
theory Session_Samples
  imports Session_Theorems Sample_Records
begin

text \<open>
  Concrete platform functions (a cipher that appends a tag of 16 bytes, a parser of the sample texts, addresses of two sites) and
  the theorems on cursors and sign-in transactions applied to them.
\<close>

definition sample_crypto :: "(string \<times> json) list \<Rightarrow> web_crypto" where
  "sample_crypto texts = \<lparr>aes_encrypt = (\<lambda>key iv ad p. p @ replicate 16 7),
     aes_decrypt = (\<lambda>key iv ad c. Some (take (length c - 16) c)), hkdf_derive = (\<lambda>salt info k. k), json_parse = map_of texts\<rparr>"

lemma sample_crypto_laws: "aead_laws (sample_crypto texts)"
  by (simp add: aead_laws_def sample_crypto_def)

lemma sealed_length: "length (to_base64_url bs) \<le> 4 * ((length bs + 2) div 3)"
  using length_sextets [of bs] by (simp add: encode_chars)

lemma utf8_length: "length (utf8_encode s) \<le> 2 * length s"
  by (induction s) (auto simp: utf8_encode_def utf8_char_def Let_def)

definition sample_position :: account_position where
  "sample_position = \<lparr>ap_created_at = ''2026-03-01T10:00:00Z'', ap_user_id = ''user-a''\<rparr>"

definition sample_payload_text :: string where
  "sample_payload_text = stringify sample_runtime (account_cursor_payload ''project42'' (Some Pending) sample_position)"

definition sample_cursor_crypto :: web_crypto where
  "sample_cursor_crypto = sample_crypto [(sample_payload_text, account_cursor_payload ''project42'' (Some Pending) sample_position)]"

definition sample_vector :: "byte list" where
  "sample_vector = [1, 2, 3, 4, 5, 6, 7, 8, 9, 10, 11, 12]"

lemma sample_payload_length: "length sample_payload_text \<le> 200"
  by (simp add: sample_payload_text_def account_cursor_payload_def sample_position_def state_filter_def quote_text_def escape_char_def
      sample_runtime_def)

lemma sample_cursor_length:
  "length (encode_account_cursor sample_runtime sample_cursor_crypto sample_vector ''project42'' (Some Pending) sample_position key) \<le> 2048"
proof -
  let ?c = "utf8_encode sample_payload_text @ replicate 16 (7 :: byte)"
  have "length ?c \<le> 416" using utf8_length [of sample_payload_text] sample_payload_length by simp
  then have "length (to_base64_url ?c) \<le> 4 * ((416 + 2) div 3)" using sealed_length [of ?c] by (meson add_le_mono1 div_le_mono le_trans mult_le_mono2)
  moreover have "length (to_base64_url sample_vector) \<le> 4 * ((12 + 2) div 3)"
    using sealed_length [of sample_vector] by (simp add: sample_vector_def)
  ultimately show ?thesis
    by (simp add: encode_account_cursor_def encode_cursor_def sample_cursor_crypto_def sample_crypto_def sample_payload_text_def)
qed

lemma account_cursor_roundtrip_witness:
  "decode_account_cursor sample_cursor_crypto (\<lambda>s. True)
      (encode_account_cursor sample_runtime sample_cursor_crypto sample_vector ''project42'' (Some Pending) sample_position [])
      ''project42'' (Some Pending) [] = Inr sample_position
   \<and> decode_account_cursor sample_cursor_crypto (\<lambda>s. True)
      (encode_account_cursor sample_runtime sample_cursor_crypto sample_vector ''project42'' (Some Pending) sample_position [])
      ''project42'' None [] = Inl InvalidAdminCursor"
proof -
  have laws: "aead_laws sample_cursor_crypto" by (simp add: sample_cursor_crypto_def sample_crypto_laws)
  have parse: "json_parse sample_cursor_crypto (stringify sample_runtime (account_cursor_payload ''project42'' (Some Pending) sample_position))
      = Some (account_cursor_payload ''project42'' (Some Pending) sample_position)"
    by (simp add: sample_cursor_crypto_def sample_crypto_def sample_payload_text_def)
  note r = account_cursor_roundtrip [OF laws _ parse sample_cursor_length, where dp = "\<lambda>s. True" and key = "[]" and j = "''project42''"]
  show ?thesis using r [where st' = "Some Pending"] r [where st' = None] by (simp add: sample_vector_def sample_position_def)
qed

definition sample_transaction :: oidc_transaction where
  "sample_transaction = \<lparr>ot_id = ''t-1'', ot_state = replicate 32 CHR ''s'', ot_nonce = replicate 32 CHR ''n'',
     ot_verifier = replicate 43 CHR ''v'', ot_return = ''https://a.example/account/'', ot_expires = ''2026-03-01T10:00:00Z''\<rparr>"

definition sample_transaction_crypto :: web_crypto where
  "sample_transaction_crypto = sample_crypto [(stringify sample_runtime (transaction_json sample_transaction), transaction_json sample_transaction)]"

definition sample_text_decoder :: "byte list \<Rightarrow> string" where
  "sample_text_decoder bs = (case utf8_decode bs of None \<Rightarrow> ''?'' | Some s \<Rightarrow> s)"

lemma session_cookie_roundtrip_witness:
  "let sealed = seal_transaction sample_runtime sample_transaction_crypto sample_vector sample_transaction [] in
   read_cookie (Some (''theme=dark; __Host-project42_oidc='' @ sealed @ ''; lang=en'')) oidc_transaction_cookie = Some sealed
   \<and> open_transaction sample_transaction_crypto sample_text_decoder (\<lambda>s. Fin 100) 50 sealed [] = Inr sample_transaction
   \<and> open_transaction sample_transaction_crypto sample_text_decoder (\<lambda>s. Fin 100) 100 sealed []
      = Inl ''OIDC transaction cookie is invalid or expired.''"
proof -
  have laws: "aead_laws sample_transaction_crypto" by (simp add: sample_transaction_crypto_def sample_crypto_laws)
  have parse: "json_parse sample_transaction_crypto (stringify sample_runtime (transaction_json sample_transaction))
      = Some (transaction_json sample_transaction)"
    by (simp add: sample_transaction_crypto_def sample_crypto_def)
  have before: "\<forall>(n, v) \<in> set [(''theme'', ''dark'')]. CHR '';'' \<notin> set (n @ v) \<and> CHR ''='' \<notin> set n \<and> js_trim n \<noteq> oidc_transaction_cookie"
    by code_simp
  have usable: "transaction_usable (\<lambda>s. Fin 100) 50 sample_transaction" "\<not> transaction_usable (\<lambda>s. Fin 100) 100 sample_transaction"
    by (simp_all add: transaction_usable_def sample_transaction_def)
  note r = session_cookie_roundtrip [OF laws _ _ parse _ before, where iv = sample_vector and td = sample_text_decoder
      and rest = "''; lang=en''" and date_of = "\<lambda>s. Fin 100" and key = "[]"]
  show ?thesis using r [where now = 50] r [where now = 100] usable
    by (simp add: Let_def sample_vector_def sample_text_decoder_def sample_transaction_def oidc_transaction_cookie_def)
qed

definition sample_sites :: url_ops where
  "sample_sites =
     (let account = \<lparr>bu_text = ''https://a.example/account/'', bu_protocol = ''https:'', bu_origin = ''https://a.example'',
        bu_username = [], bu_password = [], bu_hash = []\<rparr> in
      \<lparr>new_url = (\<lambda>s. if s \<in> {''https://a.example'', ''https://a.example/account/''} then Some account
         else if s = ''https://evil.example/'' then Some (account\<lparr>bu_text := s, bu_origin := ''https://evil.example''\<rparr>) else None),
       resolve_url = (\<lambda>p b. if b = ''https://a.example/'' then Some account else None)\<rparr>)"

lemma return_target_allowed_witness:
  "normalize_return_target sample_sites (Some ''https://evil.example/'') ''https://a.example, '' = Inr ''https://a.example/account/''
   \<and> (\<exists>u. new_url sample_sites ''https://a.example/account/'' = Some u \<and> bu_hash u = [])"
proof -
  have laws: "url_laws sample_sites" by (auto simp: url_laws_def sample_sites_def Let_def split: if_splits)
  have run: "normalize_return_target sample_sites (Some ''https://evil.example/'') ''https://a.example, '' = Inr ''https://a.example/account/''"
    by code_simp
  show ?thesis using return_target_allowed [OF laws run] run by blast
qed

end
