(* ===== verification/Badge_Contract.thy ===== *)
theory Badge_Contract
  imports Js_Guards
begin

text \<open>
  The contract of the badge definitions and lifecycle events of \<open>src/badge-credentials.ts\<close>: the validators of untrusted
  values, with their messages in the code's order. They never throw. A sequence number and an index print in decimal.
\<close>

section \<open>Vocabulary\<close>

definition badge_classes :: "string list" where
  "badge_classes = [''participation'', ''completion'', ''mastery'']"

definition badge_evidence_kinds :: "string list" where
  "badge_evidence_kinds = [''module.visited'', ''module.completed'', ''assessment.passed'', ''capstone.passed'',
     ''human-review.approved'']"

definition badge_evidence_results :: "string list" where
  "badge_evidence_results = [''visited'', ''completed'', ''passed'', ''approved'']"

definition badge_event_types :: "string list" where
  "badge_event_types = [''badge.issued'', ''badge.corrected'', ''badge.revoked'', ''badge.expired'']"

definition badge_actor_types :: "string list" where
  "badge_actor_types = [''system'', ''owner'', ''administrator'']"

definition evidence_result_by_kind :: "string \<Rightarrow> string option" where
  "evidence_result_by_kind = map_of [(''module.visited'', ''visited''), (''module.completed'', ''completed''),
     (''assessment.passed'', ''passed''), (''capstone.passed'', ''passed''), (''human-review.approved'', ''approved'')]"

definition badge_stable_id :: "string \<Rightarrow> bool" where
  "badge_stable_id s \<longleftrightarrow> (case s of [] \<Rightarrow> False
     | c # cs \<Rightarrow> alnum_char c \<and> list_all id_char cs \<and> 2 \<le> length cs \<and> length cs \<le> 255)"

definition badge_version_id :: "string \<Rightarrow> bool" where
  "badge_version_id s \<longleftrightarrow> (case s of [] \<Rightarrow> False
     | c # cs \<Rightarrow> alnum_char c \<and> list_all version_char cs \<and> length cs \<le> 127)"

text \<open>\<open>/^[A-Za-z]{2,8}(?:-[A-Za-z0-9]{1,8})*$/\<close>: the subtags between the hyphens.\<close>

definition language_tag :: "string \<Rightarrow> bool" where
  "language_tag s \<longleftrightarrow> (case split_at_char CHR ''-'' s of [] \<Rightarrow> False
     | t # ts \<Rightarrow> 2 \<le> length t \<and> length t \<le> 8 \<and> list_all (\<lambda>c. alnum_char c \<and> \<not> digit_char c) t
         \<and> list_all (\<lambda>u. 1 \<le> length u \<and> length u \<le> 8 \<and> list_all alnum_char u) ts)"

section \<open>Checks of single members\<close>

definition badge_id_errors :: "json \<Rightarrow> string \<Rightarrow> string list" where
  "badge_id_errors v label = complain_unless (string_where badge_stable_id v) (label @ '' is invalid'')"

definition check_version :: "json \<Rightarrow> string \<Rightarrow> string list" where
  "check_version v label = complain_unless (string_where badge_version_id v) (label @ '' is required and invalid'')"

definition check_timestamp :: "json \<Rightarrow> string \<Rightarrow> string list" where
  "check_timestamp v label = complain_unless (string_where parses_timestamp v) (label @ '' must be an ISO UTC timestamp'')"

definition check_text :: "json \<Rightarrow> string \<Rightarrow> nat \<Rightarrow> string list" where
  "check_text v label n = complain_unless (string_where (\<lambda>s. js_trim s \<noteq> [] \<and> length s \<le> n) v)
     (label @ '' must be between 1 and '' @ nat_text n @ '' characters'')"

definition check_score :: "json \<Rightarrow> string \<Rightarrow> string list" where
  "check_score v label = complain_unless (v = JNull \<or> is_percent v) (label @ '' must be null or a number from 0 through 100'')"

definition check_member :: "string list \<Rightarrow> json \<Rightarrow> string \<Rightarrow> string list" where
  "check_member xs v label = complain_unless (string_where (\<lambda>s. s \<in> set xs) v) (label @ '' is unsupported'')"

fun positive_safe_integer :: "json \<Rightarrow> bool" where
  "positive_safe_integer (JNum n) \<longleftrightarrow> safe_integer n \<and> num_less (Fin 0) n"
| "positive_safe_integer _ = False"

text \<open>The two rules that tie the result and the score of an evidence item or requirement to its kind.\<close>

definition check_kind_result :: "json \<Rightarrow> json \<Rightarrow> string \<Rightarrow> string list" where
  "check_kind_result kind result prefix = complain (string_where (\<lambda>k. k \<in> set badge_evidence_kinds
       \<and> result \<noteq> (case evidence_result_by_kind k of None \<Rightarrow> JUndefined | Some r \<Rightarrow> JStr r)) kind)
     (prefix @ '' result does not match its evidence kind'')"

definition check_kind_score :: "json \<Rightarrow> json \<Rightarrow> string \<Rightarrow> string list" where
  "check_kind_score kind score prefix = complain (score \<noteq> JNull \<and> kind \<noteq> JStr ''assessment.passed''
       \<and> kind \<noteq> JStr ''capstone.passed'') (prefix @ '' can only score assessments or capstones'')"

section \<open>Definitions\<close>

text \<open>The loop over the display entries, with the languages seen so far.\<close>

definition display_entry_errors :: "nat \<Rightarrow> string list \<Rightarrow> json \<Rightarrow> string list" where
  "display_entry_errors i languages item = (let entry = ''display entry '' @ nat_text i in
     unsupported_fields item [''language'', ''name'', ''description'', ''criteriaSummary''] entry
     @ (if \<not> string_where language_tag (get_prop item ''language'') then [entry @ '' language is invalid'']
        else complain (to_lower (str_of (get_prop item ''language'')) \<in> set languages)
          (''display language '' @ str_of (get_prop item ''language'') @ '' is duplicated''))
     @ check_text (get_prop item ''name'') (entry @ '' name'') 160
     @ check_text (get_prop item ''description'') (entry @ '' description'') 1000
     @ check_text (get_prop item ''criteriaSummary'') (entry @ '' criteria summary'') 1000)"

definition language_seen :: "string list \<Rightarrow> json \<Rightarrow> string list" where
  "language_seen languages item = (if string_where language_tag (get_prop item ''language'')
     then to_lower (str_of (get_prop item ''language'')) # languages else languages)"

fun display_loop :: "nat \<Rightarrow> string list \<Rightarrow> json list \<Rightarrow> string list \<times> string list" where
  "display_loop i languages [] = ([], languages)"
| "display_loop i languages (item # items) =
     (if \<not> is_record item then let (es, ls) = display_loop (Suc i) languages items
        in ((''display entry '' @ nat_text i @ '' must be an object'') # es, ls)
      else let (es, ls) = display_loop (Suc i) (language_seen languages item) items
        in (display_entry_errors i languages item @ es, ls))"

definition validate_display :: "json \<Rightarrow> json \<Rightarrow> string list" where
  "validate_display v default_language =
     (if \<not> is_array v \<or> elems v = [] then [''at least one badge display-language entry is required'']
      else let (es, languages) = display_loop 0 [] (elems v)
        in es @ complain (string_where (\<lambda>s. to_lower s \<notin> set languages) default_language)
             ''default display language must have a display entry'')"

definition validate_issuer_policy :: "json \<Rightarrow> string list" where
  "validate_issuer_policy v =
     (if \<not> is_record v then [''issuer policy must be an object'']
      else unsupported_fields v [''id'', ''version'', ''issuerId'', ''issuanceMode'', ''correctionMode'', ''revocationMode'',
             ''requiresApprovedIdentity''] ''issuer policy''
        @ badge_id_errors (get_prop v ''id'') ''issuer policy ID''
        @ check_version (get_prop v ''version'') ''issuer policy version''
        @ badge_id_errors (get_prop v ''issuerId'') ''issuer ID''
        @ complain_unless (get_prop v ''issuanceMode'' = JStr ''durable-record-only'')
            ''issuer policy must require durable-record-only issuance''
        @ complain_unless (get_prop v ''correctionMode'' = JStr ''append-only'') ''issuer policy must require append-only correction''
        @ complain_unless (get_prop v ''revocationMode'' = JStr ''append-only'') ''issuer policy must require append-only revocation''
        @ complain_unless (get_prop v ''requiresApprovedIdentity'' = JBool True) ''issuer policy must require an approved identity'')"

definition validate_evidence_requirement :: "json \<Rightarrow> nat \<Rightarrow> string list" where
  "validate_evidence_requirement v i = (let prefix = ''evidence requirement '' @ nat_text i in
     if \<not> is_record v then [prefix @ '' must be an object'']
     else unsupported_fields v [''id'', ''kind'', ''subjectId'', ''subjectVersion'', ''contentVersion'', ''requiredResult'',
            ''minimumScorePercent''] prefix
       @ badge_id_errors (get_prop v ''id'') (prefix @ '' ID'')
       @ check_member badge_evidence_kinds (get_prop v ''kind'') (prefix @ '' kind'')
       @ badge_id_errors (get_prop v ''subjectId'') (prefix @ '' subject ID'')
       @ check_version (get_prop v ''subjectVersion'') (prefix @ '' subject version'')
       @ check_version (get_prop v ''contentVersion'') (prefix @ '' content version'')
       @ check_member badge_evidence_results (get_prop v ''requiredResult'') (prefix @ '' required result'')
       @ check_kind_result (get_prop v ''kind'') (get_prop v ''requiredResult'') prefix
       @ check_score (get_prop v ''minimumScorePercent'') (prefix @ '' minimum score'')
       @ check_kind_score (get_prop v ''kind'') (get_prop v ''minimumScorePercent'') prefix)"

text \<open>Adds the ID of a record, when it is a text, to the ones seen.\<close>

definition id_seen :: "string list \<Rightarrow> json \<Rightarrow> string list" where
  "id_seen ids v = (if is_record v \<and> is_string (get_prop v ''id'') then str_of (get_prop v ''id'') # ids else ids)"

definition repeated_id :: "string list \<Rightarrow> json \<Rightarrow> bool" where
  "repeated_id ids v \<longleftrightarrow> is_record v \<and> string_where (\<lambda>i. i \<in> set ids) (get_prop v ''id'')"

text \<open>The loop over the requirements: its messages, and the requirements that raised none.\<close>

fun requirement_loop :: "nat \<Rightarrow> string list \<Rightarrow> json list \<Rightarrow> string list \<times> json list" where
  "requirement_loop i ids [] = ([], [])"
| "requirement_loop i ids (r # rs) = (let
       own = validate_evidence_requirement r i
         @ complain (repeated_id ids r) (''badge evidence requirement '' @ str_of (get_prop r ''id'') @ '' is duplicated'');
       (es, valid) = requirement_loop (Suc i) (id_seen ids r) rs
     in (own @ es, if own = [] \<and> is_record r then r # valid else valid))"

definition of_kind :: "string \<Rightarrow> json \<Rightarrow> bool" where
  "of_kind k v \<longleftrightarrow> get_prop v ''kind'' = JStr k"

definition validate_criteria :: "json \<Rightarrow> json \<Rightarrow> string list" where
  "validate_criteria v badge_class =
     (if \<not> is_record v then [''badge criteria must be an object'']
      else unsupported_fields v [''id'', ''version'', ''statement'', ''allRequired'', ''evidence''] ''badge criteria''
        @ badge_id_errors (get_prop v ''id'') ''badge criteria ID''
        @ check_version (get_prop v ''version'') ''badge criteria version''
        @ check_text (get_prop v ''statement'') ''badge criteria statement'' 2000
        @ complain_unless (get_prop v ''allRequired'' = JBool True) ''badge criteria must require all declared evidence''
        @ (if \<not> is_array (get_prop v ''evidence'') \<or> elems (get_prop v ''evidence'') = []
           then [''badge criteria must declare required evidence'']
           else let (es, valid) = requirement_loop 0 [] (elems (get_prop v ''evidence''));
               assessments = filter (of_kind ''assessment.passed'') valid
             in es
               @ complain (badge_class = JStr ''completion'' \<and> list_all (of_kind ''module.visited'') valid)
                   ''completion criteria cannot be satisfied by visits alone''
               @ complain (badge_class = JStr ''mastery'' \<and> list_ex (of_kind ''module.visited'') valid)
                   ''mastery criteria cannot require visit-only evidence''
               @ complain (badge_class = JStr ''mastery'' \<and> assessments = [])
                   ''mastery criteria must require a passing version-bound assessment''
               @ complain (badge_class = JStr ''mastery''
                     \<and> list_ex (\<lambda>r. get_prop r ''minimumScorePercent'' = JNull) assessments)
                   ''mastery assessment evidence must declare a minimum passing score''))"

definition validate_expiration_policy :: "json \<Rightarrow> string list" where
  "validate_expiration_policy v =
     (if \<not> is_record v then [''expiration policy must be an object'']
      else if get_prop v ''kind'' = JStr ''never'' then unsupported_fields v [''kind''] ''expiration policy''
      else if get_prop v ''kind'' = JStr ''after-days''
      then unsupported_fields v [''kind'', ''days''] ''expiration policy''
        @ complain_unless (positive_safe_integer (get_prop v ''days'')) ''expiration days must be a positive safe integer''
      else [''expiration policy kind is unsupported''])"

definition validate_open_badges_boundary :: "json \<Rightarrow> string list" where
  "validate_open_badges_boundary v =
     (if \<not> is_record v then [''Open Badges mapping boundary must be an object'']
      else unsupported_fields v [''targetVersion'', ''status'', ''conformanceClaim''] ''Open Badges mapping boundary''
        @ complain_unless (get_prop v ''targetVersion'' = JStr ''3.0'') ''Open Badges target version must be 3.0''
        @ complain_unless (get_prop v ''status'' = JStr ''future-mapping-not-conformant'')
            ''Open Badges status must remain future-mapping-not-conformant''
        @ complain_unless (get_prop v ''conformanceClaim'' = JBool False) ''Open Badges conformance must not be claimed'')"

definition validate_badge_definition :: "json \<Rightarrow> string list" where
  "validate_badge_definition v =
     (if \<not> is_record v then [''badge definition must be an object'']
      else unsupported_fields v [''schemaVersion'', ''id'', ''version'', ''badgeClass'', ''defaultLanguage'', ''display'',
             ''issuerPolicy'', ''criteria'', ''expirationPolicy'', ''openBadges3''] ''badge definition''
        @ complain_unless (get_prop v ''schemaVersion'' = JStr ''1.0'') ''unsupported badge-definition schema version''
        @ badge_id_errors (get_prop v ''id'') ''badge definition ID''
        @ check_version (get_prop v ''version'') ''badge definition version''
        @ check_member badge_classes (get_prop v ''badgeClass'') ''badge class''
        @ complain_unless (string_where language_tag (get_prop v ''defaultLanguage'')) ''default display language is invalid''
        @ validate_display (get_prop v ''display'') (get_prop v ''defaultLanguage'')
        @ validate_issuer_policy (get_prop v ''issuerPolicy'')
        @ validate_criteria (get_prop v ''criteria'') (get_prop v ''badgeClass'')
        @ validate_expiration_policy (get_prop v ''expirationPolicy'')
        @ validate_open_badges_boundary (get_prop v ''openBadges3''))"

section \<open>Lifecycle events\<close>

definition unique_stable_refs :: "json \<Rightarrow> bool" where
  "unique_stable_refs = array_where (\<lambda>xs. xs \<noteq> [] \<and> list_all (string_where badge_stable_id) xs \<and> distinct xs)"

fun evidence_loop :: "string \<Rightarrow> nat \<Rightarrow> string list \<Rightarrow> json list \<Rightarrow> string list" where
  "evidence_loop label i ids [] = []"
| "evidence_loop label i ids (e # es) = (let prefix = label @ '' entry '' @ nat_text i in
     (if \<not> is_record e then [prefix @ '' must be an object'']
      else unsupported_fields e [''id'', ''kind'', ''subjectId'', ''subjectVersion'', ''contentVersion'', ''result'', ''scorePercent'',
             ''occurredAt'', ''evidenceRefs''] prefix
        @ badge_id_errors (get_prop e ''id'') (prefix @ '' ID'')
        @ complain (repeated_id ids e) (label @ '' ID '' @ str_of (get_prop e ''id'') @ '' is duplicated'')
        @ check_member badge_evidence_kinds (get_prop e ''kind'') (prefix @ '' kind'')
        @ badge_id_errors (get_prop e ''subjectId'') (prefix @ '' subject ID'')
        @ check_version (get_prop e ''subjectVersion'') (prefix @ '' subject version'')
        @ check_version (get_prop e ''contentVersion'') (prefix @ '' content version'')
        @ check_member badge_evidence_results (get_prop e ''result'') (prefix @ '' result'')
        @ check_kind_result (get_prop e ''kind'') (get_prop e ''result'') prefix
        @ check_score (get_prop e ''scorePercent'') (prefix @ '' score'')
        @ check_kind_score (get_prop e ''kind'') (get_prop e ''scorePercent'') prefix
        @ check_timestamp (get_prop e ''occurredAt'') (prefix @ '' occurredAt'')
        @ complain_unless (unique_stable_refs (get_prop e ''evidenceRefs''))
            (prefix @ '' evidence references must be a non-empty unique stable-ID array''))
     @ evidence_loop label (Suc i) (id_seen ids e) es)"

definition validate_evidence_array :: "json \<Rightarrow> string \<Rightarrow> string list" where
  "validate_evidence_array v label =
     (if \<not> is_array v \<or> elems v = [] then [label @ '' must be a non-empty array''] else evidence_loop label 0 [] (elems v))"

definition validate_badge_actor :: "json \<Rightarrow> string list" where
  "validate_badge_actor v =
     (if \<not> is_record v then [''lifecycle actor must be an object'']
      else unsupported_fields v [''type'', ''id''] ''lifecycle actor''
        @ check_member badge_actor_types (get_prop v ''type'') ''lifecycle actor type''
        @ badge_id_errors (get_prop v ''id'') ''lifecycle actor ID'')"

definition base_fields :: "string list" where
  "base_fields = [''schemaVersion'', ''eventId'', ''sequence'', ''type'', ''credentialId'', ''occurredAt'', ''actor'']"

text \<open>The \<open>switch\<close> over the type of an event.\<close>

definition validate_event_body :: "json \<Rightarrow> string list" where
  "validate_event_body v = (let kind = get_prop v ''type'' in
     if kind = JStr ''badge.issued'' then
       unsupported_fields v (base_fields @ [''badgeDefinitionId'', ''badgeDefinitionVersion'', ''subjectId'', ''issuerId'', ''evidence''])
         ''badge-issued event''
       @ badge_id_errors (get_prop v ''badgeDefinitionId'') ''issued badge definition ID''
       @ check_version (get_prop v ''badgeDefinitionVersion'') ''issued badge definition version''
       @ badge_id_errors (get_prop v ''subjectId'') ''issued badge subject ID''
       @ badge_id_errors (get_prop v ''issuerId'') ''issued badge issuer ID''
       @ validate_evidence_array (get_prop v ''evidence'') ''issued badge evidence''
     else if kind = JStr ''badge.corrected'' then
       unsupported_fields v (base_fields @ [''supersedesEventId'', ''reason'', ''replacementEvidence'']) ''badge-corrected event''
       @ badge_id_errors (get_prop v ''supersedesEventId'') ''superseded event ID''
       @ check_text (get_prop v ''reason'') ''correction reason'' 1000
       @ validate_evidence_array (get_prop v ''replacementEvidence'') ''replacement badge evidence''
     else if kind = JStr ''badge.revoked'' \<or> kind = JStr ''badge.expired'' then
       unsupported_fields v (base_fields @ [''supersedesEventId'', ''reason'']) (str_of kind)
       @ badge_id_errors (get_prop v ''supersedesEventId'') ''superseded event ID''
       @ check_text (get_prop v ''reason'') ''lifecycle reason'' 1000
     else unsupported_fields v base_fields ''unsupported badge lifecycle event'')"

definition validate_badge_event :: "json \<Rightarrow> string list" where
  "validate_badge_event v =
     (if \<not> is_record v then [''badge lifecycle event must be an object'']
      else complain_unless (get_prop v ''schemaVersion'' = JStr ''1.0'') ''unsupported badge-lifecycle event schema version''
        @ badge_id_errors (get_prop v ''eventId'') ''event ID''
        @ complain_unless (positive_safe_integer (get_prop v ''sequence'')) ''event sequence must be a positive safe integer''
        @ check_member badge_event_types (get_prop v ''type'') ''badge lifecycle event type''
        @ badge_id_errors (get_prop v ''credentialId'') ''credential ID''
        @ check_timestamp (get_prop v ''occurredAt'') ''event occurredAt''
        @ validate_badge_actor (get_prop v ''actor'')
        @ validate_event_body v)"

end
