(* ===== verification/Badge_Lifecycle.thy ===== *)
theory Badge_Lifecycle
  imports Badge_Contract
begin

text \<open>
  The badge credentials of \<open>src/badge-credentials.ts\<close> as a projection of lifecycle events: the evidence of an issuance, and
  \<open>projectBadgeLifecycle\<close> with its index of definitions, its parsing of events and the step each event takes. A validated
  value stays the JSON object it was.
\<close>

section \<open>Evidence\<close>

definition requirement_candidate :: "json \<Rightarrow> json \<Rightarrow> bool" where
  "requirement_candidate requirement item \<longleftrightarrow> get_prop item ''kind'' = get_prop requirement ''kind''
     \<and> get_prop item ''subjectId'' = get_prop requirement ''subjectId''
     \<and> get_prop item ''subjectVersion'' = get_prop requirement ''subjectVersion''
     \<and> get_prop item ''contentVersion'' = get_prop requirement ''contentVersion''
     \<and> get_prop item ''result'' = get_prop requirement ''requiredResult''"

definition scores_enough :: "json \<Rightarrow> json \<Rightarrow> bool" where
  "scores_enough requirement item \<longleftrightarrow> get_prop requirement ''minimumScorePercent'' = JNull
     \<or> get_prop item ''scorePercent'' \<noteq> JNull
       \<and> num_le (amount_of (get_prop requirement ''minimumScorePercent'')) (amount_of (get_prop item ''scorePercent''))"

definition criteria_evidence :: "json \<Rightarrow> json list" where
  "criteria_evidence d = elems (get_prop (get_prop d ''criteria'') ''evidence'')"

definition passing_assessment :: "json \<Rightarrow> bool" where
  "passing_assessment item \<longleftrightarrow> get_prop item ''kind'' = JStr ''assessment.passed'' \<and> get_prop item ''result'' = JStr ''passed''
     \<and> str_of (get_prop item ''subjectVersion'') \<noteq> [] \<and> str_of (get_prop item ''contentVersion'') \<noteq> []"

definition validate_issuance_evidence :: "json \<Rightarrow> json \<Rightarrow> string list" where
  "validate_issuance_evidence d evidence =
     (if validate_badge_definition d \<noteq> [] then map (\<lambda>m. ''invalid badge definition: '' @ m) (validate_badge_definition d)
      else if validate_evidence_array evidence ''badge evidence'' \<noteq> [] then validate_evidence_array evidence ''badge evidence''
      else concat (map (\<lambda>r. complain_unless (list_ex (scores_enough r) (filter (requirement_candidate r) (elems evidence)))
             (''required evidence '' @ str_of (get_prop r ''id'') @ '' is missing or does not satisfy its version-bound result''))
           (criteria_evidence d))
        @ complain (get_prop d ''badgeClass'' = JStr ''mastery'' \<and> \<not> list_ex passing_assessment (elems evidence))
            ''mastery issuance requires passing version-bound assessment evidence'')"

section \<open>Credentials\<close>

datatype badge_error_code = InvalidDefinition | DuplicateDefinition | InvalidEvent | DuplicateEvent | DuplicateSequence
  | MissingDefinition | DuplicateIssuance | MissingIssuance | InvalidEvidence | IssuerMismatch
  | InvalidLifecycleTransition | InvalidLifecycleChain | PrematureExpiration

datatype badge_error = BadgeError (badge_code: badge_error_code) (badge_message: string)

datatype credential_status = CredentialActive | CredentialRevoked | CredentialExpired

fun status_text :: "credential_status \<Rightarrow> string" where
  "status_text CredentialActive = ''active''"
| "status_text CredentialRevoked = ''revoked''"
| "status_text CredentialExpired = ''expired''"

record credential =
  bc_id :: string
  bc_definition :: string
  bc_version :: string
  bc_class :: json
  bc_subject :: string
  bc_issuer :: string
  bc_issued_at :: string
  bc_status :: credential_status
  bc_original :: json
  bc_evidence :: json
  bc_corrections :: "json list"
  bc_revocation :: "json option"
  bc_expiration :: "json option"
  bc_last_event :: string
  bc_last_sequence :: int

text \<open>The members of a validated event. Its sequence number is a positive safe integer.\<close>

definition event_member :: "json \<Rightarrow> string \<Rightarrow> string" where
  "event_member e k = str_of (get_prop e k)"

definition event_sequence :: "json \<Rightarrow> int" where
  "event_sequence e = (case amount_of (get_prop e ''sequence'') of Fin r \<Rightarrow> \<lfloor>r\<rfloor> | _ \<Rightarrow> 0)"

abbreviation "event_ident e \<equiv> event_member e ''eventId''"
abbreviation "event_credential e \<equiv> event_member e ''credentialId''"
abbreviation "event_kind e \<equiv> event_member e ''type''"
abbreviation "event_time e \<equiv> event_member e ''occurredAt''"

definition definition_key :: "string \<Rightarrow> string \<Rightarrow> string" where
  "definition_key i v = i @ ''@'' @ v"

definition own_key :: "json \<Rightarrow> string" where
  "own_key d = definition_key (event_member d ''id'') (event_member d ''version'')"

section \<open>Definitions and events\<close>

definition index_definition :: "(string \<times> json) list \<Rightarrow> json \<Rightarrow> (badge_error, (string \<times> json) list) result" where
  "index_definition ds v =
     (if validate_badge_definition v \<noteq> []
      then Inl (BadgeError InvalidDefinition (join_text ''; '' (validate_badge_definition v)))
      else if map_of ds (own_key v) \<noteq> None
      then Inl (BadgeError DuplicateDefinition (''Duplicate badge definition '' @ own_key v @ ''.''))
      else Inr (map_set (own_key v) v ds))"

definition sequence_text :: "json \<Rightarrow> string" where
  "sequence_text e = nat_text (nat (event_sequence e))"

definition credential_sequence :: "json \<Rightarrow> string" where
  "credential_sequence e = event_credential e @ '':'' @ sequence_text e"

text \<open>The events parsed so far; their IDs and credential sequences are the two sets of the code.\<close>

definition parse_event :: "json list \<Rightarrow> json \<Rightarrow> (badge_error, json list) result" where
  "parse_event es v =
     (if validate_badge_event v \<noteq> [] then Inl (BadgeError InvalidEvent (join_text ''; '' (validate_badge_event v)))
      else if event_ident v \<in> event_ident ` set es
      then Inl (BadgeError DuplicateEvent (''Duplicate badge lifecycle event '' @ event_ident v @ ''.''))
      else if credential_sequence v \<in> credential_sequence ` set es
      then Inl (BadgeError DuplicateSequence (''Duplicate badge lifecycle sequence '' @ sequence_text v @ '' for credential ''
        @ event_credential v @ ''.''))
      else Inr (es @ [v]))"

definition compare_lifecycle_events :: "runtime \<Rightarrow> json \<Rightarrow> json \<Rightarrow> int" where
  "compare_lifecycle_events rt a b = or_else (event_sequence a - event_sequence b) (collate rt (event_ident a) (event_ident b))"

section \<open>The lifecycle\<close>

text \<open>\<open>Date.parse\<close> of a validated timestamp.\<close>

definition parse_ms :: "string \<Rightarrow> jsnum" where
  "parse_ms s = (case date_parse s of None \<Rightarrow> NaN | Some t \<Rightarrow> Fin (of_int t))"

definition assert_evidence :: "json \<Rightarrow> json \<Rightarrow> string \<Rightarrow> string \<Rightarrow> (badge_error, unit) result" where
  "assert_evidence d evidence cred available_at =
     (if validate_issuance_evidence d evidence \<noteq> []
      then Inl (BadgeError InvalidEvidence (''Credential '' @ cred @ '': '' @ join_text ''; '' (validate_issuance_evidence d evidence)))
      else if list_ex (\<lambda>item. num_less (parse_ms available_at) (parse_ms (event_time item))) (elems evidence)
      then Inl (BadgeError InvalidEvidence (''Credential '' @ cred @ '': evidence cannot occur after its lifecycle event.''))
      else Inr ())"

text \<open>\<open>days * 24 * 60 * 60 * 1_000\<close>, rounded after each product.\<close>

fun num_times :: "jsnum \<Rightarrow> rat \<Rightarrow> jsnum" where
  "num_times (Fin a) k = Fin (signed_double (a * k))"
| "num_times x k = x"

definition eligible_at :: "json \<Rightarrow> credential \<Rightarrow> jsnum" where
  "eligible_at d p = num_add (parse_ms (bc_issued_at p))
     (num_times (num_times (num_times (num_times (amount_of (get_prop (get_prop d ''expirationPolicy'') ''days'')) 24) 60) 60) 1000)"

definition assert_expiration_eligible :: "json \<Rightarrow> credential \<Rightarrow> json \<Rightarrow> (badge_error, unit) result" where
  "assert_expiration_eligible d p e =
     (if get_prop (get_prop d ''expirationPolicy'') ''kind'' \<noteq> JStr ''after-days''
      then Inl (BadgeError InvalidLifecycleTransition (''Credential '' @ bc_id p @ '' does not expire under its definition.''))
      else if num_less (parse_ms (event_time e)) (eligible_at d p)
      then Inl (BadgeError PrematureExpiration (''Credential '' @ bc_id p @ '' cannot expire before its policy date.''))
      else Inr ())"

definition issued_credential :: "json \<Rightarrow> json \<Rightarrow> credential" where
  "issued_credential d e = \<lparr>bc_id = event_credential e, bc_definition = event_member e ''badgeDefinitionId'',
     bc_version = event_member e ''badgeDefinitionVersion'', bc_class = get_prop d ''badgeClass'',
     bc_subject = event_member e ''subjectId'', bc_issuer = event_member e ''issuerId'', bc_issued_at = event_time e,
     bc_status = CredentialActive, bc_original = e, bc_evidence = get_prop e ''evidence'', bc_corrections = [],
     bc_revocation = None, bc_expiration = None, bc_last_event = event_ident e, bc_last_sequence = event_sequence e\<rparr>"

definition issue_credential :: "(string \<times> json) list \<Rightarrow> json \<Rightarrow> (badge_error, credential) result" where
  "issue_credential ds e =
     (case map_of ds (definition_key (event_member e ''badgeDefinitionId'') (event_member e ''badgeDefinitionVersion'')) of
        None \<Rightarrow> Inl (BadgeError MissingDefinition (''Badge definition '' @ event_member e ''badgeDefinitionId'' @ ''@''
          @ event_member e ''badgeDefinitionVersion'' @ '' is unavailable.''))
      | Some d \<Rightarrow>
        if get_prop e ''issuerId'' \<noteq> get_prop (get_prop d ''issuerPolicy'') ''issuerId''
        then Inl (BadgeError IssuerMismatch (''Credential '' @ event_credential e @ '' does not use the definition issuer.''))
        else bind_result (assert_evidence d (get_prop e ''evidence'') (event_credential e) (event_time e))
          (\<lambda>_. Inr (issued_credential d e)))"

definition with_last :: "json \<Rightarrow> credential \<Rightarrow> credential" where
  "with_last e p = p\<lparr>bc_last_event := event_ident e, bc_last_sequence := event_sequence e\<rparr>"

definition change_credential :: "(string \<times> json) list \<Rightarrow> credential \<Rightarrow> json \<Rightarrow> (badge_error, credential) result" where
  "change_credential ds p e =
     (if bc_status p \<noteq> CredentialActive
      then Inl (BadgeError InvalidLifecycleTransition (''Credential '' @ event_credential e @ '' cannot change after ''
        @ status_text (bc_status p) @ ''.''))
      else if event_member e ''supersedesEventId'' \<noteq> bc_last_event p
      then Inl (BadgeError InvalidLifecycleChain (''Event '' @ event_ident e
        @ '' does not supersede the current event for credential '' @ event_credential e @ ''.''))
      else case map_of ds (definition_key (bc_definition p) (bc_version p)) of
        None \<Rightarrow> Inl (BadgeError MissingDefinition (''Badge definition for credential '' @ event_credential e @ '' is unavailable.''))
      | Some d \<Rightarrow>
        if event_kind e = ''badge.corrected'' then
          bind_result (assert_evidence d (get_prop e ''replacementEvidence'') (event_credential e) (event_time e))
            (\<lambda>_. Inr (with_last e (p\<lparr>bc_corrections := bc_corrections p @ [e], bc_evidence := get_prop e ''replacementEvidence''\<rparr>)))
        else if event_kind e = ''badge.revoked'' then
          Inr (with_last e (p\<lparr>bc_status := CredentialRevoked, bc_revocation := Some e\<rparr>))
        else if event_kind e = ''badge.expired'' then
          bind_result (assert_expiration_eligible d p e)
            (\<lambda>_. Inr (with_last e (p\<lparr>bc_status := CredentialExpired, bc_expiration := Some e\<rparr>)))
        else Inr (with_last e p))"

definition apply_lifecycle_event ::
    "(string \<times> json) list \<Rightarrow> (string \<times> credential) list \<Rightarrow> json \<Rightarrow> (badge_error, (string \<times> credential) list) result" where
  "apply_lifecycle_event ds ps e = (let cred = event_credential e in
     if event_kind e = ''badge.issued'' then
       (if map_of ps cred \<noteq> None
        then Inl (BadgeError DuplicateIssuance (''Credential '' @ cred @ '' already has an issuance event.''))
        else bind_result (issue_credential ds e) (\<lambda>p. Inr (map_set cred p ps)))
     else case map_of ps cred of
       None \<Rightarrow> Inl (BadgeError MissingIssuance (''Credential '' @ cred @ '' has lifecycle activity before issuance.''))
     | Some p \<Rightarrow> bind_result (change_credential ds p e) (\<lambda>p'. Inr (map_set cred p' ps)))"

definition project_badge_lifecycle :: "runtime \<Rightarrow> json list \<Rightarrow> json list \<Rightarrow> (badge_error, credential list) result" where
  "project_badge_lifecycle rt definitions events =
     bind_result (fold_result index_definition [] definitions) (\<lambda>ds.
     bind_result (fold_result parse_event [] events) (\<lambda>es.
     bind_result (fold_result (apply_lifecycle_event ds) [] (js_sort (compare_lifecycle_events rt) es)) (\<lambda>ps.
       Inr (js_sort (\<lambda>a b. collate rt (bc_id a) (bc_id b)) (map snd ps)))))"

end
