(* ===== verification/Js_Whole.thy ===== *)
theory Js_Whole
  imports Js_Arith
begin

text \<open>Whole numbers as doubles: exact below \<open>2 ^ 53\<close>, so sums of whole numbers are exact and do not depend on their order.\<close>

lemma double_of_int:
  assumes "0 \<le> n" and "n < 2 ^ 53"
  shows "double_of (of_int n) = of_int n"
proof (cases "n = 0")
  case False
  let ?e = "exponent (of_int n)"
  have "(2::rat) powi ?e \<le> of_int n" using exponent_bounds(1)[of "of_int n"] assms False by simp
  also have "\<dots> < of_int (2 ^ 53)" using assms(2) unfolding of_int_less_iff .
  also have "\<dots> = 2 powi 53" by simp
  finally have "?e < 53" using power_int_increasing[of 53 ?e "2::rat"] by (cases "53 \<le> ?e") auto
  then obtain k where k: "52 - ?e = int k" using zero_le_imp_eq_int[of "52 - ?e"] by auto
  let ?u = "(2::rat) powi (?e - 52)"
  have "?e - 52 = - int k" using k by linarith
  then have u: "?u = inverse (2 ^ k)" by (simp add: power_int_minus)
  then have "of_int n / ?u = of_int (n * 2 ^ k)" by (simp add: field_simps)
  then have "double_of (of_int n) = of_int (n * 2 ^ k) * ?u"
    using False by (simp only: double_of_def Let_def round_half_even_of_int) simp
  then show ?thesis using u by simp
qed simp

lemma num_add_count: "n < 2 ^ 53 - 1 \<Longrightarrow> num_add (Fin (of_nat n)) (Fin 1) = Fin (of_nat (n + 1))"
  using double_of_int[of "int n + 1"] by simp

lemma num_sum_snoc: "num_sum (xs @ [x]) = num_add (num_sum xs) x"
  by (simp add: num_sum_def)

abbreviation whole :: "int \<Rightarrow> jsnum" where
  "whole n \<equiv> Fin (of_int n)"

text \<open>A sum of whole numbers is exact below \<open>2 ^ 52\<close>, and past it stays there.\<close>

lemma num_sum_cases:
  assumes "\<forall>x \<in> set xs. 0 \<le> f x"
  shows "\<exists>r. num_sum (map (\<lambda>x. whole (f x)) xs) = Fin r \<and> 0 \<le> r
    \<and> (sum_list (map f xs) < 2 ^ 52 \<longrightarrow> r = of_int (sum_list (map f xs)))
    \<and> (2 ^ 52 \<le> sum_list (map f xs) \<longrightarrow> 2 ^ 52 \<le> r)"
  using assms
proof (induction xs rule: rev_induct)
  case (snoc x xs)
  then obtain r where r: "num_sum (map (\<lambda>x. whole (f x)) xs) = Fin r" "0 \<le> r"
    "sum_list (map f xs) < 2 ^ 52 \<longrightarrow> r = of_int (sum_list (map f xs))"
    "2 ^ 52 \<le> sum_list (map f xs) \<longrightarrow> 2 ^ 52 \<le> r" by auto
  let ?s = "sum_list (map f xs)" and ?t = "r + of_int (f x)"
  have f: "0 \<le> f x" using snoc.prems by simp
  have s: "0 \<le> ?s" using snoc.prems by (intro sum_list_nonneg) auto
  have sum: "num_sum (map (\<lambda>x. whole (f x)) (xs @ [x])) = Fin (double_of ?t)"
    using r(1,2) f by (simp add: num_sum_snoc)
  have "double_of ?t = of_int (?s + f x)" if "?s + f x < 2 ^ 52"
    using that r(3) f s double_of_int [of "?s + f x"] by simp
  moreover have "2 ^ 52 \<le> double_of ?t" if big: "2 ^ 52 \<le> ?s + f x"
  proof -
    have "of_int (2 ^ 52) \<le> ?t"
    proof (cases "?s < 2 ^ 52")
      case True
      then have "?t = of_int (?s + f x)" using r(3) by simp
      then show ?thesis using big by (simp only: of_int_le_iff)
    next
      case False
      then show ?thesis using r(4) f by (simp add: add_increasing2)
    qed
    then have "double_of (of_int (2 ^ 52)) \<le> double_of ?t" by (intro double_of_mono) simp_all
    then show ?thesis using double_of_int [of "2 ^ 52"] by simp
  qed
  moreover have "0 \<le> double_of ?t" using r(2) f by (simp add: double_of_nonneg)
  ultimately show ?case using sum by auto
qed (simp add: num_sum_def)

lemma num_sum_whole:
  assumes "\<forall>x \<in> set xs. 0 \<le> f x" and "sum_list (map f xs) < 2 ^ 52"
  shows "num_sum (map (\<lambda>x. whole (f x)) xs) = whole (sum_list (map f xs))"
  using num_sum_cases [OF assms(1)] assms(2) by auto

lemma num_sum_is:
  assumes "\<forall>x \<in> set xs. 0 \<le> f x" and "num_sum (map (\<lambda>x. whole (f x)) xs) = whole n" and "n < 2 ^ 52"
  shows "sum_list (map f xs) = n"
proof -
  obtain r where r: "num_sum (map (\<lambda>x. whole (f x)) xs) = Fin r"
    "sum_list (map f xs) < 2 ^ 52 \<longrightarrow> r = of_int (sum_list (map f xs))"
    "2 ^ 52 \<le> sum_list (map f xs) \<longrightarrow> 2 ^ 52 \<le> r" using num_sum_cases [OF assms(1)] by auto
  have n: "r = of_int n" using r(1) assms(2) by simp
  have "\<not> 2 ^ 52 \<le> r"
  proof -
    have "r < of_int (2 ^ 52)" unfolding n of_int_less_iff by (rule assms(3))
    then show ?thesis by simp
  qed
  then have "r = of_int (sum_list (map f xs))" using r(2,3) by linarith
  then show ?thesis using n by (simp only: of_int_eq_iff)
qed

end
