(* ===== verification/Badge_Theorems.thy ===== *)
theory Badge_Theorems
  imports Badge_Lifecycle Js_Whole
begin

text \<open>
  What \<open>projectBadgeLifecycle\<close> accepts and computes, in terms of the history of each credential; and what every credential it
  returns is worth: its evidence meets its definition, and it expired no earlier than its definition says.
\<close>

section \<open>Keys\<close>

lemma first_split: "p @ c # q = r @ c # s \<Longrightarrow> c \<notin> set p \<Longrightarrow> c \<notin> set r \<Longrightarrow> p = r \<and> q = s"
proof (induction p arbitrary: r)
  case Nil
  then show ?case by (cases r) auto
next
  case (Cons a p)
  then show ?case by (cases r) auto
qed

lemma last_split:
  assumes "a @ c # x = b @ c # y" and "c \<notin> set x" and "c \<notin> set y"
  shows "a = b \<and> x = y"
proof -
  have "rev (a @ c # x) = rev (b @ c # y)" by (simp only: assms(1))
  then show ?thesis using first_split [of "rev x" c "rev a" "rev y" "rev b"] assms(2,3) by simp
qed

lemma badge_stable_id_at: "badge_stable_id s \<Longrightarrow> CHR ''@'' \<notin> set s \<and> s \<noteq> []"
  by (auto simp: badge_stable_id_def id_char_def alnum_char_def digit_char_def list_all_iff split: list.splits)

lemma badge_version_at: "badge_version_id s \<Longrightarrow> CHR ''@'' \<notin> set s \<and> s \<noteq> []"
  by (auto simp: badge_version_id_def version_char_def alnum_char_def digit_char_def list_all_iff split: list.splits)

lemma definition_key_inj:
  assumes "badge_version_id v" and "badge_version_id w"
  shows "definition_key i v = definition_key j w \<longleftrightarrow> i = j \<and> v = w"
  using last_split [of i "CHR ''@''" v j w] badge_version_at assms by (auto simp: definition_key_def)

lemma credential_sequence_inj:
  "credential_sequence a = credential_sequence b \<longleftrightarrow>
     event_credential a = event_credential b \<and> nat (event_sequence a) = nat (event_sequence b)"
proof -
  have "CHR '':'' \<notin> set (nat_text n)" for n
    using nat_text_digits [of n] by (auto simp: list_all_iff digit_char_def)
  then show ?thesis
    using last_split [of "event_credential a" "CHR '':''" "sequence_text a" "event_credential b" "sequence_text b"]
    by (auto simp: credential_sequence_def sequence_text_def dest: nat_text_inj)
qed

section \<open>What validation says\<close>

lemma check_simps [simp]:
  "badge_id_errors v l = [] \<longleftrightarrow> string_where badge_stable_id v"
  "check_version v l = [] \<longleftrightarrow> string_where badge_version_id v"
  "check_timestamp v l = [] \<longleftrightarrow> string_where parses_timestamp v"
  "check_member xs v l = [] \<longleftrightarrow> string_where (\<lambda>s. s \<in> set xs) v"
  "check_score v l = [] \<longleftrightarrow> v = JNull \<or> is_percent v"
  by (simp_all add: badge_id_errors_def check_version_def check_timestamp_def check_member_def check_score_def)

lemma definition_valid:
  assumes "validate_badge_definition d = []"
  shows "string_where badge_stable_id (get_prop d ''id'')" "string_where badge_version_id (get_prop d ''version'')"
    "string_where (\<lambda>s. s \<in> set badge_classes) (get_prop d ''badgeClass'')"
    "validate_criteria (get_prop d ''criteria'') (get_prop d ''badgeClass'') = []"
    "validate_expiration_policy (get_prop d ''expirationPolicy'') = []"
    "validate_issuer_policy (get_prop d ''issuerPolicy'') = []"
  using assms by (simp_all add: validate_badge_definition_def split: if_splits)

lemma event_valid:
  assumes "validate_badge_event e = []"
  shows "positive_safe_integer (get_prop e ''sequence'')" "event_kind e \<in> set badge_event_types"
    "string_where parses_timestamp (get_prop e ''occurredAt'')" "validate_event_body e = []"
    "get_prop e ''type'' = JStr (event_kind e)"
  using assms string_where_str [of _ "get_prop e ''type''"]
  by (auto simp: validate_badge_event_def event_member_def split: if_splits)

lemma event_sequence_pos: "validate_badge_event e = [] \<Longrightarrow> 0 < event_sequence e"
proof -
  assume "validate_badge_event e = []"
  then have "positive_safe_integer (get_prop e ''sequence'')" by (rule event_valid)
  then show ?thesis
    by (cases "get_prop e ''sequence''" rule: positive_safe_integer.cases)
      (auto simp: event_sequence_def elim!: safe_integer.elims Ints_cases)
qed

lemma issued_valid:
  assumes "validate_badge_event e = []" and "event_kind e = ''badge.issued''"
  shows "string_where badge_version_id (get_prop e ''badgeDefinitionVersion'')"
proof -
  have "get_prop e ''type'' = JStr ''badge.issued''" using event_valid(5) [OF assms(1)] assms(2) by simp
  then show ?thesis using event_valid(4) [OF assms(1)] by (simp add: validate_event_body_def)
qed

section \<open>Definitions and events\<close>

lemma map_set_fresh: "k \<notin> fst ` set m \<Longrightarrow> map_set k v m = m @ [(k, v)]"
  by (induction m) auto

lemma map_of_fresh: "map_of m k = None \<longleftrightarrow> k \<notin> fst ` set m"
  by (simp add: map_of_eq_None_iff)

lemma index_step: "index_definition ds v = Inr ds' \<longleftrightarrow>
    validate_badge_definition v = [] \<and> own_key v \<notin> fst ` set ds \<and> ds' = ds @ [(own_key v, v)]"
  by (auto simp: index_definition_def map_of_fresh map_set_fresh)

lemma index_definitions:
  "fold_result index_definition [] defs = Inr ds \<longleftrightarrow>
     list_all (\<lambda>d. validate_badge_definition d = []) defs \<and> distinct (map own_key defs) \<and> ds = map (\<lambda>d. (own_key d, d)) defs"
  by (induction defs arbitrary: ds rule: rev_induct) (auto simp: fold_result_snoc bind_result_eq_Inr index_step image_image)

lemma parse_step: "parse_event es v = Inr es' \<longleftrightarrow> validate_badge_event v = [] \<and> event_ident v \<notin> event_ident ` set es
    \<and> credential_sequence v \<notin> credential_sequence ` set es \<and> es' = es @ [v]"
  by (auto simp: parse_event_def)

lemma parse_events:
  "fold_result parse_event [] evs = Inr es \<longleftrightarrow>
     list_all (\<lambda>e. validate_badge_event e = []) evs \<and> distinct (map event_ident evs) \<and> distinct (map credential_sequence evs)
     \<and> es = evs"
  by (induction evs arbitrary: es rule: rev_induct) (auto simp: fold_result_snoc bind_result_eq_Inr parse_step)


section \<open>The history of a credential\<close>

definition evidence_accepted :: "json \<Rightarrow> json \<Rightarrow> string \<Rightarrow> bool" where
  "evidence_accepted d evidence t \<longleftrightarrow> validate_issuance_evidence d evidence = []
     \<and> (\<forall>item \<in> set (elems evidence). \<not> num_less (parse_ms t) (parse_ms (event_time item)))"

definition expiration_due :: "json \<Rightarrow> string \<Rightarrow> json \<Rightarrow> bool" where
  "expiration_due d issued_at e \<longleftrightarrow> get_prop (get_prop d ''expirationPolicy'') ''kind'' = JStr ''after-days''
     \<and> \<not> num_less (parse_ms (event_time e)) (num_add (parse_ms issued_at)
         (num_times (num_times (num_times (num_times (amount_of (get_prop (get_prop d ''expirationPolicy'') ''days'')) 24) 60) 60) 1000))"

definition defined_by :: "json list \<Rightarrow> json \<Rightarrow> json \<Rightarrow> bool" where
  "defined_by defs i d \<longleftrightarrow> d \<in> set defs \<and> event_member d ''id'' = event_member i ''badgeDefinitionId''
     \<and> event_member d ''version'' = event_member i ''badgeDefinitionVersion''"

text \<open>
  A valid history: an issuance under a known definition, with its issuer and accepted evidence, then events that each
  supersede the one before, corrections with accepted evidence, and at the end perhaps a revocation or a due expiration.
\<close>

definition issues :: "json \<Rightarrow> json \<Rightarrow> bool" where
  "issues d i \<longleftrightarrow> event_kind i = ''badge.issued'' \<and> get_prop i ''issuerId'' = get_prop (get_prop d ''issuerPolicy'') ''issuerId''
     \<and> evidence_accepted d (get_prop i ''evidence'') (event_time i)"

fun continues :: "json \<Rightarrow> json \<Rightarrow> json \<Rightarrow> json list \<Rightarrow> bool" where
  "continues d i prev [] = True"
| "continues d i prev (e # es) \<longleftrightarrow> event_member e ''supersedesEventId'' = event_ident prev
     \<and> (event_kind e = ''badge.corrected'' \<and> evidence_accepted d (get_prop e ''replacementEvidence'') (event_time e) \<and> continues d i e es
        \<or> event_kind e = ''badge.revoked'' \<and> es = []
        \<or> event_kind e = ''badge.expired'' \<and> expiration_due d (event_time i) e \<and> es = [])"

text \<open>What a history amounts to.\<close>

definition final_status :: "json list \<Rightarrow> credential_status" where
  "final_status es = (if es \<noteq> [] \<and> event_kind (last es) = ''badge.revoked'' then CredentialRevoked
     else if es \<noteq> [] \<and> event_kind (last es) = ''badge.expired'' then CredentialExpired else CredentialActive)"

definition corrections_in :: "json list \<Rightarrow> json list" where
  "corrections_in = filter (\<lambda>e. event_kind e = ''badge.corrected'')"

definition ending_in :: "string \<Rightarrow> json list \<Rightarrow> json option" where
  "ending_in kind es = (if es \<noteq> [] \<and> event_kind (last es) = kind then Some (last es) else None)"

definition credential_of :: "json \<Rightarrow> json \<Rightarrow> json list \<Rightarrow> credential" where
  "credential_of d i es = (issued_credential d i)\<lparr>bc_status := final_status es,
     bc_evidence := (if corrections_in es = [] then get_prop i ''evidence'' else get_prop (last (corrections_in es)) ''replacementEvidence''),
     bc_corrections := corrections_in es, bc_revocation := ending_in ''badge.revoked'' es,
     bc_expiration := ending_in ''badge.expired'' es,
     bc_last_event := event_ident (last (i # es)), bc_last_sequence := event_sequence (last (i # es))\<rparr>"

lemma assert_evidence_ok: "assert_evidence d ev c t = Inr () \<longleftrightarrow> evidence_accepted d ev t"
  by (auto simp: assert_evidence_def evidence_accepted_def list_ex_iff)

lemma assert_expiration_ok:
  "assert_expiration_eligible d p e = Inr () \<longleftrightarrow> expiration_due d (bc_issued_at p) e"
  by (auto simp: assert_expiration_eligible_def expiration_due_def eligible_at_def)

lemma bind_unit: "bind_result r (\<lambda>_. Inr x) = Inr y \<longleftrightarrow> r = Inr () \<and> x = y"
  by (cases r) auto

lemma continues_snoc:
  "continues d i prev (es @ [e]) \<longleftrightarrow> continues d i prev es \<and> final_status es = CredentialActive
     \<and> event_member e ''supersedesEventId'' = event_ident (last (prev # es))
     \<and> (event_kind e = ''badge.corrected'' \<and> evidence_accepted d (get_prop e ''replacementEvidence'') (event_time e)
        \<or> event_kind e = ''badge.revoked'' \<or> event_kind e = ''badge.expired'' \<and> expiration_due d (event_time i) e)"
proof (induction es arbitrary: prev)
  case Nil
  then show ?case by (auto simp: final_status_def)
next
  case (Cons x es)
  then show ?case by (cases es) (auto simp: final_status_def)
qed

lemma continues_active:
  assumes "continues d i prev es" and "final_status es = CredentialActive"
  shows "ending_in ''badge.revoked'' es = None" "ending_in ''badge.expired'' es = None"
  using assms(2) by (auto simp: final_status_def ending_in_def split: if_splits)

lemma credential_of_snoc:
  assumes "continues d i i es" and "final_status es = CredentialActive"
  shows "event_kind e = ''badge.corrected'' \<Longrightarrow> credential_of d i (es @ [e]) = with_last e ((credential_of d i es)
      \<lparr>bc_corrections := corrections_in es @ [e], bc_evidence := get_prop e ''replacementEvidence''\<rparr>)"
    and "event_kind e = ''badge.revoked'' \<Longrightarrow> credential_of d i (es @ [e]) = with_last e ((credential_of d i es)
      \<lparr>bc_status := CredentialRevoked, bc_revocation := Some e\<rparr>)"
    and "event_kind e = ''badge.expired'' \<Longrightarrow> credential_of d i (es @ [e]) = with_last e ((credential_of d i es)
      \<lparr>bc_status := CredentialExpired, bc_expiration := Some e\<rparr>)"
  using continues_active [OF assms] assms(2)
  by (auto simp: credential_of_def with_last_def corrections_in_def ending_in_def final_status_def)

lemma credential_of_sel [simp]:
  "bc_id (credential_of d i es) = event_credential i" "bc_status (credential_of d i es) = final_status es"
  "bc_last_event (credential_of d i es) = event_ident (last (i # es))" "bc_issued_at (credential_of d i es) = event_time i"
  "bc_definition (credential_of d i es) = event_member i ''badgeDefinitionId''"
  "bc_version (credential_of d i es) = event_member i ''badgeDefinitionVersion''"
  "bc_corrections (credential_of d i es) = corrections_in es"
  by (simp_all add: credential_of_def issued_credential_def)

section \<open>One credential at a time\<close>

definition own_definitions :: "json list \<Rightarrow> (string \<times> json) list" where
  "own_definitions defs = map (\<lambda>d. (own_key d, d)) defs"

definition good_definitions :: "json list \<Rightarrow> bool" where
  "good_definitions defs \<longleftrightarrow> (\<forall>d \<in> set defs. validate_badge_definition d = []) \<and> distinct (map own_key defs)"

lemma definition_found:
  assumes "good_definitions defs" and "validate_badge_event i = []" and "event_kind i = ''badge.issued''"
  shows "map_of (own_definitions defs) (definition_key (event_member i ''badgeDefinitionId'') (event_member i ''badgeDefinitionVersion''))
    = Some d \<longleftrightarrow> defined_by defs i d"
proof -
  have version: "badge_version_id (event_member i ''badgeDefinitionVersion'')"
    using string_where_str [OF issued_valid [OF assms(2,3)]] by (simp add: event_member_def)
  have key: "own_key d = definition_key (event_member i ''badgeDefinitionId'') (event_member i ''badgeDefinitionVersion'')
      \<longleftrightarrow> event_member d ''id'' = event_member i ''badgeDefinitionId''
        \<and> event_member d ''version'' = event_member i ''badgeDefinitionVersion''" if "d \<in> set defs" for d
  proof -
    have "badge_version_id (event_member d ''version'')"
      using definition_valid(2) [of d] string_where_str assms(1) that by (auto simp: good_definitions_def event_member_def)
    then show ?thesis by (simp add: own_key_def definition_key_inj version)
  qed
  have "distinct (map fst (own_definitions defs))" using assms(1) by (simp add: own_definitions_def comp_def good_definitions_def)
  then have "map_of (own_definitions defs) k = Some d \<longleftrightarrow> d \<in> set defs \<and> own_key d = k" for k
    by (simp add: map_of_eq_Some_iff) (auto simp: own_definitions_def)
  then show ?thesis using key by (auto simp: defined_by_def)
qed

text \<open>A history and the state it leads to: none, or a credential.\<close>

definition described :: "json list \<Rightarrow> json list \<Rightarrow> credential option \<Rightarrow> bool" where
  "described defs h p \<longleftrightarrow> h = [] \<and> p = None \<or> (\<exists>i es d. h = i # es \<and> defined_by defs i d \<and> issues d i \<and> continues d i i es
     \<and> p = Some (credential_of d i es))"

definition advances :: "(string \<times> json) list \<Rightarrow> credential option \<Rightarrow> json \<Rightarrow> credential \<Rightarrow> bool" where
  "advances ds p e p' \<longleftrightarrow> (case p of
     None \<Rightarrow> event_kind e = ''badge.issued'' \<and> issue_credential ds e = Inr p'
   | Some q \<Rightarrow> event_kind e \<noteq> ''badge.issued'' \<and> change_credential ds q e = Inr p')"

lemma apply_advances: "apply_lifecycle_event ds ps e = Inr ps' \<longleftrightarrow>
    (\<exists>p'. advances ds (map_of ps (event_credential e)) e p' \<and> ps' = map_set (event_credential e) p' ps)"
  by (auto simp: apply_lifecycle_event_def Let_def advances_def bind_result_eq_Inr split: option.splits)

lemma issue_ok:
  assumes "good_definitions defs" and "validate_badge_event i = []" and "event_kind i = ''badge.issued''"
  shows "issue_credential (own_definitions defs) i = Inr p \<longleftrightarrow> (\<exists>d. defined_by defs i d \<and> issues d i \<and> p = credential_of d i [])"
proof -
  have "credential_of d i [] = issued_credential d i" for d
    by (simp add: credential_of_def issued_credential_def final_status_def corrections_in_def ending_in_def)
  moreover have "issue_credential ds i = Inr p \<longleftrightarrow> (\<exists>d. map_of ds (definition_key (event_member i ''badgeDefinitionId'')
      (event_member i ''badgeDefinitionVersion'')) = Some d \<and> issues d i \<and> p = issued_credential d i)" for ds
    using assms(3) by (auto simp: issue_credential_def issues_def bind_unit assert_evidence_ok split: option.splits if_splits)
  ultimately show ?thesis using definition_found [OF assms] by simp
qed

lemma change_ok:
  assumes "good_definitions defs" and "validate_badge_event i = []" and "event_kind i = ''badge.issued''"
    and "validate_badge_event e = []" and "defined_by defs i d" and "continues d i i es" and "event_kind e \<noteq> ''badge.issued''"
  shows "change_credential (own_definitions defs) (credential_of d i es) e = Inr p
    \<longleftrightarrow> continues d i i (es @ [e]) \<and> p = credential_of d i (es @ [e])"
proof (cases "final_status es = CredentialActive \<and> event_member e ''supersedesEventId'' = event_ident (last (i # es))")
  case True
  have found: "map_of (own_definitions defs) (definition_key (event_member i ''badgeDefinitionId'')
      (event_member i ''badgeDefinitionVersion'')) = Some d"
    using definition_found [OF assms(1-3)] assms(5) by simp
  have kinds: "event_kind e \<in> {''badge.corrected'', ''badge.revoked'', ''badge.expired''}"
    using event_valid(2) [OF assms(4)] assms(7) by (auto simp: badge_event_types_def)
  note after = credential_of_snoc [OF assms(6) conjunct1 [OF True]]
  show ?thesis
    using kinds True assms(6) found
    by (auto simp: change_credential_def bind_unit assert_evidence_ok assert_expiration_ok continues_snoc after)
next
  case False
  then show ?thesis by (auto simp: change_credential_def continues_snoc)
qed

lemma described_step:
  assumes good: "good_definitions defs" and valid: "\<forall>x \<in> set (h @ [e]). validate_badge_event x = []" and p: "described defs h p"
  shows "advances (own_definitions defs) p e p' \<longleftrightarrow> described defs (h @ [e]) (Some p')"
proof (cases h)
  case Nil
  then have "p = None" using p by (auto simp: described_def)
  then show ?thesis
    using Nil issue_ok [OF good, of e p'] valid by (auto simp: advances_def described_def issues_def)
next
  case (Cons i es)
  then obtain d where d: "defined_by defs i d" "issues d i" "continues d i i es" "p = Some (credential_of d i es)"
    using p by (auto simp: described_def)
  have unique: "d' = d" if "defined_by defs i d'" for d'
  proof -
    have "own_key d' = own_key d" using that d(1) by (simp add: defined_by_def own_key_def)
    then show ?thesis using that d(1) good by (auto simp: defined_by_def good_definitions_def distinct_map dest: inj_onD)
  qed
  have kind: "event_kind i = ''badge.issued''" using d(2) by (simp add: issues_def)
  have not_issued: "event_kind e \<noteq> ''badge.issued''" if "continues d i i (es @ [e])"
    using that by (auto simp: continues_snoc)
  show ?thesis
    using Cons d change_ok [OF good _ kind _ d(1,3), of e p'] valid not_issued
    by (auto simp: advances_def described_def dest: unique)
qed

lemma described_prefix: "described defs (h @ [e]) p \<Longrightarrow> \<exists>p'. described defs h p'"
proof (cases h)
  case (Cons i es)
  assume "described defs (h @ [e]) p"
  then show ?thesis using Cons by (auto simp: described_def continues_snoc)
qed (auto simp: described_def)

definition history :: "string \<Rightarrow> json list \<Rightarrow> json list" where
  "history c es = filter (\<lambda>e. event_credential e = c) es"

lemma history_snoc: "history c (es @ [e]) = (if event_credential e = c then history c es @ [e] else history c es)"
  by (simp add: history_def)

text \<open>The log of all credentials is the histories, one by one.\<close>

lemma lifecycle_by_history:
  assumes good: "good_definitions defs" and valid: "\<forall>e \<in> set es. validate_badge_event e = []"
  shows "(\<forall>ps. fold_result (apply_lifecycle_event (own_definitions defs)) [] es = Inr ps \<longrightarrow>
       (\<forall>c. described defs (history c es) (map_of ps c)) \<and> distinct (map fst ps))
     \<and> ((\<forall>c. \<exists>p. described defs (history c es) p) \<longrightarrow>
       (\<exists>ps. fold_result (apply_lifecycle_event (own_definitions defs)) [] es = Inr ps))"
  using valid
proof (induction es rule: rev_induct)
  case (snoc e es)
  let ?run = "\<lambda>es. fold_result (apply_lifecycle_event (own_definitions defs)) [] es"
  let ?c = "event_credential e"
  have IH: "?run es = Inr ps \<Longrightarrow> (\<forall>c. described defs (history c es) (map_of ps c)) \<and> distinct (map fst ps)"
    "(\<forall>c. \<exists>p. described defs (history c es) p) \<Longrightarrow> \<exists>ps. ?run es = Inr ps" for ps
    using snoc.IH snoc.prems by auto
  have own: "\<forall>x \<in> set (history ?c es @ [e]). validate_badge_event x = []"
    using snoc.prems by (auto simp: history_def)
  have "(\<forall>c. described defs (history c (es @ [e])) (map_of ps' c)) \<and> distinct (map fst ps')" if run: "?run (es @ [e]) = Inr ps'" for ps'
  proof -
    obtain ps where ps: "?run es = Inr ps" "apply_lifecycle_event (own_definitions defs) ps e = Inr ps'"
      using run by (auto simp: fold_result_snoc bind_result_eq_Inr)
    then obtain p' where p': "advances (own_definitions defs) (map_of ps ?c) e p'" "ps' = map_set ?c p' ps"
      by (auto simp: apply_advances)
    have "described defs (history ?c es @ [e]) (Some p')" using described_step [OF good own] IH(1) [OF ps(1)] p'(1) by blast
    then show ?thesis using IH(1) [OF ps(1)] p'(2) by (auto simp: history_snoc)
  qed
  moreover have "\<exists>ps. ?run (es @ [e]) = Inr ps" if all: "\<forall>c. \<exists>p. described defs (history c (es @ [e])) p"
  proof -
    have "\<exists>p. described defs (history c es) p" for c
      using all described_prefix by (metis history_snoc)
    then obtain ps where ps: "?run es = Inr ps" using IH(2) by blast
    obtain p where p: "described defs (history ?c es @ [e]) p" using all by (metis history_snoc)
    then obtain p' where "p = Some p'" by (auto simp: described_def)
    then have "advances (own_definitions defs) (map_of ps ?c) e p'"
      using described_step [OF good own] IH(1) [OF ps] p by blast
    then show ?thesis using ps by (auto simp: fold_result_snoc apply_advances)
  qed
  ultimately show ?case by blast
qed (simp add: described_def history_def)

section \<open>Which logs are accepted, and what they amount to\<close>

definition in_sequence :: "string \<Rightarrow> json list \<Rightarrow> json list" where
  "in_sequence c es = sort_key event_sequence (history c es)"

definition valid_history :: "json list \<Rightarrow> json list \<Rightarrow> bool" where
  "valid_history defs h \<longleftrightarrow> (\<exists>i es d. h = i # es \<and> defined_by defs i d \<and> issues d i \<and> continues d i i es)"

definition valid_log :: "json list \<Rightarrow> bool" where
  "valid_log evs \<longleftrightarrow> (\<forall>e \<in> set evs. validate_badge_event e = []) \<and> distinct (map event_ident evs)
     \<and> distinct (map (\<lambda>e. (event_credential e, event_sequence e)) evs)"

definition valid_definitions :: "json list \<Rightarrow> bool" where
  "valid_definitions defs \<longleftrightarrow> (\<forall>d \<in> set defs. validate_badge_definition d = [])
     \<and> distinct (map (\<lambda>d. (event_member d ''id'', event_member d ''version'')) defs)"

lemma distinct_map_cong:
  assumes "\<And>x y. x \<in> set xs \<Longrightarrow> y \<in> set xs \<Longrightarrow> f x = f y \<longleftrightarrow> g x = g y"
  shows "distinct (map f xs) \<longleftrightarrow> distinct (map g xs)"
  using assms by (auto simp: distinct_map inj_on_def)

lemma index_ok: "fold_result index_definition [] defs = Inr ds \<longleftrightarrow> valid_definitions defs \<and> ds = own_definitions defs"
proof -
  have "distinct (map own_key defs) \<longleftrightarrow> distinct (map (\<lambda>d. (event_member d ''id'', event_member d ''version'')) defs)"
    if "\<forall>d \<in> set defs. validate_badge_definition d = []"
  proof (rule distinct_map_cong)
    fix x y assume "x \<in> set defs" "y \<in> set defs"
    then have "badge_version_id (event_member x ''version'')" "badge_version_id (event_member y ''version'')"
      using that definition_valid(2) string_where_str unfolding event_member_def by blast+
    then show "own_key x = own_key y \<longleftrightarrow> (event_member x ''id'', event_member x ''version'') = (event_member y ''id'', event_member y ''version'')"
      by (simp add: own_key_def definition_key_inj)
  qed
  then show ?thesis by (auto simp: index_definitions valid_definitions_def own_definitions_def list_all_iff)
qed

lemma good_valid: "valid_definitions defs \<Longrightarrow> good_definitions defs"
  using index_ok [of defs "own_definitions defs"] by (auto simp: index_definitions good_definitions_def list_all_iff)

lemma parse_ok: "fold_result parse_event [] evs = Inr es \<longleftrightarrow> valid_log evs \<and> es = evs"
proof -
  have "distinct (map credential_sequence evs) \<longleftrightarrow> distinct (map (\<lambda>e. (event_credential e, event_sequence e)) evs)"
    if "\<forall>e \<in> set evs. validate_badge_event e = []"
    using that event_sequence_pos by (intro distinct_map_cong) (force simp: credential_sequence_inj)
  then show ?thesis by (auto simp: parse_events valid_log_def list_all_iff)
qed

lemma history_sorted:
  assumes "comparator (collate rt)" and "valid_log evs"
  shows "history c (js_sort (compare_lifecycle_events rt) evs) = in_sequence c evs"
proof (rule sorted_by_key_unique)
  let ?s = "js_sort (compare_lifecycle_events rt) evs"
  have "comparator (compare_lifecycle_events rt)"
    unfolding compare_lifecycle_events_def using comparator_or_else [OF comparator_by_int comparator_on [OF assms(1)]] .
  then have "sorted_wrt (\<lambda>x y. compare_lifecycle_events rt x y \<le> 0) ?s" by (rule comparator.sort_sorted)
  then have "sorted_wrt (\<lambda>x y. event_sequence x \<le> event_sequence y) ?s"
    by (rule sorted_wrt_mono_rel [rotated]) (auto simp: compare_lifecycle_events_def or_else_def split: if_splits)
  then show "sorted (map event_sequence (history c ?s))"
    by (simp add: sorted_map history_def sorted_wrt_filter)
  show "sorted (map event_sequence (in_sequence c evs))" by (simp add: in_sequence_def)
  show "mset (history c ?s) = mset (in_sequence c evs)" by (simp add: history_def in_sequence_def mset_filter)
  have inj: "inj_on (\<lambda>e. (event_credential e, event_sequence e)) (set evs)" "distinct evs"
    using assms(2) by (simp_all add: valid_log_def distinct_map)
  have "inj_on event_sequence (set (history c ?s))"
  proof (rule inj_onI)
    fix x y assume "x \<in> set (history c ?s)" "y \<in> set (history c ?s)" "event_sequence x = event_sequence y"
    then show "x = y" using inj_onD [OF inj(1), of x y] by (simp add: history_def)
  qed
  then show "distinct (map event_sequence (history c ?s))"
    using inj(2) by (simp add: distinct_map history_def)
qed

lemma history_empty: "in_sequence c evs = [] \<longleftrightarrow> c \<notin> event_credential ` set evs"
proof -
  have "in_sequence c evs = [] \<longleftrightarrow> set (in_sequence c evs) = {}" by simp
  then show ?thesis by (auto simp: in_sequence_def history_def)
qed

lemma described_history: "(\<exists>p. described defs h p) \<longleftrightarrow> h = [] \<or> valid_history defs h"
  by (auto simp: described_def valid_history_def)

lemma project_run: "project_badge_lifecycle rt defs evs = Inr cs \<longleftrightarrow> valid_definitions defs \<and> valid_log evs
    \<and> (\<exists>ps. fold_result (apply_lifecycle_event (own_definitions defs)) [] (js_sort (compare_lifecycle_events rt) evs) = Inr ps
       \<and> cs = js_sort (\<lambda>a b. collate rt (bc_id a) (bc_id b)) (map snd ps))"
  by (auto simp: project_badge_lifecycle_def bind_result_eq_Inr index_ok parse_ok)

lemma run_described:
  assumes "comparator (collate rt)" and "valid_definitions defs" and "valid_log evs"
  shows "(\<forall>ps. fold_result (apply_lifecycle_event (own_definitions defs)) [] (js_sort (compare_lifecycle_events rt) evs) = Inr ps \<longrightarrow>
       (\<forall>c. described defs (in_sequence c evs) (map_of ps c)) \<and> distinct (map fst ps))
     \<and> ((\<forall>c. \<exists>p. described defs (in_sequence c evs) p) \<longrightarrow>
       (\<exists>ps. fold_result (apply_lifecycle_event (own_definitions defs)) [] (js_sort (compare_lifecycle_events rt) evs) = Inr ps))"
  using lifecycle_by_history [OF good_valid [OF assms(2)], of "js_sort (compare_lifecycle_events rt) evs"] assms(3)
    history_sorted [OF assms(1,3)]
  by (simp add: valid_log_def)

definition results_from :: "json list \<Rightarrow> json list \<Rightarrow> credential \<Rightarrow> bool" where
  "results_from defs evs p \<longleftrightarrow> (\<exists>i es d. in_sequence (bc_id p) evs = i # es \<and> defined_by defs i d \<and> issues d i \<and> continues d i i es
     \<and> p = credential_of d i es)"

lemma in_sequence_own: "e \<in> set (in_sequence c evs) \<Longrightarrow> event_credential e = c"
  by (simp add: in_sequence_def history_def)

lemma described_result: "described defs (in_sequence c evs) (Some p) \<Longrightarrow> results_from defs evs p \<and> bc_id p = c"
proof -
  assume "described defs (in_sequence c evs) (Some p)"
  then obtain i es d where i: "in_sequence c evs = i # es" "defined_by defs i d" "issues d i" "continues d i i es"
    "p = credential_of d i es" by (auto simp: described_def)
  then have "bc_id p = c" using in_sequence_own [of i c evs] by simp
  then show ?thesis using i by (auto simp: results_from_def)
qed

lemma project_results:
  assumes "comparator (collate rt)" and "project_badge_lifecycle rt defs evs = Inr cs"
  shows "distinct (map bc_id cs)" and "bc_id ` set cs = event_credential ` set evs"
    and "sorted_wrt (\<lambda>p q. collate rt (bc_id p) (bc_id q) \<le> 0) cs" and "\<forall>p \<in> set cs. results_from defs evs p"
proof -
  let ?by = "\<lambda>a b. collate rt (bc_id a) (bc_id b)"
  obtain ps where v: "valid_definitions defs" "valid_log evs"
    and ps: "fold_result (apply_lifecycle_event (own_definitions defs)) [] (js_sort (compare_lifecycle_events rt) evs) = Inr ps"
    and cs: "cs = js_sort ?by (map snd ps)" using assms(2) unfolding project_run by blast
  have d: "described defs (in_sequence c evs) (map_of ps c)" for c using run_described [OF assms(1) v] ps by blast
  have keys: "distinct (map fst ps)" using run_described [OF assms(1) v] ps by blast
  have own: "results_from defs evs p \<and> bc_id p = c" if "(c, p) \<in> set ps" for c p
  proof -
    have "map_of ps c = Some p" using that keys by simp
    then show ?thesis using d [of c] described_result by metis
  qed
  then have ids: "map bc_id (map snd ps) = map fst ps" by force
  have "mset (map bc_id cs) = mset (map fst ps)" unfolding cs ids [symmetric] by (simp only: mset_map mset_js_sort)
  then show "distinct (map bc_id cs)" using keys by (metis mset_eq_imp_distinct_iff)
  have "c \<in> fst ` set ps \<longleftrightarrow> in_sequence c evs \<noteq> []" for c
    using d [of c] map_of_fresh [of ps c] by (auto simp: described_def)
  then have "fst ` set ps = event_credential ` set evs" unfolding history_empty by blast
  moreover have "bc_id ` set cs = fst ` set ps" using arg_cong [OF ids, of set] by (simp add: cs image_image)
  ultimately show "bc_id ` set cs = event_credential ` set evs" by simp
  show "sorted_wrt (\<lambda>p q. collate rt (bc_id p) (bc_id q) \<le> 0) cs"
    unfolding cs by (rule comparator.sort_sorted [OF comparator_on [OF assms(1)]])
  show "\<forall>p \<in> set cs. results_from defs evs p" using own by (auto simp: cs)
qed

lemma accepted_iff:
  assumes "comparator (collate rt)"
  shows "(\<exists>cs. project_badge_lifecycle rt defs evs = Inr cs) \<longleftrightarrow> valid_definitions defs \<and> valid_log evs
    \<and> (\<forall>c \<in> event_credential ` set evs. valid_history defs (in_sequence c evs))"
proof -
  have "(\<exists>cs. project_badge_lifecycle rt defs evs = Inr cs) \<longleftrightarrow> (\<forall>c. \<exists>p. described defs (in_sequence c evs) p)"
    if "valid_definitions defs" "valid_log evs"
    using run_described [OF assms that] that unfolding project_run by blast
  then show ?thesis unfolding described_history history_empty by (auto simp: project_run)
qed

text \<open>
  C16. Which badge logs are accepted and what they amount to: the definitions and events must be valid with distinct keys,
  and the history of each credential, taken on its own in the order of its sequence numbers, an issuance under its definition
  followed by corrections and at most one final revocation or due expiration, each superseding the event before. The
  result has one credential for each history, that the history determines, in the order of the IDs.
\<close>

theorem badge_projection_decides:
  assumes "comparator (collate rt)"
  shows "((\<exists>cs. project_badge_lifecycle rt defs evs = Inr cs) \<longleftrightarrow> valid_definitions defs \<and> valid_log evs
      \<and> (\<forall>c \<in> event_credential ` set evs. valid_history defs (in_sequence c evs)))
    \<and> (\<forall>cs. project_badge_lifecycle rt defs evs = Inr cs \<longrightarrow> distinct (map bc_id cs)
      \<and> bc_id ` set cs = event_credential ` set evs \<and> sorted_wrt (\<lambda>p q. collate rt (bc_id p) (bc_id q) \<le> 0) cs
      \<and> (\<forall>p \<in> set cs. results_from defs evs p))"
  by (intro conjI allI impI accepted_iff [OF assms]) (fact project_results [OF assms])+

section \<open>Due dates\<close>

text \<open>A timestamp of the contract lies between the years 0 and 10000.\<close>

lemma date_parse_range:
  assumes "date_parse s = Some t"
  shows "- (10 ^ 14) \<le> t" and "t \<le> 10 ^ 15"
proof -
  let ?f = "iso_fields_of s"
  have p: "timestamp_pattern s" "parse_ranges ?f" "t = make_time ?f" using assms by (auto simp: date_parse_def split: if_splits)
  have f: "printable ?f" by (rule iso_fields_printable [OF p(1)])
  have m: "1 \<le> f_month ?f" "f_month ?f \<le> 12" using p(2) by (simp_all add: parse_ranges_def)
  have zero: "days_before_month (f_year ?f) 1 = 0" by (simp add: days_before_month.simps)
  have "days_before_month (f_year ?f) 1 \<le> days_before_month (f_year ?f) (f_month ?f)"
    "days_before_month (f_year ?f) (f_month ?f) \<le> days_before_month (f_year ?f) 13"
    using m by (simp_all add: days_before_month_mono)
  then have dm: "0 \<le> days_before_month (f_year ?f) (f_month ?f)" "days_before_month (f_year ?f) (f_month ?f) \<le> 366"
    using days_before_month_year [of "f_year ?f"] year_length_pos [of "f_year ?f"] zero by simp_all
  have y: "0 \<le> f_year ?f" "f_year ?f \<le> 9999" using f by (simp_all add: printable_def)
  have "- 900000 \<le> make_day (f_year ?f) (f_month ?f) (f_day ?f)" "make_day (f_year ?f) (f_month ?f) (f_day ?f) \<le> 4000000"
    using day_from_year_bounds [of "f_year ?f"] dm y p(2) unfolding make_day_def parse_ranges_def by simp_all
  moreover have "0 \<le> f_hour ?f * 3600000 + f_minute ?f * 60000 + f_second ?f * 1000 + f_milli ?f"
    "f_hour ?f * 3600000 + f_minute ?f * 60000 + f_second ?f * 1000 + f_milli ?f \<le> 10 ^ 9"
    using f by (auto simp: printable_def)
  ultimately show "- (10 ^ 14) \<le> t" "t \<le> 10 ^ 15" unfolding p(3) make_time_def by simp_all
qed

lemma signed_double_int: "\<bar>k\<bar> < 2 ^ 53 \<Longrightarrow> signed_double (of_int k) = of_int k"
  using double_of_int [of k] double_of_int [of "- k"] by (auto simp: signed_double_def abs_if split: if_splits)

definition days_in_ms :: "rat \<Rightarrow> rat" where
  "days_in_ms n = double_of (double_of (double_of (double_of (n * 24) * 60) * 60) * 1000)"

lemma num_times_days: "0 \<le> n \<Longrightarrow> num_times (num_times (num_times (num_times (Fin n) 24) 60) 60) 1000 = Fin (days_in_ms n)"
  by (simp add: days_in_ms_def double_of_nonneg)

lemma days_in_ms_exact:
  assumes "0 \<le> n" and "n * 86400000 < 2 ^ 53"
  shows "days_in_ms (of_int n) = of_int (n * 86400000)"
proof -
  have "double_of (of_int (n * 24)) = of_int (n * 24)" "double_of (of_int (n * 1440)) = of_int (n * 1440)"
    "double_of (of_int (n * 86400)) = of_int (n * 86400)" "double_of (of_int (n * 86400000)) = of_int (n * 86400000)"
    using assms by (intro double_of_int; simp)+
  then show ?thesis by (simp add: days_in_ms_def mult.assoc)
qed

lemma days_in_ms_mono: "0 \<le> m \<Longrightarrow> m \<le> n \<Longrightarrow> days_in_ms m \<le> days_in_ms n"
  unfolding days_in_ms_def by (intro double_of_mono mult_right_mono) (simp_all add: double_of_nonneg)

text \<open>The comparison of doubles decides the exact one: past the exact range the due date is past every timestamp.\<close>

lemma due_exact:
  assumes "date_parse s = Some a" and "date_parse u = Some b" and n: "0 < n"
    and due: "\<not> num_less (Fin (of_int b)) (num_add (Fin (of_int a)) (Fin (days_in_ms (of_int n))))"
  shows "a + n * 86400000 \<le> b"
proof (cases "n * 86400000 < 2 ^ 52")
  case True
  have "\<bar>a + n * 86400000\<bar> < 2 ^ 53" using date_parse_range [OF assms(1)] True n by simp
  then have "signed_double (of_int a + days_in_ms (of_int n)) = of_int (a + n * 86400000)"
    using signed_double_int [of "a + n * 86400000"] days_in_ms_exact [of n] True n by simp
  then have "of_int (a + n * 86400000) \<le> (of_int b :: rat)" using due by (simp only: num_add.simps num_less.simps not_less)
  then show ?thesis by (simp only: of_int_le_iff)
next
  case False
  then have "52124996 \<le> n" by simp
  then have "days_in_ms (of_int 52124996) \<le> days_in_ms (of_int n)" by (intro days_in_ms_mono) simp_all
  then have "of_int (52124996 * 86400000) \<le> days_in_ms (of_int n)" using days_in_ms_exact [of 52124996] by simp
  then have "of_int (52124996 * 86400000) + of_int (- (10 ^ 14)) \<le> of_int a + days_in_ms (of_int n)"
    using date_parse_range(1) [OF assms(1)] by (metis add.commute add_mono of_int_le_iff)
  then have "of_int (52124996 * 86400000 - 10 ^ 14) \<le> of_int a + days_in_ms (of_int n)" by simp
  then have "double_of (of_int (52124996 * 86400000 - 10 ^ 14)) \<le> double_of (of_int a + days_in_ms (of_int n))"
    by (intro double_of_mono) simp_all
  moreover have "double_of (of_int (52124996 * 86400000 - 10 ^ 14)) = of_int (52124996 * 86400000 - 10 ^ 14)"
    by (intro double_of_int) simp_all
  moreover have "0 \<le> of_int a + days_in_ms (of_int n)"
    using \<open>of_int (52124996 * 86400000 - 10 ^ 14) \<le> _\<close> by simp
  ultimately have "of_int (52124996 * 86400000 - 10 ^ 14) \<le> (of_int b :: rat)" using due by simp
  moreover have "(of_int b :: rat) \<le> of_int (10 ^ 15)" using date_parse_range(2) [OF assms(2)] by (simp only: of_int_le_iff)
  ultimately show ?thesis by simp
qed

section \<open>What a credential is worth\<close>

lemma requirement_loop_valid:
  "requirement_loop i ids rs = ([], v) \<Longrightarrow> v = rs \<and> (\<forall>r \<in> set rs. \<exists>j. validate_evidence_requirement r j = [])"
proof (induction rs arbitrary: i ids v)
  case (Cons r rs)
  obtain es valid where rest: "requirement_loop (Suc i) (id_seen ids r) rs = (es, valid)" by force
  then have own: "validate_evidence_requirement r i = []" "es = []" "v = (if is_record r then r # valid else valid)"
    using Cons.prems by (auto simp: Let_def)
  then have "is_record r" by (auto simp: validate_evidence_requirement_def Let_def split: if_splits)
  then show ?case using Cons.IH [of "Suc i" "id_seen ids r" valid] rest own by auto
qed simp

lemma criteria_valid:
  assumes "validate_criteria c k = []"
  shows "\<forall>r \<in> set (elems (get_prop c ''evidence'')). \<exists>j. validate_evidence_requirement r j = []"
    and "k = JStr ''completion'' \<Longrightarrow> \<exists>r \<in> set (elems (get_prop c ''evidence'')). get_prop r ''kind'' \<noteq> JStr ''module.visited''"
    and "k = JStr ''mastery'' \<Longrightarrow> \<exists>r \<in> set (elems (get_prop c ''evidence'')). get_prop r ''kind'' = JStr ''assessment.passed''
      \<and> get_prop r ''minimumScorePercent'' \<noteq> JNull"
proof -
  obtain es valid where loop: "requirement_loop 0 [] (elems (get_prop c ''evidence'')) = (es, valid)" by force
  have "es = []" using assms by (auto simp: validate_criteria_def loop Let_def split: if_splits)
  then have v: "valid = elems (get_prop c ''evidence'')" "\<forall>r \<in> set valid. \<exists>j. validate_evidence_requirement r j = []"
    using requirement_loop_valid loop by metis+
  then show "\<forall>r \<in> set (elems (get_prop c ''evidence'')). \<exists>j. validate_evidence_requirement r j = []" by simp
  show "k = JStr ''completion'' \<Longrightarrow> \<exists>r \<in> set (elems (get_prop c ''evidence'')). get_prop r ''kind'' \<noteq> JStr ''module.visited''"
    using assms v(1) by (auto simp: validate_criteria_def loop Let_def list_all_iff of_kind_def split: if_splits)
  assume "k = JStr ''mastery''"
  then have "filter (of_kind ''assessment.passed'') valid \<noteq> []"
    "\<not> list_ex (\<lambda>r. get_prop r ''minimumScorePercent'' = JNull) (filter (of_kind ''assessment.passed'') valid)"
    using assms by (auto simp: validate_criteria_def loop Let_def split: if_splits)
  then show "\<exists>r \<in> set (elems (get_prop c ''evidence'')). get_prop r ''kind'' = JStr ''assessment.passed''
      \<and> get_prop r ''minimumScorePercent'' \<noteq> JNull"
    using v(1) by (auto simp: list_ex_iff of_kind_def filter_empty_conv)
qed

lemma evidence_loop_valid:
  "evidence_loop label i ids es = [] \<Longrightarrow> e \<in> set es \<Longrightarrow> get_prop e ''scorePercent'' = JNull \<or> is_percent (get_prop e ''scorePercent'')"
  by (induction es arbitrary: i ids) (auto simp: Let_def split: if_splits)

lemma accepted_evidence:
  assumes "evidence_accepted d ev t"
  shows "validate_badge_definition d = []"
    and "r \<in> set (criteria_evidence d) \<Longrightarrow> \<exists>item \<in> set (elems ev). requirement_candidate r item \<and> scores_enough r item"
    and "item \<in> set (elems ev) \<Longrightarrow> get_prop item ''scorePercent'' = JNull \<or> is_percent (get_prop item ''scorePercent'')"
proof -
  have a: "validate_issuance_evidence d ev = []" using assms by (simp add: evidence_accepted_def)
  then show d: "validate_badge_definition d = []" by (auto simp: validate_issuance_evidence_def split: if_splits)
  have array: "validate_evidence_array ev ''badge evidence'' = []"
    using a by (auto simp: validate_issuance_evidence_def d split: if_splits)
  then show "item \<in> set (elems ev) \<Longrightarrow> get_prop item ''scorePercent'' = JNull \<or> is_percent (get_prop item ''scorePercent'')"
    by (auto simp: validate_evidence_array_def dest: evidence_loop_valid split: if_splits)
  show "r \<in> set (criteria_evidence d) \<Longrightarrow> \<exists>item \<in> set (elems ev). requirement_candidate r item \<and> scores_enough r item"
    using a by (auto simp: validate_issuance_evidence_def d array list_ex_iff split: if_splits)
qed

lemma percent_number: "is_percent v \<Longrightarrow> \<exists>r. v = JNum (Fin r)"
  by (cases v rule: is_percent.cases) auto

lemma mastery_evidence:
  assumes "evidence_accepted d ev t" and "get_prop d ''badgeClass'' = JStr ''mastery''"
  shows "\<exists>r \<in> set (criteria_evidence d). \<exists>item \<in> set (elems ev). requirement_candidate r item
    \<and> get_prop item ''kind'' = JStr ''assessment.passed''
    \<and> (\<exists>m x. get_prop r ''minimumScorePercent'' = JNum (Fin m) \<and> get_prop item ''scorePercent'' = JNum (Fin x) \<and> m \<le> x)"
proof -
  have c: "validate_criteria (get_prop d ''criteria'') (JStr ''mastery'') = []"
    using definition_valid(4) [OF accepted_evidence(1) [OF assms(1)]] assms(2) by simp
  obtain r where r: "r \<in> set (criteria_evidence d)" "get_prop r ''kind'' = JStr ''assessment.passed''"
    "get_prop r ''minimumScorePercent'' \<noteq> JNull"
    using criteria_valid(3) [OF c refl] by (auto simp: criteria_evidence_def)
  obtain j where "validate_evidence_requirement r j = []" using criteria_valid(1) [OF c] r(1) by (auto simp: criteria_evidence_def)
  then have "is_percent (get_prop r ''minimumScorePercent'')"
    using r(3) by (auto simp: validate_evidence_requirement_def Let_def split: if_splits)
  then obtain m where m: "get_prop r ''minimumScorePercent'' = JNum (Fin m)" using percent_number by blast
  obtain item where item: "item \<in> set (elems ev)" "requirement_candidate r item" "scores_enough r item"
    using accepted_evidence(2) [OF assms(1) r(1)] by blast
  then obtain x where x: "get_prop item ''scorePercent'' = JNum (Fin x)"
    using accepted_evidence(3) [OF assms(1) item(1)] percent_number m by (auto simp: scores_enough_def)
  then have "m \<le> x" using item(3) m by (simp add: scores_enough_def)
  moreover have "get_prop item ''kind'' = JStr ''assessment.passed''" using item(2) r(2) by (simp add: requirement_candidate_def)
  ultimately show ?thesis using r(1) item(1,2) m x by blast
qed

lemma completion_evidence:
  assumes "evidence_accepted d ev t" and "get_prop d ''badgeClass'' = JStr ''completion''"
  shows "\<exists>item \<in> set (elems ev). get_prop item ''kind'' \<noteq> JStr ''module.visited''"
proof -
  have c: "validate_criteria (get_prop d ''criteria'') (JStr ''completion'') = []"
    using definition_valid(4) [OF accepted_evidence(1) [OF assms(1)]] assms(2) by simp
  obtain r where r: "r \<in> set (criteria_evidence d)" "get_prop r ''kind'' \<noteq> JStr ''module.visited''"
    using criteria_valid(2) [OF c refl] by (auto simp: criteria_evidence_def)
  obtain item where item: "item \<in> set (elems ev)" "requirement_candidate r item"
    using accepted_evidence(2) [OF assms(1) r(1)] by blast
  then have "get_prop item ''kind'' = get_prop r ''kind''" by (simp add: requirement_candidate_def)
  then show ?thesis using r(2) item(1) by metis
qed

lemma expiration_days:
  assumes "validate_badge_definition d = []" and "get_prop (get_prop d ''expirationPolicy'') ''kind'' = JStr ''after-days''"
  shows "\<exists>n. 0 < n \<and> get_prop (get_prop d ''expirationPolicy'') ''days'' = JInt n"
proof -
  have "positive_safe_integer (get_prop (get_prop d ''expirationPolicy'') ''days'')"
    using definition_valid(5) [OF assms(1)] assms(2) by (auto simp: validate_expiration_policy_def split: if_splits)
  then show ?thesis
    by (cases "get_prop (get_prop d ''expirationPolicy'') ''days''" rule: positive_safe_integer.cases)
      (auto elim!: safe_integer.elims Ints_cases)
qed

lemma current_evidence:
  assumes "issues d i" and "continues d i i es"
  shows "\<exists>e. evidence_accepted d (bc_evidence (credential_of d i es)) (event_time e)"
proof (cases "corrections_in es = []")
  case True
  then show ?thesis using assms(1) by (auto simp: credential_of_def issues_def)
next
  case False
  have "evidence_accepted d (get_prop e ''replacementEvidence'') (event_time e)"
    if "continues d i prev es" "e \<in> set es" "event_kind e = ''badge.corrected''" for e prev
    using that by (induction es arbitrary: prev) auto
  moreover have "last (corrections_in es) \<in> set es" "event_kind (last (corrections_in es)) = ''badge.corrected''"
    using last_in_set [OF False] by (auto simp: corrections_in_def)
  ultimately have "evidence_accepted d (get_prop (last (corrections_in es)) ''replacementEvidence'') (event_time (last (corrections_in es)))"
    using assms(2) by blast
  then show ?thesis using False by (auto simp: credential_of_def)
qed

lemma expired_when_due:
  assumes "continues d i i es" and "final_status es = CredentialExpired"
  shows "ending_in ''badge.expired'' es = Some (last es) \<and> last es \<in> set es \<and> expiration_due d (event_time i) (last es)"
proof -
  obtain fs e where es: "es = fs @ [e]" using assms(2) by (cases es rule: rev_cases) (auto simp: final_status_def)
  then show ?thesis using assms by (auto simp: continues_snoc ending_in_def final_status_def split: if_splits)
qed

text \<open>
  C17. What a projected credential is worth. It stands under one of the given definitions, with its class and issuer; its
  current evidence satisfies every requirement of the definition, with the required score; a mastery badge rests on a
  passed assessment with at least the minimum score its definition declares, a completion badge not on visits alone; it is
  expired only when as many days as the definition says have passed since its issuance, to the millisecond; and its status
  says whether it holds a revocation or an expiration.
\<close>

theorem badge_credentials_sound:
  assumes "comparator (collate rt)" and "project_badge_lifecycle rt defs evs = Inr cs" and "p \<in> set cs"
  shows "\<exists>d \<in> set defs. event_member d ''id'' = bc_definition p \<and> event_member d ''version'' = bc_version p
    \<and> bc_class p = get_prop d ''badgeClass'' \<and> get_prop (get_prop d ''issuerPolicy'') ''issuerId'' = JStr (bc_issuer p)
    \<and> (\<forall>r \<in> set (criteria_evidence d). \<exists>item \<in> set (elems (bc_evidence p)). requirement_candidate r item \<and> scores_enough r item)
    \<and> (bc_class p = JStr ''mastery'' \<longrightarrow> (\<exists>r \<in> set (criteria_evidence d). \<exists>item \<in> set (elems (bc_evidence p)).
        requirement_candidate r item \<and> get_prop item ''kind'' = JStr ''assessment.passed''
        \<and> (\<exists>m x. get_prop r ''minimumScorePercent'' = JNum (Fin m) \<and> get_prop item ''scorePercent'' = JNum (Fin x) \<and> m \<le> x)))
    \<and> (bc_class p = JStr ''completion'' \<longrightarrow> (\<exists>item \<in> set (elems (bc_evidence p)). get_prop item ''kind'' \<noteq> JStr ''module.visited''))
    \<and> (bc_status p = CredentialExpired \<longrightarrow> (\<exists>n e a b. 0 < n \<and> get_prop (get_prop d ''expirationPolicy'') ''days'' = JInt n
        \<and> bc_expiration p = Some e \<and> date_parse (bc_issued_at p) = Some a \<and> date_parse (event_time e) = Some b
        \<and> a + n * 86400000 \<le> b))
    \<and> (bc_status p = CredentialRevoked \<longleftrightarrow> bc_revocation p \<noteq> None) \<and> (bc_status p = CredentialExpired \<longleftrightarrow> bc_expiration p \<noteq> None)"
proof -
  obtain i es d where h: "in_sequence (bc_id p) evs = i # es" "defined_by defs i d" "issues d i" "continues d i i es"
    "p = credential_of d i es" using project_results(4) [OF assms(1,2)] assms(3) by (auto simp: results_from_def)
  have log: "valid_log evs" using assms(2) unfolding project_run by blast
  have valid: "validate_badge_event e = []" if "e \<in> set (i # es)" for e
    using that log unfolding h(1) [symmetric] by (auto simp: in_sequence_def history_def valid_log_def)
  have time: "\<exists>t. date_parse (event_time e) = Some t" if "e \<in> set (i # es)" for e
    using event_valid(3) [OF valid [OF that]] string_where_str by (force simp: event_member_def parses_timestamp_def)
  obtain e where ev: "evidence_accepted d (bc_evidence p) (event_time e)" using current_evidence [OF h(3,4)] h(5) by blast
  have cls: "bc_class p = get_prop d ''badgeClass''" "bc_issuer p = event_member i ''issuerId''"
    by (simp_all add: h(5) credential_of_def issued_credential_def)
  have "string_where badge_stable_id (get_prop i ''issuerId'')"
    using event_valid(4) [OF valid, of i] event_valid(5) [OF valid, of i] h(3) by (simp add: validate_event_body_def issues_def)
  then have issuer: "get_prop (get_prop d ''issuerPolicy'') ''issuerId'' = JStr (bc_issuer p)"
    using h(3) string_where_str unfolding cls event_member_def issues_def by metis
  have "\<exists>n e a b. 0 < n \<and> get_prop (get_prop d ''expirationPolicy'') ''days'' = JInt n \<and> bc_expiration p = Some e
      \<and> date_parse (bc_issued_at p) = Some a \<and> date_parse (event_time e) = Some b \<and> a + n * 86400000 \<le> b"
    if status: "bc_status p = CredentialExpired"
  proof -
    have l: "ending_in ''badge.expired'' es = Some (last es)" "last es \<in> set (i # es)" "expiration_due d (event_time i) (last es)"
      using expired_when_due [OF h(4)] status h(5) by simp_all
    obtain n where n: "0 < n" "get_prop (get_prop d ''expirationPolicy'') ''days'' = JInt n"
      using expiration_days [OF accepted_evidence(1) [OF ev]] l(3) by (auto simp: expiration_due_def)
    obtain a b where ab: "date_parse (event_time i) = Some a" "date_parse (event_time (last es)) = Some b"
      using time l(2) by fastforce
    have "num_times (num_times (num_times (num_times (amount_of (JInt n)) 24) 60) 60) 1000 = Fin (days_in_ms (of_int n))"
      using num_times_days [of "of_int n"] n(1) by simp
    then have "a + n * 86400000 \<le> b" using due_exact [OF ab n(1)] l(3) by (simp add: expiration_due_def n(2) ab parse_ms_def)
    then show ?thesis using n ab l(1) h(5) by (auto simp: credential_of_def issued_credential_def)
  qed
  moreover have "bc_status p = CredentialRevoked \<longleftrightarrow> bc_revocation p \<noteq> None" "bc_status p = CredentialExpired \<longleftrightarrow> bc_expiration p \<noteq> None"
    by (auto simp: h(5) credential_of_def final_status_def ending_in_def)
  ultimately show ?thesis
    using h(2) cls issuer accepted_evidence(2) [OF ev] mastery_evidence [OF ev] completion_evidence [OF ev]
    by (intro bexI [of _ d]) (auto simp: h(5) defined_by_def)
qed

end
