(* ===== verification/Badge_Samples.thy ===== *)
theory Badge_Samples
  imports Badge_Theorems Sample_Records
begin

text \<open>A mastery badge that expires after a day, its issuance, a correction and its expiration; the theorems applied to them.\<close>

definition mastery_badge :: json where
  "mastery_badge = JObj [(''schemaVersion'', JStr ''1.0''), (''id'', JStr ''badge-mastery''), (''version'', JStr ''1.0''),
     (''badgeClass'', JStr ''mastery''), (''defaultLanguage'', JStr ''en''),
     (''display'', JArr [JObj [(''language'', JStr ''en''), (''name'', JStr ''Mastery''), (''description'', JStr ''Mastered''),
        (''criteriaSummary'', JStr ''Pass the assessment'')]]),
     (''issuerPolicy'', JObj [(''id'', JStr ''policy-a''), (''version'', JStr ''1''), (''issuerId'', JStr ''issuer-a''),
        (''issuanceMode'', JStr ''durable-record-only''), (''correctionMode'', JStr ''append-only''),
        (''revocationMode'', JStr ''append-only''), (''requiresApprovedIdentity'', JBool True)]),
     (''criteria'', JObj [(''id'', JStr ''criteria-a''), (''version'', JStr ''1''), (''statement'', JStr ''Pass''),
        (''allRequired'', JBool True),
        (''evidence'', JArr [JObj [(''id'', JStr ''need-a''), (''kind'', JStr ''assessment.passed''), (''subjectId'', JStr ''module-a''),
           (''subjectVersion'', JStr ''1''), (''contentVersion'', JStr ''2026.1''), (''requiredResult'', JStr ''passed''),
           (''minimumScorePercent'', JInt 80)]])]),
     (''expirationPolicy'', JObj [(''kind'', JStr ''after-days''), (''days'', JInt 1)]),
     (''openBadges3'', JObj [(''targetVersion'', JStr ''3.0''), (''status'', JStr ''future-mapping-not-conformant''),
        (''conformanceClaim'', JBool False)])]"

definition sample_evidence :: "int \<Rightarrow> json" where
  "sample_evidence n = JObj [(''id'', JStr ''evidence-a''), (''kind'', JStr ''assessment.passed''), (''subjectId'', JStr ''module-a''),
     (''subjectVersion'', JStr ''1''), (''contentVersion'', JStr ''2026.1''), (''result'', JStr ''passed''),
     (''scorePercent'', JInt n), (''occurredAt'', JStr ''2026-02-28T10:00:00Z''), (''evidenceRefs'', JArr [JStr ''attempt-1''])]"

definition badge_event :: "string \<Rightarrow> int \<Rightarrow> string \<Rightarrow> string \<Rightarrow> (string \<times> json) list \<Rightarrow> json" where
  "badge_event i n kind t rest = JObj ([(''schemaVersion'', JStr ''1.0''), (''eventId'', JStr i), (''sequence'', JInt n),
     (''type'', JStr kind), (''credentialId'', JStr ''credential-a''), (''occurredAt'', JStr t),
     (''actor'', JObj [(''type'', JStr ''system''), (''id'', JStr ''project42'')])] @ rest)"

definition sample_issued :: json where
  "sample_issued = badge_event ''event-1'' 1 ''badge.issued'' ''2026-03-01T10:00:00Z''
     [(''badgeDefinitionId'', JStr ''badge-mastery''), (''badgeDefinitionVersion'', JStr ''1.0''), (''subjectId'', JStr ''learner-a''),
      (''issuerId'', JStr ''issuer-a''), (''evidence'', JArr [sample_evidence 85])]"

definition sample_corrected :: json where
  "sample_corrected = badge_event ''event-2'' 2 ''badge.corrected'' ''2026-03-01T11:00:00Z''
     [(''supersedesEventId'', JStr ''event-1''), (''reason'', JStr ''Regraded''), (''replacementEvidence'', JArr [sample_evidence 90])]"

definition sample_expired :: json where
  "sample_expired = badge_event ''event-3'' 3 ''badge.expired'' ''2026-03-02T10:00:00Z''
     [(''supersedesEventId'', JStr ''event-2''), (''reason'', JStr ''Due'')]"

lemma badge_valid: "valid_definitions [mastery_badge]"
  by (simp add: valid_definitions_def) code_simp

lemma sample_log_valid: "valid_log [sample_expired, sample_issued, sample_corrected]"
proof -
  have "\<forall>e \<in> set [sample_expired, sample_issued, sample_corrected]. validate_badge_event e = []" by code_simp
  moreover have "map event_ident [sample_expired, sample_issued, sample_corrected] = [''event-3'', ''event-1'', ''event-2'']"
    "map (\<lambda>e. (event_credential e, event_sequence e)) [sample_expired, sample_issued, sample_corrected]
      = [(''credential-a'', 3), (''credential-a'', 1), (''credential-a'', 2)]" by code_simp+
  ultimately show ?thesis by (simp only: valid_log_def) simp
qed

lemma sample_sequence:
  "in_sequence ''credential-a'' [sample_expired, sample_issued, sample_corrected] = [sample_issued, sample_corrected, sample_expired]"
proof -
  have "map (\<lambda>e. (event_credential e, event_sequence e)) [sample_expired, sample_issued, sample_corrected]
      = [(''credential-a'', 3), (''credential-a'', 1), (''credential-a'', 2)]" by code_simp
  then show ?thesis by (simp add: in_sequence_def history_def)
qed

lemma sample_history:
  "defined_by [mastery_badge] sample_issued mastery_badge" "issues mastery_badge sample_issued"
  "continues mastery_badge sample_issued sample_issued [sample_corrected, sample_expired]"
  by code_simp+

lemma sample_collation: "comparator (collate sample_runtime)"
  using units.comparator_axioms by (simp add: sample_runtime_def)

lemma sample_histories: "\<forall>c \<in> event_credential ` set [sample_expired, sample_issued, sample_corrected].
    valid_history [mastery_badge] (in_sequence c [sample_expired, sample_issued, sample_corrected])"
proof -
  have "event_credential sample_expired = ''credential-a''" "event_credential sample_issued = ''credential-a''"
    "event_credential sample_corrected = ''credential-a''" by code_simp+
  then show ?thesis using sample_history by (auto simp: sample_sequence valid_history_def)
qed

theorem badge_projection_decides_witness:
  "\<exists>cs. project_badge_lifecycle sample_runtime [mastery_badge] [sample_expired, sample_issued, sample_corrected] = Inr cs"
  using badge_projection_decides [OF sample_collation, of "[mastery_badge]" "[sample_expired, sample_issued, sample_corrected]"]
    badge_valid sample_log_valid sample_histories by blast

lemma sample_projection:
  "\<exists>cs. project_badge_lifecycle sample_runtime [mastery_badge] [sample_expired, sample_issued, sample_corrected] = Inr cs
     \<and> credential_of mastery_badge sample_issued [sample_corrected, sample_expired] \<in> set cs"
proof -
  let ?evs = "[sample_expired, sample_issued, sample_corrected]"
  obtain cs where cs: "project_badge_lifecycle sample_runtime [mastery_badge] ?evs = Inr cs"
    using accepted_iff [OF sample_collation] badge_valid sample_log_valid sample_histories by blast
  have "event_credential sample_issued = ''credential-a''" by code_simp
  then have "''credential-a'' \<in> event_credential ` set ?evs" by simp
  then have "''credential-a'' \<in> bc_id ` set cs" unfolding project_results(2) [OF sample_collation cs] .
  then obtain p where p: "''credential-a'' = bc_id p" "p \<in> set cs" by (rule imageE)
  then have "results_from [mastery_badge] ?evs p" using project_results(4) [OF sample_collation cs] p(2) by blast
  then obtain i es d where i: "[sample_issued, sample_corrected, sample_expired] = i # es" "defined_by [mastery_badge] i d"
    "p = credential_of d i es" unfolding results_from_def p(1) [symmetric] sample_sequence by blast
  then have "p = credential_of mastery_badge sample_issued [sample_corrected, sample_expired]" by (simp add: defined_by_def)
  then show ?thesis using cs p(2) by blast
qed

theorem badge_credentials_sound_witness:
  "\<exists>p :: credential. bc_status p = CredentialExpired \<and> bc_class p = JStr ''mastery''
     \<and> (\<exists>r \<in> set (criteria_evidence mastery_badge). \<exists>item \<in> set (elems (bc_evidence p)). requirement_candidate r item
        \<and> get_prop item ''kind'' = JStr ''assessment.passed'')"
proof -
  let ?p = "credential_of mastery_badge sample_issued [sample_corrected, sample_expired]"
  obtain cs where cs: "project_badge_lifecycle sample_runtime [mastery_badge] [sample_expired, sample_issued, sample_corrected] = Inr cs"
    "?p \<in> set cs" using sample_projection by blast
  have p: "bc_status ?p = CredentialExpired" "bc_class ?p = JStr ''mastery''" by code_simp+
  obtain d where d: "d \<in> set [mastery_badge]" "bc_class ?p = JStr ''mastery'' \<longrightarrow> (\<exists>r \<in> set (criteria_evidence d).
      \<exists>item \<in> set (elems (bc_evidence ?p)). requirement_candidate r item \<and> get_prop item ''kind'' = JStr ''assessment.passed''
      \<and> (\<exists>m x. get_prop r ''minimumScorePercent'' = JNum (Fin m) \<and> get_prop item ''scorePercent'' = JNum (Fin x) \<and> m \<le> x))"
    using badge_credentials_sound [OF sample_collation cs] by blast
  have "d = mastery_badge" using d(1) by simp
  then have q: "\<exists>r \<in> set (criteria_evidence mastery_badge). \<exists>item \<in> set (elems (bc_evidence ?p)). requirement_candidate r item
      \<and> get_prop item ''kind'' = JStr ''assessment.passed''" using mp [OF d(2) p(2)] by blast
  show ?thesis by (rule exI [of _ ?p]) (intro conjI p q)
qed

end
