(* ===== verification/Catalog.thy ===== *)
theory Catalog
  imports Js_Arith
begin

text \<open>
  The catalogue of \<open>src/schema.ts\<close>: its interfaces as records. A union of string literals that
  the validator tests against a list at run time (a format, a status, a cue kind, a provider) is
  a string, so that the test is not vacuous. A property that the validator tests with
  \<open>Array.isArray\<close> or \<open>typeof\<close> keeps the values that fail the test: \<open>audience\<close> and
  \<open>prerequisites\<close> of a resource are \<open>None\<close> when they are not arrays, a callout is any value. An
  optional boolean that is only tested for truth is a \<open>bool\<close>, absent being \<open>False\<close>.
\<close>

record source_reference =
  src_title :: string
  src_url :: string
  src_publisher :: string
  src_verified :: string

record code_example =
  ce_language :: string
  ce_label :: string
  ce_code :: string

record lesson_section =
  sec_id :: string
  sec_title :: string
  sec_paragraphs :: "string list"
  sec_callout :: json
  sec_code :: "code_example option"

record learning_activity =
  act_id :: string
  act_title :: string
  act_instructions :: "string list"
  act_evidence :: "string list"
  act_reflection :: string

record comparison_cell =
  cc_status :: string
  cc_summary :: string
  cc_urls :: "string list"

text \<open>The three named providers of a dimension; the validator allows for a missing cell.\<close>

record comparison_dimension =
  dim_id :: string
  dim_title :: string
  dim_core :: string
  dim_anthropic :: "comparison_cell option"
  dim_openai :: "comparison_cell option"
  dim_google :: "comparison_cell option"

record comparison_matrix =
  cm_as_of :: string
  cm_caveat :: string
  cm_dimensions :: "comparison_dimension list"

record instructor_cue =
  cue_id :: string
  cue_kind :: string
  cue_text :: string
  cue_section :: "string option"
  cue_alternative :: "string option"

record instructor_caption =
  cap_cue :: string
  cap_start :: jsnum
  cap_end :: jsnum
  cap_text :: string

record instructor_script =
  is_version :: string
  is_seconds :: jsnum
  is_cues :: "instructor_cue list"
  is_transcript :: "string option"
  is_captions :: "instructor_caption list option"
  is_reduced_motion :: "string option"

record rubric_criterion =
  cr_id :: string
  cr_title :: string
  cr_description :: string
  cr_max_points :: jsnum
  cr_evidence :: "string list"

record exemplar_artifact =
  ea_ref :: string
  ea_label :: string
  ea_content :: string

record exemplar_score =
  es_criterion :: string
  es_points :: jsnum
  es_evidence :: "string list"
  es_note :: string

record capstone_exemplar =
  ex_id :: string
  ex_kind :: string
  ex_title :: string
  ex_summary :: string
  ex_artifacts :: "exemplar_artifact list"
  ex_scores :: "exemplar_score list"
  ex_expected_score :: jsnum
  ex_expected_passed :: bool

record capstone_definition =
  cd_id :: string
  cd_title :: string
  cd_summary :: string
  cd_artifacts :: "string list"
  cd_needs_evidence :: bool
  cd_needs_exemplars :: bool
  cd_exemplars :: "capstone_exemplar list option"
  cd_pass_percent :: jsnum
  cd_criteria :: "rubric_criterion list"

record knowledge_question =
  kq_id :: string
  kq_prompt :: string
  kq_choices :: "string list"
  kq_answer :: jsnum
  kq_explanation :: string

record learning_module =
  lm_id :: string
  lm_title :: string
  lm_summary :: string
  lm_level :: string
  lm_providers :: "string list"
  lm_minutes :: jsnum
  lm_objectives :: "string list"
  lm_prerequisites :: "string list"
  lm_sections :: "lesson_section list"
  lm_activity :: "learning_activity option"
  lm_matrix :: "comparison_matrix option"
  lm_script :: "instructor_script option"
  lm_capstone :: "capstone_definition option"
  lm_pass_percent :: jsnum
  lm_questions :: "knowledge_question list"
  lm_sources :: "source_reference list"

record path_badge =
  pb_id :: string
  pb_name :: string
  pb_description :: string

record learning_path =
  pa_id :: string
  pa_title :: string
  pa_summary :: string
  pa_audience :: string
  pa_level :: string
  pa_modules :: "string list"
  pa_badge :: path_badge

record resource =
  re_id :: string
  re_slug :: string
  re_title :: string
  re_summary :: string
  re_category :: string
  re_format :: string
  re_audience :: "string list option"
  re_level :: string
  re_providers :: "string list"
  re_prerequisites :: "string list option"
  re_owner :: string
  re_cadence :: jsnum
  re_verified :: string
  re_tags :: "string list"
  re_sections :: "lesson_section list"
  re_sources :: "source_reference list"

text \<open>The ids of \<open>CatalogMetadata.providers\<close> and the versions; the display texts are not read.\<close>

record catalog =
  ct_schema :: string
  ct_content_version :: string
  ct_providers :: "string list"
  ct_paths :: "learning_path list"
  ct_modules :: "learning_module list"
  ct_resources :: "resource list"

text \<open>\<open>catalog.paths.find((candidate) => candidate.id === id)\<close>, and the same of modules.\<close>

definition find_path :: "catalog \<Rightarrow> string \<Rightarrow> learning_path option" where
  "find_path c i = find (\<lambda>p. pa_id p = i) (ct_paths c)"

definition find_module :: "catalog \<Rightarrow> string \<Rightarrow> learning_module option" where
  "find_module c i = find (\<lambda>m. lm_id m = i) (ct_modules c)"

lemma find_path_Some: "find_path c i = Some p \<Longrightarrow> p \<in> set (ct_paths c) \<and> pa_id p = i"
  by (auto simp: find_path_def find_Some_iff)

lemma find_module_Some: "find_module c i = Some m \<Longrightarrow> m \<in> set (ct_modules c) \<and> lm_id m = i"
  by (auto simp: find_module_def find_Some_iff)

lemma find_module_None: "find_module c i = None \<longleftrightarrow> i \<notin> lm_id ` set (ct_modules c)"
  by (auto simp: find_module_def find_None_iff)

end
