(* ===== verification/Progress_Record.thy ===== *)
theory Progress_Record
  imports Learner_Progress Catalog Js_Time
begin

text \<open>
  The operations of \<open>src/progress.ts\<close> on a learner record and the scoring of
  \<open>src/assessment.ts\<close>: recording attempts, capstones and visits against a catalogue, the
  merge of two records, what the signed-in front end plans with an unsynchronised record, the
  resume target, and the transcript and the histories. A throw is \<open>Inl\<close> of the message.
\<close>

section \<open>Knowledge checks\<close>

record question_feedback =
  qf_question :: string
  qf_selected :: "jsnum option"
  qf_answer :: jsnum
  qf_correct :: bool
  qf_explanation :: string

record assessment_result =
  ar_correct :: nat
  ar_total :: nat
  ar_score :: jsnum
  ar_passed :: bool
  ar_feedback :: "question_feedback list"

text \<open>The answers are the own properties of a record; \<open>passPercent = 80\<close> is the caller's default.\<close>

definition score_feedback :: "(string \<times> jsnum) list \<Rightarrow> knowledge_question \<Rightarrow> question_feedback" where
  "score_feedback answers q = (let selected = map_of answers (kq_id q) in
     \<lparr>qf_question = kq_id q, qf_selected = selected, qf_answer = kq_answer q,
      qf_correct = (case selected of None \<Rightarrow> False | Some n \<Rightarrow> num_same n (kq_answer q)),
      qf_explanation = kq_explanation q\<rparr>)"

definition score_knowledge_check ::
    "knowledge_question list \<Rightarrow> (string \<times> jsnum) list \<Rightarrow> jsnum \<Rightarrow> assessment_result" where
  "score_knowledge_check questions answers pass_percent =
     (let feedback = map (score_feedback answers) questions;
          correct = length (filter qf_correct feedback);
          total = length questions;
          score = (if total = 0 then Fin 0 else js_percent correct total)
      in \<lparr>ar_correct = correct, ar_total = total, ar_score = score,
          ar_passed = (0 < total \<and> num_le pass_percent score), ar_feedback = feedback\<rparr>)"

section \<open>The empty record\<close>

definition create_empty_progress :: "string \<Rightarrow> learner_progress" where
  "create_empty_progress name = \<lparr>lp_display_name = name, lp_started_paths = [],
     lp_completed_modules = [], lp_attempts = [], lp_capstones = Some [], lp_badges = [],
     lp_recent = None, lp_updated_at = to_iso_string 0\<rparr>"

text \<open>\<open>progress.capstoneSubmissions ?? []\<close>.\<close>

definition capstones_of :: "learner_progress \<Rightarrow> capstone_submission list" where
  "capstones_of p = (case lp_capstones p of None \<Rightarrow> [] | Some ss \<Rightarrow> ss)"

definition has_learning_evidence :: "learner_progress \<Rightarrow> bool" where
  "has_learning_evidence p \<longleftrightarrow> 0 < length (lp_started_paths p) \<or> 0 < length (lp_completed_modules p)
     \<or> 0 < length (lp_attempts p) \<or> 0 < length (capstones_of p) \<or> 0 < length (lp_badges p)
     \<or> lp_recent p \<noteq> None"

section \<open>Comparing two values\<close>

text \<open>\<open>canonicalize\<close>: keys in code-unit order at every depth, an undefined member as \<open>null\<close>.\<close>

definition unit_sort_keys :: "(string \<times> 'a) list \<Rightarrow> (string \<times> 'a) list" where
  "unit_sort_keys = js_sort (\<lambda>a b. unit_cmp (fst a) (fst b))"

lemma set_unit_sort_keys [simp]: "set (unit_sort_keys kvs) = set kvs"
  by (simp add: unit_sort_keys_def)

function canonicalize :: "runtime \<Rightarrow> json \<Rightarrow> string" where
  "canonicalize rt (JArr xs) = ''['' @ join_text '','' (map (canonicalize rt) xs) @ '']''"
| "canonicalize rt (JObj kvs) = ''{'' @ join_text '',''
     (map (\<lambda>(k, v). quote_text k @ '':'' @ canonicalize rt v) (unit_sort_keys kvs)) @ ''}''"
| "canonicalize rt JUndefined = ''null''"
| "canonicalize rt JNull = ''null''"
| "canonicalize rt (JBool b) = stringify rt (JBool b)"
| "canonicalize rt (JNum n) = stringify rt (JNum n)"
| "canonicalize rt (JStr s) = stringify rt (JStr s)"
  by pat_completeness auto
termination
proof (relation "measure (\<lambda>(rt, j). size j)")
  show "((rt, x), (rt, JArr xs)) \<in> measure (\<lambda>(rt, j). size j)" if "x \<in> set xs" for rt :: runtime and x xs
    using that by (induction xs) auto
next
  fix rt :: runtime and kvs :: "(string \<times> json) list" and z x y
  assume "z \<in> set (unit_sort_keys kvs)" and "(x, y) = z"
  then show "((rt, y), (rt, JObj kvs)) \<in> measure (\<lambda>(rt, j). size j)"
    using size_json_member [of x y kvs] by auto
qed auto

definition is_same_progress_record :: "runtime \<Rightarrow> json \<Rightarrow> json \<Rightarrow> bool" where
  "is_same_progress_record rt left right \<longleftrightarrow> canonicalize rt left = canonicalize rt right"

section \<open>Merging two records\<close>

text \<open>
  The loop over the source's attempts, and over its capstones: the IDs seen so far start as those
  of the survivor; a record with a new ID is taken, one that the survivor holds unchanged is
  dropped, any other is taken under a prefixed ID. The two loops of the code differ only in
  the fields \<open>get_id\<close>, \<open>set_id\<close> and in what \<open>same\<close> compares.
\<close>

fun merge_source :: "('a \<Rightarrow> string) \<Rightarrow> (string \<Rightarrow> 'a \<Rightarrow> 'a) \<Rightarrow> ('a \<Rightarrow> 'a \<Rightarrow> bool) \<Rightarrow> string
    \<Rightarrow> 'a list \<Rightarrow> string list \<Rightarrow> 'a list \<Rightarrow> 'a list" where
  "merge_source get_id set_id same prefix survivor ids [] = []"
| "merge_source get_id set_id same prefix survivor ids (x # xs) =
     (if get_id x \<notin> set ids
      then x # merge_source get_id set_id same prefix survivor (get_id x # ids) xs
      else (let renamed = prefix @ '':'' @ get_id x;
                taken = set_id renamed x # merge_source get_id set_id same prefix survivor (renamed # ids) xs
            in case find (\<lambda>y. get_id y = get_id x) survivor of
                 Some y \<Rightarrow> if same y x then merge_source get_id set_id same prefix survivor ids xs else taken
               | None \<Rightarrow> taken))"

definition same_attempt :: "runtime \<Rightarrow> assessment_attempt \<Rightarrow> assessment_attempt \<Rightarrow> bool" where
  "same_attempt rt a b = is_same_progress_record rt (attempt_json a) (attempt_json b)"

definition merge_attempts ::
    "runtime \<Rightarrow> string \<Rightarrow> assessment_attempt list \<Rightarrow> assessment_attempt list \<Rightarrow> assessment_attempt list" where
  "merge_attempts rt prefix survivor source = merge_source at_id (\<lambda>i a. a\<lparr>at_id := i\<rparr>) (same_attempt rt)
     prefix survivor (map at_id survivor) source"

definition same_submission :: "runtime \<Rightarrow> capstone_submission \<Rightarrow> capstone_submission \<Rightarrow> bool" where
  "same_submission rt a b = is_same_progress_record rt (submission_json a) (submission_json b)"

definition merge_capstones ::
    "runtime \<Rightarrow> string \<Rightarrow> capstone_submission list \<Rightarrow> capstone_submission list \<Rightarrow> capstone_submission list" where
  "merge_capstones rt prefix survivor source = merge_source sub_id (\<lambda>i s. s\<lparr>sub_id := i\<rparr>)
     (same_submission rt) prefix survivor (map sub_id survivor) source"

text \<open>The badges by ID: the earlier of the two times and the union of the evidence.\<close>

definition merge_badge :: "runtime \<Rightarrow> (string \<times> earned_badge) list \<Rightarrow> earned_badge
    \<Rightarrow> (string \<times> earned_badge) list" where
  "merge_badge rt badges b = (case map_of badges (eb_id b) of
     None \<Rightarrow> map_set (eb_id b) b badges
   | Some e \<Rightarrow> map_set (eb_id b) (e
       \<lparr>eb_earned_at := (if collate rt (eb_earned_at e) (eb_earned_at b) \<le> 0 then eb_earned_at e
                        else eb_earned_at b),
        eb_evidence := js_unique (eb_evidence e @ eb_evidence b)\<rparr>) badges)"

definition merge_badges :: "runtime \<Rightarrow> earned_badge list \<Rightarrow> earned_badge list \<Rightarrow> earned_badge list" where
  "merge_badges rt survivor source = map snd (foldl (merge_badge rt)
     (foldl (\<lambda>m b. map_set (eb_id b) b m) [] survivor) source)"

text \<open>The later visit, the survivor's on a tie.\<close>

definition merge_recent :: "runtime \<Rightarrow> recent_module option \<Rightarrow> recent_module option \<Rightarrow> recent_module option" where
  "merge_recent rt survivor source =
     (case js_sort (\<lambda>l r. collate rt (rm_visited_at r) (rm_visited_at l))
        (case_option [] (\<lambda>r. [r]) survivor @ case_option [] (\<lambda>r. [r]) source) of
        [] \<Rightarrow> None | r # _ \<Rightarrow> Some r)"

definition merge_learner_progress ::
    "runtime \<Rightarrow> learner_progress \<Rightarrow> learner_progress \<Rightarrow> string \<Rightarrow> string \<Rightarrow> learner_progress" where
  "merge_learner_progress rt survivor source display_name prefix =
     \<lparr>lp_display_name = display_name,
      lp_started_paths = js_unique (lp_started_paths survivor @ lp_started_paths source),
      lp_completed_modules = js_unique (lp_completed_modules survivor @ lp_completed_modules source),
      lp_attempts = js_sort (\<lambda>l r. collate rt (at_completed_at l) (at_completed_at r))
        (lp_attempts survivor @ merge_attempts rt prefix (lp_attempts survivor) (lp_attempts source)),
      lp_capstones = Some (js_sort (\<lambda>l r. collate rt (sub_submitted_at l) (sub_submitted_at r))
        (capstones_of survivor @ merge_capstones rt prefix (capstones_of survivor) (capstones_of source))),
      lp_badges = js_sort (\<lambda>l r. collate rt (eb_earned_at l) (eb_earned_at r))
        (merge_badges rt (lp_badges survivor) (lp_badges source)),
      lp_recent = merge_recent rt (lp_recent survivor) (lp_recent source),
      lp_updated_at = (if 0 \<le> collate rt (lp_updated_at survivor) (lp_updated_at source)
        then lp_updated_at survivor else lp_updated_at source)\<rparr>"

section \<open>Plans of the signed-in front end\<close>

datatype flush_plan = FlushWait | FlushDiscard | FlushMerge "learner_progress \<Rightarrow> learner_progress"

definition unsynced_prefix :: string where "unsynced_prefix = ''unsynced''"

definition plan_unsynced_progress_flush :: "runtime \<Rightarrow> bool \<Rightarrow> bool \<Rightarrow> learner_progress option
    \<Rightarrow> string \<Rightarrow> bool \<Rightarrow> flush_plan" where
  "plan_unsynced_progress_flush rt writable in_flight unsynced last_synchronized pending_replacement =
     (case unsynced of None \<Rightarrow> FlushWait
      | Some u \<Rightarrow>
        if \<not> writable \<or> in_flight then FlushWait
        else if pending_replacement then FlushDiscard
        else if stringify rt (progress_json u) = last_synchronized then FlushDiscard
        else FlushMerge (\<lambda>hydrated.
          merge_learner_progress rt hydrated u (lp_display_name hydrated) unsynced_prefix))"

datatype give_up_reason = NotRetryable | AttemptsExhausted

datatype retry_plan = GiveUp give_up_reason | RetryAfter rat

definition progress_save_max_attempts :: int where "progress_save_max_attempts = 6"

text \<open>The status is an HTTP status or null; \<open>2 ** (attempt - 1)\<close> may be a fraction.\<close>

definition plan_progress_save_retry :: "int option \<Rightarrow> int \<Rightarrow> int option \<Rightarrow> retry_plan" where
  "plan_progress_save_retry status attempt max_attempts =
     (if \<not> (case status of None \<Rightarrow> True | Some s \<Rightarrow> s = 408 \<or> s = 429 \<or> 500 \<le> s)
      then GiveUp NotRetryable
      else if (case max_attempts of None \<Rightarrow> progress_save_max_attempts | Some m \<Rightarrow> m) \<le> attempt
      then GiveUp AttemptsExhausted
      else RetryAfter (if attempt \<le> 5 then 1000 * 2 powi (attempt - 1) else 30000))"

definition plan_account_progress_hydration :: "runtime \<Rightarrow> learner_progress \<Rightarrow> bool \<Rightarrow> string option
    \<Rightarrow> learner_progress \<Rightarrow> learner_progress" where
  "plan_account_progress_hydration rt account pending_replacement pending_name local =
     (let name = (case pending_name of None \<Rightarrow> lp_display_name account | Some n \<Rightarrow> n) in
      if pending_replacement then local
      else if \<not> has_learning_evidence local
      then (if name = lp_display_name account then account else account\<lparr>lp_display_name := name\<rparr>)
      else merge_learner_progress rt account local name unsynced_prefix)"

section \<open>Where to continue\<close>

record resume_target =
  rs_path :: string
  rs_module :: string
  rs_advanced :: bool

text \<open>\<open>if (!next) return null\<close>: an empty ID is falsy, as is no ID.\<close>

definition select_resume_target :: "learner_progress \<Rightarrow> catalog \<Rightarrow> resume_target option" where
  "select_resume_target p c = (case lp_recent p of None \<Rightarrow> None | Some recent \<Rightarrow>
     (case find_path c (rm_path recent) of None \<Rightarrow> None | Some path \<Rightarrow>
       let known = map lm_id (ct_modules c);
           completed = lp_completed_modules p;
           resumable = (\<lambda>m. m \<in> set known \<and> m \<notin> set completed)
       in if rm_module recent \<notin> set (pa_modules path) \<or> rm_module recent \<notin> set known then None
          else if rm_module recent \<notin> set completed
          then Some \<lparr>rs_path = pa_id path, rs_module = rm_module recent, rs_advanced = False\<rparr>
          else (let after = tl (dropWhile (\<lambda>m. m \<noteq> rm_module recent) (pa_modules path)) in
            case (case find resumable after of Some m \<Rightarrow> Some m
                  | None \<Rightarrow> find resumable (pa_modules path)) of
              None \<Rightarrow> None
            | Some m \<Rightarrow> if m = [] then None
                else Some \<lparr>rs_path = pa_id path, rs_module = m, rs_advanced = True\<rparr>)))"

section \<open>Recording\<close>

definition derive_badges :: "catalog \<Rightarrow> string list \<Rightarrow> earned_badge list \<Rightarrow> string \<Rightarrow> earned_badge list" where
  "derive_badges c completed existing earned_at = foldl (\<lambda>badges path.
     if list_all (\<lambda>m. m \<in> set completed) (pa_modules path)
        \<and> \<not> list_ex (\<lambda>b. eb_id b = pb_id (pa_badge path)) badges
     then badges @ [\<lparr>eb_id = pb_id (pa_badge path), eb_name = pb_name (pa_badge path),
       eb_description = pb_description (pa_badge path), eb_earned_at = earned_at,
       eb_evidence = pa_modules path\<rparr>]
     else badges) existing (ct_paths c)"

text \<open>\<open>xs.includes(x) ? xs : [...xs, x]\<close>.\<close>

definition include_once :: "'a \<Rightarrow> 'a list \<Rightarrow> 'a list" where
  "include_once x xs = (if x \<in> set xs then xs else xs @ [x])"

record attempt_input =
  ai_attempt :: string
  ai_path :: string
  ai_module :: string
  ai_completed_at :: string
  ai_result :: assessment_result

definition record_assessment_attempt :: "learner_progress \<Rightarrow> catalog \<Rightarrow> attempt_input
    \<Rightarrow> (string, learner_progress) result" where
  "record_assessment_attempt p c i =
     (if list_ex (\<lambda>a. at_id a = ai_attempt i) (lp_attempts p) then Inr p
      else (case (find_path c (ai_path i), find_module c (ai_module i)) of
        (Some path, Some m) \<Rightarrow>
          if lm_id m \<notin> set (pa_modules path)
          then Inl (''Module '' @ ai_module i @ '' does not belong to learning path '' @ ai_path i)
          else (let
              completed = (if ar_passed (ai_result i)
                  \<and> (lm_capstone m = None
                     \<or> list_ex (\<lambda>s. sub_module s = lm_id m \<and> sub_passed s) (capstones_of p))
                  \<and> ai_module i \<notin> set (lp_completed_modules p)
                then lp_completed_modules p @ [ai_module i] else lp_completed_modules p)
            in Inr (p\<lparr>lp_started_paths := include_once (ai_path i) (lp_started_paths p),
                 lp_completed_modules := completed,
                 lp_attempts := lp_attempts p @ [\<lparr>at_id = ai_attempt i, at_path = ai_path i,
                   at_module = ai_module i, at_content_version = ct_content_version c,
                   at_score = ar_score (ai_result i), at_passed = ar_passed (ai_result i),
                   at_completed_at = ai_completed_at i\<rparr>],
                 lp_capstones := Some (capstones_of p),
                 lp_badges := derive_badges c completed (lp_badges p) (ai_completed_at i),
                 lp_updated_at := ai_completed_at i\<rparr>))
      | _ \<Rightarrow> Inl (''Module '' @ ai_module i @ '' does not belong to learning path '' @ ai_path i)))"

record capstone_input =
  ci_submission :: string
  ci_path :: string
  ci_module :: string
  ci_submitted_at :: string
  ci_artifacts :: "string list"
  ci_scores :: "criterion_score list"
  ci_reflection :: string

text \<open>\<open>new Map(criterionScores.map((s) => [s.criterionId, s])).get(id)\<close>: the last one wins.\<close>

definition score_by_criterion :: "criterion_score list \<Rightarrow> string \<Rightarrow> criterion_score option" where
  "score_by_criterion scores i = map_of (rev (map (\<lambda>s. (cs_criterion s, s)) scores)) i"

text \<open>One round of the loop over the rubric: the points awarded and available so far.\<close>

definition score_criterion :: "capstone_definition \<Rightarrow> criterion_score list \<Rightarrow> string list \<Rightarrow> string list
    \<Rightarrow> jsnum \<times> jsnum \<Rightarrow> rubric_criterion \<Rightarrow> (string, jsnum \<times> jsnum) result" where
  "score_criterion cap scores artifact_refs assessment_refs st criterion =
     (case score_by_criterion scores (cr_id criterion) of
        None \<Rightarrow> Inl (''Invalid score for capstone criterion '' @ cr_id criterion)
      | Some s \<Rightarrow>
        if \<not> num_integer (cs_points s) \<or> num_less (cs_points s) (Fin 0)
          \<or> num_less (cr_max_points criterion) (cs_points s)
        then Inl (''Invalid score for capstone criterion '' @ cr_id criterion)
        else if cd_needs_evidence cap \<and> (case cs_evidence s of None \<Rightarrow> True | Some refs \<Rightarrow>
            refs = [] \<or> \<not> distinct refs
            \<or> list_ex (\<lambda>r. js_trim r = [] \<or> r \<notin> set artifact_refs \<and> r \<notin> set assessment_refs) refs)
        then Inl (''Capstone criterion '' @ cr_id criterion
          @ '' needs mapped artifact or assessment evidence'')
        else Inr (num_add (fst st) (cs_points s), num_add (snd st) (cr_max_points criterion)))"

definition record_capstone_submission :: "learner_progress \<Rightarrow> catalog \<Rightarrow> capstone_input
    \<Rightarrow> (string, learner_progress) result" where
  "record_capstone_submission p c i =
     (if list_ex (\<lambda>s. sub_id s = ci_submission i) (capstones_of p) then Inr p
      else (case (find_path c (ci_path i), find_module c (ci_module i)) of
        (Some path, Some m) \<Rightarrow> (case (lm_id m \<in> set (pa_modules path), lm_capstone m) of
          (True, Some cap) \<Rightarrow>
            if length (ci_artifacts i) < length (cd_artifacts cap)
              \<or> list_ex (\<lambda>r. js_trim r = []) (ci_artifacts i) \<or> js_trim (ci_reflection i) = []
            then Inl (''Capstone submission needs at least '' @ nat_text (length (cd_artifacts cap))
              @ '' artifact references and a reflection'')
            else if card (set (map cs_criterion (ci_scores i))) \<noteq> length (cd_criteria cap)
              \<or> length (ci_scores i) \<noteq> length (cd_criteria cap)
            then Inl ''Capstone submission must score every rubric criterion once''
            else bind_result (fold_result (score_criterion cap (ci_scores i) (ci_artifacts i)
                (map (\<lambda>a. ''assessment:'' @ at_id a)
                  (filter (\<lambda>a. at_path a = pa_id path \<and> at_module a = lm_id m) (lp_attempts p))))
                (Fin 0, Fin 0) (cd_criteria cap))
              (\<lambda>(awarded, available). let
                score = num_round (num_times_100 (num_div awarded available));
                passed = num_le (cd_pass_percent cap) score;
                completed = (if passed
                    \<and> list_ex (\<lambda>a. at_module a = lm_id m \<and> at_passed a) (lp_attempts p)
                    \<and> lm_id m \<notin> set (lp_completed_modules p)
                  then lp_completed_modules p @ [lm_id m] else lp_completed_modules p)
              in Inr (p\<lparr>lp_started_paths := include_once (pa_id path) (lp_started_paths p),
                   lp_completed_modules := completed,
                   lp_capstones := Some (capstones_of p @ [\<lparr>sub_id = ci_submission i,
                     sub_path = ci_path i, sub_module = ci_module i,
                     sub_content_version = ct_content_version c, sub_submitted_at = ci_submitted_at i,
                     sub_artifacts = ci_artifacts i, sub_criteria = ci_scores i, sub_score = score,
                     sub_passed = passed, sub_reflection = ci_reflection i\<rparr>]),
                   lp_badges := derive_badges c completed (lp_badges p) (ci_submitted_at i),
                   lp_updated_at := ci_submitted_at i\<rparr>))
        | _ \<Rightarrow> Inl (''Module '' @ ci_module i @ '' is not a capstone in learning path '' @ ci_path i))
      | _ \<Rightarrow> Inl (''Module '' @ ci_module i @ '' is not a capstone in learning path '' @ ci_path i)))"

definition record_module_visit :: "learner_progress \<Rightarrow> catalog \<Rightarrow> recent_module
    \<Rightarrow> (string, learner_progress) result" where
  "record_module_visit p c i = (case find_path c (rm_path i) of
     Some path \<Rightarrow>
       if rm_module i \<notin> set (pa_modules path)
       then Inl (''Module '' @ rm_module i @ '' does not belong to learning path '' @ rm_path i)
       else Inr (p\<lparr>lp_started_paths := include_once (rm_path i) (lp_started_paths p),
              lp_recent := Some i, lp_updated_at := rm_visited_at i\<rparr>)
   | None \<Rightarrow> Inl (''Module '' @ rm_module i @ '' does not belong to learning path '' @ rm_path i))"

section \<open>Transcript and histories\<close>

record progress_transcript =
  pt_path :: string
  pt_title :: string
  pt_completed :: nat
  pt_total :: nat
  pt_percent :: jsnum
  pt_best :: "jsnum option"

definition build_transcript :: "catalog \<Rightarrow> learner_progress \<Rightarrow> progress_transcript list" where
  "build_transcript c p = map (\<lambda>path. let
       completed = filter (\<lambda>m. m \<in> set (lp_completed_modules p)) (pa_modules path);
       attempts = filter (\<lambda>a. at_path a = pa_id path) (lp_attempts p)
     in \<lparr>pt_path = pa_id path, pt_title = pa_title path, pt_completed = length completed,
         pt_total = length (pa_modules path),
         pt_percent = js_percent (length completed) (length (pa_modules path)),
         pt_best = (if attempts = [] then None else Some (num_max_list (map at_score attempts)))\<rparr>)
     (ct_paths c)"

text \<open>\<open>new Map(items.map((x) => [x.id, f(x)])).get(id)\<close>.\<close>

definition lookup_last :: "('a \<Rightarrow> string) \<Rightarrow> 'a list \<Rightarrow> string \<Rightarrow> 'a option" where
  "lookup_last key xs i = map_of (rev (map (\<lambda>x. (key x, x)) xs)) i"

record assessment_history =
  ah_attempt :: assessment_attempt
  ah_path_title :: string
  ah_module_title :: string

definition path_title :: "catalog \<Rightarrow> string \<Rightarrow> string" where
  "path_title c i = (case lookup_last pa_id (ct_paths c) i of None \<Rightarrow> i | Some p \<Rightarrow> pa_title p)"

definition module_title :: "catalog \<Rightarrow> string \<Rightarrow> string" where
  "module_title c i = (case lookup_last lm_id (ct_modules c) i of None \<Rightarrow> i | Some m \<Rightarrow> lm_title m)"

text \<open>The fields of an entry that repeat the attempt's are kept as the attempt.\<close>

definition build_assessment_history :: "runtime \<Rightarrow> catalog \<Rightarrow> learner_progress \<Rightarrow> assessment_history list" where
  "build_assessment_history rt c p =
     js_sort (\<lambda>l r. collate rt (at_completed_at (ah_attempt r)) (at_completed_at (ah_attempt l)))
       (map (\<lambda>a. \<lparr>ah_attempt = a, ah_path_title = path_title c (at_path a),
          ah_module_title = module_title c (at_module a)\<rparr>) (lp_attempts p))"

record capstone_history =
  ch_submission :: capstone_submission
  ch_path_title :: string
  ch_module_title :: string
  ch_capstone_title :: string

definition build_capstone_history :: "runtime \<Rightarrow> catalog \<Rightarrow> learner_progress \<Rightarrow> capstone_history list" where
  "build_capstone_history rt c p =
     js_sort (\<lambda>l r. collate rt (sub_submitted_at (ch_submission r)) (sub_submitted_at (ch_submission l)))
       (map (\<lambda>s. \<lparr>ch_submission = s, ch_path_title = path_title c (sub_path s),
          ch_module_title = module_title c (sub_module s),
          ch_capstone_title = (case lookup_last lm_id (ct_modules c) (sub_module s) of
              None \<Rightarrow> sub_module s
            | Some m \<Rightarrow> (case lm_capstone m of None \<Rightarrow> sub_module s | Some cap \<Rightarrow> cd_title cap))\<rparr>)
         (capstones_of p))"

end
