(* ===== verification/Portable_Record.thy ===== *)
theory Portable_Record
  imports Progress_Record Js_Guards
begin

text \<open>
  The portable learner record of \<open>src/portable-record.ts\<close>: building it, validating an untrusted value, restoring a learner
  record from it against a catalogue, and the CSV transcript. \<open>Date.parse\<close> of an arbitrary text is the parameter \<open>dp\<close> (whether
  it is a number); \<open>str_of\<close>, \<open>amount_of\<close> and \<open>elems\<close> read members whose type validation has established.
\<close>

section \<open>Building\<close>

definition transcript_json :: "progress_transcript \<Rightarrow> json" where
  "transcript_json t = JObj [(''pathId'', JStr (pt_path t)), (''pathTitle'', JStr (pt_title t)),
     (''completedModules'', JInt (int (pt_completed t))), (''totalModules'', JInt (int (pt_total t))),
     (''completionPercent'', JNum (pt_percent t)),
     (''bestScorePercent'', case pt_best t of None \<Rightarrow> JNull | Some n \<Rightarrow> JNum n)]"

definition build_portable_record :: "catalog \<Rightarrow> learner_progress \<Rightarrow> string \<Rightarrow> json" where
  "build_portable_record c p exported_at = JObj [(''format'', JStr ''project42/learner-record''),
     (''formatVersion'', JStr ''1.0''), (''exportedAt'', JStr exported_at),
     (''catalogVersion'', JStr (ct_content_version c)), (''learner'', progress_json p),
     (''transcript'', JArr (map transcript_json (build_transcript c p)))]"

section \<open>Type guards\<close>

fun is_non_negative_integer :: "json \<Rightarrow> bool" where
  "is_non_negative_integer (JNum n) \<longleftrightarrow> num_integer n \<and> num_le (Fin 0) n"
| "is_non_negative_integer _ = False"

fun is_iso_date :: "(string \<Rightarrow> bool) \<Rightarrow> json \<Rightarrow> bool" where
  "is_iso_date dp (JStr s) \<longleftrightarrow> dp s"
| "is_iso_date dp _ = False"

fun is_unique_string_array :: "json \<Rightarrow> bool" where
  "is_unique_string_array (JArr xs) \<longleftrightarrow> list_all is_non_empty_string xs \<and> distinct xs"
| "is_unique_string_array _ = False"

definition unique_string_members :: "string \<Rightarrow> json list \<Rightarrow> bool" where
  "unique_string_members k xs = (let ids = filter is_string (map (\<lambda>v. get_prop v k) (filter is_record xs))
     in length ids = length xs \<and> distinct ids)"

definition has_unique_ids :: "json list \<Rightarrow> bool" where
  "has_unique_ids = unique_string_members ''id''"

definition has_unique_criterion_ids :: "json list \<Rightarrow> bool" where
  "has_unique_criterion_ids = unique_string_members ''criterionId''"

definition is_assessment_attempt :: "(string \<Rightarrow> bool) \<Rightarrow> json \<Rightarrow> bool" where
  "is_assessment_attempt dp v \<longleftrightarrow> is_record v
     \<and> is_non_empty_string (get_prop v ''id'') \<and> is_non_empty_string (get_prop v ''pathId'')
     \<and> is_non_empty_string (get_prop v ''moduleId'') \<and> is_non_empty_string (get_prop v ''contentVersion'')
     \<and> is_percent (get_prop v ''scorePercent'') \<and> is_boolean (get_prop v ''passed'')
     \<and> is_iso_date dp (get_prop v ''completedAt'')"

definition is_capstone_criterion_score :: "json \<Rightarrow> bool" where
  "is_capstone_criterion_score v \<longleftrightarrow> is_record v \<and> is_non_empty_string (get_prop v ''criterionId'')
     \<and> is_non_negative_integer (get_prop v ''pointsAwarded'')
     \<and> (get_prop v ''evidenceRefs'' = JUndefined \<or> is_unique_string_array (get_prop v ''evidenceRefs''))"

definition is_capstone_submission :: "(string \<Rightarrow> bool) \<Rightarrow> json \<Rightarrow> bool" where
  "is_capstone_submission dp v \<longleftrightarrow> is_record v
     \<and> is_non_empty_string (get_prop v ''id'') \<and> is_non_empty_string (get_prop v ''pathId'')
     \<and> is_non_empty_string (get_prop v ''moduleId'') \<and> is_non_empty_string (get_prop v ''contentVersion'')
     \<and> is_iso_date dp (get_prop v ''submittedAt'')
     \<and> is_unique_string_array (get_prop v ''artifactRefs'') \<and> get_prop v ''artifactRefs'' \<noteq> JArr []
     \<and> array_where (\<lambda>xs. xs \<noteq> [] \<and> list_all is_capstone_criterion_score xs \<and> has_unique_criterion_ids xs)
         (get_prop v ''criterionScores'')
     \<and> is_percent (get_prop v ''scorePercent'') \<and> is_boolean (get_prop v ''passed'')
     \<and> is_non_empty_string (get_prop v ''reflection'')"

definition is_earned_badge :: "(string \<Rightarrow> bool) \<Rightarrow> json \<Rightarrow> bool" where
  "is_earned_badge dp v \<longleftrightarrow> is_record v
     \<and> is_non_empty_string (get_prop v ''id'') \<and> is_non_empty_string (get_prop v ''name'')
     \<and> is_non_empty_string (get_prop v ''description'') \<and> is_iso_date dp (get_prop v ''earnedAt'')
     \<and> is_unique_string_array (get_prop v ''evidenceModuleIds'')"

definition is_recent_module :: "(string \<Rightarrow> bool) \<Rightarrow> json \<Rightarrow> bool" where
  "is_recent_module dp v \<longleftrightarrow> is_record v \<and> is_non_empty_string (get_prop v ''pathId'')
     \<and> is_non_empty_string (get_prop v ''moduleId'') \<and> is_iso_date dp (get_prop v ''visitedAt'')"

definition is_transcript_entry :: "json \<Rightarrow> bool" where
  "is_transcript_entry v \<longleftrightarrow> is_record v \<and> is_non_empty_string (get_prop v ''pathId'')
     \<and> is_non_empty_string (get_prop v ''pathTitle'') \<and> is_non_negative_integer (get_prop v ''completedModules'')
     \<and> is_non_negative_integer (get_prop v ''totalModules'') \<and> is_percent (get_prop v ''completionPercent'')
     \<and> (get_prop v ''bestScorePercent'' = JNull \<or> is_percent (get_prop v ''bestScorePercent''))"

definition short_text :: "nat \<Rightarrow> json \<Rightarrow> bool" where
  "short_text n v \<longleftrightarrow> (case v of JStr s \<Rightarrow> length s \<le> n | _ \<Rightarrow> False)"

definition is_learner_progress :: "(string \<Rightarrow> bool) \<Rightarrow> json \<Rightarrow> bool" where
  "is_learner_progress dp v \<longleftrightarrow> is_record v \<and> get_prop v ''schemaVersion'' = JInt 1
     \<and> short_text 80 (get_prop v ''displayName'')
     \<and> is_unique_string_array (get_prop v ''startedPathIds'')
     \<and> is_unique_string_array (get_prop v ''completedModuleIds'')
     \<and> array_where (\<lambda>xs. list_all (is_assessment_attempt dp) xs \<and> has_unique_ids xs) (get_prop v ''attempts'')
     \<and> (get_prop v ''capstoneSubmissions'' = JUndefined
        \<or> array_where (\<lambda>xs. list_all (is_capstone_submission dp) xs \<and> has_unique_ids xs)
            (get_prop v ''capstoneSubmissions''))
     \<and> array_where (\<lambda>xs. list_all (is_earned_badge dp) xs \<and> has_unique_ids xs) (get_prop v ''badges'')
     \<and> (get_prop v ''recentModule'' = JUndefined \<or> is_recent_module dp (get_prop v ''recentModule''))
     \<and> is_iso_date dp (get_prop v ''updatedAt'')"

section \<open>Validation\<close>

definition validate_portable_record :: "(string \<Rightarrow> bool) \<Rightarrow> json \<Rightarrow> string list" where
  "validate_portable_record dp v =
     (if \<not> is_record v then [''Learner record must be an object'']
      else complain_unless (get_prop v ''format'' = JStr ''project42/learner-record'') ''Unsupported learner-record format''
        @ complain_unless (get_prop v ''formatVersion'' = JStr ''1.0'') ''Unsupported learner-record version''
        @ complain_unless (is_iso_date dp (get_prop v ''exportedAt'')) ''exportedAt must be an ISO date''
        @ complain_unless (is_non_empty_string (get_prop v ''catalogVersion'')) ''catalogVersion is required''
        @ complain_unless (is_learner_progress dp (get_prop v ''learner'')) ''learner is not a valid version 1 progress record''
        @ complain_unless (array_where (list_all is_transcript_entry) (get_prop v ''transcript''))
            ''transcript must be an array of valid path summaries'')"

definition is_portable_record :: "(string \<Rightarrow> bool) \<Rightarrow> json \<Rightarrow> bool" where
  "is_portable_record dp v \<longleftrightarrow> is_record v \<and> get_prop v ''format'' = JStr ''project42/learner-record''
     \<and> get_prop v ''formatVersion'' = JStr ''1.0'' \<and> is_iso_date dp (get_prop v ''exportedAt'')
     \<and> is_string (get_prop v ''catalogVersion'') \<and> is_learner_progress dp (get_prop v ''learner'')
     \<and> array_where (list_all is_transcript_entry) (get_prop v ''transcript'')"

section \<open>Restoring\<close>

text \<open>The map from modules to paths: the last path that names the module wins.\<close>

definition module_to_path :: "catalog \<Rightarrow> string \<Rightarrow> string option" where
  "module_to_path c i = map_of (rev (concat (map (\<lambda>path. map (\<lambda>m. (m, pa_id path)) (pa_modules path)) (ct_paths c)))) i"

text \<open>\<open>!expectedPathId\<close>, for a missing entry and for the empty text.\<close>

definition no_path :: "string option \<Rightarrow> bool" where
  "no_path x \<longleftrightarrow> x = None \<or> x = Some []"

definition restore_attempt_errors :: "catalog \<Rightarrow> json \<Rightarrow> string list" where
  "restore_attempt_errors c a = (let i = str_of (get_prop a ''id''); path = str_of (get_prop a ''pathId'');
       m = str_of (get_prop a ''moduleId''); expected = module_to_path c m in
     complain_unless (path \<in> pa_id ` set (ct_paths c)) (''Attempt '' @ i @ '' references unknown path '' @ path)
     @ (if no_path expected then [''Attempt '' @ i @ '' references unknown module '' @ m]
        else complain_unless (expected = Some path) (''Attempt '' @ i @ '' does not match module '' @ m @ '''s learning path'')))"

definition expected_score :: "capstone_definition \<Rightarrow> json list \<Rightarrow> jsnum" where
  "expected_score cap scores = num_round (num_times_100 (num_div
     (num_sum (map (\<lambda>s. amount_of (get_prop s ''pointsAwarded'')) scores)) (num_sum (map cr_max_points (cd_criteria cap)))))"

definition fits_rubric :: "capstone_definition \<Rightarrow> json list \<Rightarrow> bool" where
  "fits_rubric cap scores \<longleftrightarrow> length scores = length (remdups (map cr_id (cd_criteria cap)))
     \<and> list_all (\<lambda>s. case lookup_last cr_id (cd_criteria cap) (str_of (get_prop s ''criterionId'')) of
          None \<Rightarrow> False
        | Some cr \<Rightarrow> \<not> num_less (amount_of (get_prop s ''pointsAwarded'')) (Fin 0)
            \<and> \<not> num_less (cr_max_points cr) (amount_of (get_prop s ''pointsAwarded''))) scores"

definition evidence_mapped :: "string list \<Rightarrow> string list \<Rightarrow> json \<Rightarrow> bool" where
  "evidence_mapped artifact_refs assessment_refs s \<longleftrightarrow> (let refs = map str_of (elems (get_prop s ''evidenceRefs'')) in
     refs \<noteq> [] \<and> distinct refs
     \<and> list_all (\<lambda>r. js_trim r \<noteq> [] \<and> (r \<in> set artifact_refs \<or> r \<in> set assessment_refs)) refs)"

definition restore_capstone_errors :: "catalog \<Rightarrow> json list \<Rightarrow> json \<Rightarrow> string list" where
  "restore_capstone_errors c attempts s = (let i = str_of (get_prop s ''id''); path = str_of (get_prop s ''pathId'');
       m = str_of (get_prop s ''moduleId''); expected = module_to_path c m in
     complain_unless (path \<in> pa_id ` set (ct_paths c)) (''Capstone '' @ i @ '' references unknown path '' @ path)
     @ (case (if no_path expected then None else Option.bind (find_module c m) lm_capstone) of
          None \<Rightarrow> [''Capstone '' @ i @ '' references unknown capstone module '' @ m]
        | Some cap \<Rightarrow>
          if expected \<noteq> Some path then [''Capstone '' @ i @ '' does not match module '' @ m @ '''s learning path'']
          else let
            artifacts = map str_of (elems (get_prop s ''artifactRefs''));
            scores = elems (get_prop s ''criterionScores'');
            score = expected_score cap scores;
            refs = map (\<lambda>a. ''assessment:'' @ str_of (get_prop a ''id''))
              (filter (\<lambda>a. get_prop a ''pathId'' = get_prop s ''pathId'' \<and> get_prop a ''moduleId'' = get_prop s ''moduleId'') attempts)
          in complain_unless (length (cd_artifacts cap) \<le> length artifacts)
               (''Capstone '' @ i @ '' does not include every required artifact'')
             @ complain_unless (fits_rubric cap scores) (''Capstone '' @ i @ '' does not match its current rubric'')
             @ complain_unless (\<not> cd_needs_evidence cap \<or> list_all (evidence_mapped artifacts refs) scores)
                 (''Capstone '' @ i @ '' has unmapped criterion evidence'')
             @ complain_unless (num_same (amount_of (get_prop s ''scorePercent'')) score
                 \<and> get_prop s ''passed'' = JBool (num_le (cd_pass_percent cap) score))
                 (''Capstone '' @ i @ '' has inconsistent score or pass evidence'')))"

definition restore_recent_errors :: "catalog \<Rightarrow> json \<Rightarrow> string list" where
  "restore_recent_errors c r = (if r = JUndefined then [] else
     let m = str_of (get_prop r ''moduleId''); expected = module_to_path c m in
     if no_path expected then [''Record references unknown recent module '' @ m]
     else complain_unless (expected = Some (str_of (get_prop r ''pathId'')))
       (''Recent module '' @ m @ '' does not match its learning path''))"

text \<open>\<open>{ ...object, [key]: value }\<close>.\<close>

fun with_member :: "string \<Rightarrow> json \<Rightarrow> (string \<times> json) list \<Rightarrow> (string \<times> json) list" where
  "with_member k v [] = [(k, v)]"
| "with_member k v ((k', v') # kvs) = (if k' = k then (k, v) # kvs else (k', v') # with_member k v kvs)"

definition restored_progress :: "json \<Rightarrow> json" where
  "restored_progress l = (case l of
     JObj kvs \<Rightarrow> JObj (with_member ''capstoneSubmissions'' (JArr (elems (get_prop l ''capstoneSubmissions''))) kvs)
   | _ \<Rightarrow> l)"

text \<open>\<open>restorePortableLearnerRecord\<close>: the errors, or the learner record.\<close>

definition restore_portable_record :: "(string \<Rightarrow> bool) \<Rightarrow> json \<Rightarrow> catalog \<Rightarrow> (string list, json) result" where
  "restore_portable_record dp v c =
     (if validate_portable_record dp v \<noteq> [] \<or> \<not> is_portable_record dp v then Inl (validate_portable_record dp v)
      else let
        l = get_prop v ''learner'';
        attempts = elems (get_prop l ''attempts'');
        errors =
          concat (map (\<lambda>i. complain_unless (i \<in> pa_id ` set (ct_paths c)) (''Record references unknown path '' @ i))
            (map str_of (elems (get_prop l ''startedPathIds''))))
          @ concat (map (\<lambda>i. complain_unless (module_to_path c i \<noteq> None) (''Record references unknown module '' @ i))
            (map str_of (elems (get_prop l ''completedModuleIds''))))
          @ concat (map (restore_attempt_errors c) attempts)
          @ concat (map (restore_capstone_errors c attempts) (elems (get_prop l ''capstoneSubmissions'')))
          @ restore_recent_errors c (get_prop l ''recentModule'')
      in if errors \<noteq> [] then Inl errors else Inr (restored_progress l))"

end
