(* ===== verification/Catalog_Check.thy ===== *)
theory Catalog_Check
  imports Progress_Record
begin

text \<open>
  \<open>validateCatalog\<close> of \<open>src/schema.ts\<close>, part by part. The validators push messages on one list and
  register every content ID in one set; both are the state here, and each validator is a
  function on that state, run in the order of the code. The clock and the URL parser of the
  host are parameters.
\<close>

section \<open>The host and the state\<close>

text \<open>\<open>new URL(text).protocol\<close>, \<open>None\<close> when the constructor throws; \<open>Date.now()\<close>.\<close>

record host =
  url_protocol :: "string \<Rightarrow> string option"
  clock_ms :: int

record check_state =
  ks_ids :: "string list"
  ks_errors :: "string list"

text \<open>\<open>if (condition) errors.push(message)\<close>.\<close>

definition push_if :: "bool \<Rightarrow> string \<Rightarrow> check_state \<Rightarrow> check_state" where
  "push_if b message st = (if b then st\<lparr>ks_errors := ks_errors st @ [message]\<rparr> else st)"

section \<open>Patterns and dates\<close>

definition slug_char :: "char \<Rightarrow> bool" where
  "slug_char ch \<longleftrightarrow> digit_char ch \<or> (97 \<le> (of_char ch :: nat) \<and> (of_char ch :: nat) \<le> 122)"

text \<open>\<open>/^[a-z0-9]+(?:-[a-z0-9]+)*$/\<close>; the flag says that a segment has just begun.\<close>

fun slug_from :: "bool \<Rightarrow> string \<Rightarrow> bool" where
  "slug_from fresh [] = (\<not> fresh)"
| "slug_from fresh (ch # s) = (if slug_char ch then slug_from False s
     else ch = CHR ''-'' \<and> \<not> fresh \<and> slug_from True s)"

definition slug :: "string \<Rightarrow> bool" where
  "slug s = slug_from True s"

definition blank :: "string \<Rightarrow> bool" where
  "blank s \<longleftrightarrow> js_trim s = []"

definition day_start :: "string \<Rightarrow> string" where
  "day_start s = s @ ''T00:00:00.000Z''"

definition date_pattern :: "string \<Rightarrow> bool" where
  "date_pattern s \<longleftrightarrow> length s = 10 \<and> (\<forall>i \<in> {0, 1, 2, 3, 5, 6, 8, 9}. digit_char (s ! i))
     \<and> s ! 4 = CHR ''-'' \<and> s ! 7 = CHR ''-''"

definition is_date_only :: "string \<Rightarrow> bool" where
  "is_date_only s \<longleftrightarrow> date_pattern s \<and> (case date_parse (day_start s) of None \<Rightarrow> False
     | Some t \<Rightarrow> take (length s) (to_iso_string t) = s)"

definition is_future_date :: "host \<Rightarrow> string \<Rightarrow> bool" where
  "is_future_date h s \<longleftrightarrow> (case date_parse (day_start s) of None \<Rightarrow> False | Some t \<Rightarrow> clock_ms h < t)"

text \<open>\<open>text.includes(part)\<close> and \<open>text.endsWith(part)\<close>.\<close>

definition includes_text :: "string \<Rightarrow> string \<Rightarrow> bool" where
  "includes_text hay needle \<longleftrightarrow> list_ex (\<lambda>i. take (length needle) (drop i hay) = needle) [0 ..< Suc (length hay)]"

definition ends_with :: "string \<Rightarrow> string \<Rightarrow> bool" where
  "ends_with s t \<longleftrightarrow> length t \<le> length s \<and> drop (length s - length t) s = t"

section \<open>Registering IDs\<close>

definition register :: "string \<Rightarrow> string \<Rightarrow> check_state \<Rightarrow> check_state" where
  "register i location st =
     (let st1 = push_if (blank i) (location @ '' has an empty id'') st;
          st2 = push_if (\<not> slug i) (location @ '' has an invalid id: '' @ i) st1;
          st3 = push_if (i \<in> set (ks_ids st)) (''Duplicate content id: '' @ i) st2
      in st3\<lparr>ks_ids := i # ks_ids st3\<rparr>)"

section \<open>Sources, providers, sections\<close>

definition validate_sources :: "host \<Rightarrow> source_reference list \<Rightarrow> string \<Rightarrow> check_state \<Rightarrow> check_state" where
  "validate_sources h sources location = fold (\<lambda>s st.
     let st1 = (case url_protocol h (src_url s) of
           None \<Rightarrow> push_if True (location @ '' has an invalid source URL: '' @ src_url s) st
         | Some p \<Rightarrow> push_if (p \<noteq> ''https:'') (location @ '' source must use HTTPS: '' @ src_url s) st)
     in if \<not> is_date_only (src_verified s)
        then push_if True (location @ '' source has an invalid lastVerified date: '' @ src_title s) st1
        else push_if (is_future_date h (src_verified s)) (location
          @ '' source has a lastVerified date in the future: '' @ src_title s @ '' ('' @ src_verified s @ '')'') st1) sources"

definition validate_providers :: "string list \<Rightarrow> string list \<Rightarrow> string \<Rightarrow> check_state \<Rightarrow> check_state" where
  "validate_providers providers known location st = fold (\<lambda>p.
     push_if (p \<notin> set known) (location @ '' references missing provider '' @ p)) providers
     (push_if (providers = []) (location @ '' has no providers'') st)"

text \<open>One section, after those whose IDs are \<open>seen\<close>.\<close>

definition validate_section :: "string \<Rightarrow> lesson_section \<Rightarrow> string list \<Rightarrow> check_state \<Rightarrow> check_state" where
  "validate_section location s seen st =
     (let st1 = push_if (\<not> slug (sec_id s)) (location @ '' has an invalid section id: '' @ sec_id s) st;
          st2 = push_if (sec_id s \<in> set seen) (location @ '' has duplicate section id '' @ sec_id s) st1;
          st3 = push_if (sec_paragraphs s = [] \<or> list_ex blank (sec_paragraphs s))
            (location @ '' section '' @ sec_id s @ '' needs non-empty paragraphs'') st2;
          st4 = push_if (case sec_code s of None \<Rightarrow> False
              | Some e \<Rightarrow> blank (ce_language e) \<or> blank (ce_label e) \<or> blank (ce_code e))
            (location @ '' section '' @ sec_id s @ '' has an incomplete code example'') st3
      in push_if (sec_callout s \<noteq> JUndefined \<and> \<not> is_string (sec_callout s))
           (location @ '' section '' @ sec_id s @ '' has an invalid callout; expected a string or undefined'') st4)"

definition validate_sections :: "lesson_section list \<Rightarrow> string \<Rightarrow> check_state \<Rightarrow> check_state" where
  "validate_sections sections location st = snd (fold (\<lambda>s (seen, st).
     (sec_id s # seen, validate_section location s seen st)) sections ([], st))"

section \<open>Activities and comparison matrices\<close>

definition validate_activity :: "learning_activity option \<Rightarrow> string \<Rightarrow> check_state \<Rightarrow> check_state" where
  "validate_activity activity module_id st = (case activity of None \<Rightarrow> st | Some a \<Rightarrow>
     let st1 = push_if (\<not> slug (act_id a)) (''Module '' @ module_id @ '' has an invalid activity id: '' @ act_id a) st;
         st2 = push_if (blank (act_title a)) (''Module '' @ module_id @ '' activity needs a title'') st1;
         st3 = push_if (act_instructions a = [] \<or> list_ex blank (act_instructions a))
           (''Module '' @ module_id @ '' activity needs non-empty instructions'') st2;
         st4 = push_if (act_evidence a = [] \<or> list_ex blank (act_evidence a))
           (''Module '' @ module_id @ '' activity needs observable evidence'') st3
     in push_if (blank (act_reflection a)) (''Module '' @ module_id @ '' activity needs a reflection prompt'') st4)"

definition comparison_statuses :: "string list" where
  "comparison_statuses = [''documented'', ''changing'', ''non-equivalent'', ''unknown'']"

definition validate_cell :: "learning_module \<Rightarrow> comparison_dimension \<Rightarrow> string \<Rightarrow> comparison_cell option
    \<Rightarrow> check_state \<Rightarrow> check_state" where
  "validate_cell m d provider cell st =
     (let incomplete = push_if True (''Module '' @ lm_id m @ '' comparison dimension '' @ dim_id d
          @ '' has an incomplete '' @ provider @ '' cell'') st
      in case cell of None \<Rightarrow> incomplete
         | Some c \<Rightarrow> if cc_status c \<notin> set comparison_statuses \<or> blank (cc_summary c) \<or> cc_urls c = []
               \<or> \<not> distinct (cc_urls c)
             then incomplete
             else fold (\<lambda>u. push_if (u \<notin> set (map src_url (lm_sources m))) (''Module '' @ lm_id m
               @ '' comparison dimension '' @ dim_id d @ '' references an undeclared source: '' @ u)) (cc_urls c) st)"

definition validate_dimension :: "learning_module \<Rightarrow> comparison_dimension \<Rightarrow> string list
    \<Rightarrow> check_state \<Rightarrow> check_state" where
  "validate_dimension m d seen st =
     (let st1 = push_if (\<not> slug (dim_id d) \<or> dim_id d \<in> set seen) (''Module '' @ lm_id m
            @ '' comparison matrix has an invalid or duplicate dimension id: '' @ dim_id d) st;
          st2 = push_if (blank (dim_title d) \<or> blank (dim_core d)) (''Module '' @ lm_id m
            @ '' comparison dimension '' @ dim_id d @ '' is incomplete'') st1
      in validate_cell m d ''google'' (dim_google d) (validate_cell m d ''openai'' (dim_openai d)
           (validate_cell m d ''anthropic'' (dim_anthropic d) st2)))"

definition validate_comparison_matrix :: "host \<Rightarrow> comparison_matrix option \<Rightarrow> learning_module
    \<Rightarrow> check_state \<Rightarrow> check_state" where
  "validate_comparison_matrix h matrix m st = (case matrix of None \<Rightarrow> st | Some x \<Rightarrow>
     let st1 = (if \<not> is_date_only (cm_as_of x)
           then push_if True (''Module '' @ lm_id m @ '' comparison matrix has an invalid asOf date'') st
           else push_if (is_future_date h (cm_as_of x)) (''Module '' @ lm_id m
             @ '' comparison matrix has an asOf date in the future: '' @ cm_as_of x) st);
         st2 = push_if (blank (cm_caveat x)) (''Module '' @ lm_id m @ '' comparison matrix needs a caveat'') st1
     in if cm_dimensions x = []
        then push_if True (''Module '' @ lm_id m @ '' comparison matrix has no dimensions'') st2
        else snd (fold (\<lambda>d (seen, st). (dim_id d # seen, validate_dimension m d seen st)) (cm_dimensions x) ([], st2)))"

section \<open>Instructor scripts\<close>

definition required_cues :: "string list" where
  "required_cues = [''narration'', ''visual'', ''learner-prompt'', ''checkpoint'', ''assessment-handoff'']"

definition validate_cue :: "learning_module \<Rightarrow> instructor_cue \<Rightarrow> check_state \<Rightarrow> check_state" where
  "validate_cue m cue st =
     (let st1 = register (cue_id cue) (''Instructor cue in '' @ lm_id m) st;
          st2 = push_if (blank (cue_text cue)) (''Instructor cue '' @ cue_id cue @ '' needs text'') st1;
          st3 = push_if (case cue_section cue of None \<Rightarrow> False
              | Some s \<Rightarrow> s \<noteq> [] \<and> s \<notin> set (map sec_id (lm_sections m)))
            (''Instructor cue '' @ cue_id cue @ '' references missing section ''
              @ (case cue_section cue of None \<Rightarrow> ''undefined'' | Some s \<Rightarrow> s)) st2
      in push_if (cue_kind cue = ''visual'' \<and> (case cue_alternative cue of None \<Rightarrow> True | Some a \<Rightarrow> blank a))
           (''Visual instructor cue '' @ cue_id cue @ '' needs an accessibility alternative'') st3)"

text \<open>One caption: the end of the previous one, the cues captioned so far, the messages.\<close>

definition validate_caption :: "learning_module \<Rightarrow> instructor_script \<Rightarrow> instructor_caption
    \<Rightarrow> jsnum \<times> string list \<times> check_state \<Rightarrow> jsnum \<times> string list \<times> check_state" where
  "validate_caption m script caption acc = (case acc of (previous, captioned, st) \<Rightarrow>
     let st1 = push_if (\<not> num_integer (cap_start caption) \<or> \<not> num_integer (cap_end caption)
           \<or> num_less (cap_start caption) previous \<or> num_le (cap_end caption) (cap_start caption)
           \<or> num_less (is_seconds script) (cap_end caption) \<or> blank (cap_text caption))
         (''Module '' @ lm_id m @ '' instructor script has an invalid caption'') st
     in case lookup_last cue_id (is_cues script) (cap_cue caption) of
          None \<Rightarrow> (cap_end caption, captioned,
            push_if True (''Module '' @ lm_id m @ '' caption references missing cue '' @ cap_cue caption) st1)
        | Some cue \<Rightarrow> (cap_end caption, cap_cue caption # captioned,
            push_if (cap_text caption \<noteq> cue_text cue)
              (''Module '' @ lm_id m @ '' caption text differs from cue '' @ cap_cue caption) st1))"

definition narrations :: "instructor_script \<Rightarrow> instructor_cue list" where
  "narrations script = filter (\<lambda>cue. cue_kind cue = ''narration'') (is_cues script)"

text \<open>What a script of version 1.1 needs besides.\<close>

definition validate_captioned_script :: "learning_module \<Rightarrow> instructor_script \<Rightarrow> check_state \<Rightarrow> check_state" where
  "validate_captioned_script m script st =
     (let st1 = push_if (case is_transcript script of None \<Rightarrow> True | Some t \<Rightarrow> blank t)
            (''Module '' @ lm_id m @ '' instructor script needs a transcript'') st;
          st2 = push_if (case is_reduced_motion script of None \<Rightarrow> True | Some t \<Rightarrow> blank t)
            (''Module '' @ lm_id m @ '' instructor script needs a reduced-motion alternative'') st1;
          st3 = (case is_captions script of
              None \<Rightarrow> push_if True (''Module '' @ lm_id m @ '' instructor script needs captions'') st2
            | Some [] \<Rightarrow> push_if True (''Module '' @ lm_id m @ '' instructor script needs captions'') st2
            | Some captions \<Rightarrow> (case fold (validate_caption m script) captions (Fin 0, [], st2) of
                (_, captioned, st') \<Rightarrow> fold (\<lambda>cue. push_if (cue_id cue \<notin> set captioned)
                  (''Module '' @ lm_id m @ '' narration cue '' @ cue_id cue @ '' needs a caption'')) (narrations script) st'))
      in fold (\<lambda>cue. push_if (case is_transcript script of None \<Rightarrow> True | Some t \<Rightarrow> \<not> includes_text t (cue_text cue))
           (''Module '' @ lm_id m @ '' transcript is missing narration cue '' @ cue_id cue)) (narrations script) st3)"

definition validate_instructor_script :: "instructor_script option \<Rightarrow> learning_module \<Rightarrow> check_state \<Rightarrow> check_state" where
  "validate_instructor_script script_opt m st = (case script_opt of None \<Rightarrow> st | Some script \<Rightarrow>
     let st1 = push_if (is_version script \<noteq> ''1.0'' \<and> is_version script \<noteq> ''1.1'')
           (''Module '' @ lm_id m @ '' has an unsupported instructor script version'') st;
         st2 = push_if (\<not> num_integer (is_seconds script) \<or> num_le (is_seconds script) (Fin 0))
           (''Module '' @ lm_id m @ '' has an invalid instructor script duration'') st1
     in if is_cues script = []
        then push_if True (''Module '' @ lm_id m @ '' instructor script has no cues'') st2
        else let
          st3 = fold (validate_cue m) (is_cues script) st2;
          st4 = fold (\<lambda>s. push_if (\<not> list_ex (\<lambda>cue. cue_section cue = Some (sec_id s) \<and> cue_kind cue = ''narration'') (is_cues script))
            (''Module '' @ lm_id m @ '' section '' @ sec_id s @ '' needs an instructor narration cue'')) (lm_sections m) st3;
          st5 = fold (\<lambda>kind. push_if (kind \<notin> set (map cue_kind (is_cues script)))
            (''Module '' @ lm_id m @ '' instructor script needs a '' @ kind @ '' cue'')) required_cues st4
        in if is_version script = ''1.1'' then validate_captioned_script m script st5 else st5)"

section \<open>Capstones\<close>

definition validate_exemplar_score :: "capstone_definition \<Rightarrow> capstone_exemplar \<Rightarrow> exemplar_score
    \<Rightarrow> check_state \<Rightarrow> check_state" where
  "validate_exemplar_score cap x s = push_if
     (\<not> num_integer (es_points s) \<or> num_less (es_points s) (Fin 0)
      \<or> (case lookup_last cr_id (cd_criteria cap) (es_criterion s) of None \<Rightarrow> True
         | Some cr \<Rightarrow> num_less (cr_max_points cr) (es_points s))
      \<or> blank (es_note s) \<or> es_evidence s = [] \<or> \<not> distinct (es_evidence s)
      \<or> list_ex (\<lambda>r. blank r \<or> r \<notin> set (map ea_ref (ex_artifacts x))) (es_evidence s))
     (''Capstone exemplar '' @ ex_id x @ '' has invalid evidence for criterion '' @ es_criterion s)"

definition exemplar_inconsistent :: "capstone_definition \<Rightarrow> capstone_exemplar \<Rightarrow> bool" where
  "exemplar_inconsistent cap x \<longleftrightarrow>
     (let score = num_round (num_sum (map es_points (ex_scores x)));
          passed = num_le (cd_pass_percent cap) score
      in \<not> num_same (ex_expected_score x) score \<or> ex_expected_passed x \<noteq> passed
         \<or> (ex_kind x = ''complete'' \<and> \<not> passed) \<or> (ex_kind x = ''flawed'' \<and> passed))"

definition validate_exemplar :: "capstone_definition \<Rightarrow> string \<Rightarrow> capstone_exemplar \<Rightarrow> check_state \<Rightarrow> check_state" where
  "validate_exemplar cap module_id x st =
     (let refs = map ea_ref (ex_artifacts x);
          st1 = register (ex_id x) (''Capstone exemplar in '' @ module_id) st;
          st2 = push_if (blank (ex_title x) \<or> blank (ex_summary x))
            (''Capstone exemplar '' @ ex_id x @ '' needs a title and summary'') st1;
          st3 = push_if (length (ex_artifacts x) < length (cd_artifacts cap) \<or> \<not> distinct refs
              \<or> \<not> list_all (\<lambda>r. list_ex (\<lambda>f. f = r \<or> ends_with f (''/'' @ r)) refs) (cd_artifacts cap)
              \<or> list_ex (\<lambda>a. blank (ea_ref a) \<or> blank (ea_label a) \<or> blank (ea_content a)) (ex_artifacts x))
            (''Capstone exemplar '' @ ex_id x @ '' needs unique, complete required artifacts'') st2;
          st4 = push_if (length (ex_scores x) \<noteq> card (set (map cr_id (cd_criteria cap)))
              \<or> \<not> distinct (map es_criterion (ex_scores x)))
            (''Capstone exemplar '' @ ex_id x @ '' must score every rubric criterion once'') st3;
          st5 = fold (validate_exemplar_score cap x) (ex_scores x) st4
      in push_if (exemplar_inconsistent cap x)
           (''Capstone exemplar '' @ ex_id x @ '' has inconsistent calibration results'') st5)"

definition exemplars_of :: "capstone_definition \<Rightarrow> capstone_exemplar list" where
  "exemplars_of cap = (case cd_exemplars cap of None \<Rightarrow> [] | Some xs \<Rightarrow> xs)"

definition validate_capstone_exemplars :: "capstone_definition \<Rightarrow> string \<Rightarrow> check_state \<Rightarrow> check_state" where
  "validate_capstone_exemplars cap module_id st = fold (validate_exemplar cap module_id) (exemplars_of cap)
     (push_if (cd_needs_exemplars cap \<and> (length (exemplars_of cap) \<noteq> 2
         \<or> length (filter (\<lambda>x. ex_kind x = ''complete'') (exemplars_of cap)) \<noteq> 1
         \<or> length (filter (\<lambda>x. ex_kind x = ''flawed'') (exemplars_of cap)) \<noteq> 1))
       (''Module '' @ module_id @ '' capstone needs one complete and one flawed calibration exemplar'') st)"

definition validate_criterion :: "string \<Rightarrow> rubric_criterion \<Rightarrow> check_state \<Rightarrow> check_state" where
  "validate_criterion module_id cr st =
     (let st1 = register (cr_id cr) (''Capstone criterion in '' @ module_id) st;
          st2 = push_if (blank (cr_title cr) \<or> blank (cr_description cr) \<or> \<not> num_integer (cr_max_points cr)
              \<or> num_le (cr_max_points cr) (Fin 0))
            (''Capstone criterion '' @ cr_id cr @ '' is incomplete'') st1
      in push_if (cr_evidence cr = [] \<or> list_ex blank (cr_evidence cr))
           (''Capstone criterion '' @ cr_id cr @ '' needs evidence requirements'') st2)"

definition validate_capstone :: "capstone_definition option \<Rightarrow> string \<Rightarrow> check_state \<Rightarrow> check_state" where
  "validate_capstone cap_opt module_id st = (case cap_opt of None \<Rightarrow> st | Some cap \<Rightarrow>
     let st1 = register (cd_id cap) (''Capstone in '' @ module_id) st;
         st2 = push_if (blank (cd_title cap) \<or> blank (cd_summary cap))
           (''Module '' @ module_id @ '' capstone needs a title and summary'') st1;
         st3 = push_if (cd_artifacts cap = [] \<or> list_ex blank (cd_artifacts cap) \<or> \<not> distinct (cd_artifacts cap))
           (''Module '' @ module_id @ '' capstone needs unique required artifacts'') st2;
         st4 = push_if (num_less (cd_pass_percent cap) (Fin 0) \<or> num_less (Fin 100) (cd_pass_percent cap))
           (''Module '' @ module_id @ '' capstone has an invalid pass percentage'') st3;
         st5 = push_if (length (cd_criteria cap) < 3)
           (''Module '' @ module_id @ '' capstone needs at least three rubric criteria'') st4;
         st6 = fold (validate_criterion module_id) (cd_criteria cap) st5;
         st7 = push_if (\<not> num_same (num_sum (map cr_max_points (cd_criteria cap))) (Fin 100))
           (''Module '' @ module_id @ '' capstone rubric must total 100 points'') st6
     in validate_capstone_exemplars cap module_id st7)"


section \<open>Prerequisite cycles\<close>

text \<open>
  The depth-first walk of \<open>validatePrerequisiteCycles\<close>. \<open>by_id\<close> is the map of the modules by ID, \<open>n\<close> bounds
  the depth of the recursion; \<open>None\<close> is a walk that is deeper.
\<close>

record walk =
  wk_visited :: "string list"
  wk_active :: "string list"
  wk_errors :: "string list"

fun walk_each :: "('a \<Rightarrow> walk \<Rightarrow> walk option) \<Rightarrow> 'a list \<Rightarrow> walk \<Rightarrow> walk option" where
  "walk_each f [] w = Some w"
| "walk_each f (x # xs) w = (case f x w of None \<Rightarrow> None | Some w' \<Rightarrow> walk_each f xs w')"

definition prerequisites_of :: "(string \<Rightarrow> learning_module option) \<Rightarrow> string \<Rightarrow> string list" where
  "prerequisites_of by_id i = (case by_id i of None \<Rightarrow> [] | Some m \<Rightarrow> lm_prerequisites m)"

fun visit :: "(string \<Rightarrow> learning_module option) \<Rightarrow> nat \<Rightarrow> string \<Rightarrow> walk \<Rightarrow> walk option" where
  "visit by_id 0 i w = None"
| "visit by_id (Suc n) i w =
     (if i \<in> set (wk_active w)
      then Some (w\<lparr>wk_errors := wk_errors w @ [''Prerequisite cycle includes module '' @ i]\<rparr>)
      else if i \<in> set (wk_visited w) then Some w
      else (case walk_each (\<lambda>p w. if by_id p = None then Some w else visit by_id n p w) (prerequisites_of by_id i)
          (w\<lparr>wk_visited := i # wk_visited w, wk_active := i # wk_active w\<rparr>) of
        None \<Rightarrow> None
      | Some w' \<Rightarrow> Some (w'\<lparr>wk_active := removeAll i (wk_active w')\<rparr>)))"

definition prerequisite_cycles :: "learning_module list \<Rightarrow> string list option" where
  "prerequisite_cycles modules = map_option wk_errors
     (walk_each (visit (lookup_last lm_id modules) (Suc (length modules))) (map lm_id modules)
       \<lparr>wk_visited = [], wk_active = [], wk_errors = []\<rparr>)"

text \<open>The bound is never reached (\<open>prerequisite_walk_ends\<close>), so the first case below is dead.\<close>

definition validate_prerequisite_cycles :: "learning_module list \<Rightarrow> check_state \<Rightarrow> check_state" where
  "validate_prerequisite_cycles modules st = (case prerequisite_cycles modules of
     None \<Rightarrow> push_if True ''RangeError: Maximum call stack size exceeded'' st
   | Some messages \<Rightarrow> st\<lparr>ks_errors := ks_errors st @ messages\<rparr>)"

section \<open>Paths, modules, resources\<close>

definition validate_path :: "string list \<Rightarrow> learning_path \<Rightarrow> check_state \<Rightarrow> check_state" where
  "validate_path module_ids path st =
     (let st1 = register (pa_id path) (''Path '' @ pa_title path) st;
          st2 = push_if (pa_modules path = []) (''Path '' @ pa_id path @ '' has no modules'') st1;
          st3 = push_if (\<not> distinct (pa_modules path))
            (''Path '' @ pa_id path @ '' references a module more than once'') st2
      in fold (\<lambda>i. push_if (i \<notin> set module_ids) (''Path '' @ pa_id path @ '' references missing module '' @ i))
           (pa_modules path) st3)"

definition validate_question :: "string \<Rightarrow> knowledge_question \<Rightarrow> check_state \<Rightarrow> check_state" where
  "validate_question module_id q st =
     (let st1 = register (kq_id q) (''Question in '' @ module_id) st;
          st2 = push_if (length (kq_choices q) < 2) (''Question '' @ kq_id q @ '' needs choices'') st1;
          st3 = push_if (num_less (kq_answer q) (Fin 0) \<or> num_le (Fin (of_nat (length (kq_choices q)))) (kq_answer q))
            (''Question '' @ kq_id q @ '' has an invalid answer index'') st2
      in push_if (blank (kq_explanation q)) (''Question '' @ kq_id q @ '' needs an explanation'') st3)"

definition validate_prerequisite :: "string list \<Rightarrow> string \<Rightarrow> string \<Rightarrow> check_state \<Rightarrow> check_state" where
  "validate_prerequisite module_ids module_id i st = push_if (i = module_id)
     (''Module '' @ module_id @ '' cannot require itself'')
     (push_if (i \<notin> set module_ids) (''Module '' @ module_id @ '' references missing prerequisite '' @ i) st)"

definition validate_module :: "host \<Rightarrow> string list \<Rightarrow> string list \<Rightarrow> learning_module \<Rightarrow> check_state \<Rightarrow> check_state" where
  "validate_module h provider_ids module_ids m st =
     (let st1 = register (lm_id m) (''Module '' @ lm_title m) st;
          st2 = validate_providers (lm_providers m) provider_ids (''Module '' @ lm_id m) st1;
          st3 = push_if (lm_objectives m = []) (''Module '' @ lm_id m @ '' has no objectives'') st2;
          st4 = push_if (lm_sections m = []) (''Module '' @ lm_id m @ '' has no sections'') st3;
          st5 = validate_sections (lm_sections m) (''Module '' @ lm_id m) st4;
          st6 = validate_activity (lm_activity m) (lm_id m) st5;
          st7 = validate_comparison_matrix h (lm_matrix m) m st6;
          st8 = validate_instructor_script (lm_script m) m st7;
          st9 = validate_capstone (lm_capstone m) (lm_id m) st8;
          st10 = push_if (lm_sources m = []) (''Module '' @ lm_id m @ '' has no sources'') st9;
          st11 = push_if (lm_questions m = []) (''Module '' @ lm_id m @ '' has no knowledge check'') st10;
          st12 = push_if (num_less (lm_pass_percent m) (Fin 0) \<or> num_less (Fin 100) (lm_pass_percent m))
            (''Module '' @ lm_id m @ '' has an invalid pass percentage'') st11;
          st13 = fold (validate_prerequisite module_ids (lm_id m)) (lm_prerequisites m) st12;
          st14 = fold (validate_question (lm_id m)) (lm_questions m) st13
      in validate_sources h (lm_sources m) (''Module '' @ lm_id m) st14)"

definition resource_formats :: "string list" where
  "resource_formats = [''reference'', ''how-to'', ''template'', ''checklist'', ''command'', ''decision-path'',
     ''playbook'', ''troubleshooting'']"

definition resource_audiences :: "string list" where
  "resource_audiences = [''learner'', ''practitioner'', ''developer'', ''operator'', ''leader'', ''educator'']"

text \<open>\<open>Array.isArray(x) ? x : []\<close>.\<close>

definition array_or_empty :: "'a list option \<Rightarrow> 'a list" where
  "array_or_empty x = (case x of None \<Rightarrow> [] | Some xs \<Rightarrow> xs)"

definition validate_resource :: "host \<Rightarrow> string list \<Rightarrow> resource \<Rightarrow> string list \<Rightarrow> check_state \<Rightarrow> check_state" where
  "validate_resource h provider_ids r slugs st =
     (let audience = array_or_empty (re_audience r);
          prerequisites = array_or_empty (re_prerequisites r);
          label = ''Resource '' @ re_id r;
          st1 = register (re_id r) (''Resource '' @ re_title r) st;
          st2 = push_if (\<not> slug (re_slug r)) (label @ '' has an invalid slug: '' @ re_slug r) st1;
          st3 = push_if (re_slug r \<in> set slugs) (''Duplicate resource slug: '' @ re_slug r) st2;
          st4 = push_if (blank (re_title r) \<or> blank (re_summary r) \<or> blank (re_category r))
            (label @ '' needs a title, summary, and category'') st3;
          st5 = push_if (re_format r \<notin> set resource_formats) (label @ '' has an invalid format: '' @ re_format r) st4;
          st6 = push_if (audience = [] \<or> list_ex (\<lambda>a. a \<notin> set resource_audiences) audience \<or> \<not> distinct audience)
            (label @ '' has invalid or duplicate audience values'') st5;
          st7 = validate_providers (re_providers r) provider_ids label st6;
          st8 = push_if (list_ex blank prerequisites \<or> \<not> distinct prerequisites)
            (label @ '' has empty or duplicate prerequisites'') st7;
          st9 = push_if (\<not> slug (re_owner r)) (label @ '' has an invalid owner: '' @ re_owner r) st8;
          st10 = push_if (\<not> num_integer (re_cadence r) \<or> num_less (re_cadence r) (Fin 1) \<or> num_less (Fin 365) (re_cadence r))
            (label @ '' has an invalid review cadence'') st9;
          st11 = push_if (re_tags r = [] \<or> list_ex (\<lambda>t. \<not> slug t) (re_tags r) \<or> \<not> distinct (re_tags r))
            (label @ '' has invalid or duplicate tags'') st10;
          st12 = push_if (re_sections r = []) (label @ '' has no sections'') st11;
          st13 = validate_sections (re_sections r) label st12;
          st14 = push_if (re_sources r = []) (label @ '' has no sources'') st13;
          st15 = (if \<not> is_date_only (re_verified r) then push_if True (label @ '' has an invalid lastVerified date'') st14
            else push_if (is_future_date h (re_verified r))
              (label @ '' has a lastVerified date in the future: '' @ re_verified r) st14)
      in validate_sources h (re_sources r) label st15)"

section \<open>The catalogue\<close>

record validation_result =
  vr_valid :: bool
  vr_errors :: "string list"

definition validate_catalog_state :: "host \<Rightarrow> catalog \<Rightarrow> check_state" where
  "validate_catalog_state h c =
     (let module_ids = js_unique (map lm_id (ct_modules c));
          st1 = push_if (ct_schema c \<noteq> ''1.0'') (''Unsupported schema version: '' @ ct_schema c)
            \<lparr>ks_ids = [], ks_errors = []\<rparr>;
          st2 = fold (validate_path module_ids) (ct_paths c) st1;
          st3 = fold (validate_module h (ct_providers c) module_ids) (ct_modules c) st2;
          st4 = snd (fold (\<lambda>r (slugs, st). (re_slug r # slugs, validate_resource h (ct_providers c) r slugs st))
            (ct_resources c) ([], st3));
          st5 = fold (\<lambda>i. push_if (\<not> list_ex (\<lambda>path. i \<in> set (pa_modules path)) (ct_paths c))
            (''Module '' @ i @ '' is not assigned to a learning path'')) module_ids st4
      in validate_prerequisite_cycles (ct_modules c) st5)"

definition validate_catalog :: "host \<Rightarrow> catalog \<Rightarrow> validation_result" where
  "validate_catalog h c = (let errors = ks_errors (validate_catalog_state h c)
     in \<lparr>vr_valid = (errors = []), vr_errors = errors\<rparr>)"

definition validate_learning_catalog :: "host \<Rightarrow> catalog \<Rightarrow> validation_result" where
  "validate_learning_catalog h c = validate_catalog h (c\<lparr>ct_resources := []\<rparr>)"

definition validate_field_guide_catalog :: "host \<Rightarrow> catalog \<Rightarrow> validation_result" where
  "validate_field_guide_catalog h c = validate_catalog h (c\<lparr>ct_paths := [], ct_modules := []\<rparr>)"

end
