(* ===== verification/Catalog_Cycles.thy ===== *)
theory Catalog_Cycles
  imports Catalog_Check
begin

text \<open>
  The prerequisite walk: it ends, and it reports a cycle exactly when there is one. The walk's
  state splits the visited modules into the active ones (the current path) and the finished
  ones; finished modules only lead to finished ones and lie on no cycle.
\<close>

definition requires :: "(string \<Rightarrow> learning_module option) \<Rightarrow> (string \<times> string) set" where
  "requires by_id = {(i, p). p \<in> set (prerequisites_of by_id i) \<and> by_id p \<noteq> None}"

abbreviation step :: "(string \<Rightarrow> learning_module option) \<Rightarrow> nat \<Rightarrow> string \<Rightarrow> walk \<Rightarrow> walk option" where
  "step by_id n \<equiv> \<lambda>p w. if by_id p = None then Some w else visit by_id n p w"

definition finished :: "walk \<Rightarrow> string set" where
  "finished w = set (wk_visited w) - set (wk_active w)"

section \<open>What every walk keeps\<close>

definition grows :: "walk \<Rightarrow> walk \<Rightarrow> bool" where
  "grows w w' \<longleftrightarrow> set (wk_visited w) \<subseteq> set (wk_visited w') \<and> set (wk_active w') = set (wk_active w)
     \<and> (\<exists>es. wk_errors w' = wk_errors w @ es)"

lemma grows_refl [simp]: "grows w w"
  by (simp add: grows_def)

lemma grows_trans: "grows u v \<Longrightarrow> grows v w \<Longrightarrow> grows u w"
  unfolding grows_def by (metis append_assoc subset_trans)

lemma walk_each_grows:
  "(\<And>x w w'. x \<in> set xs \<Longrightarrow> f x w = Some w' \<Longrightarrow> grows w w') \<Longrightarrow> walk_each f xs w = Some w' \<Longrightarrow> grows w w'"
proof (induction xs arbitrary: w)
  case (Cons x xs)
  from Cons.prems(2) obtain v where v: "f x w = Some v" "walk_each f xs v = Some w'"
    by (auto split: option.splits)
  have "grows w v" using Cons.prems(1) [of x w v] v(1) by simp
  moreover have "grows v w'" by (rule Cons.IH [OF _ v(2)]) (rule Cons.prems(1); simp)
  ultimately show ?case by (rule grows_trans)
qed simp

text \<open>Entering a module that is neither active nor visited.\<close>

abbreviation enter :: "string \<Rightarrow> walk \<Rightarrow> walk" where
  "enter i w \<equiv> w\<lparr>wk_visited := i # wk_visited w, wk_active := i # wk_active w\<rparr>"

lemma visit_cases:
  assumes "visit by_id n i w = Some w'"
  obtains (active) "i \<in> set (wk_active w)" "w' = w\<lparr>wk_errors := wk_errors w @ [''Prerequisite cycle includes module '' @ i]\<rparr>"
  | (seen) "i \<notin> set (wk_active w)" "i \<in> set (wk_visited w)" "w' = w"
  | (enter) k v where "n = Suc k" "i \<notin> set (wk_active w)" "i \<notin> set (wk_visited w)"
      "walk_each (step by_id k) (prerequisites_of by_id i) (enter i w) = Some v"
      "w' = v\<lparr>wk_active := removeAll i (wk_active v)\<rparr>"
  using assms by (cases n) (auto split: if_splits option.splits)

lemma visit_grows: "visit by_id n i w = Some w' \<Longrightarrow> grows w w'"
proof (induction n arbitrary: i w w')
  case (Suc n)
  from Suc.prems show ?case
  proof (cases rule: visit_cases)
    case (enter k v)
    have "grows (enter i w) v"
      by (rule walk_each_grows [OF _ enter(4)]) (use Suc.IH enter(1) in \<open>auto split: if_splits\<close>)
    then show ?thesis using enter(2,5) by (auto simp: grows_def)
  qed (auto simp: grows_def)
qed simp

lemma step_grows: "step by_id n p w = Some w' \<Longrightarrow> grows w w'"
  by (auto dest: visit_grows split: if_splits)

section \<open>The walk ends\<close>

lemma walk_each_total:
  assumes "\<And>x w. x \<in> set xs \<Longrightarrow> P w \<Longrightarrow> \<exists>w'. f x w = Some w' \<and> P w'" and "P w"
  shows "\<exists>w'. walk_each f xs w = Some w'"
  using assms
proof (induction xs arbitrary: w)
  case (Cons x xs)
  from Cons.prems(1) [of x w] Cons.prems(2) obtain v where v: "f x w = Some v" "P v" by auto
  have "\<exists>w'. walk_each f xs v = Some w'" by (rule Cons.IH) (use Cons.prems(1) v(2) in auto)
  then show ?case using v(1) by simp
qed simp

lemma visit_ends:
  assumes "finite (dom by_id)"
  shows "by_id i \<noteq> None \<Longrightarrow> card (dom by_id - set (wk_visited w)) < n \<Longrightarrow> \<exists>w'. visit by_id n i w = Some w'"
proof (induction n arbitrary: i w)
  case (Suc n)
  show ?case
  proof (cases "i \<in> set (wk_active w) \<or> i \<in> set (wk_visited w)")
    case False
    let ?P = "\<lambda>v. set (wk_visited (enter i w)) \<subseteq> set (wk_visited v)"
    have "i \<in> dom by_id - set (wk_visited w)" using Suc.prems(1) False by auto
    then have "dom by_id - set (wk_visited (enter i w)) \<subset> dom by_id - set (wk_visited w)" by auto
    then have "card (dom by_id - set (wk_visited (enter i w))) < card (dom by_id - set (wk_visited w))"
      by (intro psubset_card_mono) (simp add: assms)
    then have less: "card (dom by_id - set (wk_visited (enter i w))) < n" using Suc.prems(2) by linarith
    have "\<exists>v'. step by_id n p v = Some v' \<and> ?P v'" if "?P v" for p v
    proof (cases "by_id p = None")
      case False
      have "card (dom by_id - set (wk_visited v)) \<le> card (dom by_id - set (wk_visited (enter i w)))"
        using that assms by (intro card_mono) auto
      then obtain v' where "visit by_id n p v = Some v'" using Suc.IH [OF False, of v] less by auto
      moreover from visit_grows [OF this] that have "?P v'" unfolding grows_def by blast
      moreover obtain m where "by_id p = Some m" using False by blast
      ultimately show ?thesis by simp
    qed (use that in simp)
    then have "\<exists>v. walk_each (step by_id n) (prerequisites_of by_id i) (enter i w) = Some v"
      by (intro walk_each_total [where P = ?P]) auto
    then show ?thesis using False by auto
  qed auto
qed simp

section \<open>An error means a cycle\<close>

lemma walk_each_error:
  assumes "walk_each f xs w = Some w'" "wk_errors w' \<noteq> wk_errors w"
    and "\<And>x u u'. x \<in> set xs \<Longrightarrow> f x u = Some u' \<Longrightarrow> grows u u'"
  shows "\<exists>x \<in> set xs. \<exists>u u'. grows w u \<and> f x u = Some u' \<and> wk_errors u' \<noteq> wk_errors u"
  using assms
proof (induction xs arbitrary: w)
  case (Cons x xs)
  from Cons.prems(1) obtain v where v: "f x w = Some v" "walk_each f xs v = Some w'" by (auto split: option.splits)
  show ?case
  proof (cases "wk_errors v = wk_errors w")
    case True
    have "\<exists>x \<in> set xs. \<exists>u u'. grows v u \<and> f x u = Some u' \<and> wk_errors u' \<noteq> wk_errors u"
      by (rule Cons.IH [OF v(2)]) (use Cons.prems(2,3) True in auto)
    moreover have "grows w v" using Cons.prems(3) [of x w v] v(1) by simp
    ultimately show ?thesis using grows_trans by (metis list.set_intros(2))
  next
    case False
    then show ?thesis using v(1) by auto
  qed
qed simp

lemma visit_error_cycle:
  "visit by_id n i w = Some w' \<Longrightarrow> wk_errors w' \<noteq> wk_errors w \<Longrightarrow> \<forall>a \<in> set (wk_active w). (a, i) \<in> (requires by_id)\<^sup>+
   \<Longrightarrow> \<exists>x. (x, x) \<in> (requires by_id)\<^sup>+"
proof (induction n arbitrary: i w w')
  case (Suc n)
  from Suc.prems(1) show ?case
  proof (cases rule: visit_cases)
    case active
    then show ?thesis using Suc.prems(3) by blast
  next
    case (enter k v)
    have "wk_errors v \<noteq> wk_errors (enter i w)" using Suc.prems(2) enter(5) by simp
    from walk_each_error [OF enter(4) this] step_grows [where by_id = by_id and n = k] obtain p u u' where
      p: "p \<in> set (prerequisites_of by_id i)" "grows (enter i w) u" "step by_id k p u = Some u'" "wk_errors u' \<noteq> wk_errors u"
      by blast
    then have known: "by_id p \<noteq> None" "visit by_id k p u = Some u'" by (auto split: if_splits)
    then have edge: "(i, p) \<in> requires by_id" using p(1) by (simp add: requires_def)
    have "\<forall>a \<in> set (wk_active u). (a, p) \<in> (requires by_id)\<^sup>+"
      using p(2) Suc.prems(3) edge by (auto simp: grows_def intro: trancl_into_trancl)
    then show ?thesis using Suc.IH known(2) p(4) enter(1) by blast
  qed (use Suc.prems(2) in auto)
qed simp

section \<open>No error means no cycle among the finished modules\<close>

definition closed_walk :: "(string \<Rightarrow> learning_module option) \<Rightarrow> walk \<Rightarrow> bool" where
  "closed_walk by_id w \<longleftrightarrow> (\<forall>x \<in> finished w. (\<forall>y. (x, y) \<in> requires by_id \<longrightarrow> y \<in> finished w)
     \<and> (x, x) \<notin> (requires by_id)\<^sup>+)"

lemma closed_reach:
  assumes "\<forall>x \<in> S. \<forall>y. (x, y) \<in> R \<longrightarrow> y \<in> S" "(x, y) \<in> R\<^sup>+" "x \<in> S"
  shows "y \<in> S"
  using assms(2,3) by (induction rule: trancl_induct) (use assms(1) in blast)+

lemma walk_each_closed:
  assumes "walk_each f xs w = Some w'" "wk_errors w' = wk_errors w" "P w"
    and grow: "\<And>x u u'. x \<in> set xs \<Longrightarrow> f x u = Some u' \<Longrightarrow> grows u u'"
    and keep: "\<And>x u u'. x \<in> set xs \<Longrightarrow> grows w u \<Longrightarrow> P u \<Longrightarrow> f x u = Some u' \<Longrightarrow> wk_errors u' = wk_errors u
      \<Longrightarrow> P u' \<and> Q x u'"
    and stay: "\<And>x u u'. Q x u \<Longrightarrow> grows u u' \<Longrightarrow> Q x u'"
  shows "P w' \<and> (\<forall>x \<in> set xs. Q x w')"
  using assms(1-3) grow keep
proof (induction xs arbitrary: w)
  case (Cons x xs)
  from Cons.prems(1) obtain v where v: "f x w = Some v" "walk_each f xs v = Some w'" by (auto split: option.splits)
  have wv: "grows w v" using Cons.prems(4) [of x w v] v(1) by simp
  have vw': "grows v w'" by (rule walk_each_grows [OF _ v(2)]) (use Cons.prems(4) in auto)
  obtain es fs where "wk_errors v = wk_errors w @ es" "wk_errors w' = wk_errors v @ fs"
    using wv vw' unfolding grows_def by blast
  then have errors: "wk_errors v = wk_errors w" "wk_errors w' = wk_errors v" using Cons.prems(2) by simp_all
  have "P v \<and> Q x v" using Cons.prems(5) [OF _ grows_refl Cons.prems(3) v(1) errors(1)] by simp
  moreover have "P w' \<and> (\<forall>x \<in> set xs. Q x w')"
  proof (rule Cons.IH [OF v(2) errors(2)])
    show "P v" using calculation by simp
    show "P u' \<and> Q y u'" if "y \<in> set xs" "grows v u" "P u" "f y u = Some u'" "wk_errors u' = wk_errors u" for y u u'
      using Cons.prems(5) [of y u u'] that grows_trans [OF wv that(2)] by simp
  qed (use Cons.prems(4) in auto)
  ultimately show ?case using stay vw' by auto
qed simp

lemma visit_closed:
  "visit by_id n i w = Some w' \<Longrightarrow> wk_errors w' = wk_errors w \<Longrightarrow> closed_walk by_id w
   \<Longrightarrow> set (wk_active w) \<subseteq> set (wk_visited w) \<Longrightarrow> closed_walk by_id w' \<and> i \<in> finished w'"
proof (induction n arbitrary: i w w')
  case (Suc n)
  from Suc.prems(1) show ?case
  proof (cases rule: visit_cases)
    case (enter k v)
    let ?R = "requires by_id"
    have "finished (enter i w) = finished w" using enter(2,3) by (auto simp: finished_def)
    then have start: "closed_walk by_id (enter i w)" using Suc.prems(3) by (simp add: closed_walk_def)
    let ?P = "\<lambda>u. closed_walk by_id u \<and> set (wk_active u) \<subseteq> set (wk_visited u)"
    have "?P v \<and> (\<forall>p \<in> set (prerequisites_of by_id i). by_id p \<noteq> None \<longrightarrow> p \<in> finished v)"
    proof (rule walk_each_closed [OF enter(4), where P = ?P])
      show "wk_errors v = wk_errors (enter i w)" using Suc.prems(2) enter(5) by simp
      show "?P (enter i w)" using start Suc.prems(4) by auto
      show "?P u' \<and> (by_id p \<noteq> None \<longrightarrow> p \<in> finished u')"
        if "?P u" "step by_id k p u = Some u'" "wk_errors u' = wk_errors u" for p u u'
        using that Suc.IH [of p u u'] visit_grows [of by_id k p u u'] enter(1) by (auto simp: grows_def split: if_splits)
      show "grows u u'" if "step by_id k p u = Some u'" for p u u' by (rule step_grows [OF that])
      show "by_id p \<noteq> None \<longrightarrow> p \<in> finished u'" if "by_id p \<noteq> None \<longrightarrow> p \<in> finished u" "grows u u'" for p u u'
        using that unfolding grows_def finished_def by blast
    qed
    then have v: "closed_walk by_id v" "\<And>y. (i, y) \<in> ?R \<Longrightarrow> y \<in> finished v" by (auto simp: requires_def)
    have grown: "grows (enter i w) v" by (rule walk_each_grows [OF step_grows enter(4)])
    then have i: "i \<in> set (wk_visited v)" "i \<in> set (wk_active v)" by (auto simp: grows_def)
    have fin: "finished w' = insert i (finished v)" using i by (auto simp: finished_def enter(5))
    have reach: "y \<in> finished v" if "(x, y) \<in> ?R\<^sup>+" "x \<in> finished v" for x y
      by (rule closed_reach [OF _ that]) (use v(1) in \<open>auto simp: closed_walk_def\<close>)
    have "(i, i) \<notin> ?R\<^sup>+"
    proof
      assume "(i, i) \<in> ?R\<^sup>+"
      then obtain y where y: "(i, y) \<in> ?R" "y = i \<or> (y, i) \<in> ?R\<^sup>+"
        by (meson converse_tranclE)
      then have "i \<in> finished v" using v(2) [OF y(1)] reach by blast
      then show False using i(2) by (simp add: finished_def)
    qed
    then have "closed_walk by_id w'" using v unfolding closed_walk_def fin by blast
    then show ?thesis using fin by simp
  qed (use Suc.prems in \<open>auto simp: finished_def\<close>)
qed simp

section \<open>The whole check\<close>

abbreviation modules_by_id :: "learning_module list \<Rightarrow> string \<Rightarrow> learning_module option" where
  "modules_by_id modules \<equiv> lookup_last lm_id modules"

lemma modules_by_id_dom: "dom (modules_by_id modules) = lm_id ` set modules"
  by (simp add: lookup_last_def [abs_def] dom_map_of_conv_image_fst image_image)

lemma prerequisite_cycles_result:
  "\<exists>messages. prerequisite_cycles modules = Some messages
    \<and> (messages = [] \<longleftrightarrow> acyclic (requires (modules_by_id modules)))"
proof -
  let ?by = "modules_by_id modules" and ?n = "Suc (length modules)"
  let ?w0 = "\<lparr>wk_visited = [], wk_active = [], wk_errors = []\<rparr>"
  let ?ids = "map lm_id modules"
  have known: "?by i \<noteq> None" if "i \<in> set ?ids" for i using that modules_by_id_dom [of modules] by (auto simp: dom_def)
  have fin: "finite (dom ?by)" by (simp add: modules_by_id_dom)
  have card: "card (dom ?by - A) < ?n" for A
  proof -
    have "card (dom ?by - A) \<le> card (dom ?by)" using fin by (intro card_mono) auto
    also have "\<dots> \<le> length modules" unfolding modules_by_id_dom using card_image_le [of "set modules" lm_id] card_length [of modules] by simp
    finally show ?thesis by simp
  qed
  obtain w where w: "walk_each (visit ?by ?n) ?ids ?w0 = Some w"
    using walk_each_total [of ?ids "\<lambda>_. True" "visit ?by ?n" ?w0] visit_ends [OF fin known card] by auto
  have "wk_errors w = [] \<longleftrightarrow> acyclic (requires ?by)"
  proof
    assume none: "wk_errors w = []"
    have "(closed_walk ?by w \<and> set (wk_active w) \<subseteq> set (wk_visited w)) \<and> (\<forall>i \<in> set ?ids. i \<in> finished w)"
    proof (rule walk_each_closed [OF w, where P = "\<lambda>u. closed_walk ?by u \<and> set (wk_active u) \<subseteq> set (wk_visited u)"])
      show "(closed_walk ?by u' \<and> set (wk_active u') \<subseteq> set (wk_visited u')) \<and> i \<in> finished u'"
        if "closed_walk ?by u \<and> set (wk_active u) \<subseteq> set (wk_visited u)" "visit ?by ?n i u = Some u'"
          "wk_errors u' = wk_errors u" for i u u'
        using visit_closed [OF that(2,3)] visit_grows [OF that(2)] that(1) by (auto simp: grows_def)
      show "grows u u'" if "visit ?by ?n i u = Some u'" for i u u' by (rule visit_grows [OF that])
      show "i \<in> finished u'" if "i \<in> finished u" "grows u u'" for i u u'
        using that unfolding grows_def finished_def by blast
    qed (simp_all add: none closed_walk_def finished_def)
    then have no_cycle: "(i, i) \<notin> (requires ?by)\<^sup>+" if "i \<in> dom ?by" for i
      using that by (auto simp: closed_walk_def modules_by_id_dom)
    moreover have "i \<in> dom ?by" if "(i, i) \<in> (requires ?by)\<^sup>+" for i
      using that by (auto simp: requires_def elim: tranclE)
    ultimately show "acyclic (requires ?by)" unfolding acyclic_def by blast
  next
    assume acyclic: "acyclic (requires ?by)"
    show "wk_errors w = []"
    proof (rule ccontr)
      assume "wk_errors w \<noteq> []"
      then have "wk_errors w \<noteq> wk_errors ?w0" by simp
      from walk_each_error [OF w this] visit_grows [of ?by ?n] obtain i u u' where
        "grows ?w0 u" "visit ?by ?n i u = Some u'" "wk_errors u' \<noteq> wk_errors u" by blast
      from visit_error_cycle [OF this(2,3)] this(1) acyclic show False by (auto simp: grows_def acyclic_def)
    qed
  qed
  then show ?thesis by (simp add: prerequisite_cycles_def w)
qed

end
