(* ===== verification/Catalog_Valid.thy ===== *)
theory Catalog_Valid
  imports Catalog_Cycles
begin

text \<open>
  What \<open>validateCatalog\<close> accepts, declaratively. A validator is described by the IDs it registers and
  by the condition under which it pushes nothing; the descriptions compose as the validators do.
\<close>

section \<open>Describing a validator\<close>

definition registers :: "(check_state \<Rightarrow> check_state) \<Rightarrow> string list \<Rightarrow> bool \<Rightarrow> bool" where
  "registers f ids ok \<longleftrightarrow> (\<forall>st. (ks_errors (f st) = [] \<longleftrightarrow> ks_errors st = [] \<and> ok \<and> list_all slug ids
      \<and> distinct ids \<and> set ids \<inter> set (ks_ids st) = {})
    \<and> set (ks_ids (f st)) = set (ks_ids st) \<union> set ids)"

named_theorems reg_intros \<open>descriptions of validators, composed\<close>

lemma reg_cong: "registers f a P \<Longrightarrow> a = b \<Longrightarrow> P = Q \<Longrightarrow> registers f b Q"
  by simp

lemma reg_id [reg_intros]: "registers (\<lambda>st. st) [] True"
  by (simp add: registers_def)

lemma reg_comp: "registers f a P \<Longrightarrow> registers g b Q \<Longrightarrow> registers (\<lambda>st. g (f st)) (a @ b) (P \<and> Q)"
  unfolding registers_def by auto

lemma reg_push: "registers (push_if b m) [] (\<not> b)"
  by (auto simp: registers_def push_if_def)

lemma reg_push_comp [reg_intros]: "registers f a P \<Longrightarrow> registers (\<lambda>st. push_if b m (f st)) a (P \<and> \<not> b)"
  using reg_comp [OF _ reg_push] by fastforce

lemma slug_char_no_space: "slug_char ch \<Longrightarrow> \<not> space_char ch"
  by (auto simp: slug_char_def space_char_def digit_char_def)

lemma slug_from_no_space: "slug_from fresh s \<Longrightarrow> ch \<in> set s \<Longrightarrow> \<not> space_char ch"
proof (induction s arbitrary: fresh)
  case (Cons a s)
  then show ?case
  proof (cases "slug_char a")
    case True
    then show ?thesis using Cons slug_char_no_space by auto
  next
    case False
    moreover have "\<not> space_char CHR ''-''" by (simp add: space_char_def)
    ultimately show ?thesis using Cons by auto
  qed
qed simp

lemma dropWhile_none: "\<forall>x \<in> set xs. \<not> P x \<Longrightarrow> dropWhile P xs = xs"
  by (cases xs) auto

lemma slug_not_blank: "slug i \<Longrightarrow> \<not> blank i"
proof -
  assume i: "slug i"
  then have "\<forall>ch \<in> set i. \<not> space_char ch" by (auto simp: slug_def dest: slug_from_no_space)
  then have "js_trim i = i" by (simp add: js_trim_def dropWhile_none)
  then show "\<not> blank i" using i by (auto simp: blank_def slug_def)
qed

lemma reg_register: "registers (register i location) [i] True"
  using slug_not_blank [of i] by (auto simp: registers_def register_def push_if_def Let_def)

lemma reg_register_comp [reg_intros]:
  "registers f a P \<Longrightarrow> registers (\<lambda>st. register i location (f st)) (a @ [i]) P"
  using reg_comp [OF _ reg_register] by fastforce

lemma reg_fold:
  "(\<And>x. x \<in> set xs \<Longrightarrow> registers (F x) (ids x) (P x))
    \<Longrightarrow> registers (fold F xs) (concat (map ids xs)) (\<forall>x \<in> set xs. P x)"
proof (induction xs)
  case Nil
  then show ?case by (simp add: registers_def)
next
  case (Cons x xs)
  have "registers (\<lambda>st. fold F xs (F x st)) (ids x @ concat (map ids xs)) (P x \<and> (\<forall>x \<in> set xs. P x))"
    by (rule reg_comp) (use Cons in auto)
  then show ?case by (simp add: comp_def)
qed

lemma reg_fold_push: "registers (fold (\<lambda>x. push_if (b x) (m x)) xs) [] (\<forall>x \<in> set xs. \<not> b x)"
proof -
  have "concat (map (\<lambda>_. []) xs) = []" by simp
  then show ?thesis using reg_fold [of xs "\<lambda>x. push_if (b x) (m x)" "\<lambda>_. []" "\<lambda>x. \<not> b x", OF reg_push] by metis
qed

lemma reg_fold_push_comp [reg_intros]:
  "registers f a P \<Longrightarrow> registers (\<lambda>st. fold (\<lambda>x. push_if (b x) (m x)) xs (f st)) a (P \<and> (\<forall>x \<in> set xs. \<not> b x))"
  using reg_comp [OF _ reg_fold_push] by fastforce

lemma reg_if [reg_intros]:
  "registers f a P \<Longrightarrow> registers g a Q \<Longrightarrow> registers (\<lambda>st. if b then f st else g st) a (if b then P else Q)"
  by (cases b) simp_all

text \<open>A loop that also collects the keys it has seen.\<close>

lemma reg_seen:
  assumes "\<And>x seen. x \<in> set xs \<Longrightarrow> registers (F x seen) (ids x) (P x \<and> key x \<notin> set seen)"
  shows "registers (\<lambda>st. snd (fold (\<lambda>x (seen, st). (key x # seen, F x seen st)) xs (seen, st)))
    (concat (map ids xs)) ((\<forall>x \<in> set xs. P x) \<and> distinct (map key xs) \<and> set (map key xs) \<inter> set seen = {})"
  using assms
proof (induction xs arbitrary: seen)
  case Nil
  then show ?case by (simp add: registers_def)
next
  case (Cons x xs)
  have "registers (\<lambda>st. snd (fold (\<lambda>x (seen, st). (key x # seen, F x seen st)) xs (key x # seen, F x seen st)))
      (ids x @ concat (map ids xs)) ((P x \<and> key x \<notin> set seen)
        \<and> (\<forall>x \<in> set xs. P x) \<and> distinct (map key xs) \<and> set (map key xs) \<inter> set (key x # seen) = {})"
    by (rule reg_comp [OF Cons.prems Cons.IH]) (use Cons.prems in auto)
  then show ?case unfolding fold_Cons comp_apply prod.case by (rule reg_cong) auto
qed

section \<open>Sources, providers, sections\<close>

definition date_ok :: "host \<Rightarrow> string \<Rightarrow> bool" where
  "date_ok h s \<longleftrightarrow> is_date_only s \<and> \<not> is_future_date h s"

definition wf_source :: "host \<Rightarrow> source_reference \<Rightarrow> bool" where
  "wf_source h s \<longleftrightarrow> url_protocol h (src_url s) = Some ''https:'' \<and> date_ok h (src_verified s)"

lemma reg_sources: "registers (validate_sources h sources location) [] (\<forall>s \<in> set sources. wf_source h s)"
proof -
  have "registers (\<lambda>st. let st1 = (case url_protocol h (src_url s) of
           None \<Rightarrow> push_if True (location @ '' has an invalid source URL: '' @ src_url s) st
         | Some p \<Rightarrow> push_if (p \<noteq> ''https:'') (location @ '' source must use HTTPS: '' @ src_url s) st)
     in if \<not> is_date_only (src_verified s)
        then push_if True (location @ '' source has an invalid lastVerified date: '' @ src_title s) st1
        else push_if (is_future_date h (src_verified s)) (location
          @ '' source has a lastVerified date in the future: '' @ src_title s @ '' ('' @ src_verified s @ '')'') st1)
     [] (wf_source h s)" for s
    by (auto simp: registers_def push_if_def wf_source_def date_ok_def split: option.split)
  from reg_fold [of sources, OF this] show ?thesis
    unfolding validate_sources_def by (simp add: map_replicate_const)
qed

lemmas reg_sources_comp [reg_intros] = reg_comp [OF _ reg_sources]

lemma reg_providers: "registers (validate_providers providers known location) []
    (providers \<noteq> [] \<and> set providers \<subseteq> set known)"
  unfolding validate_providers_def by (rule reg_cong) ((rule reg_intros reg_push)+, auto)

lemmas reg_providers_comp [reg_intros] = reg_comp [OF _ reg_providers]

definition wf_section :: "lesson_section \<Rightarrow> bool" where
  "wf_section s \<longleftrightarrow> slug (sec_id s) \<and> sec_paragraphs s \<noteq> [] \<and> (\<forall>t \<in> set (sec_paragraphs s). \<not> blank t)
     \<and> (\<forall>e. sec_code s = Some e \<longrightarrow> \<not> blank (ce_language e) \<and> \<not> blank (ce_label e) \<and> \<not> blank (ce_code e))
     \<and> (sec_callout s = JUndefined \<or> is_string (sec_callout s))"

definition wf_sections :: "lesson_section list \<Rightarrow> bool" where
  "wf_sections sections \<longleftrightarrow> (\<forall>s \<in> set sections. wf_section s) \<and> distinct (map sec_id sections)"

lemma reg_section: "registers (validate_section location s seen) [] (wf_section s \<and> sec_id s \<notin> set seen)"
  unfolding validate_section_def Let_def
  by (rule reg_cong) ((rule reg_intros)+, auto simp: wf_section_def list_ex_iff split: option.splits)

lemma reg_sections: "registers (validate_sections sections location) [] (wf_sections sections)"
  unfolding validate_sections_def
  by (rule reg_cong, rule reg_seen [where ids = "\<lambda>_. []"], rule reg_section) (auto simp: wf_sections_def)

lemmas reg_sections_comp [reg_intros] = reg_comp [OF _ reg_sections]


section \<open>Activities and comparison matrices\<close>

definition wf_activity :: "learning_activity \<Rightarrow> bool" where
  "wf_activity a \<longleftrightarrow> slug (act_id a) \<and> \<not> blank (act_title a)
     \<and> act_instructions a \<noteq> [] \<and> (\<forall>t \<in> set (act_instructions a). \<not> blank t)
     \<and> act_evidence a \<noteq> [] \<and> (\<forall>t \<in> set (act_evidence a). \<not> blank t) \<and> \<not> blank (act_reflection a)"

lemma reg_activity: "registers (validate_activity a module_id) [] (\<forall>x. a = Some x \<longrightarrow> wf_activity x)"
proof (cases a)
  case (Some x)
  show ?thesis unfolding validate_activity_def Some option.case Let_def
    by (rule reg_cong) ((rule reg_intros)+, auto simp: wf_activity_def list_ex_iff)
qed (simp add: validate_activity_def [abs_def] reg_id)

lemmas reg_activity_comp [reg_intros] = reg_comp [OF _ reg_activity]

definition wf_cell :: "learning_module \<Rightarrow> comparison_cell option \<Rightarrow> bool" where
  "wf_cell m cell \<longleftrightarrow> (\<exists>c. cell = Some c \<and> cc_status c \<in> set comparison_statuses \<and> \<not> blank (cc_summary c)
     \<and> cc_urls c \<noteq> [] \<and> distinct (cc_urls c) \<and> set (cc_urls c) \<subseteq> src_url ` set (lm_sources m))"

lemma reg_cell: "registers (validate_cell m d provider cell) [] (wf_cell m cell)"
proof (cases cell)
  case None
  then show ?thesis by (simp add: validate_cell_def wf_cell_def registers_def push_if_def)
next
  case (Some c)
  show ?thesis unfolding validate_cell_def Some option.case Let_def
    by (rule reg_cong) ((rule reg_intros reg_push reg_fold_push)+, auto simp: wf_cell_def)
qed

lemmas reg_cell_comp [reg_intros] = reg_comp [OF _ reg_cell]

definition wf_dimension :: "learning_module \<Rightarrow> comparison_dimension \<Rightarrow> bool" where
  "wf_dimension m d \<longleftrightarrow> slug (dim_id d) \<and> \<not> blank (dim_title d) \<and> \<not> blank (dim_core d)
     \<and> wf_cell m (dim_anthropic d) \<and> wf_cell m (dim_openai d) \<and> wf_cell m (dim_google d)"

lemma reg_dimension: "registers (validate_dimension m d seen) [] (wf_dimension m d \<and> dim_id d \<notin> set seen)"
  unfolding validate_dimension_def Let_def
  by (rule reg_cong) ((rule reg_intros)+, auto simp: wf_dimension_def)

definition wf_matrix :: "host \<Rightarrow> learning_module \<Rightarrow> comparison_matrix \<Rightarrow> bool" where
  "wf_matrix h m x \<longleftrightarrow> date_ok h (cm_as_of x) \<and> \<not> blank (cm_caveat x) \<and> cm_dimensions x \<noteq> []
     \<and> (\<forall>d \<in> set (cm_dimensions x). wf_dimension m d) \<and> distinct (map dim_id (cm_dimensions x))"

lemmas reg_dimensions_comp [reg_intros] =
  reg_comp [OF _ reg_seen [where ids = "\<lambda>_. []" and key = dim_id and seen = "[]", OF reg_dimension]]

lemma reg_matrix: "registers (validate_comparison_matrix h matrix m) [] (\<forall>x. matrix = Some x \<longrightarrow> wf_matrix h m x)"
proof (cases matrix)
  case (Some x)
  show ?thesis
  proof (cases "cm_dimensions x = []")
    case True
    then show ?thesis
      by (auto simp: Some validate_comparison_matrix_def wf_matrix_def registers_def push_if_def Let_def)
  next
    case False
    show ?thesis unfolding validate_comparison_matrix_def Some option.case Let_def if_not_P [OF False]
      by (rule reg_cong) ((rule reg_intros)+, use False in \<open>auto simp: wf_matrix_def date_ok_def\<close>)
  qed
qed (simp add: validate_comparison_matrix_def [abs_def] reg_id)

lemmas reg_matrix_comp [reg_intros] = reg_comp [OF _ reg_matrix]

section \<open>Instructor scripts\<close>

definition wf_cue :: "learning_module \<Rightarrow> instructor_cue \<Rightarrow> bool" where
  "wf_cue m cue \<longleftrightarrow> \<not> blank (cue_text cue)
     \<and> (\<forall>s. cue_section cue = Some s \<and> s \<noteq> [] \<longrightarrow> s \<in> sec_id ` set (lm_sections m))
     \<and> (cue_kind cue = ''visual'' \<longrightarrow> (\<exists>a. cue_alternative cue = Some a \<and> \<not> blank a))"

lemma reg_cue: "registers (validate_cue m cue) [cue_id cue] (wf_cue m cue)"
  unfolding validate_cue_def Let_def
  by (rule reg_cong) ((rule reg_intros reg_register)+, auto simp: wf_cue_def split: option.splits)

lemmas reg_cues_comp [reg_intros] = reg_comp [OF _ reg_fold [where F = "validate_cue m" and ids = "\<lambda>c. [cue_id c]" for m, OF reg_cue]]

text \<open>Captions follow one another inside the script and repeat the texts of their cues.\<close>

fun wf_captions :: "instructor_script \<Rightarrow> jsnum \<Rightarrow> instructor_caption list \<Rightarrow> bool" where
  "wf_captions script previous [] = True"
| "wf_captions script previous (c # cs) \<longleftrightarrow> num_integer (cap_start c) \<and> num_integer (cap_end c)
     \<and> \<not> num_less (cap_start c) previous \<and> \<not> num_le (cap_end c) (cap_start c)
     \<and> \<not> num_less (is_seconds script) (cap_end c) \<and> \<not> blank (cap_text c)
     \<and> (\<exists>cue. lookup_last cue_id (is_cues script) (cap_cue c) = Some cue \<and> cap_text c = cue_text cue)
     \<and> wf_captions script (cap_end c) cs"

definition wf_caption :: "instructor_script \<Rightarrow> jsnum \<Rightarrow> instructor_caption \<Rightarrow> bool" where
  "wf_caption script previous c \<longleftrightarrow> num_integer (cap_start c) \<and> num_integer (cap_end c)
     \<and> \<not> num_less (cap_start c) previous \<and> \<not> num_le (cap_end c) (cap_start c)
     \<and> \<not> num_less (is_seconds script) (cap_end c) \<and> \<not> blank (cap_text c)
     \<and> (\<exists>cue. lookup_last cue_id (is_cues script) (cap_cue c) = Some cue \<and> cap_text c = cue_text cue)"

lemma wf_captions_Cons: "wf_captions script previous (c # cs)
    \<longleftrightarrow> wf_caption script previous c \<and> wf_captions script (cap_end c) cs"
  by (auto simp: wf_caption_def)

lemma push_if_sel [simp]: "ks_ids (push_if b m st) = ks_ids st"
  "ks_errors (push_if b m st) = [] \<longleftrightarrow> \<not> b \<and> ks_errors st = []"
  by (simp_all add: push_if_def)

lemma caption_step:
  assumes "validate_caption m script c (previous, captioned, st) = (p, captioned', st')"
  shows "p = cap_end c" "ks_ids st' = ks_ids st"
    "ks_errors st' = [] \<longleftrightarrow> ks_errors st = [] \<and> wf_caption script previous c"
    "wf_caption script previous c \<Longrightarrow> captioned' = cap_cue c # captioned"
  using assms
  by (cases "lookup_last cue_id (is_cues script) (cap_cue c)"; force simp: validate_caption_def Let_def wf_caption_def)+

lemma captions_state:
  assumes "fold (validate_caption m script) cs (previous, captioned, st) = (p, captioned', st')"
  shows "ks_ids st' = ks_ids st
    \<and> (ks_errors st' = [] \<longleftrightarrow> ks_errors st = [] \<and> wf_captions script previous cs)
    \<and> (wf_captions script previous cs \<longrightarrow> set captioned' = set captioned \<union> cap_cue ` set cs)"
  using assms
proof (induction cs arbitrary: previous captioned st)
  case (Cons c cs)
  obtain p1 captioned1 st1 where step: "validate_caption m script c (previous, captioned, st) = (p1, captioned1, st1)"
    using prod_cases3 by blast
  then have rest: "fold (validate_caption m script) cs (p1, captioned1, st1) = (p, captioned', st')"
    using Cons.prems by simp
  note one = caption_step [OF step]
  from Cons.IH [OF rest] one(1,2,3) one(4) show ?case unfolding wf_captions_Cons by auto
qed simp

definition wf_captioned_script :: "instructor_script \<Rightarrow> bool" where
  "wf_captioned_script script \<longleftrightarrow> (\<exists>t. is_transcript script = Some t \<and> \<not> blank t
       \<and> (\<forall>cue \<in> set (narrations script). includes_text t (cue_text cue)))
     \<and> (\<exists>t. is_reduced_motion script = Some t \<and> \<not> blank t)
     \<and> (\<exists>cs. is_captions script = Some cs \<and> cs \<noteq> [] \<and> wf_captions script (Fin 0) cs
       \<and> (\<forall>cue \<in> set (narrations script). cue_id cue \<in> cap_cue ` set cs))"

lemma reg_captions:
  "registers (\<lambda>st. case fold (validate_caption m script) cs (Fin 0, [], st) of
      (_, captioned, st') \<Rightarrow> fold (\<lambda>cue. push_if (cue_id cue \<notin> set captioned) (msg cue)) (narrations script) st') []
    (wf_captions script (Fin 0) cs \<and> (\<forall>cue \<in> set (narrations script). cue_id cue \<in> cap_cue ` set cs))"
  unfolding registers_def
proof (intro allI)
  fix st
  obtain p captioned st' where f: "fold (validate_caption m script) cs (Fin 0, [], st) = (p, captioned, st')"
    using prod_cases3 by blast
  let ?g = "fold (\<lambda>cue. push_if (cue_id cue \<notin> set captioned) (msg cue)) (narrations script)"
  have g: "ks_errors (?g st') = [] \<longleftrightarrow> ks_errors st' = [] \<and> (\<forall>cue \<in> set (narrations script). cue_id cue \<in> set captioned)"
    "set (ks_ids (?g st')) = set (ks_ids st')"
    using reg_fold_push [of "\<lambda>cue. cue_id cue \<notin> set captioned" msg "narrations script"] by (simp_all add: registers_def)
  show "(ks_errors (case fold (validate_caption m script) cs (Fin 0, [], st) of (_, captioned, st') \<Rightarrow>
        fold (\<lambda>cue. push_if (cue_id cue \<notin> set captioned) (msg cue)) (narrations script) st') = []) =
      (ks_errors st = [] \<and> (wf_captions script (Fin 0) cs \<and> (\<forall>cue \<in> set (narrations script). cue_id cue \<in> cap_cue ` set cs))
        \<and> list_all slug [] \<and> distinct [] \<and> set [] \<inter> set (ks_ids st) = {})
    \<and> set (ks_ids (case fold (validate_caption m script) cs (Fin 0, [], st) of (_, captioned, st') \<Rightarrow>
        fold (\<lambda>cue. push_if (cue_id cue \<notin> set captioned) (msg cue)) (narrations script) st')) = set (ks_ids st) \<union> set []"
    unfolding f prod.case g using captions_state [OF f] by auto
qed

lemmas reg_captions_comp [reg_intros] = reg_comp [OF _ reg_captions]

lemma reg_captioned_script: "registers (validate_captioned_script m script) [] (wf_captioned_script script)"
proof (cases "is_captions script")
  case None
  show ?thesis unfolding validate_captioned_script_def Let_def None option.case
    by (rule reg_cong) ((rule reg_intros)+, auto simp: wf_captioned_script_def None)
next
  case (Some captions)
  show ?thesis
  proof (cases captions)
    case Nil
    show ?thesis unfolding validate_captioned_script_def Let_def Some Nil option.case list.case
      by (rule reg_cong) ((rule reg_intros)+, auto simp: wf_captioned_script_def Some Nil)
  next
    case (Cons c cs)
    show ?thesis unfolding validate_captioned_script_def Let_def Some Cons option.case list.case
      by (rule reg_cong) ((rule reg_intros)+, auto simp: wf_captioned_script_def Some Cons split: option.splits)
  qed
qed


lemmas reg_captioned_script_comp [reg_intros] = reg_comp [OF _ reg_captioned_script]

definition wf_script :: "learning_module \<Rightarrow> instructor_script \<Rightarrow> bool" where
  "wf_script m script \<longleftrightarrow> is_version script \<in> {''1.0'', ''1.1''}
     \<and> num_integer (is_seconds script) \<and> \<not> num_le (is_seconds script) (Fin 0) \<and> is_cues script \<noteq> []
     \<and> (\<forall>cue \<in> set (is_cues script). wf_cue m cue)
     \<and> (\<forall>s \<in> set (lm_sections m). \<exists>cue \<in> set (is_cues script). cue_section cue = Some (sec_id s) \<and> cue_kind cue = ''narration'')
     \<and> set required_cues \<subseteq> cue_kind ` set (is_cues script)
     \<and> (is_version script = ''1.1'' \<longrightarrow> wf_captioned_script script)"

definition script_ids :: "instructor_script option \<Rightarrow> string list" where
  "script_ids script = (case script of None \<Rightarrow> [] | Some s \<Rightarrow> map cue_id (is_cues s))"

lemma reg_script: "registers (validate_instructor_script script m) (script_ids script) (\<forall>s. script = Some s \<longrightarrow> wf_script m s)"
proof (cases script)
  case (Some s)
  show ?thesis
  proof (cases "is_cues s = []")
    case True
    then show ?thesis
      by (auto simp: Some validate_instructor_script_def wf_script_def registers_def script_ids_def Let_def)
  next
    case False
    show ?thesis
    proof (cases "is_version s = ''1.1''")
      case True
      show ?thesis
        unfolding validate_instructor_script_def Some option.case Let_def if_not_P [OF False] if_P [OF True]
        by (rule reg_cong) ((rule reg_intros)+, use True False in \<open>auto simp: wf_script_def script_ids_def list_ex_iff\<close>)
    next
      case other: False
      show ?thesis
        unfolding validate_instructor_script_def Some option.case Let_def if_not_P [OF False] if_not_P [OF other]
        by (rule reg_cong) ((rule reg_intros)+, use other False in \<open>auto simp: wf_script_def script_ids_def list_ex_iff\<close>)
    qed
  qed
qed (simp add: validate_instructor_script_def [abs_def] script_ids_def reg_id)

lemmas reg_script_comp [reg_intros] = reg_comp [OF _ reg_script]

section \<open>Capstones\<close>

definition wf_exemplar_score :: "capstone_definition \<Rightarrow> capstone_exemplar \<Rightarrow> exemplar_score \<Rightarrow> bool" where
  "wf_exemplar_score cap x s \<longleftrightarrow> num_integer (es_points s) \<and> \<not> num_less (es_points s) (Fin 0)
     \<and> (\<exists>cr. lookup_last cr_id (cd_criteria cap) (es_criterion s) = Some cr
         \<and> \<not> num_less (cr_max_points cr) (es_points s))
     \<and> \<not> blank (es_note s) \<and> es_evidence s \<noteq> [] \<and> distinct (es_evidence s)
     \<and> (\<forall>r \<in> set (es_evidence s). \<not> blank r \<and> r \<in> ea_ref ` set (ex_artifacts x))"

lemma reg_exemplar_score: "registers (validate_exemplar_score cap x s) [] (wf_exemplar_score cap x s)"
  unfolding validate_exemplar_score_def
  by (rule reg_cong, rule reg_push) (auto simp: wf_exemplar_score_def list_ex_iff split: option.splits)

lemmas reg_exemplar_scores_comp [reg_intros] =
  reg_comp [OF _ reg_fold [where F = "validate_exemplar_score cap x" and ids = "\<lambda>_. []" for cap x, OF reg_exemplar_score]]

definition wf_exemplar :: "capstone_definition \<Rightarrow> capstone_exemplar \<Rightarrow> bool" where
  "wf_exemplar cap x \<longleftrightarrow> \<not> blank (ex_title x) \<and> \<not> blank (ex_summary x)
     \<and> length (cd_artifacts cap) \<le> length (ex_artifacts x) \<and> distinct (map ea_ref (ex_artifacts x))
     \<and> (\<forall>r \<in> set (cd_artifacts cap). \<exists>a \<in> set (ex_artifacts x). ea_ref a = r \<or> ends_with (ea_ref a) (''/'' @ r))
     \<and> (\<forall>a \<in> set (ex_artifacts x). \<not> blank (ea_ref a) \<and> \<not> blank (ea_label a) \<and> \<not> blank (ea_content a))
     \<and> length (ex_scores x) = card (cr_id ` set (cd_criteria cap)) \<and> distinct (map es_criterion (ex_scores x))
     \<and> (\<forall>s \<in> set (ex_scores x). wf_exemplar_score cap x s) \<and> \<not> exemplar_inconsistent cap x"

lemma reg_exemplar: "registers (validate_exemplar cap module_id x) [ex_id x] (wf_exemplar cap x)"
  unfolding validate_exemplar_def Let_def
  by (rule reg_cong) ((rule reg_intros reg_register)+, auto simp: wf_exemplar_def list_ex_iff list_all_iff not_less)

lemmas reg_exemplars_comp [reg_intros] =
  reg_comp [OF _ reg_fold [where F = "validate_exemplar cap i" and ids = "\<lambda>x. [ex_id x]" for cap i, OF reg_exemplar]]

definition wf_exemplars :: "capstone_definition \<Rightarrow> bool" where
  "wf_exemplars cap \<longleftrightarrow> (cd_needs_exemplars cap \<longrightarrow> length (exemplars_of cap) = 2
       \<and> length (filter (\<lambda>x. ex_kind x = ''complete'') (exemplars_of cap)) = 1
       \<and> length (filter (\<lambda>x. ex_kind x = ''flawed'') (exemplars_of cap)) = 1)
     \<and> (\<forall>x \<in> set (exemplars_of cap). wf_exemplar cap x)"

lemma reg_exemplars: "registers (validate_capstone_exemplars cap module_id) (map ex_id (exemplars_of cap)) (wf_exemplars cap)"
  unfolding validate_capstone_exemplars_def
  by (rule reg_cong) ((rule reg_intros reg_push)+, auto simp: wf_exemplars_def)

lemmas reg_all_exemplars_comp [reg_intros] = reg_comp [OF _ reg_exemplars]

definition wf_criterion :: "rubric_criterion \<Rightarrow> bool" where
  "wf_criterion cr \<longleftrightarrow> \<not> blank (cr_title cr) \<and> \<not> blank (cr_description cr) \<and> num_integer (cr_max_points cr)
     \<and> \<not> num_le (cr_max_points cr) (Fin 0) \<and> cr_evidence cr \<noteq> [] \<and> (\<forall>t \<in> set (cr_evidence cr). \<not> blank t)"

lemma reg_criterion: "registers (validate_criterion module_id cr) [cr_id cr] (wf_criterion cr)"
  unfolding validate_criterion_def Let_def
  by (rule reg_cong) ((rule reg_intros reg_register)+, auto simp: wf_criterion_def list_ex_iff)

lemmas reg_criteria_comp [reg_intros] =
  reg_comp [OF _ reg_fold [where F = "validate_criterion i" and ids = "\<lambda>cr. [cr_id cr]" for i, OF reg_criterion]]

definition wf_capstone :: "capstone_definition \<Rightarrow> bool" where
  "wf_capstone cap \<longleftrightarrow> \<not> blank (cd_title cap) \<and> \<not> blank (cd_summary cap)
     \<and> cd_artifacts cap \<noteq> [] \<and> (\<forall>t \<in> set (cd_artifacts cap). \<not> blank t) \<and> distinct (cd_artifacts cap)
     \<and> \<not> num_less (cd_pass_percent cap) (Fin 0) \<and> \<not> num_less (Fin 100) (cd_pass_percent cap)
     \<and> 3 \<le> length (cd_criteria cap) \<and> (\<forall>cr \<in> set (cd_criteria cap). wf_criterion cr)
     \<and> num_sum (map cr_max_points (cd_criteria cap)) = Fin 100 \<and> wf_exemplars cap"

definition capstone_ids :: "capstone_definition option \<Rightarrow> string list" where
  "capstone_ids cap = (case cap of None \<Rightarrow> []
     | Some c \<Rightarrow> cd_id c # map cr_id (cd_criteria c) @ map ex_id (exemplars_of c))"

lemma reg_capstone: "registers (validate_capstone cap module_id) (capstone_ids cap) (\<forall>c. cap = Some c \<longrightarrow> wf_capstone c)"
proof (cases cap)
  case (Some c)
  show ?thesis unfolding validate_capstone_def Some option.case Let_def
    by (rule reg_cong)
      ((rule reg_intros reg_register)+, auto simp: wf_capstone_def capstone_ids_def list_ex_iff num_same_def not_less)
qed (simp add: validate_capstone_def [abs_def] capstone_ids_def reg_id)

lemmas reg_capstone_comp [reg_intros] = reg_comp [OF _ reg_capstone]

section \<open>Paths, modules and resources\<close>

definition wf_path :: "string list \<Rightarrow> learning_path \<Rightarrow> bool" where
  "wf_path module_ids path \<longleftrightarrow> pa_modules path \<noteq> [] \<and> distinct (pa_modules path) \<and> set (pa_modules path) \<subseteq> set module_ids"

lemma reg_path: "registers (validate_path module_ids path) [pa_id path] (wf_path module_ids path)"
  unfolding validate_path_def Let_def
  by (rule reg_cong) ((rule reg_intros reg_register)+, auto simp: wf_path_def)

definition wf_question :: "knowledge_question \<Rightarrow> bool" where
  "wf_question q \<longleftrightarrow> 2 \<le> length (kq_choices q) \<and> \<not> num_less (kq_answer q) (Fin 0)
     \<and> \<not> num_le (Fin (of_nat (length (kq_choices q)))) (kq_answer q) \<and> \<not> blank (kq_explanation q)"

lemma reg_question: "registers (validate_question module_id q) [kq_id q] (wf_question q)"
  unfolding validate_question_def Let_def
  by (rule reg_cong) ((rule reg_intros reg_register)+, auto simp: wf_question_def not_less)

lemmas reg_questions_comp [reg_intros] =
  reg_comp [OF _ reg_fold [where F = "validate_question i" and ids = "\<lambda>q. [kq_id q]" for i, OF reg_question]]

lemma reg_prerequisite: "registers (validate_prerequisite module_ids module_id i) [] (i \<in> set module_ids \<and> i \<noteq> module_id)"
  unfolding validate_prerequisite_def by (rule reg_cong) ((rule reg_intros reg_push)+, auto)

lemmas reg_prerequisites_comp [reg_intros] =
  reg_comp [OF _ reg_fold [where F = "validate_prerequisite ids i" and ids = "\<lambda>_. []" for ids i, OF reg_prerequisite]]

definition wf_module :: "host \<Rightarrow> string list \<Rightarrow> string list \<Rightarrow> learning_module \<Rightarrow> bool" where
  "wf_module h provider_ids module_ids m \<longleftrightarrow> lm_providers m \<noteq> [] \<and> set (lm_providers m) \<subseteq> set provider_ids
     \<and> lm_objectives m \<noteq> [] \<and> lm_sections m \<noteq> [] \<and> wf_sections (lm_sections m)
     \<and> (\<forall>a. lm_activity m = Some a \<longrightarrow> wf_activity a) \<and> (\<forall>x. lm_matrix m = Some x \<longrightarrow> wf_matrix h m x)
     \<and> (\<forall>s. lm_script m = Some s \<longrightarrow> wf_script m s) \<and> (\<forall>c. lm_capstone m = Some c \<longrightarrow> wf_capstone c)
     \<and> lm_sources m \<noteq> [] \<and> (\<forall>s \<in> set (lm_sources m). wf_source h s)
     \<and> lm_questions m \<noteq> [] \<and> (\<forall>q \<in> set (lm_questions m). wf_question q)
     \<and> \<not> num_less (lm_pass_percent m) (Fin 0) \<and> \<not> num_less (Fin 100) (lm_pass_percent m)
     \<and> set (lm_prerequisites m) \<subseteq> set module_ids - {lm_id m}"

definition module_ids_of :: "learning_module \<Rightarrow> string list" where
  "module_ids_of m = lm_id m # script_ids (lm_script m) @ capstone_ids (lm_capstone m) @ map kq_id (lm_questions m)"

lemma reg_module: "registers (validate_module h provider_ids module_ids m) (module_ids_of m) (wf_module h provider_ids module_ids m)"
  unfolding validate_module_def Let_def
  by (rule reg_cong) ((rule reg_intros reg_register)+, auto simp: wf_module_def module_ids_of_def)

definition wf_resource :: "host \<Rightarrow> string list \<Rightarrow> resource \<Rightarrow> bool" where
  "wf_resource h provider_ids r \<longleftrightarrow> slug (re_slug r) \<and> \<not> blank (re_title r) \<and> \<not> blank (re_summary r) \<and> \<not> blank (re_category r)
     \<and> re_format r \<in> set resource_formats
     \<and> array_or_empty (re_audience r) \<noteq> [] \<and> set (array_or_empty (re_audience r)) \<subseteq> set resource_audiences
     \<and> distinct (array_or_empty (re_audience r)) \<and> re_providers r \<noteq> [] \<and> set (re_providers r) \<subseteq> set provider_ids
     \<and> (\<forall>t \<in> set (array_or_empty (re_prerequisites r)). \<not> blank t) \<and> distinct (array_or_empty (re_prerequisites r))
     \<and> slug (re_owner r) \<and> num_integer (re_cadence r) \<and> \<not> num_less (re_cadence r) (Fin 1) \<and> \<not> num_less (Fin 365) (re_cadence r)
     \<and> re_tags r \<noteq> [] \<and> (\<forall>t \<in> set (re_tags r). slug t) \<and> distinct (re_tags r)
     \<and> re_sections r \<noteq> [] \<and> wf_sections (re_sections r)
     \<and> re_sources r \<noteq> [] \<and> (\<forall>s \<in> set (re_sources r). wf_source h s) \<and> date_ok h (re_verified r)"

lemma reg_resource: "registers (validate_resource h provider_ids r slugs) [re_id r]
    (wf_resource h provider_ids r \<and> re_slug r \<notin> set slugs)"
  unfolding validate_resource_def Let_def
  by (rule reg_cong) ((rule reg_intros reg_register)+, auto simp: wf_resource_def date_ok_def list_ex_iff)

section \<open>The catalogue\<close>

text \<open>Every content ID, in the order in which it is registered.\<close>

definition catalog_ids :: "catalog \<Rightarrow> string list" where
  "catalog_ids c = map pa_id (ct_paths c) @ concat (map module_ids_of (ct_modules c)) @ map re_id (ct_resources c)"

definition wf_catalog :: "host \<Rightarrow> catalog \<Rightarrow> bool" where
  "wf_catalog h c \<longleftrightarrow> ct_schema c = ''1.0'' \<and> distinct (catalog_ids c) \<and> (\<forall>i \<in> set (catalog_ids c). slug i)
     \<and> (\<forall>path \<in> set (ct_paths c). wf_path (map lm_id (ct_modules c)) path)
     \<and> (\<forall>m \<in> set (ct_modules c). wf_module h (ct_providers c) (map lm_id (ct_modules c)) m
         \<and> (\<exists>path \<in> set (ct_paths c). lm_id m \<in> set (pa_modules path)))
     \<and> (\<forall>r \<in> set (ct_resources c). wf_resource h (ct_providers c) r) \<and> distinct (map re_slug (ct_resources c))
     \<and> acyclic (requires (modules_by_id (ct_modules c)))"

lemmas reg_paths_comp [reg_intros] =
  reg_comp [OF _ reg_fold [where F = "validate_path ids" and ids = "\<lambda>p. [pa_id p]" for ids, OF reg_path]]
lemmas reg_modules_comp [reg_intros] =
  reg_comp [OF _ reg_fold [where F = "validate_module h ps ids" and ids = module_ids_of for h ps ids, OF reg_module]]
lemmas reg_resources_comp [reg_intros] =
  reg_comp [OF _ reg_seen [where F = "validate_resource h ps" and ids = "\<lambda>r. [re_id r]" and key = re_slug
    and seen = "[]" for h ps, OF reg_resource]]

lemma reg_cycles: "registers (validate_prerequisite_cycles modules) [] (acyclic (requires (modules_by_id modules)))"
  using prerequisite_cycles_result [of modules] by (auto simp: registers_def validate_prerequisite_cycles_def)

lemmas reg_cycles_comp [reg_intros] = reg_comp [OF _ reg_cycles]

lemma validate_catalog_valid: "vr_valid (validate_catalog h c) \<longleftrightarrow> wf_catalog h c"
proof -
  let ?mids = "js_unique (map lm_id (ct_modules c))"
  have wf_unique: "wf_path ?mids = wf_path (map lm_id (ct_modules c))"
    "wf_module h ps ?mids = wf_module h ps (map lm_id (ct_modules c))" for ps
    by (intro ext; simp add: wf_path_def wf_module_def)+
  have "registers (\<lambda>st. validate_prerequisite_cycles (ct_modules c)
      (fold (\<lambda>i. push_if (\<not> list_ex (\<lambda>path. i \<in> set (pa_modules path)) (ct_paths c))
            (''Module '' @ i @ '' is not assigned to a learning path'')) ?mids
       (snd (fold (\<lambda>r (slugs, st). (re_slug r # slugs, validate_resource h (ct_providers c) r slugs st)) (ct_resources c)
        ([], fold (validate_module h (ct_providers c) ?mids) (ct_modules c)
         (fold (validate_path ?mids) (ct_paths c)
          (push_if (ct_schema c \<noteq> ''1.0'') (''Unsupported schema version: '' @ ct_schema c) st)))))))
     (catalog_ids c) (ct_schema c = ''1.0''
     \<and> (\<forall>path \<in> set (ct_paths c). wf_path (map lm_id (ct_modules c)) path)
     \<and> (\<forall>m \<in> set (ct_modules c). wf_module h (ct_providers c) (map lm_id (ct_modules c)) m
         \<and> (\<exists>path \<in> set (ct_paths c). lm_id m \<in> set (pa_modules path)))
     \<and> (\<forall>r \<in> set (ct_resources c). wf_resource h (ct_providers c) r) \<and> distinct (map re_slug (ct_resources c))
     \<and> acyclic (requires (modules_by_id (ct_modules c))))"
    by (rule reg_cong) ((rule reg_intros reg_push)+, auto simp: catalog_ids_def list_ex_iff wf_unique)
  from this [unfolded registers_def, THEN spec [of _ "\<lparr>ks_ids = [], ks_errors = []\<rparr>"], THEN conjunct1]
  show ?thesis
    by (auto simp: validate_catalog_def validate_catalog_state_def Let_def wf_catalog_def list_all_iff)
qed

end
