(* ===== verification/Progress_Merge.thy ===== *)
theory Progress_Merge
  imports Progress_Record Learning_Events
begin

text \<open>
  What \<open>mergeLearnerProgress\<close> and the plans built on it keep: the lemmas on the loop over the source's
  records, on the badge map and on first-occurrence lists, and the theorems on whole records.
\<close>

section \<open>The loop over the source's records\<close>

text \<open>Where each record of the result comes from, and where each record of the source goes.\<close>

lemma merge_source_origin:
  "y \<in> set (merge_source get_id set_id same prefix survivor ids xs) \<Longrightarrow>
   \<exists>x \<in> set xs. y = x \<or> y = set_id (prefix @ '':'' @ get_id x) x"
proof (induction xs arbitrary: ids)
  case (Cons a xs)
  then have "(\<exists>ids. y \<in> set (merge_source get_id set_id same prefix survivor ids xs))
      \<or> y = a \<or> y = set_id (prefix @ '':'' @ get_id a) a"
    by (auto simp: Let_def split: if_splits option.splits)
  then show ?case using Cons.IH by auto
qed simp

lemma merge_source_keeps:
  "x \<in> set xs \<Longrightarrow> x \<in> set (merge_source get_id set_id same prefix survivor ids xs)
   \<or> set_id (prefix @ '':'' @ get_id x) x \<in> set (merge_source get_id set_id same prefix survivor ids xs)
   \<or> (\<exists>y \<in> set survivor. get_id y = get_id x \<and> same y x)"
proof (induction xs arbitrary: ids)
  case (Cons a xs)
  show ?case
  proof (cases "x = a")
    case True
    then show ?thesis by (auto simp: Let_def find_Some_iff split: option.splits)
  next
    case False
    then have "x \<in> set xs" using Cons.prems by simp
    from Cons.IH [OF this] show ?thesis by (auto simp: Let_def split: option.splits)
  qed
qed simp

text \<open>Nothing is taken from a source that the survivor already holds.\<close>

lemma merge_source_absorbed:
  assumes "\<And>x. x \<in> set xs \<Longrightarrow> get_id x \<in> set ids"
    and "\<And>x. x \<in> set xs \<Longrightarrow> \<exists>y. find (\<lambda>y. get_id y = get_id x) survivor = Some y \<and> same y x"
  shows "merge_source get_id set_id same prefix survivor ids xs = []"
  using assms
proof (induction xs)
  case (Cons x xs)
  from Cons.prems(2) [of x] obtain y where "find (\<lambda>y. get_id y = get_id x) survivor = Some y" "same y x"
    by auto
  then show ?case using Cons by (simp add: Let_def)
qed simp

text \<open>No conflict: records of one ID are the same record.\<close>

definition agree :: "('a \<Rightarrow> string) \<Rightarrow> ('a \<Rightarrow> 'a \<Rightarrow> bool) \<Rightarrow> 'a list \<Rightarrow> 'a list \<Rightarrow> bool" where
  "agree get_id same xs ys \<longleftrightarrow> (\<forall>x \<in> set xs. \<forall>y \<in> set ys. get_id x = get_id y \<longrightarrow> same x y)"

lemma find_id:
  assumes "distinct (map get_id xs)" "x \<in> set xs" "get_id x = i"
  shows "find (\<lambda>y. get_id y = i) xs = Some x"
  using assms
proof (induction xs)
  case (Cons a xs)
  then show ?case by (cases "a = x") (auto simp: image_iff)
qed simp

lemma merge_source_no_conflict:
  assumes "distinct (map get_id survivor)" "distinct (map get_id xs)"
    and "agree get_id same survivor xs" "set ids \<inter> get_id ` set xs \<subseteq> get_id ` set survivor"
    and "get_id ` set survivor \<subseteq> set ids"
  shows "merge_source get_id set_id same prefix survivor ids xs
    = filter (\<lambda>x. get_id x \<notin> get_id ` set survivor) xs"
  using assms(2-)
proof (induction xs arbitrary: ids)
  case (Cons x xs)
  show ?case
  proof (cases "get_id x \<in> get_id ` set survivor")
    case True
    then obtain y where y: "y \<in> set survivor" "get_id y = get_id x" by force
    then have "same y x" using Cons.prems(2) by (simp add: agree_def)
    moreover have "merge_source get_id set_id same prefix survivor ids xs
        = filter (\<lambda>x. get_id x \<notin> get_id ` set survivor) xs"
      using Cons.prems by (intro Cons.IH) (auto simp: agree_def)
    ultimately show ?thesis
      using True find_id [OF assms(1) y] Cons.prems(4) by (auto simp: Let_def)
  next
    case False
    moreover have "merge_source get_id set_id same prefix survivor (get_id x # ids) xs
        = filter (\<lambda>x. get_id x \<notin> get_id ` set survivor) xs"
      using Cons.prems by (intro Cons.IH) (auto simp: agree_def)
    ultimately show ?thesis using Cons.prems(3) by auto
  qed
qed simp

section \<open>First occurrences\<close>

lemma js_unique_Cons: "js_unique (x # xs) = x # filter (\<lambda>y. y \<noteq> x) (js_unique xs)"
proof -
  have "remdups (ys @ [x]) = filter (\<lambda>y. y \<noteq> x) (remdups ys) @ [x]" for ys :: "'a list"
    by (induction ys) auto
  then show ?thesis by (simp add: js_unique_def rev_filter)
qed

lemma js_unique_append: "js_unique (xs @ ys) = js_unique xs @ filter (\<lambda>y. y \<notin> set xs) (js_unique ys)"
  by (induction xs) (simp_all add: js_unique_Cons js_unique_def [of "[]"] conj_commute)

lemma js_unique_twice [simp]: "js_unique (js_unique xs) = js_unique xs"
  by (simp add: js_unique_id)

lemma js_unique_absorbed: "set ys \<subseteq> set xs \<Longrightarrow> js_unique (js_unique xs @ ys) = js_unique xs"
  by (auto simp: js_unique_append filter_empty_conv)

section \<open>Badges\<close>

definition join_badge :: "runtime \<Rightarrow> earned_badge \<Rightarrow> earned_badge \<Rightarrow> earned_badge" where
  "join_badge rt e b = e
     \<lparr>eb_earned_at := (if collate rt (eb_earned_at e) (eb_earned_at b) \<le> 0 then eb_earned_at e
                      else eb_earned_at b),
      eb_evidence := js_unique (eb_evidence e @ eb_evidence b)\<rparr>"

lemma join_badge_id [simp]: "eb_id (join_badge rt e b) = eb_id e"
  by (simp add: join_badge_def)

lemma merge_badge_join: "merge_badge rt m b = (case map_of m (eb_id b) of
    None \<Rightarrow> map_set (eb_id b) b m | Some e \<Rightarrow> map_set (eb_id b) (join_badge rt e b) m)"
  by (simp add: merge_badge_def join_badge_def split: option.split)

text \<open>The badge map: each key is the ID of its badge, and no key occurs twice.\<close>

definition badge_map :: "(string \<times> earned_badge) list \<Rightarrow> bool" where
  "badge_map m \<longleftrightarrow> distinct (map fst m) \<and> (\<forall>(k, b) \<in> set m. eb_id b = k)"

lemma badge_map_set: "badge_map m \<Longrightarrow> eb_id b = k \<Longrightarrow> badge_map (map_set k b m)"
  by (auto simp: badge_map_def dest: set_map_set)

lemma merge_badge_map: "badge_map m \<Longrightarrow> badge_map (merge_badge rt m b)"
  by (auto simp: merge_badge_join badge_map_set badge_map_def [of m] dest!: map_of_SomeD
      intro!: badge_map_set split: option.splits)

lemma merge_badges_fold_map: "badge_map m \<Longrightarrow> badge_map (foldl (merge_badge rt) m bs)"
  by (induction bs arbitrary: m) (simp_all add: merge_badge_map)

lemma badge_map_append: "badge_map m \<Longrightarrow> k \<notin> fst ` set m \<Longrightarrow> map_set k b m = m @ [(k, b)]"
  by (induction m) (auto simp: badge_map_def)

lemma survivor_badge_map:
  fixes bs :: "earned_badge list"
  assumes "distinct (map eb_id bs)"
  shows "foldl (\<lambda>m b. map_set (eb_id b) b m) [] bs = map (\<lambda>b. (eb_id b, b)) bs"
  using assms
proof (induction bs rule: rev_induct)
  case (snoc b bs)
  then have "badge_map (map (\<lambda>b. (eb_id b, b)) bs)" by (auto simp: badge_map_def comp_def)
  then show ?case using snoc badge_map_append [of "map (\<lambda>b. (eb_id b, b)) bs" "eb_id b" b]
    by (auto simp: image_iff)
qed simp

lemma badge_map_survivor: "badge_map (foldl (\<lambda>m b. map_set (eb_id b) b m) [] (bs :: earned_badge list))"
proof -
  have "badge_map (foldl (\<lambda>m b. map_set (eb_id b) b m) m bs)" if "badge_map m" for m
    using that by (induction bs arbitrary: m) (simp_all add: badge_map_set)
  from this [of "[]"] show ?thesis by (simp add: badge_map_def)
qed

lemma badge_map_values: "badge_map m \<Longrightarrow> map_of m k = Some b \<longleftrightarrow> b \<in> snd ` set m \<and> eb_id b = k"
  by (force simp: badge_map_def intro: map_of_is_SomeI dest: map_of_SomeD)

lemma badge_map_keys: "badge_map m \<Longrightarrow> map fst m = map eb_id (map snd m)"
  by (auto simp: badge_map_def)

text \<open>The badge under an ID after the loop over the source, folded over the badges of that ID.\<close>

fun join_opt :: "runtime \<Rightarrow> earned_badge option \<Rightarrow> earned_badge \<Rightarrow> earned_badge option" where
  "join_opt rt None b = Some b"
| "join_opt rt (Some e) b = Some (join_badge rt e b)"

lemma merge_badge_lookup:
  "map_of (merge_badge rt m b) k = (if eb_id b = k then join_opt rt (map_of m k) b else map_of m k)"
  by (auto simp: merge_badge_join split: option.splits)

lemma merge_badges_lookup:
  "map_of (foldl (merge_badge rt) m bs) k
    = foldl (join_opt rt) (map_of m k) (filter (\<lambda>b. eb_id b = k) bs)"
  by (induction bs arbitrary: m) (auto simp: merge_badge_lookup)

lemma merge_badges_member:
  assumes "distinct (map eb_id survivor)"
  shows "b \<in> set (merge_badges rt survivor source) \<longleftrightarrow>
    foldl (join_opt rt) (find (\<lambda>e. eb_id e = eb_id b) survivor)
      (filter (\<lambda>e. eb_id e = eb_id b) source) = Some b"
proof -
  let ?m = "foldl (merge_badge rt) (foldl (\<lambda>m b. map_set (eb_id b) b m) [] survivor) source"
  have map: "badge_map ?m" by (intro merge_badges_fold_map badge_map_survivor)
  have start: "map_of (foldl (\<lambda>m b. map_set (eb_id b) b m) [] survivor) k
      = find (\<lambda>e. eb_id e = k) survivor" for k
    unfolding survivor_badge_map [OF assms] by (induction survivor) auto
  have "b \<in> set (merge_badges rt survivor source) \<longleftrightarrow> map_of ?m (eb_id b) = Some b"
    using badge_map_values [OF map, of "eb_id b" b] by (simp add: merge_badges_def)
  then show ?thesis by (simp add: merge_badges_lookup start)
qed

lemma merge_badges_distinct: "distinct (map eb_id (merge_badges rt survivor source))"
proof -
  let ?m = "foldl (merge_badge rt) (foldl (\<lambda>m b. map_set (eb_id b) b m) [] survivor) source"
  have map: "badge_map ?m" by (intro merge_badges_fold_map badge_map_survivor)
  then show ?thesis using badge_map_keys [OF map] by (simp add: merge_badges_def badge_map_def)
qed

lemma join_opt_fold:
  "foldl (join_opt rt) (Some e) bs = Some (foldl (join_badge rt) e bs)"
  by (induction bs arbitrary: e) simp_all

lemma join_fold_id [simp]: "eb_id (foldl (join_badge rt) e bs) = eb_id e"
  by (induction bs arbitrary: e) simp_all

lemma join_fold_evidence:
  "set (eb_evidence (foldl (join_badge rt) e bs)) = set (eb_evidence e) \<union> (\<Union>b \<in> set bs. set (eb_evidence b))"
  by (induction bs arbitrary: e) (auto simp: join_badge_def)

text \<open>Every badge of either record is there, with at least its evidence.\<close>

lemma merge_badges_keep:
  assumes "distinct (map eb_id survivor)" "b \<in> set survivor \<or> b \<in> set source"
  shows "\<exists>m \<in> set (merge_badges rt survivor source). eb_id m = eb_id b \<and> set (eb_evidence b) \<subseteq> set (eb_evidence m)"
proof -
  let ?bs = "filter (\<lambda>e. eb_id e = eb_id b) source"
  obtain m where m: "foldl (join_opt rt) (find (\<lambda>e. eb_id e = eb_id b) survivor) ?bs = Some m"
    "eb_id m = eb_id b" "set (eb_evidence b) \<subseteq> set (eb_evidence m)"
  proof (cases "find (\<lambda>e. eb_id e = eb_id b) survivor")
    case (Some e)
    then have e: "e \<in> set survivor" "eb_id e = eb_id b" by (auto simp: find_Some_iff)
    have "b \<in> set survivor \<Longrightarrow> b = e" using Some find_id [OF assms(1), of b "eb_id b"] by simp
    then show ?thesis
      using that [of "foldl (join_badge rt) e ?bs"] assms(2) e Some by (auto simp: join_opt_fold join_fold_evidence)
  next
    case None
    then have "b \<in> set ?bs" using assms(2) by (auto simp: find_None_iff)
    then obtain c cs where c: "?bs = c # cs" by (cases ?bs) auto
    then have "eb_id c = eb_id b" by (metis (mono_tags, lifting) filter_eq_ConsD)
    moreover have "b \<in> set (c # cs)" using \<open>b \<in> set ?bs\<close> c by metis
    then have "set (eb_evidence b) \<subseteq> set (eb_evidence (foldl (join_badge rt) c cs))"
      by (auto simp: join_fold_evidence)
    ultimately show ?thesis using that [of "foldl (join_badge rt) c cs"] None c by (simp add: join_opt_fold)
  qed
  then show ?thesis using merge_badges_member [OF assms(1), of m rt source] by auto
qed

end
