(* ===== verification/Progress_Compare.thy ===== *)
theory Progress_Compare
  imports Progress_Record
begin

text \<open>
  What \<open>isSameProgressRecord\<close> decides. The canonical text of a value can be read back in only one
  way, up to the order of object members, so two values have the same text exactly when they
  are the same value with its members reordered.
\<close>

section \<open>Reading a quoted string back\<close>

definition hex_value :: "char \<Rightarrow> nat" where
  "hex_value c = (if (of_char c :: nat) \<le> 57 then of_char c - 48 else of_char c - 87)"

lemma hex_value_digit: "n < 16 \<Longrightarrow> hex_value (hex_digit n) = n"
  by (auto simp: hex_value_def hex_digit_def of_char_of)

text \<open>The first code unit of an escaped text and what follows it.\<close>

fun unescape :: "string \<Rightarrow> char \<times> string" where
  "unescape (a # b # s) =
     (if a \<noteq> CHR 0x5C then (a, b # s)
      else if b = CHR ''b'' then (CHR 0x08, s)
      else if b = CHR ''t'' then (CHR 0x09, s)
      else if b = CHR ''n'' then (CHR 0x0A, s)
      else if b = CHR ''f'' then (CHR 0x0C, s)
      else if b = CHR ''r'' then (CHR 0x0D, s)
      else if b = CHR ''u'' then (case s of _ # _ # h # l # r \<Rightarrow> (char_of (16 * hex_value h + hex_value l), r) | _ \<Rightarrow> (b, s))
      else (b, s))"
| "unescape [a] = (a, [])"
| "unescape [] = (CHR 0x00, [])"

lemma unescape_escape: "unescape (escape_char c @ x) = (c, x)"
proof (cases "c \<in> {CHR 0x22, CHR 0x5C, CHR 0x08, CHR 0x09, CHR 0x0A, CHR 0x0C, CHR 0x0D}")
  case True
  then show ?thesis by (elim insertE) (simp_all add: escape_char_def)
next
  case False
  show ?thesis
  proof (cases "(of_char c :: nat) < 32")
    case True
    let ?h = "hex_digit (of_char c div 16)" and ?l = "hex_digit (of_char c mod 16)"
    have "16 * hex_value ?h + hex_value ?l = of_char c"
      using True by (simp add: hex_value_digit)
    moreover have "escape_char c = [CHR 0x5C, CHR ''u'', CHR ''0'', CHR ''0'', ?h, ?l]"
      using False True by (simp add: escape_char_def)
    moreover have "unescape ([CHR 0x5C, CHR ''u'', CHR ''0'', CHR ''0'', a, b] @ x)
        = (char_of (16 * hex_value a + hex_value b), x)" for a b by simp
    ultimately show ?thesis by (simp only: char_of_char)
  next
    case False': False
    then have "escape_char c = [c]" using False by (simp add: escape_char_def)
    then show ?thesis using False by (cases x) simp_all
  qed
qed

lemma escape_char_inj: "escape_char c @ x = escape_char d @ y \<Longrightarrow> c = d \<and> x = y"
  by (metis prod.inject unescape_escape)

lemma escape_char_head: "\<exists>a s. escape_char c = a # s \<and> a \<noteq> CHR 0x22"
  by (simp add: escape_char_def)

lemma quote_body_inj:
  "concat (map escape_char s) @ CHR 0x22 # x = concat (map escape_char t) @ CHR 0x22 # y \<Longrightarrow> s = t \<and> x = y"
proof (induction s arbitrary: t)
  case Nil
  then show ?case using escape_char_head by (cases t) (auto, metis append_Cons list.inject)
next
  case (Cons c s)
  show ?case
  proof (cases t)
    case Nil
    then show ?thesis using Cons.prems escape_char_head [of c] by auto
  next
    case (Cons d u)
    then have "escape_char c @ concat (map escape_char s) @ CHR 0x22 # x
        = escape_char d @ concat (map escape_char u) @ CHR 0x22 # y" using Cons.prems by simp
    from escape_char_inj [OF this] Cons.IH Cons show ?thesis by auto
  qed
qed

lemma quote_text_inj: "quote_text s @ x = quote_text t @ y \<Longrightarrow> s = t \<and> x = y"
  using quote_body_inj [of s x t y] by (simp add: quote_text_def)

section \<open>Values up to the order of members\<close>

text \<open>Values as the records have them: finite numbers, no undefined part, distinct member names.\<close>

fun plain_json :: "json \<Rightarrow> bool" where
  "plain_json JUndefined = False"
| "plain_json (JNum (Fin r)) = True"
| "plain_json (JNum _) = False"
| "plain_json (JArr xs) \<longleftrightarrow> (\<forall>x \<in> set xs. plain_json x)"
| "plain_json (JObj kvs) \<longleftrightarrow> distinct (map fst kvs) \<and> (\<forall>p \<in> set kvs. plain_json (snd p))"
| "plain_json JNull = True"
| "plain_json (JBool b) = True"
| "plain_json (JStr s) = True"

fun normal_json :: "json \<Rightarrow> json" where
  "normal_json (JArr xs) = JArr (map normal_json xs)"
| "normal_json (JObj kvs) = JObj (unit_sort_keys (map (\<lambda>(k, v). (k, normal_json v)) kvs))"
| "normal_json v = v"

text \<open>What is documented of the text of finite numbers: no two have the same, and it is a number literal.\<close>

definition number_char :: "char \<Rightarrow> bool" where
  "number_char c \<longleftrightarrow> digit_char c \<or> c \<in> {CHR ''-'', CHR ''+'', CHR ''.'', CHR ''e''}"

definition num_text_ok :: "runtime \<Rightarrow> bool" where
  "num_text_ok rt \<longleftrightarrow> inj (num_text rt) \<and> (\<forall>r. list_all number_char (num_text rt r) \<and> num_text rt r \<noteq> []
     \<and> (digit_char (hd (num_text rt r)) \<or> hd (num_text rt r) = CHR ''-''))"

text \<open>What follows a value inside a text.\<close>

definition follows :: "string \<Rightarrow> bool" where
  "follows x \<longleftrightarrow> x = [] \<or> hd x \<in> {CHR '','', CHR '']'', CHR ''}''}"

lemma follows_simps [simp]: "follows []" "follows (c # x) \<longleftrightarrow> c \<in> {CHR '','', CHR '']'', CHR ''}''}"
  by (simp_all add: follows_def)

lemma number_follow:
  assumes "list_all number_char a" "list_all number_char b" "follows x" "follows y" "a @ x = b @ y"
  shows "a = b \<and> x = y"
proof -
  have stop: "takeWhile number_char (c @ z) = c" if "list_all number_char c" "follows z" for c z
    using that by (cases z) (auto simp: list_all_iff number_char_def digit_char_def)
  then have "a = b" using assms by metis
  then show ?thesis using assms(5) by simp
qed

text \<open>The first character tells the kind of value.\<close>

lemma canonicalize_head:
  assumes "num_text_ok rt" "plain_json j"
  shows "\<exists>c s. canonicalize rt j = c # s \<and> (case j of JNull \<Rightarrow> c = CHR ''n'' | JBool b \<Rightarrow> c = (if b then CHR ''t'' else CHR ''f'')
    | JNum _ \<Rightarrow> digit_char c \<or> c = CHR ''-'' | JStr _ \<Rightarrow> c = CHR 0x22 | JArr _ \<Rightarrow> c = CHR ''[''
    | JObj _ \<Rightarrow> c = CHR ''{'' | JUndefined \<Rightarrow> False)"
proof (cases j)
  case (JNum n)
  then obtain r where "n = Fin r" using assms(2) by (cases n) auto
  moreover obtain c s where "num_text rt r = c # s" "digit_char c \<or> c = CHR ''-''"
    using assms(1) by (cases "num_text rt r") (auto simp: num_text_ok_def dest: spec [of _ r])
  ultimately show ?thesis using JNum by simp
qed (use assms in \<open>auto simp: quote_text_def\<close>)

text \<open>Lists of texts that are separated by commas and closed by one character.\<close>

lemma join_text_Cons: "join_text '','' (t # ts) @ z # x = t @ (if ts = [] then z # x else CHR '','' # join_text '','' ts @ z # x)"
  by (cases ts) simp_all

lemma joined_inj:
  assumes "join_text '','' (map f as) @ z # x = join_text '','' (map f bs) @ z # y"
    and "z \<in> {CHR '']'', CHR ''}''}"
    and "\<And>a b u v. a \<in> set as \<Longrightarrow> b \<in> set bs \<Longrightarrow> follows u \<Longrightarrow> follows v \<Longrightarrow> f a @ u = f b @ v \<Longrightarrow> R a b \<and> u = v"
    and "\<And>a. a \<in> set as \<union> set bs \<Longrightarrow> \<exists>c s. f a = c # s \<and> c \<notin> {CHR '']'', CHR ''}''}"
  shows "list_all2 R as bs \<and> x = y"
  using assms(1,3,4)
proof (induction as arbitrary: bs)
  case Nil
  show ?case
  proof (cases bs)
    case (Cons b cs)
    then show ?thesis using Nil(1) Nil(3) [of b] assms(2) by (auto simp: join_text_Cons)
  qed (use Nil in simp)
next
  case (Cons a as)
  show ?case
  proof (cases bs)
    case Nil
    then show ?thesis using Cons.prems(1) Cons.prems(3) [of a] assms(2) by (auto simp: join_text_Cons)
  next
    case bs: (Cons b cs)
    let ?u = "if map f as = [] then z # x else CHR '','' # join_text '','' (map f as) @ z # x"
    let ?v = "if map f cs = [] then z # y else CHR '','' # join_text '','' (map f cs) @ z # y"
    have "f a @ ?u = f b @ ?v" using Cons.prems(1) unfolding bs list.map join_text_Cons .
    then have r: "R a b" "?u = ?v"
      using Cons.prems(2) [of a b ?u ?v] assms(2) bs by auto
    have "z \<noteq> CHR '',''" using assms(2) by auto
    then have "join_text '','' (map f as) @ z # x = join_text '','' (map f cs) @ z # y"
      using r(2) by (cases "as = []"; cases "cs = []") auto
    then have "list_all2 R as cs \<and> x = y"
      by (rule Cons.IH) (use Cons.prems(2,3) bs in auto)
    then show ?thesis using r(1) bs by simp
  qed
qed



section \<open>The canonical text determines the value\<close>

lemma unit_sort_map: "unit_sort_keys (map (\<lambda>(k, v). (k, f v)) kvs) = map (\<lambda>(k, v). (k, f v)) (unit_sort_keys kvs)"
  unfolding unit_sort_keys_def by (subst js_sort_map) (simp add: case_prod_beta)

lemma set_keys_sorted: "distinct (map fst (unit_sort_keys kvs)) \<longleftrightarrow> distinct (map fst kvs)"
  unfolding unit_sort_keys_def by (metis mset_js_sort mset_map distinct_map mset_eq_imp_distinct_iff)

lemma list_all2_map_eq: "list_all2 (\<lambda>a b. g a = g b) xs ys \<Longrightarrow> map g xs = map g ys"
  by (induction xs ys rule: list_all2_induct) simp_all

interpretation by_key: comparator "\<lambda>a b. unit_cmp (fst a) (fst b)"
  by unfold_locales (simp, rule unit_cmp_antisym, rule unit_cmp_trans)

lemma canonicalize_inj:
  assumes rt: "num_text_ok rt"
  shows "plain_json j \<Longrightarrow> plain_json k \<Longrightarrow> follows x \<Longrightarrow> follows y
    \<Longrightarrow> canonicalize rt j @ x = canonicalize rt k @ y \<Longrightarrow> normal_json j = normal_json k \<and> x = y"
proof (induction j arbitrary: k x y rule: plain_json.induct)
  case (2 r)
  then obtain s where k: "k = JNum (Fin s)"
    using canonicalize_head [OF rt, of k] canonicalize_head [OF rt, of "JNum (Fin r)"]
    by (cases k rule: plain_json.cases) (auto simp: digit_char_def split: if_splits)
  then have "num_text rt r = num_text rt s \<and> x = y"
    using rt 2 number_follow [of "num_text rt r" "num_text rt s" x y] by (simp add: num_text_ok_def)
  then show ?case using rt k by (auto simp: num_text_ok_def dest: injD)
next
  case (4 xs)
  then obtain ys where k: "k = JArr ys"
    using canonicalize_head [OF rt, of k] canonicalize_head [OF rt, of "JArr xs"]
    by (cases k rule: plain_json.cases) (auto simp: digit_char_def split: if_splits)
  have "list_all2 (\<lambda>a b. normal_json a = normal_json b) xs ys \<and> x = y"
  proof (rule joined_inj [where f = "canonicalize rt" and z = "CHR '']''"])
    show "join_text '','' (map (canonicalize rt) xs) @ CHR '']'' # x
      = join_text '','' (map (canonicalize rt) ys) @ CHR '']'' # y" using 4 k by simp
    show "normal_json a = normal_json b \<and> u = v"
      if "a \<in> set xs" "b \<in> set ys" "follows u" "follows v" "canonicalize rt a @ u = canonicalize rt b @ v" for a b u v
      using that 4 k by auto
    show "\<exists>c s. canonicalize rt a = c # s \<and> c \<notin> {CHR '']'', CHR ''}''}" if "a \<in> set xs \<union> set ys" for a
      using that 4 k canonicalize_head [OF rt, of a] by (cases a) (auto simp: digit_char_def split: if_splits)
  qed simp
  then show ?case unfolding k normal_json.simps using list_all2_map_eq by blast
next
  case (5 kvs)
  then obtain ls where k: "k = JObj ls"
    using canonicalize_head [OF rt, of k] canonicalize_head [OF rt, of "JObj kvs"]
    by (cases k rule: plain_json.cases) (auto simp: digit_char_def split: if_splits)
  let ?f = "\<lambda>(k, v). quote_text k @ '':'' @ canonicalize rt v"
  let ?g = "\<lambda>(k :: string, v). (k, normal_json v)"
  have "list_all2 (\<lambda>p q. ?g p = ?g q) (unit_sort_keys kvs) (unit_sort_keys ls) \<and> x = y"
  proof (rule joined_inj [where f = ?f and z = "CHR ''}''"])
    show "join_text '','' (map ?f (unit_sort_keys kvs)) @ CHR ''}'' # x
      = join_text '','' (map ?f (unit_sort_keys ls)) @ CHR ''}'' # y" using 5 k by simp
    show "?g p = ?g q \<and> u = v"
      if "p \<in> set (unit_sort_keys kvs)" "q \<in> set (unit_sort_keys ls)" "follows u" "follows v" "?f p @ u = ?f q @ v"
      for p q u v
    proof -
      obtain a i b l where pq: "p = (a, i)" "q = (b, l)" by (cases p, cases q)
      then have "quote_text a @ CHR '':'' # canonicalize rt i @ u = quote_text b @ CHR '':'' # canonicalize rt l @ v"
        using that(5) unfolding pq prod.case by simp
      then have ab: "a = b" "canonicalize rt i @ u = canonicalize rt l @ v" using quote_text_inj [of a "CHR '':'' # canonicalize rt i @ u" b "CHR '':'' # canonicalize rt l @ v"] by simp_all
      have "p \<in> set kvs" "plain_json i" "plain_json l" using that pq 5 k by auto
      then show ?thesis using "5.IH" [of p l u v] that(3,4) ab pq by simp
    qed
    show "\<exists>c s. ?f a = c # s \<and> c \<notin> {CHR '']'', CHR ''}''}"
      if "a \<in> set (unit_sort_keys kvs) \<union> set (unit_sort_keys ls)" for a
      by (cases a) (simp add: quote_text_def)
  qed simp
  then show ?case
    unfolding k normal_json.simps unit_sort_map using list_all2_map_eq by blast
next
  case (7 b)
  then have "k = JBool b"
    using canonicalize_head [OF rt, of k] canonicalize_head [OF rt, of "JBool b"]
    by (cases k rule: plain_json.cases) (auto simp: digit_char_def split: if_splits)
  then show ?case using 7 by simp
next
  case (8 s)
  then obtain t where "k = JStr t"
    using canonicalize_head [OF rt, of k] canonicalize_head [OF rt, of "JStr s"]
    by (cases k rule: plain_json.cases) (auto simp: digit_char_def split: if_splits)
  then show ?case using 8 quote_text_inj [of s x t y] by simp
next
  case 6
  then have "k = JNull"
    using canonicalize_head [OF rt, of k]
    by (cases k rule: plain_json.cases) (auto simp: digit_char_def split: if_splits)
  then show ?case using 6 by simp
qed simp_all

lemma canonicalize_normal: "plain_json j \<Longrightarrow> canonicalize rt (normal_json j) = canonicalize rt j"
proof (induction j rule: plain_json.induct)
  case (4 xs)
  then show ?case by (simp add: comp_def cong: map_cong)
next
  case (5 kvs)
  have twice: "unit_sort_keys (unit_sort_keys kvs) = unit_sort_keys kvs"
    unfolding unit_sort_keys_def by (rule js_sort_id) (rule by_key.sort_sorted)
  have "map (\<lambda>(k, v). quote_text k @ '':'' @ canonicalize rt v) (map (\<lambda>(k, v). (k, normal_json v)) (unit_sort_keys kvs))
      = map (\<lambda>(k, v). quote_text k @ '':'' @ canonicalize rt v) (unit_sort_keys kvs)"
    using 5 by auto
  then show ?case unfolding normal_json.simps canonicalize.simps unit_sort_map twice by (simp only:)
qed simp_all

text \<open>The values agree up to the order of members exactly when the canonical texts are equal.\<close>

lemma same_progress_record_iff:
  assumes "num_text_ok rt" "plain_json l" "plain_json r"
  shows "is_same_progress_record rt l r \<longleftrightarrow> normal_json l = normal_json r"
  using canonicalize_inj [OF assms, of "[]" "[]"] canonicalize_normal [of l rt] canonicalize_normal [of r rt] assms
  by (auto simp: is_same_progress_record_def)

lemma normal_json_prop:
  assumes "distinct (map fst kvs)"
  shows "get_prop (normal_json (JObj kvs)) k = normal_json (get_prop (JObj kvs) k)"
proof -
  let ?g = "\<lambda>(k :: string, v). (k, normal_json v)"
  have "distinct (map fst (map ?g kvs))" using assms by (simp add: comp_def case_prod_beta)
  then have "map_of (unit_sort_keys (map ?g kvs)) = map_of (map ?g kvs)"
    by (intro map_of_inject_set [THEN iffD2]) (simp_all add: set_keys_sorted)
  moreover have "map_of (map ?g kvs) k = map_option normal_json (map_of kvs k)"
    by (induction kvs) auto
  ultimately show ?thesis by (simp split: option.split)
qed

lemma plain_attempt: "plain_json (attempt_json a) \<longleftrightarrow> (\<exists>x. at_score a = Fin x)"
  by (cases "at_score a") (simp_all add: attempt_json_def)

lemma attempt_json_normal_inj:
  assumes "normal_json (attempt_json a) = normal_json (attempt_json b)"
  shows "a = b"
proof -
  have "get_prop (normal_json (attempt_json a)) k = get_prop (normal_json (attempt_json b)) k" for k
    using assms by simp
  then have eq: "normal_json (get_prop (attempt_json a) k) = normal_json (get_prop (attempt_json b) k)" for k
    unfolding attempt_json_def by (subst (asm) (1 2) normal_json_prop) simp_all
  from eq [of "''id''"] eq [of "''pathId''"] eq [of "''moduleId''"] eq [of "''contentVersion''"]
    eq [of "''scorePercent''"] eq [of "''passed''"] eq [of "''completedAt''"]
  show ?thesis by (simp add: attempt_json_def)
qed

lemma same_attempt_refl [simp]: "same_attempt rt a a"
  by (simp add: same_attempt_def is_same_progress_record_def)

lemma same_submission_refl [simp]: "same_submission rt s s"
  by (simp add: same_submission_def is_same_progress_record_def)

lemma same_attempt_iff:
  assumes "num_text_ok rt" "at_score a = Fin x" "at_score b = Fin y"
  shows "same_attempt rt a b \<longleftrightarrow> a = b"
  using same_progress_record_iff [OF assms(1), of "attempt_json a" "attempt_json b"]
    attempt_json_normal_inj [of a b] assms(2,3) by (auto simp: same_attempt_def plain_attempt)
end
