(* ===== verification/Progress_Recording.thy ===== *)
theory Progress_Recording
  imports Progress_Record
begin

text \<open>
  The recording operations as steps: what each does when it succeeds, the records they can produce
  from an empty one, and what holds of every such record.
\<close>

section \<open>Badges\<close>

definition path_complete :: "string list \<Rightarrow> learning_path \<Rightarrow> bool" where
  "path_complete completed path \<longleftrightarrow> set (pa_modules path) \<subseteq> set completed"

definition badge_of :: "learning_path \<Rightarrow> string \<Rightarrow> earned_badge" where
  "badge_of path earned = \<lparr>eb_id = pb_id (pa_badge path), eb_name = pb_name (pa_badge path),
     eb_description = pb_description (pa_badge path), eb_earned_at = earned, eb_evidence = pa_modules path\<rparr>"

definition badge_step :: "string list \<Rightarrow> string \<Rightarrow> earned_badge list \<Rightarrow> learning_path \<Rightarrow> earned_badge list" where
  "badge_step completed earned badges path =
     (if path_complete completed path \<and> \<not> (\<exists>b \<in> set badges. eb_id b = pb_id (pa_badge path))
      then badges @ [badge_of path earned] else badges)"

lemma derive_badges_steps:
  "derive_badges c completed existing earned = foldl (badge_step completed earned) existing (ct_paths c)"
proof -
  have "(\<lambda>badges path. if list_all (\<lambda>m. m \<in> set completed) (pa_modules path)
        \<and> \<not> list_ex (\<lambda>b. eb_id b = pb_id (pa_badge path)) badges
     then badges @ [\<lparr>eb_id = pb_id (pa_badge path), eb_name = pb_name (pa_badge path),
       eb_description = pb_description (pa_badge path), eb_earned_at = earned,
       eb_evidence = pa_modules path\<rparr>]
     else badges) = badge_step completed earned"
    by (intro ext) (auto simp: badge_step_def path_complete_def badge_of_def list_all_iff list_ex_iff)
  then show ?thesis by (simp only: derive_badges_def)
qed

abbreviation badge_steps :: "string list \<Rightarrow> string \<Rightarrow> earned_badge list \<Rightarrow> learning_path list \<Rightarrow> earned_badge list" where
  "badge_steps completed earned \<equiv> foldl (badge_step completed earned)"

lemma badge_steps_keep: "set bs \<subseteq> set (badge_steps completed earned bs paths)"
proof (induction paths arbitrary: bs)
  case (Cons path paths)
  have "set bs \<subseteq> set (badge_step completed earned bs path)" by (auto simp: badge_step_def)
  then show ?case using Cons.IH [of "badge_step completed earned bs path"] by auto
qed simp

lemma badge_steps_origin:
  "b \<in> set (badge_steps completed earned bs paths)
    \<Longrightarrow> b \<in> set bs \<or> (\<exists>path \<in> set paths. path_complete completed path \<and> b = badge_of path earned)"
proof (induction paths arbitrary: bs)
  case (Cons path paths)
  from Cons.IH [of "badge_step completed earned bs path"] Cons.prems show ?case
    by (auto simp: badge_step_def split: if_splits)
qed simp

lemma badge_steps_complete:
  "path \<in> set paths \<Longrightarrow> path_complete completed path
    \<Longrightarrow> \<exists>b \<in> set (badge_steps completed earned bs paths). eb_id b = pb_id (pa_badge path)"
proof (induction paths arbitrary: bs)
  case (Cons q paths)
  show ?case
  proof (cases "path \<in> set paths")
    case True
    then show ?thesis using Cons by simp
  next
    case False
    then have "\<exists>b \<in> set (badge_step completed earned bs path). eb_id b = pb_id (pa_badge path)"
      using Cons.prems by (auto simp: badge_step_def badge_of_def)
    then show ?thesis
      using False Cons.prems badge_steps_keep [of "badge_step completed earned bs path" completed earned paths] by auto
  qed
qed simp

lemma badge_steps_distinct: "distinct (map eb_id bs) \<Longrightarrow> distinct (map eb_id (badge_steps completed earned bs paths))"
proof (induction paths arbitrary: bs)
  case (Cons path paths)
  then have "distinct (map eb_id (badge_step completed earned bs path))"
    by (auto simp: badge_step_def badge_of_def)
  then show ?case using Cons.IH by simp
qed simp

section \<open>The steps\<close>

text \<open>A recorded attempt or capstone that completes its module.\<close>

lemma record_attempt_cases:
  assumes "record_assessment_attempt p c i = Inr p'"
  obtains (known) "ai_attempt i \<in> at_id ` set (lp_attempts p)" "p' = p"
  | (new) path m a after where "ai_attempt i \<notin> at_id ` set (lp_attempts p)"
      "find_path c (ai_path i) = Some path" "find_module c (ai_module i) = Some m"
      "ai_module i \<in> set (pa_modules path)"
      "a = \<lparr>at_id = ai_attempt i, at_path = ai_path i, at_module = ai_module i,
          at_content_version = ct_content_version c, at_score = ar_score (ai_result i),
          at_passed = ar_passed (ai_result i), at_completed_at = ai_completed_at i\<rparr>"
      "after = (if at_passed a
          \<and> (lm_capstone m = None \<or> (\<exists>s \<in> set (capstones_of p). sub_module s = ai_module i \<and> sub_passed s))
          \<and> ai_module i \<notin> set (lp_completed_modules p)
        then lp_completed_modules p @ [ai_module i] else lp_completed_modules p)"
      "p' = p\<lparr>lp_started_paths := include_once (ai_path i) (lp_started_paths p),
          lp_completed_modules := after,
          lp_attempts := lp_attempts p @ [a], lp_capstones := Some (capstones_of p),
          lp_badges := derive_badges c after (lp_badges p) (ai_completed_at i),
          lp_updated_at := ai_completed_at i\<rparr>"
proof (cases "list_ex (\<lambda>a. at_id a = ai_attempt i) (lp_attempts p)")
  case True
  then show thesis using assms by (intro known) (force simp: record_assessment_attempt_def list_ex_iff)+
next
  case fresh: False
  then obtain path m where pm: "find_path c (ai_path i) = Some path" "find_module c (ai_module i) = Some m"
    "lm_id m \<in> set (pa_modules path)"
    using assms by (auto simp: record_assessment_attempt_def split: option.splits if_splits)
  moreover have "lm_id m = ai_module i" using find_module_Some [OF pm(2)] by simp
  ultimately show thesis
    using assms fresh by (intro new [OF _ pm(1,2) _ refl refl])
      (auto simp: record_assessment_attempt_def Let_def list_ex_iff)
qed

text \<open>The points awarded and available, and the percentage.\<close>

definition capstone_score :: "jsnum \<times> jsnum \<Rightarrow> jsnum" where
  "capstone_score st = num_round (num_times_100 (num_div (fst st) (snd st)))"

lemma record_capstone_cases:
  assumes "record_capstone_submission p c i = Inr p'"
  obtains (known) "ci_submission i \<in> sub_id ` set (capstones_of p)" "p' = p"
  | (new) path m cap st s after where "ci_submission i \<notin> sub_id ` set (capstones_of p)"
      "find_path c (ci_path i) = Some path" "find_module c (ci_module i) = Some m"
      "ci_module i \<in> set (pa_modules path)" "lm_capstone m = Some cap"
      "fold_result (score_criterion cap (ci_scores i) (ci_artifacts i)
          (map (\<lambda>a. ''assessment:'' @ at_id a)
            (filter (\<lambda>a. at_path a = ci_path i \<and> at_module a = ci_module i) (lp_attempts p))))
          (Fin 0, Fin 0) (cd_criteria cap) = Inr st"
      "s = \<lparr>sub_id = ci_submission i, sub_path = ci_path i, sub_module = ci_module i,
          sub_content_version = ct_content_version c, sub_submitted_at = ci_submitted_at i,
          sub_artifacts = ci_artifacts i, sub_criteria = ci_scores i, sub_score = capstone_score st,
          sub_passed = num_le (cd_pass_percent cap) (capstone_score st), sub_reflection = ci_reflection i\<rparr>"
      "after = (if sub_passed s
          \<and> (\<exists>a \<in> set (lp_attempts p). at_module a = ci_module i \<and> at_passed a)
          \<and> ci_module i \<notin> set (lp_completed_modules p)
        then lp_completed_modules p @ [ci_module i] else lp_completed_modules p)"
      "p' = p\<lparr>lp_started_paths := include_once (ci_path i) (lp_started_paths p),
          lp_completed_modules := after, lp_capstones := Some (capstones_of p @ [s]),
          lp_badges := derive_badges c after (lp_badges p) (ci_submitted_at i),
          lp_updated_at := ci_submitted_at i\<rparr>"
      "length (cd_artifacts cap) \<le> length (ci_artifacts i)" "js_trim (ci_reflection i) \<noteq> []"
      "\<forall>r \<in> set (ci_artifacts i). js_trim r \<noteq> []" "distinct (map cs_criterion (ci_scores i))"
      "length (ci_scores i) = length (cd_criteria cap)"
proof (cases "list_ex (\<lambda>s. sub_id s = ci_submission i) (capstones_of p)")
  case True
  then show thesis using assms by (intro known) (force simp: record_capstone_submission_def list_ex_iff)+
next
  case fresh: False
  then obtain path m cap where pm: "find_path c (ci_path i) = Some path" "find_module c (ci_module i) = Some m"
    "lm_id m \<in> set (pa_modules path)" "lm_capstone m = Some cap"
    using assms by (auto simp: record_capstone_submission_def split: option.splits if_splits bool.splits)
  have ids: "lm_id m = ci_module i" "pa_id path = ci_path i"
    using find_module_Some [OF pm(2)] find_path_Some [OF pm(1)] by simp_all
  let ?fold = "fold_result (score_criterion cap (ci_scores i) (ci_artifacts i)
        (map (\<lambda>a. ''assessment:'' @ at_id a)
          (filter (\<lambda>a. at_path a = ci_path i \<and> at_module a = ci_module i) (lp_attempts p))))
        (Fin 0, Fin 0) (cd_criteria cap)"
  obtain st where st: "?fold = Inr st"
    using assms fresh pm ids
    by (cases ?fold) (auto simp: record_capstone_submission_def split: if_splits)
  have checks: "length (cd_artifacts cap) \<le> length (ci_artifacts i)" "js_trim (ci_reflection i) \<noteq> []"
    "\<forall>r \<in> set (ci_artifacts i). js_trim r \<noteq> []"
    "card (set (map cs_criterion (ci_scores i))) = length (ci_scores i)"
    "length (ci_scores i) = length (cd_criteria cap)"
    using assms fresh pm ids st unfolding record_capstone_submission_def
    by (auto simp: list_ex_iff split: if_splits)
  show thesis
    using assms fresh pm ids st checks unfolding record_capstone_submission_def
    by (intro new [OF _ pm(1,2) _ pm(4) st refl refl])
      (auto simp: Let_def list_ex_iff capstone_score_def case_prod_beta intro!: card_distinct split: if_splits)
qed

lemma record_visit_cases:
  assumes "record_module_visit p c i = Inr p'"
  shows "\<exists>path. find_path c (rm_path i) = Some path \<and> rm_module i \<in> set (pa_modules path)
    \<and> p' = p\<lparr>lp_started_paths := include_once (rm_path i) (lp_started_paths p),
        lp_recent := Some i, lp_updated_at := rm_visited_at i\<rparr>"
  using assms by (auto simp: record_module_visit_def split: option.splits if_splits)


section \<open>Scores\<close>

lemma score_criterion_part:
  assumes "score_criterion cap scores refs checks st cr = Inr st'" "part_of (fst st) (snd st)"
  shows "part_of (fst st') (snd st')"
proof -
  obtain s :: criterion_score where s: "num_integer (cs_points s)" "\<not> num_less (cs_points s) (Fin 0)"
    "\<not> num_less (cr_max_points cr) (cs_points s)"
    "st' = (num_add (fst st) (cs_points s), num_add (snd st) (cr_max_points cr))"
  proof (cases "score_by_criterion scores (cr_id cr)")
    case (Some s)
    then show ?thesis using assms(1) that [of s] by (simp add: score_criterion_def split: if_splits)
  qed (use assms(1) in \<open>simp add: score_criterion_def\<close>)
  then obtain r where "cs_points s = Fin r" by (cases "cs_points s") auto
  then have "part_of (cs_points s) (cr_max_points cr)"
    using s(2,3) by (cases "cr_max_points cr") (auto simp: part_of_def)
  then show ?thesis using s(4) part_of_add [OF assms(2)] by simp
qed

definition percent_or_nan :: "jsnum \<Rightarrow> bool" where
  "percent_or_nan n \<longleftrightarrow> n = NaN \<or> (\<exists>i. n = Fin (of_int i) \<and> 0 \<le> i \<and> i \<le> 100)"

lemma capstone_score_bounds:
  assumes "fold_result (score_criterion cap scores refs checks) (Fin 0, Fin 0) criteria = Inr st"
  shows "percent_or_nan (capstone_score st)"
proof -
  have "part_of (fst st) (snd st)"
  proof (rule fold_result_invariant [OF assms, where P = "\<lambda>st. part_of (fst st) (snd st)"])
    show "part_of (fst (Fin 0, Fin 0)) (snd (Fin 0, Fin 0))" by (simp add: part_of_def)
  qed (rule score_criterion_part)
  then show ?thesis using part_of_percent [of "fst st" "snd st"] by (simp add: percent_or_nan_def capstone_score_def)
qed

section \<open>Records that recording can produce\<close>

inductive recorded :: "catalog \<Rightarrow> learner_progress \<Rightarrow> bool" for c where
  empty: "recorded c (create_empty_progress name)"
| attempt: "recorded c p \<Longrightarrow> record_assessment_attempt p c i = Inr p' \<Longrightarrow> recorded c p'"
| capstone: "recorded c p \<Longrightarrow> record_capstone_submission p c j = Inr p' \<Longrightarrow> recorded c p'"
| visit: "recorded c p \<Longrightarrow> record_module_visit p c r = Inr p' \<Longrightarrow> recorded c p'"

text \<open>What completes a module: a passed attempt and, where it has a capstone, a passed submission.\<close>

definition module_earned :: "catalog \<Rightarrow> learner_progress \<Rightarrow> string \<Rightarrow> bool" where
  "module_earned c p i \<longleftrightarrow> (\<exists>m. find_module c i = Some m
     \<and> (\<exists>a \<in> set (lp_attempts p). at_module a = i \<and> at_passed a)
     \<and> (lm_capstone m = None \<or> (\<exists>s \<in> set (capstones_of p). sub_module s = i \<and> sub_passed s)))"

definition badges_sound :: "catalog \<Rightarrow> string list \<Rightarrow> earned_badge list \<Rightarrow> bool" where
  "badges_sound c completed badges \<longleftrightarrow> distinct (map eb_id badges)
     \<and> (\<forall>path \<in> set (ct_paths c). path_complete completed path \<longrightarrow> (\<exists>b \<in> set badges. eb_id b = pb_id (pa_badge path)))
     \<and> (\<forall>b \<in> set badges. \<exists>path \<in> set (ct_paths c). path_complete completed path \<and> b = badge_of path (eb_earned_at b))"

definition record_sound :: "catalog \<Rightarrow> learner_progress \<Rightarrow> bool" where
  "record_sound c p \<longleftrightarrow> distinct (map at_id (lp_attempts p)) \<and> distinct (map sub_id (capstones_of p))
     \<and> distinct (lp_started_paths p) \<and> distinct (lp_completed_modules p)
     \<and> (\<forall>m. m \<in> set (lp_completed_modules p) \<longleftrightarrow> module_earned c p m)
     \<and> badges_sound c (lp_completed_modules p) (lp_badges p)
     \<and> (\<forall>a \<in> set (lp_attempts p). at_path a \<in> set (lp_started_paths p)
         \<and> (\<exists>path. find_path c (at_path a) = Some path \<and> at_module a \<in> set (pa_modules path)))
     \<and> (\<forall>s \<in> set (capstones_of p). percent_or_nan (sub_score s))"

lemma badges_sound_derive:
  assumes "badges_sound c old badges" and "set old \<subseteq> set new"
  shows "badges_sound c new (derive_badges c new badges earned)"
proof -
  have mono: "path_complete old path \<Longrightarrow> path_complete new path" for path
    using assms(2) by (auto simp: path_complete_def)
  show ?thesis
    unfolding badges_sound_def derive_badges_steps
  proof (intro conjI ballI impI)
    show "distinct (map eb_id (badge_steps new earned badges (ct_paths c)))"
      using assms(1) by (intro badge_steps_distinct) (simp add: badges_sound_def)
    show "\<exists>b \<in> set (badge_steps new earned badges (ct_paths c)). eb_id b = pb_id (pa_badge path)"
      if "path \<in> set (ct_paths c)" "path_complete new path" for path
      using that by (rule badge_steps_complete)
    show "\<exists>path \<in> set (ct_paths c). path_complete new path \<and> b = badge_of path (eb_earned_at b)"
      if "b \<in> set (badge_steps new earned badges (ct_paths c))" for b
    proof -
      from badge_steps_origin [OF that] show ?thesis
      proof
        assume "b \<in> set badges"
        then show ?thesis using assms(1) mono unfolding badges_sound_def by blast
      qed (auto simp: badge_of_def)
    qed
  qed
qed

lemma include_once_simps [simp]: "set (include_once x xs) = insert x (set xs)"
  "distinct (include_once x xs) \<longleftrightarrow> distinct xs"
  by (auto simp: include_once_def)

lemma capstones_of_simps [simp]: "lp_capstones p = Some ss \<Longrightarrow> capstones_of p = ss"
  by (simp add: capstones_of_def)

lemma record_attempt_sound:
  assumes sound: "record_sound c p" and "record_assessment_attempt p c i = Inr p'"
  shows "record_sound c p'"
  using assms(2)
proof (cases rule: record_attempt_cases)
  case (new path m a after)
  have fields: "lp_attempts p' = lp_attempts p @ [a]" "capstones_of p' = capstones_of p"
    "lp_started_paths p' = include_once (ai_path i) (lp_started_paths p)"
    "lp_badges p' = derive_badges c after (lp_badges p) (ai_completed_at i)"
    "lp_completed_modules p' = after"
    by (simp_all add: new(7) capstones_of_def)
  have a: "at_id a = ai_attempt i" "at_path a = ai_path i" "at_module a = ai_module i" by (simp_all add: new(5))
  have "k \<in> set after \<longleftrightarrow> module_earned c p' k" for k
    using sound new(3) a(3) unfolding record_sound_def module_earned_def fields new(6) by auto
  moreover have "set (lp_completed_modules p) \<subseteq> set after" "distinct after"
    using sound by (auto simp: new(6) record_sound_def)
  ultimately show ?thesis
    using sound new(1,2,4) a unfolding record_sound_def fields
    by (auto intro!: badges_sound_derive [of c "lp_completed_modules p"])
qed (use sound in simp)

lemma record_capstone_sound:
  assumes sound: "record_sound c p" and "record_capstone_submission p c i = Inr p'"
  shows "record_sound c p'"
  using assms(2)
proof (cases rule: record_capstone_cases)
  case (new path m cap st s after)
  have fields: "lp_attempts p' = lp_attempts p" "capstones_of p' = capstones_of p @ [s]"
    "lp_started_paths p' = include_once (ci_path i) (lp_started_paths p)"
    "lp_badges p' = derive_badges c after (lp_badges p) (ci_submitted_at i)"
    "lp_completed_modules p' = after"
    by (simp_all add: new(9) capstones_of_def)
  have s: "sub_id s = ci_submission i" "sub_module s = ci_module i" "percent_or_nan (sub_score s)"
    using capstone_score_bounds [OF new(6)] by (simp_all add: new(7))
  have "k \<in> set after \<longleftrightarrow> module_earned c p' k" for k
    using sound new(3,5) s(2) unfolding record_sound_def module_earned_def fields new(8) by auto
  moreover have "set (lp_completed_modules p) \<subseteq> set after" "distinct after"
    using sound by (auto simp: new(8) record_sound_def)
  ultimately show ?thesis
    using sound new(1) s unfolding record_sound_def fields
    by (auto intro!: badges_sound_derive [of c "lp_completed_modules p"])
qed (use sound in simp)

lemma record_visit_sound:
  assumes sound: "record_sound c p" and "record_module_visit p c r = Inr p'"
  shows "record_sound c p'"
proof -
  obtain path where "p' = p\<lparr>lp_started_paths := include_once (rm_path r) (lp_started_paths p),
        lp_recent := Some r, lp_updated_at := rm_visited_at r\<rparr>"
    using record_visit_cases [OF assms(2)] by blast
  then show ?thesis using sound by (simp add: record_sound_def module_earned_def capstones_of_def)
qed

lemma recorded_sound:
  assumes "recorded c p" and paths: "\<forall>path \<in> set (ct_paths c). pa_modules path \<noteq> []"
  shows "record_sound c p"
  using assms(1)
proof induction
  case (empty name)
  have "\<not> path_complete [] path" if "path \<in> set (ct_paths c)" for path
    using paths that by (auto simp: path_complete_def)
  then show ?case
    by (simp add: record_sound_def create_empty_progress_def capstones_of_def module_earned_def badges_sound_def)
qed (auto intro: record_attempt_sound record_capstone_sound record_visit_sound)

end
