(* ===== verification/Progress_Theorems.thy ===== *)
theory Progress_Theorems
  imports Progress_Merge Progress_Compare Progress_Recording Sample_Records Js_Guards
begin

text \<open>
  The theorems about learner records: what a merge keeps and how it orders, when merging again
  changes nothing and when it does, what the plans of the signed-in front end keep, what the
  comparison of records decides, the resume target, the retry schedule, and what holds of every
  record that the recording operations can produce.
\<close>

section \<open>What a merge carries over\<close>

definition carried :: "('a \<Rightarrow> string) \<Rightarrow> (string \<Rightarrow> 'a \<Rightarrow> 'a) \<Rightarrow> ('a \<Rightarrow> 'a \<Rightarrow> bool) \<Rightarrow> string
    \<Rightarrow> 'a list \<Rightarrow> 'a list \<Rightarrow> bool" where
  "carried get_id set_id same prefix xs ys \<longleftrightarrow> (\<forall>x \<in> set xs. x \<in> set ys
     \<or> set_id (prefix @ '':'' @ get_id x) x \<in> set ys \<or> (\<exists>y \<in> set ys. get_id y = get_id x \<and> same y x))"

text \<open>
  The record \<open>m\<close> holds all evidence of \<open>p\<close>: its started paths, its completed modules, each attempt
  and capstone (as it is, under a prefixed ID, or as the same record), each badge with at least
  its evidence, and a recent module if \<open>p\<close> has one.
\<close>

definition carries :: "runtime \<Rightarrow> learner_progress \<Rightarrow> learner_progress \<Rightarrow> string \<Rightarrow> bool" where
  "carries rt m p prefix \<longleftrightarrow> set (lp_started_paths p) \<subseteq> set (lp_started_paths m)
     \<and> set (lp_completed_modules p) \<subseteq> set (lp_completed_modules m)
     \<and> carried at_id (\<lambda>i a. a\<lparr>at_id := i\<rparr>) (same_attempt rt) prefix (lp_attempts p) (lp_attempts m)
     \<and> carried sub_id (\<lambda>i s. s\<lparr>sub_id := i\<rparr>) (same_submission rt) prefix (capstones_of p) (capstones_of m)
     \<and> (\<forall>b \<in> set (lp_badges p). \<exists>b' \<in> set (lp_badges m). eb_id b' = eb_id b \<and> set (eb_evidence b) \<subseteq> set (eb_evidence b'))
     \<and> (lp_recent p \<noteq> None \<longrightarrow> lp_recent m \<noteq> None)"

lemma carried_subset: "set xs \<subseteq> set ys \<Longrightarrow> carried get_id set_id same prefix xs ys"
  by (auto simp: carried_def)

lemma carries_refl [simp]: "carries rt p p prefix"
  by (auto simp: carries_def intro: carried_subset)

lemma carries_rename [simp]: "carries rt (m\<lparr>lp_display_name := n\<rparr>) p prefix \<longleftrightarrow> carries rt m p prefix"
  by (simp add: carries_def capstones_of_def)

lemma no_evidence_carried: "\<not> has_learning_evidence p \<Longrightarrow> carries rt m p prefix"
  by (auto simp: has_learning_evidence_def carries_def intro: carried_subset)

lemma merge_sel [simp]:
  "lp_display_name (merge_learner_progress rt p q n pre) = n"
  "lp_started_paths (merge_learner_progress rt p q n pre) = js_unique (lp_started_paths p @ lp_started_paths q)"
  "lp_completed_modules (merge_learner_progress rt p q n pre)
    = js_unique (lp_completed_modules p @ lp_completed_modules q)"
  "lp_attempts (merge_learner_progress rt p q n pre)
    = js_sort (\<lambda>l r. collate rt (at_completed_at l) (at_completed_at r))
        (lp_attempts p @ merge_attempts rt pre (lp_attempts p) (lp_attempts q))"
  "lp_capstones (merge_learner_progress rt p q n pre)
    = Some (js_sort (\<lambda>l r. collate rt (sub_submitted_at l) (sub_submitted_at r))
        (capstones_of p @ merge_capstones rt pre (capstones_of p) (capstones_of q)))"
  "lp_badges (merge_learner_progress rt p q n pre) = js_sort (\<lambda>l r. collate rt (eb_earned_at l) (eb_earned_at r))
        (merge_badges rt (lp_badges p) (lp_badges q))"
  "lp_recent (merge_learner_progress rt p q n pre) = merge_recent rt (lp_recent p) (lp_recent q)"
  "lp_updated_at (merge_learner_progress rt p q n pre) = (if 0 \<le> collate rt (lp_updated_at p) (lp_updated_at q)
        then lp_updated_at p else lp_updated_at q)"
  by (simp_all add: merge_learner_progress_def)

lemma capstones_of_merge [simp]: "capstones_of (merge_learner_progress rt p q n pre)
    = js_sort (\<lambda>l r. collate rt (sub_submitted_at l) (sub_submitted_at r))
        (capstones_of p @ merge_capstones rt pre (capstones_of p) (capstones_of q))"
  by (simp add: capstones_of_def [of "merge_learner_progress rt p q n pre"])

lemma merge_recent_None: "merge_recent rt a b = None \<longleftrightarrow> a = None \<and> b = None"
  by (cases a; cases b) (simp_all add: merge_recent_def)

lemma merge_recent_member: "merge_recent rt a b = Some r \<Longrightarrow> a = Some r \<or> b = Some r"
  by (cases a; cases b) (auto simp: merge_recent_def split: if_splits)

lemma merge_source_carried:
  "carried get_id set_id same prefix xs (survivor @ merge_source get_id set_id same prefix survivor ids xs)"
  unfolding carried_def by (auto dest: merge_source_keeps [of _ xs get_id set_id same prefix survivor ids])

lemma carried_perm: "set ys = set zs \<Longrightarrow> carried get_id set_id same prefix xs ys = carried get_id set_id same prefix xs zs"
  by (simp add: carried_def)

lemma merge_carries_both:
  assumes "distinct (map eb_id (lp_badges p))"
  shows "carries rt (merge_learner_progress rt p q n pre) p pre" "carries rt (merge_learner_progress rt p q n pre) q pre"
proof -
  let ?m = "merge_learner_progress rt p q n pre"
  have a: "carried at_id (\<lambda>i a. a\<lparr>at_id := i\<rparr>) (same_attempt rt) pre (lp_attempts q) (lp_attempts ?m)"
    using merge_source_carried [of at_id "\<lambda>i a. a\<lparr>at_id := i\<rparr>" "same_attempt rt" pre "lp_attempts q" "lp_attempts p"
        "map at_id (lp_attempts p)"]
    by (simp add: carried_def merge_attempts_def)
  have s: "carried sub_id (\<lambda>i s. s\<lparr>sub_id := i\<rparr>) (same_submission rt) pre (capstones_of q) (capstones_of ?m)"
    using merge_source_carried [of sub_id "\<lambda>i s. s\<lparr>sub_id := i\<rparr>" "same_submission rt" pre "capstones_of q" "capstones_of p"
        "map sub_id (capstones_of p)"]
    by (simp add: carried_def merge_capstones_def)
  have b: "\<exists>b' \<in> set (lp_badges ?m). eb_id b' = eb_id b \<and> set (eb_evidence b) \<subseteq> set (eb_evidence b')"
    if "b \<in> set (lp_badges p) \<or> b \<in> set (lp_badges q)" for b
    using merge_badges_keep [OF assms that, of rt] by simp
  show "carries rt ?m p pre" unfolding carries_def
    using b by (auto simp: merge_recent_None intro!: carried_subset)
  show "carries rt ?m q pre" unfolding carries_def
    using a s b by (auto simp: merge_recent_None)
qed


text \<open>
  C26. A merge loses nothing and invents nothing: the merged record holds all evidence of both
  records; its started paths and completed modules are the two unions, without repetition; every
  survivor's attempt and capstone is unchanged in it; every other one is the source's, under
  its own or its prefixed ID; and its badges are those of the two records, each ID once.
\<close>

theorem merge_keeps_evidence:
  assumes "distinct (map eb_id (lp_badges p))" and m: "m = merge_learner_progress rt p q name pre"
  shows "carries rt m p pre \<and> carries rt m q pre
    \<and> set (lp_started_paths m) = set (lp_started_paths p) \<union> set (lp_started_paths q) \<and> distinct (lp_started_paths m)
    \<and> set (lp_completed_modules m) = set (lp_completed_modules p) \<union> set (lp_completed_modules q)
    \<and> distinct (lp_completed_modules m)
    \<and> set (lp_attempts p) \<subseteq> set (lp_attempts m) \<and> set (capstones_of p) \<subseteq> set (capstones_of m)
    \<and> (\<forall>a \<in> set (lp_attempts m). a \<in> set (lp_attempts p)
        \<or> (\<exists>x \<in> set (lp_attempts q). a = x \<or> a = x\<lparr>at_id := pre @ '':'' @ at_id x\<rparr>))
    \<and> (\<forall>s \<in> set (capstones_of m). s \<in> set (capstones_of p)
        \<or> (\<exists>x \<in> set (capstones_of q). s = x \<or> s = x\<lparr>sub_id := pre @ '':'' @ sub_id x\<rparr>))
    \<and> eb_id ` set (lp_badges m) = eb_id ` (set (lp_badges p) \<union> set (lp_badges q)) \<and> distinct (map eb_id (lp_badges m))"
proof -
  note both = merge_carries_both [OF assms(1), of rt q name pre, folded m]
  have attempts: "a \<in> set (lp_attempts p) \<or> (\<exists>x \<in> set (lp_attempts q). a = x \<or> a = x\<lparr>at_id := pre @ '':'' @ at_id x\<rparr>)"
    if "a \<in> set (lp_attempts m)" for a
    using that merge_source_origin [of a at_id "\<lambda>i a. a\<lparr>at_id := i\<rparr>" "same_attempt rt" pre "lp_attempts p"
        "map at_id (lp_attempts p)" "lp_attempts q"]
    by (auto simp: m merge_attempts_def)
  have capstones: "s \<in> set (capstones_of p) \<or> (\<exists>x \<in> set (capstones_of q). s = x \<or> s = x\<lparr>sub_id := pre @ '':'' @ sub_id x\<rparr>)"
    if "s \<in> set (capstones_of m)" for s
    using that merge_source_origin [of s sub_id "\<lambda>i s. s\<lparr>sub_id := i\<rparr>" "same_submission rt" pre "capstones_of p"
        "map sub_id (capstones_of p)" "capstones_of q"]
    by (auto simp: m merge_capstones_def)
  have "eb_id ` set (lp_badges m) \<subseteq> eb_id ` (set (lp_badges p) \<union> set (lp_badges q))"
  proof
    fix i assume "i \<in> eb_id ` set (lp_badges m)"
    then obtain b where b: "b \<in> set (merge_badges rt (lp_badges p) (lp_badges q))" "eb_id b = i" by (auto simp: m)
    have "foldl (join_opt rt) (find (\<lambda>e. eb_id e = i) (lp_badges p)) (filter (\<lambda>e. eb_id e = i) (lp_badges q)) = Some b"
      using merge_badges_member [OF assms(1), of b rt "lp_badges q"] b by simp
    then have "find (\<lambda>e. eb_id e = i) (lp_badges p) \<noteq> None \<or> filter (\<lambda>e. eb_id e = i) (lp_badges q) \<noteq> []"
      by (metis foldl_Nil option.distinct(1))
    then have "\<exists>e \<in> set (lp_badges p) \<union> set (lp_badges q). eb_id e = i"
      by (auto simp: find_None_iff filter_empty_conv)
    then show "i \<in> eb_id ` (set (lp_badges p) \<union> set (lp_badges q))" by blast
  qed
  moreover have "eb_id ` (set (lp_badges p) \<union> set (lp_badges q)) \<subseteq> eb_id ` set (lp_badges m)"
  proof
    fix i assume "i \<in> eb_id ` (set (lp_badges p) \<union> set (lp_badges q))"
    then obtain b where "b \<in> set (lp_badges p) \<or> b \<in> set (lp_badges q)" "i = eb_id b" by blast
    then show "i \<in> eb_id ` set (lp_badges m)" using both unfolding carries_def by (metis image_eqI)
  qed
  moreover have "distinct (map eb_id (lp_badges m))"
  proof -
    have "mset (map eb_id (lp_badges m)) = mset (map eb_id (merge_badges rt (lp_badges p) (lp_badges q)))"
      by (simp add: m mset_map)
    then show ?thesis using merge_badges_distinct mset_eq_imp_distinct_iff by blast
  qed
  ultimately show ?thesis using both attempts capstones by (auto simp: m)
qed

section \<open>Order\<close>

lemma join_fold_earned:
  assumes "comparator (collate rt)"
  shows "(\<forall>b \<in> set (e # bs). collate rt (eb_earned_at (foldl (join_badge rt) e bs)) (eb_earned_at b) \<le> 0)
    \<and> (\<exists>b \<in> set (e # bs). eb_earned_at (foldl (join_badge rt) e bs) = eb_earned_at b)"
proof (induction bs arbitrary: e)
  case Nil
  then show ?case using comparator.cmp_refl [OF assms] by simp
next
  case (Cons b bs)
  let ?j = "join_badge rt e b" and ?r = "foldl (join_badge rt) (join_badge rt e b) bs"
  have earned: "eb_earned_at ?j = eb_earned_at e \<or> eb_earned_at ?j = eb_earned_at b"
    "collate rt (eb_earned_at ?j) (eb_earned_at e) \<le> 0" "collate rt (eb_earned_at ?j) (eb_earned_at b) \<le> 0"
    using comparator.cmp_refl [OF assms] comparator.cmp_not_le [OF assms] by (auto simp: join_badge_def)
  have IH: "\<forall>c \<in> set (?j # bs). collate rt (eb_earned_at ?r) (eb_earned_at c) \<le> 0"
    "\<exists>c \<in> set (?j # bs). eb_earned_at ?r = eb_earned_at c" using Cons.IH [of ?j] by auto
  then have "collate rt (eb_earned_at ?r) (eb_earned_at e) \<le> 0" "collate rt (eb_earned_at ?r) (eb_earned_at b) \<le> 0"
    using earned(2,3) comparator.cmp_trans [OF assms, of "eb_earned_at ?r" "eb_earned_at ?j"] by auto
  then show ?case using IH earned(1) by auto
qed

lemma merge_badges_earliest:
  assumes c: "comparator (collate rt)" and ids: "distinct (map eb_id survivor)"
    and b_in: "b \<in> set (merge_badges rt survivor source)"
  shows "(\<forall>x \<in> set survivor \<union> set source. eb_id x = eb_id b \<longrightarrow> collate rt (eb_earned_at b) (eb_earned_at x) \<le> 0)
    \<and> (\<exists>x \<in> set survivor \<union> set source. eb_id x = eb_id b \<and> eb_earned_at b = eb_earned_at x)"
proof -
  have fold: "foldl (join_opt rt) (find (\<lambda>e. eb_id e = eb_id b) survivor)
      (filter (\<lambda>e. eb_id e = eb_id b) source) = Some b"
    using merge_badges_member [OF ids] b_in by simp
  let ?qs = "filter (\<lambda>e. eb_id e = eb_id b) source"
  obtain e bs where b: "b = foldl (join_badge rt) e bs" and
    all: "set (e # bs) = {e \<in> set survivor \<union> set source. eb_id e = eb_id b}"
  proof (cases "find (\<lambda>e. eb_id e = eb_id b) survivor")
    case (Some e)
    then have e: "e \<in> set survivor" "eb_id e = eb_id b" by (auto simp: find_Some_iff)
    have "x = e" if "x \<in> set survivor" "eb_id x = eb_id b" for x
      using find_id [OF ids that] Some by simp
    then have all: "set (e # ?qs) = {e \<in> set survivor \<union> set source. eb_id e = eb_id b}"
      unfolding list.set set_filter using e by blast
    have "b = foldl (join_badge rt) e ?qs"
      using fold unfolding Some join_opt_fold option.inject by (rule sym)
    from that [OF this all] show ?thesis .
  next
    case None
    then obtain d ds where d: "?qs = d # ds" using fold by (cases ?qs) auto
    then have "set (d # ds) = {e \<in> set source. eb_id e = eb_id b}" by (metis set_filter)
    moreover have "x \<notin> set survivor" if "eb_id x = eb_id b" for x
      using None that by (auto simp: find_None_iff)
    ultimately have all: "set (d # ds) = {e \<in> set survivor \<union> set source. eb_id e = eb_id b}"
      by blast
    have "b = foldl (join_badge rt) d ds"
      using fold unfolding None d foldl_Cons join_opt.simps join_opt_fold option.inject by (rule sym)
    from that [OF this all] show ?thesis .
  qed
  note earned = join_fold_earned [OF c, of e bs, folded b]
  show ?thesis using earned all by blast
qed

text \<open>
  With a collation that is a total preorder, the merged attempts, capstones and badges are in
  the order of their times; a badge has the earliest time that either record has for it; the
  recent module is a latest visit; and the record is at least as recent as both.
\<close>

theorem merge_orders_by_time:
  assumes c: "comparator (collate rt)" and ids: "distinct (map eb_id (lp_badges p))"
    and m: "m = merge_learner_progress rt p q name pre"
  shows "sorted_wrt (\<lambda>a b. collate rt (at_completed_at a) (at_completed_at b) \<le> 0) (lp_attempts m)
    \<and> sorted_wrt (\<lambda>a b. collate rt (sub_submitted_at a) (sub_submitted_at b) \<le> 0) (capstones_of m)
    \<and> sorted_wrt (\<lambda>a b. collate rt (eb_earned_at a) (eb_earned_at b) \<le> 0) (lp_badges m)
    \<and> (\<forall>b \<in> set (lp_badges m).
        (\<forall>e \<in> set (lp_badges p) \<union> set (lp_badges q). eb_id e = eb_id b \<longrightarrow> collate rt (eb_earned_at b) (eb_earned_at e) \<le> 0)
        \<and> (\<exists>e \<in> set (lp_badges p) \<union> set (lp_badges q). eb_id e = eb_id b \<and> eb_earned_at b = eb_earned_at e))
    \<and> (\<forall>r x. lp_recent m = Some r \<and> (lp_recent p = Some x \<or> lp_recent q = Some x) \<longrightarrow>
        collate rt (rm_visited_at x) (rm_visited_at r) \<le> 0)
    \<and> collate rt (lp_updated_at p) (lp_updated_at m) \<le> 0 \<and> collate rt (lp_updated_at q) (lp_updated_at m) \<le> 0"
proof (intro conjI)
  show "sorted_wrt (\<lambda>a b. collate rt (at_completed_at a) (at_completed_at b) \<le> 0) (lp_attempts m)"
    "sorted_wrt (\<lambda>a b. collate rt (sub_submitted_at a) (sub_submitted_at b) \<le> 0) (capstones_of m)"
    "sorted_wrt (\<lambda>a b. collate rt (eb_earned_at a) (eb_earned_at b) \<le> 0) (lp_badges m)"
    unfolding m merge_sel capstones_of_merge by (rule comparator.sort_sorted [OF comparator_on [OF c]])+
next
  have "b \<in> set (merge_badges rt (lp_badges p) (lp_badges q))" if "b \<in> set (lp_badges m)" for b
    using that by (simp add: m)
  then show "\<forall>b \<in> set (lp_badges m).
        (\<forall>e \<in> set (lp_badges p) \<union> set (lp_badges q). eb_id e = eb_id b \<longrightarrow> collate rt (eb_earned_at b) (eb_earned_at e) \<le> 0)
        \<and> (\<exists>e \<in> set (lp_badges p) \<union> set (lp_badges q). eb_id e = eb_id b \<and> eb_earned_at b = eb_earned_at e)"
    using merge_badges_earliest [OF c ids] by blast
next
  show "\<forall>r x. lp_recent m = Some r \<and> (lp_recent p = Some x \<or> lp_recent q = Some x) \<longrightarrow>
        collate rt (rm_visited_at x) (rm_visited_at r) \<le> 0"
    using comparator.cmp_refl [OF c] comparator.cmp_not_le [OF c]
    by (auto simp: m merge_recent_def split: option.splits if_splits)
next
  let ?p = "lp_updated_at p" and ?q = "lp_updated_at q"
  have refl: "collate rt t t = 0" for t using comparator.cmp_refl [OF c] .
  have "collate rt ?p (lp_updated_at m) \<le> 0 \<and> collate rt ?q (lp_updated_at m) \<le> 0"
  proof (cases "0 \<le> collate rt ?p ?q")
    case True
    then have "lp_updated_at m = ?p" by (simp add: m)
    moreover have "collate rt ?q ?p \<le> 0" using True comparator.cmp_antisym [OF c, of ?q ?p] by blast
    ultimately show ?thesis by (simp add: refl)
  next
    case False
    then have "lp_updated_at m = ?q" "collate rt ?p ?q \<le> 0" by (simp_all add: m)
    then show ?thesis by (simp add: refl)
  qed
  then show "collate rt ?p (lp_updated_at m) \<le> 0" "collate rt ?q (lp_updated_at m) \<le> 0" by blast+
qed

section \<open>Merging again\<close>

lemma merge_list_again:
  assumes c: "comparator c" and ids: "distinct (map get_id xs)" "distinct (map get_id ys)"
    and agree: "agree get_id same xs ys" and refl: "\<And>x. same x x"
    and m: "m = js_sort c (xs @ merge_source get_id set_id same pre xs (map get_id xs) ys)"
  shows "js_sort c (m @ merge_source get_id set_id same pre m (map get_id m) ys) = m"
proof -
  have m': "m = js_sort c (xs @ filter (\<lambda>x. get_id x \<notin> get_id ` set xs) ys)"
    unfolding m by (subst merge_source_no_conflict [OF ids agree]) auto
  then have set_m: "set m = set xs \<union> {y \<in> set ys. get_id y \<notin> get_id ` set xs}" by auto
  have "mset (map get_id m) = mset (map get_id (xs @ filter (\<lambda>x. get_id x \<notin> get_id ` set xs) ys))"
    by (simp add: m' mset_map)
  moreover have "distinct (map get_id (xs @ filter (\<lambda>x. get_id x \<notin> get_id ` set xs) ys))"
    using ids by (auto simp: distinct_map_filter) (metis image_eqI)
  ultimately have dist: "distinct (map get_id m)" using mset_eq_imp_distinct_iff by blast
  have "\<exists>y. find (\<lambda>y. get_id y = get_id x) m = Some y \<and> same y x" if x: "x \<in> set ys" for x
  proof (cases "get_id x \<in> get_id ` set xs")
    case True
    then obtain y where "y \<in> set xs" "get_id y = get_id x" by force
    then show ?thesis using agree x find_id [OF dist, of y "get_id x"] set_m by (auto simp: agree_def)
  next
    case False
    then show ?thesis using x refl find_id [OF dist, of x "get_id x"] set_m by auto
  qed
  moreover have "get_id x \<in> set (map get_id m)" if "x \<in> set ys" for x using that set_m by auto
  ultimately have "merge_source get_id set_id same pre m (map get_id m) ys = []"
    by (intro merge_source_absorbed) auto
  moreover have "sorted_wrt (\<lambda>a b. c a b \<le> 0) m" unfolding m by (rule comparator.sort_sorted [OF c])
  ultimately show ?thesis by (simp add: js_sort_id)
qed

lemma merge_badges_joined:
  assumes ids: "distinct (map eb_id survivor)" "distinct (map eb_id source)" and b: "b \<in> set source"
    and e: "e \<in> set (merge_badges rt survivor source)" "eb_id e = eb_id b"
  shows "e = b \<or> (\<exists>s \<in> set survivor. e = join_badge rt s b)"
proof -
  have "filter (\<lambda>x. eb_id x = eb_id b) source = [b]"
    using ids(2) b by (induction source) (auto simp: filter_empty_conv image_iff)
  then have "foldl (join_opt rt) (find (\<lambda>x. eb_id x = eb_id b) survivor) [b] = Some e"
    using merge_badges_member [OF ids(1), of e rt source] e by simp
  then show ?thesis by (cases "find (\<lambda>x. eb_id x = eb_id b) survivor") (auto simp: find_Some_iff)
qed

lemma merge_badges_again:
  assumes c: "comparator (collate rt)" and ids: "distinct (map eb_id survivor)" "distinct (map eb_id source)"
    and ev: "\<forall>b \<in> set source. distinct (eb_evidence b)"
    and m: "m = js_sort (\<lambda>l r. collate rt (eb_earned_at l) (eb_earned_at r)) (merge_badges rt survivor source)"
  shows "js_sort (\<lambda>l r. collate rt (eb_earned_at l) (eb_earned_at r)) (merge_badges rt m source) = m"
proof -
  have set_m: "set m = set (merge_badges rt survivor source)" by (simp add: m)
  have "mset (map eb_id m) = mset (map eb_id (merge_badges rt survivor source))" by (simp add: m mset_map)
  then have dist: "distinct (map eb_id m)" using merge_badges_distinct mset_eq_imp_distinct_iff by blast
  let ?map = "map (\<lambda>b. (eb_id b, b)) m"
  have same: "merge_badge rt ?map b = ?map" if b: "b \<in> set source" for b
  proof -
    obtain e where e: "e \<in> set m" "eb_id e = eb_id b"
      using merge_badges_keep [OF ids(1), of b source rt] b set_m by auto
    have "join_badge rt e b = e"
    proof -
      have "collate rt (eb_earned_at e) (eb_earned_at b) \<le> 0"
        using merge_badges_earliest [OF c ids(1), of e source] e b set_m by auto
      moreover have "distinct (eb_evidence e) \<and> set (eb_evidence b) \<subseteq> set (eb_evidence e)"
        using merge_badges_joined [OF ids b, of e rt] e set_m ev b by (auto simp: join_badge_def)
      then have "js_unique (eb_evidence e @ eb_evidence b) = eb_evidence e"
        using js_unique_absorbed [of "eb_evidence b" "eb_evidence e"] js_unique_id by metis
      ultimately show ?thesis by (simp add: join_badge_def)
    qed
    moreover have "map_of ?map (eb_id b) = Some e"
      using e dist by (intro map_of_is_SomeI) (auto simp: comp_def image_iff)
    ultimately show ?thesis by (simp add: merge_badge_join map_set_same)
  qed
  have "foldl (merge_badge rt) ?map bs = ?map" if "set bs \<subseteq> set source" for bs
    using that by (induction bs) (simp_all add: same)
  then have "merge_badges rt m source = m"
    by (simp add: merge_badges_def survivor_badge_map [OF dist] comp_def)
  moreover have "sorted_wrt (\<lambda>l r. collate rt (eb_earned_at l) (eb_earned_at r) \<le> 0) m"
    unfolding m by (rule comparator.sort_sorted [OF comparator_on [OF c]])
  ultimately show ?thesis by (simp add: js_sort_id)
qed

lemma merge_recent_again:
  assumes c: "comparator (collate rt)"
  shows "merge_recent rt (merge_recent rt a b) b = merge_recent rt a b"
proof (cases a)
  case None
  then show ?thesis by (cases b) (auto simp: merge_recent_def comparator.cmp_refl [OF c])
next
  case (Some x)
  then show ?thesis by (cases b) (auto simp: merge_recent_def comparator.cmp_refl [OF c])
qed

text \<open>
  Without conflicts, merging is idempotent: when the two records hold the same record under every
  shared ID, a source that was merged changes nothing when it is merged once more.
\<close>

theorem merge_again:
  assumes c: "comparator (collate rt)" and m: "m = merge_learner_progress rt p q name pre"
    and attempts: "distinct (map at_id (lp_attempts p))" "distinct (map at_id (lp_attempts q))"
      "agree at_id (same_attempt rt) (lp_attempts p) (lp_attempts q)"
    and capstones: "distinct (map sub_id (capstones_of p))" "distinct (map sub_id (capstones_of q))"
      "agree sub_id (same_submission rt) (capstones_of p) (capstones_of q)"
    and badges: "distinct (map eb_id (lp_badges p))" "distinct (map eb_id (lp_badges q))"
      "\<forall>b \<in> set (lp_badges q). distinct (eb_evidence b)"
  shows "merge_learner_progress rt m q name pre = m"
proof (rule learner_progress.equality)
  let ?mm = "merge_learner_progress rt m q name pre"
  show "lp_started_paths ?mm = lp_started_paths m" "lp_completed_modules ?mm = lp_completed_modules m"
    by (simp_all add: m js_unique_absorbed)
  show "lp_attempts ?mm = lp_attempts m"
    using merge_list_again [OF comparator_on [OF c] attempts same_attempt_refl refl]
    by (simp add: m merge_attempts_def)
  have "capstones_of ?mm = capstones_of m"
    using merge_list_again [OF comparator_on [OF c] capstones same_submission_refl refl]
    by (simp add: m merge_capstones_def)
  then show "lp_capstones ?mm = lp_capstones m" by (simp add: m capstones_of_def)
  show "lp_badges ?mm = lp_badges m"
    using merge_badges_again [OF c badges refl] by (simp add: m)
  show "lp_recent ?mm = lp_recent m" by (simp add: m merge_recent_again [OF c])
  show "lp_updated_at ?mm = lp_updated_at m" by (simp add: m comparator.cmp_refl [OF c])
  show "lp_display_name ?mm = lp_display_name m" by (simp add: m)
qed simp


lemma merge_source_taken:
  "x \<in> set xs \<Longrightarrow> get_id x \<in> set ids \<Longrightarrow> find (\<lambda>y. get_id y = get_id x) survivor = Some y \<Longrightarrow> \<not> same y x
   \<Longrightarrow> set_id (pre @ '':'' @ get_id x) x \<in> set (merge_source get_id set_id same pre survivor ids xs)"
proof (induction xs arbitrary: ids)
  case (Cons a xs)
  show ?case
  proof (cases "x = a")
    case True
    then show ?thesis using Cons.prems by (simp add: Let_def)
  next
    case False
    then have "set_id (pre @ '':'' @ get_id x) x \<in> set (merge_source get_id set_id same pre survivor js xs)"
      if "set ids \<subseteq> set js" for js
      using Cons.prems that by (intro Cons.IH) auto
    then show ?thesis by (auto simp: Let_def subset_insertI split: option.split)
  qed
qed simp

text \<open>
  With a conflict it is not: the prefixed ID is not looked up among the IDs that are in use. If
  both records have an attempt under one ID and the two differ, then merging the source twice
  stores the source's attempt twice under one prefixed ID, even when the first merge is sound,
  and the result is not a valid progress snapshot.
\<close>

theorem merge_conflict_twice:
  assumes m: "m = merge_learner_progress rt p q name pre" and mm: "mm = merge_learner_progress rt m q name' pre"
    and a: "a \<in> set (lp_attempts p)" and x: "x \<in> set (lp_attempts q)"
    and conflict: "at_id a = at_id x" "\<not> same_attempt rt a x"
    and sound: "distinct (map at_id (lp_attempts m))"
  shows "\<not> distinct (map at_id (lp_attempts mm)) \<and> \<not> wf_progress mm
    \<and> 2 \<le> count (mset (lp_attempts mm)) (x\<lparr>at_id := pre @ '':'' @ at_id x\<rparr>)"
proof -
  let ?x = "x\<lparr>at_id := pre @ '':'' @ at_id x\<rparr>"
  have a_m: "a \<in> set (lp_attempts m)" using a by (simp add: m)
  have only: "y = a" if "y \<in> set (lp_attempts m)" "at_id y = at_id x" for y
    using sound a_m that conflict(1) by (metis distinct_map inj_onD)
  have "x \<in> set (lp_attempts m) \<or> ?x \<in> set (lp_attempts m)"
    using merge_source_keeps [OF x, of at_id "\<lambda>i a. a\<lparr>at_id := i\<rparr>" "same_attempt rt" pre "lp_attempts p"
        "map at_id (lp_attempts p)"] only conflict
    by (auto simp: m merge_attempts_def)
  then have "?x \<in> set (lp_attempts m)" using only [of x] conflict(2) by auto
  moreover have "?x \<in> set (merge_attempts rt pre (lp_attempts m) (lp_attempts q))"
    unfolding merge_attempts_def
    by (rule merge_source_taken [OF x, where y = a]) (use a_m conflict find_id [OF sound a_m conflict(1)] in
      \<open>auto simp flip: conflict(1)\<close>)
  ultimately have "1 \<le> count (mset (lp_attempts m)) ?x"
    "1 \<le> count (mset (merge_attempts rt pre (lp_attempts m) (lp_attempts q))) ?x"
    by (simp_all add: Suc_le_eq del: One_nat_def)
  moreover have "count (mset (lp_attempts mm)) ?x = count (mset (lp_attempts m)) ?x
      + count (mset (merge_attempts rt pre (lp_attempts m) (lp_attempts q))) ?x" by (simp add: mm)
  ultimately have two: "2 \<le> count (mset (lp_attempts mm)) ?x" by linarith
  then have "\<not> distinct (lp_attempts mm)"
    by (metis distinct_count_atmost_1 not_numeral_le_zero numeral_le_one_iff semiring_norm(69))
  then have "\<not> distinct (map at_id (lp_attempts mm))" by (simp add: distinct_map)
  then show ?thesis using two by (simp add: wf_progress_def)
qed

section \<open>The plans of the front end\<close>

text \<open>
  C27. While no replacement is pending, the record that the front end shows after a read holds all
  evidence of the account's record and of the local one, under the name the learner typed last;
  a pending replacement is kept as it is. The plan after a reconnect merges the buffer into the
  record that is there, and drops it only if a replacement is pending or its text is the one last
  synchronised.
\<close>

theorem plans_keep_work:
  assumes "distinct (map eb_id (lp_badges account))"
  shows "(let shown = plan_account_progress_hydration rt account pending name local in
      (pending \<longrightarrow> shown = local)
      \<and> (\<not> pending \<longrightarrow> carries rt shown account unsynced_prefix \<and> carries rt shown local unsynced_prefix
          \<and> lp_display_name shown = (case name of None \<Rightarrow> lp_display_name account | Some n \<Rightarrow> n)))
    \<and> (case plan_unsynced_progress_flush rt writable in_flight buffer synced pending of
        FlushWait \<Rightarrow> buffer = None \<or> \<not> writable \<or> in_flight
      | FlushDiscard \<Rightarrow> pending \<or> (\<exists>u. buffer = Some u \<and> stringify rt (progress_json u) = synced)
      | FlushMerge f \<Rightarrow> \<exists>u. buffer = Some u \<and> carries rt (f account) account unsynced_prefix
          \<and> carries rt (f account) u unsynced_prefix \<and> lp_display_name (f account) = lp_display_name account)"
proof -
  note both = merge_carries_both [OF assms, of rt _ _ unsynced_prefix]
  have "carries rt (plan_account_progress_hydration rt account False name local) account unsynced_prefix
      \<and> carries rt (plan_account_progress_hydration rt account False name local) local unsynced_prefix
      \<and> lp_display_name (plan_account_progress_hydration rt account False name local)
        = (case name of None \<Rightarrow> lp_display_name account | Some n \<Rightarrow> n)"
    using both no_evidence_carried [of local]
    by (simp add: plan_account_progress_hydration_def Let_def split: option.split)
  moreover have "plan_account_progress_hydration rt account True name local = local"
    by (simp add: plan_account_progress_hydration_def)
  moreover have "case plan_unsynced_progress_flush rt writable in_flight buffer synced pending of
        FlushWait \<Rightarrow> buffer = None \<or> \<not> writable \<or> in_flight
      | FlushDiscard \<Rightarrow> pending \<or> (\<exists>u. buffer = Some u \<and> stringify rt (progress_json u) = synced)
      | FlushMerge f \<Rightarrow> \<exists>u. buffer = Some u \<and> carries rt (f account) account unsynced_prefix
          \<and> carries rt (f account) u unsynced_prefix \<and> lp_display_name (f account) = lp_display_name account"
    using both by (simp add: plan_unsynced_progress_flush_def split: option.split)
  ultimately show ?thesis by (cases pending) (simp_all add: Let_def)
qed

text \<open>
  Saving is retried only when the status means "later", after at least one and at most thirty
  seconds, and fewer times than the limit; with the default limit the delays are 1, 2, 4, 8 and 16
  seconds and then the save is given up, so the delay of thirty seconds is never used.
\<close>

theorem save_retry_bounded:
  "(\<forall>d. plan_progress_save_retry status attempt limit = RetryAfter d \<and> 1 \<le> attempt \<longrightarrow>
      1000 \<le> d \<and> d \<le> 30000 \<and> attempt < (case limit of None \<Rightarrow> 6 | Some m \<Rightarrow> m)
      \<and> (\<forall>s. status = Some s \<longrightarrow> s = 408 \<or> s = 429 \<or> 500 \<le> s))
    \<and> (\<forall>s. status = Some s \<and> s < 500 \<and> s \<noteq> 408 \<and> s \<noteq> 429 \<longrightarrow>
        plan_progress_save_retry status attempt limit = GiveUp NotRetryable)
    \<and> map (\<lambda>k. plan_progress_save_retry None k None) [1, 2, 3, 4, 5, 6]
      = map RetryAfter [1000, 2000, 4000, 8000, 16000] @ [GiveUp AttemptsExhausted]
    \<and> (\<forall>k d. 1 \<le> k \<longrightarrow> plan_progress_save_retry status k None \<noteq> RetryAfter 30000)"
proof -
  have five: "k \<in> {1, 2, 3, 4, 5}" if "1 \<le> k" "k \<le> 5" for k :: int using that by auto
  have delay: "1000 \<le> d \<and> d \<le> 30000" if "RetryAfter d = RetryAfter (if attempt \<le> 5 then 1000 * 2 powi (attempt - 1) else 30000)"
    "1 \<le> attempt" for d
    using that five [of attempt] by (auto split: if_splits)
  have "d \<noteq> 30000" if "d = 1000 * 2 powi (k - 1)" "1 \<le> k" "k \<le> 5" for d :: rat and k :: int
    using that five [of k] by auto
  then have "plan_progress_save_retry status k None \<noteq> RetryAfter 30000" if "1 \<le> k" for k
    using that by (auto simp: plan_progress_save_retry_def progress_save_max_attempts_def split: if_splits)
  moreover have "map (\<lambda>k. plan_progress_save_retry None k None) [1, 2, 3, 4, 5, 6]
      = map RetryAfter [1000, 2000, 4000, 8000, 16000] @ [GiveUp AttemptsExhausted]"
    by (simp add: plan_progress_save_retry_def progress_save_max_attempts_def)
  ultimately show ?thesis
    using delay by (auto simp: plan_progress_save_retry_def progress_save_max_attempts_def split: if_splits option.splits)
qed


section \<open>Comparing records\<close>

text \<open>
  Two values have the same canonical text exactly when they are the same value up to the order of
  object members, so two attempts are taken for the same record exactly when they agree in every
  field.
\<close>

theorem same_record_decides:
  assumes "num_text_ok rt"
  shows "(\<forall>l r. plain_json l \<and> plain_json r \<longrightarrow> is_same_progress_record rt l r = (normal_json l = normal_json r))
    \<and> (\<forall>a b x y. at_score a = Fin x \<and> at_score b = Fin y \<longrightarrow> same_attempt rt a b = (a = b))"
  using same_progress_record_iff [OF assms] same_attempt_iff [OF assms] by blast

section \<open>Where to continue\<close>

lemma dropWhile_to: "y \<notin> set as \<Longrightarrow> dropWhile (\<lambda>m. m \<noteq> y) (as @ y # bs) = y # bs"
  by (induction as) auto

lemma find_Some_split:
  "find P xs = Some x \<Longrightarrow> \<exists>as bs. xs = as @ x # bs \<and> P x \<and> (\<forall>y \<in> set as. \<not> P y)"
  by (induction xs) (auto split: if_splits intro: exI [of _ "[]"], metis append_Cons set_ConsD)

text \<open>
  The resume target is an unfinished module that the catalogue has and that belongs to the path
  of the last visit: the visited module itself while it is unfinished, otherwise the first
  unfinished one after it, otherwise the first in the path. There is none only if nothing was
  visited, if the path or the module left the catalogue, or if nothing in the path is
  unfinished.
\<close>

theorem resume_target_next_unfinished:
  assumes ids: "[] \<notin> lm_id ` set (ct_modules c)"
    and open_def: "unfinished = (\<lambda>i. i \<in> lm_id ` set (ct_modules c) \<and> i \<notin> set (lp_completed_modules p))"
  shows "(case select_resume_target p c of
      Some t \<Rightarrow> \<exists>r path. lp_recent p = Some r \<and> find_path c (rm_path r) = Some path \<and> rs_path t = pa_id path
        \<and> rm_module r \<in> set (pa_modules path) \<and> rs_module t \<in> set (pa_modules path) \<and> unfinished (rs_module t)
        \<and> (rs_advanced t = (rm_module r \<in> set (lp_completed_modules p)))
        \<and> (\<not> rs_advanced t \<longrightarrow> rs_module t = rm_module r)
        \<and> (rs_advanced t \<longrightarrow> (\<exists>as bs cs. pa_modules path = as @ rm_module r # bs \<and> rm_module r \<notin> set as
            \<and> (bs = cs @ rs_module t # drop (Suc (length cs)) bs \<and> (\<forall>y \<in> set cs. \<not> unfinished y)
               \<or> (\<forall>y \<in> set bs. \<not> unfinished y) \<and> find unfinished (pa_modules path) = Some (rs_module t))))
    | None \<Rightarrow> (case lp_recent p of None \<Rightarrow> True | Some r \<Rightarrow> (case find_path c (rm_path r) of None \<Rightarrow> True
        | Some path \<Rightarrow> rm_module r \<notin> set (pa_modules path) \<or> rm_module r \<notin> lm_id ` set (ct_modules c)
            \<or> (\<forall>y \<in> set (pa_modules path). \<not> unfinished y))))"
proof (cases "\<exists>r path. lp_recent p = Some r \<and> find_path c (rm_path r) = Some path
    \<and> rm_module r \<in> set (pa_modules path) \<and> rm_module r \<in> lm_id ` set (ct_modules c)")
  case False
  then have "select_resume_target p c = None"
    by (auto simp: select_resume_target_def Let_def split: option.split)
  then show ?thesis using False by (simp split: option.split) blast
next
  case True
  then obtain r path where r: "lp_recent p = Some r" "find_path c (rm_path r) = Some path"
    "rm_module r \<in> set (pa_modules path)" "rm_module r \<in> lm_id ` set (ct_modules c)" by blast
  show ?thesis
  proof (cases "rm_module r \<in> set (lp_completed_modules p)")
    case False
    then have "select_resume_target p c = Some \<lparr>rs_path = pa_id path, rs_module = rm_module r, rs_advanced = False\<rparr>"
      using r by (simp add: select_resume_target_def Let_def)
    then show ?thesis using r False by (simp add: open_def)
  next
    case finished: True
    obtain as bs where split: "pa_modules path = as @ rm_module r # bs" "rm_module r \<notin> set as"
      using split_list_first [OF r(3)] by blast
    then have after: "tl (dropWhile (\<lambda>m. m \<noteq> rm_module r) (pa_modules path)) = bs" by (simp add: dropWhile_to)
    have un': "(\<lambda>m. m \<in> set (map lm_id (ct_modules c)) \<and> m \<notin> set (lp_completed_modules p)) = unfinished"
      by (simp add: open_def)
    let ?next = "case find unfinished bs of Some m \<Rightarrow> Some m | None \<Rightarrow> find unfinished (pa_modules path)"
    have sel: "select_resume_target p c = (case ?next of None \<Rightarrow> None | Some m \<Rightarrow> if m = [] then None
        else Some \<lparr>rs_path = pa_id path, rs_module = m, rs_advanced = True\<rparr>)"
      unfolding select_resume_target_def Let_def r(1,2) option.case un' after using r(3,4) finished by simp
    have nonempty: "m \<noteq> []" if "unfinished m" for m using that ids unfolding open_def by blast
    show ?thesis
    proof (cases "find unfinished bs")
      case (Some m)
      from find_Some_split [OF this] obtain cs ds where cs: "bs = cs @ m # ds" "unfinished m"
        "\<forall>y \<in> set cs. \<not> unfinished y" by blast
      then have "select_resume_target p c = Some \<lparr>rs_path = pa_id path, rs_module = m, rs_advanced = True\<rparr>"
        using sel Some nonempty by simp
      moreover have "\<exists>as bs cs. pa_modules path = as @ rm_module r # bs \<and> rm_module r \<notin> set as
          \<and> (bs = cs @ m # drop (Suc (length cs)) bs \<and> (\<forall>y \<in> set cs. \<not> unfinished y)
             \<or> (\<forall>y \<in> set bs. \<not> unfinished y) \<and> find unfinished (pa_modules path) = Some m)"
        using split cs by (intro exI [of _ as] exI [of _ bs] exI [of _ cs]) simp
      moreover have "m \<in> set (pa_modules path)" using split cs(1) by simp
      ultimately show ?thesis using r finished cs(2) by simp
    next
      case None
      then have none: "\<forall>y \<in> set bs. \<not> unfinished y" by (simp add: find_None_iff)
      show ?thesis
      proof (cases "find unfinished (pa_modules path)")
        case whole: None
        then have "select_resume_target p c = None" using sel None by simp
        then show ?thesis using whole r by (simp add: find_None_iff)
      next
        case (Some m)
        from find_Some_split [OF this] have "m \<in> set (pa_modules path)" "unfinished m" by auto
        then have "select_resume_target p c = Some \<lparr>rs_path = pa_id path, rs_module = m, rs_advanced = True\<rparr>"
          using sel Some None nonempty by simp
        moreover have "\<exists>as bs cs. pa_modules path = as @ rm_module r # bs \<and> rm_module r \<notin> set as
            \<and> (bs = cs @ m # drop (Suc (length cs)) bs \<and> (\<forall>y \<in> set cs. \<not> unfinished y)
               \<or> (\<forall>y \<in> set bs. \<not> unfinished y) \<and> find unfinished (pa_modules path) = Some m)"
          using split none Some by (intro exI [of _ as] exI [of _ bs]) simp
        ultimately show ?thesis using r finished \<open>m \<in> set (pa_modules path)\<close> \<open>unfinished m\<close> by simp
      qed
    qed
  qed
qed

section \<open>Recording\<close>

text \<open>
  C28. Every record that recording can produce from an empty one, in any order of attempts, capstones
  and visits, is sound: no ID, started path or completed module occurs twice; a module is
  completed exactly when it has a passed attempt and, if it has a capstone, a passed
  submission; every completed path has its badge and every badge is that of a completed path;
  every attempt belongs to a started path of the catalogue; and every capstone score is a
  percentage, or not a number.
\<close>

theorem recorded_progress_sound:
  assumes "recorded c p" and "\<forall>path \<in> set (ct_paths c). pa_modules path \<noteq> []"
  shows "record_sound c p"
  by (rule recorded_sound [OF assms])

lemma fold_result_all: "fold_result f s xs = Inr s' \<Longrightarrow> x \<in> set xs \<Longrightarrow> \<exists>t t'. f t x = Inr t'"
  by (induction xs arbitrary: s) (auto simp: bind_result_eq_Inr)

lemma score_criterion_ok:
  assumes "score_criterion cap scores refs tests t cr = Inr t'"
  shows "\<exists>s \<in> set scores. cs_criterion s = cr_id cr \<and> num_integer (cs_points s)
    \<and> num_le (Fin 0) (cs_points s) \<and> \<not> num_less (cr_max_points cr) (cs_points s)
    \<and> (cd_needs_evidence cap \<longrightarrow> (\<exists>ev. cs_evidence s = Some ev \<and> ev \<noteq> [] \<and> distinct ev
        \<and> set ev \<subseteq> set refs \<union> set tests))"
proof (cases "score_by_criterion scores (cr_id cr)")
  case (Some s)
  have pos: "num_integer (cs_points s)" "\<not> num_less (cs_points s) (Fin 0)"
    using assms Some by (auto simp: score_criterion_def split: if_splits)
  then have "num_le (Fin 0) (cs_points s)" by (cases "cs_points s") auto
  moreover have "s \<in> set scores" "cs_criterion s = cr_id cr"
    using map_of_SomeD [OF Some [unfolded score_by_criterion_def]] by auto
  moreover have "\<not> num_less (cr_max_points cr) (cs_points s)"
    using assms Some by (simp add: score_criterion_def split: if_splits)
  moreover have "\<exists>ev. cs_evidence s = Some ev \<and> ev \<noteq> [] \<and> distinct ev \<and> set ev \<subseteq> set refs \<union> set tests"
    if "cd_needs_evidence cap"
    using assms Some that by (auto simp: score_criterion_def list_ex_iff split: if_splits option.splits)
  ultimately show ?thesis using pos(1) by blast
qed (use assms in \<open>simp add: score_criterion_def\<close>)

text \<open>
  A new capstone submission that is accepted scores every criterion of the rubric with a whole
  number of points between 0 and the maximum, cites for each, where the capstone asks for it,
  distinct evidence among its artifacts and the learner's own assessments of that module, has a
  score between 0 and 100 (or not a number), passes exactly when that reaches the pass mark, and
  is stored after the earlier ones.
\<close>

theorem capstone_submission_scored:
  assumes "record_capstone_submission p c i = Inr p'" and "ci_submission i \<notin> sub_id ` set (capstones_of p)"
  shows "\<exists>m cap s. find_module c (ci_module i) = Some m \<and> lm_capstone m = Some cap
    \<and> capstones_of p' = capstones_of p @ [s] \<and> sub_id s = ci_submission i \<and> sub_criteria s = ci_scores i
    \<and> percent_or_nan (sub_score s) \<and> sub_passed s = num_le (cd_pass_percent cap) (sub_score s)
    \<and> (\<forall>cr \<in> set (cd_criteria cap). \<exists>x \<in> set (ci_scores i). cs_criterion x = cr_id cr
        \<and> num_integer (cs_points x) \<and> num_le (Fin 0) (cs_points x) \<and> \<not> num_less (cr_max_points cr) (cs_points x)
        \<and> (cd_needs_evidence cap \<longrightarrow> (\<exists>ev. cs_evidence x = Some ev \<and> ev \<noteq> [] \<and> distinct ev
            \<and> (\<forall>e \<in> set ev. e \<in> set (ci_artifacts i) \<or> (\<exists>a \<in> set (lp_attempts p).
                e = ''assessment:'' @ at_id a \<and> at_path a = ci_path i \<and> at_module a = ci_module i)))))
    \<and> (ci_module i \<in> set (lp_completed_modules p') \<longleftrightarrow> ci_module i \<in> set (lp_completed_modules p)
        \<or> sub_passed s \<and> (\<exists>a \<in> set (lp_attempts p). at_module a = ci_module i \<and> at_passed a))"
  using assms(1)
proof (cases rule: record_capstone_cases)
  case known
  then show ?thesis using assms(2) by blast
next
  case (new path m cap st s after)
  have fields: "capstones_of p' = capstones_of p @ [s]" "lp_completed_modules p' = after"
    by (simp_all add: new(9) capstones_of_def)
  have crit: "\<exists>x \<in> set (ci_scores i). cs_criterion x = cr_id cr
        \<and> num_integer (cs_points x) \<and> num_le (Fin 0) (cs_points x) \<and> \<not> num_less (cr_max_points cr) (cs_points x)
        \<and> (cd_needs_evidence cap \<longrightarrow> (\<exists>ev. cs_evidence x = Some ev \<and> ev \<noteq> [] \<and> distinct ev
            \<and> (\<forall>e \<in> set ev. e \<in> set (ci_artifacts i) \<or> (\<exists>a \<in> set (lp_attempts p).
                e = ''assessment:'' @ at_id a \<and> at_path a = ci_path i \<and> at_module a = ci_module i))))"
    if cr: "cr \<in> set (cd_criteria cap)" for cr
  proof -
    obtain t t' where "score_criterion cap (ci_scores i) (ci_artifacts i)
          (map (\<lambda>a. ''assessment:'' @ at_id a)
            (filter (\<lambda>a. at_path a = ci_path i \<and> at_module a = ci_module i) (lp_attempts p))) t cr = Inr t'"
      using fold_result_all [OF new(6) cr] by blast
    from score_criterion_ok [OF this] show ?thesis by (fastforce simp: image_iff)
  qed
  have "ci_module i \<in> set after \<longleftrightarrow> ci_module i \<in> set (lp_completed_modules p)
        \<or> sub_passed s \<and> (\<exists>a \<in> set (lp_attempts p). at_module a = ci_module i \<and> at_passed a)"
    by (auto simp: new(8))
  then show ?thesis
    using new(3,5) crit capstone_score_bounds [OF new(6)]
    by (intro exI [of _ m] exI [of _ cap] exI [of _ s]) (simp add: fields new(7))
qed

end
