(* ===== verification/Progress_Samples.thy ===== *)
theory Progress_Samples
  imports Progress_Theorems Js_Guards
begin

text \<open>
  Concrete records, a catalogue of one path with a capstone, and a host whose number texts are
  injective; the theorems on learner records applied to them.
\<close>

section \<open>Number texts\<close>

text \<open>An injective text for every fraction: its numerator and denominator around an \<open>e\<close>.\<close>

definition int_text :: "int \<Rightarrow> string" where
  "int_text i = (if i < 0 then ''-'' @ nat_text (nat (- i)) else nat_text (nat i))"

definition fraction_text :: "rat \<Rightarrow> string" where
  "fraction_text r = (case quotient_of r of (p, q) \<Rightarrow> int_text p @ ''e'' @ int_text q)"

definition precise_runtime :: runtime where
  "precise_runtime = sample_runtime\<lparr>num_text := fraction_text\<rparr>"

lemma int_text_inj: "int_text i = int_text j \<Longrightarrow> i = j"
proof -
  have head: "hd (nat_text n) \<noteq> CHR ''-''" for n
    using nat_text_digits [of n] by (cases "nat_text n") (auto simp: digit_char_def)
  assume eq: "int_text i = int_text j"
  show "i = j"
  proof (cases "i < 0"; cases "j < 0")
    assume "i < 0" "\<not> j < 0"
    then show ?thesis using eq head [of "nat j"] by (metis append_Cons append_Nil int_text_def list.sel(1))
  next
    assume "\<not> i < 0" "j < 0"
    then show ?thesis using eq head [of "nat i"] by (metis append_Cons append_Nil int_text_def list.sel(1))
  qed (use eq in \<open>auto simp: int_text_def dest: nat_text_inj\<close>)
qed

lemma int_text_chars: "list_all number_char (int_text i)" "CHR ''e'' \<notin> set (int_text i)"
  using nat_text_digits [of "nat i"] nat_text_digits [of "nat (- i)"]
  by (auto simp: int_text_def number_char_def list_all_iff digit_char_def)

lemma fraction_text_inj: "inj fraction_text"
proof (rule injI)
  fix r s assume eq: "fraction_text r = fraction_text s"
  obtain p q where r: "quotient_of r = (p, q)" by force
  obtain p' q' where s: "quotient_of s = (p', q')" by force
  have "int_text p @ ''e'' @ int_text q = int_text p' @ ''e'' @ int_text q'"
    using eq by (simp add: fraction_text_def r s)
  moreover have "takeWhile (\<lambda>c. c \<noteq> CHR ''e'') (int_text i @ ''e'' @ t) = int_text i" for i t
    using int_text_chars(2) [of i] by (subst takeWhile_append2) auto
  ultimately have "int_text p = int_text p'" by metis
  moreover from this have "int_text q = int_text q'" using \<open>int_text p @ ''e'' @ int_text q = _\<close> by simp
  ultimately have "p = p'" "q = q'" by (auto dest: int_text_inj)
  then show "r = s" using quotient_of_div [OF r] quotient_of_div [OF s] by simp
qed

lemma precise_runtime_ok: "num_text_ok precise_runtime"
proof -
  have "list_all number_char (fraction_text r) \<and> fraction_text r \<noteq> []
     \<and> (digit_char (hd (fraction_text r)) \<or> hd (fraction_text r) = CHR ''-'')" for r
  proof -
    obtain p q where r: "quotient_of r = (p, q)" by force
    have "int_text p \<noteq> [] \<and> (digit_char (hd (int_text p)) \<or> hd (int_text p) = CHR ''-'')"
      using nat_text_digits [of "nat p"] by (cases "nat_text (nat p)") (auto simp: int_text_def)
    then show ?thesis using int_text_chars(1)
      by (simp add: fraction_text_def r number_char_def)
  qed
  then show ?thesis using fraction_text_inj by (simp add: num_text_ok_def precise_runtime_def)
qed

lemma precise_comparator: "comparator (collate precise_runtime)"
  using units.comparator_axioms by (simp add: precise_runtime_def sample_runtime_def)

section \<open>Records\<close>

definition sample_attempt :: "string \<Rightarrow> rat \<Rightarrow> string \<Rightarrow> assessment_attempt" where
  "sample_attempt i score time = \<lparr>at_id = i, at_path = ''path-a'', at_module = ''module-a'',
     at_content_version = ''1.0.0'', at_score = Fin score, at_passed = (80 \<le> score), at_completed_at = time\<rparr>"

definition account_record :: learner_progress where
  "account_record = (create_empty_progress ''Ada'')
     \<lparr>lp_started_paths := [''path-a''], lp_attempts := [sample_attempt ''attempt-1'' 60 ''2026-03-01T10:00:00.000Z'']\<rparr>"

definition device_record :: learner_progress where
  "device_record = (create_empty_progress ''Explorer'')
     \<lparr>lp_started_paths := [''path-a''], lp_completed_modules := [''module-a''],
      lp_attempts := [sample_attempt ''attempt-2'' 90 ''2026-03-01T09:00:00.000Z''],
      lp_recent := Some \<lparr>rm_path = ''path-a'', rm_module = ''module-a'', rm_visited_at = ''2026-03-01T09:00:00.000Z''\<rparr>\<rparr>"

text \<open>Another device used the attempt ID of the account's record.\<close>

definition clashing_record :: learner_progress where
  "clashing_record = device_record\<lparr>lp_attempts := [sample_attempt ''attempt-1'' 90 ''2026-03-01T11:00:00.000Z'']\<rparr>"

lemma record_sels [simp]:
  "lp_badges account_record = []" "lp_attempts account_record = [sample_attempt ''attempt-1'' 60 ''2026-03-01T10:00:00.000Z'']"
  "capstones_of account_record = []"
  "lp_badges device_record = []" "lp_attempts device_record = [sample_attempt ''attempt-2'' 90 ''2026-03-01T09:00:00.000Z'']"
  "capstones_of device_record = []" "lp_completed_modules device_record = [''module-a'']"
  "lp_attempts clashing_record = [sample_attempt ''attempt-1'' 90 ''2026-03-01T11:00:00.000Z'']"
  "at_id (sample_attempt i s t) = i" "at_score (sample_attempt i s t) = Fin s" "at_completed_at (sample_attempt i s t) = t"
  "lp_recent device_record = Some \<lparr>rm_path = ''path-a'', rm_module = ''module-a'', rm_visited_at = ''2026-03-01T09:00:00.000Z''\<rparr>"
  by (simp_all add: account_record_def device_record_def clashing_record_def sample_attempt_def
      create_empty_progress_def capstones_of_def)

theorem merge_keeps_evidence_witness:
  "''module-a'' \<in> set (lp_completed_modules (merge_learner_progress precise_runtime account_record device_record ''Ada'' unsynced_prefix))
   \<and> carries precise_runtime (merge_learner_progress precise_runtime account_record device_record ''Ada'' unsynced_prefix)
       device_record unsynced_prefix"
  using merge_keeps_evidence [of account_record _ precise_runtime device_record "''Ada''" unsynced_prefix, OF _ refl]
  by simp

theorem merge_orders_by_time_witness:
  "sorted_wrt (\<lambda>a b. unit_cmp (at_completed_at a) (at_completed_at b) \<le> 0)
     (lp_attempts (merge_learner_progress precise_runtime account_record device_record ''Ada'' unsynced_prefix))"
  using merge_orders_by_time [OF precise_comparator _ refl, of account_record device_record "''Ada''" unsynced_prefix]
  by (simp add: precise_runtime_def sample_runtime_def)

theorem merge_again_witness:
  "merge_learner_progress precise_runtime
     (merge_learner_progress precise_runtime account_record device_record ''Ada'' unsynced_prefix)
     device_record ''Ada'' unsynced_prefix
   = merge_learner_progress precise_runtime account_record device_record ''Ada'' unsynced_prefix"
  by (rule merge_again [OF precise_comparator refl]) (simp_all add: agree_def)

theorem merge_conflict_twice_witness:
  "\<not> wf_progress (merge_learner_progress precise_runtime
     (merge_learner_progress precise_runtime account_record clashing_record ''Ada'' unsynced_prefix)
     clashing_record ''Ada'' unsynced_prefix)"
proof -
  let ?a = "sample_attempt ''attempt-1'' 60 ''2026-03-01T10:00:00.000Z''"
  let ?x = "sample_attempt ''attempt-1'' 90 ''2026-03-01T11:00:00.000Z''"
  have differ: "\<not> same_attempt precise_runtime ?a ?x"
    using same_attempt_iff [OF precise_runtime_ok, of ?a 60 ?x 90] by (simp add: sample_attempt_def)
  have "distinct (map at_id (lp_attempts (merge_learner_progress precise_runtime account_record clashing_record ''Ada'' unsynced_prefix)))"
    using differ by (simp add: merge_attempts_def Let_def unsynced_prefix_def)
  from merge_conflict_twice [OF refl refl _ _ _ differ this] show ?thesis by simp
qed

theorem plans_keep_work_witness:
  "carries precise_runtime (plan_account_progress_hydration precise_runtime account_record False None device_record)
     device_record unsynced_prefix"
  using plans_keep_work [of account_record precise_runtime False None device_record]
  by (simp add: Let_def)

theorem save_retry_bounded_witness:
  "plan_progress_save_retry (Some 400) 1 None = GiveUp NotRetryable"
  using save_retry_bounded [of "Some 400" 1 None] by simp

theorem same_record_decides_witness:
  "\<not> same_attempt precise_runtime (sample_attempt ''attempt-1'' 60 ''t'') (sample_attempt ''attempt-1'' 90 ''t'')"
  using same_record_decides [OF precise_runtime_ok] by (simp add: sample_attempt_def)

section \<open>A catalogue\<close>

definition sample_module :: "string \<Rightarrow> capstone_definition option \<Rightarrow> learning_module" where
  "sample_module i cap = \<lparr>lm_id = i, lm_title = ''A module'', lm_summary = ''About it'', lm_level = ''beginner'',
     lm_providers = [''openai''], lm_minutes = Fin 30, lm_objectives = [''Know it''], lm_prerequisites = [],
     lm_sections = [], lm_activity = None, lm_matrix = None, lm_script = None, lm_capstone = cap,
     lm_pass_percent = Fin 80, lm_questions = [], lm_sources = []\<rparr>"

definition sample_criterion :: "string \<Rightarrow> rat \<Rightarrow> rubric_criterion" where
  "sample_criterion i n = \<lparr>cr_id = i, cr_title = ''Criterion'', cr_description = ''What counts'',
     cr_max_points = Fin n, cr_evidence = [''a report'']\<rparr>"

definition sample_capstone :: capstone_definition where
  "sample_capstone = \<lparr>cd_id = ''capstone-b'', cd_title = ''Capstone'', cd_summary = ''Do it'',
     cd_artifacts = [''report.md''], cd_needs_evidence = True, cd_needs_exemplars = False, cd_exemplars = None,
     cd_pass_percent = Fin 70, cd_criteria = [sample_criterion ''criterion-1'' 40, sample_criterion ''criterion-2'' 60]\<rparr>"

definition sample_catalog :: catalog where
  "sample_catalog = \<lparr>ct_schema = ''1.0'', ct_content_version = ''1.0.0'', ct_providers = [''openai''],
     ct_paths = [\<lparr>pa_id = ''path-a'', pa_title = ''Path A'', pa_summary = ''First'', pa_audience = ''all'',
       pa_level = ''beginner'', pa_modules = [''module-a'', ''module-b''],
       pa_badge = \<lparr>pb_id = ''badge-a'', pb_name = ''Badge A'', pb_description = ''Done''\<rparr>\<rparr>],
     ct_modules = [sample_module ''module-a'' None, sample_module ''module-b'' (Some sample_capstone)], ct_resources = []\<rparr>"

definition sample_check :: attempt_input where
  "sample_check = \<lparr>ai_attempt = ''attempt-2'', ai_path = ''path-a'', ai_module = ''module-a'',
     ai_completed_at = ''2026-03-01T09:00:00.000Z'',
     ai_result = \<lparr>ar_correct = 9, ar_total = 10, ar_score = Fin 90, ar_passed = True, ar_feedback = []\<rparr>\<rparr>"

definition sample_submission :: capstone_input where
  "sample_submission = \<lparr>ci_submission = ''submission-1'', ci_path = ''path-a'', ci_module = ''module-b'',
     ci_submitted_at = ''2026-03-02T09:00:00.000Z'', ci_artifacts = [''report.md''],
     ci_scores = [\<lparr>cs_criterion = ''criterion-1'', cs_points = Fin 30, cs_evidence = Some [''report.md'']\<rparr>,
       \<lparr>cs_criterion = ''criterion-2'', cs_points = Fin 50, cs_evidence = Some [''report.md'']\<rparr>],
     ci_reflection = ''It went well''\<rparr>"

lemma sample_paths: "\<forall>path \<in> set (ct_paths sample_catalog). pa_modules path \<noteq> []"
  by (simp add: sample_catalog_def)

lemma sample_find [simp]: "find_path sample_catalog ''path-a'' = Some (hd (ct_paths sample_catalog))"
  "find_module sample_catalog ''module-a'' = Some (sample_module ''module-a'' None)"
  "find_module sample_catalog ''module-b'' = Some (sample_module ''module-b'' (Some sample_capstone))"
  by (simp_all add: find_path_def find_module_def sample_catalog_def sample_module_def)

theorem resume_target_next_unfinished_witness:
  "\<exists>t. select_resume_target device_record sample_catalog = Some t \<and> rs_module t = ''module-b'' \<and> rs_advanced t"
proof -
  have "[] \<notin> lm_id ` set (ct_modules sample_catalog)" by (simp add: sample_catalog_def sample_module_def)
  note facts = resume_target_next_unfinished [OF this refl, of device_record]
  have "select_resume_target device_record sample_catalog
      = Some \<lparr>rs_path = ''path-a'', rs_module = ''module-b'', rs_advanced = True\<rparr>"
    by (simp add: select_resume_target_def Let_def sample_catalog_def find_path_def sample_module_def)
  with facts show ?thesis by simp
qed

theorem recorded_progress_sound_witness:
  "\<exists>p. record_assessment_attempt (create_empty_progress ''Ada'') sample_catalog sample_check = Inr p
     \<and> module_earned sample_catalog p ''module-a''"
proof -
  obtain p where p: "record_assessment_attempt (create_empty_progress ''Ada'') sample_catalog sample_check = Inr p"
    "lp_completed_modules p = [''module-a'']"
    by (simp add: record_assessment_attempt_def create_empty_progress_def sample_check_def sample_catalog_def
        find_path_def find_module_def sample_module_def Let_def capstones_of_def)
  have "recorded sample_catalog p" by (rule recorded.attempt [OF recorded.empty p(1)])
  from recorded_progress_sound [OF this sample_paths] p show ?thesis by (auto simp: record_sound_def)
qed

theorem capstone_submission_scored_witness:
  "\<exists>p s. record_capstone_submission device_record sample_catalog sample_submission = Inr p
     \<and> capstones_of p = [s] \<and> percent_or_nan (sub_score s)"
proof -
  obtain p where p: "record_capstone_submission device_record sample_catalog sample_submission = Inr p"
  proof -
    have trims: "js_trim ''report.md'' = ''report.md''" "js_trim ''It went well'' = ''It went well''" by code_simp+
    have "case record_capstone_submission device_record sample_catalog sample_submission of Inl _ \<Rightarrow> False | Inr _ \<Rightarrow> True"
      using trims by (simp add: record_capstone_submission_def sample_submission_def sample_capstone_def
          sample_module_def sample_criterion_def score_criterion_def score_by_criterion_def Let_def
          sample_catalog_def sample_attempt_def find_path_def find_module_def)
    then show ?thesis using that by (cases "record_capstone_submission device_record sample_catalog sample_submission") auto
  qed
  have "ci_submission sample_submission \<notin> sub_id ` set (capstones_of device_record)" by simp
  from capstone_submission_scored [OF p this] p show ?thesis by auto
qed

end
