(* ===== verification/Catalog_Theorems.thy ===== *)
theory Catalog_Theorems
  imports Catalog_Valid Progress_Samples
begin

text \<open>
  What a valid catalogue gives the rest of the program: the prerequisite walk ends, the validator
  decides the declarative description, and every path can be finished.
\<close>

section \<open>Unique IDs\<close>

lemma valid_catalog_ids:
  assumes "wf_catalog h c"
  shows "distinct (map pa_id (ct_paths c))" and "distinct (concat (map module_ids_of (ct_modules c)))"
  using assms unfolding wf_catalog_def catalog_ids_def distinct_append by blast+

lemma distinct_concat_part: "distinct (concat (map f xs)) \<Longrightarrow> x \<in> set xs \<Longrightarrow> distinct (f x)"
  by (auto simp: distinct_concat_iff)

lemma distinct_concat_inj:
  "distinct (concat (map f xs)) \<Longrightarrow> \<forall>x \<in> set xs. key x \<in> set (f x) \<Longrightarrow> distinct (map key xs)"
proof (induction xs)
  case (Cons x xs)
  then have "key x \<notin> key ` set xs" by (force simp del: set_concat simp: set_concat [of "map f xs"])
  then show ?case using Cons by simp
qed simp

lemma valid_module_ids: "wf_catalog h c \<Longrightarrow> distinct (map lm_id (ct_modules c))"
  using distinct_concat_inj [of module_ids_of "ct_modules c" lm_id] valid_catalog_ids(2)
  by (simp add: module_ids_of_def)

lemma find_unique: "distinct (map key xs) \<Longrightarrow> x \<in> set xs \<Longrightarrow> find (\<lambda>y. key y = key x) xs = Some x"
  by (induction xs) auto

lemma valid_find_path: "wf_catalog h c \<Longrightarrow> path \<in> set (ct_paths c) \<Longrightarrow> find_path c (pa_id path) = Some path"
  by (simp add: find_path_def find_unique valid_catalog_ids)

lemma valid_find_module: "wf_catalog h c \<Longrightarrow> m \<in> set (ct_modules c) \<Longrightarrow> find_module c (lm_id m) = Some m"
  by (simp add: find_module_def find_unique valid_module_ids)

lemma valid_path_module:
  assumes "wf_catalog h c" and "path \<in> set (ct_paths c)" and "i \<in> set (pa_modules path)"
  obtains m where "m \<in> set (ct_modules c)" "find_module c i = Some m" "lm_id m = i" "wf_module h (ct_providers c) (map lm_id (ct_modules c)) m"
    "distinct (map kq_id (lm_questions m))" "distinct (capstone_ids (lm_capstone m))"
proof -
  have "i \<in> lm_id ` set (ct_modules c)" using assms by (auto simp: wf_catalog_def wf_path_def)
  then obtain m where m: "m \<in> set (ct_modules c)" "lm_id m = i" by auto
  have "distinct (module_ids_of m)" by (rule distinct_concat_part [OF valid_catalog_ids(2) [OF assms(1)] m(1)])
  then show ?thesis
    using that [OF m(1)] m valid_find_module [OF assms(1) m(1)] assms(1) by (auto simp: wf_catalog_def module_ids_of_def)
qed

section \<open>Full marks\<close>

definition right_answers :: "learning_module \<Rightarrow> (string \<times> jsnum) list" where
  "right_answers m = map (\<lambda>q. (kq_id q, kq_answer q)) (lm_questions m)"

text \<open>
  What the page of a knowledge check lets a learner choose: for each question, and for nothing else, the index of one of its
  choices.
\<close>

definition chosen_answers :: "learning_module \<Rightarrow> (string \<times> jsnum) list \<Rightarrow> bool" where
  "chosen_answers m answers \<longleftrightarrow> distinct (map fst answers) \<and> fst ` set answers = kq_id ` set (lm_questions m)
     \<and> list_all (\<lambda>q. \<exists>i < length (kq_choices q). map_of answers (kq_id q) = Some (Fin (of_nat i))) (lm_questions m)"

text \<open>Enough of the questions have the choice that the catalogue calls right.\<close>

definition enough_right :: "learning_module \<Rightarrow> (string \<times> jsnum) list \<Rightarrow> bool" where
  "enough_right m answers \<longleftrightarrow> lm_questions m \<noteq> [] \<and> num_le (lm_pass_percent m)
     (js_percent (length (filter (\<lambda>q. map_of answers (kq_id q) = Some (kq_answer q)) (lm_questions m))) (length (lm_questions m)))"

text \<open>
  What the validator leaves open: the answers are whole numbers, and the percentages are numbers, as in every catalogue read
  from JSON.
\<close>

definition answers_are_whole :: "learning_module \<Rightarrow> bool" where
  "answers_are_whole m \<longleftrightarrow> lm_pass_percent m \<noteq> NaN \<and> (\<forall>q \<in> set (lm_questions m). num_integer (kq_answer q))
     \<and> (\<forall>cap. lm_capstone m = Some cap \<longrightarrow> cd_pass_percent cap \<noteq> NaN)"

lemma whole_answer_chosen:
  assumes "wf_question q" and "num_integer (kq_answer q)"
  shows "\<exists>i < length (kq_choices q). kq_answer q = Fin (of_nat i)"
proof -
  obtain r where r: "kq_answer q = Fin r" "r \<in> \<int>" using assms(2) by (cases "kq_answer q") auto
  obtain k where k: "r = of_int k" using r(2) by (elim Ints_cases)
  have "0 \<le> r" "r < of_nat (length (kq_choices q))" using assms(1) r(1) by (simp_all add: wf_question_def not_less not_le)
  then have "(of_int 0 :: rat) \<le> of_int k" "(of_int k :: rat) < of_int (int (length (kq_choices q)))" by (simp_all add: k)
  then have range: "0 \<le> k" "k < int (length (kq_choices q))" by (simp_all only: of_int_le_iff of_int_less_iff)
  have "of_nat (nat k) = (of_int k :: rat)" using range(1) by (simp add: of_nat_nat)
  then show ?thesis using r(1) k range by (intro exI [of _ "nat k"]) simp
qed

lemma right_answers_find: "distinct (map kq_id (lm_questions m)) \<Longrightarrow> q \<in> set (lm_questions m)
    \<Longrightarrow> map_of (right_answers m) (kq_id q) = Some (kq_answer q)"
  by (intro map_of_is_SomeI) (auto simp: right_answers_def comp_def)

lemma right_answers_chosen:
  assumes "distinct (map kq_id (lm_questions m))" and "\<forall>q \<in> set (lm_questions m). wf_question q" and "answers_are_whole m"
  shows "chosen_answers m (right_answers m)"
proof -
  have "map fst (right_answers m) = map kq_id (lm_questions m)" by (simp add: right_answers_def)
  then have "distinct (map fst (right_answers m))" using assms(1) by (simp only:)
  moreover have "\<exists>i < length (kq_choices q). map_of (right_answers m) (kq_id q) = Some (Fin (of_nat i))" if "q \<in> set (lm_questions m)" for q
    using right_answers_find [OF assms(1) that] whole_answer_chosen [of q] assms(2,3) that by (auto simp: answers_are_whole_def)
  moreover have "fst ` set (right_answers m) = kq_id ` set (lm_questions m)" by (force simp: right_answers_def)
  ultimately show ?thesis using assms(1) unfolding chosen_answers_def list_all_iff by blast
qed

text \<open>Scoring passes exactly the answers of which enough are right.\<close>

lemma score_passes:
  assumes "chosen_answers m answers"
  shows "ar_passed (score_knowledge_check (lm_questions m) answers (lm_pass_percent m)) \<longleftrightarrow> enough_right m answers"
proof -
  have right: "(qf_correct \<circ> score_feedback answers) q \<longleftrightarrow> map_of answers (kq_id q) = Some (kq_answer q)" if "q \<in> set (lm_questions m)" for q
  proof -
    have "list_all (\<lambda>q. \<exists>i < length (kq_choices q). map_of answers (kq_id q) = Some (Fin (of_nat i))) (lm_questions m)"
      using assms unfolding chosen_answers_def by (elim conjE)
    then have "\<exists>i < length (kq_choices q). map_of answers (kq_id q) = Some (Fin (of_nat i))" using that unfolding list_all_iff by (rule bspec)
    then obtain i where "map_of answers (kq_id q) = Some (Fin (of_nat i))" by (elim exE conjE)
    then show ?thesis unfolding score_feedback_def num_same_def Let_def comp_def by (simp del: map_of_eq_Some_iff)
  qed
  have "length (filter qf_correct (map (score_feedback answers) (lm_questions m)))
      = length (filter (\<lambda>q. map_of answers (kq_id q) = Some (kq_answer q)) (lm_questions m))"
    unfolding filter_map length_map using right by (intro arg_cong [where f = length] filter_cong refl)
  then show ?thesis by (simp add: score_knowledge_check_def enough_right_def Let_def)
qed

lemma right_answers_enough:
  assumes "distinct (map kq_id (lm_questions m))" and "lm_questions m \<noteq> []" and "answers_are_whole m"
    and "\<not> num_less (Fin 100) (lm_pass_percent m)"
  shows "enough_right m (right_answers m)"
proof -
  have "filter (\<lambda>q. map_of (right_answers m) (kq_id q) = Some (kq_answer q)) (lm_questions m) = lm_questions m"
    using right_answers_find [OF assms(1)] by (simp add: filter_id_conv)
  moreover have "num_le (lm_pass_percent m) (Fin 100)"
    using assms(3,4) num_not_less [of "Fin 100" "lm_pass_percent m"] by (simp add: answers_are_whole_def)
  ultimately show ?thesis using assms(2) by (simp add: enough_right_def js_percent_complete)
qed

text \<open>Full points for each criterion, each resting on the first required artifact.\<close>

definition full_scores :: "capstone_definition \<Rightarrow> criterion_score list" where
  "full_scores cap = map (\<lambda>cr. \<lparr>cs_criterion = cr_id cr, cs_points = cr_max_points cr,
     cs_evidence = Some [hd (cd_artifacts cap)]\<rparr>) (cd_criteria cap)"

lemma wf_criterion_points: "wf_criterion cr \<Longrightarrow> num_integer (cr_max_points cr) \<and> \<not> num_less (cr_max_points cr) (Fin 0)"
  by (cases "cr_max_points cr") (auto simp: wf_criterion_def)

lemma score_criterion_full:
  assumes cap: "wf_capstone cap" "distinct (map cr_id (cd_criteria cap))" and cr: "cr \<in> set (cd_criteria cap)"
  shows "score_criterion cap (full_scores cap) (cd_artifacts cap) tests (a, a) cr
    = Inr (num_add a (cr_max_points cr), num_add a (cr_max_points cr))"
proof -
  let ?s = "\<lparr>cs_criterion = cr_id cr, cs_points = cr_max_points cr, cs_evidence = Some [hd (cd_artifacts cap)]\<rparr>"
  have "score_by_criterion (full_scores cap) (cr_id cr) = Some ?s"
    unfolding score_by_criterion_def
    using cap(2) cr by (intro map_of_is_SomeI) (auto simp: full_scores_def rev_map [symmetric] comp_def)
  moreover have "hd (cd_artifacts cap) \<in> set (cd_artifacts cap)" using cap(1) by (simp add: wf_capstone_def)
  ultimately show ?thesis
    using cap(1) cr wf_criterion_points [of cr] by (auto simp: score_criterion_def wf_capstone_def blank_def)
qed

lemma fold_score_full:
  assumes "wf_capstone cap" "distinct (map cr_id (cd_criteria cap))" "set crs \<subseteq> set (cd_criteria cap)"
  shows "fold_result (score_criterion cap (full_scores cap) (cd_artifacts cap) tests) (a, a) crs
    = Inr (foldl num_add a (map cr_max_points crs), foldl num_add a (map cr_max_points crs))"
  using assms(3) by (induction crs arbitrary: a) (simp_all add: score_criterion_full [OF assms(1,2)])

section \<open>Finishing a path\<close>

text \<open>
  What a learner can do, from an empty record: answer the knowledge check of a module and record its score, as the page does,
  hand in a capstone, visit a module.
\<close>

inductive studied :: "catalog \<Rightarrow> learner_progress \<Rightarrow> bool" for c where
  start: "studied c (create_empty_progress name)"
| check: "studied c p \<Longrightarrow> find_module c i = Some m \<Longrightarrow> chosen_answers m answers
    \<Longrightarrow> record_assessment_attempt p c \<lparr>ai_attempt = n, ai_path = q, ai_module = i, ai_completed_at = t,
      ai_result = score_knowledge_check (lm_questions m) answers (lm_pass_percent m)\<rparr> = Inr p' \<Longrightarrow> studied c p'"
| hand_in: "studied c p \<Longrightarrow> record_capstone_submission p c j = Inr p' \<Longrightarrow> studied c p'"
| look: "studied c p \<Longrightarrow> record_module_visit p c r = Inr p' \<Longrightarrow> studied c p'"

lemma studied_recorded: "studied c p \<Longrightarrow> recorded c p"
  by (induction rule: studied.induct) (auto intro: recorded.intros)

text \<open>Every passed attempt of such a record was a check with enough right answers.\<close>

lemma studied_attempts:
  assumes "studied c p"
  shows "\<forall>a \<in> set (lp_attempts p). at_passed a
    \<longrightarrow> (\<exists>m answers. find_module c (at_module a) = Some m \<and> chosen_answers m answers \<and> enough_right m answers)"
  using assms
proof (induction rule: studied.induct)
  case (check p i m answers n q t p')
  from check.hyps(4) show ?case
  proof (cases rule: record_attempt_cases)
    case (new path m' a after)
    have "at_passed a \<longrightarrow> find_module c (at_module a) = Some m \<and> chosen_answers m answers \<and> enough_right m answers"
      using new(5) check.hyps(2,3) score_passes [OF check.hyps(3)] by simp
    then show ?thesis using check.IH new(7) by auto
  qed (use check.IH in simp)
next
  case (hand_in p j p')
  from hand_in.hyps(2) show ?case by (cases rule: record_capstone_cases) (use hand_in.IH in auto)
next
  case (look p r p')
  from record_visit_cases [OF look.hyps(2)] show ?case by (metis (no_types, lifting) look.IH learner_progress.select_convs(4) learner_progress.surjective learner_progress.update_convs(2) learner_progress.update_convs(7) learner_progress.update_convs(8))
qed (simp add: create_empty_progress_def)

lemma fresh_string: "\<exists>i. i \<notin> set (xs :: string list)"
  using ex_new_if_finite [OF infinite_UNIV_listI finite_set] by blast

lemma take_check:
  assumes c: "wf_catalog h c" "path \<in> set (ct_paths c)" "i \<in> set (pa_modules path)"
    and whole: "\<forall>m \<in> set (ct_modules c). answers_are_whole m" and p: "studied c p"
  shows "\<exists>p' a. studied c p' \<and> a \<in> set (lp_attempts p') \<and> at_module a = i \<and> at_passed a
    \<and> set (lp_attempts p) \<subseteq> set (lp_attempts p') \<and> capstones_of p' = capstones_of p"
proof -
  obtain m where m: "m \<in> set (ct_modules c)" "find_module c i = Some m" "lm_id m = i"
    "wf_module h (ct_providers c) (map lm_id (ct_modules c)) m" "distinct (map kq_id (lm_questions m))"
    by (rule valid_path_module [OF c])
  obtain n where n: "n \<notin> set (map at_id (lp_attempts p))" using fresh_string by blast
  let ?r = "score_knowledge_check (lm_questions m) (right_answers m) (lm_pass_percent m)"
  let ?j = "\<lparr>ai_attempt = n, ai_path = pa_id path, ai_module = i, ai_completed_at = [], ai_result = ?r\<rparr>"
  have chosen: "chosen_answers m (right_answers m)"
    by (rule right_answers_chosen [OF m(5)]) (use m(1,4) whole in \<open>auto simp: wf_module_def list_all_iff\<close>)
  have passed: "ar_passed ?r"
    unfolding score_passes [OF chosen] by (rule right_answers_enough [OF m(5)]) (use m(1,4) whole in \<open>auto simp: wf_module_def\<close>)
  have "\<exists>p'. record_assessment_attempt p c ?j = Inr p'"
    using c(3) m(2,3) valid_find_path [OF c(1,2)] by (simp add: record_assessment_attempt_def Let_def)
  then obtain p' where p': "record_assessment_attempt p c ?j = Inr p'" by blast
  have studied: "studied c p'" by (rule studied.check [OF p m(2) chosen p'])
  from p' show ?thesis
  proof (cases rule: record_attempt_cases)
    case known
    then show ?thesis using n by simp
  next
    case (new path' m' a after)
    then show ?thesis using studied passed by (intro exI [of _ p'] exI [of _ a]) (auto simp: capstones_of_def)
  qed
qed

lemma hand_in_capstone:
  assumes c: "wf_catalog h c" "path \<in> set (ct_paths c)" "i \<in> set (pa_modules path)"
    and numbers: "\<forall>m \<in> set (ct_modules c). answers_are_whole m"
    and cap: "find_module c i = Some m" "lm_capstone m = Some cap"
  shows "\<exists>j p' s. record_capstone_submission p c j = Inr p' \<and> s \<in> set (capstones_of p')
    \<and> sub_module s = i \<and> sub_passed s \<and> lp_attempts p' = lp_attempts p
    \<and> set (capstones_of p) \<subseteq> set (capstones_of p')"
proof -
  obtain new where new: "new \<notin> set (map sub_id (capstones_of p))" using fresh_string by blast
  have m: "wf_module h (ct_providers c) (map lm_id (ct_modules c)) m" "distinct (capstone_ids (lm_capstone m))"
    "m \<in> set (ct_modules c)" "lm_id m = i"
    using valid_path_module [OF c] cap(1) by (metis option.inject)+
  have wf: "wf_capstone cap" "distinct (map cr_id (cd_criteria cap))" "cd_pass_percent cap \<noteq> NaN"
    using m numbers cap(2) by (auto simp: wf_module_def capstone_ids_def answers_are_whole_def)
  let ?j = "\<lparr>ci_submission = new, ci_path = pa_id path, ci_module = i, ci_submitted_at = [],
    ci_artifacts = cd_artifacts cap, ci_scores = full_scores cap, ci_reflection = ''done''\<rparr>"
  have scores: "fold_result (score_criterion cap (full_scores cap) (cd_artifacts cap) tests) (Fin 0, Fin 0)
      (cd_criteria cap) = Inr (Fin 100, Fin 100)" for tests
    using fold_score_full [OF wf(1,2) subset_refl, of tests "Fin 0"] wf(1) by (simp add: wf_capstone_def num_sum_def)
  have full: "capstone_score (Fin 100, Fin 100) = Fin 100"
    by (simp add: capstone_score_def double_of_1 double_of_100 math_round_num)
  have low: "num_le (cd_pass_percent cap) (Fin 100)"
    using wf(1,3) num_not_less [of "Fin 100" "cd_pass_percent cap"] by (simp add: wf_capstone_def)
  have ids: "map cs_criterion (full_scores cap) = map cr_id (cd_criteria cap)"
    "length (full_scores cap) = length (cd_criteria cap)" by (simp_all add: full_scores_def)
  have card: "card (cs_criterion ` set (full_scores cap)) = length (cd_criteria cap)"
    using distinct_card [OF wf(2)] ids(1) by (metis length_map list.set_map)
  have "js_trim ''done'' = ''done''" by code_simp
  then have "\<exists>p'. record_capstone_submission p c ?j = Inr p'"
    using c(3) cap m(4) valid_find_path [OF c(1,2)] wf(1) scores card ids(2)
    by (auto simp: record_capstone_submission_def Let_def wf_capstone_def blank_def list_ex_iff)
  then obtain p' where p': "record_capstone_submission p c ?j = Inr p'" by blast
  from p' show ?thesis
  proof (cases rule: record_capstone_cases)
    case known
    then show ?thesis using new by simp
  next
    case (new path' m' cap' st s after)
    then have "st = (Fin 100, Fin 100)" using cap scores by simp
    then show ?thesis using new p' low cap full
      by (intro exI [of _ ?j] exI [of _ p'] exI [of _ s]) (auto simp: capstones_of_def)
  qed
qed

lemma finish_modules:
  assumes c: "wf_catalog h c" "path \<in> set (ct_paths c)"
    and numbers: "\<forall>m \<in> set (ct_modules c). answers_are_whole m"
  shows "set is \<subseteq> set (pa_modules path) \<Longrightarrow> \<exists>p. studied c p \<and> (\<forall>i \<in> set is. module_earned c p i)"
proof (induction "is")
  case Nil
  then show ?case using studied.start [of c "[]"] by auto
next
  case (Cons i "is")
  then obtain p where p: "studied c p" "\<forall>i \<in> set is. module_earned c p i" by auto
  have i: "i \<in> set (pa_modules path)" using Cons.prems by simp
  obtain p1 a where p1: "studied c p1" "a \<in> set (lp_attempts p1)"
    "at_module a = i" "at_passed a" "set (lp_attempts p) \<subseteq> set (lp_attempts p1)" "capstones_of p1 = capstones_of p"
    using take_check [OF c i numbers p(1)] by blast
  obtain m where m: "find_module c i = Some m" by (rule valid_path_module [OF c i])
  have "\<exists>p2. studied c p2 \<and> lp_attempts p2 = lp_attempts p1 \<and> set (capstones_of p1) \<subseteq> set (capstones_of p2)
      \<and> (lm_capstone m = None \<or> (\<exists>s \<in> set (capstones_of p2). sub_module s = i \<and> sub_passed s))"
  proof (cases "lm_capstone m")
    case None
    then show ?thesis using p1(1) by blast
  next
    case (Some cap)
    from hand_in_capstone [OF c i numbers m Some, of p1] studied.hand_in [OF p1(1)] show ?thesis by blast
  qed
  then obtain p2 where p2: "studied c p2" "lp_attempts p2 = lp_attempts p1"
    "set (capstones_of p1) \<subseteq> set (capstones_of p2)"
    "lm_capstone m = None \<or> (\<exists>s \<in> set (capstones_of p2). sub_module s = i \<and> sub_passed s)" by blast
  have "module_earned c p2 i" using m p1(2-4) p2 unfolding module_earned_def by auto
  moreover have "module_earned c p2 k" if "k \<in> set is" for k
  proof -
    have "module_earned c p k" using p(2) that by blast
    then show ?thesis using p1(5,6) p2(2,3) unfolding module_earned_def by auto
  qed
  ultimately show ?case using p2(1) by auto
qed

lemma js_percent_mono: "a \<le> b \<Longrightarrow> 0 < n \<Longrightarrow> num_le (js_percent a n) (js_percent b n)"
  by (simp add: js_percent_def double_of_mono floor_plus_half_mono divide_right_mono double_of_nonneg mult_right_mono)

lemma filter_length_mono: "\<forall>x \<in> set xs. P x \<longrightarrow> Q x \<Longrightarrow> length (filter P xs) \<le> length (filter Q xs)"
  by (induction xs) auto

section \<open>Properties\<close>

text \<open>
  C29. A catalogue is accepted exactly when it is well formed: the schema version is known, every ID is
  a slug and unique in the whole catalogue, every path, module and resource is well formed and
  refers to modules and providers that exist, every module belongs to a path, resource slugs
  are unique and no module requires itself through its prerequisites. The error list is empty
  in exactly those cases.
\<close>

theorem catalog_validation_decides:
  "(vr_valid (validate_catalog h c) \<longleftrightarrow> wf_catalog h c)
   \<and> (vr_errors (validate_catalog h c) = [] \<longleftrightarrow> wf_catalog h c)"
proof
  show valid: "vr_valid (validate_catalog h c) \<longleftrightarrow> wf_catalog h c" by (rule validate_catalog_valid)
  then show "vr_errors (validate_catalog h c) = [] \<longleftrightarrow> wf_catalog h c"
    by (simp add: validate_catalog_def Let_def)
qed

text \<open>
  C30. The depth-first walk over the prerequisites always ends, whatever the modules require of one
  another, and reports an error exactly when some module requires itself directly or
  indirectly.
\<close>

theorem prerequisite_walk_ends:
  "\<exists>messages. prerequisite_cycles modules = Some messages
    \<and> (messages = [] \<longleftrightarrow> acyclic (requires (modules_by_id modules)))"
  by (rule prerequisite_cycles_result)

text \<open>
  Scoring a knowledge check is monotone and bounded: the score is a whole percentage, answers that
  are right wherever others are right score at least as much and pass whenever they pass, and an empty check
  is never passed.
\<close>

theorem knowledge_check_monotone:
  assumes "\<forall>q \<in> set questions. qf_correct (score_feedback fewer q) \<longrightarrow> qf_correct (score_feedback better q)"
  shows "num_le (ar_score (score_knowledge_check questions fewer pass)) (ar_score (score_knowledge_check questions better pass))
    \<and> (ar_passed (score_knowledge_check questions fewer pass) \<longrightarrow> ar_passed (score_knowledge_check questions better pass))
    \<and> (\<exists>i. ar_score (score_knowledge_check questions better pass) = Fin (of_int i) \<and> 0 \<le> i \<and> i \<le> 100)
    \<and> \<not> ar_passed (score_knowledge_check [] better pass)"
proof (cases "questions = []")
  case True
  then show ?thesis by (auto simp: score_knowledge_check_def Let_def intro: exI [of _ 0])
next
  case False
  let ?right = "\<lambda>answers. length (filter qf_correct (map (score_feedback answers) questions))"
  have "?right fewer \<le> ?right better"
    using filter_length_mono [of questions "\<lambda>q. qf_correct (score_feedback fewer q)"] assms
    by (simp add: filter_map comp_def)
  then have "num_le (js_percent (?right fewer) (length questions)) (js_percent (?right better) (length questions))"
    using False by (intro js_percent_mono) simp_all
  note more_right = this
  have "?right better \<le> length questions" by (metis length_filter_le length_map)
  then obtain i where i: "js_percent (?right better) (length questions) = Fin (of_int i)" "0 \<le> i" "i \<le> 100"
    using False js_percent_bounds [of "?right better" "length questions"] by auto
  have scores: "ar_score (score_knowledge_check questions answers pass) = js_percent (?right answers) (length questions)"
    "ar_passed (score_knowledge_check questions answers pass) \<longleftrightarrow> num_le pass (js_percent (?right answers) (length questions))"
    for answers using False by (simp_all add: score_knowledge_check_def Let_def)
  have "\<not> ar_passed (score_knowledge_check [] better pass)" by (simp add: score_knowledge_check_def Let_def)
  then show ?thesis unfolding scores using more_right i num_le_trans by blast
qed

text \<open>
  C31. Paths can be finished, and only by right answers. For every path of a valid catalogue whose answer indices are whole
  numbers (the validator tests only their range) a learner who chooses one of the choices of each question, has the answers
  scored and recorded, and hands in the capstones, can get from an empty record to one in which every module of the path is
  completed and the badge of the path is earned. And whatever a learner does in this way, a module is completed only when its
  knowledge check was answered with enough right choices.
\<close>

theorem valid_path_can_be_finished:
  assumes "vr_valid (validate_catalog h c)" and "path \<in> set (ct_paths c)"
    and "\<forall>m \<in> set (ct_modules c). answers_are_whole m"
  shows "(\<exists>p. studied c p \<and> set (pa_modules path) \<subseteq> set (lp_completed_modules p)
      \<and> (\<exists>b \<in> set (lp_badges p). eb_id b = pb_id (pa_badge path)))
    \<and> (\<forall>p. studied c p \<longrightarrow> (\<forall>i \<in> set (lp_completed_modules p).
          \<exists>m answers. find_module c i = Some m \<and> chosen_answers m answers \<and> enough_right m answers))"
proof
  have wf: "wf_catalog h c" using assms(1) by (simp add: validate_catalog_valid)
  have "\<forall>q \<in> set (ct_paths c). pa_modules q \<noteq> []" using wf by (simp add: wf_catalog_def wf_path_def)
  then have sound: "record_sound c p" if "studied c p" for p by (rule recorded_sound [OF studied_recorded [OF that]])
  obtain p where p: "studied c p" "\<forall>i \<in> set (pa_modules path). module_earned c p i"
    using finish_modules [OF wf assms(2,3) subset_refl] by blast
  have "set (pa_modules path) \<subseteq> set (lp_completed_modules p)" using p(2) sound [OF p(1)] by (auto simp: record_sound_def)
  then show "\<exists>p. studied c p \<and> set (pa_modules path) \<subseteq> set (lp_completed_modules p)
      \<and> (\<exists>b \<in> set (lp_badges p). eb_id b = pb_id (pa_badge path))"
    using p(1) sound [OF p(1)] assms(2) by (auto simp: record_sound_def badges_sound_def path_complete_def)
  show "\<forall>p. studied c p \<longrightarrow> (\<forall>i \<in> set (lp_completed_modules p).
      \<exists>m answers. find_module c i = Some m \<and> chosen_answers m answers \<and> enough_right m answers)"
  proof (intro allI impI ballI)
    fix p i assume p: "studied c p" and "i \<in> set (lp_completed_modules p)"
    then have "module_earned c p i" using sound [OF p] by (auto simp: record_sound_def)
    then obtain a where "a \<in> set (lp_attempts p)" "at_module a = i" "at_passed a" by (auto simp: module_earned_def)
    then show "\<exists>m answers. find_module c i = Some m \<and> chosen_answers m answers \<and> enough_right m answers"
      using studied_attempts [OF p] by blast
  qed
qed

section \<open>A valid catalogue\<close>

definition valid_module :: learning_module where
  "valid_module = \<lparr>lm_id = ''module-a'', lm_title = ''A module'', lm_summary = ''About it'', lm_level = ''beginner'',
     lm_providers = [''openai''], lm_minutes = Fin 30, lm_objectives = [''Know it''], lm_prerequisites = [],
     lm_sections = [\<lparr>sec_id = ''section-a'', sec_title = ''Section'', sec_paragraphs = [''Text''],
       sec_callout = JUndefined, sec_code = None\<rparr>],
     lm_activity = None, lm_matrix = None, lm_script = None, lm_capstone = None, lm_pass_percent = Fin 80,
     lm_questions = [\<lparr>kq_id = ''question-a'', kq_prompt = ''Which?'', kq_choices = [''one'', ''two''],
       kq_answer = Fin 1, kq_explanation = ''Two''\<rparr>],
     lm_sources = [\<lparr>src_title = ''Source'', src_url = ''https://x'', src_publisher = ''P'', src_verified = ''2026-01-01''\<rparr>]\<rparr>"

definition valid_catalog :: catalog where
  "valid_catalog = \<lparr>ct_schema = ''1.0'', ct_content_version = ''1.0.0'', ct_providers = [''openai''],
     ct_paths = [\<lparr>pa_id = ''path-a'', pa_title = ''Path A'', pa_summary = ''First'', pa_audience = ''all'',
       pa_level = ''beginner'', pa_modules = [''module-a''],
       pa_badge = \<lparr>pb_id = ''badge-a'', pb_name = ''Badge A'', pb_description = ''Done''\<rparr>\<rparr>],
     ct_modules = [valid_module], ct_resources = []\<rparr>"

definition sample_host :: host where
  "sample_host = \<lparr>url_protocol = (\<lambda>_. Some ''https:''), clock_ms = 1800000000000\<rparr>"

lemma sample_slugs: "list_all slug [''path-a'', ''module-a'', ''question-a'', ''section-a'']"
  by code_simp

lemma sample_not_blank: "\<not> blank ''Text''" "\<not> blank ''Two''"
  by code_simp+

lemma sample_date: "date_ok sample_host ''2026-01-01''"
  by code_simp

lemma valid_catalog_accepted: "vr_valid (validate_catalog sample_host valid_catalog)"
proof -
  have "requires (modules_by_id (ct_modules valid_catalog)) = {}"
    by (auto simp: requires_def prerequisites_of_def valid_catalog_def valid_module_def lookup_last_def split: if_splits)
  then show ?thesis
    using sample_slugs sample_not_blank sample_date unfolding validate_catalog_valid
    by (simp add: acyclic_def wf_catalog_def catalog_ids_def module_ids_of_def script_ids_def capstone_ids_def
        wf_path_def wf_module_def wf_sections_def wf_section_def wf_source_def wf_question_def
        valid_catalog_def valid_module_def sample_host_def)
qed

theorem knowledge_check_monotone_witness:
  "ar_score (score_knowledge_check (lm_questions valid_module) (right_answers valid_module) (Fin 80)) \<noteq> NaN"
  using knowledge_check_monotone [of "lm_questions valid_module" "[]" "right_answers valid_module" "Fin 80"]
  by (auto simp: score_feedback_def)

theorem valid_path_can_be_finished_witness:
  "\<exists>p. studied valid_catalog p \<and> ''module-a'' \<in> set (lp_completed_modules p) \<and> (\<exists>b \<in> set (lp_badges p). eb_id b = ''badge-a'')
     \<and> \<not> enough_right valid_module [(''question-a'', Fin 0)]"
proof -
  have whole: "\<forall>m \<in> set (ct_modules valid_catalog). answers_are_whole m"
    by (simp add: valid_catalog_def valid_module_def answers_are_whole_def)
  obtain p where p: "studied valid_catalog p" "''module-a'' \<in> set (lp_completed_modules p)" "\<exists>b \<in> set (lp_badges p). eb_id b = ''badge-a''"
    using valid_path_can_be_finished [OF valid_catalog_accepted _ whole, of "hd (ct_paths valid_catalog)"] by (auto simp: valid_catalog_def)
  moreover have "\<not> enough_right valid_module [(''question-a'', Fin 0)]" by code_simp
  ultimately show ?thesis by blast
qed

end
