(* ===== verification/Portable_Theorems.thy ===== *)
theory Portable_Theorems
  imports Portable_Record Catalog_Theorems Js_Whole
begin

text \<open>
  The portable record of a learner whose record was produced by recording restores to the same record: what recording
  guarantees of submissions, the sums of the rubric, and the checks of \<open>restorePortableLearnerRecord\<close> one by one.
\<close>

section \<open>What recording guarantees of a submission\<close>

definition attempt_refs :: "assessment_attempt list \<Rightarrow> string \<Rightarrow> string \<Rightarrow> string list" where
  "attempt_refs as path m = map (\<lambda>a. ''assessment:'' @ at_id a) (filter (\<lambda>a. at_path a = path \<and> at_module a = m) as)"

definition submission_fits :: "catalog \<Rightarrow> capstone_submission \<Rightarrow> string list \<Rightarrow> bool" where
  "submission_fits c s refs \<longleftrightarrow> (\<exists>path m cap st. find_path c (sub_path s) = Some path
     \<and> find_module c (sub_module s) = Some m \<and> sub_module s \<in> set (pa_modules path) \<and> lm_capstone m = Some cap
     \<and> sub_content_version s = ct_content_version c
     \<and> length (cd_artifacts cap) \<le> length (sub_artifacts s) \<and> js_trim (sub_reflection s) \<noteq> []
     \<and> (\<forall>r \<in> set (sub_artifacts s). js_trim r \<noteq> []) \<and> distinct (map cs_criterion (sub_criteria s))
     \<and> length (sub_criteria s) = length (cd_criteria cap)
     \<and> fold_result (score_criterion cap (sub_criteria s) (sub_artifacts s) refs) (Fin 0, Fin 0) (cd_criteria cap) = Inr st
     \<and> sub_score s = capstone_score st \<and> sub_passed s = num_le (cd_pass_percent cap) (capstone_score st))"

definition submission_sound :: "catalog \<Rightarrow> assessment_attempt list \<Rightarrow> capstone_submission \<Rightarrow> bool" where
  "submission_sound c as s \<longleftrightarrow>
     (\<exists>refs. set refs \<subseteq> set (attempt_refs as (sub_path s) (sub_module s)) \<and> submission_fits c s refs)"

lemma attempt_refs_mono: "set as \<subseteq> set bs \<Longrightarrow> set (attempt_refs as path m) \<subseteq> set (attempt_refs bs path m)"
  unfolding attempt_refs_def set_map set_filter by (intro image_mono) blast

lemma submission_sound_mono: "submission_sound c as s \<Longrightarrow> set as \<subseteq> set bs \<Longrightarrow> submission_sound c bs s"
  unfolding submission_sound_def using attempt_refs_mono by blast

definition placed :: "catalog \<Rightarrow> string \<Rightarrow> string \<Rightarrow> bool" where
  "placed c path m \<longleftrightarrow> (\<exists>p. find_path c path = Some p \<and> m \<in> set (pa_modules p))"

definition recorded_inv :: "catalog \<Rightarrow> learner_progress \<Rightarrow> bool" where
  "recorded_inv c p \<longleftrightarrow> lp_capstones p \<noteq> None \<and> (\<forall>s \<in> set (capstones_of p). submission_sound c (lp_attempts p) s)
     \<and> (\<forall>a \<in> set (lp_attempts p). placed c (at_path a) (at_module a) \<and> at_content_version a = ct_content_version c)
     \<and> set (lp_started_paths p) \<subseteq> pa_id ` set (ct_paths c)
     \<and> (\<forall>r. lp_recent p = Some r \<longrightarrow> placed c (rm_path r) (rm_module r))"

lemma find_path_id: "find_path c i = Some path \<Longrightarrow> i \<in> pa_id ` set (ct_paths c)"
  by (auto dest: find_path_Some)

lemma recorded_inv: "recorded c p \<Longrightarrow> recorded_inv c p"
proof (induction rule: recorded.induct)
  case (empty name)
  then show ?case by (simp add: recorded_inv_def create_empty_progress_def capstones_of_def)
next
  case (attempt p i p')
  from attempt.hyps(2) show ?case
  proof (cases rule: record_attempt_cases)
    case (new path m a after)
    have "set (lp_attempts p) \<subseteq> set (lp_attempts p')" by (auto simp: new(7))
    then have "\<forall>s \<in> set (capstones_of p). submission_sound c (lp_attempts p') s"
      using attempt.IH submission_sound_mono by (auto simp: recorded_inv_def)
    moreover have "placed c (at_path a) (at_module a)" using new(2,4,5) by (auto simp: placed_def)
    ultimately show ?thesis
      using attempt.IH find_path_id [OF new(2)] new(5) by (auto simp: recorded_inv_def new(7) capstones_of_def)
  qed (use attempt.IH in simp)
next
  case (capstone p j p')
  from capstone.hyps(2) show ?case
  proof (cases rule: record_capstone_cases)
    case (new path m cap st s after)
    have "submission_sound c (lp_attempts p) s"
      unfolding submission_sound_def submission_fits_def attempt_refs_def
      by (intro exI conjI, rule subset_refl) (use new in auto)
    then show ?thesis
      using capstone.IH find_path_id [OF new(2)] by (auto simp: recorded_inv_def new(9) capstones_of_def)
  qed (use capstone.IH in simp)
next
  case (visit p r p')
  from record_visit_cases [OF visit.hyps(2)] obtain path where path: "find_path c (rm_path r) = Some path"
    "rm_module r \<in> set (pa_modules path)"
    "p' = p\<lparr>lp_started_paths := include_once (rm_path r) (lp_started_paths p), lp_recent := Some r, lp_updated_at := rm_visited_at r\<rparr>"
    by blast
  then show ?case
    using visit.IH find_path_id [OF path(1)] by (auto simp: recorded_inv_def placed_def capstones_of_def)
qed

section \<open>The sums of the rubric\<close>

lemma score_criterion_parts:
  assumes "score_criterion cap scores refs tests st cr = Inr st'"
  shows "\<exists>s. score_by_criterion scores (cr_id cr) = Some s \<and> num_integer (cs_points s)
    \<and> \<not> num_less (cs_points s) (Fin 0) \<and> \<not> num_less (cr_max_points cr) (cs_points s)
    \<and> (cd_needs_evidence cap \<longrightarrow> (\<exists>ev. cs_evidence s = Some ev \<and> ev \<noteq> [] \<and> distinct ev
        \<and> (\<forall>r \<in> set ev. js_trim r \<noteq> [] \<and> (r \<in> set refs \<or> r \<in> set tests))))
    \<and> st' = (num_add (fst st) (cs_points s), num_add (snd st) (cr_max_points cr))"
proof (cases "score_by_criterion scores (cr_id cr)")
  case (Some s)
  then show ?thesis using assms
    by (cases "cs_evidence s") (auto simp: score_criterion_def list_ex_iff split: if_splits)
qed (use assms in \<open>simp add: score_criterion_def\<close>)

definition points_for :: "criterion_score list \<Rightarrow> rubric_criterion \<Rightarrow> jsnum" where
  "points_for scores cr = (case score_by_criterion scores (cr_id cr) of None \<Rightarrow> Fin 0 | Some s \<Rightarrow> cs_points s)"

lemma score_fold_parts:
  assumes "fold_result (score_criterion cap scores refs tests) st crs = Inr st'"
  shows "st' = (foldl num_add (fst st) (map (points_for scores) crs), foldl num_add (snd st) (map cr_max_points crs))
    \<and> (\<forall>cr \<in> set crs. \<exists>t t'. score_criterion cap scores refs tests t cr = Inr t')"
  using assms
proof (induction crs arbitrary: st)
  case (Cons cr crs)
  then obtain t where t: "score_criterion cap scores refs tests st cr = Inr t"
    "fold_result (score_criterion cap scores refs tests) t crs = Inr st'" by (auto simp: bind_result_eq_Inr)
  have "t = (num_add (fst st) (points_for scores cr), num_add (snd st) (cr_max_points cr))"
    using score_criterion_parts [OF t(1)] by (auto simp: points_for_def)
  moreover have "\<exists>t t'. score_criterion cap scores refs tests t cr = Inr t'" using t(1) by blast
  ultimately show ?case using Cons.IH [OF t(2)] by auto
qed simp

text \<open>The whole number of a number that is one.\<close>

definition whole_of :: "jsnum \<Rightarrow> int" where
  "whole_of n = (case n of Fin r \<Rightarrow> \<lfloor>r\<rfloor> | _ \<Rightarrow> 0)"

lemma whole_number: "num_integer n \<Longrightarrow> \<not> num_less n (Fin 0) \<Longrightarrow> n = whole (whole_of n) \<and> 0 \<le> whole_of n"
  by (cases n) (auto simp: whole_of_def elim: Ints_cases)

lemma score_by_criterion_known:
  "distinct (map cs_criterion scores) \<Longrightarrow> s \<in> set scores \<Longrightarrow> score_by_criterion scores (cs_criterion s) = Some s"
  unfolding score_by_criterion_def by (intro map_of_is_SomeI) (auto simp: rev_map [symmetric] comp_def)

lemma score_by_criterion_Some: "score_by_criterion scores i = Some s \<Longrightarrow> s \<in> set scores \<and> cs_criterion s = i"
  unfolding score_by_criterion_def by (auto dest!: map_of_SomeD)

lemma lookup_last_known: "distinct (map key xs) \<Longrightarrow> x \<in> set xs \<Longrightarrow> lookup_last key xs (key x) = Some x"
  unfolding lookup_last_def by (intro map_of_is_SomeI) (auto simp: rev_map [symmetric] comp_def)

lemma sum_list_by_key:
  fixes h :: "string \<Rightarrow> int"
  assumes "distinct (map f xs)" "distinct (map g ys)" "f ` set xs = g ` set ys"
  shows "sum_list (map (\<lambda>x. h (f x)) xs) = sum_list (map (\<lambda>y. h (g y)) ys)"
proof -
  have sum: "sum_list (map (\<lambda>x. h (k x)) zs) = sum h (k ` set zs)" if "distinct (map k zs)" for k and zs :: "'z list"
    using sum_list_distinct_conv_sum_set [OF that, of h] by (simp add: comp_def)
  show ?thesis unfolding sum [OF assms(1)] sum [OF assms(2)] assms(3) by (rule refl)
qed

text \<open>The rubric's points, as whole numbers: what restoring recomputes is what recording stored.\<close>

lemma rubric_scores:
  assumes cap: "wf_capstone cap" "distinct (map cr_id (cd_criteria cap))"
    and scores: "distinct (map cs_criterion scores)" "length scores = length (cd_criteria cap)"
    and fold: "fold_result (score_criterion cap scores refs tests) (Fin 0, Fin 0) (cd_criteria cap) = Inr st"
  shows "st = (num_sum (map cs_points scores), num_sum (map cr_max_points (cd_criteria cap)))"
    and "\<forall>s \<in> set scores. \<exists>cr \<in> set (cd_criteria cap). cr_id cr = cs_criterion s
      \<and> num_integer (cs_points s) \<and> \<not> num_less (cs_points s) (Fin 0) \<and> \<not> num_less (cr_max_points cr) (cs_points s)
      \<and> (cd_needs_evidence cap \<longrightarrow> (\<exists>ev. cs_evidence s = Some ev \<and> ev \<noteq> [] \<and> distinct ev
        \<and> (\<forall>r \<in> set ev. js_trim r \<noteq> [] \<and> (r \<in> set refs \<or> r \<in> set tests))))"
proof -
  let ?crs = "cd_criteria cap"
  note parts = score_fold_parts [OF fold]
  have each: "\<exists>s. score_by_criterion scores (cr_id cr) = Some s \<and> num_integer (cs_points s)
    \<and> \<not> num_less (cs_points s) (Fin 0) \<and> \<not> num_less (cr_max_points cr) (cs_points s)
    \<and> (cd_needs_evidence cap \<longrightarrow> (\<exists>ev. cs_evidence s = Some ev \<and> ev \<noteq> [] \<and> distinct ev
        \<and> (\<forall>r \<in> set ev. js_trim r \<noteq> [] \<and> (r \<in> set refs \<or> r \<in> set tests))))" if cr: "cr \<in> set ?crs" for cr
  proof -
    obtain t t' where "score_criterion cap scores refs tests t cr = Inr t'" using parts cr by blast
    from score_criterion_parts [OF this] show ?thesis by blast
  qed
  have "cr_id ` set ?crs \<subseteq> cs_criterion ` set scores"
    using each score_by_criterion_Some by (metis (no_types, lifting) image_eqI image_subsetI)
  moreover have "card (cr_id ` set ?crs) = card (cs_criterion ` set scores)"
    using cap(2) scores distinct_card [of "map cr_id ?crs"] distinct_card [of "map cs_criterion scores"] by simp
  ultimately have ids: "cr_id ` set ?crs = cs_criterion ` set scores" by (simp add: card_subset_eq)
  show all: "\<forall>s \<in> set scores. \<exists>cr \<in> set ?crs. cr_id cr = cs_criterion s
      \<and> num_integer (cs_points s) \<and> \<not> num_less (cs_points s) (Fin 0) \<and> \<not> num_less (cr_max_points cr) (cs_points s)
      \<and> (cd_needs_evidence cap \<longrightarrow> (\<exists>ev. cs_evidence s = Some ev \<and> ev \<noteq> [] \<and> distinct ev
        \<and> (\<forall>r \<in> set ev. js_trim r \<noteq> [] \<and> (r \<in> set refs \<or> r \<in> set tests))))"
  proof
    fix s assume s: "s \<in> set scores"
    then have "cs_criterion s \<in> cr_id ` set ?crs" by (simp add: ids)
    then obtain cr where cr: "cr \<in> set ?crs" "cr_id cr = cs_criterion s" by auto
    moreover have "score_by_criterion scores (cr_id cr) = Some s" using cr(2) score_by_criterion_known [OF scores(1) s] by simp
    ultimately show "\<exists>cr \<in> set ?crs. cr_id cr = cs_criterion s
      \<and> num_integer (cs_points s) \<and> \<not> num_less (cs_points s) (Fin 0) \<and> \<not> num_less (cr_max_points cr) (cs_points s)
      \<and> (cd_needs_evidence cap \<longrightarrow> (\<exists>ev. cs_evidence s = Some ev \<and> ev \<noteq> [] \<and> distinct ev
        \<and> (\<forall>r \<in> set ev. js_trim r \<noteq> [] \<and> (r \<in> set refs \<or> r \<in> set tests))))"
      using each [OF cr(1)] by auto
  qed
  have max: "cr_max_points cr = whole (whole_of (cr_max_points cr)) \<and> 0 \<le> whole_of (cr_max_points cr)"
    if "cr \<in> set ?crs" for cr
    using whole_number wf_criterion_points that cap(1) by (simp add: wf_capstone_def)
  have pts: "points_for scores cr = whole (whole_of (points_for scores cr)) \<and> 0 \<le> whole_of (points_for scores cr)
      \<and> whole_of (points_for scores cr) \<le> whole_of (cr_max_points cr)" if cr: "cr \<in> set ?crs" for cr
  proof -
    from each [OF cr] obtain s where found: "score_by_criterion scores (cr_id cr) = Some s" and i: "num_integer (cs_points s)"
      "\<not> num_less (cs_points s) (Fin 0)" "\<not> num_less (cr_max_points cr) (cs_points s)" by blast
    have s: "points_for scores cr = cs_points s" "num_integer (cs_points s)"
      "\<not> num_less (cs_points s) (Fin 0)" "\<not> num_less (cr_max_points cr) (cs_points s)"
      using found i by (simp_all add: points_for_def)
    have w: "cs_points s = whole (whole_of (cs_points s)) \<and> 0 \<le> whole_of (cs_points s)" by (rule whole_number [OF s(2,3)])
    moreover have "whole_of (cs_points s) \<le> whole_of (cr_max_points cr)"
      using s(4) w max [OF cr] by (metis not_less num_less.simps(1) of_int_less_iff)
    ultimately show ?thesis using s(1) by simp
  qed
  have m: "map (\<lambda>cr. whole (whole_of (cr_max_points cr))) ?crs = map cr_max_points ?crs" using max by (intro map_cong) auto
  have "num_sum (map (\<lambda>cr. whole (whole_of (cr_max_points cr))) ?crs) = whole 100"
    unfolding m using cap(1) by (simp add: wf_capstone_def)
  then have hundred: "sum_list (map (\<lambda>cr. whole_of (cr_max_points cr)) ?crs) = 100"
    using num_sum_is [of ?crs "\<lambda>cr. whole_of (cr_max_points cr)" 100] max by simp
  let ?k = "\<lambda>i. whole_of (case score_by_criterion scores i of None \<Rightarrow> Fin 0 | Some s \<Rightarrow> cs_points s)"
  have "sum_list (map (\<lambda>cr. ?k (cr_id cr)) ?crs) \<le> sum_list (map (\<lambda>cr. whole_of (cr_max_points cr)) ?crs)"
    using pts by (intro sum_list_mono) (simp add: points_for_def)
  then have small: "sum_list (map (\<lambda>cr. ?k (cr_id cr)) ?crs) \<le> 100" using hundred by simp
  have "sum_list (map (\<lambda>cr. ?k (cr_id cr)) ?crs) = sum_list (map (\<lambda>s. ?k (cs_criterion s)) scores)"
    by (rule sum_list_by_key [OF cap(2) scores(1) ids])
  moreover have "map (\<lambda>s. ?k (cs_criterion s)) scores = map (\<lambda>s. whole_of (cs_points s)) scores"
    using score_by_criterion_known [OF scores(1)] by (intro map_cong) auto
  ultimately have same: "sum_list (map (\<lambda>s. whole_of (cs_points s)) scores) = sum_list (map (\<lambda>cr. ?k (cr_id cr)) ?crs)" by simp
  have sc: "cs_points s = whole (whole_of (cs_points s)) \<and> 0 \<le> whole_of (cs_points s)" if "s \<in> set scores" for s
    using whole_number all that by blast
  have m1: "map (\<lambda>s. whole (whole_of (cs_points s))) scores = map cs_points scores" using sc by (intro map_cong) auto
  have "num_sum (map (\<lambda>s. whole (whole_of (cs_points s))) scores) = whole (sum_list (map (\<lambda>s. whole_of (cs_points s)) scores))"
    using sc small same by (intro num_sum_whole) auto
  note a = this [unfolded m1]
  have m2: "map (\<lambda>cr. whole (?k (cr_id cr))) ?crs = map (points_for scores) ?crs"
    using pts by (intro map_cong) (auto simp: points_for_def)
  have "num_sum (map (\<lambda>cr. whole (?k (cr_id cr))) ?crs) = whole (sum_list (map (\<lambda>cr. ?k (cr_id cr)) ?crs))"
    using pts small by (intro num_sum_whole) (auto simp: points_for_def)
  note b = this [unfolded m2]
  show "st = (num_sum (map cs_points scores), num_sum (map cr_max_points ?crs))"
    using parts a b same by (simp add: num_sum_def)
qed


section \<open>The record as JSON\<close>

lemma attempt_props [simp]:
  "get_prop (attempt_json a) ''id'' = JStr (at_id a)" "get_prop (attempt_json a) ''pathId'' = JStr (at_path a)"
  "get_prop (attempt_json a) ''moduleId'' = JStr (at_module a)"
  "get_prop (attempt_json a) ''contentVersion'' = JStr (at_content_version a)"
  "get_prop (attempt_json a) ''scorePercent'' = JNum (at_score a)" "get_prop (attempt_json a) ''passed'' = JBool (at_passed a)"
  "get_prop (attempt_json a) ''completedAt'' = JStr (at_completed_at a)" "is_record (attempt_json a)"
  by (simp_all add: attempt_json_def)

lemma criterion_score_props [simp]:
  "get_prop (criterion_score_json s) ''criterionId'' = JStr (cs_criterion s)"
  "get_prop (criterion_score_json s) ''pointsAwarded'' = JNum (cs_points s)"
  "get_prop (criterion_score_json s) ''evidenceRefs'' = (case cs_evidence s of None \<Rightarrow> JUndefined | Some ev \<Rightarrow> JStrs ev)"
  "is_record (criterion_score_json s)"
  by (cases "cs_evidence s"; simp add: criterion_score_json_def)+

lemma submission_props [simp]:
  "get_prop (submission_json s) ''id'' = JStr (sub_id s)" "get_prop (submission_json s) ''pathId'' = JStr (sub_path s)"
  "get_prop (submission_json s) ''moduleId'' = JStr (sub_module s)"
  "get_prop (submission_json s) ''contentVersion'' = JStr (sub_content_version s)"
  "get_prop (submission_json s) ''submittedAt'' = JStr (sub_submitted_at s)"
  "get_prop (submission_json s) ''artifactRefs'' = JStrs (sub_artifacts s)"
  "get_prop (submission_json s) ''criterionScores'' = JArr (map criterion_score_json (sub_criteria s))"
  "get_prop (submission_json s) ''scorePercent'' = JNum (sub_score s)" "get_prop (submission_json s) ''passed'' = JBool (sub_passed s)"
  "get_prop (submission_json s) ''reflection'' = JStr (sub_reflection s)" "is_record (submission_json s)"
  by (simp_all add: submission_json_def)

lemma badge_props [simp]:
  "get_prop (badge_json b) ''id'' = JStr (eb_id b)" "get_prop (badge_json b) ''name'' = JStr (eb_name b)"
  "get_prop (badge_json b) ''description'' = JStr (eb_description b)" "get_prop (badge_json b) ''earnedAt'' = JStr (eb_earned_at b)"
  "get_prop (badge_json b) ''evidenceModuleIds'' = JStrs (eb_evidence b)" "is_record (badge_json b)"
  by (simp_all add: badge_json_def)

lemma recent_props [simp]:
  "get_prop (recent_json r) ''pathId'' = JStr (rm_path r)" "get_prop (recent_json r) ''moduleId'' = JStr (rm_module r)"
  "get_prop (recent_json r) ''visitedAt'' = JStr (rm_visited_at r)" "is_record (recent_json r)" "recent_json r \<noteq> JUndefined"
  by (simp_all add: recent_json_def)

lemma progress_props:
  assumes "lp_capstones p = Some ss"
  shows "get_prop (progress_json p) ''schemaVersion'' = JInt 1"
    and "get_prop (progress_json p) ''displayName'' = JStr (lp_display_name p)"
    and "get_prop (progress_json p) ''startedPathIds'' = JStrs (lp_started_paths p)"
    and "get_prop (progress_json p) ''completedModuleIds'' = JStrs (lp_completed_modules p)"
    and "get_prop (progress_json p) ''attempts'' = JArr (map attempt_json (lp_attempts p))"
    and "get_prop (progress_json p) ''capstoneSubmissions'' = JArr (map submission_json ss)"
    and "get_prop (progress_json p) ''badges'' = JArr (map badge_json (lp_badges p))"
    and "get_prop (progress_json p) ''recentModule'' = (case lp_recent p of None \<Rightarrow> JUndefined | Some r \<Rightarrow> recent_json r)"
    and "get_prop (progress_json p) ''updatedAt'' = JStr (lp_updated_at p)"
    and "is_record (progress_json p)"
  by (cases "lp_recent p"; simp add: progress_json_def assms)+

lemma restored_progress_same: "lp_capstones p = Some ss \<Longrightarrow> restored_progress (progress_json p) = progress_json p"
  using progress_props(6) [of p ss] by (simp add: restored_progress_def progress_json_def)

lemma unique_strings [simp]: "is_unique_string_array (JStrs xs) \<longleftrightarrow> (\<forall>x \<in> set xs. js_trim x \<noteq> []) \<and> distinct xs"
  by (simp add: list_all_iff distinct_map inj_on_def)

lemma unique_members:
  assumes "\<And>x. is_record (f x)" and "\<And>x. get_prop (f x) k = JStr (g x)"
  shows "unique_string_members k (map f xs) \<longleftrightarrow> distinct (map g xs)"
proof -
  have "filter is_record (map f xs) = map f xs" using assms(1) by (simp add: filter_id_conv)
  moreover have "map (\<lambda>v. get_prop v k) (map f xs) = map JStr (map g xs)" using assms(2) by simp
  moreover have "filter is_string (map JStr (map g xs)) = map JStr (map g xs)" by (simp add: filter_id_conv)
  moreover have "distinct (map JStr (map g xs)) = distinct (map g xs)" by (simp only: distinct_map) (simp add: inj_on_def)
  ultimately show ?thesis unfolding unique_string_members_def Let_def by (simp only: length_map simp_thms)
qed

lemma str_of_strs [simp]: "map str_of (elems (JStrs xs)) = xs" "elems JUndefined = []"
  by (simp_all add: comp_def)

section \<open>Paths of modules\<close>

definition one_path :: "catalog \<Rightarrow> bool" where
  "one_path c \<longleftrightarrow> (\<forall>p \<in> set (ct_paths c). \<forall>q \<in> set (ct_paths c). set (pa_modules p) \<inter> set (pa_modules q) \<noteq> {} \<longrightarrow> p = q)"

lemma placed_path:
  assumes "wf_catalog h c" "one_path c" "placed c i m"
  shows "module_to_path c m = Some i" "i \<in> pa_id ` set (ct_paths c)" "js_trim i \<noteq> []" "i \<noteq> []"
proof -
  obtain path where path: "path \<in> set (ct_paths c)" "pa_id path = i" "m \<in> set (pa_modules path)"
    using assms(3) by (auto simp: placed_def dest: find_path_Some)
  let ?L = "concat (map (\<lambda>path. map (\<lambda>m. (m, pa_id path)) (pa_modules path)) (ct_paths c))"
  have "(m, i) \<in> set ?L" using path by auto
  then obtain j where j: "map_of (rev ?L) m = Some j" using weak_map_of_SomeI [of m i "rev ?L"] by auto
  then have "(m, j) \<in> set ?L" using map_of_SomeD by fastforce
  then obtain q where "q \<in> set (ct_paths c)" "pa_id q = j" "m \<in> set (pa_modules q)" by auto
  moreover from this path assms(2) have "q = path" unfolding one_path_def by blast
  ultimately show "module_to_path c m = Some i" using j path(2) by (simp add: module_to_path_def)
  show "i \<in> pa_id ` set (ct_paths c)" using path by blast
  have "slug i" using assms(1) path by (auto simp: wf_catalog_def catalog_ids_def)
  then show "js_trim i \<noteq> []" using slug_not_blank by (simp add: blank_def)
  then show "i \<noteq> []" by (auto simp: js_trim_def)
qed

lemma module_nonblank: "wf_catalog h c \<Longrightarrow> m \<in> lm_id ` set (ct_modules c) \<Longrightarrow> js_trim m \<noteq> []"
proof -
  assume "wf_catalog h c" "m \<in> lm_id ` set (ct_modules c)"
  then have "slug m" by (auto simp: wf_catalog_def catalog_ids_def module_ids_of_def)
  then show ?thesis using slug_not_blank by (simp add: blank_def)
qed

lemma placed_module:
  assumes "wf_catalog h c" "placed c i m"
  shows "js_trim m \<noteq> []" "m \<in> lm_id ` set (ct_modules c)"
proof -
  show "m \<in> lm_id ` set (ct_modules c)"
    using assms by (auto simp: placed_def wf_catalog_def wf_path_def dest!: find_path_Some)
  then show "js_trim m \<noteq> []" by (rule module_nonblank [OF assms(1)])
qed

section \<open>The checks of the restore\<close>

lemma restore_attempt_ok:
  assumes "wf_catalog h c" "one_path c" "placed c (at_path a) (at_module a)"
  shows "restore_attempt_errors c (attempt_json a) = []"
  using placed_path [OF assms] by (simp add: restore_attempt_errors_def Let_def complain_unless_def no_path_def)

lemma restore_recent_ok:
  assumes "wf_catalog h c" "one_path c" "placed c (rm_path r) (rm_module r)"
  shows "restore_recent_errors c (recent_json r) = []"
  using placed_path [OF assms] by (simp add: restore_recent_errors_def Let_def complain_unless_def no_path_def)


lemma restore_capstone_ok:
  assumes c: "wf_catalog h c" "one_path c" and s: "submission_sound c as s"
  shows "restore_capstone_errors c (map attempt_json as) (submission_json s) = []"
proof -
  from s obtain refs path m cap st where refs: "set refs \<subseteq> set (attempt_refs as (sub_path s) (sub_module s))"
    and pm: "find_path c (sub_path s) = Some path" "find_module c (sub_module s) = Some m"
      "sub_module s \<in> set (pa_modules path)" "lm_capstone m = Some cap"
    and art: "length (cd_artifacts cap) \<le> length (sub_artifacts s)"
    and sc: "distinct (map cs_criterion (sub_criteria s))" "length (sub_criteria s) = length (cd_criteria cap)"
    and fold: "fold_result (score_criterion cap (sub_criteria s) (sub_artifacts s) refs) (Fin 0, Fin 0) (cd_criteria cap) = Inr st"
    and res: "sub_score s = capstone_score st" "sub_passed s = num_le (cd_pass_percent cap) (capstone_score st)"
    unfolding submission_sound_def submission_fits_def by blast
  have m: "m \<in> set (ct_modules c)" using find_module_Some [OF pm(2)] by simp
  have cap: "wf_capstone cap" using c(1) m pm(4) by (auto simp: wf_catalog_def wf_module_def)
  have "distinct (module_ids_of m)" by (rule distinct_concat_part [OF valid_catalog_ids(2) [OF c(1)] m])
  then have ids: "distinct (map cr_id (cd_criteria cap))" using pm(4) by (simp add: module_ids_of_def capstone_ids_def)
  note rub = rubric_scores [OF cap ids sc fold]
  have placed: "placed c (sub_path s) (sub_module s)" using pm by (auto simp: placed_def)
  note pp = placed_path [OF c placed]
  let ?scores = "map criterion_score_json (sub_criteria s)"
  have points: "map (\<lambda>s. amount_of (get_prop s ''pointsAwarded'')) ?scores = map cs_points (sub_criteria s)" by simp
  have score: "expected_score cap ?scores = sub_score s"
    unfolding expected_score_def points res(1) rub(1) capstone_score_def fst_conv snd_conv by (rule refl)
  have "\<exists>cr. lookup_last cr_id (cd_criteria cap) (cs_criterion x) = Some cr
      \<and> \<not> num_less (cs_points x) (Fin 0) \<and> \<not> num_less (cr_max_points cr) (cs_points x)" if x: "x \<in> set (sub_criteria s)" for x
  proof -
    obtain cr where cr: "cr \<in> set (cd_criteria cap)" "cr_id cr = cs_criterion x"
      "\<not> num_less (cs_points x) (Fin 0)" "\<not> num_less (cr_max_points cr) (cs_points x)" using rub(2) x by blast
    then show ?thesis using lookup_last_known [OF ids cr(1)] by simp
  qed
  then have fits: "fits_rubric cap ?scores"
    using sc(2) ids by (fastforce simp: fits_rubric_def list_all_iff distinct_remdups_id split: option.splits)
  let ?refs = "map (\<lambda>a. ''assessment:'' @ str_of (get_prop a ''id'')) (filter (\<lambda>a. get_prop a ''pathId'' = JStr (sub_path s)
      \<and> get_prop a ''moduleId'' = JStr (sub_module s)) (map attempt_json as))"
  have all_refs: "?refs = attempt_refs as (sub_path s) (sub_module s)" by (simp add: attempt_refs_def filter_map comp_def)
  have ev: "list_all (evidence_mapped (sub_artifacts s) (attempt_refs as (sub_path s) (sub_module s))) ?scores"
    if "cd_needs_evidence cap"
  proof -
    have "evidence_mapped (sub_artifacts s) (attempt_refs as (sub_path s) (sub_module s)) (criterion_score_json x)"
      if x: "x \<in> set (sub_criteria s)" for x
    proof -
      obtain ev where "cs_evidence x = Some ev" "ev \<noteq> []" "distinct ev"
        "\<forall>r \<in> set ev. js_trim r \<noteq> [] \<and> (r \<in> set (sub_artifacts s) \<or> r \<in> set refs)"
        using rub(2) x \<open>cd_needs_evidence cap\<close> by blast
      then show ?thesis using refs by (auto simp: evidence_mapped_def Let_def list_all_iff comp_def)
    qed
    then show ?thesis by (simp add: list_all_iff)
  qed
  have pts: "sub_score s \<noteq> NaN"
  proof -
    have "snd st = Fin 100" using rub(1) cap by (simp add: wf_capstone_def)
    moreover have "part_of (fst st) (snd st)"
      by (rule fold_result_invariant [OF fold, where P = "\<lambda>st. part_of (fst st) (snd st)"], simp add: part_of_def)
        (rule score_criterion_part)
    ultimately show ?thesis by (auto simp: res(1) capstone_score_def part_of_def)
  qed
  show ?thesis
    using pp pm(2,4) art score fits ev pts res
    unfolding restore_capstone_errors_def Let_def submission_props str_of.simps all_refs
    by (auto simp: complain_unless_def no_path_def num_same_def comp_def)
qed

text \<open>Texts and times that the type guards of the restore ask for beyond what recording checks.\<close>

definition portable_texts :: "(string \<Rightarrow> bool) \<Rightarrow> catalog \<Rightarrow> learner_progress \<Rightarrow> bool" where
  "portable_texts dp c p \<longleftrightarrow> length (lp_display_name p) \<le> 80 \<and> dp (lp_updated_at p)
     \<and> (\<forall>a \<in> set (lp_attempts p). js_trim (at_id a) \<noteq> [] \<and> dp (at_completed_at a) \<and> is_percent (JNum (at_score a)))
     \<and> (\<forall>s \<in> set (capstones_of p). js_trim (sub_id s) \<noteq> [] \<and> dp (sub_submitted_at s) \<and> distinct (sub_artifacts s)
         \<and> (\<forall>x \<in> set (sub_criteria s). \<forall>ev. cs_evidence x = Some ev \<longrightarrow> distinct ev \<and> (\<forall>r \<in> set ev. js_trim r \<noteq> [])))
     \<and> (\<forall>b \<in> set (lp_badges p). dp (eb_earned_at b))
     \<and> (\<forall>r. lp_recent p = Some r \<longrightarrow> dp (rm_visited_at r))
     \<and> js_trim (ct_content_version c) \<noteq> []
     \<and> (\<forall>path \<in> set (ct_paths c). js_trim (pa_title path) \<noteq> [] \<and> js_trim (pb_id (pa_badge path)) \<noteq> []
         \<and> js_trim (pb_name (pa_badge path)) \<noteq> [] \<and> js_trim (pb_description (pa_badge path)) \<noteq> [])"


section \<open>The type guards\<close>

lemma placed_find: "placed c i m \<Longrightarrow> wf_catalog h c \<Longrightarrow> \<exists>path \<in> set (ct_paths c). pa_id path = i \<and> m \<in> set (pa_modules path)"
  by (auto simp: placed_def dest: find_path_Some)

lemma path_nonblank: "wf_catalog h c \<Longrightarrow> i \<in> pa_id ` set (ct_paths c) \<Longrightarrow> js_trim i \<noteq> []"
proof -
  assume "wf_catalog h c" "i \<in> pa_id ` set (ct_paths c)"
  then have "slug i" by (auto simp: wf_catalog_def catalog_ids_def)
  then show ?thesis using slug_not_blank by (simp add: blank_def)
qed

lemma placed_nonblank: "wf_catalog h c \<Longrightarrow> placed c i m \<Longrightarrow> js_trim i \<noteq> [] \<and> js_trim m \<noteq> []"
  using placed_find placed_module path_nonblank by (metis (no_types, lifting) image_eqI)

lemma attempts_guarded:
  assumes "wf_catalog h c" "recorded c p" "portable_texts dp c p" and "a \<in> set (lp_attempts p)"
  shows "is_assessment_attempt dp (attempt_json a)"
  using recorded_inv [OF assms(2)] placed_nonblank [OF assms(1), of "at_path a" "at_module a"] assms(3,4)
  by (simp add: recorded_inv_def portable_texts_def is_assessment_attempt_def)

lemma percent_whole: "percent_or_nan n \<Longrightarrow> n \<noteq> NaN \<Longrightarrow> is_percent (JNum n)"
  by (auto simp: percent_or_nan_def)

lemma submissions_guarded:
  assumes c: "wf_catalog h c" and "recorded c p" "portable_texts dp c p" and s: "s \<in> set (capstones_of p)"
  shows "is_capstone_submission dp (submission_json s)"
proof -
  have "submission_sound c (lp_attempts p) s" using recorded_inv [OF assms(2)] s by (simp add: recorded_inv_def)
  then obtain refs path m cap st where
    pm: "find_path c (sub_path s) = Some path" "find_module c (sub_module s) = Some m"
      "sub_module s \<in> set (pa_modules path)" "lm_capstone m = Some cap"
    and art: "length (cd_artifacts cap) \<le> length (sub_artifacts s)" "\<forall>r \<in> set (sub_artifacts s). js_trim r \<noteq> []"
      "js_trim (sub_reflection s) \<noteq> []" "sub_content_version s = ct_content_version c"
    and sc: "distinct (map cs_criterion (sub_criteria s))" "length (sub_criteria s) = length (cd_criteria cap)"
    and fold: "fold_result (score_criterion cap (sub_criteria s) (sub_artifacts s) refs) (Fin 0, Fin 0) (cd_criteria cap) = Inr st"
    and res: "sub_score s = capstone_score st"
    unfolding submission_sound_def submission_fits_def by blast
  have m: "m \<in> set (ct_modules c)" using find_module_Some [OF pm(2)] by simp
  have cap: "wf_capstone cap" using c m pm(4) by (auto simp: wf_catalog_def wf_module_def)
  have ids: "distinct (map cr_id (cd_criteria cap))"
    using distinct_concat_part [OF valid_catalog_ids(2) [OF c] m] pm(4) by (simp add: module_ids_of_def capstone_ids_def)
  note rub = rubric_scores [OF cap ids sc fold]
  have slugs: "js_trim (cr_id cr) \<noteq> []" if "cr \<in> set (cd_criteria cap)" for cr
  proof -
    have "cr_id cr \<in> set (module_ids_of m)" using pm(4) that by (simp add: module_ids_of_def capstone_ids_def)
    then have "cr_id cr \<in> set (catalog_ids c)" using m unfolding catalog_ids_def set_append set_concat set_map by blast
    then show ?thesis using c slug_not_blank by (auto simp: wf_catalog_def blank_def)
  qed
  have scores: "is_capstone_criterion_score (criterion_score_json x)" if x: "x \<in> set (sub_criteria s)" for x
  proof -
    obtain cr where cr: "cr \<in> set (cd_criteria cap)" "cr_id cr = cs_criterion x" "num_integer (cs_points x)"
      "\<not> num_less (cs_points x) (Fin 0)" using rub(2) x by blast
    have "num_le (Fin 0) (cs_points x)" using cr(3,4) by (cases "cs_points x") auto
    then show ?thesis using cr slugs [OF cr(1)] assms(3) s x
      by (cases "cs_evidence x") (auto simp: is_capstone_criterion_score_def portable_texts_def simp del: is_unique_string_array.simps)
  qed
  have "snd st = Fin 100" using rub(1) cap by (simp add: wf_capstone_def)
  moreover have "part_of (fst st) (snd st)"
    by (rule fold_result_invariant [OF fold, where P = "\<lambda>st. part_of (fst st) (snd st)"], simp add: part_of_def)
      (rule score_criterion_part)
  ultimately have "sub_score s \<noteq> NaN" by (auto simp: res capstone_score_def part_of_def)
  then have "is_percent (JNum (sub_score s))" using capstone_score_bounds [OF fold] percent_whole by (simp add: res)
  moreover have "js_trim (sub_path s) \<noteq> [] \<and> js_trim (sub_module s) \<noteq> []"
    using placed_nonblank [OF c] pm by (auto simp: placed_def)
  moreover have "sub_artifacts s \<noteq> []" "sub_criteria s \<noteq> []" using art(1) sc(2) cap by (auto simp: wf_capstone_def)
  moreover have "has_unique_criterion_ids (map criterion_score_json (sub_criteria s))"
    unfolding has_unique_criterion_ids_def using sc(1) by (simp add: unique_members [where g = cs_criterion])
  ultimately show ?thesis
    using assms(3) s art scores
    by (auto simp: is_capstone_submission_def portable_texts_def list_all_iff simp del: is_unique_string_array.simps)
qed

lemma badges_guarded:
  assumes c: "wf_catalog h c" and r: "record_sound c p" and t: "portable_texts dp c p" and b: "b \<in> set (lp_badges p)"
  shows "is_earned_badge dp (badge_json b)"
proof -
  obtain path where path: "path \<in> set (ct_paths c)" "b = badge_of path (eb_earned_at b)"
    using r b by (auto simp: record_sound_def badges_sound_def)
  have sel: "eb_id b = pb_id (pa_badge path)" "eb_name b = pb_name (pa_badge path)"
    "eb_description b = pb_description (pa_badge path)" "eb_evidence b = pa_modules path"
    by (subst path(2), simp add: badge_of_def)+
  have "wf_path (map lm_id (ct_modules c)) path" using c path(1) by (simp add: wf_catalog_def)
  then have "distinct (pa_modules path)" "\<forall>m \<in> set (pa_modules path). js_trim m \<noteq> []"
    using module_nonblank [OF c] by (auto simp: wf_path_def)
  then show ?thesis using t b path(1)
    by (simp add: is_earned_badge_def sel portable_texts_def del: is_unique_string_array.simps)
qed

lemma progress_guarded:
  assumes c: "wf_catalog h c" and p: "recorded c p" and t: "portable_texts dp c p" and ss: "lp_capstones p = Some ss"
  shows "is_learner_progress dp (progress_json p)"
proof -
  have r: "record_sound c p" using c p by (intro recorded_sound) (auto simp: wf_catalog_def wf_path_def)
  note inv = recorded_inv [OF p]
  have cs: "capstones_of p = ss" using ss by simp
  have "\<forall>i \<in> set (lp_started_paths p). js_trim i \<noteq> []" using inv path_nonblank [OF c] by (auto simp: recorded_inv_def)
  moreover have "\<forall>m \<in> set (lp_completed_modules p). js_trim m \<noteq> []"
    using r module_nonblank [OF c] by (auto simp: record_sound_def module_earned_def dest!: find_module_Some)
  moreover have "has_unique_ids (map attempt_json (lp_attempts p))" "has_unique_ids (map submission_json ss)"
    "has_unique_ids (map badge_json (lp_badges p))"
    using r unfolding has_unique_ids_def record_sound_def badges_sound_def cs
    by (simp_all add: unique_members [where g = at_id] unique_members [where g = sub_id] unique_members [where g = eb_id])
  moreover have "is_recent_module dp (recent_json x)" if "lp_recent p = Some x" for x
    using inv that placed_nonblank [OF c] t by (auto simp: recorded_inv_def is_recent_module_def portable_texts_def)
  ultimately show ?thesis
    using progress_props(10) [OF ss] r t attempts_guarded [OF c p t] submissions_guarded [OF c p t] badges_guarded [OF c r t]
    unfolding is_learner_progress_def progress_props [OF ss]
    by (auto simp: list_all_iff portable_texts_def short_text_def record_sound_def cs
        simp del: is_unique_string_array.simps split: option.splits)
qed

lemma transcript_guarded:
  assumes c: "wf_catalog h c" and t: "portable_texts dp c p" and e: "e \<in> set (build_transcript c p)"
  shows "is_transcript_entry (transcript_json e)"
proof -
  obtain path where path: "path \<in> set (ct_paths c)"
    "e = \<lparr>pt_path = pa_id path, pt_title = pa_title path,
      pt_completed = length (filter (\<lambda>m. m \<in> set (lp_completed_modules p)) (pa_modules path)),
      pt_total = length (pa_modules path),
      pt_percent = js_percent (length (filter (\<lambda>m. m \<in> set (lp_completed_modules p)) (pa_modules path))) (length (pa_modules path)),
      pt_best = (if filter (\<lambda>a. at_path a = pa_id path) (lp_attempts p) = [] then None
        else Some (num_max_list (map at_score (filter (\<lambda>a. at_path a = pa_id path) (lp_attempts p)))))\<rparr>"
    using e by (auto simp: build_transcript_def Let_def)
  have "0 < length (pa_modules path)" using c path(1) by (auto simp: wf_catalog_def wf_path_def)
  then have "is_percent (JNum (pt_percent e))"
    using js_percent_bounds [of "length (filter (\<lambda>m. m \<in> set (lp_completed_modules p)) (pa_modules path))" "length (pa_modules path)"]
    by (auto simp: path(2))
  moreover have "is_percent (JNum n)" if "pt_best e = Some n" for n
  proof -
    let ?xs = "map at_score (filter (\<lambda>a. at_path a = pa_id path) (lp_attempts p))"
    have n: "n = num_max_list ?xs" "?xs \<noteq> []" using that by (auto simp: path(2) split: if_splits)
    have pc: "\<forall>x \<in> set ?xs. is_percent (JNum x)" using t by (auto simp: portable_texts_def)
    then have "NaN \<notin> set ?xs" "NegInf \<notin> set ?xs" by auto
    then have "num_max_list ?xs \<in> set ?xs"
      using num_max_list_member [of ?xs] num_max_list_NegInf [of ?xs] n(2) by (cases ?xs) auto
    then show ?thesis using pc n(1) by blast
  qed
  ultimately show ?thesis
    using path_nonblank [OF c] t path
    by (auto simp: is_transcript_entry_def transcript_json_def portable_texts_def split: option.splits)
qed


section \<open>Export and restore\<close>

lemma portable_props:
  "get_prop (build_portable_record c p t) ''format'' = JStr ''project42/learner-record''"
  "get_prop (build_portable_record c p t) ''formatVersion'' = JStr ''1.0''"
  "get_prop (build_portable_record c p t) ''exportedAt'' = JStr t"
  "get_prop (build_portable_record c p t) ''catalogVersion'' = JStr (ct_content_version c)"
  "get_prop (build_portable_record c p t) ''learner'' = progress_json p"
  "get_prop (build_portable_record c p t) ''transcript'' = JArr (map transcript_json (build_transcript c p))"
  "is_record (build_portable_record c p t)"
  by (simp_all add: build_portable_record_def)

text \<open>
  C35. A learner record survives its portable export: for a valid catalogue in which no module is on two paths, every record
  that recording can produce (with readable dates and non-empty texts, and no artifact named twice in a submission) is
  exported to a value that the restore accepts against the same catalogue, and the restored record is the exported one.
\<close>

theorem portable_roundtrip:
  assumes c: "wf_catalog h c" "one_path c" and p: "recorded c p" and t: "portable_texts dp c p" and now: "dp exported_at"
  shows "restore_portable_record dp (build_portable_record c p exported_at) c = Inr (progress_json p)"
proof -
  note inv = recorded_inv [OF p]
  obtain ss where ss: "lp_capstones p = Some ss" using inv by (auto simp: recorded_inv_def)
  have r: "record_sound c p" using c(1) p by (intro recorded_sound) (auto simp: wf_catalog_def wf_path_def)
  have learner: "is_learner_progress dp (progress_json p)" by (rule progress_guarded [OF c(1) p t ss])
  have "list_all is_transcript_entry (map transcript_json (build_transcript c p))"
    using transcript_guarded [OF c(1) t] by (simp add: list_all_iff)
  then have valid: "validate_portable_record dp (build_portable_record c p exported_at) = []"
    "is_portable_record dp (build_portable_record c p exported_at)"
    using learner now t unfolding validate_portable_record_def is_portable_record_def portable_props
    by (simp_all add: portable_props(7) complain_unless_def portable_texts_def)
  have "\<forall>i \<in> set (lp_started_paths p). i \<in> pa_id ` set (ct_paths c)" using inv by (auto simp: recorded_inv_def)
  then have paths: "concat (map (\<lambda>i. complain_unless (i \<in> pa_id ` set (ct_paths c)) (m i)) (lp_started_paths p)) = []" for m
    by (simp add: complain_unless_def)
  have "\<exists>i. placed c i m" if "m \<in> set (lp_completed_modules p)" for m
  proof -
    have "module_earned c p m" using r that by (simp add: record_sound_def)
    then obtain a where "a \<in> set (lp_attempts p)" "at_module a = m" unfolding module_earned_def by blast
    then show ?thesis using inv by (auto simp: recorded_inv_def)
  qed
  then have "\<forall>m \<in> set (lp_completed_modules p). module_to_path c m \<noteq> None" using placed_path(1) [OF c] by blast
  then have modules: "concat (map (\<lambda>i. complain_unless (module_to_path c i \<noteq> None) (m i)) (lp_completed_modules p)) = []" for m
    by (simp add: complain_unless_def)
  have attempts: "concat (map (restore_attempt_errors c) (map attempt_json (lp_attempts p))) = []"
    using restore_attempt_ok [OF c] inv by (simp add: recorded_inv_def)
  have capstones: "concat (map (restore_capstone_errors c (map attempt_json (lp_attempts p))) (map submission_json ss)) = []"
    using restore_capstone_ok [OF c] inv ss by (simp add: recorded_inv_def)
  have recent: "restore_recent_errors c (case lp_recent p of None \<Rightarrow> JUndefined | Some x \<Rightarrow> recent_json x) = []"
    using restore_recent_ok [OF c] inv by (auto simp: recorded_inv_def restore_recent_errors_def split: option.splits)
  have strs: "map str_of (map JStr xs) = xs" for xs by (simp add: comp_def)
  show ?thesis
    unfolding restore_portable_record_def Let_def portable_props progress_props [OF ss] elems.simps strs
      paths modules attempts capstones recent
    by (simp add: valid restored_progress_same [OF ss])
qed

theorem portable_roundtrip_witness:
  "\<exists>p. lp_completed_modules p = [''module-a''] \<and> restore_portable_record parses_timestamp
     (build_portable_record valid_catalog p ''2026-03-01T10:00:00Z'') valid_catalog = Inr (progress_json p)"
proof -
  let ?i = "\<lparr>ai_attempt = ''attempt-1'', ai_path = ''path-a'', ai_module = ''module-a'',
    ai_completed_at = ''2026-03-01T10:00:00Z'', ai_result = \<lparr>ar_correct = 1, ar_total = 1, ar_score = Fin 100, ar_passed = True, ar_feedback = []\<rparr>\<rparr>"
  obtain p where p: "record_assessment_attempt (create_empty_progress ''Ada'') valid_catalog ?i = Inr p"
    "lp_completed_modules p = [''module-a'']" "lp_display_name p = ''Ada''" "lp_updated_at p = ''2026-03-01T10:00:00Z''"
    "map at_id (lp_attempts p) = [''attempt-1'']" "map at_completed_at (lp_attempts p) = [''2026-03-01T10:00:00Z'']"
    "map at_score (lp_attempts p) = [Fin 100]" "capstones_of p = []" "map eb_earned_at (lp_badges p) = [''2026-03-01T10:00:00Z'']"
    "lp_recent p = None"
    by (simp add: record_assessment_attempt_def create_empty_progress_def valid_catalog_def valid_module_def find_path_def
        find_module_def capstones_of_def derive_badges_def Let_def)
  have stamp: "parses_timestamp ''2026-03-01T10:00:00Z''" by code_simp
  have "js_trim ''Path A'' \<noteq> []" "js_trim ''badge-a'' \<noteq> []" "js_trim ''Badge A'' \<noteq> []" "js_trim ''Done'' \<noteq> []"
    "js_trim ''attempt-1'' \<noteq> []" "js_trim ''1.0.0'' \<noteq> []" by code_simp+
  then have "portable_texts parses_timestamp valid_catalog p"
    using p(2-) stamp by (auto simp: portable_texts_def valid_catalog_def map_eq_Cons_conv)
  moreover have "recorded valid_catalog p" by (rule recorded.attempt [OF recorded.empty p(1)])
  moreover have "one_path valid_catalog" by (simp add: one_path_def valid_catalog_def)
  moreover have "wf_catalog sample_host valid_catalog" using valid_catalog_accepted validate_catalog_valid by blast
  ultimately show ?thesis using portable_roundtrip [of sample_host valid_catalog p parses_timestamp] stamp p(2) by blast
qed

text \<open>
  A module on two paths, which the catalogue validator accepts, belongs to the later path for the restore: an attempt
  recorded under the earlier one is refused.
\<close>

lemma shared_module_refused:
  assumes "module_to_path c m = Some i" and "at_module a = m" and "at_path a \<noteq> i"
  shows "restore_attempt_errors c (attempt_json a) \<noteq> []"
  using assms by (simp add: restore_attempt_errors_def Let_def complain_unless_def)


end
