(* ===== verification/Transcript_Csv.thy ===== *)
theory Transcript_Csv
  imports Progress_Record
begin

text \<open>
  The two CSV exports: the transcript of the portable record (\<open>buildTranscriptCsv\<close> of \<open>src/portable-record.ts\<close>) and the
  authoritative transcript of a durable account (\<open>src/authoritative-transcript-csv.ts\<close>); and a reader of RFC 4180 text
  as the specification of what a writer should produce.
\<close>

section \<open>Cells\<close>

abbreviation "quote_char \<equiv> CHR 0x22"
abbreviation "comma \<equiv> CHR '',''"
abbreviation "cr \<equiv> CHR 0x0D"
abbreviation "lf \<equiv> CHR 0x0A"
abbreviation "apostrophe \<equiv> CHR 0x27"

text \<open>\<open>/^[=+\-@]/\<close>, what a spreadsheet takes for a formula.\<close>

fun formula_start :: "string \<Rightarrow> bool" where
  "formula_start [] = False"
| "formula_start (c # cs) \<longleftrightarrow> c = CHR ''='' \<or> c = CHR ''+'' \<or> c = CHR ''-'' \<or> c = CHR ''@''"

fun double_quotes :: "string \<Rightarrow> string" where
  "double_quotes [] = []"
| "double_quotes (c # cs) = (if c = quote_char then [quote_char, quote_char] else [c]) @ double_quotes cs"

definition quoted_cell :: "string \<Rightarrow> string" where
  "quoted_cell s = quote_char # double_quotes s @ [quote_char]"

text \<open>The portable export quotes a cell where it must.\<close>

definition guard_cell :: "string \<Rightarrow> string" where
  "guard_cell s = (if formula_start s then apostrophe # s else s)"

definition special_char :: "char \<Rightarrow> bool" where
  "special_char c \<longleftrightarrow> c = quote_char \<or> c = comma \<or> c = cr \<or> c = lf"

definition portable_csv_cell :: "string \<Rightarrow> string" where
  "portable_csv_cell s = (let v = guard_cell s in if list_ex special_char v then quoted_cell v else v)"

text \<open>The authoritative export quotes every cell, and looks for a formula behind leading controls and spaces.\<close>

datatype csv_value = CsvText string | CsvNumber jsnum | CsvNull

fun csv_text :: "runtime \<Rightarrow> csv_value \<Rightarrow> string" where
  "csv_text rt (CsvText s) = s"
| "csv_text rt (CsvNumber n) = jsnum_text rt n"
| "csv_text rt CsvNull = []"

definition leading_char :: "char \<Rightarrow> bool" where
  "leading_char c \<longleftrightarrow> (of_char c :: nat) \<le> 32"

definition hidden_formula :: "string \<Rightarrow> bool" where
  "hidden_formula s \<longleftrightarrow> formula_start (dropWhile leading_char s)"

definition guard_text :: "string \<Rightarrow> string" where
  "guard_text s = (if hidden_formula s then apostrophe # s else s)"

definition escape_csv_cell :: "runtime \<Rightarrow> csv_value \<Rightarrow> string" where
  "escape_csv_cell rt v = quoted_cell (guard_text (csv_text rt v))"

definition csv_lines :: "string list list \<Rightarrow> string" where
  "csv_lines rows = concat (map (\<lambda>row. join_text [comma] row @ [cr, lf]) rows)"

section \<open>The transcript of the portable record\<close>

definition portable_csv_header :: "string list" where
  "portable_csv_header = [''Path'', ''Module'', ''Completed modules'', ''Total modules'', ''Path completion percent'',
     ''Attempt completed at'', ''Score percent'', ''Passed'', ''Content version'', ''Evidence type'', ''Evidence ID'',
     ''Artifact references'', ''Criterion evidence'']"

definition yes_no :: "bool \<Rightarrow> string" where
  "yes_no b = (if b then ''Yes'' else ''No'')"

definition path_cells :: "runtime \<Rightarrow> progress_transcript \<Rightarrow> string list" where
  "path_cells rt t = [jsnum_text rt (Fin (of_nat (pt_completed t))), jsnum_text rt (Fin (of_nat (pt_total t))),
     jsnum_text rt (pt_percent t)]"

definition attempt_cells :: "runtime \<Rightarrow> progress_transcript \<Rightarrow> assessment_history \<Rightarrow> string list" where
  "attempt_cells rt t e = (let a = ah_attempt e in [pt_title t, ah_module_title e] @ path_cells rt t
     @ [at_completed_at a, jsnum_text rt (at_score a), yes_no (at_passed a), at_content_version a, ''Assessment'', at_id a, [], []])"

definition submission_cells :: "runtime \<Rightarrow> progress_transcript \<Rightarrow> capstone_history \<Rightarrow> string list" where
  "submission_cells rt t e = (let s = ch_submission e in [pt_title t, ch_module_title e] @ path_cells rt t
     @ [sub_submitted_at s, jsnum_text rt (sub_score s), yes_no (sub_passed s), sub_content_version s, ''Capstone'', sub_id s,
        join_text ''; '' (sub_artifacts s),
        join_text ''; '' (map (\<lambda>x. cs_criterion x @ '': '' @ join_text '' | '' (case cs_evidence x of None \<Rightarrow> [] | Some ev \<Rightarrow> ev))
          (sub_criteria s))])"

definition portable_csv_rows :: "runtime \<Rightarrow> catalog \<Rightarrow> learner_progress \<Rightarrow> string list list" where
  "portable_csv_rows rt c p = portable_csv_header # concat (map (\<lambda>t. let
       attempts = filter (\<lambda>e. at_path (ah_attempt e) = pt_path t) (build_assessment_history rt c p);
       submissions = filter (\<lambda>e. sub_path (ch_submission e) = pt_path t) (build_capstone_history rt c p)
     in if attempts = [] \<and> submissions = []
        then [[pt_title t, []] @ path_cells rt t @ [[], [], [], [], [], [], [], []]]
        else map (attempt_cells rt t) attempts @ map (submission_cells rt t) submissions) (build_transcript c p))"

text \<open>\<open>rows.join("\r\n") + "\r\n"\<close> ends each row with a line break.\<close>

definition build_transcript_csv :: "runtime \<Rightarrow> catalog \<Rightarrow> learner_progress \<Rightarrow> string" where
  "build_transcript_csv rt c p = csv_lines (map (map portable_csv_cell) (portable_csv_rows rt c p))"

section \<open>The authoritative transcript\<close>

record transcript_record =
  tr_path :: string
  tr_title :: string
  tr_completed :: jsnum
  tr_total :: jsnum
  tr_percent :: jsnum
  tr_best :: "jsnum option"
  tr_version :: string
  tr_updated :: string

record module_progress_record =
  mr_path :: string
  mr_module :: string
  mr_version :: string
  mr_status :: string
  mr_first_seen :: string
  mr_completed :: "string option"
  mr_updated :: string

record attempt_record =
  ap_id :: string
  ap_path_id :: string
  ap_module_id :: string
  ap_content :: string
  ap_percent :: jsnum
  ap_success :: bool
  ap_completed :: string
  ap_recorded :: string

record achievement_record =
  ac_badge :: string
  ac_name :: string
  ac_description :: string
  ac_earned :: string
  ac_evidence :: "string list"
  ac_recorded :: string

record transcript_records =
  ts_modules :: "module_progress_record list"
  ts_attempts :: "attempt_record list"
  ts_entries :: "transcript_record list"
  ts_achievements :: "achievement_record list"

definition csv_columns :: "string list" where
  "csv_columns = [''schema_version'', ''record_authority'', ''record_type'', ''record_id'', ''title'', ''path_id'',
     ''module_id'', ''content_version'', ''progress_status'', ''completed_modules'', ''total_modules'',
     ''completion_percent'', ''score_percent'', ''result'', ''occurred_at'', ''updated_at'', ''evidence_ids'',
     ''credential_status'']"

type_synonym csv_row = "string \<Rightarrow> csv_value"

definition base_row :: "string \<Rightarrow> string \<Rightarrow> csv_row" where
  "base_row kind ident = (\<lambda>column.
     if column \<in> {''completed_modules'', ''total_modules'', ''completion_percent'', ''score_percent''} then CsvNull
     else CsvText [])(''schema_version'' := CsvText ''1.0'', ''record_authority'' := CsvText ''durable-account-record'',
       ''record_type'' := CsvText kind, ''record_id'' := CsvText ident)"

definition path_row :: "transcript_record \<Rightarrow> csv_row" where
  "path_row e = (base_row ''path_progress'' (tr_path e))
     (''title'' := CsvText (tr_title e), ''path_id'' := CsvText (tr_path e), ''content_version'' := CsvText (tr_version e),
      ''progress_status'' := CsvText (if num_less (Fin 0) (tr_total e) \<and> num_le (tr_total e) (tr_completed e)
        then ''completed'' else ''in_progress''),
      ''completed_modules'' := CsvNumber (tr_completed e), ''total_modules'' := CsvNumber (tr_total e),
      ''completion_percent'' := CsvNumber (tr_percent e),
      ''score_percent'' := (case tr_best e of None \<Rightarrow> CsvNull | Some n \<Rightarrow> CsvNumber n), ''updated_at'' := CsvText (tr_updated e))"

definition module_row :: "module_progress_record \<Rightarrow> csv_row" where
  "module_row e = (base_row ''module_progress'' (mr_path e @ '':'' @ mr_module e @ '':'' @ mr_version e))
     (''path_id'' := CsvText (mr_path e), ''module_id'' := CsvText (mr_module e), ''content_version'' := CsvText (mr_version e),
      ''progress_status'' := CsvText (mr_status e),
      ''occurred_at'' := CsvText (case mr_completed e of None \<Rightarrow> mr_first_seen e | Some t \<Rightarrow> t),
      ''updated_at'' := CsvText (mr_updated e))"

definition assessment_row :: "attempt_record \<Rightarrow> csv_row" where
  "assessment_row e = (base_row ''assessment_attempt'' (ap_id e))
     (''path_id'' := CsvText (ap_path_id e), ''module_id'' := CsvText (ap_module_id e), ''content_version'' := CsvText (ap_content e),
      ''score_percent'' := CsvNumber (ap_percent e), ''result'' := CsvText (if ap_success e then ''passed'' else ''not_passed''),
      ''occurred_at'' := CsvText (ap_completed e), ''updated_at'' := CsvText (ap_recorded e))"

definition achievement_row :: "achievement_record \<Rightarrow> csv_row" where
  "achievement_row e = (base_row ''learning_achievement'' (ac_badge e))
     (''title'' := CsvText (ac_name e), ''occurred_at'' := CsvText (ac_earned e), ''updated_at'' := CsvText (ac_recorded e),
      ''evidence_ids'' := CsvText (join_text ''|'' (ac_evidence e)), ''credential_status'' := CsvText ''not_issued_credential'')"

definition compare_keys :: "runtime \<Rightarrow> string \<Rightarrow> string \<Rightarrow> string \<Rightarrow> string \<Rightarrow> int" where
  "compare_keys rt l1 l2 r1 r2 = or_else (collate rt l1 r1) (collate rt l2 r2)"

definition sorted_transcript_entries :: "runtime \<Rightarrow> transcript_record list \<Rightarrow> transcript_record list" where
  "sorted_transcript_entries rt = js_sort (\<lambda>l r. compare_keys rt (tr_path l) (tr_version l) (tr_path r) (tr_version r))"

definition sorted_module_progress :: "runtime \<Rightarrow> module_progress_record list \<Rightarrow> module_progress_record list" where
  "sorted_module_progress rt = js_sort (\<lambda>l r. compare_keys rt (mr_path l @ '':'' @ mr_module l) (mr_version l)
     (mr_path r @ '':'' @ mr_module r) (mr_version r))"

definition sorted_assessment_attempts :: "runtime \<Rightarrow> attempt_record list \<Rightarrow> attempt_record list" where
  "sorted_assessment_attempts rt = js_sort (\<lambda>l r. compare_keys rt (ap_completed l) (ap_id l) (ap_completed r) (ap_id r))"

definition sorted_achievements :: "runtime \<Rightarrow> achievement_record list \<Rightarrow> achievement_record list" where
  "sorted_achievements rt = js_sort (\<lambda>l r. compare_keys rt (ac_earned l) (ac_badge l) (ac_earned r) (ac_badge r))"

definition authoritative_rows :: "runtime \<Rightarrow> transcript_records \<Rightarrow> csv_row list" where
  "authoritative_rows rt rs = map path_row (sorted_transcript_entries rt (ts_entries rs))
     @ map module_row (sorted_module_progress rt (ts_modules rs))
     @ map assessment_row (sorted_assessment_attempts rt (ts_attempts rs))
     @ map achievement_row (sorted_achievements rt (ts_achievements rs))"

definition build_authoritative_csv :: "runtime \<Rightarrow> transcript_records \<Rightarrow> string" where
  "build_authoritative_csv rt rs = csv_lines (map (escape_csv_cell rt \<circ> CsvText) csv_columns
     # map (\<lambda>row. map (\<lambda>column. escape_csv_cell rt (row column)) csv_columns) (authoritative_rows rt rs))"

section \<open>Reading CSV text\<close>

text \<open>
  A reader of RFC 4180 text whose every row ends with a line break: \<open>Plain\<close> outside quotes, \<open>Quoted\<close> inside, \<open>Closed\<close> after
  the closing quote. The accumulators hold the current cell, row and rows in reverse.
\<close>

datatype csv_state = Plain | Quoted | Closed

fun csv_read :: "csv_state \<Rightarrow> string \<Rightarrow> string list \<Rightarrow> string list list \<Rightarrow> string \<Rightarrow> string list list option" where
  "csv_read Plain cell row rows [] = (if cell = [] \<and> row = [] then Some (rev rows) else None)"
| "csv_read Quoted cell row rows [] = None"
| "csv_read Closed cell row rows [] = None"
| "csv_read Quoted cell row rows (c # cs) =
     (if c = quote_char then csv_read Closed cell row rows cs else csv_read Quoted (c # cell) row rows cs)"
| "csv_read Closed cell row rows (c # cs) =
     (if c = quote_char then csv_read Quoted (quote_char # cell) row rows cs
      else if c = comma then csv_read Plain [] (rev cell # row) rows cs
      else if c = cr \<and> cs \<noteq> [] \<and> hd cs = lf then csv_read Plain [] [] (rev (rev cell # row) # rows) (tl cs)
      else None)"
| "csv_read Plain cell row rows (c # cs) =
     (if c = quote_char then (if cell = [] then csv_read Quoted [] row rows cs else None)
      else if c = comma then csv_read Plain [] (rev cell # row) rows cs
      else if c = cr \<and> cs \<noteq> [] \<and> hd cs = lf then csv_read Plain [] [] (rev (rev cell # row) # rows) (tl cs)
      else if c = lf \<or> c = cr then None
      else csv_read Plain (c # cell) row rows cs)"

definition read_csv :: "string \<Rightarrow> string list list option" where
  "read_csv s = csv_read Plain [] [] [] s"

text \<open>How one cell reads: what follows it decides the next state.\<close>

definition reads_as :: "string \<Rightarrow> string \<Rightarrow> bool" where
  "reads_as e v \<longleftrightarrow> (\<forall>row rows rest. csv_read Plain [] row rows (e @ comma # rest) = csv_read Plain [] (v # row) rows rest
     \<and> csv_read Plain [] row rows (e @ cr # lf # rest) = csv_read Plain [] [] (rev (v # row) # rows) rest)"

lemma read_plain: "\<not> list_ex special_char v \<Longrightarrow>
    csv_read Plain cell row rows (v @ rest) = csv_read Plain (rev v @ cell) row rows rest"
  by (induction v arbitrary: cell) (auto simp: special_char_def)

lemma read_quoted: "csv_read Quoted cell row rows (double_quotes v @ quote_char # rest) = csv_read Closed (rev v @ cell) row rows rest"
  by (induction v arbitrary: cell) auto

lemma quoted_reads [intro]: "reads_as (quoted_cell v) v"
  by (simp add: reads_as_def quoted_cell_def read_quoted)

lemma plain_reads: "\<not> list_ex special_char v \<Longrightarrow> reads_as v v"
  by (simp add: reads_as_def read_plain)

lemma portable_cell_reads: "reads_as (portable_csv_cell v) (guard_cell v)"
  by (auto simp: portable_csv_cell_def Let_def plain_reads)

lemma row_reads:
  assumes "list_all2 reads_as es vs" and "es \<noteq> []"
  shows "csv_read Plain [] row rows (join_text [comma] es @ cr # lf # rest) = csv_read Plain [] [] ((rev row @ vs) # rows) rest"
  using assms
proof (induction es arbitrary: vs row)
  case (Cons e es)
  then obtain v vs' where v: "vs = v # vs'" "reads_as e v" "list_all2 reads_as es vs'" by (auto simp: list_all2_Cons1)
  show ?case
  proof (cases es)
    case Nil
    then show ?thesis using v by (auto simp: reads_as_def)
  next
    case (Cons f fs)
    then have "join_text [comma] (e # es) @ cr # lf # rest = e @ comma # (join_text [comma] es @ cr # lf # rest)" by simp
    then have "csv_read Plain [] row rows (join_text [comma] (e # es) @ cr # lf # rest)
        = csv_read Plain [] (v # row) rows (join_text [comma] es @ cr # lf # rest)"
      using v(2) by (simp only: reads_as_def)
    also have "\<dots> = csv_read Plain [] [] ((rev (v # row) @ vs') # rows) rest" using Cons v(3) by (intro Cons.IH) simp_all
    finally show ?thesis using v(1) by simp
  qed
qed simp

lemma lines_read:
  assumes "list_all2 (list_all2 reads_as) ess vss" and "[] \<notin> set ess"
  shows "csv_read Plain [] [] rows (csv_lines ess) = Some (rev rows @ vss)"
  using assms
proof (induction ess arbitrary: vss rows)
  case (Cons es ess)
  then obtain vs vss' where v: "vss = vs # vss'" "list_all2 reads_as es vs" "list_all2 (list_all2 reads_as) ess vss'"
    by (auto simp: list_all2_Cons1)
  have "csv_read Plain [] [] rows (csv_lines (es # ess)) = csv_read Plain [] [] (vs # rows) (csv_lines ess)"
    using row_reads [OF v(2), of "[]" rows "csv_lines ess"] Cons.prems(2) by (auto simp: csv_lines_def)
  also have "\<dots> = Some (rev (vs # rows) @ vss')" using Cons.prems(2) by (intro Cons.IH v(3)) simp
  finally show ?case using v(1) by simp
qed (simp add: csv_lines_def)

lemma csv_cells_read:
  assumes "\<And>v. reads_as (f v) (g v)" and "[] \<notin> set rows"
  shows "read_csv (csv_lines (map (map f) rows)) = Some (map (map g) rows)"
proof -
  have "list_all2 (list_all2 reads_as) (map (map f) rows) (map (map g) rows)"
    by (simp add: list_all2_conv_all_nth assms(1))
  then show ?thesis using lines_read [of "map (map f) rows" "map (map g) rows" "[]"] assms(2) by (auto simp: read_csv_def)
qed

section \<open>What the exports say\<close>

lemma guard_cell_inert: "\<not> formula_start (guard_cell s)"
  by (simp add: guard_cell_def)

lemma guard_text_inert: "\<not> hidden_formula (guard_text s)"
  by (simp add: guard_text_def hidden_formula_def leading_char_def)

text \<open>
  C36. A CSV reader gets back from the authoritative transcript the header and one row for each record, in the
  exported order, with the text of every value, behind an apostrophe where it could be taken for a formula; and no cell it
  gets is a formula, not even behind leading spaces or control characters.
\<close>

theorem authoritative_csv_reads_back:
  "read_csv (build_authoritative_csv rt rs) = Some (map guard_text csv_columns
     # map (\<lambda>row. map (\<lambda>column. guard_text (csv_text rt (row column))) csv_columns) (authoritative_rows rt rs))
   \<and> mset (authoritative_rows rt rs) = mset (map path_row (ts_entries rs)) + mset (map module_row (ts_modules rs))
     + mset (map assessment_row (ts_attempts rs)) + mset (map achievement_row (ts_achievements rs))
   \<and> (\<forall>text. \<not> hidden_formula (guard_text text))"
proof -
  let ?rows = "map CsvText csv_columns # map (\<lambda>row. map row csv_columns) (authoritative_rows rt rs)"
  have "csv_columns \<noteq> []" by (simp add: csv_columns_def)
  then have "read_csv (csv_lines (map (map (escape_csv_cell rt)) ?rows)) = Some (map (map (guard_text \<circ> csv_text rt)) ?rows)"
    by (intro csv_cells_read) (auto simp: escape_csv_cell_def)
  moreover have "map (map (escape_csv_cell rt)) ?rows = map (escape_csv_cell rt \<circ> CsvText) csv_columns
      # map (\<lambda>row. map (\<lambda>column. escape_csv_cell rt (row column)) csv_columns) (authoritative_rows rt rs)"
    by (simp add: comp_def)
  ultimately have "read_csv (build_authoritative_csv rt rs) = Some (map guard_text csv_columns
     # map (\<lambda>row. map (\<lambda>column. guard_text (csv_text rt (row column))) csv_columns) (authoritative_rows rt rs))"
    by (simp add: build_authoritative_csv_def comp_def)
  moreover have "mset (authoritative_rows rt rs) = mset (map path_row (ts_entries rs)) + mset (map module_row (ts_modules rs))
     + mset (map assessment_row (ts_attempts rs)) + mset (map achievement_row (ts_achievements rs))"
    by (simp add: authoritative_rows_def sorted_transcript_entries_def sorted_module_progress_def
        sorted_assessment_attempts_def sorted_achievements_def)
  ultimately show ?thesis using guard_text_inert by blast
qed

text \<open>
  A CSV reader gets back from the portable transcript exactly its rows of 13 cells, each as it was or behind an
  apostrophe where it began like a formula, so that no cell it gets begins like one.
\<close>

theorem transcript_csv_reads_back:
  "read_csv (build_transcript_csv rt c p) = Some (map (map guard_cell) (portable_csv_rows rt c p))
   \<and> list_all (\<lambda>row. length row = 13 \<and> list_all (\<lambda>cell. \<not> formula_start (guard_cell cell)) row) (portable_csv_rows rt c p)"
proof -
  have rows: "list_all (\<lambda>row. length row = 13) (portable_csv_rows rt c p)"
    by (auto simp: portable_csv_rows_def portable_csv_header_def list_all_iff Let_def attempt_cells_def submission_cells_def
        path_cells_def split: if_splits)
  then have "[] \<notin> set (portable_csv_rows rt c p)" by (auto simp: list_all_iff)
  then have "read_csv (build_transcript_csv rt c p) = Some (map (map guard_cell) (portable_csv_rows rt c p))"
    unfolding build_transcript_csv_def by (rule csv_cells_read [OF portable_cell_reads])
  then show ?thesis using rows by (simp add: list_all_iff guard_cell_inert)
qed

text \<open>The portable export does not look behind leading white space: such a cell is written as it is.\<close>

lemma portable_guard_misses: "guard_cell (CHR 0x09 # ''=1+1'') = CHR 0x09 # ''=1+1'' \<and> hidden_formula (CHR 0x09 # ''=1+1'')"
  by (simp add: guard_cell_def hidden_formula_def leading_char_def)

end
