(* ===== verification/Projection_Theorems.thy ===== *)
theory Projection_Theorems
  imports Sample_Records
begin

text \<open>
  The theorems about \<open>projectLearningEvents\<close>, on the definitions of \<open>Learning_Projection\<close>: which
  streams it accepts, that their order in storage does not matter, and what attempts, badges,
  transcripts and imports are in terms of the events. Each theorem with a hypothesis is applied
  to the sample stream of \<open>Sample_Records\<close>.
\<close>

section \<open>The sample stream\<close>

lemma sample_sequences [simp]: "map e_sequence sample_stream = [1, 2, 3, 4, 5, 6, 7]"
  by (simp add: sample_stream_def sample_event_def del: One_nat_def)

lemma sample_admissible: "stream_ok rt ''school-1'' ''learner-1'' sample_stream"
proof -
  have adm: "admissible rt (since_import (take i sample_stream)) (sample_stream ! i)"
    if "i < length sample_stream" for i
  proof -
    from that have "i \<in> {0, 1, 2, 3, 4, 5, 6}" by (auto simp: sample_stream_def)
    then show ?thesis
      by (elim insertE; simp add: sample_stream_def sample_event_def sample_payloads admissible_def
          since_import_def enrollable_def enrolls_def same_enrollment_def correctable_def
          correction_ids.simps records_attempt_def)
  qed
  have scope: "\<forall>e \<in> set sample_stream. e_installation e = ''school-1'' \<and> e_learner e = ''learner-1''"
    by (simp add: sample_stream_def sample_event_def)
  show ?thesis using adm scope sample_stream_wf by (simp add: stream_ok_def)
qed

lemma sample_sorted [simp]: "in_order rt sample_stream = sample_stream"
  by (rule in_order_sorted) simp

lemma sample_projects:
  "\<exists>P. project_learning_events rt sample_stream ''school-1'' ''learner-1'' = Inr P"
  using sample_admissible run_loop_accepts [of rt "''school-1''" "''learner-1''" sample_stream]
  by (auto simp: project_learning_events_def)

section \<open>Acceptance and order\<close>

text \<open>
  C1. The projection accepts exactly the streams whose events, in sequence order, are well formed
  events of the requested learner with strictly increasing sequence numbers, each admissible
  after the events since the last import: a module is visited, assessed or completed only in a
  path enrolled in the same content version, an attempt ID is recorded once, a correction names
  a recorded attempt of the same content and assessment version and has a fresh ID, and a path
  is enrolled again only with the same value. Every other stream is an error, and there is no
  third outcome.
\<close>

theorem projection_accepts:
  "(\<exists>P. project_learning_events rt es i l = Inr P) \<longleftrightarrow> stream_ok rt i l (in_order rt es)"
  using run_loop_accepts [of rt i l "in_order rt es"]
  by (auto simp: project_learning_events_def bind_result_eq_Inr)

text \<open>
  C2. The projection does not depend on the order in which the store returns the events: two
  lists of the same events with distinct sequence numbers have the same projection, or the same
  error.
\<close>

theorem projection_order_irrelevant:
  assumes "mset es = mset fs" and "distinct (map e_sequence es)"
  shows "project_learning_events rt es i l = project_learning_events rt fs i l"
  using in_order_perm [OF assms] mset_eq_length [OF assms(1)]
  by (simp add: project_learning_events_def)

theorem projection_order_irrelevant_witness:
  "\<exists>P. project_learning_events sample_runtime (rev sample_stream) ''school-1'' ''learner-1'' = Inr P"
  using projection_order_irrelevant [of "rev sample_stream" sample_stream sample_runtime "''school-1''"
      "''learner-1''"] sample_projects [of sample_runtime] by (simp add: rev_map [symmetric])

section \<open>Attempts and corrections\<close>

text \<open>
  C3. An accepted stream shows one attempt for every attempt ID recorded since the last import and
  no other. The answers, the original score and the original verdict are those of the event
  that recorded it, whatever was corrected later; the corrections are the correction events of
  that attempt in stream order; the effective score and verdict are those of the last
  correction, or the original ones when there is none.
\<close>

theorem projection_attempts:
  assumes "project_learning_events rt es i l = Inr P"
  shows "aj_id ` set (pj_attempts P) = {k. \<exists>e \<in> set (current_events rt es). records_attempt e k}
    \<and> distinct (map aj_id (pj_attempts P))
    \<and> (\<forall>a \<in> set (pj_attempts P). \<exists>e \<in> set (current_events rt es). \<exists>p.
        e_payload e = AssessmentRecord p \<and> ap_attempt p = aj_id a
      \<and> aj_answers a = ap_answers p \<and> aj_original_score a = ap_score p
      \<and> aj_original_passed a = ap_passed p \<and> aj_content a = e_content e \<and> aj_version a = ap_version p
      \<and> aj_corrections a = corrections_of (current_events rt es) (aj_id a)
      \<and> aj_effective_score a = (if aj_corrections a = [] then ap_score p
          else co_score (last (aj_corrections a)))
      \<and> aj_effective_passed a = (if aj_corrections a = [] then ap_passed p
          else co_passed (last (aj_corrections a))))"
proof -
  obtain s where view: "loop_view (in_order rt es) s" and P: "P = finish_projection rt i l (length es) s"
    using assms by (rule projection_view)
  note mem = projection_lists(3) [OF view P]
  have "aj_id ` set (pj_attempts P) = {k. \<exists>a. map_of (fs_attempts s) k = Some a}"
    using mem attempt_facts(2) [OF view] by force
  then have ids: "aj_id ` set (pj_attempts P)
      = {k. \<exists>e \<in> set (current_events rt es). records_attempt e k}"
    by (simp add: attempt_recorded_iff [OF view] current_events_def)
  have "\<exists>e \<in> set (current_events rt es). \<exists>p. e_payload e = AssessmentRecord p \<and> ap_attempt p = aj_id a
      \<and> aj_answers a = ap_answers p \<and> aj_original_score a = ap_score p
      \<and> aj_original_passed a = ap_passed p \<and> aj_content a = e_content e \<and> aj_version a = ap_version p
      \<and> aj_corrections a = corrections_of (current_events rt es) (aj_id a)
      \<and> aj_effective_score a = (if aj_corrections a = [] then ap_score p
          else co_score (last (aj_corrections a)))
      \<and> aj_effective_passed a = (if aj_corrections a = [] then ap_passed p
          else co_passed (last (aj_corrections a)))"
    if here: "a \<in> set (pj_attempts P)" for a
  proof -
    obtain k where k: "map_of (fs_attempts s) k = Some a" using here mem [of a] by blast
    from attempt_facts(1) [OF view k] obtain e p where
      e: "find (\<lambda>e. records_attempt e k) (current_events rt es) = Some e" "e_payload e = AssessmentRecord p"
      and a: "a = foldl (\<lambda>a c. correct_attempt c a) (event_attempt e p)
        (corrections_of (current_events rt es) k)"
      by (auto simp: attempt_view_def current_events_def)
    have "e \<in> set (current_events rt es)" "ap_attempt p = k"
      using e by (auto simp: find_Some_iff records_attempt_def)
    then show ?thesis
      using e(2) by (intro bexI [of _ e] exI [of _ p])
        (simp_all add: a foldl_correct_effective event_attempt_def)
  qed
  then show ?thesis using ids attempts_distinct [OF view P] by blast
qed

theorem projection_attempts_witness:
  "\<exists>P a. project_learning_events sample_runtime sample_stream ''school-1'' ''learner-1'' = Inr P
    \<and> a \<in> set (pj_attempts P) \<and> aj_id a = ''attempt-1''"
proof -
  obtain P where P: "project_learning_events sample_runtime sample_stream ''school-1'' ''learner-1'' = Inr P"
    using sample_projects by blast
  have "\<exists>e \<in> set (current_events sample_runtime sample_stream). records_attempt e ''attempt-1''"
    by (simp add: current_events_def since_import_def sample_stream_def [symmetric])
      (simp add: sample_stream_def sample_event_def sample_payloads records_attempt_def)
  then have "''attempt-1'' \<in> aj_id ` set (pj_attempts P)"
    using projection_attempts [OF P] by simp
  then obtain a where "a \<in> set (pj_attempts P)" "aj_id a = ''attempt-1''" by auto
  with P show ?thesis by blast
qed


section \<open>Modules and badges\<close>

text \<open>What a projected module state says of the events.\<close>

definition module_reading :: "learning_event list \<Rightarrow> learning_projection \<Rightarrow> module_state \<Rightarrow> bool" where
  "module_reading es P m \<longleftrightarrow>
      (mo_status m = Completed \<longleftrightarrow> completions es m \<noteq> [])
    \<and> set (mo_evidence m) = set (concat (map (evidence_of \<circ> e_payload) (completions es m)))
    \<and> (case mo_completed m of None \<Rightarrow> mo_status m = Visited
       | Some t \<Rightarrow> t \<in> e_occurred ` set (completions es m))
    \<and> (case mo_first m of None \<Rightarrow> module_visits es m = []
       | Some t \<Rightarrow> t \<in> e_occurred ` set (module_visits es m))
    \<and> (\<exists>en \<in> set (pj_enrollments P). en_path en = mo_path m \<and> en_content en = mo_content m
         \<and> mo_module m \<in> set (en_modules en))"

lemma projected_module_reading:
  assumes view: "loop_view (in_order rt es) s" and P: "P = finish_projection rt i l (length es) s"
    and k: "map_of (fs_modules s) k = Some m"
  shows "module_reading (current_events rt es) P m"
proof -
  have v: "module_view (current_events rt es) k m"
    and enr: "enrolled_in s (mo_path m) (mo_content m) (mo_module m)"
    using view k by (simp_all add: loop_view_def inv_defs current_events_def)
  obtain en where en: "map_of (fs_enrollments s) (versioned_path_key (mo_path m) (mo_content m)) = Some en"
    "mo_module m \<in> set (en_modules en)"
    using enr by (auto simp: enrolled_in_def)
  have "stable_id (mo_path m)" using v by (simp add: module_view_def)
  then have "en_path en = mo_path m" "en_content en = mo_content m"
    using enrollment_facts(1,2) [OF view en(1)] by (simp_all add: path_key_inj stable_id_not_nul)
  then have "\<exists>en \<in> set (pj_enrollments P). en_path en = mo_path m \<and> en_content en = mo_content m
      \<and> mo_module m \<in> set (en_modules en)"
    using en projection_lists(1) [OF view P, of en] by blast
  moreover have "mo_status m = Visited" if "completions (current_events rt es) m = []"
    using v that by (cases "mo_status m") (auto simp: module_view_def)
  ultimately show ?thesis
    using v unfolding module_reading_def module_view_def by (auto split: option.splits)
qed

text \<open>
  C4. A module has a state in the projection exactly when an event since the last import visited or
  completed it (in its content version). It is \<open>completed\<close> exactly when an event completed it,
  its evidence is then the union of the evidence of those events, the recorded times are
  times of such events, and it belongs to a projected enrolment.
\<close>

theorem projection_modules:
  assumes "project_learning_events rt es i l = Inr P" and "stable_id path" and "stable_id mod_id"
  shows "((\<exists>m \<in> set (pj_modules P). mo_path m = path \<and> mo_module m = mod_id \<and> mo_content m = content)
      \<longleftrightarrow> (\<exists>e \<in> set (current_events rt es). visits e path mod_id content \<or> completes e path mod_id content))
    \<and> (\<forall>m \<in> set (pj_modules P). module_reading (current_events rt es) P m)"
proof -
  obtain s where view: "loop_view (in_order rt es) s" and P: "P = finish_projection rt i l (length es) s"
    using assms(1) by (rule projection_view)
  note mem = projection_lists(2) [OF view P]
  have "(\<exists>m \<in> set (pj_modules P). mo_path m = path \<and> mo_module m = mod_id \<and> mo_content m = content)
      \<longleftrightarrow> (\<exists>e \<in> set (current_events rt es). visits e path mod_id content \<or> completes e path mod_id content)"
    using module_known_iff [OF view assms(2,3), of content] mem unfolding current_events_def by blast
  moreover have "\<forall>m \<in> set (pj_modules P). module_reading (current_events rt es) P m"
    using projected_module_reading [OF view P] mem by blast
  ultimately show ?thesis by blast
qed

text \<open>The current events of the sample stream.\<close>

lemma sample_since: "since_import sample_stream = tl sample_stream"
  by (simp add: since_import_def sample_stream_def sample_payloads)

lemma sample_current: "current_events rt sample_stream = tl sample_stream"
  by (simp add: current_events_def sample_since)

lemma sample_completes: "\<exists>e \<in> set (current_events rt sample_stream). completes e ''path-a'' m ''1.0.0''"
  if "m \<in> {''module-a'', ''module-b''}"
  using that unfolding sample_current by (auto simp: sample_stream_def sample_payloads completes_def)

theorem projection_modules_witness:
  "\<exists>P m. project_learning_events sample_runtime sample_stream ''school-1'' ''learner-1'' = Inr P
    \<and> m \<in> set (pj_modules P) \<and> mo_module m = ''module-a'' \<and> mo_status m = Completed
    \<and> mo_evidence m \<noteq> []"
proof -
  obtain P where P: "project_learning_events sample_runtime sample_stream ''school-1'' ''learner-1'' = Inr P"
    using sample_projects by blast
  have ids: "stable_id ''path-a''" "stable_id ''module-a''" by code_simp+
  note facts = projection_modules [OF P ids, of "''1.0.0''"]
  obtain m where m: "m \<in> set (pj_modules P)" "mo_path m = ''path-a''" "mo_module m = ''module-a''"
    "mo_content m = ''1.0.0''"
    using facts [THEN conjunct1] sample_completes [of "''module-a''"] by blast
  have "module_reading (current_events sample_runtime sample_stream) P m" using facts [THEN conjunct2] m(1) by blast
  then have "mo_status m = Completed" "''attempt-1'' \<in> set (mo_evidence m)"
    using m(2-4) unfolding sample_current
    by (auto simp: module_reading_def sample_stream_def sample_payloads completes_def)
  then show ?thesis using P m by (metis empty_iff empty_set)
qed

text \<open>
  C5. A projected enrolment has a badge exactly when every module of the path was completed, in
  that content version, since the last import. Every badge belongs to a projected enrolment,
  lists the path's modules as evidence, and was earned at the time of a completion of one of
  them.
\<close>

theorem projection_badges:
  assumes "project_learning_events rt es i l = Inr P"
  shows "(\<forall>en \<in> set (pj_enrollments P).
      (\<exists>b \<in> set (pj_badges P). bp_path b = en_path en \<and> bp_content b = en_content en)
      \<longleftrightarrow> (\<forall>x \<in> set (en_modules en). module_completed (current_events rt es) en x))
    \<and> (\<forall>b \<in> set (pj_badges P). \<exists>en \<in> set (pj_enrollments P).
      bp_path b = en_path en \<and> bp_content b = en_content en \<and> bp_evidence b = en_modules en
      \<and> (\<exists>x \<in> set (en_modules en). \<exists>e \<in> set (current_events rt es).
           completes e (en_path en) x (en_content en) \<and> e_occurred e = bp_earned b))"
proof -
  obtain s where view: "loop_view (in_order rt es) s" and P: "P = finish_projection rt i l (length es) s"
    using assms by (rule projection_view)
  note mem = projection_badge_members [OF P]
  have unique: "en = en'" if "en \<in> set (pj_enrollments P)" "en' \<in> set (pj_enrollments P)"
    "en_path en = en_path en'" "en_content en = en_content en'" for en en'
    using that enrollment_unique [OF view] projection_lists(1) [OF view P] by metis
  have iff: "(\<exists>b \<in> set (pj_badges P). bp_path b = en_path en \<and> bp_content b = en_content en)
      \<longleftrightarrow> (\<forall>x \<in> set (en_modules en). module_completed (current_events rt es) en x)"
    if "en \<in> set (pj_enrollments P)" for en
  proof -
    have "(\<exists>b \<in> set (pj_badges P). bp_path b = en_path en \<and> bp_content b = en_content en)
        \<longleftrightarrow> derive_badge en (pj_modules P) \<noteq> None"
      using that unique mem by (metis derive_badge_facts(1,2) not_None_eq)
    then show ?thesis using derive_badge_iff [OF view P that] by (simp add: current_events_def)
  qed
  have "\<exists>en \<in> set (pj_enrollments P). bp_path b = en_path en \<and> bp_content b = en_content en
      \<and> bp_evidence b = en_modules en \<and> (\<exists>x \<in> set (en_modules en). \<exists>e \<in> set (current_events rt es).
           completes e (en_path en) x (en_content en) \<and> e_occurred e = bp_earned b)"
    if b_in: "b \<in> set (pj_badges P)" for b
  proof -
    obtain en where en: "en \<in> set (pj_enrollments P)" "derive_badge en (pj_modules P) = Some b"
      using b_in mem by blast
    note facts = derive_badge_facts [OF en(2)]
    obtain m where m: "m \<in> set (pj_modules P)" "completed_in en m" "mo_completed m = Some (bp_earned b)"
      using facts(4) by blast
    obtain k where "map_of (fs_modules s) k = Some m"
      using m(1) projection_lists(2) [OF view P, of m] by blast
    then have "module_view (current_events rt es) k m"
      using view by (simp add: loop_view_def inv_defs current_events_def)
    then have "bp_earned b \<in> e_occurred ` set (completions (current_events rt es) m)"
      using m(3) by (simp add: module_view_def)
    then obtain e where "e \<in> set (current_events rt es)" "e_occurred e = bp_earned b"
      "completes e (mo_path m) (mo_module m) (mo_content m)" by auto
    then show ?thesis using en(1) facts(1-3) m(2) by (auto simp: completed_in_def)
  qed
  then show ?thesis using iff by blast
qed

theorem projection_badges_witness:
  "\<exists>P b. project_learning_events sample_runtime sample_stream ''school-1'' ''learner-1'' = Inr P
    \<and> b \<in> set (pj_badges P) \<and> bp_path b = ''path-a''"
proof -
  obtain P where P: "project_learning_events sample_runtime sample_stream ''school-1'' ''learner-1'' = Inr P"
    using sample_projects by blast
  obtain s where view: "loop_view sample_stream s" and fin: "P = finish_projection sample_runtime
      ''school-1'' ''learner-1'' (length sample_stream) s"
    using projection_view [OF P] by auto
  have "stable_id ''path-a''" by code_simp
  moreover have "enrollment_inv (tl sample_stream) s"
    using view by (simp add: loop_view_def fold_inv_def sample_since)
  moreover have "find (\<lambda>e. enrolls e ''path-a'' ''1.0.0'') (tl sample_stream) = Some (sample_event 2 enroll_payload)"
    by (simp add: sample_stream_def sample_payloads enrolls_def)
  ultimately obtain en where en: "map_of (fs_enrollments s) (versioned_path_key ''path-a'' ''1.0.0'') = Some en"
    "en_path en = ''path-a''" "en_content en = ''1.0.0''" "en_modules en = [''module-a'', ''module-b'']"
    by (simp add: enrollment_lookup enroll_payload_def event_enrollment_def)
  then have "en \<in> set (pj_enrollments P)" using projection_lists(1) [OF view fin] by blast
  moreover have "\<forall>x \<in> set (en_modules en). module_completed (current_events sample_runtime sample_stream) en x"
    using sample_completes en(2-4) by (auto simp: module_completed_def)
  ultimately obtain b where "b \<in> set (pj_badges P)" "bp_path b = en_path en"
    using projection_badges [OF P, THEN conjunct1] by blast
  then show ?thesis using P en(2) by auto
qed


section \<open>The transcript\<close>

lemma foldl_max: "foldl max (x::int) xs = Max (insert x (set xs))"
proof (induction xs arbitrary: x)
  case (Cons a xs)
  then show ?case by (cases "xs = []") (simp_all add: max.assoc)
qed simp

lemma best_score: "(case xs of [] \<Rightarrow> None | x # ys \<Rightarrow> Some (foldl max x ys))
    = (if xs = [] then None else Some (Max (set xs :: int set)))"
  by (cases xs) (simp_all add: foldl_max)

lemma build_best:
  "tr_best (build_transcript_entry en ms as) =
     (let scores = {aj_effective_score a | a. a \<in> set as \<and> aj_path a = en_path en
          \<and> aj_content a = en_content en}
      in if scores = {} then None else Some (Max scores))"
proof -
  let ?xs = "map aj_effective_score (filter (\<lambda>a. aj_path a = en_path en \<and> aj_content a = en_content en) as)"
  have S: "{aj_effective_score a | a. a \<in> set as \<and> aj_path a = en_path en
      \<and> aj_content a = en_content en} = set ?xs" by auto
  have "tr_best (build_transcript_entry en ms as) = (if ?xs = [] then None else Some (Max (set ?xs)))"
    by (simp only: build_transcript_entry_def Let_def best_score transcript_entry.simps)
  then show ?thesis unfolding S Let_def by (simp only: set_empty)
qed

definition transcript_reading ::
    "learning_event list \<Rightarrow> learning_projection \<Rightarrow> enrollment \<Rightarrow> transcript_entry \<Rightarrow> bool" where
  "transcript_reading es P en t \<longleftrightarrow>
      tr_path t = en_path en \<and> tr_title t = en_title en \<and> tr_content t = en_content en
    \<and> tr_total t = length (en_modules en)
    \<and> tr_completed t = length (filter (module_completed es en) (en_modules en))
    \<and> (\<exists>q. tr_percent t = Fin (of_int q) \<and> 0 \<le> q \<and> q \<le> 100
         \<and> ((\<forall>x \<in> set (en_modules en). module_completed es en x) \<longrightarrow> q = 100)
         \<and> (\<not> (\<exists>x \<in> set (en_modules en). module_completed es en x) \<longrightarrow> q = 0))
    \<and> tr_best t = (let scores = {aj_effective_score a | a. a \<in> set (pj_attempts P)
            \<and> aj_path a = en_path en \<and> aj_content a = en_content en}
         in if scores = {} then None else Some (Max scores))"

text \<open>
  C6. The transcript has one entry per projected enrolment, in the same order. It counts the
  modules of the path that were completed in that content version, its percentage is an integer
  from 0 to 100, 100 when every module is completed and 0 when none is, and its best score is
  the maximum of the effective scores of the attempts of that path and version.
\<close>

theorem projection_transcript:
  assumes "project_learning_events rt es i l = Inr P"
  shows "list_all2 (transcript_reading (current_events rt es) P) (pj_enrollments P) (pj_transcript P)"
proof -
  obtain s where view: "loop_view (in_order rt es) s" and P: "P = finish_projection rt i l (length es) s"
    using assms by (rule projection_view)
  have entries: "pj_transcript P = map (\<lambda>en. build_transcript_entry en (pj_modules P) (pj_attempts P))
      (pj_enrollments P)"
    by (simp add: P finish_projection_def Let_def)
  have "transcript_reading (current_events rt es) P en
      (build_transcript_entry en (pj_modules P) (pj_attempts P))"
    if en: "en \<in> set (pj_enrollments P)" for en
  proof -
    let ?done = "filter (module_completed (current_events rt es) en) (en_modules en)"
    obtain k where k: "map_of (fs_enrollments s) k = Some en"
      using en projection_lists(1) [OF view P, of en] by blast
    have pos: "0 < length (en_modules en)" using enrollment_facts(3) [OF view k] by simp
    have count: "length (filter (completed_in en) (pj_modules P)) = length ?done"
      using completed_count [OF view P en] by (simp add: current_events_def)
    have le: "length ?done \<le> length (en_modules en)" by simp
    obtain q where q: "js_percent (length ?done) (length (en_modules en)) = Fin (of_int q)"
      "0 \<le> q" "q \<le> 100"
      using js_percent_bounds [OF le pos] by blast
    have "q = 100" if "\<forall>x \<in> set (en_modules en). module_completed (current_events rt es) en x"
    proof -
      have "?done = en_modules en" using that by (simp add: filter_id_conv)
      then show ?thesis using q(1) js_percent_complete [OF pos] by simp
    qed
    moreover have "q = 0" if "\<not> (\<exists>x \<in> set (en_modules en). module_completed (current_events rt es) en x)"
    proof -
      have "?done = []" using that by (simp add: filter_empty_conv)
      then show ?thesis using q(1) js_percent_none [OF pos] by simp
    qed
    ultimately show ?thesis
      using q unfolding transcript_reading_def build_best
      by (simp add: build_transcript_entry_def count)
  qed
  then show ?thesis by (simp add: entries list_all2_map2 list_all2_same)
qed

section \<open>Imports\<close>

text \<open>
  An import discards what was recorded before it: a stream with an import projects, revision
  number apart, exactly as the stream that starts with the import.
\<close>

theorem projection_import_resets:
  assumes "project_learning_events rt (xs @ e # ys) i l = Inr P"
    and "sorted_wrt (<) (map e_sequence (xs @ e # ys))" and "is_import (e_payload e)"
  shows "project_learning_events rt (e # ys) i l = Inr (P\<lparr>pj_revision := Suc (length ys)\<rparr>)"
proof -
  have sorted: "sorted_wrt (<) (map e_sequence (e # ys))"
    using assms(2) by (simp add: sorted_wrt_append)
  obtain s where s: "run_loop rt i l (xs @ e # ys) = Inr s"
    and P: "P = finish_projection rt i l (length (xs @ e # ys)) s"
    using assms(1) in_order_sorted [OF assms(2)]
    by (auto simp: project_learning_events_def bind_result_eq_Inr)
  have "run_loop rt i l (e # ys) = Inr s" by (rule run_loop_import [OF s assms(3)])
  then show ?thesis
    using in_order_sorted [OF sorted]
    by (simp add: project_learning_events_def P finish_projection_def Let_def del: fold_result.simps)
qed

section \<open>Nothing is lost\<close>

lemma module_grows:
  assumes view: "loop_view es s" and view': "loop_view (es @ [e]) s'"
    and imp: "\<not> is_import (e_payload e)" and k: "map_of (fs_modules s) k = Some m"
  shows "\<exists>k' m'. map_of (fs_modules s') k' = Some m' \<and> mo_path m' = mo_path m
      \<and> mo_module m' = mo_module m \<and> mo_content m' = mo_content m
      \<and> (mo_status m = Completed \<longrightarrow> mo_status m' = Completed)
      \<and> set (mo_evidence m) \<subseteq> set (mo_evidence m')"
proof -
  have R: "since_import (es @ [e]) = since_import es @ [e]" using imp by simp
  have v: "module_view (since_import es) k m" using view k by (simp add: loop_view_def inv_defs)
  then have ids: "stable_id (mo_path m)" "stable_id (mo_module m)" by (simp_all add: module_view_def)
  have "\<exists>k m'. map_of (fs_modules s') k = Some m' \<and> mo_path m' = mo_path m \<and> mo_module m' = mo_module m
      \<and> mo_content m' = mo_content m"
    using module_known_iff [OF view' ids, of "mo_content m"] module_known_iff [OF view ids, of "mo_content m"]
      k R by auto
  then obtain k' m' where m': "map_of (fs_modules s') k' = Some m'" "mo_path m' = mo_path m"
    "mo_module m' = mo_module m" "mo_content m' = mo_content m" by blast
  then have "module_view (since_import es @ [e]) k' m'" using view' R by (simp add: loop_view_def inv_defs)
  with v m' have "(mo_status m = Completed \<longrightarrow> mo_status m' = Completed)
      \<and> set (mo_evidence m) \<subseteq> set (mo_evidence m')"
    by (auto simp: module_view_def)
  then show ?thesis using m' by blast
qed

lemma attempt_grows:
  assumes view: "loop_view es s" and view': "loop_view (es @ [e]) s'"
    and imp: "\<not> is_import (e_payload e)" and k: "map_of (fs_attempts s) k = Some a"
  shows "\<exists>a'. map_of (fs_attempts s') k = Some a' \<and> aj_id a' = aj_id a
      \<and> aj_answers a' = aj_answers a \<and> aj_original_score a' = aj_original_score a
      \<and> aj_original_passed a' = aj_original_passed a
      \<and> (\<exists>cs. aj_corrections a' = aj_corrections a @ cs)"
proof -
  have R: "since_import (es @ [e]) = since_import es @ [e]" using imp by simp
  obtain a' where a': "map_of (fs_attempts s') k = Some a'"
    using attempt_recorded_iff [OF view, of k] attempt_recorded_iff [OF view', of k] k R by auto
  have "attempt_view (since_import es @ [e]) k a'" using attempt_facts(1) [OF view' a'] R by simp
  moreover have "attempt_view (since_import es) k a" by (rule attempt_facts(1) [OF view k])
  ultimately show ?thesis
    using a' by (auto simp: attempt_view_def find_snoc event_attempt_def)
qed

text \<open>
  Appending an event (other than an import) to an accepted stream never takes anything back:
  every module state is still there, a completed module stays completed and keeps all its
  evidence, every attempt is still there with its answers and original result, and with at
  least the corrections it had.
\<close>

theorem projection_grows:
  assumes P: "project_learning_events rt es i l = Inr P"
    and P': "project_learning_events rt (es @ [e]) i l = Inr P'"
    and sorted: "sorted_wrt (<) (map e_sequence (es @ [e]))" and imp: "\<not> is_import (e_payload e)"
  shows "(\<forall>m \<in> set (pj_modules P). \<exists>m' \<in> set (pj_modules P'). mo_path m' = mo_path m
      \<and> mo_module m' = mo_module m \<and> mo_content m' = mo_content m
      \<and> (mo_status m = Completed \<longrightarrow> mo_status m' = Completed)
      \<and> set (mo_evidence m) \<subseteq> set (mo_evidence m'))
    \<and> (\<forall>a \<in> set (pj_attempts P). \<exists>a' \<in> set (pj_attempts P'). aj_id a' = aj_id a
      \<and> aj_answers a' = aj_answers a \<and> aj_original_score a' = aj_original_score a
      \<and> aj_original_passed a' = aj_original_passed a
      \<and> (\<exists>cs. aj_corrections a' = aj_corrections a @ cs))"
proof -
  have sorted': "sorted_wrt (<) (map e_sequence es)" using sorted by (simp add: sorted_wrt_append)
  obtain s where s: "loop_view es s" "P = finish_projection rt i l (length es) s"
    using projection_view [OF P] in_order_sorted [OF sorted'] by metis
  obtain s' where s': "loop_view (es @ [e]) s'" "P' = finish_projection rt i l (length (es @ [e])) s'"
    using projection_view [OF P'] in_order_sorted [OF sorted] by metis
  show ?thesis
    unfolding Ball_def Bex_def projection_lists(2,3) [OF s] projection_lists(2,3) [OF s']
    using module_grows [OF s(1) s'(1) imp] attempt_grows [OF s(1) s'(1) imp] by blast
qed

section \<open>Witnesses\<close>

theorem projection_transcript_witness:
  "\<exists>P. project_learning_events sample_runtime sample_stream ''school-1'' ''learner-1'' = Inr P
    \<and> length (pj_transcript P) = length (pj_enrollments P)"
  using projection_transcript list_all2_lengthD sample_projects by metis

lemma sample_stream_split: "sample_stream = [sample_event 1 import_payload_1] @ tl sample_stream"
  "sample_stream = butlast sample_stream @ [sample_event 7 (complete_payload ''module-b'')]"
  by (simp_all add: sample_stream_def)

theorem projection_grows_witness:
  "\<exists>P P'. project_learning_events sample_runtime (butlast sample_stream) ''school-1'' ''learner-1'' = Inr P
    \<and> project_learning_events sample_runtime sample_stream ''school-1'' ''learner-1'' = Inr P'
    \<and> (\<forall>a \<in> set (pj_attempts P). \<exists>a' \<in> set (pj_attempts P'). aj_id a' = aj_id a)"
proof -
  let ?e = "sample_event 7 (complete_payload ''module-b'')"
  have split: "sample_stream = butlast sample_stream @ [?e]" by (rule sample_stream_split(2))
  have sorted: "sorted_wrt (<) (map e_sequence (butlast sample_stream @ [?e]))"
    unfolding split [symmetric] by simp
  obtain P' where P': "project_learning_events sample_runtime (butlast sample_stream @ [?e])
      ''school-1'' ''learner-1'' = Inr P'"
    using sample_projects unfolding split [symmetric] by blast
  have "stream_ok sample_runtime ''school-1'' ''learner-1'' (butlast sample_stream)"
    using sample_admissible stream_ok_snoc split by metis
  moreover have "in_order sample_runtime (butlast sample_stream) = butlast sample_stream"
    using sorted by (intro in_order_sorted) (simp add: sorted_wrt_append)
  ultimately obtain P where P: "project_learning_events sample_runtime (butlast sample_stream)
      ''school-1'' ''learner-1'' = Inr P"
    using run_loop_accepts [of sample_runtime "''school-1''" "''learner-1''" "butlast sample_stream"]
    by (auto simp: project_learning_events_def)
  have "\<not> is_import (e_payload ?e)" by (simp add: complete_payload_def)
  from projection_grows [OF P P' sorted this] show ?thesis
    using P P' unfolding split [symmetric] by blast
qed

theorem projection_import_resets_witness:
  "\<exists>P. project_learning_events sample_runtime
      ([sample_event 1 enroll_payload] @ sample_event 2 import_payload_1 # [sample_event 3 enroll_payload])
      ''school-1'' ''learner-1'' = Inr P
    \<and> project_learning_events sample_runtime (sample_event 2 import_payload_1 # [sample_event 3 enroll_payload])
      ''school-1'' ''learner-1'' = Inr (P\<lparr>pj_revision := 2\<rparr>)"
proof -
  let ?e = "sample_event 2 import_payload_1" and ?ys = "[sample_event 3 enroll_payload]"
  let ?es = "[sample_event 1 enroll_payload] @ ?e # ?ys"
  have imp: "is_import (e_payload ?e)" by (simp add: import_payload_1_def)
  have sorted: "sorted_wrt (<) (map e_sequence ?es)" by simp
  have wf: "\<forall>e \<in> set ?es. wf_event e" by (simp add: sample_event_wf del: One_nat_def)
  have ok: "stream_ok sample_runtime ''school-1'' ''learner-1'' ?es"
    using sorted wf
    by (simp add: stream_ok_def All_less_Suc admissible_def since_import_def same_enrollment_def
        enroll_payload_def import_payload_1_def del: One_nat_def) 
  have "\<exists>P. project_learning_events sample_runtime ?es ''school-1'' ''learner-1'' = Inr P"
    using ok run_loop_accepts [of sample_runtime "''school-1''" "''learner-1''" ?es]
    unfolding project_learning_events_def in_order_sorted [OF sorted]
    by (auto simp: bind_result_eq_Inr simp del: fold_result.simps)
  then obtain P where "project_learning_events sample_runtime ?es ''school-1'' ''learner-1'' = Inr P"
    by blast
  with projection_import_resets [OF this sorted imp] show ?thesis by (auto simp: numeral_2_eq_2)
qed

end
