(* ===== verification/Learning_Store.thy ===== *)
theory Learning_Store
  imports Projection_Laws
begin

text \<open>
  The event store of \<open>src/learning-event-engine.ts\<close>: the interface \<open>LearningEventStore\<close> as a
  record of operations with its contract as a locale, and \<open>InMemoryLearningEventStore\<close> as a map
  from scope keys to event lists, which is shown to meet the contract.
\<close>

section \<open>The interface\<close>

record append_result =
  ar_event :: learning_event
  ar_replayed :: bool

text \<open>
  An operation returns its result and the next state of the store, so that a throw shows what it
  leaves behind.
\<close>

record 's store_ops =
  st_append :: "learning_candidate \<Rightarrow> nat \<Rightarrow> 's \<Rightarrow> (engine_error, append_result) result \<times> 's"
  st_list :: "string \<Rightarrow> string \<Rightarrow> 's \<Rightarrow> learning_event list"
  st_delete :: "string \<Rightarrow> string \<Rightarrow> 's \<Rightarrow> nat \<times> 's"

text \<open>\<open>events.length === 0 ? 1 : Math.max(...sequences) + 1\<close>.\<close>

definition next_sequence :: "learning_event list \<Rightarrow> int" where
  "next_sequence es = (case map e_sequence es of [] \<Rightarrow> 1 | x # xs \<Rightarrow> foldl max x xs + 1)"

section \<open>The in-memory store\<close>

type_synonym memory = "string \<rightharpoonup> learning_event list"

definition scope_key :: "string \<Rightarrow> string \<Rightarrow> string" where
  "scope_key installation learner = installation @ nul # learner"

definition stored :: "memory \<Rightarrow> string \<Rightarrow> learning_event list" where
  "stored st key = (case st key of None \<Rightarrow> [] | Some es \<Rightarrow> es)"

text \<open>The candidate records an attempt, or a correction, that the stream already has.\<close>

definition duplicate_attempt :: "learning_candidate \<Rightarrow> learning_event list \<Rightarrow> bool" where
  "duplicate_attempt c es \<longleftrightarrow> (case e_payload c of
     AssessmentRecord p \<Rightarrow> list_ex (\<lambda>e. case e_payload e of
       AssessmentRecord q \<Rightarrow> ap_attempt q = ap_attempt p | _ \<Rightarrow> False) es
   | _ \<Rightarrow> False)"

definition duplicate_correction :: "learning_candidate \<Rightarrow> learning_event list \<Rightarrow> bool" where
  "duplicate_correction c es \<longleftrightarrow> (case e_payload c of
     AssessmentCorrect p \<Rightarrow> list_ex (\<lambda>e. case e_payload e of
       AssessmentCorrect q \<Rightarrow> xp_correction q = xp_correction p | _ \<Rightarrow> False) es
   | _ \<Rightarrow> False)"

definition memory_append :: "runtime \<Rightarrow> learning_candidate \<Rightarrow> nat \<Rightarrow> memory
    \<Rightarrow> (engine_error, append_result) result \<times> memory" where
  "memory_append rt c expected st =
     (let key = scope_key (e_installation c) (e_learner c);
          events = stored st key
      in case find (\<lambda>e. e_key e = e_key c) events of
           Some existing \<Rightarrow>
             if e_digest existing \<noteq> e_digest c
             then (Inl (EngineError IdempotencyConflict
               ''The idempotency key is already bound to another learning command.''), st)
             else (Inr \<lparr>ar_event = existing, ar_replayed = True\<rparr>, st)
         | None \<Rightarrow>
             if length events \<noteq> expected
             then (Inl (EngineError ConcurrencyConflict
               ''The learner event stream changed before the command could append.''), st)
             else if duplicate_attempt c events
             then (Inl (EngineError DuplicateAttemptId
               ''Assessment attempt IDs are immutable and unique per learner.''), st)
             else if duplicate_correction c events
             then (Inl (EngineError DuplicateCorrectionId
               ''Assessment correction IDs are immutable and unique per learner.''), st)
             else
               let event = with_sequence c (next_sequence events)
               in (case reject_invalid InvalidEvent (validate_learning_event rt (event_json event)) of
                    Inl x \<Rightarrow> (Inl x, st)
                  | Inr _ \<Rightarrow> (Inr \<lparr>ar_event = event, ar_replayed = False\<rparr>,
                      st(key \<mapsto> events @ [event]))))"

definition memory_list :: "string \<Rightarrow> string \<Rightarrow> memory \<Rightarrow> learning_event list" where
  "memory_list installation learner st =
     js_sort (\<lambda>a b. e_sequence a - e_sequence b) (stored st (scope_key installation learner))"

definition memory_delete :: "string \<Rightarrow> string \<Rightarrow> memory \<Rightarrow> nat \<times> memory" where
  "memory_delete installation learner st =
     (let key = scope_key installation learner
      in (length (stored st key), st(key := None)))"

definition memory_ops :: "runtime \<Rightarrow> memory store_ops" where
  "memory_ops rt = \<lparr>st_append = memory_append rt, st_list = memory_list, st_delete = memory_delete\<rparr>"

section \<open>The contract\<close>

text \<open>
  What the engine relies on. \<open>inv\<close> is the store's own invariant. The laws are about one scope
  (installation and learner); a scope whose installation has no NUL character cannot be confused
  with another one.
\<close>

locale event_store =
  fixes ops :: "'s store_ops" and inv :: "'s \<Rightarrow> bool"
  assumes append_error: "inv s \<Longrightarrow> st_append ops c n s = (Inl x, s') \<Longrightarrow> s' = s"
    and append_known: "inv s \<Longrightarrow> nul \<notin> set (e_installation c) \<Longrightarrow>
      e \<in> set (st_list ops (e_installation c) (e_learner c) s) \<Longrightarrow> e_key e = e_key c \<Longrightarrow>
      st_append ops c n s = (if e_digest e = e_digest c then Inr \<lparr>ar_event = e, ar_replayed = True\<rparr>
        else Inl (EngineError IdempotencyConflict
          ''The idempotency key is already bound to another learning command.''), s)"
    and append_conflict: "inv s \<Longrightarrow>
      e_key c \<notin> e_key ` set (st_list ops (e_installation c) (e_learner c) s) \<Longrightarrow>
      n \<noteq> length (st_list ops (e_installation c) (e_learner c) s) \<Longrightarrow>
      st_append ops c n s = (Inl (EngineError ConcurrencyConflict
        ''The learner event stream changed before the command could append.''), s)"
    and append_conflict_only: "inv s \<Longrightarrow>
      st_append ops c n s = (Inl (EngineError ConcurrencyConflict msg), s') \<Longrightarrow>
      n \<noteq> length (st_list ops (e_installation c) (e_learner c) s)"
    and append_accepts: "inv s \<Longrightarrow> es = st_list ops (e_installation c) (e_learner c) s \<Longrightarrow>
      e_key c \<notin> e_key ` set es \<Longrightarrow> n = length es \<Longrightarrow> \<not> duplicate_attempt c es \<Longrightarrow>
      \<not> duplicate_correction c es \<Longrightarrow> wf_event (with_sequence c (next_sequence es)) \<Longrightarrow>
      \<exists>s'. st_append ops c n s
        = (Inr \<lparr>ar_event = with_sequence c (next_sequence es), ar_replayed = False\<rparr>, s')"
    and append_new: "inv s \<Longrightarrow> es = st_list ops (e_installation c) (e_learner c) s \<Longrightarrow>
      st_append ops c n s = (Inr r, s') \<Longrightarrow> \<not> ar_replayed r \<Longrightarrow>
      inv s' \<and> n = length es \<and> e_key c \<notin> e_key ` set es
      \<and> ar_event r = with_sequence c (next_sequence es) \<and> wf_event (ar_event r)
      \<and> st_list ops (e_installation c) (e_learner c) s' = es @ [ar_event r]"
    and append_unique: "inv s \<Longrightarrow> es = st_list ops (e_installation c) (e_learner c) s \<Longrightarrow>
      st_append ops c n s = (Inr r, s') \<Longrightarrow> \<not> ar_replayed r \<Longrightarrow>
      \<not> duplicate_attempt c es \<and> \<not> duplicate_correction c es"
    and append_replay: "inv s \<Longrightarrow> st_append ops c n s = (Inr r, s') \<Longrightarrow> ar_replayed r \<Longrightarrow>
      s' = s \<and> ar_event r \<in> set (st_list ops (e_installation c) (e_learner c) s)
      \<and> e_key (ar_event r) = e_key c \<and> e_digest (ar_event r) = e_digest c"
    and append_frame: "inv s \<Longrightarrow> st_append ops c n s = (res, s') \<Longrightarrow> nul \<notin> set i \<Longrightarrow>
      nul \<notin> set (e_installation c) \<Longrightarrow> (i, l) \<noteq> (e_installation c, e_learner c) \<Longrightarrow>
      st_list ops i l s' = st_list ops i l s"
    and list_sorted: "inv s \<Longrightarrow> sorted_wrt (<) (map e_sequence (st_list ops i l s))"
    and list_keys: "inv s \<Longrightarrow> distinct (map e_key (st_list ops i l s))"
    and list_scope: "inv s \<Longrightarrow> nul \<notin> set i \<Longrightarrow> e \<in> set (st_list ops i l s) \<Longrightarrow>
      wf_event e \<and> e_installation e = i \<and> e_learner e = l"
    and delete_inv: "inv s \<Longrightarrow> st_delete ops i l s = (k, s') \<Longrightarrow> inv s' \<and> k = length (st_list ops i l s)
      \<and> st_list ops i l s' = []"
    and delete_frame: "inv s \<Longrightarrow> st_delete ops i l s = (k, s') \<Longrightarrow> nul \<notin> set i \<Longrightarrow> nul \<notin> set j \<Longrightarrow>
      (j, m) \<noteq> (i, l) \<Longrightarrow> st_list ops j m s' = st_list ops j m s"

section \<open>The in-memory store meets the contract\<close>

text \<open>
  Each stream is numbered 1, 2, 3, ..., holds well-formed events of its own scope, and has no
  idempotency key, attempt ID or correction ID twice.
\<close>

fun recorded_id :: "learning_payload \<Rightarrow> string list" where
  "recorded_id (AssessmentRecord p) = [ap_attempt p]"
| "recorded_id _ = []"

fun corrected_id :: "learning_payload \<Rightarrow> string list" where
  "corrected_id (AssessmentCorrect p) = [xp_correction p]"
| "corrected_id _ = []"

definition stream_inv :: "string \<Rightarrow> learning_event list \<Rightarrow> bool" where
  "stream_inv key es \<longleftrightarrow> map e_sequence es = map int [1 ..< Suc (length es)]
     \<and> distinct (map e_key es)
     \<and> distinct (concat (map (recorded_id \<circ> e_payload) es))
     \<and> distinct (concat (map (corrected_id \<circ> e_payload) es))
     \<and> (\<forall>e \<in> set es. wf_event e \<and> scope_key (e_installation e) (e_learner e) = key)"

definition memory_inv :: "memory \<Rightarrow> bool" where
  "memory_inv st \<longleftrightarrow> (\<forall>key. stream_inv key (stored st key))"

lemma memory_inv_empty: "memory_inv (\<lambda>_. None)"
  by (simp add: memory_inv_def stored_def stream_inv_def)

lemma stored_update [simp]:
  "stored (st(k \<mapsto> es)) key = (if key = k then es else stored st key)"
  "stored (st(k := None)) key = (if key = k then [] else stored st key)"
  by (simp_all add: stored_def)

lemma scope_key_inj: "nul \<notin> set i \<Longrightarrow> nul \<notin> set j \<Longrightarrow> scope_key i l = scope_key j m \<longleftrightarrow> i = j \<and> l = m"
  by (simp add: scope_key_def append_nul_inj)

lemma recorded_id_iff: "k \<in> set (recorded_id p) \<longleftrightarrow> (\<exists>q. p = AssessmentRecord q \<and> ap_attempt q = k)"
  by (cases p) auto

lemma corrected_id_iff: "k \<in> set (corrected_id p) \<longleftrightarrow> (\<exists>q. p = AssessmentCorrect q \<and> xp_correction q = k)"
  by (cases p) auto

lemma duplicate_attempt_iff: "duplicate_attempt c es \<longleftrightarrow>
    set (recorded_id (e_payload c)) \<inter> set (concat (map (recorded_id \<circ> e_payload) es)) \<noteq> {}"
proof -
  have "(case q of AssessmentRecord q \<Rightarrow> ap_attempt q = k | _ \<Rightarrow> False) \<longleftrightarrow> k \<in> set (recorded_id q)" for q k
    by (cases q) auto
  then show ?thesis by (cases "e_payload c") (auto simp: duplicate_attempt_def list_ex_iff)
qed

lemma duplicate_correction_iff: "duplicate_correction c es \<longleftrightarrow>
    set (corrected_id (e_payload c)) \<inter> set (concat (map (corrected_id \<circ> e_payload) es)) \<noteq> {}"
proof -
  have "(case q of AssessmentCorrect q \<Rightarrow> xp_correction q = k | _ \<Rightarrow> False) \<longleftrightarrow> k \<in> set (corrected_id q)" for q k
    by (cases q) auto
  then show ?thesis by (cases "e_payload c") (auto simp: duplicate_correction_def list_ex_iff)
qed

lemma stream_sorted: "stream_inv key es \<Longrightarrow> sorted_wrt (<) (map e_sequence es)"
  by (simp add: stream_inv_def sorted_wrt_map [of _ int] del: upt_Suc)

lemma find_distinct_key: "distinct (map f xs) \<Longrightarrow> e \<in> set xs \<Longrightarrow> find (\<lambda>x. f x = f e) xs = Some e"
  by (induction xs) (auto simp: rev_image_eqI)

lemma accept_event:
  "wf_event e \<Longrightarrow> reject_invalid code (validate_learning_event rt (event_json e)) = Inr ()"
  by simp

lemma find_key_None: "find (\<lambda>e. e_key e = k) es = None \<longleftrightarrow> k \<notin> e_key ` set es"
  by (auto simp: find_None_iff)

lemma memory_list_stored:
  assumes "memory_inv st"
  shows "memory_list i l st = stored st (scope_key i l)"
proof -
  have "stream_inv (scope_key i l) (stored st (scope_key i l))" using assms by (simp add: memory_inv_def)
  then have "sorted_wrt (\<lambda>a b. e_sequence a < e_sequence b) (stored st (scope_key i l))"
    using stream_sorted by (simp add: sorted_wrt_map)
  then have "sorted_wrt (\<lambda>a b. e_sequence a - e_sequence b \<le> 0) (stored st (scope_key i l))"
    by (rule sorted_wrt_mono_rel [rotated]) simp
  then show ?thesis unfolding memory_list_def by (rule js_sort_id)
qed

lemma foldl_max_sorted: "sorted_wrt (<) (x # xs) \<Longrightarrow> foldl max x xs = last (x # xs)" for x :: int
proof (induction xs arbitrary: x)
  case (Cons a xs)
  then show ?case by (simp add: max_def)
qed simp

lemma next_sequence_stream:
  assumes "stream_inv key es"
  shows "next_sequence es = int (Suc (length es))"
proof (cases es rule: rev_cases)
  case Nil
  then show ?thesis by (simp add: next_sequence_def)
next
  case (snoc ys y)
  have m: "map e_sequence es = map int [1 ..< Suc (length es)]" using assms by (simp add: stream_inv_def)
  then have "last (map e_sequence es) = int (length es)" using snoc by simp
  moreover have "sorted_wrt (<) (map e_sequence es)" by (rule stream_sorted [OF assms])
  moreover obtain x xs where "map e_sequence es = x # xs" using snoc by (cases "map e_sequence es") auto
  ultimately show ?thesis using foldl_max_sorted [of x xs] by (simp add: next_sequence_def)
qed

lemma stream_inv_append:
  assumes "stream_inv key es" and "e_key c \<notin> e_key ` set es" and "\<not> duplicate_attempt c es"
    and "\<not> duplicate_correction c es" and "wf_event (with_sequence c (next_sequence es))"
    and "scope_key (e_installation c) (e_learner c) = key"
  shows "stream_inv key (es @ [with_sequence c (next_sequence es)])"
proof -
  have "distinct (recorded_id p)" "distinct (corrected_id p)" for p by (cases p; simp)+
  then show ?thesis
    using assms next_sequence_stream [OF assms(1)]
    by (auto simp: stream_inv_def duplicate_attempt_iff duplicate_correction_iff)
qed

lemma memory_append_cases:
  assumes "memory_inv st" and es: "es = memory_list (e_installation c) (e_learner c) st"
  shows "memory_append rt c n st =
    (case find (\<lambda>e. e_key e = e_key c) es of
       Some e \<Rightarrow> if e_digest e = e_digest c then (Inr \<lparr>ar_event = e, ar_replayed = True\<rparr>, st)
         else (Inl (EngineError IdempotencyConflict
           ''The idempotency key is already bound to another learning command.''), st)
     | None \<Rightarrow> if length es \<noteq> n then (Inl (EngineError ConcurrencyConflict
           ''The learner event stream changed before the command could append.''), st)
         else if duplicate_attempt c es then (Inl (EngineError DuplicateAttemptId
           ''Assessment attempt IDs are immutable and unique per learner.''), st)
         else if duplicate_correction c es then (Inl (EngineError DuplicateCorrectionId
           ''Assessment correction IDs are immutable and unique per learner.''), st)
         else (case reject_invalid InvalidEvent (validate_learning_event rt
             (event_json (with_sequence c (next_sequence es)))) of
           Inl x \<Rightarrow> (Inl x, st)
         | Inr _ \<Rightarrow> (Inr \<lparr>ar_event = with_sequence c (next_sequence es), ar_replayed = False\<rparr>,
             st(scope_key (e_installation c) (e_learner c) \<mapsto> es @ [with_sequence c (next_sequence es)]))))"
proof (cases "find (\<lambda>e. e_key e = e_key c) es")
  case None
  then show ?thesis
    unfolding es memory_list_stored [OF assms(1)] memory_append_def Let_def by simp
next
  case (Some e)
  then show ?thesis
    unfolding es memory_list_stored [OF assms(1)] memory_append_def Let_def by simp
qed


text \<open>The two results that change the state or the answer, by cases of the append.\<close>

lemma memory_append_new:
  assumes inv: "memory_inv st" and es: "es = memory_list (e_installation c) (e_learner c) st"
    and ok: "memory_append rt c n st = (Inr r, st')" and new: "\<not> ar_replayed r"
  shows "n = length es" "e_key c \<notin> e_key ` set es"
    "ar_event r = with_sequence c (next_sequence es)" "wf_event (ar_event r)"
    "st' = st(scope_key (e_installation c) (e_learner c) \<mapsto> es @ [ar_event r])"
    "\<not> duplicate_attempt c es" "\<not> duplicate_correction c es"
proof -
  have "find (\<lambda>e. e_key e = e_key c) es = None"
    using ok new unfolding memory_append_cases [OF inv es] by (auto split: option.splits if_splits)
  moreover obtain "n = length es" "ar_event r = with_sequence c (next_sequence es)"
    "wf_event (ar_event r)" "\<not> duplicate_attempt c es" "\<not> duplicate_correction c es"
    "st' = st(scope_key (e_installation c) (e_learner c) \<mapsto> es @ [ar_event r])"
  proof (cases "reject_invalid InvalidEvent (validate_learning_event rt
      (event_json (with_sequence c (next_sequence es))))")
    case (Inl x)
    then show ?thesis using ok that calculation unfolding memory_append_cases [OF inv es]
      by (simp split: if_splits)
  next
    case (Inr u)
    then have "wf_event (with_sequence c (next_sequence es))" using reject_event_ok [of InvalidEvent rt] by simp
    then show ?thesis using ok that calculation unfolding memory_append_cases [OF inv es] Inr sum.case
      by (auto split: if_splits)
  qed
  ultimately show "n = length es" "e_key c \<notin> e_key ` set es"
    "ar_event r = with_sequence c (next_sequence es)" "wf_event (ar_event r)"
    "st' = st(scope_key (e_installation c) (e_learner c) \<mapsto> es @ [ar_event r])"
    "\<not> duplicate_attempt c es" "\<not> duplicate_correction c es"
    by (simp_all add: find_key_None)
qed

lemma reject_invalid_code: "reject_invalid code v = Inl (EngineError code' m) \<Longrightarrow> code' = code"
  by (auto simp: reject_invalid_def split: sum.splits list.splits)

lemma memory_append_conflict_only:
  assumes inv: "memory_inv st" and es: "es = memory_list (e_installation c) (e_learner c) st"
    and ap: "memory_append rt c n st = (Inl (EngineError ConcurrencyConflict msg), st')"
  shows "n \<noteq> length es"
proof
  assume n: "n = length es"
  have "reject_invalid InvalidEvent (validate_learning_event rt (event_json
      (with_sequence c (next_sequence es)))) \<noteq> Inl (EngineError ConcurrencyConflict msg)"
    by (auto dest: reject_invalid_code)
  then show False
    using ap n unfolding memory_append_cases [OF inv es]
    by (auto split: option.splits if_splits sum.splits)
qed

lemma memory_append_error: "memory_append rt c n st = (Inl x, st') \<Longrightarrow> st' = st"
  by (auto simp: memory_append_def Let_def split: option.splits if_splits sum.splits)

lemma memory_append_replay:
  assumes "memory_append rt c n st = (Inr r, st')" and "ar_replayed r"
  shows "st' = st" "ar_event r \<in> set (memory_list (e_installation c) (e_learner c) st)"
    "e_key (ar_event r) = e_key c" "e_digest (ar_event r) = e_digest c"
proof -
  let ?es = "stored st (scope_key (e_installation c) (e_learner c))"
  obtain e where e: "find (\<lambda>e. e_key e = e_key c) ?es = Some e" "e_digest e = e_digest c"
    "ar_event r = e" "st' = st"
    using assms by (auto simp: memory_append_def Let_def split: option.splits if_splits sum.splits)
  then have "e \<in> set ?es" "e_key e = e_key c" by (auto simp: find_Some_iff)
  then show "st' = st" "ar_event r \<in> set (memory_list (e_installation c) (e_learner c) st)"
    "e_key (ar_event r) = e_key c" "e_digest (ar_event r) = e_digest c"
    using e by (simp_all add: memory_list_def)
qed

lemma memory_append_inv:
  assumes inv: "memory_inv st" and ok: "memory_append rt c n st = (res, st')"
  shows "memory_inv st'"
proof (cases "\<exists>r. res = Inr r \<and> \<not> ar_replayed r")
  case False
  then have "st' = st"
    using ok by (cases res) (auto dest: memory_append_error memory_append_replay(1))
  then show ?thesis using inv by simp
next
  case True
  then obtain r where r: "memory_append rt c n st = (Inr r, st')" "\<not> ar_replayed r" using ok by blast
  note new = memory_append_new [OF inv refl r]
  have "stream_inv (scope_key (e_installation c) (e_learner c)) (memory_list (e_installation c) (e_learner c) st)"
    using inv memory_list_stored [OF inv] by (simp add: memory_inv_def)
  from stream_inv_append [OF this new(2,6,7) _ refl] new(3-5) inv show ?thesis
    by (simp add: memory_inv_def)
qed

interpretation memory: event_store "memory_ops rt" memory_inv
proof
  fix s s' :: memory and c n x i l j m k r es e res
  assume inv: "memory_inv s"
  have wf: "stream_inv key (stored s key)" for key using inv by (simp add: memory_inv_def)
  note cases = memory_append_cases [OF inv refl]
  show "st_append (memory_ops rt) c n s = (Inl x, s') \<Longrightarrow> s' = s"
    by (simp add: memory_ops_def memory_append_error)
  show "sorted_wrt (<) (map e_sequence (st_list (memory_ops rt) i l s))"
    using stream_sorted [OF wf] by (simp add: memory_ops_def memory_list_stored [OF inv])
  show "distinct (map e_key (st_list (memory_ops rt) i l s))"
    using wf by (simp add: memory_ops_def memory_list_stored [OF inv] stream_inv_def)
  show "wf_event e \<and> e_installation e = i \<and> e_learner e = l"
    if "nul \<notin> set i" "e \<in> set (st_list (memory_ops rt) i l s)"
  proof -
    have "wf_event e" "scope_key (e_installation e) (e_learner e) = scope_key i l"
      using that wf [of "scope_key i l"]
      by (simp_all add: memory_ops_def memory_list_stored [OF inv] stream_inv_def)
    then show ?thesis using that by (simp add: scope_key_inj wf_event_def stable_id_not_nul)
  qed
  show "memory_inv s' \<and> k = length (st_list (memory_ops rt) i l s) \<and> st_list (memory_ops rt) i l s' = []"
    if "st_delete (memory_ops rt) i l s = (k, s')"
  proof -
    have "stream_inv key []" for key by (simp add: stream_inv_def)
    then have "memory_inv (s(scope_key i l := None))" using inv by (simp add: memory_inv_def)
    then show ?thesis
      using that by (auto simp: memory_ops_def memory_delete_def Let_def memory_list_stored inv)
  qed
  show "st_list (memory_ops rt) j m s' = st_list (memory_ops rt) j m s"
    if "st_delete (memory_ops rt) i l s = (k, s')" "nul \<notin> set i" "nul \<notin> set j" "(j, m) \<noteq> (i, l)"
    using that by (auto simp: memory_ops_def memory_delete_def Let_def memory_list_def scope_key_inj)
  show "st_append (memory_ops rt) c n s = (if e_digest e = e_digest c
      then Inr \<lparr>ar_event = e, ar_replayed = True\<rparr>
      else Inl (EngineError IdempotencyConflict
          ''The idempotency key is already bound to another learning command.''), s)"
    if "e \<in> set (st_list (memory_ops rt) (e_installation c) (e_learner c) s)" "e_key e = e_key c"
  proof -
    have "distinct (map e_key (memory_list (e_installation c) (e_learner c) s))"
      using wf by (simp add: memory_list_stored [OF inv] stream_inv_def)
    then have "find (\<lambda>e. e_key e = e_key c) (memory_list (e_installation c) (e_learner c) s) = Some e"
      using that find_distinct_key [of e_key "memory_list (e_installation c) (e_learner c) s" e]
      by (simp add: memory_ops_def)
    then show ?thesis by (simp add: memory_ops_def cases)
  qed
  show "st_append (memory_ops rt) c n s = (Inl (EngineError ConcurrencyConflict
        ''The learner event stream changed before the command could append.''), s)"
    if "e_key c \<notin> e_key ` set (st_list (memory_ops rt) (e_installation c) (e_learner c) s)"
      "n \<noteq> length (st_list (memory_ops rt) (e_installation c) (e_learner c) s)"
  proof -
    have "find (\<lambda>e. e_key e = e_key c) (memory_list (e_installation c) (e_learner c) s) = None"
      using that(1) by (simp add: memory_ops_def find_key_None)
    then show ?thesis using that(2) by (simp add: memory_ops_def cases)
  qed
  show "n \<noteq> length (st_list (memory_ops rt) (e_installation c) (e_learner c) s)"
    if "st_append (memory_ops rt) c n s = (Inl (EngineError ConcurrencyConflict msg), s')" for msg
    using that memory_append_conflict_only [OF inv refl] by (simp add: memory_ops_def)
  show "\<exists>s'. st_append (memory_ops rt) c n s
        = (Inr \<lparr>ar_event = with_sequence c (next_sequence es), ar_replayed = False\<rparr>, s')"
    if "es = st_list (memory_ops rt) (e_installation c) (e_learner c) s" "e_key c \<notin> e_key ` set es"
      "n = length es" "\<not> duplicate_attempt c es" "\<not> duplicate_correction c es"
      "wf_event (with_sequence c (next_sequence es))"
  proof -
    have "find (\<lambda>e. e_key e = e_key c) es = None" using that(2) by (simp add: find_key_None)
    then show ?thesis using that by (simp add: memory_ops_def cases accept_event)
  qed
  show "memory_inv s' \<and> n = length es \<and> e_key c \<notin> e_key ` set es
      \<and> ar_event r = with_sequence c (next_sequence es) \<and> wf_event (ar_event r)
      \<and> st_list (memory_ops rt) (e_installation c) (e_learner c) s' = es @ [ar_event r]"
    if "es = st_list (memory_ops rt) (e_installation c) (e_learner c) s"
      "st_append (memory_ops rt) c n s = (Inr r, s')" "\<not> ar_replayed r"
  proof -
    have ap: "memory_append rt c n s = (Inr r, s')" using that(2) by (simp add: memory_ops_def)
    have es: "es = memory_list (e_installation c) (e_learner c) s" using that(1) by (simp add: memory_ops_def)
    note new = memory_append_new [OF inv es ap that(3)]
    have inv': "memory_inv s'" by (rule memory_append_inv [OF inv ap])
    then show ?thesis using new by (simp add: memory_ops_def memory_list_stored)
  qed
  show "\<not> duplicate_attempt c es \<and> \<not> duplicate_correction c es"
    if "es = st_list (memory_ops rt) (e_installation c) (e_learner c) s"
      "st_append (memory_ops rt) c n s = (Inr r, s')" "\<not> ar_replayed r"
    using memory_append_new(6,7) [OF inv refl _ that(3), of rt c n s'] that(1,2)
    by (simp add: memory_ops_def)
  show "s' = s \<and> ar_event r \<in> set (st_list (memory_ops rt) (e_installation c) (e_learner c) s)
      \<and> e_key (ar_event r) = e_key c \<and> e_digest (ar_event r) = e_digest c"
    if "st_append (memory_ops rt) c n s = (Inr r, s')" "ar_replayed r"
    using memory_append_replay [of rt c n s r s'] that by (simp add: memory_ops_def)
  show "st_list (memory_ops rt) i l s' = st_list (memory_ops rt) i l s"
    if ap: "st_append (memory_ops rt) c n s = (res, s')" and i: "nul \<notin> set i"
      and c: "nul \<notin> set (e_installation c)" and ne: "(i, l) \<noteq> (e_installation c, e_learner c)"
  proof (cases "\<exists>r. res = Inr r \<and> \<not> ar_replayed r")
    case False
    then have "s' = s"
      using ap by (cases res) (auto simp: memory_ops_def dest: memory_append_error memory_append_replay(1))
    then show ?thesis by simp
  next
    case True
    then obtain r where r: "memory_append rt c n s = (Inr r, s')" "\<not> ar_replayed r"
      using ap by (auto simp: memory_ops_def)
    then show ?thesis
      using memory_append_new(5) [OF inv refl r] i c ne
      by (auto simp: memory_ops_def memory_list_def scope_key_inj)
  qed
qed

end
