(* ===== verification/Learning_Engine.thy ===== *)
theory Learning_Engine
  imports Learning_Store
begin

text \<open>
  \<open>LearningEventEngine\<close> of \<open>src/learning-event-engine.ts\<close> over any store that meets the contract:
  access control, the write path with its projection guard and retry loop, and the read, export
  and delete operations. What other writers do between two operations of the engine on the store
  is a parameter, so the theorems say what holds under interference.
\<close>

section \<open>Access\<close>

datatype permission = WriteSelf | WriteAny | ReadSelf | ReadAny | DeleteSelf | DeleteAny

record learning_access =
  ac_installation :: string
  ac_actor_type :: actor_kind
  ac_actor_user :: "string option"
  ac_permissions :: "permission list"

definition deny :: "string \<Rightarrow> (engine_error, unit) result" where
  "deny message = Inl (EngineError AccessDenied message)"

definition permitted :: "learning_access \<Rightarrow> string \<Rightarrow> permission \<Rightarrow> permission \<Rightarrow> bool" where
  "permitted a learner self_permission any_permission \<longleftrightarrow>
     (if ac_actor_user a = Some learner
      then self_permission \<in> set (ac_permissions a) \<or> any_permission \<in> set (ac_permissions a)
      else any_permission \<in> set (ac_permissions a))"

definition assert_can_write :: "learning_command \<Rightarrow> learning_access \<Rightarrow> (engine_error, unit) result" where
  "assert_can_write c a =
     (if ac_installation a \<noteq> c_installation c
      then deny ''The command crossed the authorized installation boundary.''
      else if actor_type (c_actor c) \<noteq> ac_actor_type a \<or> actor_user (c_actor c) \<noteq> ac_actor_user a
      then deny ''The command actor does not match the authenticated actor.''
      else if \<not> permitted a (c_learner c) WriteSelf WriteAny
      then deny ''The actor cannot write this learner record.''
      else Inr ())"

definition assert_can_read :: "string \<Rightarrow> string \<Rightarrow> learning_access \<Rightarrow> (engine_error, unit) result" where
  "assert_can_read installation learner a =
     (if ac_installation a \<noteq> installation
      then deny ''The read crossed the authorized installation boundary.''
      else if \<not> permitted a learner ReadSelf ReadAny
      then deny ''The actor cannot read this learner record.''
      else Inr ())"

definition assert_can_delete :: "string \<Rightarrow> string \<Rightarrow> learning_access \<Rightarrow> (engine_error, unit) result" where
  "assert_can_delete installation learner a =
     (if ac_installation a \<noteq> installation
      then deny ''The deletion crossed the authorized installation boundary.''
      else if \<not> permitted a learner DeleteSelf DeleteAny
      then deny ''The actor cannot delete this learner record.''
      else Inr ())"

section \<open>From a command to an event\<close>

definition learning_event_id :: "runtime \<Rightarrow> learning_command \<Rightarrow> string" where
  "learning_event_id rt c = ''learning-event-'' @ take 32 (sha256_hex rt
     (c_installation c @ nul # c_learner c @ nul # c_key c))"

definition command_to_event :: "learning_command \<Rightarrow> string \<Rightarrow> string \<Rightarrow> string \<Rightarrow> learning_candidate" where
  "command_to_event c event_id digest recorded =
     \<lparr>e_schema = V1_1, e_id = event_id, e_installation = c_installation c, e_learner = c_learner c,
      e_key = c_key c, e_content = c_content c, e_digest = digest, e_occurred = c_occurred c,
      e_recorded = recorded, e_actor = c_actor c, e_payload = c_payload c\<rparr>"

text \<open>\<open>!validTimestamp(recordedAt) || Date.parse(recordedAt) < Date.parse(command.occurredAt)\<close>.\<close>

definition clock_invalid :: "string \<Rightarrow> learning_command \<Rightarrow> bool" where
  "clock_invalid recorded c \<longleftrightarrow> \<not> parses_timestamp recorded \<or>
     (case (date_parse recorded, date_parse (c_occurred c)) of
        (Some r, Some t) \<Rightarrow> r < t | _ \<Rightarrow> False)"

section \<open>The write path\<close>

text \<open>
  \<open>appendWithProjectionGuard\<close>: list, project the stream with the candidate added, append if the
  stream still has the length that was listed, at most five times. The third argument says how
  the other writers change the store between the list and the append of an attempt; \<open>n\<close> counts
  the attempts that remain.
\<close>

fun append_with_projection_guard :: "runtime \<Rightarrow> 's store_ops \<Rightarrow> (nat \<Rightarrow> 's \<Rightarrow> 's) \<Rightarrow> learning_candidate
    \<Rightarrow> string \<Rightarrow> string \<Rightarrow> nat \<Rightarrow> 's \<Rightarrow> (engine_error, append_result) result \<times> 's" where
  "append_with_projection_guard rt ops env c i l 0 s =
     (Inl (EngineError ConcurrencyConflict
       ''The learner event stream changed repeatedly; retry the command.''), s)"
| "append_with_projection_guard rt ops env c i l (Suc n) s =
     (let current = st_list ops i l s
      in if list_ex (\<lambda>e. e_key e = e_key c) current
         then st_append ops c (length current) (env n s)
         else (case project_learning_events rt (current @ [with_sequence c (next_sequence current)]) i l of
             Inl x \<Rightarrow> (Inl x, s)
           | Inr _ \<Rightarrow> (case st_append ops c (length current) (env n s) of
               (Inl (EngineError ConcurrencyConflict _), s') \<Rightarrow>
                 append_with_projection_guard rt ops env c i l n s'
             | result \<Rightarrow> result)))"

record command_result =
  cr_event :: learning_event
  cr_replayed :: bool
  cr_projection :: learning_projection

text \<open>A check that may throw before the store is touched, and what follows it.\<close>

definition guarded :: "('e, 'a) result \<Rightarrow> 's \<Rightarrow> ('a \<Rightarrow> ('e, 'b) result \<times> 's) \<Rightarrow> ('e, 'b) result \<times> 's" where
  "guarded r s f = (case r of Inl x \<Rightarrow> (Inl x, s) | Inr a \<Rightarrow> f a)"

lemma guarded_simps [simp]: "guarded (Inl x) s f = (Inl x, s)" "guarded (Inr a) s f = f a"
  by (simp_all add: guarded_def)

text \<open>The digest cannot fail on a valid command; the code's throw is \<open>Crash\<close>.\<close>

definition command_digest :: "runtime \<Rightarrow> learning_command \<Rightarrow> (engine_error, string) result" where
  "command_digest rt c = (case digest_learning_command rt (command_json c) of
     Inl _ \<Rightarrow> Inl (Crash TypeError) | Inr d \<Rightarrow> Inr d)"

text \<open>
  \<open>execute\<close>. The clock's answer is \<open>now\<close>; \<open>env 5\<close> is what the other writers do between the append
  and the final list.
\<close>

definition execute :: "runtime \<Rightarrow> 's store_ops \<Rightarrow> (nat \<Rightarrow> 's \<Rightarrow> 's) \<Rightarrow> string \<Rightarrow> learning_command
    \<Rightarrow> learning_access \<Rightarrow> 's \<Rightarrow> (engine_error, command_result) result \<times> 's" where
  "execute rt ops env now c a s =
     guarded (reject_invalid InvalidCommand (validate_learning_command rt (command_json c))) s (\<lambda>_.
     guarded (assert_can_write c a) s (\<lambda>_.
     guarded (if clock_invalid now c then Inl (EngineError ClockInvalid
         ''The storage clock must be a valid UTC time at or after occurredAt.'') else Inr ()) s (\<lambda>_.
     guarded (command_digest rt c) s (\<lambda>digest.
     (case append_with_projection_guard rt ops env
         (command_to_event c (learning_event_id rt c) digest now)
         (c_installation c) (c_learner c) 5 s of
        (Inl x, s') \<Rightarrow> (Inl x, s')
      | (Inr r, s') \<Rightarrow>
          let s'' = env 5 s' in
          guarded (project_learning_events rt (st_list ops (c_installation c) (c_learner c) s'')
              (c_installation c) (c_learner c)) s''
            (\<lambda>P. (Inr \<lparr>cr_event = ar_event r, cr_replayed = ar_replayed r, cr_projection = P\<rparr>, s'')))))))"

section \<open>Reading and deleting\<close>

definition rebuild :: "runtime \<Rightarrow> 's store_ops \<Rightarrow> string \<Rightarrow> string \<Rightarrow> learning_access \<Rightarrow> 's
    \<Rightarrow> (engine_error, learning_projection) result" where
  "rebuild rt ops i l a s = bind_result (assert_can_read i l a)
     (\<lambda>_. project_learning_events rt (st_list ops i l s) i l)"

definition export_events :: "'s store_ops \<Rightarrow> string \<Rightarrow> string \<Rightarrow> learning_access \<Rightarrow> 's
    \<Rightarrow> (engine_error, learning_event list) result" where
  "export_events ops i l a s = bind_result (assert_can_read i l a) (\<lambda>_. Inr (st_list ops i l s))"

definition delete_events :: "'s store_ops \<Rightarrow> string \<Rightarrow> string \<Rightarrow> learning_access \<Rightarrow> 's
    \<Rightarrow> (engine_error, nat) result \<times> 's" where
  "delete_events ops i l a s = guarded (assert_can_delete i l a) s
     (\<lambda>_. case st_delete ops i l s of (n, s') \<Rightarrow> (Inr n, s'))"

section \<open>Facts about the parts\<close>

lemma reject_command_ok:
  "reject_invalid code (validate_learning_command rt (command_json c)) = Inr () \<longleftrightarrow> wf_command c"
  by (simp add: reject_invalid_ok validate_learning_command_ok)

definition may_write :: "learning_command \<Rightarrow> learning_access \<Rightarrow> bool" where
  "may_write c a \<longleftrightarrow> ac_installation a = c_installation c \<and> ac_actor_type a = actor_type (c_actor c)
     \<and> ac_actor_user a = actor_user (c_actor c)
     \<and> (WriteAny \<in> set (ac_permissions a)
        \<or> WriteSelf \<in> set (ac_permissions a) \<and> ac_actor_user a = Some (c_learner c))"

lemma assert_can_write_ok: "assert_can_write c a = Inr () \<longleftrightarrow> may_write c a"
  by (auto simp: assert_can_write_def deny_def permitted_def may_write_def)

lemma command_digest_ok:
  "wf_command c \<Longrightarrow> command_digest rt c = Inr (sha256_hex rt (stringify rt (sort_json rt (command_json c))))"
  by (simp add: command_digest_def digest_learning_command_def canonicalize_learning_command_def
      validate_learning_command_ok(1) [THEN iffD2])

text \<open>What is documented of SHA-256 in lowercase hexadecimal.\<close>

definition sha256_format :: "runtime \<Rightarrow> bool" where
  "sha256_format rt \<longleftrightarrow> (\<forall>text. digest_text (sha256_hex rt text))"

lemma hex_id_char: "hex_char ch \<Longrightarrow> id_char ch"
  by (auto simp: hex_char_def id_char_def alnum_char_def)

lemma learning_event_id_ok:
  assumes "sha256_format rt"
  shows "stable_id (learning_event_id rt c)"
proof -
  let ?h = "sha256_hex rt (c_installation c @ nul # c_learner c @ nul # c_key c)"
  have h: "length ?h = 64" "list_all hex_char ?h"
    using assms by (simp_all add: sha256_format_def digest_text_def)
  then have "list_all id_char (take 32 ?h)"
    by (auto simp: list_all_iff dest: in_set_takeD hex_id_char)
  moreover have "list_all id_char ''earning-event-''" "alnum_char CHR ''l''" by code_simp+
  ultimately show ?thesis using h(1) by (simp add: stable_id_def learning_event_id_def)
qed

lemma command_event_wf:
  assumes "sha256_format rt" "wf_command c" "valid_timestamp now" "\<not> clock_invalid now c" "1 \<le> n"
  shows "wf_event (with_sequence (command_to_event c (learning_event_id rt c) (sha256_hex rt text) now) n)"
proof -
  have parses: "\<exists>t. date_parse s = Some t" if "valid_timestamp s" for s
    using that by (auto simp: valid_timestamp_def split: option.splits)
  have "valid_timestamp (c_occurred c)" using assms(2) by (simp add: wf_command_def)
  then obtain r t where "date_parse now = Some r" "date_parse (c_occurred c) = Some t"
    using parses assms(3) by blast
  then have "the (date_parse (c_occurred c)) \<le> the (date_parse now)"
    using assms(4) by (simp add: clock_invalid_def)
  then show ?thesis
    using assms learning_event_id_ok [OF assms(1)]
    by (simp add: wf_event_def command_to_event_def wf_command_def sha256_format_def)
qed


text \<open>The checks before the store is touched.\<close>

lemma execute_rejects:
  assumes "\<not> (wf_command c \<and> may_write c a \<and> \<not> clock_invalid now c)"
  shows "\<exists>x. execute rt ops env now c a s = (Inl x, s)"
proof (cases "reject_invalid InvalidCommand (validate_learning_command rt (command_json c))")
  case (Inl x)
  then show ?thesis by (simp add: execute_def)
next
  case v: (Inr u)
  then have "wf_command c" using reject_command_ok [of InvalidCommand rt c] by simp
  show ?thesis
  proof (cases "assert_can_write c a")
    case (Inl x)
    then show ?thesis using v by (simp add: execute_def)
  next
    case (Inr w)
    then have "may_write c a" using assert_can_write_ok [of c a] by simp
    then show ?thesis using v Inr assms \<open>wf_command c\<close> by (simp add: execute_def)
  qed
qed

section \<open>What the engine promises over any store that meets the contract\<close>

text \<open>Every stream of the store is one that the projection accepts.\<close>

definition all_streams_ok :: "runtime \<Rightarrow> 's store_ops \<Rightarrow> 's \<Rightarrow> bool" where
  "all_streams_ok rt ops s \<longleftrightarrow> (\<forall>i l. nul \<notin> set i \<longrightarrow> stream_ok rt i l (st_list ops i l s))"

text \<open>Streams only got longer.\<close>

definition appended_only :: "'s store_ops \<Rightarrow> 's \<Rightarrow> 's \<Rightarrow> bool" where
  "appended_only ops s t \<longleftrightarrow>
     (\<forall>i l. nul \<notin> set i \<longrightarrow> (\<exists>ys. st_list ops i l t = st_list ops i l s @ ys))"

text \<open>
  Interference by writers that keep the store's invariant, append only, and append only what the
  projection accepts. Nothing is deleted meanwhile.
\<close>

definition polite :: "runtime \<Rightarrow> 's store_ops \<Rightarrow> ('s \<Rightarrow> bool) \<Rightarrow> (nat \<Rightarrow> 's \<Rightarrow> 's) \<Rightarrow> bool" where
  "polite rt ops invar env \<longleftrightarrow> (\<forall>k s. invar s \<and> all_streams_ok rt ops s \<longrightarrow>
     invar (env k s) \<and> all_streams_ok rt ops (env k s) \<and> appended_only ops s (env k s))"

lemma appended_only_refl [simp]: "appended_only ops s s"
  by (simp add: appended_only_def)

lemma appended_only_trans: "appended_only ops s t \<Longrightarrow> appended_only ops t u \<Longrightarrow> appended_only ops s u"
  unfolding appended_only_def by (metis append_assoc)

lemma appended_only_member:
  assumes "appended_only ops s t" "nul \<notin> set i" "e \<in> set (st_list ops i l s)"
  shows "e \<in> set (st_list ops i l t)"
proof -
  obtain ys where "st_list ops i l t = st_list ops i l s @ ys"
    using assms(1,2) by (auto simp: appended_only_def)
  then show ?thesis using assms(3) by simp
qed

lemma quiet_polite [simp]: "polite rt ops invar (\<lambda>_ s. s)"
  by (simp add: polite_def)

lemma accepted_stream:
  "sorted_wrt (<) (map e_sequence es) \<Longrightarrow>
   (\<exists>P. project_learning_events rt es i l = Inr P) \<longleftrightarrow> stream_ok rt i l es"
  using run_loop_accepts [of rt i l es] in_order_sorted [of es rt]
  by (auto simp: project_learning_events_def bind_result_eq_Inr)

lemma stream_ok_sorted: "stream_ok rt i l es \<Longrightarrow> sorted_wrt (<) (map e_sequence es)"
  by (simp add: stream_ok_def)

lemma foldl_max_ge: "\<forall>x \<in> set (a # as). x \<le> foldl max a as" for a :: int
proof (induction as arbitrary: a)
  case (Cons b bs)
  from Cons.IH [of "max a b"] show ?case by auto
qed simp

lemma next_sequence_greater:
  assumes "e \<in> set es"
  shows "e_sequence e < next_sequence es"
proof -
  obtain a as where as: "map e_sequence es = a # as" using assms by (cases es) auto
  have "e_sequence e \<in> set (a # as)" using assms unfolding as [symmetric] by simp
  then show ?thesis using foldl_max_ge [of a as] by (auto simp: next_sequence_def as)
qed

text \<open>The projection never reports a concurrency conflict.\<close>

lemma reject_invalid_no_conflict:
  "code \<noteq> ConcurrencyConflict \<Longrightarrow> reject_invalid code v \<noteq> Inl (EngineError ConcurrencyConflict m)"
  by (auto dest: reject_invalid_code)

lemma apply_event_no_conflict: "apply_event rt e p s \<noteq> Inl (EngineError ConcurrencyConflict m)"
  by (cases p) (auto simp: bind_result_eq_Inl require_enrolled_module_def apply_enrollment_def Let_def
      apply_assessment_def apply_correction_def split: option.splits if_splits)

lemma project_event_no_conflict: "project_event rt i l s e \<noteq> Inl (EngineError ConcurrencyConflict m)"
  using apply_event_no_conflict reject_invalid_no_conflict [of InvalidEvent]
  by (auto simp: project_event_def bind_result_eq_Inl Let_def simp del: apply_event.simps
      split: if_splits learning_payload.splits)

lemma projection_no_conflict:
  "project_learning_events rt es i l \<noteq> Inl (EngineError ConcurrencyConflict m)"
proof -
  have "fold_result (project_event rt i l) s xs \<noteq> Inl (EngineError ConcurrencyConflict m)" for s xs
    by (induction xs arbitrary: s) (simp_all add: bind_result_eq_Inl project_event_no_conflict)
  then show ?thesis by (simp add: project_learning_events_def bind_result_eq_Inl)
qed

context event_store begin

text \<open>The guard's trial projection succeeds exactly when the candidate may follow the stream.\<close>

lemma trial_projection:
  assumes "inv s" and "e = with_sequence c (next_sequence (st_list ops i l s))"
  shows "(\<exists>P. project_learning_events rt (st_list ops i l s @ [e]) i l = Inr P)
    \<longleftrightarrow> stream_ok rt i l (st_list ops i l s @ [e])"
proof (rule accepted_stream)
  show "sorted_wrt (<) (map e_sequence (st_list ops i l s @ [e]))"
    using list_sorted [OF assms(1), of i l] next_sequence_greater [of _ "st_list ops i l s"] assms(2)
    by (simp add: sorted_wrt_append sorted_wrt_map)
qed

text \<open>A successful append keeps every stream acceptable, if it does so for its own.\<close>

lemma append_keeps:
  assumes inv: "inv s" and ok: "all_streams_ok rt ops s" and nul: "nul \<notin> set (e_installation c)"
    and ap: "st_append ops c n s = (res, s')"
    and own: "\<And>r. res = Inr r \<Longrightarrow> \<not> ar_replayed r \<Longrightarrow>
      stream_ok rt (e_installation c) (e_learner c)
        (st_list ops (e_installation c) (e_learner c) s @ [ar_event r])"
  shows "inv s' \<and> all_streams_ok rt ops s' \<and> appended_only ops s s'"
proof (cases "\<exists>r. res = Inr r \<and> \<not> ar_replayed r")
  case False
  then have "s' = s" using ap append_replay [OF inv] append_error [OF inv] by (cases res) blast+
  then show ?thesis using inv ok by simp
next
  case True
  then obtain r where r: "res = Inr r" "\<not> ar_replayed r" by blast
  note new = append_new [OF inv refl ap [unfolded r(1)] r(2)]
  have "stream_ok rt i l (st_list ops i l s') \<and> (\<exists>ys. st_list ops i l s' = st_list ops i l s @ ys)"
    if "nul \<notin> set i" for i l
  proof (cases "(i, l) = (e_installation c, e_learner c)")
    case True
    then show ?thesis using new own [OF r] by simp
  next
    case False
    then show ?thesis
      using append_frame [OF inv ap that nul] ok that by (simp add: all_streams_ok_def)
  qed
  then show ?thesis using new by (simp add: all_streams_ok_def appended_only_def)
qed


text \<open>The event that an append returned is in the stream, with the command's key and digest.\<close>

definition answers :: "learning_candidate \<Rightarrow> append_result \<Rightarrow> 's \<Rightarrow> bool" where
  "answers c r s \<longleftrightarrow> ar_event r \<in> set (st_list ops (e_installation c) (e_learner c) s)
     \<and> e_key (ar_event r) = e_key c \<and> e_digest (ar_event r) = e_digest c"

lemma append_answers: "inv s \<Longrightarrow> st_append ops c n s = (Inr r, s') \<Longrightarrow> answers c r s'"
  using append_new [OF _ refl, of s c n r s'] append_replay [of s c n r s']
  by (cases "ar_replayed r") (auto simp: answers_def)

text \<open>
  The guard under interference: the trial projection was made of the stream that is there at the
  append, because a stream of the same length that only grew is the same stream.
\<close>

lemma guard_step:
  assumes inv: "inv s" "inv t" and ok: "all_streams_ok rt ops t" and grown: "appended_only ops s t"
    and c: "e_installation c = i" "e_learner c = l" "nul \<notin> set i"
    and trial: "stream_ok rt i l (st_list ops i l s @ [with_sequence c (next_sequence (st_list ops i l s))])"
    and ap: "st_append ops c (length (st_list ops i l s)) t = (res, t')"
  shows "inv t' \<and> all_streams_ok rt ops t' \<and> appended_only ops t t'"
proof (rule append_keeps [OF inv(2) ok _ ap])
  show "nul \<notin> set (e_installation c)" using c by simp
  fix r assume r: "res = Inr r" "\<not> ar_replayed r"
  obtain ys where ys: "st_list ops i l t = st_list ops i l s @ ys"
    using grown c(3) by (auto simp: appended_only_def)
  have "length (st_list ops i l s) = length (st_list ops i l t)"
    and ev: "ar_event r = with_sequence c (next_sequence (st_list ops i l t))"
    using append_new [OF inv(2) refl ap [unfolded r(1)] r(2)] c by auto
  then have "st_list ops i l t = st_list ops i l s" using ys by simp
  then show "stream_ok rt (e_installation c) (e_learner c)
      (st_list ops (e_installation c) (e_learner c) t @ [ar_event r])"
    using trial ev c by simp
qed

lemma guard_keeps:
  assumes "polite rt ops inv env" and "e_installation c = i" "e_learner c = l" "nul \<notin> set i"
    and "inv s" "all_streams_ok rt ops s"
    and "append_with_projection_guard rt ops env c i l n s = (res, s')"
  shows "inv s' \<and> all_streams_ok rt ops s' \<and> appended_only ops s s'
    \<and> (\<forall>r. res = Inr r \<longrightarrow> answers c r s')"
  using assms(5-)
proof (induction n arbitrary: s)
  case 0
  then show ?case by auto
next
  case (Suc n)
  let ?es = "st_list ops i l s" and ?t = "env n s"
  obtain res1 t' where ap: "st_append ops c (length ?es) ?t = (res1, t')" by fastforce
  have t: "inv ?t" "all_streams_ok rt ops ?t" "appended_only ops s ?t"
    using assms(1) Suc.prems(1,2) by (auto simp: polite_def)
  note run = Suc.prems(3) [unfolded append_with_projection_guard.simps Let_def ap]
  show ?case
  proof (cases "list_ex (\<lambda>e. e_key e = e_key c) ?es")
    case True
    then obtain e where "e \<in> set ?es" "e_key e = e_key c" by (auto simp: list_ex_iff)
    then have "e \<in> set (st_list ops i l ?t)" by (intro appended_only_member [OF t(3) assms(4)])
    then have "t' = ?t"
      using append_known [OF t(1), of c e] ap assms(2-4) \<open>e_key e = e_key c\<close>
      by (auto split: if_splits)
    moreover have "res = res1" "s' = t'" using run True by auto
    moreover have "answers c r t'" if "res1 = Inr r" for r
      by (rule append_answers [OF t(1) ap [unfolded that]])
    ultimately show ?thesis using t by blast
  next
    case fresh: False
    show ?thesis
    proof (cases "project_learning_events rt (?es @ [with_sequence c (next_sequence ?es)]) i l")
      case (Inl x)
      then show ?thesis using run fresh Suc.prems by auto
    next
      case (Inr P)
      then have "stream_ok rt i l (?es @ [with_sequence c (next_sequence ?es)])"
        using trial_projection [OF Suc.prems(1) refl] by blast
      note kept = guard_step [OF Suc.prems(1) t assms(2-4) this ap]
      have kept': "appended_only ops s t'" using appended_only_trans [OF t(3)] kept by blast
      show ?thesis
      proof (cases "\<exists>m. res1 = Inl (EngineError ConcurrencyConflict m)")
        case True
        then have "append_with_projection_guard rt ops env c i l n t' = (res, s')"
          using run fresh Inr by auto
        from Suc.IH [OF _ _ this] have "inv s' \<and> all_streams_ok rt ops s' \<and> appended_only ops t' s'
            \<and> (\<forall>r. res = Inr r \<longrightarrow> answers c r s')" using kept by blast
        then show ?thesis using appended_only_trans [OF kept'] by blast
      next
        case False
        then have "res = res1" "s' = t'"
          using run fresh Inr by (auto split: sum.splits engine_error.splits engine_code.splits)
        moreover have "answers c r t'" if "res1 = Inr r" for r
          by (rule append_answers [OF t(1) ap [unfolded that]])
        ultimately show ?thesis using kept kept' by simp
      qed
    qed
  qed
qed


text \<open>After them: the guard, and the projection of what the final list returns.\<close>

abbreviation command_event :: "runtime \<Rightarrow> string \<Rightarrow> learning_command \<Rightarrow> learning_candidate" where
  "command_event rt now c \<equiv> command_to_event c (learning_event_id rt c)
     (sha256_hex rt (stringify rt (sort_json rt (command_json c)))) now"

lemma execute_accepted:
  assumes "wf_command c" "may_write c a" "\<not> clock_invalid now c"
  shows "execute rt ops env now c a s =
    (case append_with_projection_guard rt ops env (command_event rt now c)
         (c_installation c) (c_learner c) 5 s of
        (Inl x, s') \<Rightarrow> (Inl x, s')
      | (Inr r, s') \<Rightarrow>
          guarded (project_learning_events rt (st_list ops (c_installation c) (c_learner c) (env 5 s'))
              (c_installation c) (c_learner c)) (env 5 s')
            (\<lambda>P. (Inr \<lparr>cr_event = ar_event r, cr_replayed = ar_replayed r, cr_projection = P\<rparr>, env 5 s')))"
proof -
  have v: "reject_invalid InvalidCommand (validate_learning_command rt (command_json c)) = Inr ()"
    using assms(1) by (simp add: reject_command_ok)
  have w: "assert_can_write c a = Inr ()" using assms(2) assert_can_write_ok by blast
  show ?thesis
    unfolding execute_def v w guarded_simps command_digest_ok [OF assms(1)] Let_def
    using assms(3) by simp
qed

lemma command_event_scope [simp]:
  "e_installation (command_to_event c x d now) = c_installation c"
  "e_learner (command_to_event c x d now) = c_learner c"
  "e_key (command_to_event c x d now) = c_key c" "e_digest (command_to_event c x d now) = d"
  "e_payload (command_to_event c x d now) = c_payload c"
  by (simp_all add: command_to_event_def)

text \<open>Every conflict means that another writer appended: the stream is longer than it was.\<close>

lemma guard_conflict_grows:
  assumes pol: "polite rt ops inv env" and c: "e_installation c = i" "e_learner c = l" "nul \<notin> set i"
    and s: "inv s" "all_streams_ok rt ops s"
    and g: "append_with_projection_guard rt ops env c i l n s
      = (Inl (EngineError ConcurrencyConflict m), s')"
  shows "length (st_list ops i l s) + n \<le> length (st_list ops i l s')"
  using s g
proof (induction n arbitrary: s)
  case 0
  then show ?case by simp
next
  case (Suc n)
  let ?es = "st_list ops i l s" and ?t = "env n s"
  obtain res t' where ap: "st_append ops c (length ?es) ?t = (res, t')" by fastforce
  have t: "inv ?t" "all_streams_ok rt ops ?t" "appended_only ops s ?t"
    using pol Suc.prems(1,2) by (auto simp: polite_def)
  obtain ys where ys: "st_list ops i l ?t = ?es @ ys" using t(3) c(3) by (auto simp: appended_only_def)
  note run = Suc.prems(3) [unfolded append_with_projection_guard.simps Let_def ap]
  have unknown: "\<not> list_ex (\<lambda>e. e_key e = e_key c) ?es"
  proof
    assume "list_ex (\<lambda>e. e_key e = e_key c) ?es"
    then obtain e where "e \<in> set ?es" "e_key e = e_key c" by (auto simp: list_ex_iff)
    moreover from this have "e \<in> set (st_list ops i l ?t)" using ys by simp
    ultimately show False
      using append_known [OF t(1), of c e] ap run c by (auto simp: list_ex_iff split: if_splits)
  qed
  obtain P where P: "project_learning_events rt (?es @ [with_sequence c (next_sequence ?es)]) i l = Inr P"
  proof (cases "project_learning_events rt (?es @ [with_sequence c (next_sequence ?es)]) i l")
    case (Inl x)
    have "EngineError ConcurrencyConflict m = x" "s' = s" using run unknown Inl by auto
    then show ?thesis using Inl projection_no_conflict by blast
  qed
  obtain m' where conflict: "res = Inl (EngineError ConcurrencyConflict m')"
    using run unknown P by (auto split: sum.splits engine_error.splits engine_code.splits)
  have t': "t' = ?t" using append_error [OF t(1)] ap conflict by blast
  have "length ?es \<noteq> length (st_list ops i l ?t)"
    using append_conflict_only [OF t(1), of c "length ?es" m' t'] ap conflict c by simp
  then have "length ?es < length (st_list ops i l ?t)" using ys by simp
  moreover have "append_with_projection_guard rt ops env c i l n ?t
      = (Inl (EngineError ConcurrencyConflict m), s')"
    using run unknown P conflict t' by simp
  ultimately show ?case using Suc.IH [OF t(1,2)] by fastforce
qed

lemma projects_when_ok:
  assumes "inv s" "all_streams_ok rt ops s" "nul \<notin> set i"
  shows "\<exists>P. project_learning_events rt (st_list ops i l s) i l = Inr P"
  using accepted_stream [OF list_sorted [OF assms(1)]] assms(2,3) by (simp add: all_streams_ok_def)

text \<open>
  The whole command under interference: it is itself a polite writer, and when it returns a
  result the event is in the stream and the projection is that of the stream.
\<close>

lemma execute_keeps:
  assumes pol: "polite rt ops inv env" and s: "inv s" "all_streams_ok rt ops s"
    and ex: "execute rt ops env now c a s = (res, s')"
  shows "inv s' \<and> all_streams_ok rt ops s' \<and> appended_only ops s s'
    \<and> (\<forall>r. res = Inr r \<longrightarrow> wf_command c \<and> may_write c a \<and> \<not> clock_invalid now c
      \<and> cr_event r \<in> set (st_list ops (c_installation c) (c_learner c) s')
      \<and> e_key (cr_event r) = c_key c
      \<and> project_learning_events rt (st_list ops (c_installation c) (c_learner c) s')
          (c_installation c) (c_learner c) = Inr (cr_projection r))"
proof (cases "wf_command c \<and> may_write c a \<and> \<not> clock_invalid now c")
  case False
  then show ?thesis using execute_rejects [OF False, of rt ops env s] ex s by auto
next
  case True
  then have nul: "nul \<notin> set (c_installation c)" by (simp add: wf_command_def stable_id_not_nul)
  let ?cand = "command_event rt now c"
  obtain res1 s1 where g: "append_with_projection_guard rt ops env ?cand
      (c_installation c) (c_learner c) 5 s = (res1, s1)" by fastforce
  note kept = guard_keeps [OF pol _ _ nul s g]
  then have s1: "inv s1" "all_streams_ok rt ops s1" "appended_only ops s s1" by simp_all
  let ?s2 = "env 5 s1"
  have s2: "inv ?s2" "all_streams_ok rt ops ?s2" "appended_only ops s1 ?s2"
    using pol s1 by (auto simp: polite_def)
  obtain P where P: "project_learning_events rt (st_list ops (c_installation c) (c_learner c) ?s2)
      (c_installation c) (c_learner c) = Inr P"
    using projects_when_ok [OF s2(1,2) nul] by blast
  have run: "(res, s') = (case res1 of Inl x \<Rightarrow> (Inl x, s1)
      | Inr r \<Rightarrow> (Inr \<lparr>cr_event = ar_event r, cr_replayed = ar_replayed r, cr_projection = P\<rparr>, ?s2))"
    using ex execute_accepted [of c a now rt env s] True g P by (auto split: sum.splits)
  show ?thesis
  proof (cases res1)
    case (Inl x)
    then show ?thesis using run s1 by simp
  next
    case (Inr r)
    then have "ar_event r \<in> set (st_list ops (c_installation c) (c_learner c) s1)" "e_key (ar_event r) = c_key c"
      using kept by (simp_all add: answers_def)
    moreover obtain ys where "st_list ops (c_installation c) (c_learner c) ?s2
        = st_list ops (c_installation c) (c_learner c) s1 @ ys"
      using s2(3) nul by (auto simp: appended_only_def)
    ultimately show ?thesis
      using run Inr s1(3) s2 True P appended_only_trans by auto
  qed
qed

end


section \<open>Without interference\<close>

abbreviation quiet :: "nat \<Rightarrow> 's \<Rightarrow> 's" where
  "quiet \<equiv> \<lambda>_ s. s"

context event_store begin

lemma guard_quiet:
  assumes "inv s" and "e_installation c = i" "e_learner c = l"
  shows "append_with_projection_guard rt ops quiet c i l (Suc n) s =
    (if list_ex (\<lambda>e. e_key e = e_key c) (st_list ops i l s)
     then st_append ops c (length (st_list ops i l s)) s
     else (case project_learning_events rt
          (st_list ops i l s @ [with_sequence c (next_sequence (st_list ops i l s))]) i l of
        Inl x \<Rightarrow> (Inl x, s) | Inr _ \<Rightarrow> st_append ops c (length (st_list ops i l s)) s))"
proof -
  obtain res t where ap: "st_append ops c (length (st_list ops i l s)) s = (res, t)" by fastforce
  then have "res \<noteq> Inl (EngineError ConcurrencyConflict m)" for m
    using append_conflict_only [OF assms(1), of c "length (st_list ops i l s)" m t] assms(2,3) by auto
  then show ?thesis
    unfolding append_with_projection_guard.simps Let_def ap
    by (auto split: sum.split engine_error.split engine_code.split)
qed

text \<open>A known key: the stored event again, or an error, and nothing is written.\<close>

lemma execute_known:
  assumes ok: "wf_command c" "may_write c a" "\<not> clock_invalid now c"
    and s: "inv s" "all_streams_ok rt ops s"
    and e: "e \<in> set (st_list ops (c_installation c) (c_learner c) s)" "e_key e = c_key c"
  shows "\<exists>P. project_learning_events rt (st_list ops (c_installation c) (c_learner c) s)
      (c_installation c) (c_learner c) = Inr P
    \<and> execute rt ops quiet now c a s =
      (if e_digest e = e_digest (command_event rt now c)
       then Inr \<lparr>cr_event = e, cr_replayed = True, cr_projection = P\<rparr>
       else Inl (EngineError IdempotencyConflict
         ''The idempotency key is already bound to another learning command.''), s)"
proof -
  let ?i = "c_installation c" and ?l = "c_learner c" and ?cand = "command_event rt now c"
  have nul: "nul \<notin> set ?i" using ok(1) by (simp add: wf_command_def stable_id_not_nul)
  obtain P where P: "project_learning_events rt (st_list ops ?i ?l s) ?i ?l = Inr P"
    using projects_when_ok [OF s nul] by blast
  have "list_ex (\<lambda>e. e_key e = e_key ?cand) (st_list ops ?i ?l s)"
    using e by (auto simp: list_ex_iff)
  then have "append_with_projection_guard rt ops quiet ?cand ?i ?l 5 s
      = st_append ops ?cand (length (st_list ops ?i ?l s)) s"
    using guard_quiet [OF s(1), of ?cand ?i ?l rt 4] by simp
  also have "\<dots> = (if e_digest e = e_digest ?cand then Inr \<lparr>ar_event = e, ar_replayed = True\<rparr>
        else Inl (EngineError IdempotencyConflict
          ''The idempotency key is already bound to another learning command.''), s)"
    by (rule append_known [OF s(1)]) (use nul e in simp_all)
  finally have g: "append_with_projection_guard rt ops quiet ?cand ?i ?l 5 s = \<dots>" .
  show ?thesis
    unfolding execute_accepted [OF ok] g using P by (auto simp del: command_event_scope)
qed

text \<open>A new key: the event is appended exactly when the stream stays acceptable.\<close>

lemma execute_new:
  assumes ok: "wf_command c" "may_write c a" "\<not> clock_invalid now c"
    and s: "inv s" "all_streams_ok rt ops s"
    and es: "es = st_list ops (c_installation c) (c_learner c) s" and key: "c_key c \<notin> e_key ` set es"
    and ev: "ev = with_sequence (command_event rt now c) (next_sequence es)"
  shows "(\<exists>r s'. execute rt ops quiet now c a s = (Inr r, s')) \<longleftrightarrow>
      stream_ok rt (c_installation c) (c_learner c) (es @ [ev])
      \<and> \<not> duplicate_attempt (command_event rt now c) es
      \<and> \<not> duplicate_correction (command_event rt now c) es"
    and "execute rt ops quiet now c a s = (Inr r, s') \<Longrightarrow>
      cr_event r = ev \<and> \<not> cr_replayed r \<and> st_list ops (c_installation c) (c_learner c) s' = es @ [ev]"
proof -
  let ?i = "c_installation c" and ?l = "c_learner c" and ?cand = "command_event rt now c"
  have nul: "nul \<notin> set ?i" using ok(1) by (simp add: wf_command_def stable_id_not_nul)
  have unknown: "\<not> list_ex (\<lambda>e. e_key e = e_key ?cand) es" using key by (auto simp: list_ex_iff rev_image_eqI)
  have g: "append_with_projection_guard rt ops quiet ?cand ?i ?l 5 s =
      (case project_learning_events rt (es @ [ev]) ?i ?l of
        Inl x \<Rightarrow> (Inl x, s) | Inr _ \<Rightarrow> st_append ops ?cand (length es) s)"
    using guard_quiet [OF s(1), of ?cand ?i ?l rt 4] unknown unfolding es ev by simp
  have es': "es = st_list ops (e_installation ?cand) (e_learner ?cand) s" using es by simp
  have key': "e_key ?cand \<notin> e_key ` set es" using key by simp
  have trial: "(\<exists>P. project_learning_events rt (es @ [ev]) ?i ?l = Inr P) \<longleftrightarrow> stream_ok rt ?i ?l (es @ [ev])"
    using trial_projection [OF s(1), of ev ?cand ?i ?l rt] ev es by simp
  have appended: "\<not> ar_replayed r \<and> ar_event r = ev \<and> inv t \<and> st_list ops ?i ?l t = es @ [ev]
      \<and> \<not> duplicate_attempt ?cand es \<and> \<not> duplicate_correction ?cand es"
    if ap: "st_append ops ?cand (length es) s = (Inr r, t)" for r t
  proof -
    have new: "\<not> ar_replayed r"
    proof
      assume "ar_replayed r"
      then have "ar_event r \<in> set es" "e_key (ar_event r) = c_key c"
        using append_replay [OF s(1) ap] by (simp_all add: es)
      then show False using key by (metis image_eqI)
    qed
    then show ?thesis using append_new [OF s(1) es' ap new] append_unique [OF s(1) es' ap new] ev by simp
  qed
  have final: "execute rt ops quiet now c a s =
      (case project_learning_events rt (es @ [ev]) ?i ?l of
        Inl x \<Rightarrow> (Inl x, s) | Inr P \<Rightarrow> (case st_append ops ?cand (length es) s of
          (Inl x, t) \<Rightarrow> (Inl x, t)
        | (Inr r, t) \<Rightarrow> (Inr \<lparr>cr_event = ar_event r, cr_replayed = ar_replayed r, cr_projection = P\<rparr>, t)))"
  proof (cases "project_learning_events rt (es @ [ev]) ?i ?l")
    case (Inl x)
    then show ?thesis unfolding execute_accepted [OF ok] g by simp
  next
    case P: (Inr P)
    obtain res t where ap: "st_append ops ?cand (length es) s = (res, t)" by fastforce
    show ?thesis
    proof (cases res)
      case (Inl x)
      then show ?thesis unfolding execute_accepted [OF ok] g P ap by simp
    next
      case (Inr r)
      then show ?thesis
        unfolding execute_accepted [OF ok] g P ap using appended [OF ap [unfolded Inr]] P by simp
    qed
  qed
  show "execute rt ops quiet now c a s = (Inr r, s') \<Longrightarrow>
      cr_event r = ev \<and> \<not> cr_replayed r \<and> st_list ops ?i ?l s' = es @ [ev]"
  proof -
    assume ex: "execute rt ops quiet now c a s = (Inr r, s')"
    obtain res t where ap: "st_append ops ?cand (length es) s = (res, t)" by fastforce
    obtain P q where "project_learning_events rt (es @ [ev]) ?i ?l = Inr P" "res = Inr q"
      using ex unfolding final ap by (cases "project_learning_events rt (es @ [ev]) ?i ?l"; cases res) auto
    then show ?thesis using ex appended [of q t] unfolding final ap by auto
  qed
  have "\<exists>t. st_append ops ?cand (length es) s = (Inr \<lparr>ar_event = ev, ar_replayed = False\<rparr>, t)"
    if "stream_ok rt ?i ?l (es @ [ev])" "\<not> duplicate_attempt ?cand es" "\<not> duplicate_correction ?cand es"
    unfolding ev by (rule append_accepts [OF s(1) es' key' refl that(2,3)])
      (use that(1) in \<open>simp add: stream_ok_def ev\<close>)
  note accepts = this
  show "(\<exists>r s'. execute rt ops quiet now c a s = (Inr r, s')) \<longleftrightarrow>
      stream_ok rt ?i ?l (es @ [ev]) \<and> \<not> duplicate_attempt ?cand es \<and> \<not> duplicate_correction ?cand es"
  proof (cases "project_learning_events rt (es @ [ev]) ?i ?l")
    case (Inl x)
    then have "\<not> stream_ok rt ?i ?l (es @ [ev])" using trial by simp
    then show ?thesis unfolding final Inl by simp
  next
    case (Inr P)
    then have ok': "stream_ok rt ?i ?l (es @ [ev])" using trial by blast
    obtain res t where ap: "st_append ops ?cand (length es) s = (res, t)" by fastforce
    show ?thesis
    proof (cases res)
      case (Inl x)
      then have "\<not> (\<not> duplicate_attempt ?cand es \<and> \<not> duplicate_correction ?cand es)"
        using accepts [OF ok'] ap by auto
      then show ?thesis unfolding final \<open>_ = Inr P\<close> ap Inl by auto
    next
      case r: (Inr r)
      then show ?thesis
        unfolding final \<open>_ = Inr P\<close> ap r using appended [OF ap [unfolded r]] ok' by simp
    qed
  qed
qed

text \<open>An error leaves the store as it was.\<close>

lemma execute_failure_keeps_store:
  assumes s: "inv s" "all_streams_ok rt ops s" and ex: "execute rt ops quiet now c a s = (Inl x, s')"
  shows "s' = s"
proof (cases "wf_command c \<and> may_write c a \<and> \<not> clock_invalid now c")
  case False
  then show ?thesis using execute_rejects [OF False, of rt ops quiet s] ex by auto
next
  case True
  let ?i = "c_installation c" and ?l = "c_learner c" and ?cand = "command_event rt now c"
  have nul: "nul \<notin> set ?i" using True by (simp add: wf_command_def stable_id_not_nul)
  obtain res t where g: "append_with_projection_guard rt ops quiet ?cand ?i ?l 5 s = (res, t)" by fastforce
  then have t: "inv t" "all_streams_ok rt ops t"
    using guard_keeps [OF quiet_polite _ _ nul s g] by simp_all
  obtain P where "project_learning_events rt (st_list ops ?i ?l t) ?i ?l = Inr P"
    using projects_when_ok [OF t nul] by blast
  then have "\<exists>y. res = Inl y \<and> s' = t"
    using ex execute_accepted [of c a now rt quiet s] True g by (cases res) auto
  then obtain y where "res = Inl y" "s' = t" by blast
  moreover have "t = s"
  proof (rule ccontr)
    assume "t \<noteq> s"
    then have "st_append ops ?cand (length (st_list ops ?i ?l s)) s = (Inl y, t)"
      using g [unfolded calculation(1)] guard_quiet [OF s(1), of ?cand ?i ?l rt 4]
      by (simp split: if_splits sum.splits)
    then show False using append_error [OF s(1)] \<open>t \<noteq> s\<close> by blast
  qed
  ultimately show ?thesis by simp
qed

end

end
