(* ===== verification/Engine_Theorems.thy ===== *)
theory Engine_Theorems
  imports Learning_Engine Sample_Records
begin

text \<open>
  The theorems about \<open>InMemoryLearningEventStore\<close> and \<open>LearningEventEngine\<close>: what the store keeps,
  what a command does with and without other writers, and what a deletion between two operations
  of one command can break.
\<close>

text \<open>The states that the engine meets: a sound store all of whose streams project.\<close>

definition engine_inv :: "runtime \<Rightarrow> memory \<Rightarrow> bool" where
  "engine_inv rt st \<longleftrightarrow> memory_inv st \<and> all_streams_ok rt (memory_ops rt) st"

lemma engine_inv_empty: "engine_inv rt (\<lambda>_. None)"
  by (simp add: engine_inv_def memory_inv_empty all_streams_ok_def memory_ops_def memory_list_def
      stored_def)

section \<open>Sample commands\<close>

lemma sample_sha: "sha256_format sample_runtime"
  by (simp add: sha256_format_def sample_runtime_def digest_text_def list_all_iff hex_char_def
      list_all_pad_text [unfolded list_all_iff, rule_format])

definition sample_command :: "nat \<Rightarrow> learning_payload \<Rightarrow> learning_command" where
  "sample_command n p = \<lparr>c_schema = V1_1, c_installation = ''school-1'', c_learner = ''learner-1'',
     c_key = ''idempotency-key-'' @ nat_text n, c_content = ''1.0.0'',
     c_occurred = ''2026-03-01T10:00:00Z'', c_actor = sample_actor, c_payload = p\<rparr>"

definition sample_access :: learning_access where
  "sample_access = \<lparr>ac_installation = ''school-1'', ac_actor_type = LearnerActor,
     ac_actor_user = Some ''learner-1'', ac_permissions = [WriteSelf, ReadSelf]\<rparr>"

definition sample_now :: string where
  "sample_now = ''2026-03-01T10:00:01Z''"

lemma sample_command_sel [simp]:
  "c_installation (sample_command n p) = ''school-1''" "c_learner (sample_command n p) = ''learner-1''"
  "c_key (sample_command n p) = ''idempotency-key-'' @ nat_text n" "c_payload (sample_command n p) = p"
  "c_content (sample_command n p) = ''1.0.0''"
  by (simp_all add: sample_command_def)

lemma sample_command_ok:
  assumes "sample_ids n" "wf_payload p"
  shows "wf_command (sample_command n p)" "may_write (sample_command n p) sample_access"
    "\<not> clock_invalid sample_now (sample_command n p)"
proof -
  show "wf_command (sample_command n p)"
    using assms by (simp add: wf_command_def sample_command_def sample_ids_def)
  show "may_write (sample_command n p) sample_access"
    by (simp add: may_write_def sample_command_def sample_access_def sample_actor_def)
  have "parses_timestamp sample_now" unfolding sample_now_def by code_simp
  then show "\<not> clock_invalid sample_now (sample_command n p)"
    by (simp add: clock_invalid_def sample_command_def sample_now_def)
qed

lemma sample_execute_first:
  "\<exists>r s'. execute sample_runtime (memory_ops sample_runtime) quiet sample_now
      (sample_command 1 enroll_payload) sample_access (\<lambda>_. None) = (Inr r, s')"
proof -
  let ?c = "sample_command 1 enroll_payload"
  let ?cand = "command_to_event ?c (learning_event_id sample_runtime ?c)
    (sha256_hex sample_runtime (stringify sample_runtime (sort_json sample_runtime (command_json ?c)))) sample_now"
  note ok = sample_command_ok [OF sample_ids_ok(1) sample_payloads_wf(1)]
  have "valid_timestamp sample_now" by (simp add: sample_now_def)
  then have "wf_event (with_sequence ?cand 1)"
    by (intro command_event_wf sample_sha ok) simp_all
  then have "stream_ok sample_runtime ''school-1'' ''learner-1'' ([] @ [with_sequence ?cand 1])"
    unfolding stream_ok_snoc by (simp add: admissible_def same_enrollment_def enroll_payload_def
        command_to_event_def)
  then show ?thesis
    using memory.execute_new(1) [OF ok, of "\<lambda>_. None" sample_runtime sample_runtime "[]" "with_sequence ?cand 1"]
      engine_inv_empty [of sample_runtime]
    by (simp add: engine_inv_def memory_ops_def memory_list_def stored_def next_sequence_def
        duplicate_attempt_def duplicate_correction_def enroll_payload_def)
qed

section \<open>The store\<close>

text \<open>
  C7. The store's invariant holds of the empty store and is kept by every append and every delete,
  whatever their arguments and whether they throw or not: each stream is numbered 1, 2, 3, ...,
  holds well-formed events of its own scope, and has no idempotency key, attempt ID or
  correction ID twice.
\<close>

theorem memory_store_invariant:
  "memory_inv (\<lambda>_. None) \<and> (\<forall>st. memory_inv st \<longrightarrow> memory_inv (snd (memory_append rt c n st))
     \<and> memory_inv (snd (memory_delete i l st)))"
proof -
  have "memory_inv (snd (memory_delete i l st))" if "memory_inv st" for st
    using memory.delete_inv [OF that, of rt i l] by (simp add: memory_ops_def memory_delete_def Let_def)
  then show ?thesis
    using memory_inv_empty memory_append_inv [of _ rt c n] by (metis prod.collapse)
qed

theorem memory_store_invariant_witness: "memory_inv (snd (memory_append sample_runtime
    (command_to_event (sample_command 1 enroll_payload) ''x'' ''y'' ''z'') 0 (\<lambda>_. None)))"
  using memory_store_invariant [of sample_runtime
      "command_to_event (sample_command 1 enroll_payload) ''x'' ''y'' ''z''" 0] memory_inv_empty by blast

text \<open>
  An append is atomic and append-only: a throw and a replay leave every stream as it was; a
  new event is put at the end of the stream of its own scope, with the next number, and no
  other stream changes. A replay returns the stored event with the same key and command digest.
\<close>

theorem memory_append_only:
  assumes inv: "memory_inv st" and ap: "memory_append rt c n st = (res, st')"
  shows "(\<forall>x. res = Inl x \<longrightarrow> st' = st)
    \<and> (\<forall>r. res = Inr r \<and> ar_replayed r \<longrightarrow> st' = st
        \<and> ar_event r \<in> set (stored st (scope_key (e_installation c) (e_learner c)))
        \<and> e_key (ar_event r) = e_key c \<and> e_digest (ar_event r) = e_digest c)
    \<and> (\<forall>r. res = Inr r \<and> \<not> ar_replayed r \<longrightarrow>
        (let key = scope_key (e_installation c) (e_learner c) in
          st' = st(key \<mapsto> stored st key @ [ar_event r]) \<and> n = length (stored st key)
          \<and> ar_event r = with_sequence c (int (Suc n))))"
proof (intro conjI allI impI)
  show "st' = st" if "res = Inl x" for x using ap that memory_append_error by blast
next
  fix r assume r: "res = Inr r \<and> ar_replayed r"
  then show "st' = st" "ar_event r \<in> set (stored st (scope_key (e_installation c) (e_learner c)))"
    "e_key (ar_event r) = e_key c" "e_digest (ar_event r) = e_digest c"
    using memory_append_replay [of rt c n st r st'] ap memory_list_stored [OF inv] by auto
next
  fix r assume r: "res = Inr r \<and> \<not> ar_replayed r"
  let ?key = "scope_key (e_installation c) (e_learner c)"
  have ap': "memory_append rt c n st = (Inr r, st')" and new: "\<not> ar_replayed r" using ap r by auto
  have "stream_inv ?key (stored st ?key)" using inv by (simp add: memory_inv_def)
  then show "let key = ?key in st' = st(key \<mapsto> stored st key @ [ar_event r]) \<and> n = length (stored st key)
      \<and> ar_event r = with_sequence c (int (Suc n))"
    using memory_append_new [OF inv refl ap' new] memory_list_stored [OF inv] next_sequence_stream
    by (simp add: Let_def)
qed

theorem memory_append_only_witness:
  "\<exists>r st'. memory_append sample_runtime (command_to_event (sample_command 1 enroll_payload)
      (learning_event_id sample_runtime (sample_command 1 enroll_payload))
      (sha256_hex sample_runtime ''command'') sample_now) 0 (\<lambda>_. None) = (Inr r, st')
    \<and> e_sequence (ar_event r) = 1 \<and> stored st' (scope_key ''school-1'' ''learner-1'') = [ar_event r]"
proof -
  let ?c = "command_to_event (sample_command 1 enroll_payload)
      (learning_event_id sample_runtime (sample_command 1 enroll_payload))
      (sha256_hex sample_runtime ''command'') sample_now"
  have "wf_event (with_sequence ?c 1)"
    by (intro command_event_wf sample_sha sample_command_ok [OF sample_ids_ok(1)]) (simp_all add: sample_now_def)
  then obtain st' where ap: "memory_append sample_runtime ?c 0 (\<lambda>_. None)
      = (Inr \<lparr>ar_event = with_sequence ?c 1, ar_replayed = False\<rparr>, st')"
    using memory.append_accepts [OF memory_inv_empty refl, of ?c sample_runtime 0]
    by (auto simp: memory_ops_def memory_list_def stored_def next_sequence_def duplicate_attempt_def
        duplicate_correction_def enroll_payload_def)
  with memory_append_only [OF memory_inv_empty ap] show ?thesis by (auto simp: Let_def stored_def)
qed


section \<open>Commands\<close>

abbreviation command_candidate :: "runtime \<Rightarrow> string \<Rightarrow> learning_command \<Rightarrow> learning_candidate" where
  "command_candidate rt now c \<equiv> command_to_event c (learning_event_id rt c)
     (sha256_hex rt (stringify rt (sort_json rt (command_json c)))) now"

abbreviation memory_execute :: "runtime \<Rightarrow> string \<Rightarrow> learning_command \<Rightarrow> learning_access \<Rightarrow> memory
    \<Rightarrow> (engine_error, command_result) result \<times> memory" where
  "memory_execute rt now c a st \<equiv> execute rt (memory_ops rt) quiet now c a st"

text \<open>
  C8. Whatever the store and the other writers do, a command that is not well formed, that the
  access does not allow (another installation, another actor, or neither \<open>learning:write:any\<close> nor
  \<open>learning:write:self\<close> for the actor's own record), or that lies after the storage clock is
  rejected before the store is touched.
\<close>

theorem execute_authorization:
  assumes "\<not> (wf_command c \<and> may_write c a \<and> \<not> clock_invalid now c)"
  shows "\<exists>x. execute rt ops env now c a s = (Inl x, s)"
  by (rule execute_rejects [OF assms])

theorem execute_authorization_witness:
  "\<exists>x. execute sample_runtime (memory_ops sample_runtime) quiet sample_now
     (sample_command 1 enroll_payload) (sample_access\<lparr>ac_actor_user := Some ''learner-2''\<rparr>) (\<lambda>_. None)
     = (Inl x, \<lambda>_. None)"
proof -
  have "\<not> may_write (sample_command 1 enroll_payload) (sample_access\<lparr>ac_actor_user := Some ''learner-2''\<rparr>)"
    by (simp add: may_write_def sample_command_def sample_access_def sample_actor_def)
  then show ?thesis by (intro execute_authorization) blast
qed

lemma command_event_digest: "e_digest (command_to_event c x d now) = d"
  by (simp add: command_to_event_def)

lemma execute_fresh_command:
  assumes ok: "wf_command c" "may_write c a" "\<not> clock_invalid now c" and st: "engine_inv rt st"
    and es: "es = memory_list (c_installation c) (c_learner c) st" and key: "c_key c \<notin> e_key ` set es"
    and ev: "ev = with_sequence (command_candidate rt now c) (next_sequence es)"
  shows "(\<exists>r st'. memory_execute rt now c a st = (Inr r, st')) =
      (stream_ok rt (c_installation c) (c_learner c) (es @ [ev])
       \<and> \<not> duplicate_attempt (command_candidate rt now c) es
       \<and> \<not> duplicate_correction (command_candidate rt now c) es)
    \<and> (\<forall>r st'. memory_execute rt now c a st = (Inr r, st') \<longrightarrow>
        cr_event r = ev \<and> \<not> cr_replayed r \<and> engine_inv rt st'
        \<and> memory_list (c_installation c) (c_learner c) st' = es @ [ev]
        \<and> project_learning_events rt (es @ [ev]) (c_installation c) (c_learner c) = Inr (cr_projection r))"
proof -
  have inv: "memory_inv st" "all_streams_ok rt (memory_ops rt) st" using st by (simp_all add: engine_inv_def)
  have es': "es = st_list (memory_ops rt) (c_installation c) (c_learner c) st"
    by (simp add: es memory_ops_def)
  note new = memory.execute_new [OF ok inv es' key ev]
  have "cr_event r = ev \<and> \<not> cr_replayed r \<and> engine_inv rt st'
        \<and> memory_list (c_installation c) (c_learner c) st' = es @ [ev]
        \<and> project_learning_events rt (es @ [ev]) (c_installation c) (c_learner c) = Inr (cr_projection r)"
    if ex: "memory_execute rt now c a st = (Inr r, st')" for r st'
    using new(2) [OF ex] memory.execute_keeps [OF quiet_polite inv ex]
    by (simp add: engine_inv_def memory_ops_def)
  then show ?thesis using new(1) by blast
qed

text \<open>
  C23. An accepted command whose key is new succeeds exactly when its event is admissible after the
  stored stream and its attempt or correction ID is not stored yet. Success appends exactly
  that event, with the next number, and returns the projection of the new stream.
\<close>

theorem execute_appends:
  assumes ok: "wf_command c" "may_write c a" "\<not> clock_invalid now c" and st: "engine_inv rt st"
    and es: "es = memory_list (c_installation c) (c_learner c) st" and key: "c_key c \<notin> e_key ` set es"
    and ev: "ev = with_sequence (command_candidate rt now c) (next_sequence es)"
  shows "(\<exists>r st'. memory_execute rt now c a st = (Inr r, st')) =
      (stream_ok rt (c_installation c) (c_learner c) (es @ [ev])
       \<and> \<not> duplicate_attempt (command_candidate rt now c) es
       \<and> \<not> duplicate_correction (command_candidate rt now c) es)
    \<and> (\<forall>r st'. memory_execute rt now c a st = (Inr r, st') \<longrightarrow>
        cr_event r = ev \<and> \<not> cr_replayed r \<and> engine_inv rt st'
        \<and> memory_list (c_installation c) (c_learner c) st' = es @ [ev]
        \<and> project_learning_events rt (es @ [ev]) (c_installation c) (c_learner c) = Inr (cr_projection r))"
  by (rule execute_fresh_command [OF assms])

theorem execute_appends_witness:
  "\<exists>r st'. memory_execute sample_runtime sample_now (sample_command 1 enroll_payload) sample_access
      (\<lambda>_. None) = (Inr r, st') \<and> \<not> cr_replayed r \<and> length (memory_list ''school-1'' ''learner-1'' st') = 1"
proof -
  let ?c = "sample_command 1 enroll_payload"
  obtain r st' where ex: "memory_execute sample_runtime sample_now ?c sample_access (\<lambda>_. None) = (Inr r, st')"
    using sample_execute_first by blast
  have "c_key ?c \<notin> e_key ` set (memory_list (c_installation ?c) (c_learner ?c) (\<lambda>_. None))"
    by (simp add: memory_list_def stored_def)
  note facts = execute_appends [OF sample_command_ok [OF sample_ids_ok(1) sample_payloads_wf(1)]
      engine_inv_empty refl this refl]
  have "memory_list (c_installation ?c) (c_learner ?c) (\<lambda>_. None) = []"
    by (simp add: memory_list_def stored_def)
  then show ?thesis using facts [THEN conjunct2, rule_format, OF ex] ex by auto
qed

text \<open>
  C24. Retrying is safe: repeating a command that succeeded, at any later clock reading and with the
  same access, returns the same event marked as replayed and the same projection, and leaves
  the store unchanged.
\<close>

theorem execute_retry:
  assumes st: "engine_inv rt st" and ex: "memory_execute rt now c a st = (Inr r, st')"
    and fresh: "\<not> cr_replayed r" and clock: "\<not> clock_invalid now' c"
  shows "memory_execute rt now' c a st'
    = (Inr \<lparr>cr_event = cr_event r, cr_replayed = True, cr_projection = cr_projection r\<rparr>, st')"
proof -
  have inv: "memory_inv st" "all_streams_ok rt (memory_ops rt) st" using st by (simp_all add: engine_inv_def)
  note kept = memory.execute_keeps [OF quiet_polite inv ex]
  then have ok: "wf_command c" "may_write c a" "\<not> clock_invalid now c" by simp_all
  have inv': "memory_inv st'" "all_streams_ok rt (memory_ops rt) st'" using kept by simp_all
  have mem: "cr_event r \<in> set (st_list (memory_ops rt) (c_installation c) (c_learner c) st')"
    "e_key (cr_event r) = c_key c" using kept by simp_all
  let ?es = "st_list (memory_ops rt) (c_installation c) (c_learner c) st"
  have "e_digest (cr_event r) = e_digest (command_candidate rt now' c)"
  proof (cases "c_key c \<in> e_key ` set ?es")
    case True
    then obtain e where "e \<in> set ?es" "e_key e = c_key c" by auto
    from memory.execute_known [OF ok inv this] ex fresh show ?thesis by (auto split: if_splits)
  next
    case False
    from memory.execute_new(2) [OF ok inv refl False refl ex] show ?thesis by simp
  qed
  then show ?thesis
    using memory.execute_known [OF ok(1,2) clock inv' mem] kept by (auto split: if_splits)
qed

theorem execute_retry_witness:
  "\<exists>r st'. memory_execute sample_runtime sample_now (sample_command 1 enroll_payload) sample_access
      (\<lambda>_. None) = (Inr r, st')
    \<and> memory_execute sample_runtime sample_now (sample_command 1 enroll_payload) sample_access st'
      = (Inr \<lparr>cr_event = cr_event r, cr_replayed = True, cr_projection = cr_projection r\<rparr>, st')"
proof -
  let ?c = "sample_command 1 enroll_payload"
  obtain r st' where ex: "memory_execute sample_runtime sample_now ?c sample_access (\<lambda>_. None) = (Inr r, st')"
    using sample_execute_first by blast
  note ok = sample_command_ok [OF sample_ids_ok(1) sample_payloads_wf(1)]
  have "memory_inv (\<lambda>_. None)" "all_streams_ok sample_runtime (memory_ops sample_runtime) (\<lambda>_. None)"
    using engine_inv_empty [of sample_runtime] by (simp_all add: engine_inv_def)
  then have "\<not> cr_replayed r"
    using memory.execute_new(2) [OF ok _ _ refl _ refl ex]
    by (simp add: memory_ops_def memory_list_def stored_def)
  from execute_retry [OF engine_inv_empty ex this ok(3)] show ?thesis using ex by blast
qed

text \<open>
  An idempotency key is bound to one command: a different command under a stored key (one whose
  canonical text has another digest) is refused and nothing is written.
\<close>

theorem execute_key_conflict:
  assumes ok: "wf_command c" "may_write c a" "\<not> clock_invalid now c" and st: "engine_inv rt st"
    and e: "e \<in> set (memory_list (c_installation c) (c_learner c) st)" "e_key e = c_key c"
    and other: "e_digest e \<noteq> e_digest (command_candidate rt now c)"
  shows "memory_execute rt now c a st = (Inl (EngineError IdempotencyConflict
      ''The idempotency key is already bound to another learning command.''), st)"
proof -
  have inv: "memory_inv st" "all_streams_ok rt (memory_ops rt) st" using st by (simp_all add: engine_inv_def)
  have "e \<in> set (st_list (memory_ops rt) (c_installation c) (c_learner c) st)"
    using e(1) by (simp add: memory_ops_def)
  from memory.execute_known [OF ok inv this e(2)] show ?thesis using other by auto
qed

text \<open>A store with one stored event, whose digest is not one of the sample runtime.\<close>

definition sample_store :: memory where
  "sample_store = [scope_key ''school-1'' ''learner-1'' \<mapsto> [sample_event 1 enroll_payload]]"

lemma sample_store_list: "memory_list ''school-1'' ''learner-1'' sample_store = [sample_event 1 enroll_payload]"
  by (simp add: memory_list_def stored_def sample_store_def)

lemma sample_store_ok: "engine_inv rt sample_store"
proof -
  have wf: "wf_event (sample_event 1 enroll_payload)"
    by (rule sample_event_wf [THEN iffD2]) (simp_all del: One_nat_def)
  have inv: "memory_inv sample_store"
    using wf by (simp add: memory_inv_def sample_store_def stored_def stream_inv_def enroll_payload_def)
  have one: "stream_ok rt ''school-1'' ''learner-1'' [sample_event 1 enroll_payload]"
    using wf stream_ok_snoc [of rt "''school-1''" "''learner-1''" "[]" "sample_event 1 enroll_payload"]
    by (simp add: admissible_def enroll_payload_def same_enrollment_def)
  have "stream_ok rt i l (memory_list i l sample_store)" if "nul \<notin> set i" for i l
  proof (cases "scope_key i l = scope_key ''school-1'' ''learner-1''")
    case True
    then have "i = ''school-1''" "l = ''learner-1''"
      using that by (simp_all add: scope_key_inj nul_def)
    then show ?thesis using one by (simp only: sample_store_list)
  next
    case False
    then show ?thesis unfolding memory_list_stored [OF inv] by (simp add: sample_store_def stored_def)
  qed
  then show ?thesis using inv by (simp add: engine_inv_def all_streams_ok_def memory_ops_def)
qed

theorem execute_key_conflict_witness:
  "\<exists>x. memory_execute sample_runtime sample_now (sample_command 1 visit_payload) sample_access sample_store
    = (Inl (EngineError IdempotencyConflict x), sample_store)"
proof -
  let ?c = "sample_command 1 visit_payload"
  note ok = sample_command_ok [OF sample_ids_ok(1) sample_payloads_wf(2)]
  have "hd (sha256_hex sample_runtime t) \<noteq> CHR ''a''" for t
  proof -
    have "list_all digit_char (sha256_hex sample_runtime t)" "length (sha256_hex sample_runtime t) = 64"
      using list_all_pad_text by (simp_all add: sample_runtime_def)
    then have "digit_char (hd (sha256_hex sample_runtime t))" by (cases "sha256_hex sample_runtime t") auto
    then show ?thesis by (auto simp: digit_char_def)
  qed
  moreover have "hd sample_digest = CHR ''a''" by (simp add: sample_digest_def)
  ultimately have "e_digest (sample_event 1 enroll_payload)
      \<noteq> e_digest (command_candidate sample_runtime sample_now ?c)" by (metis sample_event_sel(8) command_event_digest)
  from execute_key_conflict [OF ok sample_store_ok _ _ this] show ?thesis
    by (simp add: sample_store_list)
qed

text \<open>A command that throws leaves the store exactly as it was.\<close>

theorem execute_error_unchanged:
  assumes "engine_inv rt st" and "memory_execute rt now c a st = (Inl x, st')"
  shows "st' = st"
  using memory.execute_failure_keeps_store [of st rt rt now c a x st'] assms by (simp add: engine_inv_def)

theorem execute_error_unchanged_witness:
  "\<exists>x. memory_execute sample_runtime ''not a time'' (sample_command 1 enroll_payload) sample_access
     (\<lambda>_. None) = (Inl x, \<lambda>_. None)"
proof -
  have "\<not> parses_timestamp ''not a time''" by code_simp
  then have "clock_invalid ''not a time'' (sample_command 1 enroll_payload)" by (simp add: clock_invalid_def)
  then obtain x st' where ex: "memory_execute sample_runtime ''not a time''
      (sample_command 1 enroll_payload) sample_access (\<lambda>_. None) = (Inl x, st')"
    using execute_rejects [of "sample_command 1 enroll_payload" sample_access "''not a time''"
        sample_runtime "memory_ops sample_runtime" quiet "\<lambda>_. None"] by blast
  with execute_error_unchanged [OF engine_inv_empty ex] show ?thesis by blast
qed


section \<open>Other writers\<close>

text \<open>
  C25. With any other writers that append only acceptable events between the engine's own
  operations, a command keeps the store sound: every stream still projects, no stream loses an
  event, and when the command returns a result its event is in the stored stream and the
  returned projection is that of the stored stream.
\<close>

theorem execute_interference:
  assumes "polite rt (memory_ops rt) memory_inv env" and "engine_inv rt st"
    and "execute rt (memory_ops rt) env now c a st = (res, st')"
  shows "engine_inv rt st' \<and> appended_only (memory_ops rt) st st'
    \<and> (\<forall>r. res = Inr r \<longrightarrow> may_write c a
      \<and> cr_event r \<in> set (memory_list (c_installation c) (c_learner c) st')
      \<and> e_key (cr_event r) = c_key c
      \<and> project_learning_events rt (memory_list (c_installation c) (c_learner c) st')
          (c_installation c) (c_learner c) = Inr (cr_projection r))"
  using memory.execute_keeps [OF assms(1) _ _ assms(3)] assms(2)
  by (simp add: engine_inv_def memory_ops_def)

text \<open>The engine's own commands are such writers, whatever polite writers they meet in turn.\<close>

lemma execute_polite:
  assumes "\<And>k. polite rt (memory_ops rt) memory_inv (env k)"
  shows "polite rt (memory_ops rt) memory_inv (\<lambda>k st. snd (execute rt (memory_ops rt) (env k) (now k) (c k) (a k) st))"
  unfolding polite_def
proof (intro allI impI)
  fix k st assume st: "memory_inv st \<and> all_streams_ok rt (memory_ops rt) st"
  obtain res st' where "execute rt (memory_ops rt) (env k) (now k) (c k) (a k) st = (res, st')" by fastforce
  with memory.execute_keeps [OF assms _ _ this] st
  show "memory_inv (snd (execute rt (memory_ops rt) (env k) (now k) (c k) (a k) st))
    \<and> all_streams_ok rt (memory_ops rt) (snd (execute rt (memory_ops rt) (env k) (now k) (c k) (a k) st))
    \<and> appended_only (memory_ops rt) st (snd (execute rt (memory_ops rt) (env k) (now k) (c k) (a k) st))"
    by simp
qed

theorem execute_interference_witness:
  "\<exists>res st'. execute sample_runtime (memory_ops sample_runtime)
      (\<lambda>k st. snd (memory_execute sample_runtime sample_now (sample_command 2 visit_payload) sample_access st))
      sample_now (sample_command 3 visit_payload) sample_access sample_store = (res, st')
    \<and> engine_inv sample_runtime st'"
proof -
  let ?env = "\<lambda>k :: nat. \<lambda>st. snd (memory_execute sample_runtime sample_now
    (sample_command 2 visit_payload) sample_access st)"
  have "polite sample_runtime (memory_ops sample_runtime) memory_inv ?env"
    by (rule execute_polite [of _ "\<lambda>_ :: nat. quiet"]) simp
  moreover obtain res st' where ex: "execute sample_runtime (memory_ops sample_runtime) ?env
      sample_now (sample_command 3 visit_payload) sample_access sample_store = (res, st')" by fastforce
  ultimately have "engine_inv sample_runtime st'" using execute_interference [OF _ sample_store_ok ex] by blast
  then show ?thesis using ex by blast
qed

text \<open>
  A command gives up with the retry message only when it lost five races: the learner's stream
  has at least five events more than when the command started, each appended by another writer.
\<close>

theorem execute_gives_up_late:
  assumes pol: "polite rt (memory_ops rt) memory_inv env" and st: "engine_inv rt st"
    and ex: "execute rt (memory_ops rt) env now c a st = (Inl (EngineError ConcurrencyConflict m), st')"
  shows "length (memory_list (c_installation c) (c_learner c) st) + 5
    \<le> length (memory_list (c_installation c) (c_learner c) st')"
proof -
  have inv: "memory_inv st" "all_streams_ok rt (memory_ops rt) st" using st by (simp_all add: engine_inv_def)
  have "reject_invalid InvalidCommand (validate_learning_command rt (command_json c)) = Inr ()"
    using ex reject_invalid_no_conflict [of InvalidCommand "validate_learning_command rt (command_json c)" m]
    by (cases "reject_invalid InvalidCommand (validate_learning_command rt (command_json c))")
      (auto simp: execute_def)
  moreover from this have "assert_can_write c a = Inr ()"
    using ex by (cases "assert_can_write c a")
      (auto simp: execute_def assert_can_write_def deny_def split: if_splits)
  moreover from calculation have "\<not> clock_invalid now c"
    using ex by (auto simp: execute_def split: if_splits)
  ultimately have ok: "wf_command c" "may_write c a" "\<not> clock_invalid now c"
    by (simp_all add: assert_can_write_ok reject_command_ok)
  have nul: "nul \<notin> set (c_installation c)" using ok(1) by (simp add: wf_command_def stable_id_not_nul)
  obtain res t where g: "append_with_projection_guard rt (memory_ops rt) env (command_candidate rt now c)
      (c_installation c) (c_learner c) 5 st = (res, t)" by fastforce
  have "res = Inl (EngineError ConcurrencyConflict m) \<and> st' = t"
    using ex projection_no_conflict unfolding memory.execute_accepted [OF ok] g
    by (cases res) (auto simp: guarded_def split: sum.splits)
  then show ?thesis
    using memory.guard_conflict_grows [OF pol _ _ nul inv, of "command_candidate rt now c"
        "c_learner c" 5 m t] g by (simp add: memory_ops_def)
qed

section \<open>Deletion between two operations\<close>

text \<open>
  A stream that does not project blocks its learner: every later command for that learner is
  refused, whatever it is (an import too), until the record is deleted.
\<close>

theorem broken_stream_blocks:
  assumes inv: "memory_inv st"
    and broken: "\<not> stream_ok rt (c_installation c) (c_learner c)
      (memory_list (c_installation c) (c_learner c) st)"
  shows "\<exists>x. fst (memory_execute rt now c a st) = Inl x"
proof (cases "wf_command c \<and> may_write c a \<and> \<not> clock_invalid now c")
  case False
  from execute_rejects [OF False, of rt "memory_ops rt" quiet st] show ?thesis by auto
next
  case True
  let ?i = "c_installation c" and ?l = "c_learner c" and ?cand = "command_candidate rt now c"
  let ?es = "st_list (memory_ops rt) ?i ?l st"
  have nul: "nul \<notin> set ?i" using True by (simp add: wf_command_def stable_id_not_nul)
  have bad: "\<not> stream_ok rt ?i ?l ?es" using broken by (simp add: memory_ops_def)
  then have none: "\<exists>x. project_learning_events rt ?es ?i ?l = Inl x"
    using accepted_stream [OF memory.list_sorted [OF inv, of rt ?i ?l]]
    by (cases "project_learning_events rt ?es ?i ?l") auto
  have "\<not> stream_ok rt ?i ?l (?es @ [with_sequence ?cand (next_sequence ?es)])"
    using bad by (simp add: stream_ok_snoc)
  moreover have "(\<exists>P. project_learning_events rt (?es @ [with_sequence ?cand (next_sequence ?es)]) ?i ?l = Inr P)
      \<longleftrightarrow> stream_ok rt ?i ?l (?es @ [with_sequence ?cand (next_sequence ?es)])"
    by (rule memory.trial_projection [OF inv refl])
  ultimately obtain y where y: "project_learning_events rt (?es @ [with_sequence ?cand (next_sequence ?es)]) ?i ?l = Inl y"
    by (cases "project_learning_events rt (?es @ [with_sequence ?cand (next_sequence ?es)]) ?i ?l") auto
  obtain res t where g: "append_with_projection_guard rt (memory_ops rt) quiet ?cand ?i ?l 5 st = (res, t)"
    by fastforce
  have "(\<exists>x. res = Inl x) \<or> t = st"
    using g memory.guard_quiet [OF inv, of ?cand ?i ?l rt rt 4] y
      memory.append_known [OF inv, of ?cand] nul
    by (auto simp: list_ex_iff split: if_splits)
  then show ?thesis
    using none unfolding memory.execute_accepted [OF conjunct1 [OF True] conjunct1 [OF conjunct2 [OF True]]
      conjunct2 [OF conjunct2 [OF True]]] g
    by (cases res) auto
qed



text \<open>A learner whose other device records a visit between every two operations of a command.\<close>

definition busy_event :: "nat \<Rightarrow> learning_event" where
  "busy_event n = sample_event n (if n = 1 then enroll_payload else visit_payload)"

definition busy_stream :: "nat \<Rightarrow> learning_event list" where
  "busy_stream k = map busy_event [1 ..< Suc k]"

definition busy_store :: "nat \<Rightarrow> memory" where
  "busy_store k = [scope_key ''school-1'' ''learner-1'' \<mapsto> busy_stream k]"

definition busy_env :: "nat \<Rightarrow> memory \<Rightarrow> memory" where
  "busy_env n st = (if \<exists>k \<in> {1 .. 5}. st = busy_store k
     then busy_store (Suc (length (stored st (scope_key ''school-1'' ''learner-1'')))) else st)"

lemma busy_event_sel [simp]: "e_sequence (busy_event n) = int n"
  "e_key (busy_event n) = ''idempotency-key-'' @ nat_text n" "e_content (busy_event n) = ''1.0.0''"
  "e_installation (busy_event n) = ''school-1''" "e_learner (busy_event n) = ''learner-1''"
  by (simp_all add: busy_event_def)

lemma busy_event_payload: "e_payload (busy_event n) = (if n = 1 then enroll_payload else visit_payload)"
  by (simp add: busy_event_def)

lemma busy_stream_Suc: "busy_stream (Suc k) = busy_stream k @ [busy_event (Suc k)]"
  by (simp add: busy_stream_def)

lemma busy_length [simp]: "length (busy_stream k) = k"
  by (simp add: busy_stream_def del: upt_Suc)

lemma busy_enrollable: "1 \<le> k \<Longrightarrow> enrollable (since_import (busy_stream k)) ''path-a'' ''1.0.0'' ''module-a''"
proof -
  assume k: "1 \<le> k"
  have "\<forall>e \<in> set (busy_stream k). \<not> is_import (e_payload e)"
    by (auto simp: busy_stream_def busy_event_payload enroll_payload_def visit_payload_def simp del: upt_Suc)
  then have "takeWhile (\<lambda>e. \<not> is_import (e_payload e)) (rev (busy_stream k)) = rev (busy_stream k)"
    by (intro iffD2 [OF takeWhile_eq_all_conv]) simp
  then have "since_import (busy_stream k) = busy_stream k" unfolding since_import_def by (simp only: rev_rev_ident)
  moreover have "busy_stream k = busy_event 1 # map busy_event [2 ..< Suc k]"
    using k by (simp add: busy_stream_def upt_conv_Cons numeral_2_eq_2 del: upt_Suc)
  ultimately show ?thesis
    by (simp add: enrollable_def enrolls_def busy_event_payload enroll_payload_def)
qed

lemma sample_ids_all: "1 \<le> n \<Longrightarrow> n \<le> 7 \<Longrightarrow> sample_ids n"
proof -
  assume "1 \<le> n" "n \<le> 7"
  then have "n \<in> {1, 2, 3, 4, 5, 6, 7}" by auto
  then show ?thesis by (auto simp del: One_nat_def)
qed

lemma busy_event_wf: "1 \<le> n \<Longrightarrow> n \<le> 7 \<Longrightarrow> wf_event (busy_event n)"
  unfolding busy_event_def by (intro sample_event_wf [THEN iffD2] sample_ids_all) auto

lemma busy_stream_ok: "k \<le> 7 \<Longrightarrow> stream_ok rt ''school-1'' ''learner-1'' (busy_stream k)"
proof (induction k)
  case 0
  then show ?case by (simp add: busy_stream_def)
next
  case (Suc n)
  have "\<forall>x \<in> set (busy_stream n). e_sequence x < int (Suc n)" by (auto simp: busy_stream_def simp del: upt_Suc)
  moreover have "admissible rt (since_import (busy_stream n)) (busy_event (Suc n))"
  proof (cases "n = 0")
    case True
    then show ?thesis
      by (simp add: busy_stream_def admissible_def busy_event_payload enroll_payload_def same_enrollment_def)
  next
    case False
    then show ?thesis
      using busy_enrollable [of n] by (simp add: admissible_def busy_event_payload visit_payload_def)
  qed
  ultimately show ?case using Suc busy_event_wf [of "Suc n"] by (simp add: busy_stream_Suc stream_ok_snoc)
qed

lemma nat_text_keys: "m \<in> {1 .. 7} \<Longrightarrow> n \<in> {1 .. 7} \<Longrightarrow> nat_text m = nat_text n \<longleftrightarrow> m = n"
proof -
  have "distinct (map nat_text [1 ..< 8])" by code_simp
  moreover assume "m \<in> {1 .. 7}" "n \<in> {1 .. 7}"
  ultimately show ?thesis by (auto simp: distinct_map inj_on_def simp del: upt_Suc)
qed

lemma busy_store_ok:
  assumes k: "k \<le> 7"
  shows "engine_inv rt (busy_store k)"
proof -
  have "stream_inv (scope_key ''school-1'' ''learner-1'') (busy_stream k)"
    unfolding stream_inv_def
  proof (intro conjI)
    show "map e_sequence (busy_stream k) = map int [1 ..< Suc (length (busy_stream k))]"
      by (simp add: busy_stream_def del: upt_Suc)
    show "distinct (map e_key (busy_stream k))"
      using k nat_text_keys by (auto simp: busy_stream_def distinct_map inj_on_def simp del: upt_Suc)
    have none: "recorded_id (e_payload (busy_event n)) = [] \<and> corrected_id (e_payload (busy_event n)) = []" for n
      by (simp add: busy_event_payload enroll_payload_def visit_payload_def)
    have r: "concat (map (recorded_id \<circ> e_payload) (busy_stream k)) = []"
      and c: "concat (map (corrected_id \<circ> e_payload) (busy_stream k)) = []"
      using none by (auto simp: busy_stream_def simp del: upt_Suc)
    show "distinct (concat (map (recorded_id \<circ> e_payload) (busy_stream k)))" unfolding r by simp
    show "distinct (concat (map (corrected_id \<circ> e_payload) (busy_stream k)))" unfolding c by simp
    show "\<forall>e \<in> set (busy_stream k). wf_event e
        \<and> scope_key (e_installation e) (e_learner e) = scope_key ''school-1'' ''learner-1''"
      using k busy_event_wf by (auto simp: busy_stream_def simp del: upt_Suc)
  qed
  then have inv: "memory_inv (busy_store k)"
    by (auto simp: memory_inv_def busy_store_def stored_def stream_inv_def)
  have "stream_ok rt i l (memory_list i l (busy_store k))" if "nul \<notin> set i" for i l
  proof (cases "scope_key i l = scope_key ''school-1'' ''learner-1''")
    case True
    then have "i = ''school-1''" "l = ''learner-1''" using that by (simp_all add: scope_key_inj nul_def)
    then show ?thesis unfolding memory_list_stored [OF inv]
      using busy_stream_ok [OF k] by (simp add: busy_store_def stored_def)
  next
    case False
    then show ?thesis unfolding memory_list_stored [OF inv] by (simp add: busy_store_def stored_def)
  qed
  then show ?thesis using inv by (simp add: engine_inv_def all_streams_ok_def memory_ops_def)
qed

lemma busy_store_list: "k \<le> 7 \<Longrightarrow> memory_list ''school-1'' ''learner-1'' (busy_store k) = busy_stream k"
  using busy_store_ok [of k sample_runtime]
  by (simp add: engine_inv_def memory_list_stored) (simp add: busy_store_def stored_def)

lemma busy_env_step: "1 \<le> k \<Longrightarrow> k \<le> 5 \<Longrightarrow> busy_env n (busy_store k) = busy_store (Suc k)"
proof -
  assume k: "1 \<le> k" "k \<le> 5"
  have "stored (busy_store k) (scope_key ''school-1'' ''learner-1'') = busy_stream k"
    by (simp add: busy_store_def stored_def)
  then show ?thesis using k by (auto simp: busy_env_def)
qed

lemma busy_env_polite: "polite rt (memory_ops rt) memory_inv busy_env"
  unfolding polite_def
proof (intro allI impI)
  fix n st assume st: "memory_inv st \<and> all_streams_ok rt (memory_ops rt) st"
  show "memory_inv (busy_env n st) \<and> all_streams_ok rt (memory_ops rt) (busy_env n st)
      \<and> appended_only (memory_ops rt) st (busy_env n st)"
  proof (cases "\<exists>k \<in> {1 .. 5}. st = busy_store k")
    case False
    then show ?thesis using st by (simp add: busy_env_def)
  next
    case True
    then obtain k where k: "1 \<le> k" "k \<le> 5" "st = busy_store k" by auto
    have ok: "engine_inv rt (busy_store (Suc k))" by (rule busy_store_ok) (use k in simp)
    then have inv: "memory_inv (busy_store (Suc k))" "memory_inv (busy_store k)"
      using st k by (simp_all add: engine_inv_def)
    have "appended_only (memory_ops rt) (busy_store k) (busy_store (Suc k))"
      by (auto simp: appended_only_def memory_ops_def memory_list_stored inv)
        (auto simp: busy_store_def stored_def busy_stream_Suc)
    then show ?thesis using k ok busy_env_step [of k n] by (simp add: engine_inv_def)
  qed
qed

theorem execute_gives_up_late_witness:
  "\<exists>m st'. execute sample_runtime (memory_ops sample_runtime) busy_env sample_now
      (sample_command 7 visit_payload) sample_access (busy_store 1)
      = (Inl (EngineError ConcurrencyConflict m), st')
    \<and> 6 \<le> length (memory_list ''school-1'' ''learner-1'' st')"
proof -
  let ?rt = sample_runtime and ?c = "sample_command 7 visit_payload"
  let ?cand = "command_candidate ?rt sample_now ?c"
  note ok = sample_command_ok [OF sample_ids_ok(7) sample_payloads_wf(2)]
  have fresh: "e_key ?cand \<notin> e_key ` set (busy_stream k)" if "k \<le> 6" for k
    using that by (auto simp: busy_stream_def nat_text_keys simp del: upt_Suc)
  have lose: "append_with_projection_guard ?rt (memory_ops ?rt) busy_env ?cand ''school-1'' ''learner-1'' n
      (busy_store (6 - n)) = (Inl (EngineError ConcurrencyConflict
        ''The learner event stream changed repeatedly; retry the command.''), busy_store 6)"
    if "n \<le> 5" for n
    using that
  proof (induction n)
    case (Suc n)
    define k where "k = 6 - Suc n"
    have k: "1 \<le> k" "k \<le> 5" "6 - n = Suc k" using Suc.prems by (simp_all add: k_def)
    have list: "st_list (memory_ops ?rt) ''school-1'' ''learner-1'' (busy_store j) = busy_stream j" if "j \<le> 7" for j
      using busy_store_list [OF that] by (simp add: memory_ops_def)
    have inv: "memory_inv (busy_store j)" if "j \<le> 7" for j
      using busy_store_ok [OF that] by (simp add: engine_inv_def)
    have unknown: "\<not> list_ex (\<lambda>e. e_key e = e_key ?cand) (busy_stream k)"
      using fresh [of k] k by (force simp: list_ex_iff)
    have "busy_event k \<in> set (busy_stream k)" using k by (simp add: busy_stream_def)
    then have "1 \<le> next_sequence (busy_stream k)" using next_sequence_greater k by fastforce
    then have "wf_event (with_sequence ?cand (next_sequence (busy_stream k)))"
      by (intro command_event_wf sample_sha ok) (simp_all add: sample_now_def)
    then have stream: "stream_ok ?rt ''school-1'' ''learner-1''
        (busy_stream k @ [with_sequence ?cand (next_sequence (busy_stream k))])"
      using busy_stream_ok [of k] busy_enrollable [of k] k next_sequence_greater [of _ "busy_stream k"]
      by (simp add: stream_ok_snoc admissible_def visit_payload_def command_to_event_def sample_command_def)
    obtain P where P: "project_learning_events ?rt (busy_stream k
        @ [with_sequence ?cand (next_sequence (busy_stream k))]) ''school-1'' ''learner-1'' = Inr P"
      using accepted_stream [OF stream_ok_sorted [OF stream]] stream by blast
    have conflict: "st_append (memory_ops ?rt) ?cand (length (busy_stream k)) (busy_store (Suc k))
        = (Inl (EngineError ConcurrencyConflict
            ''The learner event stream changed before the command could append.''), busy_store (Suc k))"
      by (rule memory.append_conflict [OF inv]) (use fresh [of "Suc k"] list [of "Suc k"] k in simp_all)
    have kn: "6 - Suc n = k" and lk: "st_list (memory_ops ?rt) ''school-1'' ''learner-1'' (busy_store k)
        = busy_stream k" using list [of k] k by (simp_all add: k_def)
    have rest: "append_with_projection_guard ?rt (memory_ops ?rt) busy_env ?cand ''school-1'' ''learner-1'' n
        (busy_store (Suc k)) = (Inl (EngineError ConcurrencyConflict
          ''The learner event stream changed repeatedly; retry the command.''), busy_store 6)"
      using Suc k(3) by simp
    show ?case
      unfolding kn append_with_projection_guard.simps lk Let_def busy_env_step [OF k(1,2)] conflict P
      using unknown rest by simp
  qed simp
  have "append_with_projection_guard ?rt (memory_ops ?rt) busy_env ?cand (c_installation ?c) (c_learner ?c) 5
      (busy_store 1) = (Inl (EngineError ConcurrencyConflict
        ''The learner event stream changed repeatedly; retry the command.''), busy_store 6)"
    using lose [of 5] by simp
  then have ex: "execute ?rt (memory_ops ?rt) busy_env sample_now ?c sample_access (busy_store 1)
      = (Inl (EngineError ConcurrencyConflict
        ''The learner event stream changed repeatedly; retry the command.''), busy_store 6)"
    unfolding memory.execute_accepted [OF ok] by simp
  from execute_gives_up_late [OF busy_env_polite busy_store_ok ex] busy_store_list [of 1] ex
  show ?thesis by simp
qed


lemma enroll_into_empty:
  assumes st: "engine_inv sample_runtime st" and empty: "memory_list ''school-1'' ''learner-1'' st = []"
    and n: "sample_ids n" and p: "wf_payload (PathEnroll p)"
  shows "\<exists>r st' ev. memory_execute sample_runtime sample_now (sample_command n (PathEnroll p)) sample_access st
      = (Inr r, st') \<and> engine_inv sample_runtime st' \<and> memory_list ''school-1'' ''learner-1'' st' = [ev]
    \<and> e_payload ev = PathEnroll p \<and> e_key ev = ''idempotency-key-'' @ nat_text n"
proof -
  let ?c = "sample_command n (PathEnroll p)"
  let ?ev = "with_sequence (command_candidate sample_runtime sample_now ?c) 1"
  note ok = sample_command_ok [OF n p]
  have "wf_event ?ev" by (intro command_event_wf sample_sha ok) (simp_all add: sample_now_def)
  then have "stream_ok sample_runtime ''school-1'' ''learner-1'' ([] @ [?ev])"
    unfolding stream_ok_snoc by (simp add: admissible_def same_enrollment_def command_to_event_def)
  moreover have "\<not> duplicate_attempt (command_candidate sample_runtime sample_now ?c) []"
    "\<not> duplicate_correction (command_candidate sample_runtime sample_now ?c) []"
    by (simp_all add: duplicate_attempt_def duplicate_correction_def)
  moreover have "c_key ?c \<notin> e_key ` set ([] :: learning_event list)" by simp
  moreover have "[] = memory_list (c_installation ?c) (c_learner ?c) st" using empty by simp
  moreover have "?ev = with_sequence (command_candidate sample_runtime sample_now ?c) (next_sequence [])"
    by (simp add: next_sequence_def)
  ultimately have "\<exists>r st'. memory_execute sample_runtime sample_now ?c sample_access st = (Inr r, st')
      \<and> engine_inv sample_runtime st' \<and> memory_list ''school-1'' ''learner-1'' st' = [] @ [?ev]"
    using execute_fresh_command [OF ok st] by (metis sample_command_sel(1,2))
  then show ?thesis by auto
qed

text \<open>A stream that visits a module of a path it never enrolled in.\<close>

definition orphan_store :: memory where
  "orphan_store = [scope_key ''school-1'' ''learner-1'' \<mapsto> [sample_event 1 visit_payload]]"

lemma visit_alone_broken:
  assumes "e_payload e = visit_payload" and "\<not> enrollable (since_import es) ''path-a'' (e_content e) ''module-a''"
  shows "\<not> stream_ok rt i l (es @ [e])"
  using assms by (simp add: stream_ok_snoc admissible_def visit_payload_def)

theorem broken_stream_blocks_witness:
  "\<exists>x. fst (memory_execute sample_runtime sample_now (sample_command 2 import_payload_1) sample_access
     orphan_store) = Inl x"
proof -
  have "wf_event (sample_event 1 visit_payload)"
    by (rule sample_event_wf [THEN iffD2]) (simp_all del: One_nat_def)
  then have inv: "memory_inv orphan_store"
    by (simp add: memory_inv_def orphan_store_def stored_def stream_inv_def visit_payload_def)
  have "memory_list ''school-1'' ''learner-1'' orphan_store = [] @ [sample_event 1 visit_payload]"
    by (simp add: memory_list_def stored_def orphan_store_def)
  moreover have "\<not> stream_ok sample_runtime ''school-1'' ''learner-1'' ([] @ [sample_event 1 visit_payload])"
    by (rule visit_alone_broken) (simp_all add: enrollable_def)
  ultimately show ?thesis using broken_stream_blocks [OF inv, of sample_runtime] by simp
qed

text \<open>Between the list and the append of one command, another path replaces the learner's record.\<close>

definition path_b_payload :: path_payload where
  "path_b_payload = \<lparr>pp_path = ''path-b'', pp_title = ''Path B'', pp_modules = [''module-b''],
     pp_badge = sample_badge\<rparr>"

definition replacing_env :: "nat \<Rightarrow> memory \<Rightarrow> memory" where
  "replacing_env k st = (if k = 4 then snd (memory_execute sample_runtime sample_now
      (sample_command 2 (PathEnroll path_b_payload)) sample_access
      (snd (memory_delete ''school-1'' ''learner-1'' st))) else st)"


lemma replacing_env_result:
  "\<exists>ev. engine_inv sample_runtime (replacing_env 4 sample_store)
    \<and> memory_list ''school-1'' ''learner-1'' (replacing_env 4 sample_store) = [ev]
    \<and> e_payload ev = PathEnroll path_b_payload \<and> e_key ev = ''idempotency-key-'' @ nat_text 2"
proof -
  let ?st = "snd (memory_delete ''school-1'' ''learner-1'' sample_store)"
  have empty_st: "?st = (\<lambda>_. None)" by (simp add: memory_delete_def Let_def sample_store_def)
  have none: "memory_list ''school-1'' ''learner-1'' (\<lambda>_. None) = []" by (simp add: memory_list_def stored_def)
  have "wf_payload (PathEnroll path_b_payload)"
    using sample_payloads_wf(1) unfolding enroll_payload_def path_b_payload_def by (simp; code_simp)
  then obtain r st' ev where "memory_execute sample_runtime sample_now (sample_command 2 (PathEnroll path_b_payload))
      sample_access ?st = (Inr r, st')" "engine_inv sample_runtime st'"
      "memory_list ''school-1'' ''learner-1'' st' = [ev]" "e_payload ev = PathEnroll path_b_payload"
      "e_key ev = ''idempotency-key-'' @ nat_text 2"
    using enroll_into_empty [OF engine_inv_empty none sample_ids_ok(2), of path_b_payload]
    unfolding empty_st by blast
  then show ?thesis by (simp add: replacing_env_def)
qed
lemma guard_first_try:
  assumes "st_list ops i l s = es" and "\<not> list_ex (\<lambda>e. e_key e = e_key c) es"
    and "project_learning_events rt (es @ [with_sequence c (next_sequence es)]) i l = Inr P"
    and "st_append ops c (length es) (env n s) = (Inr r, s')"
  shows "append_with_projection_guard rt ops env c i l (Suc n) s = (Inr r, s')"
  unfolding append_with_projection_guard.simps(2) assms(1) Let_def using assms(2-4) by simp

text \<open>
  The guard compares lengths only, so a deletion defeats it. Between the list and the append of
  one command the learner's record is deleted and one other path is enrolled in: the stream has
  the old length again, the visit that was checked against the old stream is appended, and the
  stored stream no longer projects. Each writer alone keeps every stream acceptable.
\<close>

theorem deletion_defeats_guard:
  "\<exists>r st' e1 e2. append_with_projection_guard sample_runtime (memory_ops sample_runtime) replacing_env
      (command_candidate sample_runtime sample_now (sample_command 3 visit_payload))
      ''school-1'' ''learner-1'' 5 sample_store = (Inr r, st')
    \<and> engine_inv sample_runtime sample_store \<and> engine_inv sample_runtime (replacing_env 4 sample_store)
    \<and> memory_list ''school-1'' ''learner-1'' st' = [e1, e2]
    \<and> e_payload e1 = PathEnroll path_b_payload \<and> e_payload e2 = visit_payload
    \<and> \<not> stream_ok sample_runtime ''school-1'' ''learner-1'' [e1, e2]"
proof -
  let ?rt = sample_runtime and ?c = "sample_command 3 visit_payload"
  let ?cand = "command_candidate ?rt sample_now ?c" and ?old = "[sample_event 1 enroll_payload]"
  let ?mid = "replacing_env 4 sample_store"
  note ok = sample_command_ok [OF sample_ids_ok(3) sample_payloads_wf(2)]
  obtain e1 where mid: "engine_inv ?rt ?mid" "memory_list ''school-1'' ''learner-1'' ?mid = [e1]"
    "e_payload e1 = PathEnroll path_b_payload" "e_key e1 = ''idempotency-key-'' @ nat_text 2"
    using replacing_env_result by blast
  have wf: "wf_event (with_sequence ?cand 2)"
    by (intro command_event_wf sample_sha ok) (simp_all add: sample_now_def)
  have visited: "e_payload (with_sequence ?cand n) = visit_payload" "e_content (with_sequence ?cand n) = ''1.0.0''"
    "e_installation (with_sequence ?cand n) = ''school-1''" "e_learner (with_sequence ?cand n) = ''learner-1''"
    "e_key ?cand = ''idempotency-key-'' @ nat_text 3" for n by (simp_all add: command_to_event_def)
  have old: "busy_stream 1 = ?old" by (simp add: busy_stream_def busy_event_def)
  then have next_old: "next_sequence ?old = 2" "st_list (memory_ops ?rt) ''school-1'' ''learner-1'' sample_store = ?old"
    by (simp_all add: next_sequence_def memory_ops_def sample_store_list)
  have "stream_ok ?rt ''school-1'' ''learner-1'' (?old @ [with_sequence ?cand 2])"
    using busy_stream_ok [of 1 ?rt] wf busy_enrollable [of 1] visited(1,2)
    unfolding old stream_ok_snoc by (simp add: admissible_def visit_payload_def)
  moreover have "sorted_wrt (<) (map e_sequence (?old @ [with_sequence ?cand 2]))" by simp
  ultimately obtain P where P: "project_learning_events ?rt (?old @ [with_sequence ?cand 2]) ''school-1'' ''learner-1'' = Inr P"
    using accepted_stream by blast
  have keys: "nat_text 1 \<noteq> nat_text 3" "nat_text 2 \<noteq> nat_text 3" by code_simp+
  have inv: "memory_inv ?mid" using mid(1) by (simp add: engine_inv_def)
  have list: "[e1] = st_list (memory_ops ?rt) (e_installation ?cand) (e_learner ?cand) ?mid"
    using mid(2) by (simp add: memory_ops_def command_to_event_def)
  have e1: "next_sequence [e1] = 2"
    using next_sequence_stream [of "scope_key ''school-1'' ''learner-1''" "[e1]"] mid(2) inv
    by (simp add: memory_list_stored memory_inv_def) metis
  obtain st' where ap: "st_append (memory_ops ?rt) ?cand (length ?old) ?mid
      = (Inr \<lparr>ar_event = with_sequence ?cand 2, ar_replayed = False\<rparr>, st')"
    using memory.append_accepts [OF inv list, of 1] keys mid(4) visited(5) wf e1
    by (auto simp: duplicate_attempt_def duplicate_correction_def visit_payload_def command_to_event_def)
  have scope: "e_installation ?cand = ''school-1''" "e_learner ?cand = ''learner-1''"
    by (simp_all add: command_to_event_def)
  have "st_list (memory_ops ?rt) (e_installation ?cand) (e_learner ?cand) st' = [e1, with_sequence ?cand 2]"
    using memory.append_new [OF inv list ap, THEN conjunct2, THEN conjunct2, THEN conjunct2, THEN conjunct2,
        THEN conjunct2] by (simp only: append_result.simps not_False_eq_True append.simps)
  then have stored': "memory_list ''school-1'' ''learner-1'' st' = [e1, with_sequence ?cand 2]"
    unfolding scope by (simp only: memory_ops_def store_ops.simps)
  have unknown: "\<not> list_ex (\<lambda>e. e_key e = e_key ?cand) ?old" unfolding visited using keys by simp
  have P': "project_learning_events ?rt (?old @ [with_sequence ?cand (next_sequence ?old)]) ''school-1'' ''learner-1'' = Inr P"
    unfolding next_old(1) by (rule P)
  have "append_with_projection_guard ?rt (memory_ops ?rt) replacing_env ?cand ''school-1'' ''learner-1'' (Suc 4) sample_store
      = (Inr \<lparr>ar_event = with_sequence ?cand 2, ar_replayed = False\<rparr>, st')"
    by (rule guard_first_try [where env = replacing_env, OF next_old(2) unknown P' ap])
  then have "append_with_projection_guard ?rt (memory_ops ?rt) replacing_env ?cand ''school-1'' ''learner-1'' 5 sample_store
      = (Inr \<lparr>ar_event = with_sequence ?cand 2, ar_replayed = False\<rparr>, st')"
    by (simp only: eval_nat_numeral)
  moreover have "\<not> stream_ok ?rt ''school-1'' ''learner-1'' ([e1] @ [with_sequence ?cand 2])"
    by (rule visit_alone_broken) (use visited mid(3) in
      \<open>simp_all add: enrollable_def since_import_def enrolls_def path_b_payload_def\<close>)
  ultimately show ?thesis using sample_store_ok mid(1,3) stored' visited(1)
    by (intro exI conjI) (assumption | simp)+
qed

end
