(* ===== verification/Provisioning_Contract.thy ===== *)
theory Provisioning_Contract
  imports Catalog_Check
begin

text \<open>
  The contract of identity provisioning (\<open>src/identity-provisioning.ts\<close>): plans, records and
  provider compatibility with their validators, the lifecycle, drift and readiness. A union of string literals that a
  validator tests at run time is a string, so that the test is not vacuous; the flags of an observation,
  which are tested with \<open>typeof\<close>, are JSON values. The field \<open>..._extra\<close> of a record holds the own properties that its
  interface does not declare, after those it does, so that the tests for unknown and forbidden
  fields are not vacuous either. \<open>new URL\<close> is the parameter \<open>parse_url\<close>, \<open>None\<close> when it throws.
\<close>

section \<open>Data\<close>

definition provisioning_modes :: "string list" where
  "provisioning_modes = [''api'', ''resumable-owner-gate'', ''preconfigured'']"

definition provisioning_operations :: "string list" where
  "provisioning_operations = [''create'', ''validate'', ''observe'', ''reconcile'', ''rotate'', ''recover'', ''disable'',
     ''retire'']"

definition provisioning_states :: "string list" where
  "provisioning_states = [''planned'', ''preflight'', ''awaiting-authority'', ''provisioning'', ''secret-pending'',
     ''validating'', ''ready'', ''rotating'', ''disabled'', ''failed'', ''recovering'', ''retired'']"

definition client_kinds :: "string list" where
  "client_kinds = [''browser-public'', ''api-confidential'', ''identity-link-confidential'']"

definition provisioning_authorities :: "string list" where
  "provisioning_authorities = [''deployment-owner'', ''tenant-admin'', ''organization-admin'',
     ''provider-account-holder'', ''operator'']"

definition provisioning_actors :: "string list" where
  "provisioning_actors = ''automation'' # provisioning_authorities"

record authority_boundary =
  ib_kind :: string
  ib_digest :: string
  ib_extra :: "(string \<times> json) list"

record prov_provider =
  iv_id :: string
  iv_version :: string
  iv_mode :: string
  iv_issuer :: string
  iv_boundary :: authority_boundary
  iv_capabilities :: "string list"
  iv_extra :: "(string \<times> json) list"

record prov_client =
  ic_ref :: string
  ic_kind :: string
  ic_redirects :: "string list"
  ic_logouts :: "string list"
  ic_origins :: "string list"
  ic_grants :: "string list"
  ic_auth :: string
  ic_pkce :: bool
  ic_scopes :: "string list"
  ic_permissions :: "string list"
  ic_extra :: "(string \<times> json) list"

record secret_policy =
  iy_required :: bool
  iy_manager :: string
  iy_interval :: "jsnum option"
  iy_overlap :: bool
  iy_extra :: "(string \<times> json) list"

record prov_plan =
  ip_schema :: string
  ip_plan :: string
  ip_installation :: string
  ip_created :: string
  ip_digest :: string
  ip_provider :: prov_provider
  ip_client :: prov_client
  ip_policy :: secret_policy
  ip_extra :: "(string \<times> json) list"

record continuation =
  ig_gate :: string
  ig_authority :: string
  ig_reason :: string
  ig_digest :: string
  ig_url :: string
  ig_expires :: string
  ig_status :: string
  ig_extra :: "(string \<times> json) list"

record secret_reference =
  ix_manager :: string
  ix_secret :: string
  ix_version :: string
  ix_digest :: string
  ix_status :: string
  ix_created :: string
  ix_expires :: "string option"
  ix_extra :: "(string \<times> json) list"

record observation =
  io_at :: string
  io_client :: string
  io_digest :: string
  io_ownership :: json
  io_issuer :: json
  io_callbacks :: json
  io_permissions :: json
  io_credential :: json
  io_enabled :: json
  io_extra :: "(string \<times> json) list"

record drift =
  dr_code :: string
  dr_severity :: string
  dr_critical :: bool
  dr_path :: string
  dr_extra :: "(string \<times> json) list"

record audit_event =
  ia_sequence :: jsnum
  ia_at :: string
  ia_type :: string
  ia_actor :: string
  ia_result :: string
  ia_correlation :: string
  ia_detail :: string
  ia_extra :: "(string \<times> json) list"

record rollback =
  il_allowed :: bool
  il_state :: "string option"
  il_reason :: string
  il_digest :: "string option"
  il_extra :: "(string \<times> json) list"

record prov_error =
  ie_code :: string
  ie_retryable :: bool
  ie_after :: "string option"
  ie_message :: string
  ie_extra :: "(string \<times> json) list"

record prov_record =
  ir_schema :: string
  ir_id :: string
  ir_plan :: string
  ir_client :: string
  ir_key :: string
  ir_operation :: string
  ir_state :: string
  ir_attempt :: jsnum
  ir_started :: string
  ir_updated :: string
  ir_continuation :: "continuation option"
  ir_secret :: "secret_reference option"
  ir_observation :: "observation option"
  ir_drift :: "drift list"
  ir_audit :: "audit_event list"
  ir_rollback :: rollback
  ir_error :: "prov_error option"
  ir_extra :: "(string \<times> json) list"

record authority_gate =
  ih_operation :: string
  ih_authority :: string
  ih_interactive :: bool
  ih_reason :: string
  ih_extra :: "(string \<times> json) list"

record compatibility =
  ik_schema :: string
  ik_provider :: string
  ik_version :: string
  ik_reviewed :: string
  ik_sources :: "string list"
  ik_modes :: "string list"
  ik_operations :: "string list"
  ik_clients :: "string list"
  ik_gates :: "authority_gate list"
  ik_secrets :: "string list"
  ik_overlap :: bool
  ik_registration :: bool
  ik_recovery :: bool
  ik_extra :: "(string \<times> json) list"

section \<open>The values as JSON objects\<close>

definition strings_json :: "string list \<Rightarrow> json" where
  "strings_json xs = JArr (map JStr xs)"

definition nullable :: "('a \<Rightarrow> json) \<Rightarrow> 'a option \<Rightarrow> json" where
  "nullable f x = (case x of None \<Rightarrow> JNull | Some v \<Rightarrow> f v)"

definition boundary_json :: "authority_boundary \<Rightarrow> json" where
  "boundary_json b = JObj ([(''kind'', JStr (ib_kind b)), (''referenceDigest'', JStr (ib_digest b))] @ ib_extra b)"

definition provider_json :: "prov_provider \<Rightarrow> json" where
  "provider_json p = JObj ([(''id'', JStr (iv_id p)), (''adapterVersion'', JStr (iv_version p)),
     (''mode'', JStr (iv_mode p)), (''issuer'', JStr (iv_issuer p)),
     (''authorityBoundary'', boundary_json (iv_boundary p)),
     (''capabilities'', strings_json (iv_capabilities p))] @ iv_extra p)"

definition client_json :: "prov_client \<Rightarrow> json" where
  "client_json c = JObj ([(''clientRef'', JStr (ic_ref c)), (''clientKind'', JStr (ic_kind c)),
     (''redirectUris'', strings_json (ic_redirects c)), (''postLogoutRedirectUris'', strings_json (ic_logouts c)),
     (''allowedOrigins'', strings_json (ic_origins c)), (''grantTypes'', strings_json (ic_grants c)),
     (''tokenEndpointAuthMethod'', JStr (ic_auth c)), (''pkceRequired'', JBool (ic_pkce c)),
     (''scopes'', strings_json (ic_scopes c)), (''permissions'', strings_json (ic_permissions c))] @ ic_extra c)"

definition policy_json :: "secret_policy \<Rightarrow> json" where
  "policy_json p = JObj ([(''required'', JBool (iy_required p)), (''secretManagerRef'', JStr (iy_manager p)),
     (''rotationIntervalDays'', nullable JNum (iy_interval p)), (''overlapRequired'', JBool (iy_overlap p))]
     @ iy_extra p)"

definition plan_json :: "prov_plan \<Rightarrow> json" where
  "plan_json p = JObj ([(''schemaVersion'', JStr (ip_schema p)), (''planId'', JStr (ip_plan p)),
     (''installationRef'', JStr (ip_installation p)), (''createdAt'', JStr (ip_created p)),
     (''desiredStateDigest'', JStr (ip_digest p)), (''provider'', provider_json (ip_provider p)),
     (''client'', client_json (ip_client p)), (''secretPolicy'', policy_json (ip_policy p))] @ ip_extra p)"

definition continuation_json :: "continuation \<Rightarrow> json" where
  "continuation_json c = JObj ([(''gateId'', JStr (ig_gate c)), (''requiredAuthority'', JStr (ig_authority c)),
     (''reasonCode'', JStr (ig_reason c)), (''continuationDigest'', JStr (ig_digest c)),
     (''providerActionUrl'', JStr (ig_url c)), (''expiresAt'', JStr (ig_expires c)), (''status'', JStr (ig_status c))]
     @ ig_extra c)"

definition secret_json :: "secret_reference \<Rightarrow> json" where
  "secret_json s = JObj ([(''secretManagerRef'', JStr (ix_manager s)), (''secretRef'', JStr (ix_secret s)),
     (''versionRef'', JStr (ix_version s)), (''valueDigest'', JStr (ix_digest s)), (''status'', JStr (ix_status s)),
     (''createdAt'', JStr (ix_created s)), (''expiresAt'', nullable JStr (ix_expires s))] @ ix_extra s)"

definition observation_json :: "observation \<Rightarrow> json" where
  "observation_json v = JObj ([(''observedAt'', JStr (io_at v)), (''providerClientRefDigest'', JStr (io_client v)),
     (''observedStateDigest'', JStr (io_digest v)), (''ownershipVerified'', io_ownership v),
     (''issuerVerified'', io_issuer v), (''callbacksVerified'', io_callbacks v),
     (''permissionsVerified'', io_permissions v), (''credentialVerified'', io_credential v),
     (''clientEnabled'', io_enabled v)] @ io_extra v)"

definition drift_json :: "drift \<Rightarrow> json" where
  "drift_json d = JObj ([(''code'', JStr (dr_code d)), (''severity'', JStr (dr_severity d)),
     (''securityCritical'', JBool (dr_critical d)), (''path'', JStr (dr_path d))] @ dr_extra d)"

definition audit_json :: "audit_event \<Rightarrow> json" where
  "audit_json a = JObj ([(''sequence'', JNum (ia_sequence a)), (''occurredAt'', JStr (ia_at a)),
     (''eventType'', JStr (ia_type a)), (''actor'', JStr (ia_actor a)), (''result'', JStr (ia_result a)),
     (''correlationId'', JStr (ia_correlation a)), (''detailCode'', JStr (ia_detail a))] @ ia_extra a)"

definition rollback_json :: "rollback \<Rightarrow> json" where
  "rollback_json r = JObj ([(''allowed'', JBool (il_allowed r)), (''restoreState'', nullable JStr (il_state r)),
     (''reasonCode'', JStr (il_reason r)), (''snapshotDigest'', nullable JStr (il_digest r))] @ il_extra r)"

definition error_json :: "prov_error \<Rightarrow> json" where
  "error_json e = JObj ([(''code'', JStr (ie_code e)), (''retryable'', JBool (ie_retryable e)),
     (''retryAfter'', nullable JStr (ie_after e)), (''publicMessage'', JStr (ie_message e))] @ ie_extra e)"

definition record_json :: "prov_record \<Rightarrow> json" where
  "record_json r = JObj ([(''schemaVersion'', JStr (ir_schema r)), (''operationId'', JStr (ir_id r)),
     (''planId'', JStr (ir_plan r)), (''clientRef'', JStr (ir_client r)), (''idempotencyKey'', JStr (ir_key r)),
     (''operation'', JStr (ir_operation r)), (''state'', JStr (ir_state r)), (''attempt'', JNum (ir_attempt r)),
     (''startedAt'', JStr (ir_started r)), (''updatedAt'', JStr (ir_updated r)),
     (''continuation'', nullable continuation_json (ir_continuation r)),
     (''secret'', nullable secret_json (ir_secret r)),
     (''observation'', nullable observation_json (ir_observation r)),
     (''drift'', JArr (map drift_json (ir_drift r))), (''audit'', JArr (map audit_json (ir_audit r))),
     (''rollback'', rollback_json (ir_rollback r)), (''error'', nullable error_json (ir_error r))] @ ir_extra r)"

definition gate_json :: "authority_gate \<Rightarrow> json" where
  "gate_json g = JObj ([(''operation'', JStr (ih_operation g)), (''requiredAuthority'', JStr (ih_authority g)),
     (''interactive'', JBool (ih_interactive g)), (''reasonCode'', JStr (ih_reason g))] @ ih_extra g)"

definition compatibility_json :: "compatibility \<Rightarrow> json" where
  "compatibility_json k = JObj ([(''schemaVersion'', JStr (ik_schema k)), (''provider'', JStr (ik_provider k)),
     (''adapterVersion'', JStr (ik_version k)), (''evidenceReviewedAt'', JStr (ik_reviewed k)),
     (''evidenceSources'', strings_json (ik_sources k)), (''modes'', strings_json (ik_modes k)),
     (''operations'', strings_json (ik_operations k)), (''clientKinds'', strings_json (ik_clients k)),
     (''authorityGates'', JArr (map gate_json (ik_gates k))), (''secretKinds'', strings_json (ik_secrets k)),
     (''overlappingRotation'', JBool (ik_overlap k)), (''registrationManagement'', JBool (ik_registration k)),
     (''recovery'', JBool (ik_recovery k))] @ ik_extra k)"

end
