(* ===== verification/Provisioning_Check.thy ===== *)
theory Provisioning_Check
  imports Provisioning_Contract Learning_Events
begin

text \<open>
  The operations of \<open>src/identity-provisioning.ts\<close>: the lifecycle, the drift between a plan and an observation,
  readiness, and the three validators. A validator returns the list of its messages, in the code's order.
\<close>

section \<open>Lifecycle\<close>

definition prov_transitions :: "(string \<times> string list) list" where
  "prov_transitions =
    [(''planned'', [''preflight'', ''retired'']),
     (''preflight'', [''awaiting-authority'', ''provisioning'', ''validating'', ''failed'', ''retired'']),
     (''awaiting-authority'', [''provisioning'', ''failed'', ''retired'']),
     (''provisioning'', [''secret-pending'', ''validating'', ''disabled'', ''failed'', ''recovering'', ''retired'']),
     (''secret-pending'', [''validating'', ''failed'', ''recovering'']),
     (''validating'', [''ready'', ''disabled'', ''failed'', ''recovering'']),
     (''ready'', [''validating'', ''rotating'', ''disabled'', ''failed'', ''retired'']),
     (''rotating'', [''validating'', ''ready'', ''failed'', ''recovering'']),
     (''disabled'', [''validating'', ''ready'', ''recovering'', ''retired'']),
     (''failed'', [''preflight'', ''recovering'', ''retired'']),
     (''recovering'', [''preflight'', ''validating'', ''ready'', ''failed'', ''retired'']),
     (''retired'', [])]"

definition can_transition_state :: "string \<Rightarrow> string \<Rightarrow> bool" where
  "can_transition_state s t = (case map_of prov_transitions s of None \<Rightarrow> False | Some ts \<Rightarrow> t \<in> set ts)"

section \<open>Drift\<close>

definition verification_drift :: "json \<Rightarrow> string \<Rightarrow> string \<Rightarrow> drift list" where
  "verification_drift verified code path =
     (if truthy verified then []
      else [\<lparr>dr_code = code, dr_severity = ''security'', dr_critical = True, dr_path = path, dr_extra = []\<rparr>])"

definition operational_drift :: "bool \<Rightarrow> string \<Rightarrow> string \<Rightarrow> drift list" where
  "operational_drift b code path =
     (if b then [\<lparr>dr_code = code, dr_severity = ''operational'', dr_critical = False, dr_path = path, dr_extra = []\<rparr>]
      else [])"

definition assess_drift :: "prov_plan \<Rightarrow> observation \<Rightarrow> drift list" where
  "assess_drift plan obs =
     operational_drift (ip_digest plan \<noteq> io_digest obs) ''state-digest-mismatch'' ''/desiredStateDigest''
     @ verification_drift (io_ownership obs) ''ownership-unverified'' ''/provider/authorityBoundary''
     @ verification_drift (io_issuer obs) ''issuer-mismatch'' ''/provider/issuer''
     @ verification_drift (io_callbacks obs) ''callback-mismatch'' ''/client/redirectUris''
     @ verification_drift (io_permissions obs) ''permission-mismatch'' ''/client/permissions''
     @ verification_drift (io_credential obs) ''credential-unusable'' ''/secretPolicy''
     @ operational_drift (\<not> truthy (io_enabled obs)) ''client-disabled'' ''/provider/clientEnabled''"

section \<open>Readiness\<close>

definition message_if :: "bool \<Rightarrow> string \<Rightarrow> string list" where
  "message_if b m = (if b then [m] else [])"

record readiness =
  rd_ready :: bool
  rd_blockers :: "string list"

definition readiness_blockers :: "prov_plan \<Rightarrow> prov_record \<Rightarrow> string list" where
  "readiness_blockers plan r =
     message_if (ir_plan r \<noteq> ip_plan plan \<or> ir_client r \<noteq> ic_ref (ip_client plan))
       ''record does not belong to the plan and client''
     @ message_if (ir_state r \<noteq> ''ready'') ''provisioning state is not ready''
     @ (case ir_error r of None \<Rightarrow> [] | Some e \<Rightarrow> [''operation error: '' @ ie_code e])
     @ (case ir_observation r of None \<Rightarrow> [''post-registration observation is missing'']
        | Some obs \<Rightarrow> map (\<lambda>d. ''drift: '' @ dr_code d) (assess_drift plan obs))
     @ (case ir_continuation r of None \<Rightarrow> []
        | Some c \<Rightarrow> message_if (ig_status c \<noteq> ''approved'') (''authority gate is '' @ ig_status c))
     @ message_if (iy_required (ip_policy plan)
         \<and> (case ir_secret r of None \<Rightarrow> True | Some s \<Rightarrow> ix_status s \<noteq> ''active''))
       ''active secret reference is missing''
     @ message_if (list_ex dr_critical (ir_drift r)) ''security-critical drift is unresolved''"

definition evaluate_readiness :: "prov_plan \<Rightarrow> prov_record \<Rightarrow> readiness" where
  "evaluate_readiness plan r = (let blockers = readiness_blockers plan r
     in \<lparr>rd_ready = (blockers = []), rd_blockers = js_unique blockers\<rparr>)"

section \<open>Texts\<close>

definition prov_stable_id :: "string \<Rightarrow> bool" where
  "prov_stable_id s \<longleftrightarrow> (case s of [] \<Rightarrow> False
     | c # cs \<Rightarrow> alnum_char c \<and> list_all id_char cs \<and> 2 \<le> length cs \<and> length cs \<le> 255)"

definition prov_idempotency_key :: "string \<Rightarrow> bool" where
  "prov_idempotency_key s \<longleftrightarrow> (case s of [] \<Rightarrow> False
     | c # cs \<Rightarrow> alnum_char c \<and> list_all id_char cs \<and> 15 \<le> length cs \<and> length cs \<le> 255)"

definition code_char :: "char \<Rightarrow> bool" where
  "code_char c \<longleftrightarrow> slug_char c \<or> c = CHR ''-''"

definition letter_char :: "char \<Rightarrow> bool" where
  "letter_char c \<longleftrightarrow> 97 \<le> (of_char c :: nat) \<and> (of_char c :: nat) \<le> 122"

definition safe_code :: "string \<Rightarrow> bool" where
  "safe_code s \<longleftrightarrow> (case s of [] \<Rightarrow> False
     | c # cs \<Rightarrow> letter_char c \<and> list_all code_char cs \<and> 1 \<le> length cs \<and> length cs \<le> 127)"

text \<open>\<open>\d+\<close> and what follows it; digits followed by a full stop.\<close>

definition after_digits :: "string \<Rightarrow> string option" where
  "after_digits s = (if takeWhile digit_char s = [] then None else Some (dropWhile digit_char s))"

definition after_number_dot :: "string \<Rightarrow> string option" where
  "after_number_dot s = (case after_digits s of None \<Rightarrow> None
     | Some t \<Rightarrow> if t \<noteq> [] \<and> hd t = CHR ''.'' then Some (tl t) else None)"

definition prov_version :: "string \<Rightarrow> bool" where
  "prov_version s = (case after_number_dot s of None \<Rightarrow> False
     | Some t \<Rightarrow> (case after_number_dot t of None \<Rightarrow> False
       | Some u \<Rightarrow> (case after_digits u of None \<Rightarrow> False
         | Some v \<Rightarrow> v = [] \<or> (hd v = CHR ''-'' \<and> tl v \<noteq> []
             \<and> list_all (\<lambda>c. alnum_char c \<or> c = CHR ''.'' \<or> c = CHR ''-'') (tl v)))))"

definition check_stable_id :: "string \<Rightarrow> string \<Rightarrow> string list" where
  "check_stable_id v label = message_if (\<not> prov_stable_id v) (label @ '' is invalid'')"

definition check_digest :: "string \<Rightarrow> string \<Rightarrow> string list" where
  "check_digest v label = message_if (\<not> digest_text v) (label @ '' must be a lowercase SHA-256 digest'')"

definition check_time :: "string \<Rightarrow> string \<Rightarrow> string list" where
  "check_time v label = message_if (\<not> parses_timestamp v) (label @ '' must be an ISO 8601 UTC timestamp'')"

definition check_contract_version :: "string \<Rightarrow> string list" where
  "check_contract_version v = message_if (v \<noteq> ''1.0'') ''unsupported identity-provisioning contract version''"

section \<open>Addresses\<close>

record url_parts =
  up_protocol :: string
  up_hostname :: string
  up_username :: string
  up_password :: string
  up_path :: string
  up_search :: string
  up_hash :: string

type_synonym url_parser = "string \<Rightarrow> url_parts option"

definition check_https_url :: "url_parser \<Rightarrow> string \<Rightarrow> string \<Rightarrow> bool \<Rightarrow> string list" where
  "check_https_url parse_url v label allow_loopback_http = (case parse_url v of
     None \<Rightarrow> [label @ '' must be a valid URL'']
   | Some u \<Rightarrow>
       message_if (up_protocol u \<noteq> ''https:'' \<and> \<not> (allow_loopback_http \<and> up_protocol u = ''http:''
           \<and> up_hostname u \<in> {''localhost'', ''127.0.0.1'', ''[::1]''}))
         (if allow_loopback_http then label @ '' must use HTTPS or explicit loopback HTTP'' else label @ '' must use HTTPS'')
       @ message_if (up_username u \<noteq> [] \<or> up_password u \<noteq> []) (label @ '' cannot contain URL credentials'')
       @ message_if (up_hash u \<noteq> []) (label @ '' cannot contain a fragment''))"

definition check_unique_urls :: "url_parser \<Rightarrow> string list \<Rightarrow> string \<Rightarrow> bool \<Rightarrow> bool \<Rightarrow> bool \<Rightarrow> string list" where
  "check_unique_urls parse_url vs label required origin_only allow_loopback_http =
     message_if (required \<and> vs = []) (''at least one '' @ label @ '' is required'')
     @ message_if (\<not> distinct vs) (label @ ''s must be unique'')
     @ concat (map (\<lambda>v. check_https_url parse_url v label allow_loopback_http
         @ (if origin_only then (case parse_url v of None \<Rightarrow> []
              | Some u \<Rightarrow> message_if (up_path u \<noteq> ''/'' \<or> up_search u \<noteq> [])
                  (label @ '' must be an exact origin without path or query'')) else [])) vs)"

definition check_unique_strings :: "string list \<Rightarrow> string \<Rightarrow> string list" where
  "check_unique_strings vs label = message_if (\<not> distinct vs) (label @ ''s must be unique'')
     @ concat (map (\<lambda>v. message_if (blank v \<or> 255 < length v \<or> list_ex space_char v) (label @ '' is invalid'')) vs)"

definition check_unique_enum :: "string list \<Rightarrow> string list \<Rightarrow> string \<Rightarrow> string list" where
  "check_unique_enum vs allowed label = message_if (vs = []) (''at least one '' @ label @ '' is required'')
     @ message_if (\<not> distinct vs) (label @ ''s must be unique'')
     @ concat (map (\<lambda>v. message_if (v \<notin> set allowed) (label @ '' is unsupported'')) vs)"

section \<open>Unknown and forbidden fields\<close>

definition check_known_keys :: "json \<Rightarrow> string list \<Rightarrow> string \<Rightarrow> string list" where
  "check_known_keys v allowed label =
     concat (map (\<lambda>k. message_if (k \<notin> set allowed) (label @ '' contains unsupported field: '' @ k)) (prop_keys v))"

definition forbidden_credential_keys :: "string list" where
  "forbidden_credential_keys = [''accesstoken'', ''clientsecret'', ''credentialvalue'', ''password'', ''privatekey'',
     ''refreshtoken'', ''secrettext'', ''secretvalue'', ''webhooksecret'']"

function forbidden_keys :: "json \<Rightarrow> string list" where
  "forbidden_keys (JArr xs) = concat (map forbidden_keys xs)"
| "forbidden_keys (JObj kvs) = concat (map (\<lambda>(k, v).
     message_if (to_lower k \<in> set forbidden_credential_keys) k @ forbidden_keys v) kvs)"
| "forbidden_keys JUndefined = []"
| "forbidden_keys JNull = []"
| "forbidden_keys (JBool b) = []"
| "forbidden_keys (JNum n) = []"
| "forbidden_keys (JStr s) = []"
  by pat_completeness auto
termination
proof (relation "measure size")
  show "(x, JArr xs) \<in> measure size" if "x \<in> set xs" for x xs
    using that by (induction xs) auto
next
  fix kvs :: "(string \<times> json) list" and z x y
  assume "z \<in> set kvs" and "(x, y) = z"
  then show "(y, JObj kvs) \<in> measure size"
    using size_json_member [of x y kvs] by auto
qed auto

definition check_forbidden_fields :: "json \<Rightarrow> string list" where
  "check_forbidden_fields v =
     map (\<lambda>k. ''contract contains forbidden credential field: '' @ k) (js_unique (forbidden_keys v))"

section \<open>Plans\<close>

definition check_client :: "url_parser \<Rightarrow> prov_client \<Rightarrow> string list" where
  "check_client parse_url c =
     check_known_keys (client_json c) [''clientRef'', ''clientKind'', ''redirectUris'', ''postLogoutRedirectUris'',
       ''allowedOrigins'', ''grantTypes'', ''tokenEndpointAuthMethod'', ''pkceRequired'', ''scopes'', ''permissions'']
       ''client''
     @ check_stable_id (ic_ref c) ''client reference''
     @ message_if (ic_kind c \<notin> set client_kinds) ''client kind is unsupported''
     @ check_unique_urls parse_url (ic_redirects c) ''redirect URI'' True False True
     @ check_unique_urls parse_url (ic_logouts c) ''post-logout redirect URI'' False False True
     @ check_unique_urls parse_url (ic_origins c) ''allowed origin'' True True True
     @ message_if (length (ic_grants c) \<noteq> 1 \<or> hd (ic_grants c) \<noteq> ''authorization_code'')
       ''only the authorization_code grant is supported''
     @ message_if (ic_auth c \<notin> {''none'', ''client_secret_basic'', ''client_secret_post'', ''private_key_jwt''})
       ''token endpoint authentication method is unsupported''
     @ (if ic_kind c = ''browser-public''
        then message_if (\<not> ic_pkce c) ''browser-public clients must require PKCE''
          @ message_if (ic_auth c \<noteq> ''none'') ''browser-public clients cannot use a client credential''
        else message_if (ic_auth c = ''none'') ''confidential clients require token endpoint authentication'')
     @ check_unique_strings (ic_scopes c) ''scope''
     @ check_unique_strings (ic_permissions c) ''permission''"

definition check_secret_policy :: "secret_policy \<Rightarrow> prov_client \<Rightarrow> string list" where
  "check_secret_policy p c =
     check_known_keys (policy_json p) [''required'', ''secretManagerRef'', ''rotationIntervalDays'', ''overlapRequired'']
       ''secret policy''
     @ check_stable_id (iy_manager p) ''secret manager reference''
     @ (case iy_interval p of None \<Rightarrow> []
        | Some n \<Rightarrow> message_if (\<not> is_integer (JNum n) \<or> num_less n (Fin 1) \<or> num_less (Fin 3650) n)
            ''secret rotation interval must be 1-3650 days or null'')
     @ message_if (iy_required p \<noteq> (ic_auth c \<noteq> ''none'')) ''secret policy must match the client authentication method''
     @ (if \<not> iy_required p
        then message_if (iy_interval p \<noteq> None \<or> iy_overlap p) ''credential-free clients cannot configure secret rotation''
        else message_if (iy_interval p = None) ''credentialed clients require a rotation interval'')"

definition plan_errors :: "url_parser \<Rightarrow> prov_plan \<Rightarrow> string list" where
  "plan_errors parse_url p =
     (let v = ip_provider p; b = iv_boundary v in
      check_forbidden_fields (plan_json p)
      @ check_known_keys (plan_json p) [''schemaVersion'', ''planId'', ''installationRef'', ''createdAt'',
          ''desiredStateDigest'', ''provider'', ''client'', ''secretPolicy''] ''plan''
      @ check_contract_version (ip_schema p)
      @ check_stable_id (ip_plan p) ''plan ID''
      @ check_stable_id (ip_installation p) ''installation reference''
      @ check_time (ip_created p) ''plan createdAt''
      @ check_digest (ip_digest p) ''desired state digest''
      @ check_known_keys (provider_json v) [''id'', ''adapterVersion'', ''mode'', ''issuer'', ''authorityBoundary'',
          ''capabilities''] ''provider''
      @ check_stable_id (iv_id v) ''provider ID''
      @ message_if (\<not> prov_version (iv_version v)) ''provider adapter version is invalid''
      @ message_if (iv_mode v \<notin> set provisioning_modes) ''provider mode is unsupported''
      @ check_https_url parse_url (iv_issuer v) ''provider issuer'' True
      @ check_known_keys (boundary_json b) [''kind'', ''referenceDigest''] ''authority boundary''
      @ message_if (ib_kind b \<notin> set provisioning_authorities) ''authority boundary kind is unsupported''
      @ check_digest (ib_digest b) ''authority boundary reference digest''
      @ check_unique_enum (iv_capabilities v) provisioning_operations ''provider capability''
      @ message_if (''validate'' \<notin> set (iv_capabilities v)) ''provider must support validation''
      @ check_client parse_url (ip_client p)
      @ check_secret_policy (ip_policy p) (ip_client p))"

definition validation_of :: "string list \<Rightarrow> validation_result" where
  "validation_of errors = \<lparr>vr_valid = (errors = []), vr_errors = errors\<rparr>"

definition validate_plan :: "url_parser \<Rightarrow> prov_plan \<Rightarrow> validation_result" where
  "validate_plan parse_url p = validation_of (plan_errors parse_url p)"

section \<open>Records\<close>

text \<open>\<open>Date.parse\<close> of a timestamp that the test has accepted.\<close>

definition time_of :: "string \<Rightarrow> int" where
  "time_of s = the (date_parse s)"

definition check_continuation :: "url_parser \<Rightarrow> continuation option \<Rightarrow> string \<Rightarrow> string list" where
  "check_continuation parse_url cont state = (case cont of None \<Rightarrow> [] | Some c \<Rightarrow>
     check_known_keys (continuation_json c) [''gateId'', ''requiredAuthority'', ''reasonCode'', ''continuationDigest'',
       ''providerActionUrl'', ''expiresAt'', ''status''] ''continuation''
     @ check_stable_id (ig_gate c) ''gate ID''
     @ message_if (ig_authority c \<notin> set provisioning_authorities) ''continuation authority is unsupported''
     @ message_if (\<not> safe_code (ig_reason c)) ''continuation reason code is invalid''
     @ check_digest (ig_digest c) ''continuation digest''
     @ check_https_url parse_url (ig_url c) ''provider action URL'' False
     @ check_time (ig_expires c) ''continuation expiresAt''
     @ message_if (ig_status c \<notin> {''pending'', ''approved'', ''denied'', ''expired'', ''cancelled''})
       ''continuation status is unsupported''
     @ message_if (state = ''awaiting-authority'' \<and> ig_status c \<noteq> ''pending'')
       ''awaiting-authority requires a pending continuation'')"

definition check_secret :: "secret_reference option \<Rightarrow> string list" where
  "check_secret secret = (case secret of None \<Rightarrow> [] | Some s \<Rightarrow>
     check_known_keys (secret_json s) [''secretManagerRef'', ''secretRef'', ''versionRef'', ''valueDigest'', ''status'',
       ''createdAt'', ''expiresAt''] ''secret reference''
     @ check_stable_id (ix_manager s) ''secret manager reference''
     @ check_stable_id (ix_secret s) ''secret reference''
     @ check_stable_id (ix_version s) ''secret version reference''
     @ check_digest (ix_digest s) ''secret value digest''
     @ message_if (ix_status s \<notin> {''pending'', ''active'', ''retiring'', ''revoked''}) ''secret status is unsupported''
     @ check_time (ix_created s) ''secret createdAt''
     @ (case ix_expires s of None \<Rightarrow> [] | Some t \<Rightarrow> check_time t ''secret expiresAt''
          @ message_if (parses_timestamp (ix_created s) \<and> parses_timestamp t \<and> time_of t \<le> time_of (ix_created s))
              ''secret expiresAt must follow createdAt''))"

text \<open>The loop over \<open>Object.entries\<close>: every flag, the undeclared ones that are named like one included.\<close>

definition check_observation :: "observation option \<Rightarrow> string list" where
  "check_observation observed = (case observed of None \<Rightarrow> [] | Some v \<Rightarrow>
     check_known_keys (observation_json v) [''observedAt'', ''providerClientRefDigest'', ''observedStateDigest'',
       ''ownershipVerified'', ''issuerVerified'', ''callbacksVerified'', ''permissionsVerified'', ''credentialVerified'',
       ''clientEnabled''] ''observation''
     @ check_time (io_at v) ''observation observedAt''
     @ check_digest (io_client v) ''provider client reference digest''
     @ check_digest (io_digest v) ''observed state digest''
     @ concat (map (\<lambda>(name, x). message_if ((ends_with name ''Verified'' \<or> name = ''clientEnabled'') \<and> \<not> is_boolean x)
         (name @ '' must be boolean''))
         ([(''observedAt'', JStr (io_at v)), (''providerClientRefDigest'', JStr (io_client v)),
           (''observedStateDigest'', JStr (io_digest v)), (''ownershipVerified'', io_ownership v),
           (''issuerVerified'', io_issuer v), (''callbacksVerified'', io_callbacks v),
           (''permissionsVerified'', io_permissions v), (''credentialVerified'', io_credential v),
           (''clientEnabled'', io_enabled v)] @ io_extra v)))"

definition drift_codes :: "string list" where
  "drift_codes = [''state-digest-mismatch'', ''ownership-unverified'', ''issuer-mismatch'', ''callback-mismatch'',
     ''permission-mismatch'', ''credential-unusable'', ''client-disabled'']"

definition check_finding :: "drift \<Rightarrow> string list \<Rightarrow> string list" where
  "check_finding d codes =
     check_known_keys (drift_json d) [''code'', ''severity'', ''securityCritical'', ''path''] ''drift finding''
     @ message_if (dr_code d \<notin> set drift_codes) ''drift code is unsupported''
     @ message_if (dr_code d \<in> set codes) (''duplicate drift code: '' @ dr_code d)
     @ message_if (dr_severity d \<notin> {''informational'', ''operational'', ''security''}) ''drift severity is unsupported''
     @ message_if (dr_critical d \<noteq> (dr_severity d = ''security'')) (dr_code d @ '' security-critical flag must match severity'')
     @ message_if (take 1 (dr_path d) \<noteq> ''/'') (dr_code d @ '' path must be a JSON pointer'')"

fun check_drift :: "drift list \<Rightarrow> string list \<Rightarrow> string list" where
  "check_drift [] codes = []"
| "check_drift (d # ds) codes = check_finding d codes @ check_drift ds (dr_code d # codes)"

text \<open>One audit event after the sequence number \<open>n\<close> and the time \<open>t\<close>.\<close>

definition check_event :: "audit_event \<Rightarrow> jsnum \<Rightarrow> int \<Rightarrow> string list" where
  "check_event a n t =
     check_known_keys (audit_json a) [''sequence'', ''occurredAt'', ''eventType'', ''actor'', ''result'', ''correlationId'',
       ''detailCode''] ''audit event''
     @ message_if (\<not> is_integer (JNum (ia_sequence a)) \<or> \<not> num_same (ia_sequence a) (num_add n (Fin 1)))
       ''audit sequence must be contiguous and start at one''
     @ check_time (ia_at a) ''audit occurredAt''
     @ message_if (parses_timestamp (ia_at a) \<and> time_of (ia_at a) < t) ''audit timestamps must be monotonic''
     @ message_if (\<not> safe_code (ia_type a)) ''audit event type is invalid''
     @ message_if (ia_actor a \<notin> set provisioning_actors) ''audit actor is unsupported''
     @ message_if (ia_result a \<notin> {''started'', ''succeeded'', ''failed'', ''cancelled''}) ''audit result is unsupported''
     @ check_stable_id (ia_correlation a) ''audit correlation ID''
     @ message_if (\<not> safe_code (ia_detail a)) ''audit detail code is invalid''"

fun check_audit :: "audit_event list \<Rightarrow> jsnum \<Rightarrow> int \<Rightarrow> string list" where
  "check_audit [] n t = []"
| "check_audit (a # as) n t = check_event a n t
     @ check_audit as (ia_sequence a) (if parses_timestamp (ia_at a) then time_of (ia_at a) else t)"

definition check_rollback :: "rollback \<Rightarrow> string list" where
  "check_rollback r =
     check_known_keys (rollback_json r) [''allowed'', ''restoreState'', ''reasonCode'', ''snapshotDigest''] ''rollback''
     @ message_if (\<not> safe_code (il_reason r)) ''rollback reason code is invalid''
     @ (case il_state r of None \<Rightarrow> []
        | Some s \<Rightarrow> message_if (s \<notin> set provisioning_states) ''rollback restore state is unsupported'')
     @ (case il_digest r of None \<Rightarrow> [] | Some d \<Rightarrow> check_digest d ''rollback snapshot digest'')
     @ message_if (il_allowed r \<and> il_state r = None) ''allowed rollback requires a restore state''
     @ message_if (il_allowed r \<and> il_digest r = None) ''allowed rollback requires a snapshot digest''"

definition check_error :: "prov_error option \<Rightarrow> string \<Rightarrow> string list" where
  "check_error problem state = (case problem of None \<Rightarrow> [] | Some e \<Rightarrow>
     check_known_keys (error_json e) [''code'', ''retryable'', ''retryAfter'', ''publicMessage''] ''operation error''
     @ message_if (\<not> safe_code (ie_code e)) ''operation error code is invalid''
     @ (case ie_after e of None \<Rightarrow> [] | Some t \<Rightarrow> check_time t ''error retryAfter'')
     @ message_if (blank (ie_message e) \<or> 500 < length (ie_message e)) ''error publicMessage must contain 1-500 characters''
     @ message_if (state \<noteq> ''failed'' \<and> state \<noteq> ''recovering'')
       ''typed errors are allowed only while failed or recovering'')"

definition record_errors :: "url_parser \<Rightarrow> prov_record \<Rightarrow> string list" where
  "record_errors parse_url r =
     check_forbidden_fields (record_json r)
     @ check_known_keys (record_json r) [''schemaVersion'', ''operationId'', ''planId'', ''clientRef'', ''idempotencyKey'',
         ''operation'', ''state'', ''attempt'', ''startedAt'', ''updatedAt'', ''continuation'', ''secret'', ''observation'',
         ''drift'', ''audit'', ''rollback'', ''error''] ''record''
     @ check_contract_version (ir_schema r)
     @ check_stable_id (ir_id r) ''operation ID''
     @ check_stable_id (ir_plan r) ''record plan ID''
     @ check_stable_id (ir_client r) ''record client reference''
     @ message_if (\<not> prov_idempotency_key (ir_key r)) ''idempotency key is invalid''
     @ message_if (ir_operation r \<notin> set provisioning_operations) ''record operation is unsupported''
     @ message_if (ir_state r \<notin> set provisioning_states) ''record state is unsupported''
     @ message_if (\<not> is_integer (JNum (ir_attempt r)) \<or> num_less (ir_attempt r) (Fin 1))
         ''record attempt must be a positive integer''
     @ check_time (ir_started r) ''record startedAt''
     @ check_time (ir_updated r) ''record updatedAt''
     @ message_if (parses_timestamp (ir_started r) \<and> parses_timestamp (ir_updated r)
         \<and> time_of (ir_updated r) < time_of (ir_started r)) ''record updatedAt cannot precede startedAt''
     @ check_continuation parse_url (ir_continuation r) (ir_state r)
     @ check_secret (ir_secret r)
     @ check_observation (ir_observation r)
     @ check_drift (ir_drift r) []
     @ check_audit (ir_audit r) (Fin 0) 0
     @ check_rollback (ir_rollback r)
     @ check_error (ir_error r) (ir_state r)
     @ message_if (ir_state r = ''ready'' \<and> ir_observation r = None) ''ready records require a post-registration observation''
     @ message_if (ir_state r = ''awaiting-authority'' \<and> ir_continuation r = None)
         ''awaiting-authority records require a continuation''
     @ message_if (ir_state r = ''failed'' \<and> ir_error r = None) ''failed records require a typed error''
     @ message_if (ir_state r = ''retired'' \<and> (case ir_secret r of None \<Rightarrow> True | Some s \<Rightarrow> ix_status s \<noteq> ''revoked''))
         ''retired records cannot retain an unrevoked secret reference''"

definition validate_record :: "url_parser \<Rightarrow> prov_record \<Rightarrow> validation_result" where
  "validate_record parse_url r = validation_of (record_errors parse_url r)"

section \<open>Compatibility\<close>

definition gate_key :: "authority_gate \<Rightarrow> string" where
  "gate_key g = ih_operation g @ '':'' @ ih_authority g"

fun check_gates :: "authority_gate list \<Rightarrow> string list \<Rightarrow> string list" where
  "check_gates [] keys = []"
| "check_gates (g # gs) keys =
     check_known_keys (gate_json g) [''operation'', ''requiredAuthority'', ''interactive'', ''reasonCode''] ''authority gate''
     @ message_if (ih_operation g \<notin> set provisioning_operations) ''authority gate operation is unsupported''
     @ message_if (ih_authority g \<notin> set provisioning_authorities) ''authority gate role is unsupported''
     @ message_if (\<not> safe_code (ih_reason g)) ''authority gate reason code is invalid''
     @ message_if (gate_key g \<in> set keys) (''duplicate authority gate: '' @ gate_key g)
     @ check_gates gs (gate_key g # keys)"

definition compatibility_errors :: "url_parser \<Rightarrow> compatibility \<Rightarrow> string list" where
  "compatibility_errors parse_url k =
     check_forbidden_fields (compatibility_json k)
     @ check_known_keys (compatibility_json k) [''schemaVersion'', ''provider'', ''adapterVersion'', ''evidenceReviewedAt'',
         ''evidenceSources'', ''modes'', ''operations'', ''clientKinds'', ''authorityGates'', ''secretKinds'',
         ''overlappingRotation'', ''registrationManagement'', ''recovery''] ''compatibility''
     @ check_contract_version (ik_schema k)
     @ check_stable_id (ik_provider k) ''compatibility provider''
     @ message_if (\<not> prov_version (ik_version k)) ''compatibility adapter version is invalid''
     @ message_if (\<not> date_pattern (ik_reviewed k)) ''evidenceReviewedAt must be an ISO date''
     @ message_if (ik_sources k = []) ''at least one first-party evidence source is required''
     @ concat (map (\<lambda>s. check_https_url parse_url s ''evidence source'' False) (ik_sources k))
     @ check_unique_enum (ik_modes k) provisioning_modes ''compatibility mode''
     @ check_unique_enum (ik_operations k) provisioning_operations ''compatibility operation''
     @ check_unique_enum (ik_clients k) client_kinds ''compatibility client kind''
     @ message_if (''validate'' \<notin> set (ik_operations k)) ''compatibility must support validation''
     @ check_gates (ik_gates k) []
     @ check_unique_enum (ik_secrets k) [''none'', ''client-secret'', ''private-key''] ''secret kind''
     @ message_if (ik_overlap k \<and> ''rotate'' \<notin> set (ik_operations k)) ''overlapping rotation requires rotate capability''
     @ message_if (ik_recovery k \<and> ''recover'' \<notin> set (ik_operations k)) ''recovery support requires recover capability''"

definition validate_compatibility :: "url_parser \<Rightarrow> compatibility \<Rightarrow> validation_result" where
  "validate_compatibility parse_url k = validation_of (compatibility_errors parse_url k)"

end
