(* ===== verification/Provisioning_Store.thy ===== *)
theory Provisioning_Store
  imports Provisioning_Check
begin

text \<open>
  The record store of \<open>src/identity-provisioning-engine.ts\<close>: the interface \<open>IdentityProvisioningRecordStore\<close> as
  a record of operations with its contract as a locale, and \<open>InMemoryIdentityProvisioningRecordStore\<close> as an
  association list in insertion order, which is shown to meet the contract.
\<close>

section \<open>Errors and computations\<close>

text \<open>\<open>IdentityProvisioningEngineError\<close>: its code and its message.\<close>

datatype prov_fault = ProvFault (fault_code: string) (fault_message: string)

section \<open>The interface\<close>

text \<open>A save returns its outcome and the next state of the store.\<close>

record 's prov_store =
  ps_get :: "string \<Rightarrow> 's \<Rightarrow> prov_record option"
  ps_latest :: "string \<Rightarrow> 's \<Rightarrow> prov_record option"
  ps_save :: "prov_record \<Rightarrow> string option \<Rightarrow> 's \<Rightarrow> (prov_fault, unit) result \<times> 's"

section \<open>The in-memory store\<close>

type_synonym prov_memory = "(string \<times> prov_record) list"

definition assert_valid_record :: "url_parser \<Rightarrow> prov_record \<Rightarrow> (prov_fault, unit) result" where
  "assert_valid_record parse_url r = (let v = validate_record parse_url r
     in if vr_valid v then Inr () else Inl (ProvFault ''invalid-provisioning-record'' (join_text ''; '' (vr_errors v))))"

definition new_prov_memory :: "url_parser \<Rightarrow> prov_record list \<Rightarrow> (prov_fault, prov_memory) result" where
  "new_prov_memory parse_url = fold_result (\<lambda>m r. bind_result (assert_valid_record parse_url r) (\<lambda>_.
     if map_of m (ir_key r) \<noteq> None
     then Inl (ProvFault ''duplicate-idempotency-key'' (''Duplicate initial idempotency key: '' @ ir_key r))
     else Inr (map_set (ir_key r) r m))) []"

definition memory_get :: "string \<Rightarrow> prov_memory \<Rightarrow> prov_record option" where
  "memory_get key m = map_of m key"

text \<open>The latest first; a time that does not parse makes the difference \<open>NaN\<close>, which a sort reads as a tie.\<close>

definition latest_cmp :: "runtime \<Rightarrow> prov_record \<Rightarrow> prov_record \<Rightarrow> int" where
  "latest_cmp rt left right = (case (date_parse (ir_updated left), date_parse (ir_updated right)) of
     (Some l, Some r) \<Rightarrow> (if r - l \<noteq> 0 then r - l else collate rt (ir_id right) (ir_id left))
   | _ \<Rightarrow> 0)"

definition memory_latest :: "runtime \<Rightarrow> string \<Rightarrow> prov_memory \<Rightarrow> prov_record option" where
  "memory_latest rt client m =
     (case js_sort (latest_cmp rt) (filter (\<lambda>r. ir_client r = client) (map snd m)) of
        [] \<Rightarrow> None
      | r # _ \<Rightarrow> Some r)"

definition memory_save :: "url_parser \<Rightarrow> prov_record \<Rightarrow> string option \<Rightarrow> prov_memory
    \<Rightarrow> (prov_fault, unit) result \<times> prov_memory" where
  "memory_save parse_url r expected m = (case assert_valid_record parse_url r of
     Inl x \<Rightarrow> (Inl x, m)
   | Inr _ \<Rightarrow> (case map_of m (ir_key r) of
       None \<Rightarrow>
         if expected \<noteq> None
         then (Inl (ProvFault ''record-concurrency-conflict'' ''Provisioning record was removed or replaced''), m)
         else (Inr (), map_set (ir_key r) r m)
     | Some current \<Rightarrow>
         if expected = None
         then (Inl (ProvFault ''record-concurrency-conflict'' ''Provisioning record already exists''), m)
         else if Some (ir_updated current) \<noteq> expected
         then (Inl (ProvFault ''record-concurrency-conflict'' ''Provisioning record changed during the operation''), m)
         else if ir_id current \<noteq> ir_id r \<or> ir_plan current \<noteq> ir_plan r \<or> ir_client current \<noteq> ir_client r
         then (Inl (ProvFault ''idempotency-binding-conflict''
                 ''An idempotency key cannot be rebound to another operation''), m)
         else (Inr (), map_set (ir_key r) r m)))"

definition memory_snapshot :: "runtime \<Rightarrow> prov_memory \<Rightarrow> prov_record list" where
  "memory_snapshot rt m = js_sort (\<lambda>l r. collate rt (ir_key l) (ir_key r)) (map snd m)"

definition memory_store :: "runtime \<Rightarrow> url_parser \<Rightarrow> prov_memory prov_store" where
  "memory_store rt parse_url = \<lparr>ps_get = memory_get, ps_latest = memory_latest rt, ps_save = memory_save parse_url\<rparr>"

section \<open>The contract\<close>

definition same_binding :: "prov_record \<Rightarrow> prov_record \<Rightarrow> bool" where
  "same_binding a b \<longleftrightarrow> ir_key a = ir_key b \<and> ir_id a = ir_id b \<and> ir_plan a = ir_plan b \<and> ir_client a = ir_client b"

text \<open>
  What the engine relies on: a save is a compare-and-set on the time of the last update of the record under the same
  key, a refused save changes nothing, and what is stored passes the validator and sits under its own key.
\<close>

locale prov_records =
  fixes ops :: "'s prov_store" and parse_url :: url_parser and inv :: "'s \<Rightarrow> bool"
  assumes get_sound: "inv s \<Longrightarrow> ps_get ops k s = Some r \<Longrightarrow> ir_key r = k \<and> vr_valid (validate_record parse_url r)"
    and latest_sound: "inv s \<Longrightarrow> ps_latest ops client s = Some r \<Longrightarrow> ir_client r = client \<and> ps_get ops (ir_key r) s = Some r"
    and save_error: "inv s \<Longrightarrow> ps_save ops r x s = (Inl e, s') \<Longrightarrow> s' = s"
    and save_inv: "inv s \<Longrightarrow> ps_save ops r x s = (Inr u, s') \<Longrightarrow> inv s'"
    and save_valid: "inv s \<Longrightarrow> ps_save ops r x s = (Inr u, s') \<Longrightarrow> vr_valid (validate_record parse_url r)"
    and save_guard: "inv s \<Longrightarrow> ps_save ops r x s = (Inr u, s') \<Longrightarrow> map_option ir_updated (ps_get ops (ir_key r) s) = x"
    and save_binding: "inv s \<Longrightarrow> ps_save ops r x s = (Inr u, s') \<Longrightarrow> ps_get ops (ir_key r) s = Some c \<Longrightarrow> same_binding c r"
    and save_get: "inv s \<Longrightarrow> ps_save ops r x s = (Inr u, s') \<Longrightarrow>
      ps_get ops k s' = (if k = ir_key r then Some r else ps_get ops k s)"
begin

lemma save_cases:
  assumes "inv s" and "ps_save ops r x s = (res, s')"
  obtains e where "res = Inl e" and "s' = s"
  | "res = Inr ()" and "inv s'" and "vr_valid (validate_record parse_url r)"
    and "map_option ir_updated (ps_get ops (ir_key r) s) = x"
    and "\<And>c. ps_get ops (ir_key r) s = Some c \<Longrightarrow> same_binding c r"
    and "\<And>k. ps_get ops k s' = (if k = ir_key r then Some r else ps_get ops k s)"
proof (cases res)
  case (Inl e)
  with assms save_error[of s r x e s'] that(1) show ?thesis by blast
next
  case (Inr u)
  then have saved: "ps_save ops r x s = (Inr u, s')" using assms by simp
  show ?thesis
  proof (rule that(2))
    show "res = Inr ()" using Inr by simp
    show "inv s'" by (rule save_inv[OF assms(1) saved])
    show "vr_valid (validate_record parse_url r)" by (rule save_valid[OF assms(1) saved])
    show "map_option ir_updated (ps_get ops (ir_key r) s) = x" by (rule save_guard[OF assms(1) saved])
    show "same_binding c r" if "ps_get ops (ir_key r) s = Some c" for c
      by (rule save_binding[OF assms(1) saved that])
    show "ps_get ops k s' = (if k = ir_key r then Some r else ps_get ops k s)" for k
      by (rule save_get[OF assms(1) saved])
  qed
qed

end

section \<open>The in-memory store meets the contract\<close>

definition prov_memory_inv :: "url_parser \<Rightarrow> prov_memory \<Rightarrow> bool" where
  "prov_memory_inv parse_url m \<longleftrightarrow> distinct (map fst m)
     \<and> list_all (\<lambda>(k, r). ir_key r = k \<and> vr_valid (validate_record parse_url r)) m"

lemma prov_memory_inv_get:
  "prov_memory_inv parse_url m \<Longrightarrow> map_of m k = Some r \<Longrightarrow> ir_key r = k \<and> vr_valid (validate_record parse_url r)"
  by (auto simp: prov_memory_inv_def list_all_iff dest!: map_of_SomeD)

lemma prov_memory_inv_set:
  "prov_memory_inv parse_url m \<Longrightarrow> vr_valid (validate_record parse_url r) \<Longrightarrow>
    prov_memory_inv parse_url (map_set (ir_key r) r m)"
  unfolding prov_memory_inv_def list_all_iff distinct_keys_map_set by (auto dest!: set_map_set)

lemma assert_valid_record_iff [simp]:
  "assert_valid_record parse_url r = Inr u \<longleftrightarrow> vr_valid (validate_record parse_url r)"
  by (simp add: assert_valid_record_def Let_def)

lemma memory_save_ok:
  assumes "memory_save parse_url r x m = (Inr u, m')"
  shows "vr_valid (validate_record parse_url r)" and "map_option ir_updated (map_of m (ir_key r)) = x"
    and "map_of m (ir_key r) = Some c \<Longrightarrow> same_binding c r \<or> ir_key c \<noteq> ir_key r"
    and "m' = map_set (ir_key r) r m"
  using assms
  by (auto simp: memory_save_def same_binding_def split: sum.splits option.splits if_splits)

lemma memory_save_failed: "memory_save parse_url r x m = (Inl e, m') \<Longrightarrow> m' = m"
  by (auto simp: memory_save_def split: sum.splits option.splits if_splits)

lemma memory_latest_mem:
  assumes "memory_latest rt c m = Some r"
  shows "r \<in> set (map snd m)" and "ir_client r = c"
proof -
  obtain rs where "js_sort (latest_cmp rt) (filter (\<lambda>r. ir_client r = c) (map snd m)) = r # rs"
    using assms by (auto simp: memory_latest_def split: list.splits)
  then have "r \<in> set (filter (\<lambda>r. ir_client r = c) (map snd m))"
    by (metis list.set_intros(1) set_js_sort)
  then show "r \<in> set (map snd m)" and "ir_client r = c" by auto
qed

lemma memory_latest_get:
  assumes "prov_memory_inv parse_url m" and "memory_latest rt c m = Some r"
  shows "map_of m (ir_key r) = Some r"
proof -
  obtain k where "(k, r) \<in> set m" using memory_latest_mem(1)[OF assms(2)] by auto
  then show ?thesis using assms(1) by (auto simp: prov_memory_inv_def list_all_iff)
qed

interpretation mem: prov_records "memory_store rt parse_url" parse_url "prov_memory_inv parse_url"
  for rt parse_url
proof unfold_locales
  fix s s' r x u c k e
  assume inv: "prov_memory_inv parse_url s"
  show "ir_key r = k \<and> vr_valid (validate_record parse_url r)" if "ps_get (memory_store rt parse_url) k s = Some r"
    using that prov_memory_inv_get[OF inv] by (simp add: memory_store_def memory_get_def)
  show "ir_client r = c \<and> ps_get (memory_store rt parse_url) (ir_key r) s = Some r"
    if "ps_latest (memory_store rt parse_url) c s = Some r" for c
    using that memory_latest_mem(2) memory_latest_get[OF inv] by (simp add: memory_store_def memory_get_def)
  show "s' = s" if "ps_save (memory_store rt parse_url) r x s = (Inl e, s')"
    using that memory_save_failed by (simp add: memory_store_def)
  assume "ps_save (memory_store rt parse_url) r x s = (Inr u, s')"
  then have saved: "memory_save parse_url r x s = (Inr u, s')" by (simp add: memory_store_def)
  note ok = memory_save_ok[OF saved]
  show "vr_valid (validate_record parse_url r)" by (rule ok)
  show "prov_memory_inv parse_url s'" using ok(1,4) prov_memory_inv_set[OF inv] by simp
  show "map_option ir_updated (ps_get (memory_store rt parse_url) (ir_key r) s) = x"
    using ok(2) by (simp add: memory_store_def memory_get_def)
  show "same_binding c r" if "ps_get (memory_store rt parse_url) (ir_key r) s = Some c" for c
    using that ok(3) prov_memory_inv_get[OF inv] by (auto simp: memory_store_def memory_get_def)
  show "ps_get (memory_store rt parse_url) k s' = (if k = ir_key r then Some r else ps_get (memory_store rt parse_url) k s)"
    using ok(4) by (simp add: memory_store_def memory_get_def)
qed

end
