(* ===== verification/Provisioning_Engine.thy ===== *)
theory Provisioning_Engine
  imports Provisioning_Store "HOL-Library.Word"
begin

text \<open>
  \<open>IdentityProvisioningEngine\<close> of \<open>src/identity-provisioning-engine.ts\<close>, over any record store. An operation
  is a computation on a world (the store, how often the clock and the identifier source were read, the adapter
  calls made so far) that ends with a value or a thrown error and the world it leaves behind. What an adapter
  answers is a function of the calls made before and of the one it answers; what other operations do to the store while the
  engine waits for the adapter is the field \<open>pe_meanwhile\<close>, a function of the same.
\<close>

section \<open>The environment\<close>

record adapter_result =
  ar_state :: string
  ar_continuation :: "continuation option"
  ar_secret :: "secret_reference option"
  ar_observation :: "observation option"
  ar_rollback :: rollback
  ar_error :: "prov_error option"
  ar_detail :: string

record adapter_call =
  ac_operation :: string
  ac_plan :: prov_plan
  ac_previous :: "prov_record option"
  ac_key :: string
  ac_now :: string

text \<open>What an adapter throws: an \<open>Error\<close> with its name, or another value.\<close>

datatype thrown = ThrownError string | ThrownOther

record prov_adapter =
  ad_compat :: compatibility
  ad_execute :: "adapter_call list \<Rightarrow> adapter_call \<Rightarrow> (thrown, adapter_result) result"

record 's prov_env =
  pe_rt :: runtime
  pe_parse :: url_parser
  pe_store :: "'s prov_store"
  pe_adapters :: "(string \<times> prov_adapter) list"
  pe_now :: "nat \<Rightarrow> string"
  pe_id :: "string \<Rightarrow> nat \<Rightarrow> string"
  pe_meanwhile :: "adapter_call list \<Rightarrow> 's \<Rightarrow> 's"

record 's prov_world =
  pw_store :: 's
  pw_reads :: nat
  pw_ids :: nat
  pw_calls :: "adapter_call list"

text \<open>The constructor's adapter map; registering a provider twice is refused.\<close>

definition new_adapters :: "prov_adapter list \<Rightarrow> (prov_fault, (string \<times> prov_adapter) list) result" where
  "new_adapters adapters =
     (let m = foldl (\<lambda>m a. map_set (ik_provider (ad_compat a)) a m) [] adapters
      in if length m \<noteq> length adapters
         then Inl (ProvFault ''duplicate-provider-adapter'' ''Only one adapter may be registered for a provider'')
         else Inr m)"

section \<open>Computations on the world\<close>

type_synonym ('s, 'a) prov = "'s prov_world \<Rightarrow> (prov_fault, 'a) result \<times> 's prov_world"

definition ret :: "'a \<Rightarrow> ('s, 'a) prov" where
  "ret x w = (Inr x, w)"

definition raise :: "string \<Rightarrow> string \<Rightarrow> ('s, 'a) prov" where
  "raise code message w = (Inl (ProvFault code message), w)"

definition bind_prov :: "('s, 'a) prov \<Rightarrow> ('a \<Rightarrow> ('s, 'b) prov) \<Rightarrow> ('s, 'b) prov" where
  "bind_prov m f w = (case m w of (Inl x, w') \<Rightarrow> (Inl x, w') | (Inr a, w') \<Rightarrow> f a w')"

definition lift_result :: "(prov_fault, 'a) result \<Rightarrow> ('s, 'a) prov" where
  "lift_result r w = (r, w)"

definition stored_by_key :: "'s prov_env \<Rightarrow> string \<Rightarrow> ('s, prov_record option) prov" where
  "stored_by_key env key w = (Inr (ps_get (pe_store env) key (pw_store w)), w)"

definition stored_latest :: "'s prov_env \<Rightarrow> string \<Rightarrow> ('s, prov_record option) prov" where
  "stored_latest env client w = (Inr (ps_latest (pe_store env) client (pw_store w)), w)"

definition save_record :: "'s prov_env \<Rightarrow> prov_record \<Rightarrow> string option \<Rightarrow> ('s, unit) prov" where
  "save_record env r expected w =
     (let (res, s) = ps_save (pe_store env) r expected (pw_store w) in (res, w\<lparr>pw_store := s\<rparr>))"

definition create_id :: "'s prov_env \<Rightarrow> string \<Rightarrow> ('s, string) prov" where
  "create_id env kind w = (Inr (pe_id env kind (pw_ids w)), w\<lparr>pw_ids := pw_ids w + 1\<rparr>)"

definition timestamp :: "'s prov_env \<Rightarrow> ('s, string) prov" where
  "timestamp env w = (let value = pe_now env (pw_reads w); w' = w\<lparr>pw_reads := pw_reads w + 1\<rparr>
     in if parses_timestamp value then ret value w'
        else raise ''invalid-clock'' ''Identity provisioning clock must return an ISO 8601 UTC timestamp'' w')"

section \<open>Detail codes and proofs\<close>

text \<open>\<open>replace(/[^a-z0-9-]+/g, "-")\<close>; \<open>True\<close> when the run of other characters has begun.\<close>

fun hyphenate :: "bool \<Rightarrow> string \<Rightarrow> string" where
  "hyphenate inside [] = []"
| "hyphenate inside (c # cs) = (if code_char c then c # hyphenate False cs
     else if inside then hyphenate True cs else CHR ''-'' # hyphenate True cs)"

definition trim_hyphens :: "string \<Rightarrow> string" where
  "trim_hyphens s = rev (dropWhile (\<lambda>c. c = CHR ''-'') (rev (dropWhile (\<lambda>c. c = CHR ''-'') s)))"

definition normalize_detail_code :: "string \<Rightarrow> string" where
  "normalize_detail_code value =
     (let normalized = take 128 (trim_hyphens (hyphenate False (to_lower value)))
      in if safe_code normalized then normalized else ''operation-detail'')"

text \<open>\<open>difference |= left.charCodeAt(i) ^ right.charCodeAt(i)\<close> on 32-bit integers.\<close>

definition char_difference :: "32 word \<Rightarrow> char \<times> char \<Rightarrow> 32 word" where
  "char_difference d = (\<lambda>(a, b). or d (xor (of_char a) (of_char b)))"

definition constant_time_equal :: "string \<Rightarrow> string \<Rightarrow> bool" where
  "constant_time_equal left right = (if length left \<noteq> length right then False
     else foldl char_difference 0 (zip left right) = 0)"

definition gate_error :: "string \<Rightarrow> prov_error" where
  "gate_error status = (if status = ''expired''
     then \<lparr>ie_code = ''authority-gate-expired'', ie_retryable = True, ie_after = None,
       ie_message = ''The provider confirmation expired. Restart the bounded owner step.'', ie_extra = []\<rparr>
     else \<lparr>ie_code = (if status = ''denied'' then ''authority-gate-denied'' else ''authority-gate-cancelled''),
       ie_retryable = (status = ''cancelled''), ie_after = None,
       ie_message = (if status = ''denied'' then ''The required provider authority denied the operation.''
         else ''The provider confirmation was cancelled and can be restarted.''), ie_extra = []\<rparr>)"

section \<open>Steps of a record\<close>

definition append_audit_at :: "'s prov_env \<Rightarrow> prov_record \<Rightarrow> string \<Rightarrow> string \<Rightarrow> string \<Rightarrow> string \<Rightarrow> string
    \<Rightarrow> ('s, prov_record) prov" where
  "append_audit_at env r time actor event outcome detail =
     bind_prov (case ir_audit r of [] \<Rightarrow> create_id env ''correlation'' | a # _ \<Rightarrow> ret (ia_correlation a)) (\<lambda>correlation.
     ret (r\<lparr>ir_updated := time,
       ir_audit := ir_audit r @ [\<lparr>ia_sequence = Fin (of_nat (length (ir_audit r) + 1)), ia_at = time,
         ia_type = normalize_detail_code event, ia_actor = actor, ia_result = outcome, ia_correlation = correlation,
         ia_detail = normalize_detail_code detail, ia_extra = []\<rparr>]\<rparr>))"

definition append_audit :: "'s prov_env \<Rightarrow> prov_record \<Rightarrow> string \<Rightarrow> string \<Rightarrow> string \<Rightarrow> string
    \<Rightarrow> ('s, prov_record) prov" where
  "append_audit env r actor event outcome detail =
     bind_prov (timestamp env) (\<lambda>time. append_audit_at env r time actor event outcome detail)"

definition fail_at :: "'s prov_env \<Rightarrow> prov_record \<Rightarrow> string \<Rightarrow> string \<Rightarrow> string \<Rightarrow> string \<Rightarrow> bool \<Rightarrow> string
    \<Rightarrow> ('s, prov_record) prov" where
  "fail_at env r time actor code message retryable detail =
     append_audit_at env (r\<lparr>ir_state := ''failed'', ir_updated := time,
         ir_error := Some \<lparr>ie_code = code, ie_retryable = retryable, ie_after = None, ie_message = message, ie_extra = []\<rparr>\<rparr>)
       time actor code ''failed'' (normalize_detail_code detail)"

definition fail_now :: "'s prov_env \<Rightarrow> prov_record \<Rightarrow> string \<Rightarrow> string \<Rightarrow> string \<Rightarrow> bool \<Rightarrow> string
    \<Rightarrow> ('s, prov_record) prov" where
  "fail_now env r actor code message retryable detail =
     bind_prov (timestamp env) (\<lambda>time. fail_at env r time actor code message retryable detail)"

definition transition_at :: "'s prov_env \<Rightarrow> prov_record \<Rightarrow> string \<Rightarrow> string \<Rightarrow> string \<Rightarrow> string \<Rightarrow> string
    \<Rightarrow> ('s, prov_record) prov" where
  "transition_at env r state time actor event detail =
     (if \<not> can_transition_state (ir_state r) state
      then raise ''invalid-state-transition''
        (''Cannot transition identity provisioning from '' @ ir_state r @ '' to '' @ state)
      else append_audit_at env (r\<lparr>ir_state := state, ir_updated := time,
          ir_error := (if state = ''failed'' \<or> state = ''recovering'' then ir_error r else None)\<rparr>)
        time actor event ''succeeded'' detail)"

definition transition_now :: "'s prov_env \<Rightarrow> prov_record \<Rightarrow> string \<Rightarrow> string \<Rightarrow> string \<Rightarrow> string
    \<Rightarrow> ('s, prov_record) prov" where
  "transition_now env r state actor event detail =
     bind_prov (timestamp env) (\<lambda>time. transition_at env r state time actor event detail)"

section \<open>Adapter results\<close>

definition save_validated_or_fail :: "'s prov_env \<Rightarrow> prov_record \<Rightarrow> prov_record \<Rightarrow> string \<Rightarrow> ('s, unit) prov" where
  "save_validated_or_fail env previous r actor =
     (if vr_valid (validate_record (pe_parse env) r) then save_record env r (Some (ir_updated previous))
      else bind_prov (timestamp env) (\<lambda>time.
        bind_prov (fail_at env previous time actor ''adapter-result-invalid''
            ''The provider adapter returned an invalid persisted result.'' False ''invalid-adapter-result'') (\<lambda>failed.
        save_record env failed (Some (ir_updated previous)))))"

text \<open>The record with the adapter's result in it, before its audit event.\<close>

definition with_result :: "prov_record \<Rightarrow> adapter_result \<Rightarrow> string \<Rightarrow> prov_record" where
  "with_result r result time = r\<lparr>ir_state := ar_state result, ir_updated := time,
     ir_continuation := (case ar_continuation result of Some c \<Rightarrow> Some c
       | None \<Rightarrow> (case ir_continuation r of None \<Rightarrow> None
         | Some c \<Rightarrow> if ig_status c = ''approved'' then Some c else None)),
     ir_secret := (case ar_secret result of Some x \<Rightarrow> Some x | None \<Rightarrow> ir_secret r),
     ir_observation := ar_observation result, ir_drift := [], ir_rollback := ar_rollback result,
     ir_error := ar_error result\<rparr>"

definition default_error :: "prov_record \<Rightarrow> prov_record" where
  "default_error r = (case ir_error r of Some _ \<Rightarrow> r
     | None \<Rightarrow> r\<lparr>ir_error := Some \<lparr>ie_code = ''provider-operation-failed'', ie_retryable = (ir_state r = ''recovering''),
         ie_after = None,
         ie_message = ''The provider operation did not complete. Review evidence before retrying.'', ie_extra = []\<rparr>\<rparr>)"

definition readiness_detail :: "string list \<Rightarrow> string" where
  "readiness_detail blockers = (let t = take 120 (join_text ''|'' blockers) in if t = [] then ''readiness-blocked'' else t)"

text \<open>The automatic validation: an observed record becomes ready or failed.\<close>

definition settle_validation :: "'s prov_env \<Rightarrow> prov_plan \<Rightarrow> prov_record \<Rightarrow> observation \<Rightarrow> string \<Rightarrow> ('s, prov_record) prov" where
  "settle_validation env plan r obs time =
     (let drifted = r\<lparr>ir_drift := assess_drift plan obs\<rparr>;
          readiness = evaluate_readiness plan (drifted\<lparr>ir_state := ''ready''\<rparr>)
      in if rd_ready readiness
         then transition_at env drifted ''ready'' time ''automation'' ''post-registration-validation'' ''client-ready''
         else fail_at env drifted time ''automation'' ''post-registration-validation-failed''
           ''Provider configuration failed readiness validation.'' True (readiness_detail (rd_blockers readiness)))"

text \<open>What becomes of \<open>r\<close> once \<open>r1\<close> has the adapter's result and its audit event.\<close>

definition settle_result :: "'s prov_env \<Rightarrow> prov_plan \<Rightarrow> prov_record \<Rightarrow> string \<Rightarrow> string \<Rightarrow> prov_record
    \<Rightarrow> ('s, prov_record option) prov" where
  "settle_result env plan r time actor r1 =
     (if ir_state r1 = ''awaiting-authority''
      then bind_prov (if vr_valid (validate_record (pe_parse env) r1) then ret r1
             else fail_at env r time actor ''adapter-result-invalid'' ''The provider authority gate was invalid.''
               False ''invalid-adapter-result'') (\<lambda>r2.
           bind_prov (save_record env r2 (Some (ir_updated r))) (\<lambda>_. ret (Some r2)))
      else if ir_state r1 = ''failed'' \<or> ir_state r1 = ''recovering''
      then bind_prov (save_validated_or_fail env r (default_error r1) actor) (\<lambda>_. stored_by_key env (ir_key r))
      else bind_prov (case ir_observation r1 of
             Some obs \<Rightarrow> if ir_state r1 = ''validating'' \<and> ir_operation r1 \<notin> {''disable'', ''retire''}
               then settle_validation env plan r1 obs time else ret r1
           | None \<Rightarrow> ret r1) (\<lambda>r2.
           bind_prov (save_validated_or_fail env r r2 actor) (\<lambda>_. stored_by_key env (ir_key r))))"

definition apply_adapter_result :: "'s prov_env \<Rightarrow> prov_plan \<Rightarrow> prov_record \<Rightarrow> adapter_result \<Rightarrow> string
    \<Rightarrow> ('s, prov_record option) prov" where
  "apply_adapter_result env plan r result actor = bind_prov (timestamp env) (\<lambda>time.
     if \<not> can_transition_state (ir_state r) (ar_state result)
     then bind_prov (fail_at env r time actor ''adapter-transition-invalid''
            ''The provider adapter returned an invalid lifecycle transition.'' False ''invalid-adapter-result'') (\<lambda>failed.
          bind_prov (save_record env failed (Some (ir_updated r))) (\<lambda>_. ret (Some failed)))
     else bind_prov (append_audit_at env (with_result r result time) time ''automation'' ''adapter-operation-completed''
            (if ar_error result \<noteq> None then ''failed'' else ''succeeded'') (ar_detail result)) (\<lambda>r1.
          settle_result env plan r time actor r1))"

section \<open>Calling the adapter\<close>

text \<open>The call is recorded, and the store is what the other operations have made of it when the answer arrives.\<close>

definition call_adapter :: "'s prov_env \<Rightarrow> prov_adapter \<Rightarrow> adapter_call \<Rightarrow> ('s, (thrown, adapter_result) result) prov" where
  "call_adapter env adapter call w = (let calls = pw_calls w @ [call]
     in (Inr (ad_execute adapter (pw_calls w) call), w\<lparr>pw_calls := calls, pw_store := pe_meanwhile env calls (pw_store w)\<rparr>))"

definition thrown_detail :: "thrown \<Rightarrow> string" where
  "thrown_detail x = (case x of ThrownError name \<Rightarrow> name | ThrownOther \<Rightarrow> ''provider-error'')"

definition ask_adapter :: "'s prov_env \<Rightarrow> prov_plan \<Rightarrow> prov_adapter \<Rightarrow> prov_record \<Rightarrow> string \<Rightarrow> prov_record option
    \<Rightarrow> ('s, prov_record option) prov" where
  "ask_adapter env plan adapter current actor previous =
     bind_prov (timestamp env) (\<lambda>now.
     bind_prov (call_adapter env adapter \<lparr>ac_operation = ir_operation current, ac_plan = plan, ac_previous = previous,
         ac_key = ir_key current, ac_now = now\<rparr>) (\<lambda>answer. case answer of
       Inl x \<Rightarrow> bind_prov (fail_now env current actor ''adapter-execution-failed''
           ''The provider operation failed. Review the provider and retry safely.'' True (thrown_detail x)) (\<lambda>failed.
         bind_prov (save_record env failed (Some (ir_updated current))) (\<lambda>_. ret (Some failed)))
     | Inr result \<Rightarrow> apply_adapter_result env plan current result actor))"

definition execute_adapter :: "'s prov_env \<Rightarrow> prov_plan \<Rightarrow> prov_adapter \<Rightarrow> prov_record \<Rightarrow> string \<Rightarrow> prov_record option
    \<Rightarrow> ('s, prov_record option) prov" where
  "execute_adapter env plan adapter r actor previous =
     bind_prov (if ir_state r = ''preflight'' \<and> iv_mode (ip_provider plan) \<noteq> ''resumable-owner-gate''
       then bind_prov (transition_now env r ''provisioning'' actor ''preflight-completed'' ''provider-write-authorized'') (\<lambda>r1.
            bind_prov (save_record env r1 (Some (ir_updated r))) (\<lambda>_. ret r1))
       else ret r) (\<lambda>current.
     ask_adapter env plan adapter current actor previous)"

section \<open>Requests\<close>

record run_request =
  rq_plan :: prov_plan
  rq_operation :: string
  rq_key :: string
  rq_actor :: string

record decision_request =
  dq_plan :: prov_plan
  dq_key :: string
  dq_actor :: string
  dq_decision :: string
  dq_value :: string

definition preflight :: "'s prov_env \<Rightarrow> prov_plan \<Rightarrow> string \<Rightarrow> (prov_fault, prov_adapter) result" where
  "preflight env plan operation = (let v = validate_plan (pe_parse env) plan in
     if \<not> vr_valid v then Inl (ProvFault ''invalid-provisioning-plan'' (join_text ''; '' (vr_errors v)))
     else case map_of (pe_adapters env) (iv_id (ip_provider plan)) of
       None \<Rightarrow> Inl (ProvFault ''provider-adapter-not-found''
         (''No adapter is registered for provider '' @ iv_id (ip_provider plan)))
     | Some adapter \<Rightarrow>
         (let k = ad_compat adapter; kv = validate_compatibility (pe_parse env) k;
              gates = filter (\<lambda>g. ih_operation g = operation) (ik_gates k)
          in if \<not> vr_valid kv
             then Inl (ProvFault ''invalid-provider-compatibility'' (join_text ''; '' (vr_errors kv)))
             else if ik_version k \<noteq> iv_version (ip_provider plan) \<or> iv_mode (ip_provider plan) \<notin> set (ik_modes k)
               \<or> operation \<notin> set (ik_operations k) \<or> ic_kind (ip_client plan) \<notin> set (ik_clients k)
             then Inl (ProvFault ''provider-capability-mismatch''
               ''The adapter does not declare this plan mode, operation, client kind, or version'')
             else if list_ex (\<lambda>g. ih_authority g \<noteq> ib_kind (iv_boundary (ip_provider plan))) gates
             then Inl (ProvFault ''provider-authority-mismatch''
               ''The plan authority boundary does not match the provider gate'')
             else if list_ex ih_interactive gates \<noteq> (iv_mode (ip_provider plan) = ''resumable-owner-gate'')
             then Inl (ProvFault ''provider-authority-mode-mismatch''
               ''Interactive provider authority must use resumable-owner-gate mode'')
             else Inr adapter))"

definition bound_to :: "prov_record \<Rightarrow> run_request \<Rightarrow> bool" where
  "bound_to existing request \<longleftrightarrow> \<not> (ir_plan existing \<noteq> ip_plan (rq_plan request)
     \<or> ir_client existing \<noteq> ic_ref (ip_client (rq_plan request)) \<or> ir_operation existing \<noteq> rq_operation request)"

definition retryable :: "prov_record \<Rightarrow> bool" where
  "retryable r = (case ir_error r of None \<Rightarrow> False | Some e \<Rightarrow> ie_retryable e)"

definition settled :: "prov_record \<Rightarrow> bool" where
  "settled r \<longleftrightarrow> ir_state r = ''ready'' \<or> ir_state r = ''disabled'' \<or> ir_state r = ''retired''
     \<or> ir_state r = ''awaiting-authority'' \<or> (ir_state r = ''failed'' \<and> \<not> retryable r)"

definition no_provider_write :: "string \<Rightarrow> rollback" where
  "no_provider_write reason = \<lparr>il_allowed = False, il_state = None, il_reason = reason, il_digest = None, il_extra = []\<rparr>"

definition preflight_failed_record :: "run_request \<Rightarrow> string \<Rightarrow> string \<Rightarrow> string \<Rightarrow> string \<Rightarrow> string \<Rightarrow> prov_record" where
  "preflight_failed_record request code message now operation correlation =
     \<lparr>ir_schema = ''1.0'', ir_id = operation, ir_plan = ip_plan (rq_plan request),
      ir_client = ic_ref (ip_client (rq_plan request)), ir_key = rq_key request, ir_operation = rq_operation request,
      ir_state = ''failed'', ir_attempt = Fin 1, ir_started = now, ir_updated = now, ir_continuation = None,
      ir_secret = None, ir_observation = None, ir_drift = [],
      ir_audit = [\<lparr>ia_sequence = Fin 1, ia_at = now, ia_type = ''preflight-failed'', ia_actor = rq_actor request,
        ia_result = ''failed'', ia_correlation = correlation, ia_detail = code, ia_extra = []\<rparr>],
      ir_rollback = no_provider_write ''no-provider-write'',
      ir_error = Some \<lparr>ie_code = code, ie_retryable = False, ie_after = None, ie_message = message, ie_extra = []\<rparr>,
      ir_extra = []\<rparr>"

definition record_preflight_failure :: "'s prov_env \<Rightarrow> run_request \<Rightarrow> string \<Rightarrow> string \<Rightarrow> ('s, prov_record option) prov" where
  "record_preflight_failure env request code message =
     bind_prov (timestamp env) (\<lambda>now.
     bind_prov (create_id env ''operation'') (\<lambda>operation.
     bind_prov (create_id env ''correlation'') (\<lambda>correlation.
     let r = preflight_failed_record request code message now operation correlation
     in bind_prov (save_record env r None) (\<lambda>_. ret (Some r)))))"

definition started_record :: "run_request \<Rightarrow> prov_record option \<Rightarrow> string \<Rightarrow> string \<Rightarrow> string \<Rightarrow> prov_record" where
  "started_record request previous now operation correlation =
     \<lparr>ir_schema = ''1.0'', ir_id = operation, ir_plan = ip_plan (rq_plan request),
      ir_client = ic_ref (ip_client (rq_plan request)), ir_key = rq_key request, ir_operation = rq_operation request,
      ir_state = ''preflight'', ir_attempt = Fin 1, ir_started = now, ir_updated = now, ir_continuation = None,
      ir_secret = (if rq_operation request = ''create'' then None
        else case previous of None \<Rightarrow> None | Some p \<Rightarrow> ir_secret p),
      ir_observation = None, ir_drift = [],
      ir_audit = [\<lparr>ia_sequence = Fin 1, ia_at = now, ia_type = ''operation-started'', ia_actor = rq_actor request,
        ia_result = ''started'', ia_correlation = correlation, ia_detail = rq_operation request @ ''-requested'',
        ia_extra = []\<rparr>],
      ir_rollback = no_provider_write ''preflight-not-complete'', ir_error = None, ir_extra = []\<rparr>"

definition start_operation :: "'s prov_env \<Rightarrow> run_request \<Rightarrow> prov_adapter \<Rightarrow> prov_record option
    \<Rightarrow> ('s, prov_record option) prov" where
  "start_operation env request adapter previous =
     bind_prov (timestamp env) (\<lambda>now.
     bind_prov (create_id env ''operation'') (\<lambda>operation.
     bind_prov (create_id env ''correlation'') (\<lambda>correlation.
     let r = started_record request previous now operation correlation
     in bind_prov (save_record env r None) (\<lambda>_.
        execute_adapter env (rq_plan request) adapter r (rq_actor request) previous))))"

definition resume_operation :: "'s prov_env \<Rightarrow> run_request \<Rightarrow> prov_adapter \<Rightarrow> prov_record
    \<Rightarrow> ('s, prov_record option) prov" where
  "resume_operation env request adapter existing =
     (if \<not> bound_to existing request
      then raise ''idempotency-binding-conflict''
        ''The idempotency key is already bound to another plan, client, or operation''
      else if settled existing then ret (Some existing)
      else if ir_state existing = ''failed'' \<and> retryable existing
      then bind_prov (transition_now env existing ''recovering'' (rq_actor request) ''operation-recovery-started''
             ''retrying-failed-operation'') (\<lambda>r.
           let recovering = r\<lparr>ir_attempt := num_add (ir_attempt existing) (Fin 1)\<rparr>
           in bind_prov (save_record env recovering (Some (ir_updated existing))) (\<lambda>_.
              execute_adapter env (rq_plan request) adapter recovering (rq_actor request) (Some recovering)))
      else execute_adapter env (rq_plan request) adapter existing (rq_actor request) (Some existing))"

definition run_operation :: "'s prov_env \<Rightarrow> run_request \<Rightarrow> ('s, prov_record option) prov" where
  "run_operation env request =
     bind_prov (lift_result (preflight env (rq_plan request) (rq_operation request))) (\<lambda>adapter.
     bind_prov (stored_by_key env (rq_key request)) (\<lambda>existing. case existing of
       Some r \<Rightarrow> resume_operation env request adapter r
     | None \<Rightarrow>
         bind_prov (stored_latest env (ic_ref (ip_client (rq_plan request)))) (\<lambda>previous.
         if rq_operation request = ''create'' \<and> (case previous of None \<Rightarrow> False | Some p \<Rightarrow> ir_state p \<noteq> ''retired'')
         then record_preflight_failure env request ''client-already-provisioned''
           ''A different idempotency key cannot create a second provider client.''
         else start_operation env request adapter previous)))"

section \<open>The authority's decision\<close>

definition reject_decision :: "'s prov_env \<Rightarrow> prov_record \<Rightarrow> string \<Rightarrow> string \<Rightarrow> string \<Rightarrow> ('s, prov_record option) prov" where
  "reject_decision env r actor code message =
     bind_prov (append_audit env r actor ''authority-decision-rejected'' ''failed'' code) (\<lambda>denied.
     bind_prov (save_record env denied (Some (ir_updated r))) (\<lambda>_. raise code message))"

text \<open>\<open>Date.parse(now) >= Date.parse(expiresAt)\<close>, false when one of them is not a number.\<close>

definition gate_expired :: "string \<Rightarrow> continuation \<Rightarrow> bool" where
  "gate_expired now c = (case (date_parse now, date_parse (ig_expires c)) of
     (Some a, Some b) \<Rightarrow> b \<le> a | _ \<Rightarrow> False)"

definition settle_gate :: "'s prov_env \<Rightarrow> decision_request \<Rightarrow> prov_record \<Rightarrow> continuation \<Rightarrow> ('s, prov_record option) prov" where
  "settle_gate env request r c = bind_prov (timestamp env) (\<lambda>now.
     let status = (if gate_expired now c then ''expired'' else dq_decision request);
         decided = r\<lparr>ir_updated := now, ir_continuation := Some (c\<lparr>ig_status := status\<rparr>)\<rparr>
     in if status \<noteq> ''approved''
        then bind_prov (append_audit_at env (decided\<lparr>ir_state := ''failed'', ir_error := Some (gate_error status),
                 ir_rollback := no_provider_write ''no-provider-write''\<rparr>) now (dq_actor request) ''authority-gate-completed''
               (if status = ''cancelled'' then ''cancelled'' else ''failed'') (''authority-'' @ status)) (\<lambda>failed.
             bind_prov (save_record env failed (Some (ir_updated r))) (\<lambda>_. ret (Some failed)))
        else bind_prov (transition_at env decided ''provisioning'' now (dq_actor request) ''authority-gate-completed''
               ''authority-approved'') (\<lambda>provisioning.
             bind_prov (save_record env provisioning (Some (ir_updated r))) (\<lambda>_.
             bind_prov (lift_result (preflight env (dq_plan request) (ir_operation r))) (\<lambda>adapter.
             execute_adapter env (dq_plan request) adapter provisioning (dq_actor request) (Some provisioning)))))"

definition decide_pending :: "'s prov_env \<Rightarrow> decision_request \<Rightarrow> prov_record \<Rightarrow> continuation \<Rightarrow> ('s, prov_record option) prov" where
  "decide_pending env request r c =
     (if ig_authority c \<noteq> dq_actor request
      then reject_decision env r (dq_actor request) ''wrong-authority-class''
        ''The actor does not hold the required provider authority''
      else if \<not> constant_time_equal (sha256_hex (pe_rt env) (dq_value request)) (ig_digest c)
      then reject_decision env r (dq_actor request) ''continuation-proof-invalid''
        ''The authority continuation proof is invalid''
      else settle_gate env request r c)"

definition decide_authority :: "'s prov_env \<Rightarrow> decision_request \<Rightarrow> ('s, prov_record option) prov" where
  "decide_authority env request = bind_prov (stored_by_key env (dq_key request)) (\<lambda>found. case found of
     None \<Rightarrow> raise ''operation-not-found'' ''The authority-gated operation does not exist''
   | Some r \<Rightarrow>
       if ir_plan r \<noteq> ip_plan (dq_plan request) \<or> ir_client r \<noteq> ic_ref (ip_client (dq_plan request))
       then raise ''idempotency-binding-conflict'' ''The authority decision does not belong to this plan and client''
       else (case (ir_state r = ''awaiting-authority'', ir_continuation r) of
         (True, Some c) \<Rightarrow> decide_pending env request r c
       | (_, continuation) \<Rightarrow>
           if (case continuation of None \<Rightarrow> False | Some c \<Rightarrow> ig_status c = dq_decision request)
             \<and> ir_state r \<in> {''ready'', ''failed''}
           then ret (Some r)
           else raise ''authority-gate-not-pending'' ''The operation has no pending authority gate''))"

end
