(* ===== verification/Provisioning_Laws.thy ===== *)
theory Provisioning_Laws
  imports Provisioning_Engine "HOL-Library.Sublist"
begin

text \<open>
  Reasoning about the provisioning engine: weakest preconditions of its computations, the history a record may have,
  and what each operation guarantees to the others while it relies on them.
\<close>

section \<open>Weakest preconditions\<close>

named_theorems wp_simps \<open>weakest preconditions of the combinators\<close>

definition wp :: "('s, 'a) prov \<Rightarrow> ('a \<Rightarrow> 's prov_world \<Rightarrow> bool) \<Rightarrow> ('s prov_world \<Rightarrow> bool) \<Rightarrow> 's prov_world \<Rightarrow> bool" where
  "wp m Q E w \<longleftrightarrow> (case m w of (Inl x, w') \<Rightarrow> E w' | (Inr a, w') \<Rightarrow> Q a w')"

lemma wp_bind [wp_simps]: "wp (bind_prov m f) Q E = wp m (\<lambda>a. wp (f a) Q E) E"
  by (rule ext) (auto simp: wp_def bind_prov_def split: prod.splits sum.splits)

lemma wp_ret [wp_simps]: "wp (ret a) Q E = Q a"
  by (rule ext) (simp add: wp_def ret_def)

lemma wp_raise [wp_simps]: "wp (raise c t) Q E w \<longleftrightarrow> E w"
  by (simp add: wp_def raise_def)

lemma wp_lift [wp_simps]: "wp (lift_result r) Q E w \<longleftrightarrow> (case r of Inl x \<Rightarrow> E w | Inr a \<Rightarrow> Q a w)"
  by (simp add: wp_def lift_result_def split: sum.splits)

lemma wp_if [wp_simps]: "wp (if b then m else n) Q E w \<longleftrightarrow> (if b then wp m Q E w else wp n Q E w)"
  by simp

lemma wp_stored_by_key [wp_simps]: "wp (stored_by_key env k) Q E w \<longleftrightarrow> Q (ps_get (pe_store env) k (pw_store w)) w"
  by (simp add: wp_def stored_by_key_def)

lemma wp_stored_latest [wp_simps]: "wp (stored_latest env k) Q E w \<longleftrightarrow> Q (ps_latest (pe_store env) k (pw_store w)) w"
  by (simp add: wp_def stored_latest_def)

lemma wp_create_id [wp_simps]:
  "wp (create_id env k) Q E w \<longleftrightarrow> Q (pe_id env k (pw_ids w)) (w\<lparr>pw_ids := pw_ids w + 1\<rparr>)"
  by (simp add: wp_def create_id_def)

lemma wp_timestamp [wp_simps]:
  "wp (timestamp env) Q E w \<longleftrightarrow>
    (if parses_timestamp (pe_now env (pw_reads w)) then Q (pe_now env (pw_reads w)) (w\<lparr>pw_reads := pw_reads w + 1\<rparr>)
     else E (w\<lparr>pw_reads := pw_reads w + 1\<rparr>))"
  by (simp add: wp_def timestamp_def ret_def raise_def Let_def)

lemma wp_call_adapter [wp_simps]:
  "wp (call_adapter env ad c) Q E w \<longleftrightarrow> Q (ad_execute ad (pw_calls w) c)
    (w\<lparr>pw_calls := pw_calls w @ [c], pw_store := pe_meanwhile env (pw_calls w @ [c]) (pw_store w)\<rparr>)"
  by (simp add: wp_def call_adapter_def Let_def)

lemma wp_save [wp_simps]:
  "wp (save_record env r x) Q E w \<longleftrightarrow> (case ps_save (pe_store env) r x (pw_store w) of
     (Inl e, s) \<Rightarrow> E (w\<lparr>pw_store := s\<rparr>) | (Inr u, s) \<Rightarrow> Q u (w\<lparr>pw_store := s\<rparr>))"
  by (auto simp: wp_def save_record_def split: prod.splits sum.splits)

lemma wp_mono:
  assumes "wp m Q E w" and "\<And>a w'. Q a w' \<Longrightarrow> Q' a w'" and "\<And>w'. E w' \<Longrightarrow> E' w'"
  shows "wp m Q' E' w"
  using assms by (auto simp: wp_def split: prod.splits sum.splits)

lemma wp_returns: "wp m Q E w \<Longrightarrow> m w = (Inr a, w') \<Longrightarrow> Q a w'"
  by (simp add: wp_def)

lemma wp_throws: "wp m Q E w \<Longrightarrow> m w = (Inl x, w') \<Longrightarrow> E w'"
  by (simp add: wp_def)

lemma wp_both: "wp m (\<lambda>_. P) P w \<Longrightarrow> m w = (res, w') \<Longrightarrow> P w'"
  by (cases res) (auto simp: wp_def)

section \<open>Steps of a record\<close>

text \<open>
  Appending to the audit trail touches neither the store nor the adapter calls, and gives a record that has the
  fields it was given besides the time and the longer trail.
\<close>

definition audited :: "prov_record \<Rightarrow> string \<Rightarrow> prov_record \<Rightarrow> bool" where
  "audited r time r' \<longleftrightarrow> (\<exists>a. r' = r\<lparr>ir_updated := time, ir_audit := ir_audit r @ [a]\<rparr> \<and> ia_at a = time)"

definition same_store :: "'s prov_world \<Rightarrow> 's prov_world \<Rightarrow> bool" where
  "same_store w w' \<longleftrightarrow> pw_store w' = pw_store w \<and> pw_calls w' = pw_calls w"

lemma same_store_simps [simp]:
  "same_store w (w\<lparr>pw_ids := n\<rparr>)" "same_store w (w\<lparr>pw_reads := n\<rparr>)" "same_store w w"
  by (simp_all add: same_store_def)

lemma same_store_trans [trans]: "same_store u v \<Longrightarrow> same_store v w \<Longrightarrow> same_store u w"
  by (simp add: same_store_def)

lemma wp_append_audit_at:
  assumes "\<And>r' w'. audited r time r' \<Longrightarrow> same_store w w' \<Longrightarrow> Q r' w'"
  shows "wp (append_audit_at env r time actor event outcome detail) Q E w"
proof (cases "ir_audit r")
  case Nil
  then show ?thesis
    unfolding append_audit_at_def by (simp add: wp_simps) (rule assms, auto simp: audited_def)
next
  case (Cons a as)
  then show ?thesis
    unfolding append_audit_at_def by (simp add: wp_simps) (rule assms, auto simp: audited_def)
qed

lemma wp_fail_at:
  assumes "\<And>r' e w'. audited (r\<lparr>ir_state := ''failed'', ir_updated := time, ir_error := Some e\<rparr>) time r' \<Longrightarrow>
      ie_code e = code \<Longrightarrow> ie_retryable e = retry \<Longrightarrow> same_store w w' \<Longrightarrow> Q r' w'"
  shows "wp (fail_at env r time actor code message retry detail) Q E w"
  unfolding fail_at_def by (rule wp_append_audit_at) (rule assms, auto)

lemma wp_transition_ok:
  assumes "can_transition_state (ir_state r) state"
    and "\<And>r' w'. audited (r\<lparr>ir_state := state, ir_updated := time,
      ir_error := (if state = ''failed'' \<or> state = ''recovering'' then ir_error r else None)\<rparr>) time r' \<Longrightarrow>
      same_store w w' \<Longrightarrow> Q r' w'"
  shows "wp (transition_at env r state time actor event detail) Q E w"
  unfolding transition_at_def wp_if using assms by (auto intro: wp_append_audit_at)

section \<open>The history of a record\<close>

definition record_step :: "prov_record \<Rightarrow> prov_record \<Rightarrow> bool" where
  "record_step a b \<longleftrightarrow> same_binding a b \<and> ir_operation a = ir_operation b \<and> ir_started a = ir_started b
     \<and> prefix (ir_audit a) (ir_audit b) \<and> can_transition_state\<^sup>*\<^sup>* (ir_state a) (ir_state b)"

lemma record_step_refl [simp]: "record_step r r"
  by (simp add: record_step_def same_binding_def)

lemma record_step_trans [trans]: "record_step a b \<Longrightarrow> record_step b c \<Longrightarrow> record_step a c"
  unfolding record_step_def same_binding_def by (auto intro: prefix_order.trans rtranclp_trans)

lemma record_step_audited:
  "record_step a b \<Longrightarrow> audited b time c \<Longrightarrow> record_step a c"
  unfolding record_step_def same_binding_def audited_def by (auto intro: prefix_order.trans)

lemma record_step_frame:
  assumes "record_step a b" and "can_transition_state\<^sup>*\<^sup>* (ir_state b) (ir_state c)" and "same_binding b c"
    and "ir_operation c = ir_operation b" and "ir_started c = ir_started b" and "ir_audit c = ir_audit b"
  shows "record_step a c"
  using assms unfolding record_step_def same_binding_def by (auto intro: rtranclp_trans)

lemma reaches_failed:
  assumes "s \<in> set provisioning_states" and "s \<noteq> ''retired''"
  shows "can_transition_state\<^sup>*\<^sup>* s ''failed''"
proof -
  have direct: "can_transition_state t ''failed''" if "t \<in> {''preflight'', ''awaiting-authority'', ''provisioning'',
      ''secret-pending'', ''validating'', ''ready'', ''rotating'', ''recovering''}" for t
    using that by (auto simp: can_transition_state_def prov_transitions_def)
  have "can_transition_state ''planned'' ''preflight''" and "can_transition_state ''disabled'' ''recovering''"
    by (simp_all add: can_transition_state_def prov_transitions_def)
  then have "can_transition_state\<^sup>*\<^sup>* ''planned'' ''failed''" and "can_transition_state\<^sup>*\<^sup>* ''disabled'' ''failed''"
    using direct by (meson converse_rtranclp_into_rtranclp r_into_rtranclp insertCI)+
  then show ?thesis
    using assms direct by (auto simp: provisioning_states_def intro: r_into_rtranclp)
qed

section \<open>Rely and guarantee\<close>

definition store_step :: "'s prov_store \<Rightarrow> 's \<Rightarrow> 's \<Rightarrow> bool" where
  "store_step ops s s' \<longleftrightarrow> (\<forall>k r. ps_get ops k s = Some r \<longrightarrow> (\<exists>r'. ps_get ops k s' = Some r' \<and> record_step r r'))"

lemma store_step_refl [simp]: "store_step ops s s"
  unfolding store_step_def using record_step_refl by blast

lemma store_stepD:
  "store_step ops s t \<Longrightarrow> ps_get ops k s = Some r \<Longrightarrow> \<exists>r'. ps_get ops k t = Some r' \<and> record_step r r'"
  by (simp add: store_step_def)

lemma store_step_trans [trans]:
  assumes "store_step ops s t" and "store_step ops t u"
  shows "store_step ops s u"
  unfolding store_step_def
proof (intro allI impI)
  fix k r assume "ps_get ops k s = Some r"
  then obtain r' where "ps_get ops k t = Some r'" "record_step r r'" using store_stepD[OF assms(1)] by blast
  moreover then obtain r'' where "ps_get ops k u = Some r''" "record_step r' r''" using store_stepD[OF assms(2)] by blast
  ultimately show "\<exists>r'. ps_get ops k u = Some r' \<and> record_step r r'" by (blast intro: record_step_trans)
qed

lemma store_step_set:
  assumes "\<And>k. ps_get ops k t = (if k = key then Some r else ps_get ops k s)"
    and "\<And>c. ps_get ops key s = Some c \<Longrightarrow> record_step c r"
  shows "store_step ops s t"
  unfolding store_step_def
proof (intro allI impI)
  fix k q assume "ps_get ops k s = Some q"
  then show "\<exists>r'. ps_get ops k t = Some r' \<and> record_step q r'"
    by (cases "k = key") (simp_all add: assms)
qed

text \<open>
  What an operation relies on while it waits for an adapter: the others keep the invariant, take records forward only,
  and give a record they write another time of update.
\<close>

definition others_step :: "'s prov_store \<Rightarrow> 's \<Rightarrow> 's \<Rightarrow> bool" where
  "others_step ops s s' \<longleftrightarrow> store_step ops s s'
     \<and> (\<forall>k r r'. ps_get ops k s = Some r \<longrightarrow> ps_get ops k s' = Some r' \<longrightarrow> ir_updated r' = ir_updated r \<longrightarrow> r' = r)"

text \<open>The store has the record, or one written later under its key.\<close>

definition holding :: "'s prov_store \<Rightarrow> prov_record \<Rightarrow> 's \<Rightarrow> bool" where
  "holding ops cur s \<longleftrightarrow> (\<forall>c. ps_get ops (ir_key cur) s = Some c \<longrightarrow> ir_updated c = ir_updated cur \<longrightarrow> c = cur)"

lemma holding_stored: "ps_get ops (ir_key cur) s = Some cur \<Longrightarrow> holding ops cur s"
  by (simp add: holding_def)

lemma holding_others: "ps_get ops (ir_key cur) s = Some cur \<Longrightarrow> others_step ops s s' \<Longrightarrow> holding ops cur s'"
  by (simp add: holding_def others_step_def)

context prov_records
begin

definition guaranteed :: "'s prov_world \<Rightarrow> 's prov_world \<Rightarrow> bool" where
  "guaranteed w w' \<longleftrightarrow> inv (pw_store w') \<and> store_step ops (pw_store w) (pw_store w')"

definition rely :: "'s prov_env \<Rightarrow> bool" where
  "rely env \<longleftrightarrow> pe_store env = ops \<and> pe_parse env = parse_url
     \<and> (\<forall>calls s. inv s \<longrightarrow> inv (pe_meanwhile env calls s) \<and> others_step ops s (pe_meanwhile env calls s))"

lemma guaranteed_same: "guaranteed w v \<Longrightarrow> same_store v w' \<Longrightarrow> guaranteed w w'"
  by (simp add: guaranteed_def same_store_def)

lemma guaranteed_trans: "guaranteed w v \<Longrightarrow> guaranteed v w' \<Longrightarrow> guaranteed w w'"
  unfolding guaranteed_def by (auto intro: store_step_trans)

lemma guaranteed_start: "inv (pw_store w) \<Longrightarrow> same_store w w' \<Longrightarrow> guaranteed w w'"
  by (simp add: guaranteed_def same_store_def)

lemma wp_save_step:
  assumes env: "pe_store env = ops" and start: "guaranteed w v" and held: "holding ops cur (pw_store v)"
    and step: "record_step cur r"
    and ok: "\<And>v'. guaranteed w v' \<Longrightarrow> ps_get ops (ir_key cur) (pw_store v') = Some r \<Longrightarrow> pw_calls v' = pw_calls v \<Longrightarrow> Q () v'"
    and failed: "\<And>v'. guaranteed w v' \<Longrightarrow> E v'"
  shows "wp (save_record env r (Some (ir_updated cur))) Q E v"
proof -
  have inv: "inv (pw_store v)" using start by (simp add: guaranteed_def)
  have key: "ir_key r = ir_key cur" using step by (simp add: record_step_def same_binding_def)
  obtain res s where saved: "ps_save ops r (Some (ir_updated cur)) (pw_store v) = (res, s)" by fastforce
  from inv saved show ?thesis
  proof (cases rule: save_cases)
    case (1 e)
    then have "guaranteed w (v\<lparr>pw_store := s\<rparr>)" using start by (simp add: guaranteed_def)
    then show ?thesis using 1 saved failed by (simp add: wp_simps env)
  next
    case 2
    obtain c where c: "ps_get ops (ir_key cur) (pw_store v) = Some c" "ir_updated c = ir_updated cur"
      using 2(4) key by auto
    then have "c = cur" using held by (simp add: holding_def)
    then have "store_step ops (pw_store v) s"
      using 2(6) c(1) step key by (intro store_step_set[of ops s "ir_key r" r]) auto
    with start have "store_step ops (pw_store w) s" by (auto simp: guaranteed_def intro: store_step_trans)
    then have "Q () (v\<lparr>pw_store := s\<rparr>)" using 2 key by (intro ok) (simp_all add: guaranteed_def)
    then show ?thesis using 2(1) saved by (simp add: wp_simps env)
  qed
qed

lemma wp_save_new:
  assumes env: "pe_store env = ops" and start: "guaranteed w v" and fresh: "ps_get ops (ir_key r) (pw_store v) = None"
    and ok: "\<And>v'. guaranteed w v' \<Longrightarrow> ps_get ops (ir_key r) (pw_store v') = Some r \<Longrightarrow> pw_calls v' = pw_calls v \<Longrightarrow> Q () v'"
    and failed: "\<And>v'. guaranteed w v' \<Longrightarrow> E v'"
  shows "wp (save_record env r None) Q E v"
proof -
  have inv: "inv (pw_store v)" using start by (simp add: guaranteed_def)
  obtain res s where saved: "ps_save ops r None (pw_store v) = (res, s)" by fastforce
  from inv saved show ?thesis
  proof (cases rule: save_cases)
    case (1 e)
    then have "guaranteed w (v\<lparr>pw_store := s\<rparr>)" using start by (simp add: guaranteed_def)
    then show ?thesis using 1 saved failed by (simp add: wp_simps env)
  next
    case 2
    have "store_step ops (pw_store v) s"
      using 2(6) fresh by (intro store_step_set[of ops s "ir_key r" r]) auto
    with start have "store_step ops (pw_store w) s" by (auto simp: guaranteed_def intro: store_step_trans)
    then have "Q () (v\<lparr>pw_store := s\<rparr>)" using 2 by (intro ok) (simp_all add: guaranteed_def)
    then show ?thesis using 2(1) saved by (simp add: wp_simps env)
  qed
qed

end

section \<open>What the operations guarantee\<close>

text \<open>A record that has become ready was ready by the adapter's word, from a state that allows it, or by evaluation.\<close>

definition ready_by :: "prov_plan \<Rightarrow> prov_record \<Rightarrow> prov_record \<Rightarrow> bool" where
  "ready_by plan cur r \<longleftrightarrow> ir_state r = ''ready'' \<longrightarrow>
     can_transition_state (ir_state cur) ''ready'' \<or> rd_ready (evaluate_readiness plan r)"

definition live :: "prov_record \<Rightarrow> bool" where
  "live r \<longleftrightarrow> can_transition_state\<^sup>*\<^sup>* (ir_state r) ''failed''"

lemma record_step_live: "record_step a b \<Longrightarrow> live b \<Longrightarrow> live a"
  unfolding record_step_def live_def by (auto intro: rtranclp_trans)

lemma record_step_failed:
  assumes "live r" and "audited (r\<lparr>ir_state := ''failed'', ir_updated := time, ir_error := e\<rparr>) time r'"
  shows "record_step r r'" and "ir_state r' = ''failed''"
  using assms by (auto simp: record_step_def same_binding_def audited_def live_def)

lemma record_step_moved:
  assumes "can_transition_state (ir_state r) state"
    and "audited (r\<lparr>ir_state := state, ir_updated := time, ir_error := e\<rparr>) time r'"
  shows "record_step r r'" and "ir_state r' = state"
  using assms by (auto simp: record_step_def same_binding_def audited_def)

lemma with_result_simps [simp]:
  "ir_state (with_result r result time) = ar_state result"
  "ir_updated (with_result r result time) = time"
  "ir_key (with_result r result time) = ir_key r"
  "ir_id (with_result r result time) = ir_id r"
  "ir_plan (with_result r result time) = ir_plan r"
  "ir_client (with_result r result time) = ir_client r"
  "ir_operation (with_result r result time) = ir_operation r"
  "ir_started (with_result r result time) = ir_started r"
  "ir_audit (with_result r result time) = ir_audit r"
  "ir_observation (with_result r result time) = ar_observation result"
  "ir_error (with_result r result time) = ar_error result"
  by (simp_all add: with_result_def)

lemma record_step_result:
  assumes "can_transition_state (ir_state r) (ar_state result)" and "audited (with_result r result time) time r'"
  shows "record_step r r'" and "ir_state r' = ar_state result" and "ir_operation r' = ir_operation r"
  using assms by (auto simp: record_step_def same_binding_def audited_def)

lemma record_step_default_error [simp]:
  "record_step r (default_error q) \<longleftrightarrow> record_step r q" "ir_state (default_error q) = ir_state q"
  by (simp_all add: default_error_def record_step_def same_binding_def split: option.splits)

lemma audited_simps:
  assumes "audited r time r'"
  shows "ir_state r' = ir_state r" "ir_key r' = ir_key r" "ir_error r' = ir_error r" "ir_observation r' = ir_observation r"
    "ir_operation r' = ir_operation r" "ir_plan r' = ir_plan r" "ir_client r' = ir_client r" "ir_secret r' = ir_secret r"
    "ir_continuation r' = ir_continuation r" "ir_drift r' = ir_drift r" "ir_updated r' = time"
  using assms by (auto simp: audited_def)

text \<open>Readiness looks at neither the time nor the audit trail.\<close>

lemma readiness_audited: "audited r time r' \<Longrightarrow> readiness_blockers plan r' = readiness_blockers plan r"
  by (simp add: readiness_blockers_def audited_simps)

lemma rd_ready_iff: "rd_ready (evaluate_readiness plan r) \<longleftrightarrow> readiness_blockers plan r = []"
  by (simp add: evaluate_readiness_def Let_def)

lemma wp_settle_validation:
  assumes "ir_state r = ''validating''"
    and "\<And>r' w'. record_step r r' \<Longrightarrow> ir_state r' = ''failed'' \<or> rd_ready (evaluate_readiness plan r') \<Longrightarrow>
      same_store w w' \<Longrightarrow> Q r' w'"
  shows "wp (settle_validation env plan r obs time) Q E w"
proof -
  have step: "record_step r (r\<lparr>ir_drift := d\<rparr>)" for d by (simp add: record_step_def same_binding_def)
  have reach: "can_transition_state ''validating'' ''ready''" "can_transition_state ''validating'' ''failed''"
    by (simp_all add: can_transition_state_def prov_transitions_def)
  have alive: "live (r\<lparr>ir_drift := d\<rparr>)" for d using reach(2) assms(1) by (auto simp: live_def)
  let ?d = "r\<lparr>ir_drift := assess_drift plan obs\<rparr>"
  show ?thesis
  proof (cases "rd_ready (evaluate_readiness plan (?d\<lparr>ir_state := ''ready''\<rparr>))")
    case True
    then have settle: "settle_validation env plan r obs time = transition_at env ?d ''ready'' time ''automation''
        ''post-registration-validation'' ''client-ready''"
      by (simp add: settle_validation_def Let_def)
    have moves: "can_transition_state (ir_state ?d) ''ready''" using assms(1) reach(1) by simp
    show ?thesis
      unfolding settle
    proof (rule wp_transition_ok[OF moves])
      fix r' w' assume r': "audited (?d\<lparr>ir_state := ''ready'', ir_updated := time,
        ir_error := (if ''ready'' = ''failed'' \<or> ''ready'' = ''recovering'' then ir_error ?d else None)\<rparr>) time r'"
        and w': "same_store w w'"
      show "Q r' w'"
      proof (rule assms(2)[OF _ _ w'])
        show "record_step r r'" using r' assms(1) reach(1) by (auto simp: record_step_def same_binding_def audited_def)
        show "ir_state r' = ''failed'' \<or> rd_ready (evaluate_readiness plan r')"
          unfolding rd_ready_iff readiness_audited[OF r'] using True by (simp add: rd_ready_iff readiness_blockers_def)
      qed
    qed
  next
    case False
    then have settle: "settle_validation env plan r obs time = fail_at env ?d time ''automation''
        ''post-registration-validation-failed'' ''Provider configuration failed readiness validation.'' True
        (readiness_detail (rd_blockers (evaluate_readiness plan (?d\<lparr>ir_state := ''ready''\<rparr>))))"
      by (simp add: settle_validation_def Let_def)
    show ?thesis
      unfolding settle
    proof (rule wp_fail_at)
      fix r' e w' assume r': "audited (?d\<lparr>ir_state := ''failed'', ir_updated := time, ir_error := Some e\<rparr>) time r'"
        and w': "same_store w w'"
      note f = record_step_failed[OF alive r']
      show "Q r' w'" using record_step_trans[OF step f(1)] f(2) w' by (intro assms(2)) simp_all
    qed
  qed
qed

context prov_records
begin

definition ended :: "prov_plan \<Rightarrow> 's prov_world \<Rightarrow> prov_record \<Rightarrow> prov_record option \<Rightarrow> 's prov_world \<Rightarrow> bool" where
  "ended plan w cur res w' \<longleftrightarrow> guaranteed w w' \<and> (\<exists>r. res = Some r
     \<and> ps_get ops (ir_key cur) (pw_store w') = Some r \<and> record_step cur r \<and> ready_by plan cur r)"

lemma wp_fail_save:
  assumes env: "pe_store env = ops" and start: "guaranteed w v" and held: "holding ops cur (pw_store v)" and alive: "live cur"
    and ok: "\<And>r v'. guaranteed w v' \<Longrightarrow> ps_get ops (ir_key cur) (pw_store v') = Some r \<Longrightarrow> record_step cur r \<Longrightarrow>
      ir_state r = ''failed'' \<Longrightarrow> wp (K r) Q E v'"
    and failed: "\<And>v'. guaranteed w v' \<Longrightarrow> E v'"
  shows "wp (bind_prov (fail_at env cur time actor code message retry detail) (\<lambda>f.
    bind_prov (save_record env f (Some (ir_updated cur))) (\<lambda>_. K f))) Q E v"
  unfolding wp_bind
proof (rule wp_fail_at)
  fix r e v' assume r: "audited (cur\<lparr>ir_state := ''failed'', ir_updated := time, ir_error := Some e\<rparr>) time r"
    and v': "same_store v v'"
  note step = record_step_failed[OF alive r]
  show "wp (save_record env r (Some (ir_updated cur))) (\<lambda>a. wp (K r) Q E) E v'"
  proof (rule wp_save_step[OF env guaranteed_same[OF start v'] _ step(1) _ failed])
    show "holding ops cur (pw_store v')" using held v' by (simp add: same_store_def)
    show "wp (K r) Q E v''" if "guaranteed w v''" "ps_get ops (ir_key cur) (pw_store v'') = Some r" for v''
      by (rule ok[OF that step])
  qed
qed

lemma wp_save_validated_or_fail:
  assumes rely: "rely env" and start: "guaranteed w v" and held: "holding ops cur (pw_store v)" and alive: "live cur"
    and step: "record_step cur r" and ready: "ready_by plan cur r"
  shows "wp (bind_prov (save_validated_or_fail env cur r actor) (\<lambda>_. stored_by_key env (ir_key cur)))
    (ended plan w cur) (guaranteed w) v"
proof -
  have env: "pe_store env = ops" using rely by (simp add: rely_def)
  have done_failed: "ended plan w cur (Some q) v'" if "guaranteed w v'" "ps_get ops (ir_key cur) (pw_store v') = Some q"
      "record_step cur q" "ir_state q = ''failed''" for q v'
    using that by (simp add: ended_def ready_by_def)
  show ?thesis
  proof (cases "vr_valid (validate_record (pe_parse env) r)")
    case True
    then show ?thesis
      unfolding save_validated_or_fail_def wp_bind wp_stored_by_key env
      by (simp, intro wp_save_step[OF env start held step]) (simp_all add: ended_def step ready)
  next
    case False
    then show ?thesis
      unfolding save_validated_or_fail_def wp_bind wp_stored_by_key env
      apply (simp add: wp_bind wp_timestamp)
      apply (intro conjI impI)
       apply (rule wp_fail_save[where K = "\<lambda>_. ret ()", unfolded wp_bind wp_ret, OF env _ _ alive])
          apply (simp_all add: guaranteed_same[OF start] held done_failed)
      done
  qed
qed

end

lemma not_ready_by: "ir_state r \<noteq> ''ready'' \<Longrightarrow> ready_by plan cur r"
  by (simp add: ready_by_def)

lemma settle_result_cases:
  obtains (gate) "ir_state r1 = ''awaiting-authority''"
  | (stop) "ir_state r1 = ''failed'' \<or> ir_state r1 = ''recovering''"
  | (check) obs where "ir_state r1 = ''validating''" "ir_observation r1 = Some obs"
      "ir_operation r1 \<notin> {''disable'', ''retire''}"
  | (other) "ir_state r1 \<noteq> ''awaiting-authority''" "\<not> (ir_state r1 = ''failed'' \<or> ir_state r1 = ''recovering'')"
      "ir_observation r1 = None \<or> \<not> (ir_state r1 = ''validating'' \<and> ir_operation r1 \<notin> {''disable'', ''retire''})"
  by (cases "ir_observation r1") auto

context prov_records
begin

lemma ended_failed:
  "guaranteed w u \<Longrightarrow> ps_get ops (ir_key cur) (pw_store u) = Some q \<Longrightarrow> record_step cur q \<Longrightarrow>
    ir_state q = ''failed'' \<Longrightarrow> ended plan w cur (Some q) u"
  by (simp add: ended_def not_ready_by)

lemma wp_settle_result:
  assumes rely: "rely env" and start: "guaranteed w u" and held: "holding ops cur (pw_store u)" and alive: "live cur"
    and step: "record_step cur r1" and ready: "ready_by plan cur r1"
  shows "wp (settle_result env plan cur time actor r1) (ended plan w cur) (guaranteed w) u"
proof -
  have env: "pe_store env = ops" using rely by (simp add: rely_def)
  have store: "wp (bind_prov (save_validated_or_fail env cur r2 actor) (\<lambda>_. stored_by_key env (ir_key cur)))
      (ended plan w cur) (guaranteed w) u'"
    if "same_store u u'" "record_step cur r2" "ready_by plan cur r2" for r2 u'
    using that held
    by (intro wp_save_validated_or_fail[OF rely guaranteed_same[OF start]] alive) (simp_all add: same_store_def)
  show ?thesis
  proof (cases r1 rule: settle_result_cases)
    case gate
    have saves: "wp (bind_prov (save_record env r1 (Some (ir_updated cur))) (\<lambda>_. ret (Some r1)))
        (ended plan w cur) (guaranteed w) u"
      unfolding wp_bind wp_ret
      by (rule wp_save_step[OF env start held step]) (simp_all add: ended_def step gate not_ready_by)
    have fails: "wp (bind_prov (fail_at env cur time actor ''adapter-result-invalid''
        ''The provider authority gate was invalid.'' False ''invalid-adapter-result'') (\<lambda>r2.
          bind_prov (save_record env r2 (Some (ir_updated cur))) (\<lambda>_. ret (Some r2)))) (ended plan w cur) (guaranteed w) u"
      by (rule wp_fail_save[OF env start held alive]) (simp_all add: wp_ret ended_failed)
    show ?thesis using gate saves fails by (simp add: settle_result_def wp_bind wp_ret)
  next
    case stop
    then have "ready_by plan cur (default_error r1)" by (auto intro: not_ready_by)
    with stop show ?thesis using store[of u "default_error r1"] step by (auto simp: settle_result_def)
  next
    case check
    have "wp (bind_prov (settle_validation env plan r1 obs time) (\<lambda>r2.
        bind_prov (save_validated_or_fail env cur r2 actor) (\<lambda>_. stored_by_key env (ir_key cur))))
        (ended plan w cur) (guaranteed w) u" for obs
      unfolding wp_bind[of "settle_validation env plan r1 obs time"]
    proof (rule wp_settle_validation[OF check(1)])
      fix r2 u' assume "record_step r1 r2" "ir_state r2 = ''failed'' \<or> rd_ready (evaluate_readiness plan r2)"
        and "same_store u u'"
      then show "wp (bind_prov (save_validated_or_fail env cur r2 actor) (\<lambda>_. stored_by_key env (ir_key cur)))
          (ended plan w cur) (guaranteed w) u'"
        using record_step_trans[OF step] by (intro store) (auto simp: ready_by_def)
    qed
    then show ?thesis using check by (simp add: settle_result_def)
  next
    case other
    then show ?thesis
      using store[of u r1] step ready by (auto simp: settle_result_def wp_bind wp_ret split: option.splits)
  qed
qed

lemma wp_apply_adapter_result:
  assumes rely: "rely env" and start: "guaranteed w v" and held: "holding ops cur (pw_store v)" and alive: "live cur"
  shows "wp (apply_adapter_result env plan cur result actor) (ended plan w cur) (guaranteed w) v"
proof -
  have env: "pe_store env = ops" using rely by (simp add: rely_def)
  let ?v = "v\<lparr>pw_reads := pw_reads v + 1\<rparr>" and ?time = "pe_now env (pw_reads v)"
  have start': "guaranteed w u" and held': "holding ops cur (pw_store u)" if "same_store ?v u" for u
    using start held that by (auto simp: same_store_def guaranteed_def)
  show ?thesis
  proof (cases "can_transition_state (ir_state cur) (ar_state result)")
    case False
    have "wp (bind_prov (fail_at env cur ?time actor ''adapter-transition-invalid''
          ''The provider adapter returned an invalid lifecycle transition.'' False ''invalid-adapter-result'') (\<lambda>failed.
        bind_prov (save_record env failed (Some (ir_updated cur))) (\<lambda>_. ret (Some failed))))
        (ended plan w cur) (guaranteed w) ?v"
      by (rule wp_fail_save[OF env start' held' alive]) (simp_all add: wp_ret ended_failed)
    then show ?thesis
      using False start' by (simp add: apply_adapter_result_def wp_bind wp_timestamp)
  next
    case True
    have "wp (append_audit_at env (with_result cur result ?time) ?time ''automation'' ''adapter-operation-completed''
          (if ar_error result \<noteq> None then ''failed'' else ''succeeded'') (ar_detail result))
        (\<lambda>r1. wp (settle_result env plan cur ?time actor r1) (ended plan w cur) (guaranteed w)) (guaranteed w) ?v"
    proof (rule wp_append_audit_at)
      fix r1 u assume r1: "audited (with_result cur result ?time) ?time r1" and u: "same_store ?v u"
      note s = record_step_result[OF True r1]
      have "ready_by plan cur r1" using True s(2) by (auto simp: ready_by_def)
      then show "wp (settle_result env plan cur ?time actor r1) (ended plan w cur) (guaranteed w) u"
        by (rule wp_settle_result[OF rely start'[OF u] held'[OF u] alive s(1)])
    qed
    then show ?thesis
      using True start' unfolding apply_adapter_result_def by (simp add: wp_bind wp_timestamp)
  qed
qed

end

lemma not_directly_ready [simp]:
  "\<not> can_transition_state ''preflight'' ''ready''" "\<not> can_transition_state ''provisioning'' ''ready''"
  "\<not> can_transition_state ''awaiting-authority'' ''ready''"
  by (simp_all add: can_transition_state_def prov_transitions_def)

lemma live_states [simp]:
  "ir_state r = ''preflight'' \<Longrightarrow> live r" "ir_state r = ''provisioning'' \<Longrightarrow> live r" "ir_state r = ''recovering'' \<Longrightarrow> live r"
  "ir_state r = ''awaiting-authority'' \<Longrightarrow> live r"
  by (auto simp: live_def can_transition_state_def prov_transitions_def)

lemma live_valid:
  assumes "vr_valid (validate_record parse_url r)" and "ir_state r \<noteq> ''retired''"
  shows "live r"
proof -
  have "ir_state r \<in> set provisioning_states"
    using assms(1) by (simp add: validate_record_def validation_of_def record_errors_def message_if_def split: if_splits)
  then show ?thesis using reaches_failed assms(2) by (simp add: live_def)
qed

lemma wp_timestampI:
  assumes "\<And>time u. same_store w u \<Longrightarrow> Q time u" and "\<And>u. same_store w u \<Longrightarrow> E u"
  shows "wp (timestamp env) Q E w"
  unfolding wp_timestamp using assms by simp

context prov_records
begin

lemma ended_later:
  assumes "record_step cur cur'" and "ended plan w cur' res w'" and "\<not> can_transition_state (ir_state cur') ''ready''"
  shows "ended plan w cur res w'"
proof -
  have "ir_key cur' = ir_key cur" using assms(1) by (simp add: record_step_def same_binding_def)
  then show ?thesis
    using assms unfolding ended_def ready_by_def by (auto intro: record_step_trans)
qed

lemma wp_ask_adapter:
  assumes rely: "rely env" and start: "guaranteed w v" and held: "ps_get ops (ir_key cur) (pw_store v) = Some cur"
    and alive: "live cur"
  shows "wp (ask_adapter env plan adapter cur actor previous) (ended plan w cur) (guaranteed w) v"
proof -
  have env: "pe_store env = ops" using rely by (simp add: rely_def)
  have others: "inv (pe_meanwhile env calls (pw_store v))" "others_step ops (pw_store v) (pe_meanwhile env calls (pw_store v))"
    for calls using rely start by (auto simp: rely_def guaranteed_def)
  let ?now = "pe_now env (pw_reads v)" and ?v = "v\<lparr>pw_reads := pw_reads v + 1\<rparr>"
  let ?call = "\<lparr>ac_operation = ir_operation cur, ac_plan = plan, ac_previous = previous, ac_key = ir_key cur, ac_now = ?now\<rparr>"
  let ?u = "?v\<lparr>pw_calls := pw_calls v @ [?call], pw_store := pe_meanwhile env (pw_calls v @ [?call]) (pw_store v)\<rparr>"
  have start': "guaranteed w u" if "same_store ?u u" for u
    using that others start by (auto simp: same_store_def guaranteed_def others_step_def intro: store_step_trans)
  have held': "holding ops cur (pw_store u)" if "same_store ?u u" for u
    using that holding_others[OF held others(2)] by (simp add: same_store_def)
  have thrown: "wp (bind_prov (fail_now env cur actor ''adapter-execution-failed''
           ''The provider operation failed. Review the provider and retry safely.'' True (thrown_detail x)) (\<lambda>failed.
         bind_prov (save_record env failed (Some (ir_updated cur))) (\<lambda>_. ret (Some failed)))) (ended plan w cur) (guaranteed w) ?u"
    for x
    unfolding fail_now_def wp_bind
  proof (rule wp_timestampI)
    fix time u assume u: "same_store ?u u"
    show "wp (fail_at env cur time actor ''adapter-execution-failed''
           ''The provider operation failed. Review the provider and retry safely.'' True (thrown_detail x))
        (\<lambda>f. wp (save_record env f (Some (ir_updated cur))) (\<lambda>_. wp (ret (Some f)) (ended plan w cur) (guaranteed w))
          (guaranteed w)) (guaranteed w) u"
      by (rule wp_fail_save[unfolded wp_bind, OF env start'[OF u] held'[OF u] alive]) (simp_all add: wp_ret ended_failed)
  qed (rule start')
  have answered: "wp (apply_adapter_result env plan cur result actor) (ended plan w cur) (guaranteed w) ?u" for result
    by (rule wp_apply_adapter_result[OF rely start' held' alive]) simp_all
  have "guaranteed w ?v" using start by (simp add: guaranteed_def)
  then show ?thesis
    using thrown answered
    by (auto simp: ask_adapter_def wp_bind[of "timestamp env"] wp_bind[of "call_adapter _ _ _"] wp_timestamp wp_call_adapter
        split: sum.splits)
qed

lemma wp_execute_adapter:
  assumes rely: "rely env" and start: "guaranteed w v" and held: "ps_get ops (ir_key cur) (pw_store v) = Some cur"
    and alive: "live cur"
  shows "wp (execute_adapter env plan adapter cur actor previous) (ended plan w cur) (guaranteed w) v"
proof (cases "ir_state cur = ''preflight'' \<and> iv_mode (ip_provider plan) \<noteq> ''resumable-owner-gate''")
  case False
  then show ?thesis
    unfolding execute_adapter_def if_not_P[OF False] wp_bind[of "ret cur"] wp_ret
    by (intro wp_ask_adapter[OF rely start held alive])
next
  case True
  have env: "pe_store env = ops" using rely by (simp add: rely_def)
  let ?v = "v\<lparr>pw_reads := pw_reads v + 1\<rparr>" and ?time = "pe_now env (pw_reads v)"
  let ?rest = "\<lambda>r1. wp (ask_adapter env plan adapter r1 actor previous) (ended plan w cur) (guaranteed w)"
  have moves: "can_transition_state (ir_state cur) ''provisioning''"
    using True by (simp add: can_transition_state_def prov_transitions_def)
  have start': "guaranteed w ?v" using start by (simp add: guaranteed_def)
  have "wp (transition_at env cur ''provisioning'' ?time actor ''preflight-completed'' ''provider-write-authorized'')
      (\<lambda>r1. wp (save_record env r1 (Some (ir_updated cur))) (\<lambda>_. ?rest r1) (guaranteed w)) (guaranteed w) ?v"
  proof (rule wp_transition_ok[OF moves])
    fix r1 u assume r1: "audited (cur\<lparr>ir_state := ''provisioning'', ir_updated := ?time, ir_error :=
      (if ''provisioning'' = ''failed'' \<or> ''provisioning'' = ''recovering'' then ir_error cur else None)\<rparr>) ?time r1"
      and u: "same_store ?v u"
    note s = record_step_moved[OF moves r1]
    have key: "ir_key r1 = ir_key cur" using s(1) by (simp add: record_step_def same_binding_def)
    have held_u: "holding ops cur (pw_store u)" using held u by (simp add: same_store_def holding_stored)
    show "wp (save_record env r1 (Some (ir_updated cur))) (\<lambda>_. ?rest r1) (guaranteed w) u"
    proof (rule wp_save_step[OF env guaranteed_same[OF start' u] held_u s(1)])
      fix v' assume v': "guaranteed w v'" "ps_get ops (ir_key cur) (pw_store v') = Some r1"
      show "?rest r1 v'"
        by (rule wp_mono[OF wp_ask_adapter[OF rely v'(1) v'(2)[folded key] live_states(2)[OF s(2)]]])
          (use ended_later[OF s(1)] s(2) in auto)
    qed
  qed
  then show ?thesis
    using True start' by (simp add: execute_adapter_def wp_bind wp_ret transition_now_def wp_timestamp)
qed

end

section \<open>Whole requests\<close>

lemma bound_to_step:
  "record_step a b \<Longrightarrow> bound_to a request \<Longrightarrow> bound_to b request"
  by (auto simp: bound_to_def record_step_def same_binding_def)

context prov_records
begin

text \<open>What a run ends with: the stored record of its key, which is ready only when it has been evaluated so.\<close>

definition answered :: "run_request \<Rightarrow> 's prov_world \<Rightarrow> prov_record option \<Rightarrow> 's prov_world \<Rightarrow> bool" where
  "answered request w res w' \<longleftrightarrow> guaranteed w w' \<and> (\<exists>r. res = Some r
     \<and> ps_get ops (rq_key request) (pw_store w') = Some r \<and> bound_to r request
     \<and> (ir_state r = ''ready'' \<longrightarrow> ps_get ops (rq_key request) (pw_store w) \<noteq> None
          \<or> rd_ready (evaluate_readiness (rq_plan request) r)))"

lemma answered_ended:
  assumes "ended (rq_plan request) w cur res w'" and "ir_key cur = rq_key request" and "bound_to cur request"
    and "ps_get ops (rq_key request) (pw_store w) \<noteq> None \<or> \<not> can_transition_state (ir_state cur) ''ready''"
  shows "answered request w res w'"
  using assms bound_to_step unfolding ended_def answered_def ready_by_def by fastforce

lemma wp_record_preflight_failure:
  assumes rely: "rely env" and inv: "inv (pw_store w)" and fresh: "ps_get ops (rq_key request) (pw_store w) = None"
  shows "wp (record_preflight_failure env request code message) (answered request w) (guaranteed w) w"
proof -
  have env: "pe_store env = ops" using rely by (simp add: rely_def)
  have start: "guaranteed w u" and fresh': "ps_get ops (rq_key request) (pw_store u) = None" if "same_store w u" for u
    using that inv fresh by (simp_all add: guaranteed_start same_store_def)
  show ?thesis
    unfolding record_preflight_failure_def wp_bind Let_def
  proof (rule wp_timestampI)
    fix now u assume u: "same_store w u"
    show "wp (create_id env ''operation'') (\<lambda>operation. wp (create_id env ''correlation'') (\<lambda>correlation.
        wp (save_record env (preflight_failed_record request code message now operation correlation) None)
          (\<lambda>_. wp (ret (Some (preflight_failed_record request code message now operation correlation)))
            (answered request w) (guaranteed w)) (guaranteed w)) (guaranteed w)) (guaranteed w) u"
      unfolding wp_create_id wp_ret
      by (rule wp_save_new[OF env])
        (use start fresh' u in \<open>auto simp: same_store_def answered_def bound_to_def preflight_failed_record_def\<close>)
  qed (rule start)
qed

lemma wp_start_operation:
  assumes rely: "rely env" and inv: "inv (pw_store w)" and fresh: "ps_get ops (rq_key request) (pw_store w) = None"
  shows "wp (start_operation env request adapter previous) (answered request w) (guaranteed w) w"
proof -
  have env: "pe_store env = ops" using rely by (simp add: rely_def)
  have start: "guaranteed w u" and fresh': "ps_get ops (rq_key request) (pw_store u) = None" if "same_store w u" for u
    using that inv fresh by (simp_all add: guaranteed_start same_store_def)
  let ?r = "started_record request previous"
  have r: "ir_key (?r now a b) = rq_key request" "ir_state (?r now a b) = ''preflight''" "bound_to (?r now a b) request"
    for now a b by (simp_all add: started_record_def bound_to_def)
  have go: "wp (execute_adapter env (rq_plan request) adapter (?r now a b) (rq_actor request) previous)
      (answered request w) (guaranteed w) v"
    if "guaranteed w v" "ps_get ops (ir_key (?r now a b)) (pw_store v) = Some (?r now a b)" for now a b v
    by (rule wp_mono[OF wp_execute_adapter[OF rely that live_states(1)[OF r(2)]]])
      (use answered_ended[OF _ r(1) r(3)] r(2) in auto)
  show ?thesis
    unfolding start_operation_def wp_bind Let_def
  proof (rule wp_timestampI)
    fix now u assume u: "same_store w u"
    show "wp (create_id env ''operation'') (\<lambda>operation. wp (create_id env ''correlation'') (\<lambda>correlation.
        wp (save_record env (?r now operation correlation) None)
          (\<lambda>_. wp (execute_adapter env (rq_plan request) adapter (?r now operation correlation) (rq_actor request) previous)
            (answered request w) (guaranteed w)) (guaranteed w)) (guaranteed w)) (guaranteed w) u"
      unfolding wp_create_id
      by (rule wp_save_new[OF env]) (use start fresh' u r go in \<open>auto simp: same_store_def\<close>)
  qed (rule start)
qed

lemma wp_resume_operation:
  assumes rely: "rely env" and inv: "inv (pw_store w)" and found: "ps_get ops (rq_key request) (pw_store w) = Some cur"
  shows "wp (resume_operation env request adapter cur) (answered request w) (guaranteed w) w"
proof -
  have env: "pe_store env = ops" using rely by (simp add: rely_def)
  have key: "ir_key cur = rq_key request" and valid: "vr_valid (validate_record parse_url cur)"
    using get_sound[OF inv found] by simp_all
  have start: "guaranteed w u" if "same_store w u" for u using that inv by (simp add: guaranteed_start)
  have go: "wp (execute_adapter env (rq_plan request) adapter r (rq_actor request) (Some r)) (answered request w) (guaranteed w) v"
    if "guaranteed w v" "ps_get ops (ir_key r) (pw_store v) = Some r" "live r" "ir_key r = rq_key request"
      "bound_to r request" for r v
    by (rule wp_mono[OF wp_execute_adapter[OF rely that(1-3)]]) (use answered_ended[OF _ that(4,5)] found in auto)
  consider "\<not> bound_to cur request" | "bound_to cur request" "settled cur"
    | (retry) "bound_to cur request" "\<not> settled cur" "ir_state cur = ''failed'' \<and> retryable cur"
    | (continue) "bound_to cur request" "\<not> settled cur" "\<not> (ir_state cur = ''failed'' \<and> retryable cur)"
    by blast
  then show ?thesis
  proof cases
    case 1
    then show ?thesis using start by (simp add: resume_operation_def wp_raise)
  next
    case 2
    then show ?thesis using start found by (simp add: resume_operation_def wp_ret answered_def)
  next
    case retry
    have moves: "can_transition_state (ir_state cur) ''recovering''"
      using retry(3) by (simp add: can_transition_state_def prov_transitions_def)
    let ?rec = "\<lambda>r. r\<lparr>ir_attempt := num_add (ir_attempt cur) (Fin 1)\<rparr>"
    have "wp (transition_now env cur ''recovering'' (rq_actor request) ''operation-recovery-started''
           ''retrying-failed-operation'') (\<lambda>r. wp (save_record env (?rec r) (Some (ir_updated cur))) (\<lambda>_.
              wp (execute_adapter env (rq_plan request) adapter (?rec r) (rq_actor request) (Some (?rec r)))
              (answered request w) (guaranteed w)) (guaranteed w)) (guaranteed w) w"
      unfolding transition_now_def wp_bind
    proof (rule wp_timestampI, rule wp_transition_ok[OF moves])
      fix time u r u' assume u: "same_store w u" "same_store u u'" and r: "audited (cur\<lparr>ir_state := ''recovering'',
        ir_updated := time, ir_error := (if ''recovering'' = ''failed'' \<or> ''recovering'' = ''recovering''
        then ir_error cur else None)\<rparr>) time r"
      have step: "record_step cur (?rec r)" using record_step_moved[OF moves r] by (simp add: record_step_def same_binding_def)
      have k: "ir_key (?rec r) = rq_key request" using step key by (simp add: record_step_def same_binding_def)
      have live: "live (?rec r)" using record_step_moved[OF moves r] by simp
      note b = bound_to_step[OF step retry(1)]
      show "wp (save_record env (?rec r) (Some (ir_updated cur))) (\<lambda>_.
            wp (execute_adapter env (rq_plan request) adapter (?rec r) (rq_actor request) (Some (?rec r)))
            (answered request w) (guaranteed w)) (guaranteed w) u'"
        by (rule wp_save_step[OF env start[OF same_store_trans[OF u]] _ step])
          (use found key k live b u go in \<open>auto simp: holding_def same_store_def\<close>)
    qed (rule start)
    then show ?thesis using retry by (simp add: resume_operation_def wp_bind Let_def)
  next
    case continue
    then have "live cur" using live_valid[OF valid] by (auto simp: settled_def)
    then show ?thesis
      using continue go[of w cur] start[of w] found key by (auto simp: resume_operation_def)
  qed
qed

lemma wp_run_operation:
  assumes rely: "rely env" and inv: "inv (pw_store w)"
  shows "wp (run_operation env request) (answered request w) (guaranteed w) w"
proof -
  have env: "pe_store env = ops" using rely by (simp add: rely_def)
  have "guaranteed w w" using inv by (simp add: guaranteed_start)
  then show ?thesis
    unfolding run_operation_def
    using wp_record_preflight_failure[OF rely inv] wp_start_operation[OF rely inv] wp_resume_operation[OF rely inv]
    by (auto simp: wp_bind wp_lift wp_stored_by_key wp_stored_latest env split: sum.splits option.splits)
qed

end

section \<open>Decisions\<close>

context prov_records
begin

text \<open>
  What a decision ends with: the stored record of its key, which is ready only when it was so before or
  has been evaluated so.
\<close>

definition decided :: "decision_request \<Rightarrow> 's prov_world \<Rightarrow> prov_record option \<Rightarrow> 's prov_world \<Rightarrow> bool" where
  "decided request w res w' \<longleftrightarrow> guaranteed w w' \<and> (\<exists>r. res = Some r
     \<and> ps_get ops (dq_key request) (pw_store w') = Some r
     \<and> (ir_state r = ''ready'' \<longrightarrow> ps_get ops (dq_key request) (pw_store w) = Some r
          \<or> rd_ready (evaluate_readiness (dq_plan request) r)))"

lemma decided_ended:
  assumes "ended (dq_plan request) w cur res w'" and "ir_key cur = dq_key request"
    and "\<not> can_transition_state (ir_state cur) ''ready''"
  shows "decided request w res w'"
  using assms unfolding ended_def decided_def ready_by_def by auto

lemma wp_reject_decision:
  assumes rely: "rely env" and inv: "inv (pw_store w)" and found: "ps_get ops (ir_key cur) (pw_store w) = Some cur"
  shows "wp (reject_decision env cur actor code message) Q (guaranteed w) w"
proof -
  have env: "pe_store env = ops" using rely by (simp add: rely_def)
  have start: "guaranteed w u" if "same_store w u" for u using that inv by (simp add: guaranteed_start)
  show ?thesis
    unfolding reject_decision_def append_audit_def wp_bind
  proof (rule wp_timestampI, rule wp_append_audit_at)
    fix time u r u' assume u: "same_store w u" "same_store u u'" and r: "audited cur time r"
    have step: "record_step cur r" by (rule record_step_audited[OF record_step_refl r])
    have held: "holding ops cur (pw_store u')" using found u by (simp add: same_store_def holding_stored)
    show "wp (save_record env r (Some (ir_updated cur))) (\<lambda>_. wp (raise code message) Q (guaranteed w)) (guaranteed w) u'"
      by (rule wp_save_step[OF env start[OF same_store_trans[OF u]] held step]) (simp_all add: wp_raise)
  qed (rule start)
qed

lemma wp_settle_gate:
  assumes rely: "rely env" and inv: "inv (pw_store w)" and found: "ps_get ops (dq_key request) (pw_store w) = Some cur"
    and awaiting: "ir_state cur = ''awaiting-authority''"
  shows "wp (settle_gate env request cur c) (decided request w) (guaranteed w) w"
proof -
  have env: "pe_store env = ops" using rely by (simp add: rely_def)
  have start: "guaranteed w u" if "same_store w u" for u using that inv by (simp add: guaranteed_start)
  have key: "ir_key cur = dq_key request" using get_sound[OF inv found] by simp
  have held: "holding ops cur (pw_store u)" if "same_store w u" for u
    using found key that by (simp add: same_store_def holding_stored)
  have moves: "can_transition_state (ir_state cur) ''provisioning''" "can_transition_state (ir_state cur) ''failed''"
    using awaiting by (simp_all add: can_transition_state_def prov_transitions_def)
  have failing: "wp (bind_prov (append_audit_at env (cur\<lparr>ir_updated := now, ir_continuation := d, ir_state := ''failed'',
      ir_error := e, ir_rollback := b\<rparr>) now actor event outcome detail)
      (\<lambda>failed. bind_prov (save_record env failed (Some (ir_updated cur))) (\<lambda>_. ret (Some failed))))
      (decided request w) (guaranteed w) u" if u: "same_store w u" for now d e b actor event outcome detail u
    unfolding wp_bind wp_ret
  proof (rule wp_append_audit_at)
    fix r u' assume r: "audited (cur\<lparr>ir_updated := now, ir_continuation := d, ir_state := ''failed'',
      ir_error := e, ir_rollback := b\<rparr>) now r" and u': "same_store u u'"
    have step: "record_step cur r" and failed: "ir_state r = ''failed''"
      using r moves(2) by (auto simp: audited_def record_step_def same_binding_def)
    show "wp (save_record env r (Some (ir_updated cur))) (\<lambda>_. decided request w (Some r)) (guaranteed w) u'"
      by (rule wp_save_step[OF env start held step])
        (use same_store_trans[OF u u'] key failed in \<open>auto simp: decided_def\<close>)
  qed
  have approving: "wp (bind_prov (transition_at env (cur\<lparr>ir_updated := now, ir_continuation := d\<rparr>) ''provisioning'' now
        actor event detail) (\<lambda>provisioning. bind_prov (save_record env provisioning (Some (ir_updated cur))) (\<lambda>_.
             bind_prov (lift_result (preflight env (dq_plan request) (ir_operation cur))) (\<lambda>adapter.
             execute_adapter env (dq_plan request) adapter provisioning (dq_actor request) (Some provisioning)))))
      (decided request w) (guaranteed w) u" if u: "same_store w u" for now d actor event detail u
    unfolding wp_bind
  proof (rule wp_transition_ok)
    show "can_transition_state (ir_state (cur\<lparr>ir_updated := now, ir_continuation := d\<rparr>)) ''provisioning''"
      using moves by simp
    fix r u' assume r: "audited (cur\<lparr>ir_updated := now, ir_continuation := d, ir_state := ''provisioning'', ir_updated := now,
        ir_error := (if ''provisioning'' = ''failed'' \<or> ''provisioning'' = ''recovering''
          then ir_error (cur\<lparr>ir_updated := now, ir_continuation := d\<rparr>) else None)\<rparr>) now r" and u': "same_store u u'"
    have step: "record_step cur r" and state: "ir_state r = ''provisioning''"
      using r moves(1) by (auto simp: audited_def record_step_def same_binding_def)
    have k: "ir_key r = dq_key request" using step key by (simp add: record_step_def same_binding_def)
    show "wp (save_record env r (Some (ir_updated cur))) (\<lambda>_. wp (lift_result (preflight env (dq_plan request)
         (ir_operation cur))) (\<lambda>adapter. wp (execute_adapter env (dq_plan request) adapter r (dq_actor request) (Some r))
         (decided request w) (guaranteed w)) (guaranteed w)) (guaranteed w) u'"
    proof (rule wp_save_step[OF env start held step])
      fix v assume v: "guaranteed w v" "ps_get ops (ir_key cur) (pw_store v) = Some r"
      have "wp (execute_adapter env (dq_plan request) adapter r (dq_actor request) (Some r)) (decided request w) (guaranteed w) v"
        for adapter
        by (rule wp_mono[OF wp_execute_adapter[OF rely v(1) _ live_states(2)[OF state]]])
          (use v(2) k key state decided_ended in auto)
      then show "wp (lift_result (preflight env (dq_plan request) (ir_operation cur))) (\<lambda>adapter.
          wp (execute_adapter env (dq_plan request) adapter r (dq_actor request) (Some r))
         (decided request w) (guaranteed w)) (guaranteed w) v"
        using v(1) by (auto simp: wp_lift split: sum.splits)
    qed (use same_store_trans[OF u u'] in auto)
  qed
  show ?thesis
    unfolding settle_gate_def wp_bind[of "timestamp env"] Let_def
    by (rule wp_timestampI) (use failing approving start in \<open>auto\<close>)
qed

lemma wp_decide_authority:
  assumes rely: "rely env" and inv: "inv (pw_store w)"
  shows "wp (decide_authority env request) (decided request w) (guaranteed w) w"
proof -
  have env: "pe_store env = ops" using rely by (simp add: rely_def)
  have here: "guaranteed w w" using inv by (simp add: guaranteed_start)
  have pending: "wp (decide_pending env request cur c) (decided request w) (guaranteed w) w"
    if "ps_get ops (dq_key request) (pw_store w) = Some cur" "ir_state cur = ''awaiting-authority''" for cur c
    using that get_sound[OF inv that(1)] wp_reject_decision[OF rely inv, of cur] wp_settle_gate[OF rely inv that]
    by (auto simp: decide_pending_def)
  show ?thesis
    unfolding decide_authority_def wp_bind wp_stored_by_key env
    using here pending by (auto simp: wp_raise wp_ret decided_def split: option.splits bool.splits)
qed

end

end
