(* ===== verification/Provisioning_Valid.thy ===== *)
theory Provisioning_Valid
  imports Provisioning_Laws Js_Whole
begin

text \<open>
  What keeps a provisioning record valid: the audit trail grows by contiguous sequence numbers and monotonic times, and
  the record of a failure passes the validator whenever the record before it does.
\<close>

section \<open>The audit trail\<close>

lemma check_event_sequence: "check_event a n t = [] \<Longrightarrow> ia_sequence a = num_add n (Fin 1)"
  by (simp add: check_event_def message_if_def num_same_def split: if_splits)

definition audit_time :: "audit_event \<Rightarrow> int \<Rightarrow> int" where
  "audit_time a t = (if parses_timestamp (ia_at a) then time_of (ia_at a) else t)"

lemma check_audit_Cons:
  "check_audit (a # as) n t = check_event a n t @ check_audit as (ia_sequence a) (audit_time a t)"
  by (simp add: audit_time_def)

lemma check_audit_append:
  assumes "check_audit as (Fin (of_nat n)) t = []" and "n + length as < 2 ^ 53 - 1"
  shows "check_audit (as @ [a]) (Fin (of_nat n)) t
    = check_event a (Fin (of_nat (n + length as))) (fold audit_time as t)"
  using assms
proof (induction as arbitrary: n t)
  case (Cons b bs)
  have "check_event b (Fin (of_nat n)) t = []" using Cons.prems(1) by simp
  from check_event_sequence[OF this] have "ia_sequence b = Fin (of_nat (n + 1))"
    using num_add_count[of n] Cons.prems(2) by simp
  moreover have "check_audit bs (Fin (of_nat (n + 1))) (audit_time b t) = []"
    using Cons.prems(1) calculation by (simp add: check_audit_Cons del: check_audit.simps)
  ultimately show ?case
    using Cons.IH[of "n + 1" "audit_time b t"] Cons.prems
    by (simp add: check_audit_Cons ac_simps del: check_audit.simps)
qed simp

lemma fold_audit_time: "t \<le> m \<Longrightarrow> list_all (\<lambda>a. time_of (ia_at a) \<le> m) as \<Longrightarrow> fold audit_time as t \<le> m"
  by (induction as arbitrary: t) (auto simp: audit_time_def)

section \<open>The record of a failure\<close>

text \<open>The record and the event that \<open>#failAt\<close> makes.\<close>

definition failure_event :: "prov_record \<Rightarrow> string \<Rightarrow> string \<Rightarrow> string \<Rightarrow> string \<Rightarrow> string \<Rightarrow> audit_event" where
  "failure_event r time actor code detail correlation =
     \<lparr>ia_sequence = Fin (of_nat (length (ir_audit r) + 1)), ia_at = time, ia_type = normalize_detail_code code,
      ia_actor = actor, ia_result = ''failed'', ia_correlation = correlation,
      ia_detail = normalize_detail_code (normalize_detail_code detail), ia_extra = []\<rparr>"

definition failure_record :: "prov_record \<Rightarrow> string \<Rightarrow> string \<Rightarrow> string \<Rightarrow> string \<Rightarrow> bool \<Rightarrow> string \<Rightarrow> string \<Rightarrow> prov_record" where
  "failure_record r time actor code message retry detail correlation =
     r\<lparr>ir_state := ''failed'', ir_updated := time,
       ir_error := Some \<lparr>ie_code = code, ie_retryable = retry, ie_after = None, ie_message = message, ie_extra = []\<rparr>,
       ir_audit := ir_audit r @ [failure_event r time actor code detail correlation]\<rparr>"

lemma fail_at_record:
  assumes "ir_audit r = a # as"
  shows "fail_at env r time actor code message retry detail w
    = (Inr (failure_record r time actor code message retry detail (ia_correlation a)), w)"
  using assms
  by (simp add: fail_at_def append_audit_at_def bind_prov_def ret_def failure_record_def failure_event_def)

lemma safe_default: "safe_code ''operation-detail''"
  by (simp add: safe_code_def letter_char_def code_char_def slug_char_def digit_char_def)

lemma safe_normalized [simp]: "safe_code (normalize_detail_code value)"
  by (simp add: normalize_detail_code_def Let_def safe_default)

lemma known_keys_same: "prop_keys v = prop_keys u \<Longrightarrow> check_known_keys v ks label = check_known_keys u ks label"
  by (simp add: check_known_keys_def)

lemma js_unique_Nil [simp]: "js_unique xs = [] \<longleftrightarrow> xs = []"
  by (simp add: js_unique_def)

lemma no_forbidden: "check_forbidden_fields v = [] \<longleftrightarrow> forbidden_keys v = []"
  by (simp add: check_forbidden_fields_def)

lemma forbidden_event: "forbidden_keys (audit_json (failure_event r time actor code detail correlation)) = []"
  by (simp add: audit_json_def failure_event_def) code_simp

lemma forbidden_error:
  "forbidden_keys (error_json \<lparr>ie_code = code, ie_retryable = retry, ie_after = None, ie_message = message, ie_extra = []\<rparr>) = []"
  by (simp add: error_json_def nullable_def) code_simp

lemma forbidden_failure:
  assumes "forbidden_keys (record_json r) = []"
  shows "forbidden_keys (record_json (failure_record r time actor code message retry detail correlation)) = []"
  using assms unfolding record_json_def failure_record_def
  by (auto simp: forbidden_event forbidden_error nullable_def message_if_def)

text \<open>
  What the caller of \<open>#failAt\<close> has to provide: a time that the trail allows, an actor, a code and a message; a trail that
  is neither empty nor longer than an array can be.
\<close>

definition can_fail_with :: "prov_record \<Rightarrow> string \<Rightarrow> string \<Rightarrow> string \<Rightarrow> string \<Rightarrow> bool" where
  "can_fail_with r time actor code message \<longleftrightarrow> parses_timestamp time \<and> 0 \<le> time_of time
     \<and> time_of (ir_started r) \<le> time_of time \<and> list_all (\<lambda>a. time_of (ia_at a) \<le> time_of time) (ir_audit r)
     \<and> actor \<in> set provisioning_actors \<and> safe_code code \<and> \<not> blank message \<and> length message \<le> 500
     \<and> ir_audit r \<noteq> [] \<and> length (ir_audit r) < 2 ^ 32"

lemma check_failure_event:
  assumes "can_fail_with r time actor code message" and "prov_stable_id correlation" and "t \<le> time_of time"
  shows "check_event (failure_event r time actor code detail correlation) (Fin (of_nat (length (ir_audit r)))) t = []"
proof -
  have "num_add (Fin (of_nat (length (ir_audit r)))) (Fin 1) = Fin (of_nat (length (ir_audit r) + 1))"
    using assms(1) by (intro num_add_count) (simp add: can_fail_with_def)
  moreover have "of_nat (length (ir_audit r) + 1) \<in> (\<int> :: rat set)" by (rule Ints_of_nat)
  ultimately show ?thesis
    using assms unfolding check_event_def
    by (simp add: message_if_def failure_event_def audit_json_def check_known_keys_def check_time_def check_stable_id_def
        can_fail_with_def num_same_def del: of_nat_add of_nat_Suc)
qed

lemma check_event_correlation: "check_event a n t = [] \<Longrightarrow> prov_stable_id (ia_correlation a)"
  by (simp add: check_event_def check_stable_id_def message_if_def split: if_splits)

theorem failure_record_valid:
  assumes "vr_valid (validate_record parse_url r)" and "can_fail_with r time actor code message" and "ir_audit r = a # as"
  shows "vr_valid (validate_record parse_url (failure_record r time actor code message retry detail (ia_correlation a)))"
proof -
  let ?e = "failure_event r time actor code detail (ia_correlation a)"
  let ?r = "failure_record r time actor code message retry detail (ia_correlation a)"
  have old: "record_errors parse_url r = []" using assms(1) by (simp add: validate_record_def validation_of_def)
  have audit: "check_audit (ir_audit r) (Fin 0) 0 = []" using old by (simp add: record_errors_def)
  have id: "prov_stable_id (ia_correlation a)" using audit assms(3) by (auto dest: check_event_correlation)
  have "check_audit (ir_audit r @ [?e]) (Fin (of_nat 0)) 0
      = check_event ?e (Fin (of_nat (0 + length (ir_audit r)))) (fold audit_time (ir_audit r) 0)"
    by (rule check_audit_append) (use audit assms(2) in \<open>simp_all add: can_fail_with_def\<close>)
  also have "\<dots> = []"
    using check_failure_event[OF assms(2) id] fold_audit_time[of 0 "time_of time" "ir_audit r"] assms(2)
    by (simp add: can_fail_with_def)
  finally have trail: "check_audit (ir_audit ?r) (Fin 0) 0 = []" by (simp add: failure_record_def)
  have keys: "check_known_keys (record_json ?r) ks label = check_known_keys (record_json r) ks label" for ks label
    by (rule known_keys_same) (simp add: record_json_def failure_record_def)
  have forbidden: "check_forbidden_fields (record_json ?r) = []"
    using old forbidden_failure by (simp add: record_errors_def no_forbidden)
  have error: "check_error (ir_error ?r) (ir_state ?r) = []"
    using assms(2)
    by (simp add: failure_record_def check_error_def check_known_keys_def error_json_def message_if_def can_fail_with_def)
  note parts = old[unfolded record_errors_def append_is_Nil_conv]
  have "check_continuation parse_url (ir_continuation r) (ir_state r) = []" using parts by simp
  then have cont: "check_continuation parse_url (ir_continuation ?r) (ir_state ?r) = []"
    by (cases "ir_continuation r") (simp_all add: failure_record_def check_continuation_def message_if_def split: if_splits)
  have "record_errors parse_url ?r = []"
    using parts assms(2) unfolding record_errors_def forbidden keys trail error cont
    by (simp add: failure_record_def message_if_def check_time_def can_fail_with_def provisioning_states_def)
  then show ?thesis by (simp add: validate_record_def validation_of_def)
qed

end
