(* ===== verification/Provisioning_Samples.thy ===== *)
theory Provisioning_Samples
  imports Provisioning_Engine
begin

text \<open>
  A provider, a plan and an engine on which the operations are evaluated: an adapter that observes what
  the plan asks, a clock that stands still, and a parser that accepts every address as HTTPS.
\<close>

definition sample_hash :: string where
  "sample_hash = replicate 64 (CHR ''a'')"

definition sample_time :: string where
  "sample_time = ''2026-01-01T00:00:00Z''"

definition sample_url :: url_parser where
  "sample_url s = Some \<lparr>up_protocol = ''https:'', up_hostname = s, up_username = [], up_password = [], up_path = ''/'',
     up_search = [], up_hash = []\<rparr>"

definition sample_provider :: prov_provider where
  "sample_provider = \<lparr>iv_id = ''keycloak'', iv_version = ''1.0.0'', iv_mode = ''api'', iv_issuer = ''https://id.test'',
     iv_boundary = \<lparr>ib_kind = ''operator'', ib_digest = sample_hash, ib_extra = []\<rparr>,
     iv_capabilities = [''create'', ''validate'', ''retire''], iv_extra = []\<rparr>"

definition sample_client :: prov_client where
  "sample_client = \<lparr>ic_ref = ''web-client'', ic_kind = ''browser-public'', ic_redirects = [''https://app.test/cb''],
     ic_logouts = [], ic_origins = [''https://app.test''], ic_grants = [''authorization_code''], ic_auth = ''none'',
     ic_pkce = True, ic_scopes = [''openid''], ic_permissions = [], ic_extra = []\<rparr>"

definition sample_plan :: prov_plan where
  "sample_plan = \<lparr>ip_schema = ''1.0'', ip_plan = ''plan-1'', ip_installation = ''site-1'', ip_created = sample_time,
     ip_digest = sample_hash, ip_provider = sample_provider, ip_client = sample_client,
     ip_policy = \<lparr>iy_required = False, iy_manager = ''vault'', iy_interval = None, iy_overlap = False, iy_extra = []\<rparr>,
     ip_extra = []\<rparr>"

definition sample_compat :: compatibility where
  "sample_compat = \<lparr>ik_schema = ''1.0'', ik_provider = ''keycloak'', ik_version = ''1.0.0'', ik_reviewed = ''2026-01-01'',
     ik_sources = [''https://docs.test''], ik_modes = [''api''], ik_operations = [''create'', ''validate'', ''retire''],
     ik_clients = [''browser-public''], ik_gates = [], ik_secrets = [''none''], ik_overlap = False, ik_registration = True,
     ik_recovery = False, ik_extra = []\<rparr>"

definition sample_observation :: observation where
  "sample_observation = \<lparr>io_at = sample_time, io_client = sample_hash, io_digest = sample_hash,
     io_ownership = JBool True, io_issuer = JBool True, io_callbacks = JBool True, io_permissions = JBool True,
     io_credential = JBool True, io_enabled = JBool True, io_extra = []\<rparr>"

definition sample_result :: "string \<Rightarrow> adapter_result" where
  "sample_result state = \<lparr>ar_state = state, ar_continuation = None, ar_secret = None,
     ar_observation = Some sample_observation,
     ar_rollback = \<lparr>il_allowed = False, il_state = None, il_reason = ''not-needed'', il_digest = None, il_extra = []\<rparr>,
     ar_error = None, ar_detail = ''client-created''\<rparr>"

definition sample_adapter :: prov_adapter where
  "sample_adapter = \<lparr>ad_compat = sample_compat, ad_execute = (\<lambda>calls call. Inr (sample_result
     (if ac_operation call = ''retire'' then ''retired'' else ''validating'')))\<rparr>"

definition prov_runtime :: runtime where
  "prov_runtime = \<lparr>collate = (\<lambda>a b. 0), sha256_hex = (\<lambda>s. sample_hash), num_text = (\<lambda>r. [])\<rparr>"

definition sample_env :: "prov_memory prov_env" where
  "sample_env = \<lparr>pe_rt = prov_runtime, pe_parse = sample_url, pe_store = memory_store prov_runtime sample_url,
     pe_adapters = [(''keycloak'', sample_adapter)], pe_now = (\<lambda>n. sample_time), pe_id = (\<lambda>kind n. kind @ ''-0001''),
     pe_meanwhile = (\<lambda>calls m. m)\<rparr>"

definition sample_request :: "string \<Rightarrow> string \<Rightarrow> run_request" where
  "sample_request operation key = \<lparr>rq_plan = sample_plan, rq_operation = operation, rq_key = key, rq_actor = ''operator''\<rparr>"

definition sample_world :: "prov_memory prov_world" where
  "sample_world = \<lparr>pw_store = [], pw_reads = 0, pw_ids = 0, pw_calls = []\<rparr>"

lemmas sample_defs = sample_hash_def sample_url_def sample_provider_def sample_client_def sample_plan_def
  sample_compat_def sample_observation_def sample_result_def sample_adapter_def prov_runtime_def sample_time_def
  sample_env_def sample_request_def sample_world_def





definition sample_started :: prov_record where
  "sample_started = started_record (sample_request ''create'' ''operation-key-0001'') None sample_time
     ''operation-0001'' ''correlation-0001''"


definition sample_audit :: "nat \<Rightarrow> string \<Rightarrow> string \<Rightarrow> string \<Rightarrow> string \<Rightarrow> audit_event" where
  "sample_audit n time event actor detail = \<lparr>ia_sequence = Fin (of_nat n), ia_at = time, ia_type = event, ia_actor = actor,
     ia_result = ''succeeded'', ia_correlation = ''correlation-0001'', ia_detail = detail, ia_extra = []\<rparr>"

definition sample_provisioning :: prov_record where
  "sample_provisioning = sample_started\<lparr>ir_state := ''provisioning'', ir_updated := sample_time,
     ir_audit := ir_audit sample_started @ [sample_audit 2 sample_time ''preflight-completed'' ''operator''
       ''provider-write-authorized'']\<rparr>"

definition sample_ready :: prov_record where
  "sample_ready = sample_provisioning\<lparr>ir_state := ''ready'', ir_updated := sample_time,
     ir_observation := Some sample_observation, ir_rollback := ar_rollback (sample_result ''validating''),
     ir_audit := ir_audit sample_provisioning @ [
       sample_audit 3 sample_time ''adapter-operation-completed'' ''automation'' ''client-created'',
       sample_audit 4 sample_time ''post-registration-validation'' ''automation'' ''client-ready'']\<rparr>"




section \<open>Evaluated texts\<close>

lemma sample_time_parses [simp]: "parses_timestamp sample_time"
  and sample_time_parse: "date_parse sample_time = Some 1767225600000"
  by code_simp+

lemma sample_time_of [simp]: "time_of sample_time = 1767225600000"
  by (simp add: time_of_def sample_time_parse)

lemma sample_hash_digest [simp]: "digest_text sample_hash"
  by code_simp

lemma sample_ids [simp]:
  "prov_stable_id ''keycloak''" "prov_stable_id ''plan-1''" "prov_stable_id ''site-1''" "prov_stable_id ''web-client''"
  "prov_stable_id ''operation-0001''" "prov_stable_id ''correlation-0001''" "prov_stable_id ''vault''"
  "prov_idempotency_key ''operation-key-0001''" "prov_version ''1.0.0''" "date_pattern ''2026-01-01''"
  by code_simp+

lemma sample_codes [simp]:
  "safe_code ''operation-started''" "safe_code ''create-requested''" "safe_code ''preflight-completed''"
  "safe_code ''provider-write-authorized''" "safe_code ''adapter-operation-completed''" "safe_code ''client-created''"
  "safe_code ''post-registration-validation''" "safe_code ''client-ready''" "safe_code ''preflight-not-complete''"
  "safe_code ''not-needed''"
  by code_simp+

text \<open>No field that an interface declares has a forbidden name.\<close>

lemma declared_keys_allowed:
  "list_all (\<lambda>k. to_lower k \<notin> set forbidden_credential_keys)
    [''schemaVersion'', ''operationId'', ''planId'', ''clientRef'', ''idempotencyKey'', ''operation'', ''state'', ''attempt'',
     ''startedAt'', ''updatedAt'', ''continuation'', ''secret'', ''observation'', ''drift'', ''audit'', ''rollback'', ''error'',
     ''sequence'', ''occurredAt'', ''eventType'', ''actor'', ''result'', ''correlationId'', ''detailCode'',
     ''allowed'', ''restoreState'', ''reasonCode'', ''snapshotDigest'', ''observedAt'', ''providerClientRefDigest'',
     ''observedStateDigest'', ''ownershipVerified'', ''issuerVerified'', ''callbacksVerified'', ''permissionsVerified'',
     ''credentialVerified'', ''clientEnabled'']"
  by code_simp

lemmas declared_allowed [simp] = declared_keys_allowed[unfolded list.pred_inject]

section \<open>The records of a run\<close>

lemmas record_checks = record_errors_def check_known_keys_def check_contract_version_def check_stable_id_def
  check_digest_def check_time_def check_continuation_def check_secret_def check_observation_def check_rollback_def
  check_error_def check_event_def message_if_def check_forbidden_fields_def

lemmas record_jsons = record_json_def observation_json_def drift_json_def audit_json_def rollback_json_def error_json_def
  nullable_def

lemma one_to_four [simp]: "double_of 1 = 1" "double_of 2 = 2" "double_of 3 = 3" "double_of 4 = 4"
  by code_simp+

lemmas sample_lists = provisioning_operations_def provisioning_states_def provisioning_actors_def provisioning_authorities_def

lemma sample_started_valid: "record_errors sample_url sample_started = []"
  by (simp add: record_checks record_jsons sample_started_def started_record_def sample_request_def sample_plan_def
      sample_client_def no_provider_write_def sample_lists num_same_def js_unique_def)

lemma sample_provisioning_valid: "record_errors sample_url sample_provisioning = []"
  by (simp add: record_checks record_jsons sample_provisioning_def sample_started_def started_record_def sample_request_def
      sample_plan_def sample_client_def no_provider_write_def sample_lists num_same_def js_unique_def sample_audit_def)

lemma sample_ready_valid: "record_errors sample_url sample_ready = []"
  by (simp add: record_checks record_jsons sample_ready_def sample_provisioning_def sample_started_def started_record_def
      sample_request_def sample_plan_def sample_client_def no_provider_write_def sample_lists num_same_def js_unique_def
      sample_audit_def sample_result_def sample_observation_def ends_with_def)

section \<open>The plan and the adapter\<close>

lemma plan_keys_allowed:
  "list_all (\<lambda>k. to_lower k \<notin> set forbidden_credential_keys)
    [''installationRef'', ''createdAt'', ''desiredStateDigest'', ''provider'', ''client'', ''secretPolicy'', ''id'',
     ''adapterVersion'', ''mode'', ''issuer'', ''authorityBoundary'', ''capabilities'', ''kind'', ''referenceDigest'',
     ''clientKind'', ''redirectUris'', ''postLogoutRedirectUris'', ''allowedOrigins'', ''grantTypes'',
     ''tokenEndpointAuthMethod'', ''pkceRequired'', ''scopes'', ''permissions'', ''required'', ''secretManagerRef'',
     ''rotationIntervalDays'', ''overlapRequired'', ''evidenceReviewedAt'', ''evidenceSources'', ''modes'', ''operations'',
     ''clientKinds'', ''authorityGates'', ''secretKinds'', ''overlappingRotation'', ''registrationManagement'', ''recovery'']"
  by code_simp

lemmas plan_allowed [simp] = plan_keys_allowed[unfolded list.pred_inject]

lemmas plan_checks = plan_errors_def check_known_keys_def check_contract_version_def check_stable_id_def check_digest_def
  check_time_def check_https_url_def check_unique_enum_def check_unique_urls_def check_unique_strings_def check_client_def
  check_secret_policy_def message_if_def check_forbidden_fields_def compatibility_errors_def

lemmas plan_jsons = plan_json_def provider_json_def boundary_json_def client_json_def policy_json_def strings_json_def
  nullable_def compatibility_json_def

lemma sample_scope [simp]: "\<not> blank ''openid''"
  by code_simp

lemma sample_plan_valid: "plan_errors sample_url sample_plan = []"
  by (simp add: plan_checks plan_jsons sample_plan_def sample_provider_def sample_client_def sample_url_def sample_lists
      client_kinds_def provisioning_modes_def js_unique_def space_char_def)

lemma sample_compat_valid: "compatibility_errors sample_url sample_compat = []"
  by (simp add: plan_checks plan_jsons sample_compat_def sample_url_def sample_lists client_kinds_def
      provisioning_modes_def js_unique_def)

lemma sample_preflight: "preflight sample_env sample_plan ''create'' = Inr sample_adapter"
  using sample_plan_valid sample_compat_valid
  by (simp add: preflight_def Let_def sample_env_def sample_adapter_def sample_plan_def sample_provider_def sample_client_def
      validate_plan_def validate_compatibility_def validation_of_def sample_compat_def)

lemma sample_details [simp]:
  "normalize_detail_code ''preflight-completed'' = ''preflight-completed''"
  "normalize_detail_code ''provider-write-authorized'' = ''provider-write-authorized''"
  "normalize_detail_code ''adapter-operation-completed'' = ''adapter-operation-completed''"
  "normalize_detail_code ''client-created'' = ''client-created''"
  "normalize_detail_code ''post-registration-validation'' = ''post-registration-validation''"
  "normalize_detail_code ''client-ready'' = ''client-ready''"
  by code_simp+

section \<open>The run\<close>

definition sample_call :: adapter_call where
  "sample_call = \<lparr>ac_operation = ''create'', ac_plan = sample_plan, ac_previous = None, ac_key = ''operation-key-0001'',
     ac_now = sample_time\<rparr>"

definition sample_after :: "prov_memory prov_world" where
  "sample_after = \<lparr>pw_store = [(''operation-key-0001'', sample_ready)], pw_reads = 4, pw_ids = 2, pw_calls = [sample_call]\<rparr>"

lemma sample_record_simps [simp]:
  "ir_key sample_started = ''operation-key-0001''" "ir_state sample_started = ''preflight''"
  "ir_updated sample_started = sample_time" "ir_id sample_started = ''operation-0001''"
  "ir_plan sample_started = ''plan-1''" "ir_client sample_started = ''web-client''"
  "ir_operation sample_started = ''create''" "ir_continuation sample_started = None" "ir_secret sample_started = None"
  "ir_error sample_started = None"
  by (simp_all add: sample_started_def started_record_def sample_request_def sample_plan_def sample_client_def)

lemma sample_later_simps [simp]:
  "ir_key sample_provisioning = ''operation-key-0001''" "ir_state sample_provisioning = ''provisioning''"
  "ir_updated sample_provisioning = sample_time" "ir_id sample_provisioning = ''operation-0001''"
  "ir_plan sample_provisioning = ''plan-1''" "ir_client sample_provisioning = ''web-client''"
  "ir_operation sample_provisioning = ''create''"
  "ir_key sample_ready = ''operation-key-0001''" "ir_state sample_ready = ''ready''"
  "ir_updated sample_ready = sample_time" "ir_id sample_ready = ''operation-0001''"
  "ir_plan sample_ready = ''plan-1''" "ir_client sample_ready = ''web-client''" "ir_operation sample_ready = ''create''"
  by (simp_all add: sample_provisioning_def sample_ready_def)

lemma sample_valid [simp]:
  "vr_valid (validate_record sample_url sample_started)" "vr_valid (validate_record sample_url sample_provisioning)"
  "vr_valid (validate_record sample_url sample_ready)"
  using sample_started_valid sample_provisioning_valid sample_ready_valid
  by (simp_all add: validate_record_def validation_of_def)

lemma sample_env_simps [simp]:
  "pe_store sample_env = memory_store prov_runtime sample_url" "pe_parse sample_env = sample_url"
  "pe_rt sample_env = prov_runtime" "pe_meanwhile sample_env calls m = m" "pe_id sample_env kind n = kind @ ''-0001''"
  "pe_now sample_env n = sample_time"
  by (simp_all add: sample_env_def)

lemma sample_timestamp [simp]: "timestamp sample_env w = (Inr sample_time, w\<lparr>pw_reads := pw_reads w + 1\<rparr>)"
  by (simp add: timestamp_def ret_def)

lemma sample_saves [simp]:
  "pw_store w = [] \<Longrightarrow> save_record sample_env sample_started None w
     = (Inr (), w\<lparr>pw_store := [(''operation-key-0001'', sample_started)]\<rparr>)"
  "pw_store w = [(''operation-key-0001'', sample_started)] \<Longrightarrow>
    save_record sample_env sample_provisioning (Some sample_time) w
     = (Inr (), w\<lparr>pw_store := [(''operation-key-0001'', sample_provisioning)]\<rparr>)"
  "pw_store w = [(''operation-key-0001'', sample_provisioning)] \<Longrightarrow>
    save_record sample_env sample_ready (Some sample_time) w
     = (Inr (), w\<lparr>pw_store := [(''operation-key-0001'', sample_ready)]\<rparr>)"
  by (simp_all add: save_record_def memory_store_def memory_save_def assert_valid_record_def)

lemma sample_transition: "transition_now sample_env sample_started ''provisioning'' ''operator'' ''preflight-completed''
    ''provider-write-authorized'' w = (Inr sample_provisioning, w\<lparr>pw_reads := pw_reads w + 1\<rparr>)"
  by (simp add: transition_now_def transition_at_def append_audit_at_def bind_prov_def ret_def can_transition_state_def
      prov_transitions_def sample_provisioning_def sample_audit_def sample_started_def started_record_def)

definition sample_validating :: prov_record where
  "sample_validating = (with_result sample_provisioning (sample_result ''validating'') sample_time)
     \<lparr>ir_audit := ir_audit sample_provisioning @
       [sample_audit 3 sample_time ''adapter-operation-completed'' ''automation'' ''client-created'']\<rparr>"

lemma sample_completed: "append_audit_at sample_env (with_result sample_provisioning (sample_result ''validating'') sample_time)
    sample_time ''automation'' ''adapter-operation-completed'' ''succeeded'' ''client-created'' w = (Inr sample_validating, w)"
  by (simp add: append_audit_at_def bind_prov_def ret_def sample_validating_def with_result_def sample_provisioning_def
      sample_started_def started_record_def sample_audit_def sample_result_def)

lemma sample_settled: "settle_validation sample_env sample_plan sample_validating sample_observation sample_time w
    = (Inr sample_ready, w)"
proof -
  have "rd_ready (evaluate_readiness sample_plan (sample_validating\<lparr>ir_drift := assess_drift sample_plan sample_observation,
      ir_state := ''ready''\<rparr>))"
    by (simp add: evaluate_readiness_def readiness_blockers_def message_if_def assess_drift_def verification_drift_def
        operational_drift_def sample_plan_def sample_client_def sample_validating_def with_result_def sample_result_def
        sample_provisioning_def sample_started_def started_record_def sample_request_def sample_observation_def)
  then show ?thesis
    by (simp add: settle_validation_def Let_def transition_at_def append_audit_at_def bind_prov_def ret_def
        can_transition_state_def prov_transitions_def sample_ready_def sample_validating_def with_result_def
        sample_result_def sample_provisioning_def sample_started_def started_record_def sample_audit_def
        assess_drift_def verification_drift_def operational_drift_def sample_plan_def sample_observation_def)
qed

lemma sample_apply:
  assumes "pw_store w = [(''operation-key-0001'', sample_provisioning)]"
  shows "apply_adapter_result sample_env sample_plan sample_provisioning (sample_result ''validating'') ''operator'' w
    = (Inr (Some sample_ready), w\<lparr>pw_store := [(''operation-key-0001'', sample_ready)], pw_reads := pw_reads w + 1\<rparr>)"
proof -
  have "ir_state sample_validating = ''validating''" "ir_observation sample_validating = Some sample_observation"
    "ir_operation sample_validating = ''create''"
    by (simp_all add: sample_validating_def with_result_def sample_result_def)
  then have "settle_result sample_env sample_plan sample_provisioning sample_time ''operator'' sample_validating v
      = (Inr (Some sample_ready), v\<lparr>pw_store := [(''operation-key-0001'', sample_ready)]\<rparr>)"
    if "pw_store v = [(''operation-key-0001'', sample_provisioning)]" for v
    using that by (simp add: settle_result_def bind_prov_def sample_settled save_validated_or_fail_def stored_by_key_def
        memory_store_def memory_get_def)
  moreover have "can_transition_state ''provisioning'' ''validating''"
    by (simp add: can_transition_state_def prov_transitions_def)
  moreover have "ar_state (sample_result ''validating'') = ''validating''" "ar_error (sample_result ''validating'') = None"
    "ar_detail (sample_result ''validating'') = ''client-created''"
    by (simp_all add: sample_result_def)
  ultimately show ?thesis
    using sample_completed assms by (simp add: apply_adapter_result_def bind_prov_def)
qed

lemma sample_run: "run_operation sample_env (sample_request ''create'' ''operation-key-0001'') sample_world
    = (Inr (Some sample_ready), sample_after)"
proof -
  let ?rq = "sample_request ''create'' ''operation-key-0001''"
  have rq: "rq_plan ?rq = sample_plan" "rq_operation ?rq = ''create''" "rq_key ?rq = ''operation-key-0001''"
    "rq_actor ?rq = ''operator''" "iv_mode (ip_provider sample_plan) = ''api''"
    by (simp_all add: sample_request_def sample_plan_def sample_provider_def)
  have answer: "ad_execute sample_adapter calls sample_call = Inr (sample_result ''validating'')" for calls
    by (simp add: sample_adapter_def sample_call_def)
  have ask: "ask_adapter sample_env sample_plan sample_adapter sample_provisioning ''operator'' None w
      = apply_adapter_result sample_env sample_plan sample_provisioning (sample_result ''validating'') ''operator''
          (w\<lparr>pw_reads := pw_reads w + 1, pw_calls := pw_calls w @ [sample_call]\<rparr>)" for w
    using answer by (simp add: ask_adapter_def bind_prov_def call_adapter_def Let_def sample_call_def[symmetric])
  have "start_operation sample_env ?rq sample_adapter None sample_world = (Inr (Some sample_ready), sample_after)"
    by (simp add: start_operation_def execute_adapter_def bind_prov_def create_id_def rq Let_def ret_def ask sample_apply
        sample_transition sample_started_def[symmetric] sample_world_def sample_after_def)
  then show ?thesis
    using sample_preflight
    by (simp add: run_operation_def bind_prov_def lift_result_def stored_by_key_def stored_latest_def rq
        memory_store_def memory_get_def memory_latest_def sample_world_def)
qed

end
