(* ===== verification/Provisioning_Theorems.thy ===== *)
theory Provisioning_Theorems
  imports Provisioning_Valid Provisioning_Samples
begin

text \<open>
  The properties of identity provisioning: what readiness means, what the engine keeps of the records it finds,
  when a provider is called, and what becomes of results the validator refuses.
\<close>

section \<open>Engines over the in-memory store\<close>

text \<open>
  The other operations of the process, which run while the engine waits for an adapter, are operations on the
  same store: they keep its invariant, take records forward only and stamp what they write with another time.
\<close>

definition fair_env :: "prov_memory prov_env \<Rightarrow> bool" where
  "fair_env env \<longleftrightarrow> pe_store env = memory_store (pe_rt env) (pe_parse env)
     \<and> (\<forall>calls m. prov_memory_inv (pe_parse env) m \<longrightarrow> prov_memory_inv (pe_parse env) (pe_meanwhile env calls m)
          \<and> others_step (pe_store env) m (pe_meanwhile env calls m))"

lemma fair_env_rely: "fair_env env \<Longrightarrow> mem.rely (pe_rt env) (pe_parse env) env"
  by (auto simp: fair_env_def mem.rely_def)

lemma fair_env_get: "fair_env env \<Longrightarrow> ps_get (pe_store env) k m = map_of m k"
  by (simp add: fair_env_def memory_store_def memory_get_def)

lemma run_answered:
  assumes "fair_env env" and "prov_memory_inv (pe_parse env) (pw_store w)" and "run_operation env rq w = (Inr a, w')"
  shows "mem.answered (pe_rt env) (pe_parse env) rq w a w'"
  by (rule wp_returns[OF mem.wp_run_operation[OF fair_env_rely[OF assms(1)] assms(2)] assms(3)])

lemma run_guaranteed:
  assumes "fair_env env" and "prov_memory_inv (pe_parse env) (pw_store w)" and "run_operation env rq w = (res, w')"
  shows "mem.guaranteed (pe_rt env) (pe_parse env) w w'"
proof (cases res)
  case (Inl x)
  with assms(3) show ?thesis
    using wp_throws[OF mem.wp_run_operation[OF fair_env_rely[OF assms(1)] assms(2)]] by blast
next
  case (Inr a)
  with run_answered[OF assms(1,2)] assms(3) show ?thesis by (simp add: mem.answered_def)
qed

lemma decide_guaranteed:
  assumes "fair_env env" and "prov_memory_inv (pe_parse env) (pw_store w)" and "decide_authority env dq w = (res, w')"
  shows "mem.guaranteed (pe_rt env) (pe_parse env) w w'"
proof (cases res)
  case (Inl x)
  with assms(3) show ?thesis
    using wp_throws[OF mem.wp_decide_authority[OF fair_env_rely[OF assms(1)] assms(2)]] by blast
next
  case (Inr a)
  with assms show ?thesis
    using wp_returns[OF mem.wp_decide_authority[OF fair_env_rely[OF assms(1)] assms(2)]] by (simp add: mem.decided_def)
qed

section \<open>Readiness\<close>

text \<open>What a plan asks of a record that is to be used.\<close>

definition meets_plan :: "prov_plan \<Rightarrow> prov_record \<Rightarrow> bool" where
  "meets_plan plan r \<longleftrightarrow> ir_plan r = ip_plan plan \<and> ir_client r = ic_ref (ip_client plan)
     \<and> ir_state r = ''ready'' \<and> ir_error r = None
     \<and> (\<exists>obs. ir_observation r = Some obs \<and> io_digest obs = ip_digest plan \<and> truthy (io_ownership obs)
          \<and> truthy (io_issuer obs) \<and> truthy (io_callbacks obs) \<and> truthy (io_permissions obs)
          \<and> truthy (io_credential obs) \<and> truthy (io_enabled obs))
     \<and> (\<forall>c. ir_continuation r = Some c \<longrightarrow> ig_status c = ''approved'')
     \<and> (iy_required (ip_policy plan) \<longrightarrow> (\<exists>s. ir_secret r = Some s \<and> ix_status s = ''active''))
     \<and> (\<forall>d \<in> set (ir_drift r). \<not> dr_critical d)"

lemma message_if_Nil [simp]: "message_if b m = [] \<longleftrightarrow> \<not> b"
  by (simp add: message_if_def)

lemma assess_drift_Nil: "assess_drift plan obs = [] \<longleftrightarrow> io_digest obs = ip_digest plan \<and> truthy (io_ownership obs)
    \<and> truthy (io_issuer obs) \<and> truthy (io_callbacks obs) \<and> truthy (io_permissions obs)
    \<and> truthy (io_credential obs) \<and> truthy (io_enabled obs)"
  by (auto simp: assess_drift_def verification_drift_def operational_drift_def)

lemma readiness_meets: "rd_ready (evaluate_readiness plan r) \<longleftrightarrow> meets_plan plan r"
  unfolding rd_ready_iff meets_plan_def readiness_blockers_def
  by (auto simp: assess_drift_Nil list_ex_iff split: option.splits)

text \<open>
  Readiness is exactly what the plan asks: the record belongs to the plan and the client, it is ready without an error, it was
  observed with the planned digest and every check passed and the client enabled, its gate was approved, a
  required secret is active and no security-critical drift is left; the blockers name what is missing, without repetition.
\<close>

theorem readiness_decides:
  "(rd_ready (evaluate_readiness plan r) \<longleftrightarrow> meets_plan plan r)
    \<and> (rd_blockers (evaluate_readiness plan r) = [] \<longleftrightarrow> meets_plan plan r)
    \<and> distinct (rd_blockers (evaluate_readiness plan r))"
proof -
  have "rd_blockers (evaluate_readiness plan r) = [] \<longleftrightarrow> rd_ready (evaluate_readiness plan r)"
    using set_js_unique[of "readiness_blockers plan r"] by (auto simp: evaluate_readiness_def Let_def simp del: set_js_unique)
  then show ?thesis using readiness_meets by (simp add: evaluate_readiness_def Let_def)
qed

section \<open>Runs\<close>

text \<open>
  C9. A client that a new operation reports as ready has been verified: the stored record meets the plan. No answer
  of an adapter, and nothing the other operations do meanwhile, makes a new operation ready otherwise.
\<close>

theorem ready_is_verified:
  assumes "fair_env env" and "prov_memory_inv (pe_parse env) (pw_store w)" and "map_of (pw_store w) (rq_key rq) = None"
    and "run_operation env rq w = (Inr a, w')"
  shows "\<exists>r. a = Some r \<and> map_of (pw_store w') (rq_key rq) = Some r
    \<and> (ir_state r = ''ready'' \<longrightarrow> meets_plan (rq_plan rq) r)"
  using run_answered[OF assms(1,2,4)] assms(3) fair_env_get[OF assms(1)] assms(1)
  by (auto simp: mem.answered_def readiness_meets fair_env_def)

text \<open>
  C11. The history of provisioning is append-only. Whatever a run or a decision does, whether it returns or throws, a record
  stays under its key with its operation, plan and client, its audit trail is only added to, its state
  moves along the lifecycle, and every stored record passes the validator.
\<close>

theorem operations_keep_history:
  assumes "fair_env env" and "prov_memory_inv (pe_parse env) (pw_store w)"
    and "run_operation env rq w = (res, w') \<or> decide_authority env dq w = (res, w')"
  shows "prov_memory_inv (pe_parse env) (pw_store w')
    \<and> (\<forall>k r. map_of (pw_store w) k = Some r \<longrightarrow> (\<exists>r'. map_of (pw_store w') k = Some r' \<and> record_step r r'))"
  using assms(3) run_guaranteed[OF assms(1,2)] decide_guaranteed[OF assms(1,2)] fair_env_get[OF assms(1)] assms(1)
  unfolding mem.guaranteed_def store_step_def fair_env_def by fastforce

section \<open>Replays\<close>

lemma run_preflight:
  "run_operation env rq w = (Inr a, w') \<Longrightarrow> \<exists>ad. preflight env (rq_plan rq) (rq_operation rq) = Inr ad"
  by (auto simp: run_operation_def bind_prov_def lift_result_def split: sum.splits prod.splits)

lemma run_settled:
  assumes "preflight env (rq_plan rq) (rq_operation rq) = Inr ad" and "ps_get (pe_store env) (rq_key rq) (pw_store w) = Some r"
    and "bound_to r rq" and "settled r"
  shows "run_operation env rq w = (Inr (Some r), w)"
  using assms
  by (simp add: run_operation_def bind_prov_def lift_result_def stored_by_key_def resume_operation_def ret_def)

text \<open>
  C12. A run may be repeated. When a run has ended with a settled record (ready, disabled, retired, waiting for an authority,
  or failed for good), the same request ends with the same record again, and changes nothing: no store write, no clock reading, no call
  of the provider.
\<close>

theorem run_replays:
  assumes "fair_env env" and "prov_memory_inv (pe_parse env) (pw_store w)" and "run_operation env rq w = (Inr (Some r), w')"
    and "settled r"
  shows "run_operation env rq w' = (Inr (Some r), w')"
proof -
  have "ps_get (pe_store env) (rq_key rq) (pw_store w') = Some r" "bound_to r rq"
    using run_answered[OF assms(1,2,3)] assms(1) by (simp_all add: mem.answered_def fair_env_def)
  then show ?thesis using run_preflight[OF assms(3)] assms(4) by (blast intro: run_settled)
qed

section \<open>Provider calls\<close>

named_theorems keeps_intros \<open>computations that call no adapter\<close>

text \<open>The calls a computation adds, and the computations that add none.\<close>

definition adds_calls :: "(adapter_call list \<Rightarrow> bool) \<Rightarrow> ('s, 'a) prov \<Rightarrow> bool" where
  "adds_calls P m \<longleftrightarrow> (\<forall>w. \<exists>cs. pw_calls (snd (m w)) = pw_calls w @ cs \<and> P cs)"

definition keeps_calls :: "('s, 'a) prov \<Rightarrow> bool" where
  "keeps_calls m \<longleftrightarrow> (\<forall>w. pw_calls (snd (m w)) = pw_calls w)"

lemma keeps_adds: "keeps_calls m \<Longrightarrow> P [] \<Longrightarrow> adds_calls P m"
  by (simp add: keeps_calls_def adds_calls_def)

lemma keeps_basic [keeps_intros]:
  "keeps_calls (ret a)" "keeps_calls (raise c t)" "keeps_calls (lift_result res)" "keeps_calls (stored_by_key env k)"
  "keeps_calls (stored_latest env k)" "keeps_calls (create_id env k)" "keeps_calls (timestamp env)"
  "keeps_calls (save_record env r x)"
  by (simp_all add: keeps_calls_def ret_def raise_def lift_result_def stored_by_key_def stored_latest_def create_id_def
      timestamp_def save_record_def Let_def split: prod.splits)

lemma keeps_bind [keeps_intros]: "keeps_calls m \<Longrightarrow> (\<And>a. keeps_calls (f a)) \<Longrightarrow> keeps_calls (bind_prov m f)"
  unfolding keeps_calls_def bind_prov_def by (auto split: prod.splits sum.splits) (metis sndI)+

lemma adds_bind_keep:
  assumes "keeps_calls m" and "P []" and "\<And>a w w'. m w = (Inr a, w') \<Longrightarrow> adds_calls P (f a)"
  shows "adds_calls P (bind_prov m f)"
  unfolding adds_calls_def
proof
  fix w
  obtain res w' where m: "m w = (res, w')" by fastforce
  have same: "pw_calls w' = pw_calls w" using assms(1) m unfolding keeps_calls_def by (metis snd_conv)
  show "\<exists>cs. pw_calls (snd (bind_prov m f w)) = pw_calls w @ cs \<and> P cs"
  proof (cases res)
    case (Inl x)
    then show ?thesis using m same assms(2) by (simp add: bind_prov_def)
  next
    case (Inr a)
    then have "\<exists>cs. pw_calls (snd (f a w')) = pw_calls w' @ cs \<and> P cs" using m assms(3) by (simp add: adds_calls_def)
    then show ?thesis using Inr m same by (simp add: bind_prov_def)
  qed
qed

lemma adds_bind_after: "adds_calls P m \<Longrightarrow> (\<And>a. keeps_calls (f a)) \<Longrightarrow> adds_calls P (bind_prov m f)"
  unfolding keeps_calls_def adds_calls_def bind_prov_def by (auto split: prod.splits sum.splits) (metis snd_conv)+

lemma keeps_steps [keeps_intros]:
  "keeps_calls (append_audit_at env r time actor event outcome detail)"
  "keeps_calls (append_audit env r actor event outcome detail)"
  "keeps_calls (fail_at env r time actor code message retry detail)"
  "keeps_calls (fail_now env r actor code message retry detail)"
  "keeps_calls (transition_at env r state time actor event detail)"
  "keeps_calls (transition_now env r state actor event detail)"
  unfolding append_audit_at_def append_audit_def fail_at_def fail_now_def transition_at_def transition_now_def
  by (auto intro!: keeps_intros split: list.splits)

lemma keeps_results [keeps_intros]:
  "keeps_calls (save_validated_or_fail env p r actor)"
  "keeps_calls (settle_validation env plan r obs time)"
  "keeps_calls (settle_result env plan r time actor r1)"
  "keeps_calls (apply_adapter_result env plan r result actor)"
  "keeps_calls (record_preflight_failure env rq code message)"
  "keeps_calls (reject_decision env r actor code message)"
  unfolding apply_adapter_result_def settle_result_def save_validated_or_fail_def settle_validation_def
    record_preflight_failure_def reject_decision_def Let_def
  by (auto intro!: keeps_basic keeps_bind keeps_steps split: option.splits)

text \<open>At most one call, for the given key.\<close>

definition one_call :: "string \<Rightarrow> adapter_call list \<Rightarrow> bool" where
  "one_call key cs \<longleftrightarrow> cs = [] \<or> (\<exists>c. cs = [c] \<and> ac_key c = key)"

lemma one_call_Nil [simp]: "one_call key []"
  by (simp add: one_call_def)

lemma ask_adapter_calls: "adds_calls (one_call (ir_key cur)) (ask_adapter env plan ad cur actor previous)"
proof -
  have called: "adds_calls (one_call (ir_key cur)) (call_adapter env ad \<lparr>ac_operation = ir_operation cur, ac_plan = plan,
      ac_previous = previous, ac_key = ir_key cur, ac_now = now\<rparr>)" for now
    by (simp add: adds_calls_def one_call_def call_adapter_def Let_def)
  show ?thesis
    unfolding ask_adapter_def
    by (intro adds_bind_keep adds_bind_after[OF called] keeps_intros one_call_Nil)
      (auto intro!: keeps_intros split: sum.splits)
qed

lemma transition_key: "transition_now env r state actor event detail w = (Inr r', w') \<Longrightarrow> ir_key r' = ir_key r"
  by (auto simp: transition_now_def transition_at_def append_audit_at_def bind_prov_def timestamp_def ret_def raise_def
      create_id_def Let_def split: if_splits list.splits)

lemma execute_adapter_calls: "adds_calls (one_call (ir_key cur)) (execute_adapter env plan ad cur actor previous)"
proof -
  have "adds_calls (one_call (ir_key cur)) (bind_prov (transition_now env cur ''provisioning'' actor
      ''preflight-completed'' ''provider-write-authorized'') (\<lambda>r1. bind_prov (bind_prov (save_record env r1 x) (\<lambda>_. ret r1))
        (\<lambda>current. ask_adapter env plan ad current actor previous)))" for x
  proof (rule adds_bind_keep)
    fix r1 and w w' :: "'a prov_world"
    assume "transition_now env cur ''provisioning'' actor ''preflight-completed'' ''provider-write-authorized'' w = (Inr r1, w')"
    then have key: "ir_key r1 = ir_key cur" by (rule transition_key)
    show "adds_calls (one_call (ir_key cur)) (bind_prov (bind_prov (save_record env r1 x) (\<lambda>_. ret r1))
        (\<lambda>current. ask_adapter env plan ad current actor previous))"
      by (rule adds_bind_keep)
        (auto simp: bind_prov_def ret_def split: prod.splits sum.splits intro!: keeps_intros ask_adapter_calls[of r1, unfolded key])
  qed (auto intro: keeps_intros)
  moreover have "bind_prov (bind_prov m f) g = bind_prov m (\<lambda>a. bind_prov (f a) g)"
    for m :: "('a, prov_record) prov" and f :: "prov_record \<Rightarrow> ('a, prov_record) prov" and g :: "prov_record \<Rightarrow> ('a, prov_record option) prov"
    by (rule ext) (simp add: bind_prov_def split: prod.splits sum.splits)
  moreover have "bind_prov (ret cur) g = g cur" for g :: "prov_record \<Rightarrow> ('a, prov_record option) prov"
    by (rule ext) (simp add: bind_prov_def ret_def)
  ultimately show ?thesis
    using ask_adapter_calls[of cur env plan ad actor previous] by (simp add: execute_adapter_def)
qed

lemma adds_calls_mono: "adds_calls P m \<Longrightarrow> (\<And>cs. P cs \<Longrightarrow> Q cs) \<Longrightarrow> adds_calls Q m"
  unfolding adds_calls_def by blast

lemma resume_calls:
  fixes env :: "'s prov_env"
  assumes "ir_key cur = rq_key rq"
  shows "adds_calls (one_call (rq_key rq)) (resume_operation env rq ad cur)"
proof -
  have go: "adds_calls (one_call (rq_key rq)) (execute_adapter env plan ad' r actor prev)"
    if "ir_key r = rq_key rq" for plan ad' r actor prev
    using execute_adapter_calls[of r] that by simp
  have stop: "adds_calls (one_call (rq_key rq)) (raise code message :: ('s, prov_record option) prov)"
    "adds_calls (one_call (rq_key rq)) (ret a :: ('s, prov_record option) prov)" for code message a by (intro keeps_adds keeps_intros one_call_Nil)+
  have retry: "adds_calls (one_call (rq_key rq)) (bind_prov (transition_now env cur state actor event detail) (\<lambda>r.
      bind_prov (save_record env (r\<lparr>ir_attempt := n\<rparr>) x) (\<lambda>_.
      execute_adapter env plan ad' (r\<lparr>ir_attempt := n\<rparr>) actor' (Some (r\<lparr>ir_attempt := n\<rparr>)))))"
    for state actor event detail n x plan ad' actor'
    by (intro adds_bind_keep keeps_intros one_call_Nil go) (use assms in \<open>auto dest: transition_key\<close>)
  show ?thesis
    unfolding resume_operation_def Let_def using go[OF assms] stop retry by simp
qed

lemma start_calls: "adds_calls (one_call (rq_key rq)) (start_operation env rq ad previous)"
proof -
  have "ir_key (started_record rq previous now a b) = rq_key rq" for now a b by (simp add: started_record_def)
  then show ?thesis
    unfolding start_operation_def Let_def
    by (intro adds_bind_keep keeps_intros one_call_Nil) (metis execute_adapter_calls)
qed

lemma run_calls:
  assumes "\<And>r. ps_get (pe_store env) (rq_key rq) (pw_store w) = Some r \<Longrightarrow> ir_key r = rq_key rq"
  shows "\<exists>cs. pw_calls (snd (run_operation env rq w)) = pw_calls w @ cs \<and> one_call (rq_key rq) cs"
proof (cases "preflight env (rq_plan rq) (rq_operation rq)")
  case (Inl x)
  then show ?thesis by (simp add: run_operation_def bind_prov_def lift_result_def)
next
  case (Inr ad)
  show ?thesis
  proof (cases "ps_get (pe_store env) (rq_key rq) (pw_store w)")
    case (Some r)
    then show ?thesis
      using Inr resume_calls[of r rq env ad] assms
      by (simp add: run_operation_def bind_prov_def lift_result_def stored_by_key_def adds_calls_def)
  next
    case None
    have "adds_calls (one_call (rq_key rq)) (record_preflight_failure env rq code message)" for code message
      by (intro keeps_adds keeps_intros one_call_Nil)
    with None Inr start_calls[of rq env ad] show ?thesis
      by (simp add: run_operation_def bind_prov_def lift_result_def stored_by_key_def stored_latest_def adds_calls_def)
  qed
qed

section \<open>The authority gate\<close>

text \<open>
  What must hold for a decision to reach the provider: the operation waits, the plan, the client and the authority are the
  right ones, the proof hashes to the stored digest, the gate has not expired, and the decision approves.
\<close>

definition gate_passes :: "'s prov_env \<Rightarrow> decision_request \<Rightarrow> 's prov_world \<Rightarrow> bool" where
  "gate_passes env dq w \<longleftrightarrow> (\<exists>r c. ps_get (pe_store env) (dq_key dq) (pw_store w) = Some r
     \<and> ir_plan r = ip_plan (dq_plan dq) \<and> ir_client r = ic_ref (ip_client (dq_plan dq))
     \<and> ir_state r = ''awaiting-authority'' \<and> ir_continuation r = Some c \<and> ig_authority c = dq_actor dq
     \<and> sha256_hex (pe_rt env) (dq_value dq) = ig_digest c
     \<and> parses_timestamp (pe_now env (pw_reads w)) \<and> \<not> gate_expired (pe_now env (pw_reads w)) c
     \<and> dq_decision dq = ''approved''
     \<and> (\<exists>ad. preflight env (dq_plan dq) (ir_operation r) = Inr ad))"

lemma of_char_less: "(of_char c :: nat) < 256"
proof -
  have "(of_char c :: nat) mod 256 = of_char c"
    unfolding of_char_of[symmetric] by simp
  then show ?thesis using mod_less_divisor[of 256 "of_char c :: nat"] by linarith
qed

lemma of_char_word_inj: "(of_char a :: 32 word) = of_char b \<longleftrightarrow> a = b"
proof
  assume "(of_char a :: 32 word) = of_char b"
  then have "(of_nat (of_char a) :: 32 word) = of_nat (of_char b)" by (simp add: of_nat_of_char)
  then have "unat (of_nat (of_char a) :: 32 word) = unat (of_nat (of_char b) :: 32 word)" by simp
  then have "(of_char a :: nat) = of_char b"
    using of_char_less[of a] of_char_less[of b] by (simp add: unat_of_nat take_bit_nat_eq_self)
  then show "a = b" by simp
qed simp

lemma xor_zero_word: "xor a b = 0 \<longleftrightarrow> a = b" for a b :: "32 word"
proof
  assume zero: "xor a b = 0"
  have "a = xor (xor a b) b" by (simp add: xor.assoc)
  then show "a = b" unfolding zero by simp
qed simp

lemma char_difference_zero: "char_difference d (a, b) = 0 \<longleftrightarrow> d = 0 \<and> a = b"
  by (simp add: char_difference_def or_eq_0_iff of_char_word_inj xor_zero_word)

lemma fold_difference_zero:
  "length xs = length ys \<Longrightarrow> foldl char_difference d (zip xs ys) = 0 \<longleftrightarrow> d = 0 \<and> xs = ys"
  by (induction xs ys arbitrary: d rule: list_induct2) (auto simp: char_difference_zero)

text \<open>
  The comparison of proofs looks at every character and yet decides equality: accumulating the differences of the code units by
  exclusive and inclusive or on 32 bits gives zero exactly for equal texts.
\<close>

theorem constant_time_equal_iff: "constant_time_equal left right \<longleftrightarrow> left = right"
  by (auto simp: constant_time_equal_def fold_difference_zero)

lemma keeps_calls_eq: "keeps_calls m \<Longrightarrow> pw_calls (snd (m w)) = pw_calls w"
  by (simp add: keeps_calls_def)

lemma keeps_refused: "(\<And>a. res = Inr a \<Longrightarrow> keeps_calls (f a)) \<Longrightarrow> keeps_calls (bind_prov (lift_result res) f)"
  by (cases res) (auto simp: keeps_calls_def bind_prov_def lift_result_def)

lemma settle_gate_closed:
  fixes env :: "'a prov_env"
  assumes "\<not> (parses_timestamp (pe_now env (pw_reads w)) \<and> \<not> gate_expired (pe_now env (pw_reads w)) c
     \<and> dq_decision dq = ''approved'' \<and> (\<exists>ad. preflight env (dq_plan dq) (ir_operation r) = Inr ad))"
  shows "pw_calls (snd (settle_gate env dq r c w)) = pw_calls w"
proof (cases "parses_timestamp (pe_now env (pw_reads w))")
  case False
  then show ?thesis by (simp add: settle_gate_def bind_prov_def timestamp_def raise_def Let_def)
next
  case True
  let ?now = "pe_now env (pw_reads w)" and ?w = "w\<lparr>pw_reads := pw_reads w + 1\<rparr>"
  let ?decided = "\<lambda>s. r\<lparr>ir_updated := ?now, ir_continuation := Some (c\<lparr>ig_status := s\<rparr>)\<rparr>"
  have refused: "keeps_calls (bind_prov (append_audit_at env x ?now actor event outcome detail) (\<lambda>failed.
      bind_prov (save_record env failed (Some (ir_updated r))) (\<lambda>_. ret (Some failed))))" for x actor event outcome detail
    by (intro keeps_intros)
  have unprepared: "keeps_calls (bind_prov (transition_at env x ''provisioning'' ?now actor event detail) (\<lambda>provisioning.
      bind_prov (save_record env provisioning (Some (ir_updated r))) (\<lambda>_.
      bind_prov (lift_result (preflight env (dq_plan dq) (ir_operation r))) (\<lambda>adapter.
      execute_adapter env (dq_plan dq) adapter provisioning (dq_actor dq) (Some provisioning)))))"
    if "\<nexists>ad. preflight env (dq_plan dq) (ir_operation r) = Inr ad" for x actor event detail
    using that by (intro keeps_bind keeps_refused keeps_intros) auto
  have first: "bind_prov (timestamp env) f w = f ?now ?w" for f :: "string \<Rightarrow> ('a, prov_record option) prov"
    using True by (simp add: bind_prov_def timestamp_def ret_def Let_def)
  consider "gate_expired ?now c \<or> dq_decision dq \<noteq> ''approved''"
    | "\<not> gate_expired ?now c" "dq_decision dq = ''approved''" "\<nexists>ad. preflight env (dq_plan dq) (ir_operation r) = Inr ad"
    using assms True by blast
  then have "pw_calls (snd (settle_gate env dq r c w)) = pw_calls ?w"
  proof cases
    case 1
    then show ?thesis
      unfolding settle_gate_def first Let_def using keeps_calls_eq[OF refused, where w = ?w] by auto
  next
    case 2
    then show ?thesis
      unfolding settle_gate_def first Let_def using keeps_calls_eq[OF unprepared[OF 2(3)], where w = ?w] by simp
  qed
  then show ?thesis by simp
qed

lemma decide_closed:
  assumes "\<not> gate_passes env dq w"
  shows "pw_calls (snd (decide_authority env dq w)) = pw_calls w"
proof (cases "ps_get (pe_store env) (dq_key dq) (pw_store w)")
  case None
  then show ?thesis by (simp add: decide_authority_def bind_prov_def stored_by_key_def raise_def)
next
  case (Some r)
  have pending: "pw_calls (snd (decide_pending env dq r c w)) = pw_calls w"
    if "ir_plan r = ip_plan (dq_plan dq)" "ir_client r = ic_ref (ip_client (dq_plan dq))"
      "ir_state r = ''awaiting-authority''" "ir_continuation r = Some c" for c
  proof -
    have reject: "pw_calls (snd (reject_decision env r actor code message w)) = pw_calls w" for actor code message
      by (rule keeps_calls_eq[OF keeps_results(6)])
    have "pw_calls (snd (settle_gate env dq r c w)) = pw_calls w"
      if "ig_authority c = dq_actor dq" "sha256_hex (pe_rt env) (dq_value dq) = ig_digest c"
      using assms Some that \<open>ir_plan r = _\<close> \<open>ir_client r = _\<close> \<open>ir_state r = _\<close> \<open>ir_continuation r = _\<close>
      unfolding gate_passes_def by (intro settle_gate_closed) blast
    then show ?thesis
      using reject by (simp add: decide_pending_def fold_difference_zero constant_time_equal_def)
  qed
  show ?thesis
    using Some pending
    by (auto simp: decide_authority_def bind_prov_def stored_by_key_def raise_def ret_def split: option.splits bool.splits)
qed

lemma transition_at_key: "transition_at env r state time actor event detail w = (Inr r', w') \<Longrightarrow> ir_key r' = ir_key r"
  by (auto simp: transition_at_def append_audit_at_def bind_prov_def ret_def raise_def create_id_def
      split: if_splits list.splits)

lemma settle_gate_calls:
  fixes env :: "'s prov_env"
  assumes "ir_key r = key"
  shows "adds_calls (one_call key) (settle_gate env dq r c)"
proof -
  have go: "adds_calls (one_call key) (execute_adapter env plan ad x actor prev)" if "ir_key x = key" for plan ad x actor prev
    using execute_adapter_calls[of x] that by simp
  have approve: "adds_calls (one_call key) (bind_prov (transition_at env x ''provisioning'' now actor event detail)
      (\<lambda>provisioning. bind_prov (save_record env provisioning u) (\<lambda>_.
      bind_prov (lift_result p) (\<lambda>adapter. execute_adapter env plan adapter provisioning actor' (Some provisioning)))))"
    if "ir_key x = key" for x now actor event detail u p plan actor'
    by (intro adds_bind_keep keeps_intros one_call_Nil go) (use that in \<open>auto dest: transition_at_key\<close>)
  have refuse: "adds_calls (one_call key) (bind_prov (append_audit_at env x now actor event outcome detail) (\<lambda>failed.
      bind_prov (save_record env failed u) (\<lambda>_. ret (Some failed))) :: ('s, prov_record option) prov)"
    for x now actor event outcome detail u
    by (intro keeps_adds keeps_intros one_call_Nil)
  show ?thesis
    unfolding settle_gate_def Let_def
    by (rule adds_bind_keep) (use refuse approve assms in \<open>auto intro: keeps_intros\<close>)
qed

lemma decide_calls:
  assumes "\<And>r. ps_get (pe_store env) (dq_key dq) (pw_store w) = Some r \<Longrightarrow> ir_key r = dq_key dq"
  shows "\<exists>cs. pw_calls (snd (decide_authority env dq w)) = pw_calls w @ cs \<and> one_call (dq_key dq) cs"
proof (cases "ps_get (pe_store env) (dq_key dq) (pw_store w)")
  case None
  then show ?thesis by (simp add: decide_authority_def bind_prov_def stored_by_key_def raise_def)
next
  case (Some r)
  have "\<exists>cs. pw_calls (snd (decide_pending env dq r c w)) = pw_calls w @ cs \<and> one_call (dq_key dq) cs" for c
    using settle_gate_calls[OF assms[OF Some], of env dq c] keeps_calls_eq[OF keeps_results(6), of env r _ _ _ w]
    by (simp add: decide_pending_def adds_calls_def)
  with Some show ?thesis
    by (auto simp: decide_authority_def bind_prov_def stored_by_key_def raise_def ret_def split: option.splits bool.splits)
qed

lemma one_call_cases:
  assumes "\<exists>cs. pw_calls w' = pw_calls w @ cs \<and> one_call key cs" and "pw_calls w' \<noteq> pw_calls w \<Longrightarrow> P"
  shows "pw_calls w' = pw_calls w \<or> (\<exists>call. pw_calls w' = pw_calls w @ [call] \<and> ac_key call = key \<and> P)"
  using assms by (auto simp: one_call_def)

text \<open>
  C10. No decision reaches the provider past its gate. A decision makes no provider call, or exactly one, under the key it decides, and then
  the operation was waiting, the plan, the client and the deciding authority were the ones required, the
  proof hashed to the stored digest, the gate had not expired at the time the clock gave, and the decision was to approve.
\<close>

theorem authority_protects_provider:
  assumes "pe_store env = memory_store (pe_rt env) (pe_parse env)" and "prov_memory_inv (pe_parse env) (pw_store w)"
    and "decide_authority env dq w = (res, w')"
  shows "pw_calls w' = pw_calls w \<or>
    (\<exists>call. pw_calls w' = pw_calls w @ [call] \<and> ac_key call = dq_key dq \<and> gate_passes env dq w)"
proof (rule one_call_cases)
  show "\<exists>cs. pw_calls w' = pw_calls w @ cs \<and> one_call (dq_key dq) cs"
    using decide_calls[of env dq w] assms prov_memory_inv_get[OF assms(2)] by (simp add: memory_store_def memory_get_def)
  show "gate_passes env dq w" if "pw_calls w' \<noteq> pw_calls w"
    using that decide_closed[of env dq w] assms(3) by auto
qed

section \<open>Provider calls of a run\<close>

text \<open>When a run may call the provider: the plan and the adapter fit, and the request is new and allowed, or not settled.\<close>

definition run_proceeds :: "'s prov_env \<Rightarrow> run_request \<Rightarrow> 's prov_world \<Rightarrow> bool" where
  "run_proceeds env rq w \<longleftrightarrow> (\<exists>ad. preflight env (rq_plan rq) (rq_operation rq) = Inr ad)
     \<and> (case ps_get (pe_store env) (rq_key rq) (pw_store w) of
          Some r \<Rightarrow> bound_to r rq \<and> \<not> settled r
        | None \<Rightarrow> \<not> (rq_operation rq = ''create'' \<and>
            (\<exists>p. ps_latest (pe_store env) (ic_ref (ip_client (rq_plan rq))) (pw_store w) = Some p \<and> ir_state p \<noteq> ''retired'')))"

lemma run_refused:
  assumes "\<not> run_proceeds env rq w"
  shows "pw_calls (snd (run_operation env rq w)) = pw_calls w"
proof (cases "preflight env (rq_plan rq) (rq_operation rq)")
  case (Inl x)
  then show ?thesis by (simp add: run_operation_def bind_prov_def lift_result_def)
next
  case (Inr ad)
  have "pw_calls (snd (record_preflight_failure env rq code message w)) = pw_calls w" for code message
    by (rule keeps_calls_eq[OF keeps_results(5)])
  with Inr assms show ?thesis
    by (auto simp: run_proceeds_def run_operation_def bind_prov_def lift_result_def stored_by_key_def stored_latest_def
        resume_operation_def raise_def ret_def split: option.splits)
qed

text \<open>
  A run calls the provider at most once, under its own key, and only when it may: the preflight passed, and either the key is known, bound to
  the same plan, client and operation and not settled, or the key is new and the run does not create a client that already
  has a record which is not retired.
\<close>

theorem run_calls_provider:
  assumes "pe_store env = memory_store (pe_rt env) (pe_parse env)" and "prov_memory_inv (pe_parse env) (pw_store w)"
    and "run_operation env rq w = (res, w')"
  shows "pw_calls w' = pw_calls w \<or>
    (\<exists>call. pw_calls w' = pw_calls w @ [call] \<and> ac_key call = rq_key rq \<and> run_proceeds env rq w)"
proof (rule one_call_cases)
  show "\<exists>cs. pw_calls w' = pw_calls w @ cs \<and> one_call (rq_key rq) cs"
    using run_calls[of env rq w] assms prov_memory_inv_get[OF assms(2)] by (simp add: memory_store_def memory_get_def)
  show "run_proceeds env rq w" if "pw_calls w' \<noteq> pw_calls w"
    using that run_refused[of env rq w] assms(3) by auto
qed

section \<open>Failures\<close>

lemma memory_save_next:
  assumes "prov_memory_inv parse_url m" and "map_of m (ir_key cur) = Some cur" and "same_binding cur r"
    and "vr_valid (validate_record parse_url r)"
  shows "memory_save parse_url r (Some (ir_updated cur)) m = (Inr (), map_set (ir_key r) r m)"
  using assms by (auto simp: memory_save_def same_binding_def assert_valid_record_def Let_def)

text \<open>
  A provider failure is never lost. When the adapter throws, the record was stored with a trail, and the clock has not gone back, the run
  returns a stored record that has failed, may be retried, and keeps the trail it had; the failure is recorded whatever the adapter threw.
\<close>

theorem thrown_is_recorded:
  assumes "pe_store env = memory_store (pe_rt env) (pe_parse env)" and "prov_memory_inv (pe_parse env) (pw_store w)"
    and "map_of (pw_store w) (ir_key r) = Some r" and "\<And>calls m. pe_meanwhile env calls m = m"
    and "parses_timestamp (pe_now env (pw_reads w))" and "\<And>calls call. \<exists>x. ad_execute ad calls call = Inl x"
    and "can_fail_with r (pe_now env (pw_reads w + 1)) actor ''adapter-execution-failed''
      ''The provider operation failed. Review the provider and retry safely.''"
  shows "\<exists>r' w'. ask_adapter env plan ad r actor previous w = (Inr (Some r'), w')
    \<and> map_of (pw_store w') (ir_key r) = Some r' \<and> ir_state r' = ''failed'' \<and> retryable r'
    \<and> prefix (ir_audit r) (ir_audit r') \<and> length (ir_audit r') = length (ir_audit r) + 1"
proof -
  let ?time = "pe_now env (pw_reads w + 1)"
  let ?call = "\<lparr>ac_operation = ir_operation r, ac_plan = plan, ac_previous = previous, ac_key = ir_key r,
    ac_now = pe_now env (pw_reads w)\<rparr>"
  obtain x where x: "ad_execute ad (pw_calls w) ?call = Inl x" using assms(6) by blast
  obtain a as where trail: "ir_audit r = a # as" using assms(7) by (cases "ir_audit r") (auto simp: can_fail_with_def)
  let ?f = "failure_record r ?time actor ''adapter-execution-failed''
      ''The provider operation failed. Review the provider and retry safely.'' True (thrown_detail x) (ia_correlation a)"
  have "vr_valid (validate_record (pe_parse env) r)" using prov_memory_inv_get[OF assms(2,3)] by simp
  then have "vr_valid (validate_record (pe_parse env) ?f)" by (rule failure_record_valid[OF _ assms(7) trail])
  moreover have "same_binding r ?f" by (simp add: same_binding_def failure_record_def)
  ultimately have saved: "memory_save (pe_parse env) ?f (Some (ir_updated r)) (pw_store w)
      = (Inr (), map_set (ir_key r) ?f (pw_store w))"
    using memory_save_next[OF assms(2,3)] by (simp add: failure_record_def)
  have "\<exists>w'. ask_adapter env plan ad r actor previous w = (Inr (Some ?f), w')
      \<and> pw_store w' = map_set (ir_key r) ?f (pw_store w)"
    using assms(4,5,7) x saved
    by (simp add: ask_adapter_def bind_prov_def timestamp_def call_adapter_def fail_now_def fail_at_record[OF trail] ret_def
        save_record_def assms(1) memory_store_def Let_def can_fail_with_def)
  then show ?thesis by (auto simp: failure_record_def retryable_def)
qed

section \<open>Retirement\<close>

text \<open>A record that is retired has a revoked secret reference, so a client without a secret cannot be stored as retired.\<close>

lemma retired_revoked:
  assumes "vr_valid (validate_record parse_url r)" and "ir_state r = ''retired''"
  shows "\<exists>s. ir_secret r = Some s \<and> ix_status s = ''revoked''"
  using assms by (auto simp: validate_record_def validation_of_def record_errors_def split: option.splits)

text \<open>
  An operation whose client has no secret cannot end as retired: when the adapter answers that it has retired the client, and
  neither the record nor the answer has a secret reference, what is returned has failed for good with
  an invalid adapter result, although the provider has done its work.
\<close>

theorem secretless_retirement_fails:
  assumes "pe_store env = memory_store (pe_rt env) (pe_parse env)" and "prov_memory_inv (pe_parse env) (pw_store w)"
    and "ir_secret cur = None" and "ar_secret result = None" and "ar_state result = ''retired''"
    and "can_transition_state (ir_state cur) ''retired''"
    and "apply_adapter_result env plan cur result actor w = (Inr a, w')"
  shows "\<exists>r. a = Some r \<and> ir_state r = ''failed'' \<and> \<not> retryable r
    \<and> (\<exists>e. ir_error r = Some e \<and> ie_code e = ''adapter-result-invalid'')"
proof -
  let ?post = "\<lambda>a (_ :: prov_memory prov_world). \<exists>r. a = Some r \<and> ir_state r = ''failed'' \<and> \<not> retryable r
    \<and> (\<exists>e. ir_error r = Some e \<and> ie_code e = ''adapter-result-invalid'')"
  have stored: "wp (save_record env r (Some t)) (\<lambda>_ v. ?post (ps_get (pe_store env) (ir_key cur) (pw_store v)) v) (\<lambda>_. True) u"
    if "?post (Some r) u" "ir_key r = ir_key cur" for r t u
    using that assms(1)
    by (auto simp: wp_save memory_store_def memory_get_def dest!: memory_save_ok(4) split: prod.splits sum.splits)
  have read: "wp (stored_by_key env k) Q E = (\<lambda>v. Q (ps_get (pe_store env) k (pw_store v)) v)" for k Q E
    by (rule ext) (simp add: wp_stored_by_key)
  have failing: "wp (bind_prov (save_validated_or_fail env cur r actor) (\<lambda>_. stored_by_key env (ir_key cur))) ?post (\<lambda>_. True) u"
    if r: "ir_state r = ''retired''" "ir_secret r = None" for r u
  proof -
    have "\<not> vr_valid (validate_record (pe_parse env) r)" using retired_revoked r by force
    then show ?thesis
      unfolding save_validated_or_fail_def
      by (simp add: wp_bind read, intro wp_timestampI wp_fail_at stored) (auto simp: audited_def retryable_def)
  qed
  have accepted: "apply_adapter_result env plan cur result actor = bind_prov (timestamp env) (\<lambda>time.
      bind_prov (append_audit_at env (with_result cur result time) time ''automation'' ''adapter-operation-completed''
        (if ar_error result \<noteq> None then ''failed'' else ''succeeded'') (ar_detail result)) (settle_result env plan cur time actor))"
    using assms(5,6) by (simp add: apply_adapter_result_def)
  have "wp (apply_adapter_result env plan cur result actor) ?post (\<lambda>_. True) w"
    unfolding accepted wp_bind
  proof (rule wp_timestampI, rule wp_append_audit_at)
    fix time u r1 u' assume r1: "audited (with_result cur result time) time r1"
    have s: "ir_state r1 = ''retired''" "ir_secret r1 = None"
      using audited_simps[OF r1] assms(3-5) by (simp_all add: with_result_def)
    then show "wp (settle_result env plan cur time actor r1) ?post (\<lambda>_. True) u'"
      using failing[OF s] by (auto simp: settle_result_def wp_bind wp_ret split: option.splits)
  qed simp
  then show ?thesis by (rule wp_returns) (rule assms(7))
qed

section \<open>The guard of a save\<close>

text \<open>
  The compare-and-set of the store is a comparison of times of update. When two writers have read the same record and the first
  has saved, the save of the second is refused exactly when the first has changed the time: two writes within the
  resolution of the clock both succeed, and the first is lost.
\<close>

theorem guard_compares_times:
  assumes "prov_memory_inv parse_url m" and "map_of m (ir_key c) = Some c" and "same_binding c a" and "same_binding c b"
    and "vr_valid (validate_record parse_url a)" and "vr_valid (validate_record parse_url b)"
  shows "\<exists>m1. memory_save parse_url a (Some (ir_updated c)) m = (Inr (), m1)
    \<and> memory_save parse_url b (Some (ir_updated c)) m1 =
      (if ir_updated a = ir_updated c then (Inr (), map_set (ir_key c) b m1)
       else (Inl (ProvFault ''record-concurrency-conflict'' ''Provisioning record changed during the operation''), m1))"
  using assms by (auto simp: memory_save_def assert_valid_record_def Let_def same_binding_def)

section \<open>Witnesses\<close>

lemma sample_fair: "fair_env sample_env"
  by (simp add: fair_env_def others_step_def)

lemma sample_empty_inv: "prov_memory_inv (pe_parse sample_env) (pw_store sample_world)"
  by (simp add: prov_memory_inv_def sample_world_def)

lemma sample_after_inv: "prov_memory_inv (pe_parse sample_env) (pw_store sample_after)"
  by (simp add: prov_memory_inv_def sample_after_def)

lemma sample_key: "rq_key (sample_request operation key) = key" and sample_rq_plan: "rq_plan (sample_request operation key) = sample_plan"
  by (simp_all add: sample_request_def)

theorem ready_is_verified_witness: "meets_plan sample_plan sample_ready"
  using ready_is_verified[OF sample_fair sample_empty_inv _ sample_run]
  by (simp add: sample_key sample_rq_plan sample_world_def sample_after_def)

theorem operations_keep_history_witness:
  "prov_memory_inv sample_url [(''operation-key-0001'', sample_ready)]"
  using operations_keep_history[OF sample_fair sample_empty_inv disjI1[OF sample_run]]
  by (simp add: sample_after_def)

theorem run_replays_witness:
  "run_operation sample_env (sample_request ''create'' ''operation-key-0001'') sample_after = (Inr (Some sample_ready), sample_after)"
  using run_replays[OF sample_fair sample_empty_inv sample_run] by (simp add: settled_def)

definition sample_decision :: decision_request where
  "sample_decision = \<lparr>dq_plan = sample_plan, dq_key = ''operation-key-0001'', dq_actor = ''operator'',
     dq_decision = ''approved'', dq_value = ''proof''\<rparr>"

lemma sample_gate_closed: "\<not> gate_passes sample_env sample_decision sample_after"
  by (auto simp: gate_passes_def sample_decision_def sample_after_def sample_ready_def memory_store_def memory_get_def)

theorem authority_protects_provider_witness:
  "pw_calls (snd (decide_authority sample_env sample_decision sample_after)) = [sample_call]"
proof -
  obtain res w' where d: "decide_authority sample_env sample_decision sample_after = (res, w')" by fastforce
  have "pw_calls sample_after = [sample_call]" by (simp add: sample_after_def)
  with authority_protects_provider[OF _ sample_after_inv d] sample_gate_closed d show ?thesis by auto
qed

theorem run_calls_provider_witness:
  "pw_calls sample_after = [] \<or>
    (\<exists>call. pw_calls sample_after = [call] \<and> run_proceeds sample_env (sample_request ''create'' ''operation-key-0001'') sample_world)"
  using run_calls_provider[OF _ sample_empty_inv sample_run] by (auto simp: sample_world_def)

definition sample_thrower :: prov_adapter where
  "sample_thrower = \<lparr>ad_compat = sample_compat, ad_execute = (\<lambda>calls call. Inl (ThrownError ''TypeError''))\<rparr>"

definition sample_busy :: "prov_memory prov_world" where
  "sample_busy = \<lparr>pw_store = [(''operation-key-0001'', sample_provisioning)], pw_reads = 2, pw_ids = 2, pw_calls = []\<rparr>"

lemma sample_busy_inv: "prov_memory_inv (pe_parse sample_env) (pw_store sample_busy)"
  by (simp add: prov_memory_inv_def sample_busy_def)

lemma sample_texts:
  "safe_code ''adapter-execution-failed''" "safe_code ''adapter-result-invalid''"
  "\<not> blank ''The provider operation failed. Review the provider and retry safely.''"
  "\<not> blank ''The provider adapter returned an invalid persisted result.''"
  by code_simp+

lemma sample_provisioning_trail: "ir_audit sample_provisioning =
    [\<lparr>ia_sequence = Fin 1, ia_at = sample_time, ia_type = ''operation-started'', ia_actor = ''operator'', ia_result = ''started'',
      ia_correlation = ''correlation-0001'', ia_detail = ''create-requested'', ia_extra = []\<rparr>,
     sample_audit 2 sample_time ''preflight-completed'' ''operator'' ''provider-write-authorized'']"
  by (simp add: sample_provisioning_def sample_started_def started_record_def sample_request_def)

lemma sample_can_fail:
  "can_fail_with sample_provisioning sample_time ''operator'' ''adapter-execution-failed''
     ''The provider operation failed. Review the provider and retry safely.''"
  "can_fail_with sample_provisioning sample_time ''operator'' ''adapter-result-invalid''
     ''The provider adapter returned an invalid persisted result.''"
proof -
  have "ir_started sample_provisioning = sample_time"
    by (simp add: sample_provisioning_def sample_started_def started_record_def)
  then show "can_fail_with sample_provisioning sample_time ''operator'' ''adapter-execution-failed''
      ''The provider operation failed. Review the provider and retry safely.''"
    and "can_fail_with sample_provisioning sample_time ''operator'' ''adapter-result-invalid''
      ''The provider adapter returned an invalid persisted result.''"
    by (simp_all add: can_fail_with_def sample_texts sample_provisioning_trail sample_audit_def sample_lists)
qed

theorem thrown_is_recorded_witness:
  "\<exists>r w'. ask_adapter sample_env sample_plan sample_thrower sample_provisioning ''operator'' None sample_busy
    = (Inr (Some r), w') \<and> ir_state r = ''failed'' \<and> retryable r"
proof -
  have "map_of (pw_store sample_busy) (ir_key sample_provisioning) = Some sample_provisioning" by (simp add: sample_busy_def)
  from thrown_is_recorded[OF _ sample_busy_inv this, of sample_thrower "''operator''" sample_plan None] sample_can_fail(1)
  show ?thesis by (auto simp: sample_thrower_def)
qed

theorem guard_compares_times_witness:
  "\<exists>m1. memory_save sample_url sample_ready (Some sample_time) [(''operation-key-0001'', sample_provisioning)] = (Inr (), m1)
    \<and> memory_save sample_url sample_provisioning (Some sample_time) m1 = (Inr (), map_set ''operation-key-0001'' sample_provisioning m1)"
  using guard_compares_times[OF sample_busy_inv, of sample_provisioning sample_ready sample_provisioning]
  by (simp add: sample_busy_def same_binding_def)

theorem secretless_retirement_fails_witness:
  "\<exists>r w'. apply_adapter_result sample_env sample_plan sample_provisioning (sample_result ''retired'') ''operator'' sample_busy
    = (Inr (Some r), w') \<and> ir_state r = ''failed'' \<and> \<not> retryable r"
proof -
  let ?run = "apply_adapter_result sample_env sample_plan sample_provisioning (sample_result ''retired'') ''operator'' sample_busy"
  have moves: "can_transition_state (ir_state sample_provisioning) ''retired''"
    by (simp add: can_transition_state_def prov_transitions_def)
  have facts: "ir_secret sample_provisioning = None" "ar_secret (sample_result ''retired'') = None"
    "ar_state (sample_result ''retired'') = ''retired''"
    by (simp_all add: sample_provisioning_def sample_started_def started_record_def sample_request_def sample_result_def)
  let ?f = "failure_record sample_provisioning sample_time ''operator'' ''adapter-result-invalid''
      ''The provider adapter returned an invalid persisted result.'' False ''invalid-adapter-result'' ''correlation-0001''"
  have "vr_valid (validate_record sample_url ?f)"
    using failure_record_valid[OF sample_valid(2) sample_can_fail(2) sample_provisioning_trail] by simp
  moreover have "same_binding sample_provisioning ?f" by (simp add: same_binding_def failure_record_def)
  ultimately have saved: "memory_save sample_url ?f (Some sample_time) [(''operation-key-0001'', sample_provisioning)]
      = (Inr (), map_set (ir_key ?f) ?f [(''operation-key-0001'', sample_provisioning)])"
    using memory_save_next[OF sample_busy_inv, of sample_provisioning ?f] by (simp add: sample_busy_def)
  let ?v = "sample_busy\<lparr>pw_reads := 3\<rparr>"
  obtain r1 where r1: "append_audit_at sample_env (with_result sample_provisioning (sample_result ''retired'') sample_time) sample_time
      ''automation'' ''adapter-operation-completed'' ''succeeded'' ''client-created'' ?v = (Inr r1, ?v)"
    "ir_state r1 = ''retired''" "ir_secret r1 = None"
    using facts by (simp add: append_audit_at_def bind_prov_def ret_def sample_provisioning_trail) (simp add: with_result_def)
  have "\<not> vr_valid (validate_record sample_url r1)" using retired_revoked r1(2,3) by force
  then have "\<exists>a w'. settle_result sample_env sample_plan sample_provisioning sample_time ''operator'' r1 ?v = (Inr a, w')"
    using r1(2) saved
    by (simp add: settle_result_def bind_prov_def ret_def save_validated_or_fail_def stored_by_key_def save_record_def
        memory_store_def fail_at_record[OF sample_provisioning_trail] sample_busy_def split: option.splits)
  then have "\<exists>a w'. ?run = (Inr a, w')"
    using moves r1(1) facts by (simp add: apply_adapter_result_def bind_prov_def sample_result_def sample_busy_def)
  then obtain a w' where run: "?run = (Inr a, w')" by blast
  from secretless_retirement_fails[OF _ sample_busy_inv facts moves run] run show ?thesis by auto
qed

end
