(* ===== verification/Receipts.thy ===== *)
theory Receipts
  imports Learning_Engine Js_Guards
begin

text \<open>
  The receipts of \<open>src/learning-record-receipts.ts\<close> for exports, deletions and replayed deletions of a learner's record, with
  their verifiers, and the receipt operations of \<open>LearningEventEngine\<close>. The verifiers read what may have been stored
  elsewhere, so versions and types are texts and counts are numbers of the language; \<open>..._extra\<close> holds properties the
  interface does not declare, which the digest of a receipt covers. \<open>Inl\<close> is the message of a thrown \<open>Error\<close>.
\<close>

section \<open>Data\<close>

record export_receipt =
  rx_schema :: string
  rx_type :: string
  rx_id :: string
  rx_scope :: string
  rx_revision :: jsnum
  rx_count :: jsnum
  rx_events :: string
  rx_at :: string
  rx_digest :: string
  rx_extra :: "(string \<times> json) list"

record verified_export =
  vx_schema :: string
  vx_installation :: string
  vx_learner :: string
  vx_events :: "learning_event list"
  vx_receipt :: export_receipt

record deletion_receipt =
  dx_schema :: string
  dx_type :: string
  dx_id :: string
  dx_key :: string
  dx_scope :: string
  dx_revision :: jsnum
  dx_count :: jsnum
  dx_events :: string
  dx_at :: string
  dx_digest :: string
  dx_extra :: "(string \<times> json) list"

record deletion_replay =
  px_schema :: string
  px_type :: string
  px_id :: string
  px_receipt :: string
  px_restore :: string
  px_scope :: string
  px_revision :: jsnum
  px_count :: jsnum
  px_events :: string
  px_deleted :: jsnum
  px_at :: string
  px_digest :: string
  px_extra :: "(string \<times> json) list"

record receipt_validation =
  rv_valid :: bool
  rv_errors :: "string list"

section \<open>Texts, counts and digests\<close>

definition receipt_char :: "char \<Rightarrow> bool" where
  "receipt_char c \<longleftrightarrow> id_char c \<or> c = CHR ''/''"

definition receipt_identifier :: "string \<Rightarrow> bool" where
  "receipt_identifier s \<longleftrightarrow> (case s of [] \<Rightarrow> False
     | c # cs \<Rightarrow> alnum_char c \<and> list_all receipt_char cs \<and> 2 \<le> length cs \<and> length cs \<le> 127)"

definition operation_key :: "string \<Rightarrow> bool" where
  "operation_key s \<longleftrightarrow> (case s of [] \<Rightarrow> False
     | c # cs \<Rightarrow> alnum_char c \<and> list_all receipt_char cs \<and> 15 \<le> length cs \<and> length cs \<le> 127)"

definition valid_count :: "jsnum \<Rightarrow> bool" where
  "valid_count n \<longleftrightarrow> safe_integer n \<and> num_le (Fin 0) n"

definition digest_json :: "runtime \<Rightarrow> json \<Rightarrow> string" where
  "digest_json rt v = sha256_hex rt (stable_json rt v)"

definition events_json :: "learning_event list \<Rightarrow> json" where
  "events_json es = JArr (map event_json es)"

definition digest_learning_events :: "runtime \<Rightarrow> learning_event list \<Rightarrow> string" where
  "digest_learning_events rt es = digest_json rt (events_json es)"

definition scope_text :: "string \<Rightarrow> string \<Rightarrow> string" where
  "scope_text installation learner = ''1.0'' @ nul # installation @ nul # learner"

definition digest_scope :: "runtime \<Rightarrow> string \<Rightarrow> string \<Rightarrow> (string, string) result" where
  "digest_scope rt installation learner =
     (if \<not> receipt_identifier installation \<or> \<not> receipt_identifier learner
      then Inl ''Learning-record installationId and learnerId must contain 3-128 safe characters.''
      else Inr (sha256_hex rt (scope_text installation learner)))"

text \<open>The loop of \<open>assertScope\<close> after the sequence \<open>previous\<close>.\<close>

fun scope_events :: "string \<Rightarrow> string \<Rightarrow> int \<Rightarrow> learning_event list \<Rightarrow> (string, unit) result" where
  "scope_events installation learner previous [] = Inr ()"
| "scope_events installation learner previous (e # es) =
     (if e_installation e \<noteq> installation \<or> e_learner e \<noteq> learner
      then Inl ''A learning event crossed the exported learner scope.''
      else if \<not> safe_integer (Fin (of_int (e_sequence e))) \<or> e_sequence e \<le> previous
      then Inl ''Learning event sequence is not strictly increasing.''
      else scope_events installation learner (e_sequence e) es)"

definition assert_scope :: "string \<Rightarrow> string \<Rightarrow> learning_event list \<Rightarrow> (string, unit) result" where
  "assert_scope installation learner es =
     (if \<not> receipt_identifier installation \<or> \<not> receipt_identifier learner
      then Inl ''Invalid learning-record installation or learner scope.''
      else scope_events installation learner 0 es)"

definition assert_time :: "string \<Rightarrow> string \<Rightarrow> (string, unit) result" where
  "assert_time t name = (if parses_timestamp t then Inr () else Inl (name @ '' must be an ISO UTC timestamp.''))"

definition count_of :: "'a list \<Rightarrow> jsnum" where
  "count_of xs = Fin (of_nat (length xs))"

section \<open>What a receipt's digest covers\<close>

definition export_payload :: "export_receipt \<Rightarrow> json" where
  "export_payload r = JObj ([(''schemaVersion'', JStr (rx_schema r)), (''receiptType'', JStr (rx_type r)),
     (''scopeDigest'', JStr (rx_scope r)), (''sourceRevision'', JNum (rx_revision r)), (''eventCount'', JNum (rx_count r)),
     (''eventDigest'', JStr (rx_events r)), (''exportedAt'', JStr (rx_at r))] @ rx_extra r)"

definition deletion_payload :: "deletion_receipt \<Rightarrow> json" where
  "deletion_payload r = JObj ([(''schemaVersion'', JStr (dx_schema r)), (''receiptType'', JStr (dx_type r)),
     (''operationKey'', JStr (dx_key r)), (''scopeDigest'', JStr (dx_scope r)), (''sourceRevision'', JNum (dx_revision r)),
     (''eventCount'', JNum (dx_count r)), (''eventDigest'', JStr (dx_events r)), (''deletedAt'', JStr (dx_at r))] @ dx_extra r)"

definition replay_payload :: "deletion_replay \<Rightarrow> json" where
  "replay_payload r = JObj ([(''schemaVersion'', JStr (px_schema r)), (''receiptType'', JStr (px_type r)),
     (''deletionReceiptId'', JStr (px_receipt r)), (''restoreId'', JStr (px_restore r)), (''scopeDigest'', JStr (px_scope r)),
     (''preReplayRevision'', JNum (px_revision r)), (''preReplayEventCount'', JNum (px_count r)),
     (''preReplayEventDigest'', JStr (px_events r)), (''deletedEventCount'', JNum (px_deleted r)),
     (''replayedAt'', JStr (px_at r))] @ px_extra r)"

section \<open>Verifiers\<close>

text \<open>\<open>validateCommonReceipt\<close>; the operation key of an export receipt is the text that \<open>RegExp.test\<close> makes of an undeclared property.\<close>

definition common_receipt_errors :: "string \<Rightarrow> string \<Rightarrow> string \<Rightarrow> string \<Rightarrow> string \<Rightarrow> string \<Rightarrow> string \<Rightarrow> string
    \<Rightarrow> jsnum \<Rightarrow> jsnum \<Rightarrow> string \<Rightarrow> string list" where
  "common_receipt_errors expected time_name schema kind ident key scope events revision amount time =
     complain (schema \<noteq> ''1.0'' \<or> kind \<noteq> expected) (''unsupported '' @ expected @ '' receipt'')
     @ complain (\<not> receipt_identifier ident) ''invalid receipt id''
     @ complain (kind = ''learning-record.deleted'' \<and> \<not> operation_key key) ''invalid operationKey''
     @ complain (\<not> digest_text scope) ''invalid scopeDigest''
     @ complain (\<not> digest_text events) ''invalid eventDigest''
     @ complain (\<not> valid_count revision \<or> \<not> valid_count amount \<or> \<not> num_same revision amount)
         ''invalid event count or source revision''
     @ complain (\<not> parses_timestamp time) (''invalid '' @ time_name)"

definition export_receipt_errors :: "runtime \<Rightarrow> export_receipt \<Rightarrow> string list" where
  "export_receipt_errors rt r = (let expected = digest_json rt (export_payload r) in
     common_receipt_errors ''learning-record.exported'' ''exportedAt'' (rx_schema r) (rx_type r) (rx_id r)
       (to_text rt (get_prop (JObj (rx_extra r)) ''operationKey'')) (rx_scope r) (rx_events r) (rx_revision r) (rx_count r) (rx_at r)
     @ complain (rx_digest r \<noteq> expected) ''receiptDigest does not match export metadata''
     @ complain (rx_id r \<noteq> ''learning-export-'' @ take 32 expected) ''export receipt id does not match receiptDigest'')"

definition deletion_receipt_errors :: "runtime \<Rightarrow> deletion_receipt \<Rightarrow> string list" where
  "deletion_receipt_errors rt r = (let expected = digest_json rt (deletion_payload r) in
     common_receipt_errors ''learning-record.deleted'' ''deletedAt'' (dx_schema r) (dx_type r) (dx_id r) (dx_key r)
       (dx_scope r) (dx_events r) (dx_revision r) (dx_count r) (dx_at r)
     @ complain (dx_digest r \<noteq> expected) ''receiptDigest does not match deletion metadata''
     @ complain (dx_id r \<noteq> ''learning-deletion-'' @ take 32 expected) ''deletion receipt id does not match receiptDigest'')"

definition receipt_result :: "string list \<Rightarrow> receipt_validation" where
  "receipt_result errors = \<lparr>rv_valid = (errors = []), rv_errors = errors\<rparr>"

text \<open>The scope's digest is computed outside the \<open>try\<close>, so an invalid identifier is thrown, not reported.\<close>

definition verify_export :: "runtime \<Rightarrow> verified_export \<Rightarrow> (string, receipt_validation) result" where
  "verify_export rt v = bind_result (digest_scope rt (vx_installation v) (vx_learner v)) (\<lambda>scope.
     let r = vx_receipt v; es = vx_events v in Inr (receipt_result (
       complain (vx_schema v \<noteq> ''1.0'') ''unsupported export schemaVersion''
       @ (case assert_scope (vx_installation v) (vx_learner v) es of Inl message \<Rightarrow> [message] | Inr _ \<Rightarrow> [])
       @ complain (rx_scope r \<noteq> scope) ''scopeDigest does not match the exported learner scope''
       @ complain (rx_events r \<noteq> digest_learning_events rt es) ''eventDigest does not match the exported events''
       @ complain (\<not> num_same (rx_count r) (count_of es) \<or> \<not> num_same (rx_revision r) (count_of es))
           ''event count or source revision does not match the export''
       @ export_receipt_errors rt r)))"

definition verify_deletion :: "runtime \<Rightarrow> deletion_receipt \<Rightarrow> learning_event list option \<Rightarrow> receipt_validation" where
  "verify_deletion rt r source = receipt_result (deletion_receipt_errors rt r
     @ (case source of None \<Rightarrow> []
        | Some es \<Rightarrow> complain (\<not> num_same (dx_count r) (count_of es) \<or> \<not> num_same (dx_revision r) (count_of es))
              ''event count or source revision does not match source events''
            @ complain (dx_events r \<noteq> digest_learning_events rt es) ''eventDigest does not match source events''))"

definition verify_replay :: "runtime \<Rightarrow> deletion_replay \<Rightarrow> receipt_validation" where
  "verify_replay rt r = (let expected = digest_json rt (replay_payload r) in receipt_result (
     complain (px_schema r \<noteq> ''1.0'' \<or> px_type r \<noteq> ''learning-record.deletion-replayed'') ''unsupported deletion replay receipt''
     @ complain (\<not> receipt_identifier (px_id r)) ''invalid id''
     @ complain (\<not> receipt_identifier (px_receipt r)) ''invalid deletionReceiptId''
     @ complain (\<not> receipt_identifier (px_restore r)) ''invalid restoreId''
     @ complain (\<not> digest_text (px_scope r)) ''invalid scopeDigest''
     @ complain (\<not> digest_text (px_events r)) ''invalid preReplayEventDigest''
     @ complain (\<not> parses_timestamp (px_at r)) ''invalid replayedAt''
     @ complain (\<not> valid_count (px_revision r) \<or> \<not> valid_count (px_count r) \<or> \<not> valid_count (px_deleted r)
         \<or> \<not> num_same (px_revision r) (px_count r) \<or> \<not> num_same (px_deleted r) (px_count r)) ''invalid replay counts''
     @ complain (px_digest r \<noteq> expected) ''receiptDigest does not match replay metadata''
     @ complain (px_id r \<noteq> ''learning-replay-'' @ take 32 expected) ''replay receipt id does not match receiptDigest''))"

section \<open>Issuing receipts\<close>

definition create_export :: "runtime \<Rightarrow> string \<Rightarrow> string \<Rightarrow> learning_event list \<Rightarrow> string \<Rightarrow> (string, verified_export) result" where
  "create_export rt installation learner es at_time =
     bind_result (assert_scope installation learner es) (\<lambda>_.
     bind_result (assert_time at_time ''exportedAt'') (\<lambda>_.
     bind_result (digest_scope rt installation learner) (\<lambda>scope.
       let r = \<lparr>rx_schema = ''1.0'', rx_type = ''learning-record.exported'', rx_id = [], rx_scope = scope,
             rx_revision = count_of es, rx_count = count_of es, rx_events = digest_learning_events rt es, rx_at = at_time,
             rx_digest = [], rx_extra = []\<rparr>;
           digest = digest_json rt (export_payload r)
       in Inr \<lparr>vx_schema = ''1.0'', vx_installation = installation, vx_learner = learner, vx_events = es,
            vx_receipt = r\<lparr>rx_id := ''learning-export-'' @ take 32 digest, rx_digest := digest\<rparr>\<rparr>)))"

definition create_deletion :: "runtime \<Rightarrow> string \<Rightarrow> string \<Rightarrow> learning_event list \<Rightarrow> string \<Rightarrow> string
    \<Rightarrow> (string, deletion_receipt) result" where
  "create_deletion rt installation learner es key at_time =
     bind_result (assert_scope installation learner es) (\<lambda>_.
     bind_result (if operation_key key then Inr () else Inl ''operationKey must contain 16-128 safe characters.'') (\<lambda>_.
     bind_result (assert_time at_time ''deletedAt'') (\<lambda>_.
     bind_result (digest_scope rt installation learner) (\<lambda>scope.
       let r = \<lparr>dx_schema = ''1.0'', dx_type = ''learning-record.deleted'', dx_id = [], dx_key = key, dx_scope = scope,
             dx_revision = count_of es, dx_count = count_of es, dx_events = digest_learning_events rt es, dx_at = at_time,
             dx_digest = [], dx_extra = []\<rparr>;
           digest = digest_json rt (deletion_payload r)
       in Inr (r\<lparr>dx_id := ''learning-deletion-'' @ take 32 digest, dx_digest := digest\<rparr>)))))"

definition create_replay :: "runtime \<Rightarrow> deletion_receipt \<Rightarrow> string \<Rightarrow> learning_event list \<Rightarrow> jsnum \<Rightarrow> string
    \<Rightarrow> (string, deletion_replay) result" where
  "create_replay rt receipt restore es deleted at_time = (let v = verify_deletion rt receipt None in
     bind_result (if rv_valid v then Inr () else
       Inl (''Invalid learning-record deletion receipt: '' @ join_text ''; '' (rv_errors v))) (\<lambda>_.
     bind_result (if receipt_identifier restore then Inr () else Inl ''restoreId must contain 3-128 safe characters.'') (\<lambda>_.
     bind_result (assert_time at_time ''replayedAt'') (\<lambda>_.
     bind_result (if \<not> safe_integer deleted \<or> num_less deleted (Fin 0) \<or> \<not> num_same deleted (count_of es)
       then Inl ''deletedEventCount must equal the restored event count removed by replay.'' else Inr ()) (\<lambda>_.
       let r = \<lparr>px_schema = ''1.0'', px_type = ''learning-record.deletion-replayed'', px_id = [], px_receipt = dx_id receipt,
             px_restore = restore, px_scope = dx_scope receipt, px_revision = count_of es, px_count = count_of es,
             px_events = digest_learning_events rt es, px_deleted = deleted, px_at = at_time, px_digest = [], px_extra = []\<rparr>;
           digest = digest_json rt (replay_payload r)
       in Inr (r\<lparr>px_id := ''learning-replay-'' @ take 32 digest, px_digest := digest\<rparr>))))))"

section \<open>The engine's receipt operations\<close>

datatype receipt_error = Refused engine_error | Thrown string

text \<open>The receipt methods of a store, each of which may be missing.\<close>

record 's receipt_store =
  rs_export :: "(string \<Rightarrow> string \<Rightarrow> string \<Rightarrow> 's \<Rightarrow> (receipt_error, verified_export) result \<times> 's) option"
  rs_delete :: "(string \<Rightarrow> string \<Rightarrow> string \<Rightarrow> string \<Rightarrow> 's \<Rightarrow> (receipt_error, deletion_receipt) result \<times> 's) option"
  rs_replay :: "(string \<Rightarrow> string \<Rightarrow> deletion_receipt \<Rightarrow> string \<Rightarrow> string \<Rightarrow> 's
    \<Rightarrow> (receipt_error, deletion_replay) result \<times> 's) option"

definition require_receipt_store :: "'s receipt_store \<Rightarrow> (receipt_error, unit) result" where
  "require_receipt_store ops = (if rs_export ops = None \<or> rs_delete ops = None \<or> rs_replay ops = None
     then Inl (Refused (EngineError AdapterUnsupported
       ''The configured learning-event adapter does not support verified receipts.'')) else Inr ())"

definition refused :: "(engine_error, unit) result \<Rightarrow> (receipt_error, unit) result" where
  "refused r = (case r of Inl x \<Rightarrow> Inl (Refused x) | Inr u \<Rightarrow> Inr u)"

definition export_verified :: "'s receipt_store \<Rightarrow> string \<Rightarrow> string \<Rightarrow> learning_access \<Rightarrow> string \<Rightarrow> 's
    \<Rightarrow> (receipt_error, verified_export) result \<times> 's" where
  "export_verified ops installation learner a at_time s =
     guarded (refused (assert_can_read installation learner a)) s (\<lambda>_.
     guarded (require_receipt_store ops) s (\<lambda>_. the (rs_export ops) installation learner at_time s))"

definition delete_verified :: "'s receipt_store \<Rightarrow> string \<Rightarrow> string \<Rightarrow> string \<Rightarrow> learning_access \<Rightarrow> string \<Rightarrow> 's
    \<Rightarrow> (receipt_error, deletion_receipt) result \<times> 's" where
  "delete_verified ops installation learner key a at_time s =
     guarded (refused (assert_can_delete installation learner a)) s (\<lambda>_.
     guarded (require_receipt_store ops) s (\<lambda>_. the (rs_delete ops) installation learner key at_time s))"

definition replay_deletion :: "'s receipt_store \<Rightarrow> string \<Rightarrow> string \<Rightarrow> deletion_receipt \<Rightarrow> string \<Rightarrow> learning_access \<Rightarrow> string \<Rightarrow> 's
    \<Rightarrow> (receipt_error, deletion_replay) result \<times> 's" where
  "replay_deletion ops installation learner receipt restore a at_time s =
     guarded (refused (assert_can_delete installation learner a)) s (\<lambda>_.
     guarded (require_receipt_store ops) s (\<lambda>_. the (rs_replay ops) installation learner receipt restore at_time s))"

end
