(* ===== verification/Receipts_Theorems.thy ===== *)
theory Receipts_Theorems
  imports Receipts Engine_Theorems
begin

text \<open>
  The theorems about receipts: what is issued is accepted by the verifiers, and an export whose scope or events were
  changed is not, as long as the digest tells the texts apart.
\<close>

section \<open>What the verifiers test\<close>

lemma receipt_result_valid [simp]: "rv_valid (receipt_result es) \<longleftrightarrow> es = []"
  by (simp add: receipt_result_def)

lemma hex_receipt_char: "hex_char c \<Longrightarrow> receipt_char c"
  by (auto simp: hex_char_def receipt_char_def id_char_def alnum_char_def digit_char_def)

lemma receipt_identifier_iff: "receipt_identifier s \<longleftrightarrow> s \<noteq> [] \<and> alnum_char (hd s) \<and> list_all receipt_char (tl s)
    \<and> 3 \<le> length s \<and> length s \<le> 128"
  by (cases s) (auto simp: receipt_identifier_def)

lemma receipt_id:
  assumes "digest_text d" and "receipt_identifier prefix" and "length prefix \<le> 96"
  shows "receipt_identifier (prefix @ take 32 d)"
proof -
  have "list_all receipt_char d" using assms(1) by (auto simp: digest_text_def list_all_iff hex_receipt_char)
  then have "list_all receipt_char (take 32 d)" by (auto simp: list_all_iff dest: in_set_takeD)
  moreover have "length (take 32 d) = 32" using assms(1) by (simp add: digest_text_def)
  ultimately show ?thesis using assms(2,3) by (simp add: receipt_identifier_iff)
qed

lemma receipt_prefixes: "receipt_identifier ''learning-export-''" "receipt_identifier ''learning-deletion-''"
  "receipt_identifier ''learning-replay-''"
  by code_simp+

lemma receipt_not_nul: "receipt_identifier s \<Longrightarrow> nul \<notin> set s"
proof -
  assume s: "receipt_identifier s"
  have "\<not> receipt_char nul" by code_simp
  moreover have "list_all receipt_char s"
    using s by (cases s) (auto simp: receipt_identifier_def receipt_char_def id_char_def)
  ultimately show "nul \<notin> set s" by (auto simp: list_all_iff)
qed

lemma sha_digest: "sha256_format rt \<Longrightarrow> digest_text (digest_json rt v)" "sha256_format rt \<Longrightarrow> digest_text (sha256_hex rt t)"
  by (simp_all add: sha256_format_def digest_json_def)

lemma count_valid [simp]: "length es < 2 ^ 32 \<Longrightarrow> valid_count (count_of es)"
  by (simp add: valid_count_def count_of_def flip: of_nat_le_iff)

lemma count_same [simp]: "num_same (count_of es) (count_of es)"
  by (simp add: num_same_def count_of_def)

section \<open>What is issued\<close>

lemma payload_identity [simp]:
  "export_payload (rx\<lparr>rx_id := a, rx_digest := b\<rparr>) = export_payload rx"
  "deletion_payload (dx\<lparr>dx_id := a, dx_digest := b\<rparr>) = deletion_payload dx"
  "replay_payload (px\<lparr>px_id := a, px_digest := b\<rparr>) = replay_payload px"
  by (simp_all add: export_payload_def deletion_payload_def replay_payload_def)

lemma assert_scope_ids: "assert_scope i l es = Inr u \<Longrightarrow> receipt_identifier i \<and> receipt_identifier l"
  by (simp add: assert_scope_def split: if_splits)

lemma digest_scope_Inr: "digest_scope rt i l = Inr d \<longleftrightarrow>
    receipt_identifier i \<and> receipt_identifier l \<and> d = sha256_hex rt (scope_text i l)"
  by (auto simp: digest_scope_def)

definition export_body :: "runtime \<Rightarrow> string \<Rightarrow> string \<Rightarrow> learning_event list \<Rightarrow> string \<Rightarrow> export_receipt" where
  "export_body rt i l es t = \<lparr>rx_schema = ''1.0'', rx_type = ''learning-record.exported'', rx_id = [],
     rx_scope = sha256_hex rt (scope_text i l), rx_revision = count_of es, rx_count = count_of es,
     rx_events = digest_learning_events rt es, rx_at = t, rx_digest = [], rx_extra = []\<rparr>"

definition sealed_export :: "runtime \<Rightarrow> export_receipt \<Rightarrow> export_receipt" where
  "sealed_export rt r = r\<lparr>rx_id := ''learning-export-'' @ take 32 (digest_json rt (export_payload r)),
     rx_digest := digest_json rt (export_payload r)\<rparr>"

lemma create_export_Inr: "create_export rt i l es t = Inr v \<longleftrightarrow>
    assert_scope i l es = Inr () \<and> parses_timestamp t \<and>
    v = \<lparr>vx_schema = ''1.0'', vx_installation = i, vx_learner = l, vx_events = es,
         vx_receipt = sealed_export rt (export_body rt i l es t)\<rparr>"
  using assert_scope_ids [of i l es]
  by (auto simp: create_export_def bind_result_eq_Inr assert_time_def digest_scope_Inr Let_def export_body_def
      sealed_export_def)

definition deletion_body :: "runtime \<Rightarrow> string \<Rightarrow> string \<Rightarrow> learning_event list \<Rightarrow> string \<Rightarrow> string \<Rightarrow> deletion_receipt" where
  "deletion_body rt i l es key t = \<lparr>dx_schema = ''1.0'', dx_type = ''learning-record.deleted'', dx_id = [], dx_key = key,
     dx_scope = sha256_hex rt (scope_text i l), dx_revision = count_of es, dx_count = count_of es,
     dx_events = digest_learning_events rt es, dx_at = t, dx_digest = [], dx_extra = []\<rparr>"

definition sealed_deletion :: "runtime \<Rightarrow> deletion_receipt \<Rightarrow> deletion_receipt" where
  "sealed_deletion rt r = r\<lparr>dx_id := ''learning-deletion-'' @ take 32 (digest_json rt (deletion_payload r)),
     dx_digest := digest_json rt (deletion_payload r)\<rparr>"

lemma create_deletion_Inr: "create_deletion rt i l es key t = Inr r \<longleftrightarrow>
    assert_scope i l es = Inr () \<and> operation_key key \<and> parses_timestamp t \<and>
    r = sealed_deletion rt (deletion_body rt i l es key t)"
  using assert_scope_ids [of i l es]
  by (auto simp: create_deletion_def bind_result_eq_Inr assert_time_def digest_scope_Inr Let_def deletion_body_def
      sealed_deletion_def)

definition replay_body :: "runtime \<Rightarrow> deletion_receipt \<Rightarrow> string \<Rightarrow> learning_event list \<Rightarrow> string \<Rightarrow> deletion_replay" where
  "replay_body rt d restore es t = \<lparr>px_schema = ''1.0'', px_type = ''learning-record.deletion-replayed'', px_id = [],
     px_receipt = dx_id d, px_restore = restore, px_scope = dx_scope d, px_revision = count_of es, px_count = count_of es,
     px_events = digest_learning_events rt es, px_deleted = count_of es, px_at = t, px_digest = [], px_extra = []\<rparr>"

definition sealed_replay :: "runtime \<Rightarrow> deletion_replay \<Rightarrow> deletion_replay" where
  "sealed_replay rt r = r\<lparr>px_id := ''learning-replay-'' @ take 32 (digest_json rt (replay_payload r)),
     px_digest := digest_json rt (replay_payload r)\<rparr>"

lemma create_replay_Inr: "create_replay rt d restore es n t = Inr r \<Longrightarrow>
    deletion_receipt_errors rt d = [] \<and> receipt_identifier restore \<and> parses_timestamp t \<and>
    r = sealed_replay rt (replay_body rt d restore es t)"
  by (auto simp: create_replay_def verify_deletion_def bind_result_eq_Inr assert_time_def Let_def replay_body_def
      sealed_replay_def num_same_def split: if_splits)

lemma common_receipt_errors_empty: "common_receipt_errors expected field schema kind ident key scope events n m t = [] \<longleftrightarrow>
    schema = ''1.0'' \<and> kind = expected \<and> receipt_identifier ident
    \<and> (kind = ''learning-record.deleted'' \<longrightarrow> operation_key key)
    \<and> digest_text scope \<and> digest_text events \<and> valid_count n \<and> valid_count m \<and> num_same n m \<and> parses_timestamp t"
  by (auto simp: common_receipt_errors_def)

section \<open>Issued receipts verify\<close>

lemma created_export_verifies:
  assumes "sha256_format rt" "length es < 2 ^ 32" "create_export rt i l es t = Inr v"
  shows "verify_export rt v = Inr (receipt_result [])"
proof -
  let ?r = "export_body rt i l es t"
  have ok: "assert_scope i l es = Inr ()" "parses_timestamp t"
    and v: "v = \<lparr>vx_schema = ''1.0'', vx_installation = i, vx_learner = l, vx_events = es,
      vx_receipt = sealed_export rt ?r\<rparr>"
    using assms(3) by (simp_all add: create_export_Inr)
  have same: "export_payload (sealed_export rt ?r) = export_payload ?r" by (simp add: sealed_export_def)
  have "receipt_identifier (''learning-export-'' @ take 32 (digest_json rt (export_payload ?r)))"
    by (rule receipt_id) (simp_all only: sha_digest assms(1) receipt_prefixes, simp)
  then have "export_receipt_errors rt (sealed_export rt ?r) = []"
    using ok(2) assms(1,2)
    by (simp add: export_receipt_errors_def same Let_def common_receipt_errors_empty)
      (simp add: sealed_export_def export_body_def sha_digest digest_learning_events_def)
  then show ?thesis
    using assert_scope_ids [OF ok(1)] ok(1)
    by (simp add: verify_export_def v digest_scope_def complain_def)
      (simp add: sealed_export_def export_body_def)
qed

lemma created_deletion_verifies:
  assumes "sha256_format rt" "length es < 2 ^ 32" "create_deletion rt i l es key t = Inr r"
  shows "verify_deletion rt r (Some es) = receipt_result [] \<and> verify_deletion rt r None = receipt_result []"
proof -
  let ?r = "deletion_body rt i l es key t"
  have ok: "operation_key key" "parses_timestamp t" and r: "r = sealed_deletion rt ?r"
    using assms(3) by (simp_all add: create_deletion_Inr)
  have same: "deletion_payload (sealed_deletion rt ?r) = deletion_payload ?r" by (simp add: sealed_deletion_def)
  have "receipt_identifier (''learning-deletion-'' @ take 32 (digest_json rt (deletion_payload ?r)))"
    by (rule receipt_id) (simp_all only: sha_digest assms(1) receipt_prefixes, simp)
  then have "deletion_receipt_errors rt (sealed_deletion rt ?r) = []"
    using ok assms(1,2)
    by (simp add: deletion_receipt_errors_def same Let_def common_receipt_errors_empty)
      (simp add: sealed_deletion_def deletion_body_def sha_digest digest_learning_events_def)
  then show ?thesis
    by (simp add: verify_deletion_def r complain_def) (simp add: sealed_deletion_def deletion_body_def)
qed

lemma deletion_receipt_ids:
  "deletion_receipt_errors rt d = [] \<Longrightarrow> receipt_identifier (dx_id d) \<and> digest_text (dx_scope d)"
  unfolding deletion_receipt_errors_def Let_def append_is_Nil_conv common_receipt_errors_empty by blast

lemma created_replay_verifies:
  assumes "sha256_format rt" "length es < 2 ^ 32" "create_replay rt d restore es n t = Inr r"
  shows "verify_replay rt r = receipt_result []"
proof -
  let ?r = "replay_body rt d restore es t"
  have ok: "receipt_identifier restore" "parses_timestamp t" and r: "r = sealed_replay rt ?r"
    using create_replay_Inr [OF assms(3)] by simp_all
  have d: "receipt_identifier (dx_id d)" "digest_text (dx_scope d)"
    using create_replay_Inr [OF assms(3), THEN conjunct1, THEN deletion_receipt_ids] by simp_all
  have same: "replay_payload (sealed_replay rt ?r) = replay_payload ?r" by (simp add: sealed_replay_def)
  have "receipt_identifier (''learning-replay-'' @ take 32 (digest_json rt (replay_payload ?r)))"
    by (rule receipt_id) (simp_all only: sha_digest assms(1) receipt_prefixes, simp)
  then show ?thesis
    unfolding verify_replay_def Let_def r same
    by (intro arg_cong [of _ "[]" receipt_result])
      (use ok d assms(1,2) in \<open>simp add: sealed_replay_def replay_body_def sha_digest digest_learning_events_def\<close>)
qed

text \<open>
  Every issued receipt passes its verifier: an export, a deletion receipt (with and without the deleted events) and the
  record of a replayed deletion, for records of fewer than \<open>2 ^ 32\<close> events.
\<close>

theorem receipts_verify:
  assumes "sha256_format rt" and "length es < 2 ^ 32"
  shows "(create_export rt i l es t = Inr v \<longrightarrow> verify_export rt v = Inr \<lparr>rv_valid = True, rv_errors = []\<rparr>)
    \<and> (create_deletion rt i l es key t = Inr d \<longrightarrow>
        verify_deletion rt d (Some es) = \<lparr>rv_valid = True, rv_errors = []\<rparr>
        \<and> verify_deletion rt d None = \<lparr>rv_valid = True, rv_errors = []\<rparr>)
    \<and> (create_replay rt d' restore es n t = Inr r \<longrightarrow> verify_replay rt r = \<lparr>rv_valid = True, rv_errors = []\<rparr>)"
proof -
  have none: "receipt_result [] = \<lparr>rv_valid = True, rv_errors = []\<rparr>" by (simp add: receipt_result_def)
  show ?thesis
    using created_export_verifies [OF assms] created_deletion_verifies [OF assms] created_replay_verifies [OF assms]
    unfolding none by blast
qed

definition sample_export :: "string \<Rightarrow> verified_export" where
  "sample_export learner = \<lparr>vx_schema = ''1.0'', vx_installation = ''school-1'', vx_learner = learner, vx_events = [],
     vx_receipt = sealed_export sample_runtime
       (export_body sample_runtime ''school-1'' ''learner-01'' [] ''2026-03-01T10:00:00Z'')\<rparr>"

lemma sample_export_created:
  "create_export sample_runtime ''school-1'' ''learner-01'' [] ''2026-03-01T10:00:00Z'' = Inr (sample_export ''learner-01'')"
proof -
  have "assert_scope ''school-1'' ''learner-01'' [] = Inr ()" by code_simp
  moreover have "parses_timestamp ''2026-03-01T10:00:00Z''" by code_simp
  ultimately show ?thesis by (simp add: create_export_Inr sample_export_def)
qed

theorem receipts_verify_witness:
  "verify_export sample_runtime (sample_export ''learner-01'') = Inr \<lparr>rv_valid = True, rv_errors = []\<rparr>"
  by (rule receipts_verify [THEN conjunct1, rule_format, OF sample_sha _ sample_export_created]) simp

text \<open>What a valid export says of its receipt.\<close>

lemma verify_export_valid:
  assumes "verify_export rt v = Inr a" "rv_valid a"
  shows "rx_scope (vx_receipt v) = sha256_hex rt (scope_text (vx_installation v) (vx_learner v))"
    and "rx_events (vx_receipt v) = digest_learning_events rt (vx_events v)"
    and "assert_scope (vx_installation v) (vx_learner v) (vx_events v) = Inr ()"
  using assms by (auto simp: verify_export_def bind_result_eq_Inr digest_scope_Inr Let_def split: sum.splits)

lemma scope_text_inj: "nul \<notin> set i \<Longrightarrow> nul \<notin> set j \<Longrightarrow> scope_text i l = scope_text j m \<longleftrightarrow> i = j \<and> l = m"
  by (simp add: scope_text_def append_nul_inj)

text \<open>
  C15. A receipt fits one export only: when an export is valid, no export with the same receipt but another installation,
  another learner or other events (as the digest reads them, in their sorted text) is valid too, unless the digest maps two
  of these four texts to one value.
\<close>

theorem receipt_detects_changes:
  assumes v: "verify_export rt v = Inr a" "rv_valid a" and w: "vx_receipt w = vx_receipt v"
    and changed: "vx_installation w \<noteq> vx_installation v \<or> vx_learner w \<noteq> vx_learner v
      \<or> stable_json rt (events_json (vx_events w)) \<noteq> stable_json rt (events_json (vx_events v))"
    and no_collision: "inj_on (sha256_hex rt) {scope_text (vx_installation v) (vx_learner v),
      scope_text (vx_installation w) (vx_learner w),
      stable_json rt (events_json (vx_events v)), stable_json rt (events_json (vx_events w))}"
  shows "\<nexists>b. verify_export rt w = Inr b \<and> rv_valid b"
proof
  assume "\<exists>b. verify_export rt w = Inr b \<and> rv_valid b"
  then obtain b where b: "verify_export rt w = Inr b" "rv_valid b" by blast
  note fv = verify_export_valid [OF v] and fw = verify_export_valid [OF b]
  have "scope_text (vx_installation v) (vx_learner v) = scope_text (vx_installation w) (vx_learner w)"
    by (rule inj_onD [OF no_collision]) (use fv(1) fw(1) w in simp_all)
  moreover have "nul \<notin> set (vx_installation v)" "nul \<notin> set (vx_installation w)"
    using assert_scope_ids [OF fv(3)] assert_scope_ids [OF fw(3)] by (simp_all add: receipt_not_nul)
  moreover have "stable_json rt (events_json (vx_events v)) = stable_json rt (events_json (vx_events w))"
    by (rule inj_onD [OF no_collision]) (use fv(2) fw(2) w in \<open>simp_all add: digest_learning_events_def digest_json_def\<close>)
  ultimately show False using changed by (simp add: scope_text_inj)
qed

lemma sample_sha_last: "last \<circ> sha256_hex sample_runtime = (\<lambda>s. char_of (48 + length s mod 10))"
  using pad_text.simps(2) [of 63] by (auto simp: sample_runtime_def)

theorem receipt_detects_changes_witness:
  "\<nexists>b. verify_export sample_runtime (sample_export ''learner-002'') = Inr b \<and> rv_valid b"
proof (rule receipt_detects_changes)
  show "verify_export sample_runtime (sample_export ''learner-01'') = Inr (receipt_result [])"
    by (rule created_export_verifies [OF sample_sha _ sample_export_created]) simp
  have "stable_json sample_runtime (events_json []) = ''[]''" by (simp add: stable_json_def events_json_def)
  then show "inj_on (sha256_hex sample_runtime)
      {scope_text (vx_installation (sample_export ''learner-01'')) (vx_learner (sample_export ''learner-01'')),
       scope_text (vx_installation (sample_export ''learner-002'')) (vx_learner (sample_export ''learner-002'')),
       stable_json sample_runtime (events_json (vx_events (sample_export ''learner-01''))),
       stable_json sample_runtime (events_json (vx_events (sample_export ''learner-002'')))}"
    by (intro inj_on_imageI2 [of last], unfold sample_sha_last) (simp add: sample_export_def scope_text_def)
qed (simp_all add: sample_export_def)


end
