(* ===== verification/Recovery.thy ===== *)
theory Recovery
  imports Receipts_Theorems
begin

text \<open>
  Restoring a verified export into an empty learner stream and measuring a recovery, from
  \<open>src/learning-record-recovery.ts\<close>. The restore is written over the operations of any event store (whose \<open>delete\<close> does
  not throw); its lemmas are proved in \<open>event_store\<close>. The conformance run of that file is a test harness and not modelled.
\<close>

section \<open>Restoring\<close>

text \<open>An event without its sequence number, as the texts are compared.\<close>

definition event_semantics :: "learning_event \<Rightarrow> json" where
  "event_semantics e = (case event_json e of
     JObj kvs \<Rightarrow> JObj (filter (\<lambda>(k, _). k \<noteq> ''sequence'') kvs) | j \<Rightarrow> j)"

fun compare_restored :: "runtime \<Rightarrow> learning_event list \<Rightarrow> learning_event list \<Rightarrow> (receipt_error, unit) result" where
  "compare_restored rt [] actual = Inr ()"
| "compare_restored rt (e # es) [] = Inl (Thrown ''Restored learning-event order is incomplete.'')"
| "compare_restored rt (e # es) (a # as) =
     (if stringify rt (event_semantics a) \<noteq> stringify rt (event_semantics e)
      then Inl (Thrown ''Restored learning-event semantics or authoritative order changed.'')
      else compare_restored rt es as)"

definition assert_restored :: "runtime \<Rightarrow> learning_event list \<Rightarrow> learning_event list \<Rightarrow> (receipt_error, unit) result" where
  "assert_restored rt expected actual =
     (if length actual \<noteq> length expected
      then Inl (Thrown ''Restored learning-event count does not match authoritative evidence.'')
      else compare_restored rt expected actual)"

text \<open>The loop over the exported events, from an index and the sequence stored last.\<close>

fun restore_events :: "'s store_ops \<Rightarrow> nat \<Rightarrow> int \<Rightarrow> learning_event list \<Rightarrow> 's \<Rightarrow> (receipt_error, unit) result \<times> 's" where
  "restore_events ops index previous [] s = (Inr (), s)"
| "restore_events ops index previous (e # es) s = (case st_append ops (learning_candidate.truncate e) index s of
     (Inl x, s') \<Rightarrow> (Inl (Refused x), s')
   | (Inr r, s') \<Rightarrow>
       if ar_replayed r \<or> e_sequence (ar_event r) \<le> previous
       then (Inl (Thrown ''Learning-record restore did not reproduce the authoritative event order.''), s')
       else restore_events ops (Suc index) (e_sequence (ar_event r)) es s')"

text \<open>\<open>restoreVerifiedLearningRecordExport\<close>.\<close>

definition restore_verified_export :: "runtime \<Rightarrow> 's store_ops \<Rightarrow> verified_export \<Rightarrow> 's
    \<Rightarrow> (receipt_error, nat) result \<times> 's" where
  "restore_verified_export rt ops v s =
     guarded (case verify_export rt v of Inl message \<Rightarrow> Inl (Thrown message) | Inr a \<Rightarrow> Inr a) s (\<lambda>a.
     guarded (if rv_valid a then Inr () else
       Inl (Thrown (''Learning-record backup verification failed: '' @ join_text ''; '' (rv_errors a)))) s (\<lambda>_.
     guarded (if st_list ops (vx_installation v) (vx_learner v) s \<noteq> []
       then Inl (Thrown ''Learning-record restore target must be an empty learner stream.'') else Inr ()) s (\<lambda>_.
     (case restore_events ops 0 0 (vx_events v) s of
        (Inl x, s') \<Rightarrow> (Inl x, snd (st_delete ops (vx_installation v) (vx_learner v) s'))
      | (Inr _, s') \<Rightarrow>
          let restored = st_list ops (vx_installation v) (vx_learner v) s' in
          (case assert_restored rt (vx_events v) restored of
             Inl x \<Rightarrow> (Inl x, snd (st_delete ops (vx_installation v) (vx_learner v) s'))
           | Inr _ \<Rightarrow> (Inr (length restored), s'))))))"

section \<open>Measuring\<close>

record recovery_measurement =
  rm_captured :: string
  rm_current :: string
  rm_started :: string
  rm_completed :: string
  rm_max_point :: jsnum
  rm_max_time :: jsnum

definition recovery_timestamp :: "string \<Rightarrow> string \<Rightarrow> (string, int) result" where
  "recovery_timestamp t name = (if parses_timestamp t then Inr (the (date_parse t))
     else Inl (name @ '' must be a valid ISO UTC timestamp.''))"

definition elapsed_seconds :: "int \<Rightarrow> int \<Rightarrow> string \<Rightarrow> (string, jsnum) result" where
  "elapsed_seconds start stop message =
     (if stop < start then Inl message else Inr (num_div (Fin (of_int (stop - start))) (Fin 1000)))"

definition assert_objective :: "jsnum \<Rightarrow> string \<Rightarrow> (string, unit) result" where
  "assert_objective n name = (if n = NaN \<or> n = PosInf \<or> n = NegInf \<or> num_less n (Fin 0)
     then Inl (name @ '' must be a non-negative finite number.'') else Inr ())"

text \<open>\<open>measureLearningRecordRecovery\<close>: the recovery point and the recovery time, in seconds.\<close>

definition measure_recovery :: "runtime \<Rightarrow> recovery_measurement \<Rightarrow> (string, jsnum \<times> jsnum) result" where
  "measure_recovery rt m =
     bind_result (recovery_timestamp (rm_captured m) ''backupCapturedAt'') (\<lambda>captured.
     bind_result (recovery_timestamp (rm_current m) ''sourceCurrentAt'') (\<lambda>current.
     bind_result (recovery_timestamp (rm_started m) ''recoveryStartedAt'') (\<lambda>started.
     bind_result (recovery_timestamp (rm_completed m) ''recoveryCompletedAt'') (\<lambda>completed.
     bind_result (elapsed_seconds captured current ''sourceCurrentAt must not precede backupCapturedAt'') (\<lambda>point.
     bind_result (elapsed_seconds started completed ''recoveryCompletedAt must not precede recoveryStartedAt'') (\<lambda>time.
     bind_result (if started < current then Inl ''recoveryStartedAt must not precede sourceCurrentAt.'' else Inr ()) (\<lambda>_.
     bind_result (assert_objective (rm_max_point m) ''maximumRecoveryPointSeconds'') (\<lambda>_.
     bind_result (assert_objective (rm_max_time m) ''maximumRecoveryTimeSeconds'') (\<lambda>_.
     if num_less (rm_max_point m) point
     then Inl (''Recovery point objective exceeded: '' @ jsnum_text rt point @ ''s > '' @ jsnum_text rt (rm_max_point m) @ ''s.'')
     else if num_less (rm_max_time m) time
     then Inl (''Recovery time objective exceeded: '' @ jsnum_text rt time @ ''s > '' @ jsnum_text rt (rm_max_time m) @ ''s.'')
     else Inr (point, time))))))))))"

section \<open>Restoring into a sound store\<close>

lemma truncate_sel [simp]:
  "e_installation (learning_candidate.truncate e) = e_installation e"
  "e_learner (learning_candidate.truncate e) = e_learner e" "e_key (learning_candidate.truncate e) = e_key e"
  "e_payload (learning_candidate.truncate e) = e_payload e" "e_schema (learning_candidate.truncate e) = e_schema e"
  "e_id (learning_candidate.truncate e) = e_id e" "e_content (learning_candidate.truncate e) = e_content e"
  "e_digest (learning_candidate.truncate e) = e_digest e" "e_occurred (learning_candidate.truncate e) = e_occurred e"
  "e_recorded (learning_candidate.truncate e) = e_recorded e" "e_actor (learning_candidate.truncate e) = e_actor e"
  by (simp_all add: learning_candidate.truncate_def)

lemma with_sequence_truncate [simp]: "with_sequence (learning_candidate.truncate e) (e_sequence e) = e"
  by (simp add: with_sequence_def learning_candidate.truncate_def learning_candidate.extend_def)

lemma truncate_with_sequence [simp]: "learning_candidate.truncate (with_sequence c n) = c"
  by (simp add: with_sequence_def learning_candidate.truncate_def learning_candidate.extend_def)

lemma event_semantics_truncate:
  assumes "learning_candidate.truncate a = learning_candidate.truncate e"
  shows "event_semantics a = event_semantics e"
proof -
  note same = arg_cong [OF assms]
  have "e_schema a = e_schema e" "e_id a = e_id e" "e_installation a = e_installation e" "e_learner a = e_learner e"
    "e_key a = e_key e" "e_content a = e_content e" "e_digest a = e_digest e" "e_occurred a = e_occurred e"
    "e_recorded a = e_recorded e" "e_actor a = e_actor e" "e_payload a = e_payload e"
    using same [of e_schema] same [of e_id] same [of e_installation] same [of e_learner] same [of e_key]
      same [of e_content] same [of e_digest] same [of e_occurred] same [of e_recorded] same [of e_actor]
      same [of e_payload] by simp_all
  then show ?thesis by (simp add: event_semantics_def event_json_def)
qed

lemma compare_restored_ok:
  "map learning_candidate.truncate actual = map learning_candidate.truncate expected \<Longrightarrow>
    assert_restored rt expected actual = Inr ()"
proof -
  assume same: "map learning_candidate.truncate actual = map learning_candidate.truncate expected"
  have "compare_restored rt expected actual = Inr ()" using same
  proof (induction expected arbitrary: actual)
    case (Cons e es)
    then obtain a as where "actual = a # as" by (cases actual) auto
    with Cons show ?case using event_semantics_truncate [of a e] by simp
  qed simp
  moreover have "length actual = length expected" using same by (rule map_eq_imp_length_eq)
  ultimately show ?thesis by (simp add: assert_restored_def)
qed

lemma scope_events_in_scope:
  "scope_events i l n es = Inr () \<Longrightarrow> e \<in> set es \<Longrightarrow> e_installation e = i \<and> e_learner e = l"
  by (induction es arbitrary: n) (auto split: if_splits)

context event_store begin

text \<open>Every append of a restore stays in its scope.\<close>

lemma append_scope:
  assumes "inv s" "st_append ops (learning_candidate.truncate e) n s = (res, s')"
    and "e_installation e = i" "e_learner e = l" "nul \<notin> set i"
  shows "inv s' \<and> (\<forall>j m. nul \<notin> set j \<longrightarrow> (j, m) \<noteq> (i, l) \<longrightarrow> st_list ops j m s' = st_list ops j m s)"
proof -
  have "inv s'"
  proof (cases res)
    case (Inl x)
    then show ?thesis using append_error assms(1,2) by blast
  next
    case (Inr r)
    then show ?thesis using append_new [OF assms(1) refl] append_replay [OF assms(1)] assms(1,2) by blast
  qed
  moreover have "st_list ops j m s' = st_list ops j m s" if "nul \<notin> set j" "(j, m) \<noteq> (i, l)" for j m
    by (rule append_frame [OF assms(1,2) that(1)]) (use that assms(3-5) in simp_all)
  ultimately show ?thesis by blast
qed

lemma restore_events_scope:
  assumes "inv s" "restore_events ops n p es s = (res, s')" "nul \<notin> set i"
    and "\<forall>e \<in> set es. e_installation e = i \<and> e_learner e = l"
  shows "inv s' \<and> (\<forall>j m. nul \<notin> set j \<longrightarrow> (j, m) \<noteq> (i, l) \<longrightarrow> st_list ops j m s' = st_list ops j m s)"
  using assms
proof (induction es arbitrary: n p s)
  case (Cons e es)
  obtain res1 s1 where ap: "st_append ops (learning_candidate.truncate e) n s = (res1, s1)" by fastforce
  have one: "inv s1 \<and> (\<forall>j m. nul \<notin> set j \<longrightarrow> (j, m) \<noteq> (i, l) \<longrightarrow> st_list ops j m s1 = st_list ops j m s)"
    by (rule append_scope [OF Cons.prems(1) ap]) (use Cons.prems(3,4) in simp_all)
  show ?case
  proof (cases "\<exists>r. res1 = Inr r \<and> \<not> ar_replayed r \<and> p < e_sequence (ar_event r)")
    case True
    then obtain r where "res1 = Inr r" "\<not> ar_replayed r" "p < e_sequence (ar_event r)" by blast
    then have "restore_events ops (Suc n) (e_sequence (ar_event r)) es s1 = (res, s')" using Cons.prems(2) ap by simp
    then show ?thesis using Cons.IH [of s1] Cons.prems(3,4) one by simp
  next
    case False
    then have "s' = s1" using Cons.prems(2) ap by (cases res1) (auto split: if_splits)
    then show ?thesis using one by simp
  qed
qed simp

text \<open>A restore that does not throw stores the events in order, each as it was but for its number.\<close>

lemma restore_events_stores:
  assumes "inv s" "restore_events ops n p es s = (Inr u, s')"
    and "\<forall>e \<in> set es. e_installation e = i \<and> e_learner e = l"
  shows "map learning_candidate.truncate (st_list ops i l s')
    = map learning_candidate.truncate (st_list ops i l s) @ map learning_candidate.truncate es"
  using assms
proof (induction es arbitrary: n p s)
  case (Cons e es)
  obtain res1 s1 where ap: "st_append ops (learning_candidate.truncate e) n s = (res1, s1)" by fastforce
  then obtain r where r: "res1 = Inr r" "\<not> ar_replayed r" "restore_events ops (Suc n) (e_sequence (ar_event r)) es s1 = (Inr u, s')"
    using Cons.prems(2) by (cases res1) (auto split: if_splits)
  have "st_list ops (e_installation (learning_candidate.truncate e)) (e_learner (learning_candidate.truncate e)) s
      = st_list ops i l s" using Cons.prems(3) by simp
  then have "inv s1 \<and> st_list ops i l s1 = st_list ops i l s @ [ar_event r]
      \<and> learning_candidate.truncate (ar_event r) = learning_candidate.truncate e"
    using append_new [OF Cons.prems(1) refl ap [unfolded r(1)] r(2)] Cons.prems(3) by simp
  then show ?case using Cons.IH [OF _ r(3)] Cons.prems(3) by simp
qed simp

text \<open>A sound stream is accepted event by event, with the numbers it had.\<close>

lemma stream_inv_prefix: "stream_inv key (xs @ ys) \<Longrightarrow> stream_inv key xs"
proof -
  assume a: "stream_inv key (xs @ ys)"
  have "map int [1 ..< Suc (length (xs @ ys))] = map int [1 ..< Suc (length xs)] @ map int [Suc (length xs) ..< Suc (length (xs @ ys))]"
    using upt_add_eq_append [of 1 "Suc (length xs)" "length ys"] by (simp flip: map_append del: upt_Suc)
  then show ?thesis using a by (simp add: stream_inv_def del: upt_Suc)
qed

lemma restore_events_exact:
  assumes "inv s" "st_list ops i l s = old" "stream_inv key (old @ es)"
    and "\<forall>e \<in> set es. e_installation e = i \<and> e_learner e = l"
  shows "\<exists>s'. restore_events ops (length old) (int (length old)) es s = (Inr (), s') \<and> inv s'
    \<and> st_list ops i l s' = old @ es"
  using assms
proof (induction es arbitrary: old s)
  case (Cons e es)
  let ?c = "learning_candidate.truncate e"
  have here: "st_list ops (e_installation ?c) (e_learner ?c) s = old" using Cons.prems(2,4) by simp
  have "stream_inv key ((old @ [e]) @ es)" using Cons.prems(3) by simp
  note both = stream_inv_prefix [OF this] and old = stream_inv_prefix [OF Cons.prems(3)]
  have nseq: "next_sequence old = int (Suc (length old))" by (rule next_sequence_stream [OF old])
  have seq: "e_sequence e = int (Suc (length old))" using both by (simp add: stream_inv_def)
  have same: "with_sequence ?c (next_sequence old) = e" unfolding nseq seq [symmetric] by simp
  have fresh: "e_key ?c \<notin> e_key ` set old" "\<not> duplicate_attempt ?c old" "\<not> duplicate_correction ?c old"
    using both by (auto simp: stream_inv_def duplicate_attempt_iff duplicate_correction_iff)
  have wf: "wf_event (with_sequence ?c (next_sequence old))" unfolding same using both by (simp add: stream_inv_def)
  obtain s1 where ap: "st_append ops ?c (length old) s = (Inr \<lparr>ar_event = e, ar_replayed = False\<rparr>, s1)"
    using append_accepts [OF Cons.prems(1) here [symmetric] fresh(1) refl fresh(2,3) wf] unfolding same by blast
  have "inv s1" "st_list ops i l s1 = old @ [e]"
    using append_new [OF Cons.prems(1) here [symmetric] ap] Cons.prems(4) by simp_all
  from Cons.IH [OF this] Cons.prems(3,4) have "\<exists>s'. restore_events ops (Suc (length old)) (e_sequence e) es s1 = (Inr (), s')
      \<and> inv s' \<and> st_list ops i l s' = old @ e # es" by (simp add: seq)
  then show ?case using ap seq by simp
qed simp

end

section \<open>The whole restore\<close>

context event_store begin

lemma deleted_scope:
  assumes "inv s" "nul \<notin> set i"
  shows "inv (snd (st_delete ops i l s)) \<and> st_list ops i l (snd (st_delete ops i l s)) = []
    \<and> (\<forall>j m. nul \<notin> set j \<longrightarrow> (j, m) \<noteq> (i, l) \<longrightarrow> st_list ops j m (snd (st_delete ops i l s)) = st_list ops j m s)"
proof -
  obtain k s' where d: "st_delete ops i l s = (k, s')" by fastforce
  have "inv s' \<and> st_list ops i l s' = []" using delete_inv [OF assms(1) d] by blast
  moreover have "st_list ops j m s' = st_list ops j m s" if "nul \<notin> set j" "(j, m) \<noteq> (i, l)" for j m
    by (rule delete_frame [OF assms(1) d assms(2) that])
  ultimately show ?thesis using d by simp
qed

lemma restore_outcome:
  assumes s: "inv s" and v: "i = vx_installation v" "l = vx_learner v"
    and run: "restore_verified_export rt ops v s = (res, s')"
  shows "(\<exists>x. res = Inl x \<and> inv s' \<and> (\<forall>j m. nul \<notin> set j \<longrightarrow> st_list ops j m s' = st_list ops j m s))
    \<or> (res = Inr (length (vx_events v)) \<and> inv s' \<and> st_list ops i l s = []
      \<and> map learning_candidate.truncate (st_list ops i l s') = map learning_candidate.truncate (vx_events v)
      \<and> (\<forall>j m. nul \<notin> set j \<longrightarrow> (j, m) \<noteq> (i, l) \<longrightarrow> st_list ops j m s' = st_list ops j m s))"
proof (cases "(\<exists>a. verify_export rt v = Inr a \<and> rv_valid a) \<and> st_list ops i l s = []")
  case False
  then have "\<exists>x. res = Inl x \<and> s' = s"
    using run v by (auto simp: restore_verified_export_def guarded_def split: sum.splits if_splits)
  then show ?thesis using s by blast
next
  case True
  then obtain a where a: "verify_export rt v = Inr a" "rv_valid a" by blast
  have scope: "assert_scope i l (vx_events v) = Inr ()" by (unfold v) (rule verify_export_valid(3) [OF a])
  then have nul: "nul \<notin> set i" and evs: "\<forall>e \<in> set (vx_events v). e_installation e = i \<and> e_learner e = l"
    using assert_scope_ids [OF scope] scope_events_in_scope
    by (auto simp: receipt_not_nul assert_scope_def split: if_splits)
  obtain r1 s1 where go: "restore_events ops 0 0 (vx_events v) s = (r1, s1)" by fastforce
  note kept = restore_events_scope [OF s go nul evs]
  note gone = deleted_scope [of s1 i l, OF _ nul]
  have whole: "(res, s') = (case r1 of Inl x \<Rightarrow> (Inl x, snd (st_delete ops i l s1)) | Inr _ \<Rightarrow>
      (case assert_restored rt (vx_events v) (st_list ops i l s1) of
         Inl x \<Rightarrow> (Inl x, snd (st_delete ops i l s1)) | Inr _ \<Rightarrow> (Inr (length (st_list ops i l s1)), s1)))"
    using run a True go v by (auto simp: restore_verified_export_def Let_def split: sum.splits)
  show ?thesis
  proof (cases r1)
    case (Inl x)
    then show ?thesis using whole kept gone True by auto metis
  next
    case (Inr u)
    then have stored: "map learning_candidate.truncate (st_list ops i l s1) = map learning_candidate.truncate (vx_events v)"
      using restore_events_stores [OF s go [unfolded Inr] evs] True by simp
    moreover from this have "length (st_list ops i l s1) = length (vx_events v)" by (rule map_eq_imp_length_eq)
    ultimately have "res = Inr (length (vx_events v)) \<and> s' = s1" using whole Inr by (simp add: compare_restored_ok)
    then show ?thesis using kept stored True by blast
  qed
qed

end


end
