(* ===== verification/Recovery_Theorems.thy ===== *)
theory Recovery_Theorems
  imports Recovery
begin

text \<open>
  The theorems about exports and their restore on the in-memory store: a stream survives backup and restore unchanged, and a
  restore that throws changes no stream.
\<close>

section \<open>A sound stream can be exported\<close>

lemma scope_events_numbered:
  "map e_sequence es = map int [Suc k ..< Suc (k + length es)] \<Longrightarrow> k + length es < 2 ^ 32 \<Longrightarrow>
    (\<forall>e \<in> set es. e_installation e = i \<and> e_learner e = l) \<Longrightarrow> scope_events i l (int k) es = Inr ()"
proof (induction es arbitrary: k)
  case (Cons e es)
  have "map e_sequence (e # es) = int (Suc k) # map int [Suc (Suc k) ..< Suc (k + length (e # es))]"
    unfolding Cons.prems(1) by (simp add: upt_rec [of "Suc k"] del: upt_Suc)
  then have e: "e_sequence e = int (Suc k)" and es: "map e_sequence es = map int [Suc (Suc k) ..< Suc (Suc k + length es)]"
    by (simp_all del: upt_Suc)
  have "scope_events i l (int (Suc k)) es = Inr ()"
    by (rule Cons.IH [OF es]) (use Cons.prems(2,3) in simp_all)
  moreover have "safe_integer (Fin (of_int (e_sequence e)))"
  proof -
    have "(of_nat (Suc k) :: rat) \<le> of_nat (2 ^ 32)" using Cons.prems(2) by (intro of_nat_mono) simp
    then show ?thesis by (simp add: e)
  qed
  ultimately show ?case using Cons.prems(3) by (simp add: e)
qed simp

lemma sound_stream_exported:
  assumes "memory_inv st" "receipt_identifier i" "receipt_identifier l" "length (memory_list i l st) < 2 ^ 32"
  shows "assert_scope i l (memory_list i l st) = Inr ()" and "stream_inv (scope_key i l) (memory_list i l st)"
    and "\<forall>e \<in> set (memory_list i l st). e_installation e = i \<and> e_learner e = l"
proof -
  show s: "stream_inv (scope_key i l) (memory_list i l st)"
    using assms(1) by (simp add: memory_list_stored memory_inv_def)
  show sc: "\<forall>e \<in> set (memory_list i l st). e_installation e = i \<and> e_learner e = l"
    using memory.list_scope [OF assms(1) receipt_not_nul [OF assms(2)]] by (simp add: memory_ops_def)
  have "scope_events i l (int 0) (memory_list i l st) = Inr ()"
    by (rule scope_events_numbered [OF _ _ sc]) (use s assms(4) in \<open>simp_all add: stream_inv_def\<close>)
  then show "assert_scope i l (memory_list i l st) = Inr ()" using assms(2,3) by (simp add: assert_scope_def)
qed

section \<open>Backup and restore\<close>

text \<open>
  C13. A learner's stream survives backup and restore: for a sound store and a scope that receipts accept, the export is
  issued, and restoring it into a sound store where the scope is empty returns the number of events and leaves exactly the
  exported stream there, numbers included, with every other stream as it was.
\<close>

theorem backup_restores:
  assumes sound: "memory_inv st" "memory_inv st'" and ids: "receipt_identifier i" "receipt_identifier l"
    and t: "parses_timestamp t" and sha: "sha256_format rt"
    and small: "length (memory_list i l st) < 2 ^ 32" and target: "memory_list i l st' = []"
  shows "\<exists>v st''. create_export rt i l (memory_list i l st) t = Inr v
    \<and> restore_verified_export rt (memory_ops rt) v st' = (Inr (length (memory_list i l st)), st'')
    \<and> memory_list i l st'' = memory_list i l st \<and> memory_inv st''
    \<and> (\<forall>j m. nul \<notin> set j \<longrightarrow> (j, m) \<noteq> (i, l) \<longrightarrow> memory_list j m st'' = memory_list j m st')"
proof -
  let ?es = "memory_list i l st"
  note ok = sound_stream_exported [OF sound(1) ids small]
  obtain v where v: "create_export rt i l ?es t = Inr v" using ok(1) t by (simp add: create_export_Inr)
  then have sel: "vx_installation v = i" "vx_learner v = l" "vx_events v = ?es" by (simp_all add: create_export_Inr)
  note valid = created_export_verifies [OF sha small v]
  have empty: "st_list (memory_ops rt) i l st' = []" using target by (simp add: memory_ops_def)
  obtain st'' where go: "restore_events (memory_ops rt) 0 0 ?es st' = (Inr (), st'')" "memory_inv st''"
    "st_list (memory_ops rt) i l st'' = ?es"
    using memory.restore_events_exact [OF sound(2) empty, of "scope_key i l" ?es] ok(2,3) by auto
  have run: "restore_verified_export rt (memory_ops rt) v st' = (Inr (length ?es), st'')"
    using valid empty go by (simp add: restore_verified_export_def sel compare_restored_ok)
  have "st_list (memory_ops rt) j m st'' = st_list (memory_ops rt) j m st'" if "nul \<notin> set j" "(j, m) \<noteq> (i, l)" for j m
    using memory.restore_events_scope [OF sound(2) go(1) receipt_not_nul [OF ids(1)] ok(3)] that by blast
  then show ?thesis using v run go(2,3) by (auto simp: memory_ops_def)
qed

theorem backup_restores_witness:
  "\<exists>v st''. create_export sample_runtime ''school-1'' ''learner-1'' [sample_event 1 enroll_payload] ''2026-03-01T10:00:00Z'' = Inr v
    \<and> restore_verified_export sample_runtime (memory_ops sample_runtime) v (\<lambda>_. None) = (Inr 1, st'')
    \<and> memory_list ''school-1'' ''learner-1'' st'' = [sample_event 1 enroll_payload]"
proof -
  have "receipt_identifier ''school-1''" "receipt_identifier ''learner-1''" "parses_timestamp ''2026-03-01T10:00:00Z''"
    by code_simp+
  moreover have "memory_list ''school-1'' ''learner-1'' (\<lambda>_. None) = []" by (simp add: memory_list_def stored_def js_sort_def)
  moreover have "memory_inv sample_store" using sample_store_ok [of sample_runtime] by (simp add: engine_inv_def)
  moreover have "memory_list ''school-1'' ''learner-1'' sample_store = [sample_event 1 enroll_payload]"
    by (simp only: sample_store_list)
  ultimately show ?thesis
    using backup_restores [of sample_store "\<lambda>_. None" "''school-1''" "''learner-1''" "''2026-03-01T10:00:00Z''" sample_runtime]
      memory_inv_empty sample_sha by auto
qed

text \<open>
  C14. A restore is all or nothing, whatever the export and the target: when it throws (an invalid export, a target that is
  not empty, a refused or replayed append) every stream is as it was and the store is sound; otherwise the target was empty,
  the export's events are stored in their order, each as it was but for its number, and no other stream changed.
\<close>

theorem restore_all_or_nothing:
  assumes "memory_inv st" and "restore_verified_export rt (memory_ops rt) v st = (res, st')"
  shows "memory_inv st' \<and>
    ((\<exists>x. res = Inl x) \<and> (\<forall>j m. nul \<notin> set j \<longrightarrow> memory_list j m st' = memory_list j m st)
    \<or> res = Inr (length (vx_events v)) \<and> memory_list (vx_installation v) (vx_learner v) st = []
      \<and> map learning_candidate.truncate (memory_list (vx_installation v) (vx_learner v) st')
        = map learning_candidate.truncate (vx_events v)
      \<and> (\<forall>j m. nul \<notin> set j \<longrightarrow> (j, m) \<noteq> (vx_installation v, vx_learner v) \<longrightarrow>
          memory_list j m st' = memory_list j m st))"
  using memory.restore_outcome [OF assms(1) refl refl assms(2)] by (auto simp: memory_ops_def)

theorem restore_all_or_nothing_witness:
  "\<exists>x st'. restore_verified_export sample_runtime (memory_ops sample_runtime) (sample_export ''learner-01''\<lparr>vx_schema := ''2.0''\<rparr>) sample_store
      = (Inl x, st') \<and> memory_list ''school-1'' ''learner-1'' st' = memory_list ''school-1'' ''learner-1'' sample_store"
proof -
  let ?v = "sample_export ''learner-01''\<lparr>vx_schema := ''2.0''\<rparr>"
  obtain res st' where run: "restore_verified_export sample_runtime (memory_ops sample_runtime) ?v sample_store = (res, st')"
    by fastforce
  have "verify_export sample_runtime ?v = Inr a \<Longrightarrow> \<not> rv_valid a" for a
    by (auto simp: verify_export_def bind_result_eq_Inr Let_def)
  then have "isl res" using run
    by (auto simp: restore_verified_export_def guarded_def split: sum.splits if_splits)
  moreover have "memory_inv sample_store" using sample_store_ok [of sample_runtime] by (simp add: engine_inv_def)
  moreover have "nul \<notin> set ''school-1''" by code_simp
  ultimately show ?thesis using restore_all_or_nothing [OF _ run] run by (cases res) auto
qed

text \<open>What a measured recovery met.\<close>

lemma measured_recovery:
  assumes "measure_recovery rt m = Inr (p, q)"
  shows "\<exists>a b c d. date_parse (rm_captured m) = Some a \<and> date_parse (rm_current m) = Some b
    \<and> date_parse (rm_started m) = Some c \<and> date_parse (rm_completed m) = Some d \<and> a \<le> b \<and> b \<le> c \<and> c \<le> d
    \<and> p = num_div (Fin (of_int (b - a))) (Fin 1000) \<and> q = num_div (Fin (of_int (d - c))) (Fin 1000)
    \<and> \<not> num_less (rm_max_point m) p \<and> \<not> num_less (rm_max_time m) q"
  using assms
  by (auto simp: measure_recovery_def bind_result_eq_Inr recovery_timestamp_def elapsed_seconds_def parses_timestamp_def
      simp del: num_div.simps split: if_splits)

end
