(* ===== verification/Spec2Isabelle.thy ===== *)
theory Spec2Isabelle
  imports Merge_Samples Policy_Theorems Service_Theorems Credit_Samples Session_Samples Badge_Samples Portable_Theorems Transcript_Csv Projection_Theorems Engine_Theorems Catalog_Theorems Contract_Theorems Account_Theorems
    Provisioning_Theorems Recovery_Theorems
begin

text \<open>
  A verification development of the core of the Project 42 platform (\<open>src/src/*.ts\<close>).

  \<^bold>\<open>The program.\<close> The platform stores what learners do as an append-only stream of learning events, one stream for each learner
  of an installation. \<open>learning-events.ts\<close> is the contract of commands and events, \<open>learning-event-engine.ts\<close> authorises a
  command, appends its event to a store with an optimistic revision check, and projects a stream to the learner's record, badges
  and transcript. \<open>learning-record-receipts.ts\<close> and \<open>learning-record-recovery.ts\<close> export, delete and restore streams with digests.
  \<open>schema.ts\<close> validates the catalogue of paths and modules; \<open>progress.ts\<close> and \<open>assessment.ts\<close> keep the record of a learner in the browser,
  score it, merge it and decide what to send and to keep; \<open>portable-record.ts\<close> and \<open>authoritative-transcript-csv.ts\<close> carry records
  and transcripts out and back. \<open>badge-credentials.ts\<close> projects badge lifecycle events to credentials. \<open>identity.ts\<close> and
  \<open>authorization.ts\<close> are the account states and who may do what; \<open>identity-provisioning.ts\<close> and
  \<open>identity-provisioning-engine.ts\<close> register OIDC clients at an identity provider; \<open>browser-session.ts\<close> and \<open>admin-pagination.ts\<close> seal the
  sign-in transaction and the page cursors. The HTTP worker, the SQL stores and the web
  portal call these modules; \<open>worker.ts\<close> itself decides the merge of two accounts.

  \<^bold>\<open>The theories.\<close>
  \<^item> The language. \<open>Js_Prelude\<close>: results, sorting, insertion-ordered maps, texts, collections of lemmas. \<open>Js_Json\<close>: untyped values,
    coercions, \<open>JSON.stringify\<close> and the sorted text of a value. \<open>Js_Number\<close>, \<open>Js_Arith\<close>, \<open>Js_Whole\<close>: numbers, rounding to double precision,
    comparison, whole numbers. \<open>Js_Time\<close>: timestamps. \<open>Js_Guards\<close>: the tests the validators share. \<open>Bytes_Text\<close>: bytes,
    UTF-8, base64.
  \<^item> Learning events. \<open>Learning_Events\<close> is the contract (\<open>validate_command\<close>, \<open>validate_event\<close>, \<open>build_event\<close> ...), \<open>Learning_Store\<close> the
    interface \<open>LearningEventStore\<close> as a locale and the in-memory store, which interprets it, \<open>Learning_Engine\<close> the class
    \<open>LearningEventEngine\<close>, \<open>Learning_Projection\<close> the function \<open>projectLearningEvents\<close>. \<open>Contract_Theorems\<close>: the validators decide
    well-formedness. \<open>Engine_Theorems\<close>: the store invariant, when a command succeeds, what it appends, retries, errors, interference.
    \<open>Projection_Laws\<close> and \<open>Projection_Theorems\<close>: which streams are accepted and what the projection is, declaratively.
  \<^item> Receipts and recovery. \<open>Receipts\<close>, \<open>Receipts_Theorems\<close>, \<open>Recovery\<close>, \<open>Recovery_Theorems\<close>: what is issued verifies, changed
    exports do not, a backup restores, a failed restore leaves nothing.
  \<^item> The catalogue. \<open>Catalog\<close> (data), \<open>Catalog_Check\<close> (\<open>validateCatalog\<close>), \<open>Catalog_Valid\<close> (what it accepts), \<open>Catalog_Cycles\<close> (the
    prerequisite walk), \<open>Catalog_Theorems\<close>: what is accepted, that the walk ends, that paths can be finished by answers that are
    scored (\<open>scoreKnowledgeCheck\<close>) as the page \<open>KnowledgeCheck.tsx\<close> scores and records them, and only by right ones.
  \<^item> The learner record. \<open>Learner_Progress\<close> (data), \<open>Progress_Record\<close> (operations), \<open>Progress_Recording\<close> (reachable records),
    \<open>Progress_Merge\<close>, \<open>Progress_Compare\<close>, \<open>Progress_Theorems\<close>, \<open>Progress_Samples\<close>: merging and the sync plans lose nothing, the comparison is
    equality, every recorded record is sound. \<open>Portable_Record\<close>, \<open>Portable_Theorems\<close>, \<open>Transcript_Csv\<close>: export, restore, CSV.
  \<^item> Badges. \<open>Badge_Contract\<close> (validators), \<open>Badge_Lifecycle\<close> (the projection), \<open>Badge_Theorems\<close>, \<open>Badge_Samples\<close>.
  \<^item> Contributor credit. \<open>Contributor_Credit\<close> (\<open>contributor-credit.ts\<close>), \<open>Credit_Theorems\<close>, \<open>Credit_Samples\<close>: which packages are
    accepted, what the public export withholds.
  \<^item> Accounts. \<open>Account_Access\<close>, \<open>Account_Theorems\<close>: the account state machine, verified e-mail domains, authorisation.
  \<^item> Account merge. \<open>Account_Merge\<close> is the merge of two accounts in \<open>worker.ts\<close>: the snapshot of their rows
    (\<open>captureMergeSnapshot\<close>), the conflicts and policy blocks of a preview, the guards and selected values of \<open>completeAccountMerge\<close>, and
    the stored chunks. \<open>Merge_Theorems\<close>, \<open>Merge_Samples\<close>: when a merge completes, that no value is lost without a choice, that the
    stored snapshot reads back.
  \<^item> Policies and services. \<open>Learner_Data_Policy\<close> (\<open>learner-data-policy.ts\<close>, \<open>account-merge-policy.ts\<close>), \<open>Policy_Theorems\<close>;
    \<open>Account_Services\<close> (\<open>account-notifications.ts\<close>, \<open>auth-abuse-limiter.ts\<close>, \<open>learning-record-adapter.ts\<close>), \<open>Service_Theorems\<close>.
  \<^item> Identity provisioning. \<open>Provisioning_Contract\<close> (data), \<open>Provisioning_Check\<close> (validators, drift, readiness), \<open>Provisioning_Store\<close> (the store
    interface as a locale and the in-memory store), \<open>Provisioning_Engine\<close> (the engine over any store and adapter), \<open>Provisioning_Valid\<close>,
    \<open>Provisioning_Laws\<close> (weakest preconditions, rely and guarantee), \<open>Provisioning_Theorems\<close>, \<open>Provisioning_Samples\<close>.
  \<^item> Sessions. \<open>Admin_Cursor\<close>, \<open>Browser_Session\<close>, \<open>Session_Theorems\<close>, \<open>Session_Samples\<close>.

  \<^bold>\<open>Conventions.\<close> A class or interface is a record whose fields have a short prefix, a union a datatype, a thrown error the left
  side of a \<open>result\<close>, a validator the list of its messages. Untrusted values have type \<open>json\<close>; a reader takes their
  members. A store is a state passed along; the operations of an asynchronous class are steps between which an adversary may
  write (the interference parameters of the engines). Texts are lists of code units below 256, and a message that has a dash outside them is
  written with a hyphen. Numbers are exact values rounded to double precision where the code divides or multiplies, with an
  unbounded exponent and without a signed zero. Arrays are shorter than \<open>2 ^ 32\<close>. Fields that a type does not declare are
  kept where the code copies them. The order of the keys of an event is not modelled.

  \<^bold>\<open>Other writers.\<close> They act at the points named here and nowhere else. In the event engine, between listing a stream and
  appending to it, and before the final list. In the provisioning engine, while the adapter is awaited. A restore and a merge run alone.

  Parameters stand for the host and for what the code is given: the collation of \<open>localeCompare\<close>, SHA-256, the text of a number, the URL
  parser, WebCrypto, \<open>JSON.parse\<close>, \<open>Date.parse\<close> outside the timestamps of the contract, clocks, sources of identifiers, the provisioning
  adapter, what other writers do meanwhile. Theorems name what they need of them as hypotheses (a comparator, an injective
  digest or number text on the values at hand, decryption inverting encryption), and a witness meets them with concrete
  functions.

  \<^bold>\<open>Bounds.\<close> An append is tried at most five times, as in the code; the theorem on a fresh command says what the last attempt
  gives. The prerequisite walk is given as its depth one more than the number of modules, and \<open>prerequisite_walk_ends\<close> proves
  that this is enough for every catalogue. All other loops are structural recursions or shorten a list.

  \<^bold>\<open>Not modelled.\<close> \<open>worker.ts\<close> outside the account merge (and of the merge the statements that write it, the audit entry of a denied
  one, the verified flag of the e-mail address, the merged progress, its promotion on a replay, and the rollback), the SQL event store, the page queries and the delivery queue of notifications are HTTP routing and SQL statements, whose meaning is the
  database's. The Keycloak adapter is HTTP calls to a provider; the engine sees it as a parameter. The conformance files are test suites. The
  backup and drill procedures of \<open>learning-record-recovery.ts\<close> walk files and processes; its restore, its policy and its measurements are modelled. The
  content pipeline, the command line, self-hosting and the portal's components read and write files and documents around the
  modules above.
\<close>

end
